(* ===== verification/Svmm_Prelude.thy ===== *)
theory Svmm_Prelude
  imports Main "HOL-Library.Word"
begin

text \<open>
  Shared vocabulary of the SVMM development: the Windows integer types as machine words,
  the outcome type of C code that may call \<open>exit(-1)\<close> or run into undefined behaviour,
  a small specification calculus for such outcomes, and the generic facts on words, lists
  and loops that the component theories use.
\<close>

unbundle bit_operations_syntax

section \<open>Integer types\<close>

type_synonym BYTE = "8 word"
type_synonym USHORT = "16 word"
type_synonym ULONG = "32 word"
type_synonym DWORD = "32 word"
type_synonym ULONG64 = "64 word"

section \<open>Outcomes of C code\<close>

text \<open>
  \<open>Exit\<close> is a call of \<open>exit(-1)\<close>, which ends the whole virtual machine. The other errors
  are the undefined behaviours the source can run into: an access outside an array (or
  through a pointer that was never set), a call of a null function pointer, a division by
  zero, and a shift by at least the width of the promoted operand. \<open>Hang\<close> stands for a loop that does not end.
\<close>

datatype svmm_error = Exit | OutOfBounds | NullCall | DivByZero | BadShift | Hang

type_synonym 'a res = "svmm_error + 'a"

definition bindE :: "'a res \<Rightarrow> ('a \<Rightarrow> 'b res) \<Rightarrow> 'b res" where
  "bindE m f = (case m of Inl e \<Rightarrow> Inl e | Inr x \<Rightarrow> f x)"

fun foldE :: "('i \<Rightarrow> 's \<Rightarrow> 's res) \<Rightarrow> 'i list \<Rightarrow> 's \<Rightarrow> 's res" where
  "foldE f [] s = Inr s"
| "foldE f (i # is) s = bindE (f i s) (foldE f is)"

text \<open>Bounds-checked access to a C array that is modelled as a list.\<close>

definition arr_get :: "'a list \<Rightarrow> nat \<Rightarrow> 'a res" where
  "arr_get xs i = (if i < length xs then Inr (xs ! i) else Inl OutOfBounds)"

definition arr_set :: "'a list \<Rightarrow> nat \<Rightarrow> 'a \<Rightarrow> 'a list res" where
  "arr_set xs i v = (if i < length xs then Inr (xs[i := v]) else Inl OutOfBounds)"

text \<open>
  \<open>specE E P m\<close>: the outcome \<open>m\<close> is either an error of \<open>E\<close> or a result that satisfies \<open>P\<close>.
  With \<open>E = {}\<close> it says that the code returns.
\<close>

definition specE :: "svmm_error set \<Rightarrow> ('a \<Rightarrow> bool) \<Rightarrow> 'a res \<Rightarrow> bool" where
  "specE E P m \<longleftrightarrow> (case m of Inl e \<Rightarrow> e \<in> E | Inr x \<Rightarrow> P x)"

text \<open>A test of a C expression \<open>x & m\<close> as a condition, and the mask \<open>1 << n\<close>.\<close>

definition testw :: "'a::len word \<Rightarrow> 'a word \<Rightarrow> bool" where
  "testw x m \<longleftrightarrow> x AND m \<noteq> 0"

definition lsh1 :: "nat \<Rightarrow> 'a::len word" where
  "lsh1 n = push_bit n 1"

text \<open>C's truth values: \<open>!x\<close> and comparisons yield 0 or 1.\<close>

definition b2w :: "bool \<Rightarrow> 'a::len word" where
  "b2w b = (if b then 1 else 0)"

named_theorems specE_rules \<open>introduction rules for outcomes\<close>
named_theorems wf_simps \<open>well-formedness of the machine's arrays\<close>
named_theorems frame \<open>components an operation leaves unchanged\<close>

section \<open>Outcomes\<close>

lemma bindE_simps [simp]:
  "bindE (Inl e) f = Inl e"
  "bindE (Inr x) f = f x"
  by (simp_all add: bindE_def)

lemma bindE_assoc: "bindE (bindE m f) g = bindE m (\<lambda>x. bindE (f x) g)"
  by (cases m) simp_all

lemma bindE_Inr [simp]: "bindE m Inr = m"
  by (cases m) simp_all

lemma bindE_eq_Inr_iff: "bindE m f = Inr y \<longleftrightarrow> (\<exists>x. m = Inr x \<and> f x = Inr y)"
  by (cases m) auto

lemma foldE_append: "foldE f (xs @ ys) s = bindE (foldE f xs s) (foldE f ys)"
proof (induction xs arbitrary: s)
  case Nil
  show ?case by simp
next
  case (Cons x xs)
  show ?case by (cases "f x s") (simp_all add: Cons.IH)
qed

lemma foldE_skip: "(\<And>i. i \<in> set is \<Longrightarrow> f i s = Inr s) \<Longrightarrow> foldE f is s = Inr s"
  by (induction "is") auto

lemma specE_simps [simp]:
  "specE E P (Inl e) \<longleftrightarrow> e \<in> E"
  "specE E P (Inr x) \<longleftrightarrow> P x"
  by (simp_all add: specE_def)

lemma specE_bindI [specE_rules]:
  "specE E P m \<Longrightarrow> (\<And>x. P x \<Longrightarrow> specE E Q (f x)) \<Longrightarrow> specE E Q (bindE m f)"
  by (cases m) auto

lemma specE_mono:
  "specE E P m \<Longrightarrow> E \<subseteq> F \<Longrightarrow> (\<And>x. P x \<Longrightarrow> Q x) \<Longrightarrow> specE F Q m"
  by (cases m) auto

lemma specE_conj: "specE E P m \<Longrightarrow> specE F Q m \<Longrightarrow> specE (E \<inter> F) (\<lambda>x. P x \<and> Q x) m"
  by (cases m) auto

lemma specE_InrD: "specE E P m \<Longrightarrow> m = Inr x \<Longrightarrow> P x"
  by simp

lemma specE_total: "specE {} P m \<longleftrightarrow> (\<exists>x. m = Inr x \<and> P x)"
  by (cases m) auto

lemma specE_foldI:
  assumes "P s" and "\<And>i t. i \<in> set is \<Longrightarrow> P t \<Longrightarrow> specE E P (f i t)"
  shows "specE E P (foldE f is s)"
  using assms
proof (induction "is" arbitrary: s)
  case Nil
  then show ?case by simp
next
  case (Cons i "is")
  have "specE E P (f i s)" using Cons.prems by simp
  moreover have "specE E P (foldE f is t)" if "P t" for t
    using that Cons.prems(2) by (intro Cons.IH) auto
  ultimately show ?case by (simp add: specE_bindI)
qed

lemma specE_bind_any:
  "(\<And>x. m = Inr x \<Longrightarrow> specE UNIV Q (f x)) \<Longrightarrow> specE UNIV Q (bindE m f)"
  by (cases m) auto

lemma specE_total_any: "specE {} P m \<Longrightarrow> specE E P m"
  by (rule specE_mono) auto

lemma specE_UNIV: "specE E P m \<Longrightarrow> specE UNIV P m"
  by (rule specE_mono) auto

lemma specE_if:
  "(b \<Longrightarrow> specE E P m) \<Longrightarrow> (\<not> b \<Longrightarrow> specE E P n) \<Longrightarrow> specE E P (if b then m else n)"
  by simp

text \<open>The same without the conditions, for long chains of cases.\<close>

lemma specE_if_both: "specE E P m \<Longrightarrow> specE E P n \<Longrightarrow> specE E P (if b then m else n)"
  by simp

lemma arr_get_simps [simp]:
  "i < length xs \<Longrightarrow> arr_get xs i = Inr (xs ! i)"
  "length xs \<le> i \<Longrightarrow> arr_get xs i = Inl OutOfBounds"
  by (simp_all add: arr_get_def)

lemma arr_set_simps [simp]:
  "i < length xs \<Longrightarrow> arr_set xs i v = Inr (xs[i := v])"
  "length xs \<le> i \<Longrightarrow> arr_set xs i v = Inl OutOfBounds"
  by (simp_all add: arr_set_def)

lemma find_Some_set: "find P xs = Some x \<Longrightarrow> x \<in> set xs \<and> P x"
  by (induction xs) (auto split: if_splits)

section \<open>Words\<close>

lemma testw_lsh1 [simp]: "testw x (lsh1 n) \<longleftrightarrow> bit x n"
  by (simp add: testw_def lsh1_def push_bit_eq_mult and_exp_eq_0_iff_not_bit)

lemma bit_lsh1 [simp]: "bit (lsh1 n :: 'a::len word) k \<longleftrightarrow> n = k \<and> n < LENGTH('a)"
  by (auto simp: lsh1_def push_bit_eq_mult bit_exp_iff)

lemma testw_or: "testw x (a OR b) \<longleftrightarrow> testw x a \<or> testw x b"
  by (auto simp: testw_def bit_eq_iff bit_simps)

lemma bit_set_lsh1:
  "bit (x OR lsh1 n :: 'a::len word) k \<longleftrightarrow> bit x k \<or> (n = k \<and> n < LENGTH('a))"
  by (simp add: bit_or_iff)

lemma bit_clear_lsh1:
  "bit (x AND NOT (lsh1 n) :: 'a::len word) k \<longleftrightarrow> bit x k \<and> n \<noteq> k"
  by (auto simp: bit_and_iff bit_not_iff dest: bit_imp_le_length)

lemma unat_ucast_up:
  "LENGTH('a::len) \<le> LENGTH('b::len) \<Longrightarrow> unat (ucast (c :: 'a word) :: 'b word) = unat c"
  by (metis bintr_uint uint_word_of_int_eq ucast_eq unat_eq_nat_uint)

lemma unat_take_bit: "unat (take_bit n a) = unat (a :: 'a::len word) mod 2 ^ n"
  by (metis take_bit_eq_mod unsigned_take_bit_eq)

lemma unat_ucast_mod: "unat (ucast (c :: 'a::len word) :: 'b::len word) = unat c mod 2 ^ LENGTH('b)"
  by (simp add: unsigned_ucast_eq take_bit_eq_mod)

lemma ucast_ULONG64_ULONG [simp]: "ucast (ucast (v :: ULONG) :: ULONG64) = v"
  by (rule bit_word_eqI) (simp add: bit_simps)

lemma ucast_ULONG_BYTE [simp]: "ucast (ucast (v :: BYTE) :: ULONG) = v"
  by (rule bit_word_eqI) (auto simp: bit_simps)

lemma ucast_of_nat_ULONG: "ucast (of_nat n :: ULONG64) = (of_nat n :: ULONG)"
  by (rule bit_word_eqI) (simp add: bit_simps)

lemma b2w_simps [simp]:
  "b2w b = (0 :: 'a::len word) \<longleftrightarrow> \<not> b"
  "(0 :: 'a::len word) = b2w b \<longleftrightarrow> \<not> b"
  "b2w True = (1 :: 'a::len word)"
  "b2w False = (0 :: 'a::len word)"
  by (simp_all add: b2w_def)

lemma unat_BYTE_less: "unat (v :: BYTE) < 256"
  by (rule order_less_le_trans [OF unsigned_less]) simp

lemma unat_ULONG_less: "unat (v :: ULONG) < 4294967296"
  by (rule order_less_le_trans [OF unsigned_less]) simp

lemma bit_imp_ge: "bit (x :: 'a::len word) n \<Longrightarrow> 2 ^ n \<le> unat x"
proof (rule ccontr)
  assume b: "bit x n" and "\<not> 2 ^ n \<le> unat x"
  then have "unat x div 2 ^ n = 0" by simp
  moreover have "bit (unat x) n" using b by (simp add: bit_unsigned_iff bit_imp_le_length)
  ultimately show False by (simp add: bit_iff_odd)
qed

lemma word_bit_exists: "w \<noteq> (0 :: 'a::len word) \<Longrightarrow> \<exists>j < LENGTH('a). bit w j"
  by (auto simp: bit_eq_iff dest: bit_imp_le_length)

lemma ULONG64_succ: "y < y + 1 \<or> y + 1 = (0 :: ULONG64)"
proof (cases "unat y + 1 < 2 ^ 64")
  case True
  then have "unat (y + 1) = unat y + 1" by (simp add: unat_word_ariths)
  then show ?thesis by (simp add: word_less_nat_alt)
next
  case False
  moreover have "unat y < 2 ^ 64" by (rule order_less_le_trans [OF unsigned_less]) simp
  ultimately have "unat y + 1 = 2 ^ 64" by linarith
  then have "unat (y + 1) = 0" by (simp add: unat_word_ariths)
  then have "y + 1 = 0" by (simp only: unat_eq_zero)
  then show ?thesis by blast
qed

lemma sint_small: "unat (w :: DWORD) < 256 \<Longrightarrow> sint w = int (unat w)"
proof -
  assume "unat w < 256"
  then have u: "uint w < 256" unfolding uint_nat by linarith
  have "- (2 ^ 31) \<le> uint w" by (rule order_trans [of _ 0]) simp_all
  moreover have "uint w < 2 ^ 31" using u by (rule order_less_trans) simp
  ultimately have "signed_take_bit 31 (uint w) = uint w" by (rule signed_take_bit_int_eq_self)
  then show ?thesis using u by (simp add: sint_uint)
qed

section \<open>Arithmetic\<close>

lemma div_mod_le:
  "(v::nat) div n < h div n \<or> v div n = h div n \<and> v mod n \<le> h mod n \<Longrightarrow> v \<le> h"
proof (elim disjE conjE)
  assume "v div n < h div n"
  then show ?thesis by (meson div_le_mono linorder_not_le order.strict_implies_order)
next
  assume "v div n = h div n" "v mod n \<le> h mod n"
  then show ?thesis using div_mult_mod_eq [of v n] div_mult_mod_eq [of h n] by (metis add_le_cancel_left)
qed

end
