(* ===== verification/Bitmap.thy ===== *)
theory Bitmap
  imports Svmm_Prelude
begin

text \<open>
  The bitmap of \<open>bitmap.c\<close>: a header that points at an array of 32-bit words, with set,
  clear and test of one bit. \<open>BitTestAndSet\<close> and its companions address the bit relative to
  the base pointer without a bounds check, so an access beyond the words of the buffer is
  undefined; the model returns \<open>OutOfBounds\<close> there. The interface the port and MMIO tables
  rely on is the locale \<open>bit_registry\<close>.
\<close>

section \<open>Definitions\<close>

record RTL_BITMAP =
  SizeOfBitMap :: ULONG
  BitBuffer :: "ULONG list"

definition RtlInitializeBitMap :: "ULONG list \<Rightarrow> ULONG \<Rightarrow> RTL_BITMAP" where
  "RtlInitializeBitMap buf sz = \<lparr>SizeOfBitMap = sz, BitBuffer = buf\<rparr>"

definition RtlClearBit :: "RTL_BITMAP \<Rightarrow> ULONG \<Rightarrow> RTL_BITMAP res" where
  "RtlClearBit bm n =
     bindE (arr_get (BitBuffer bm) (unat n div 32)) (\<lambda>w.
     bindE (arr_set (BitBuffer bm) (unat n div 32) (w AND NOT (lsh1 (unat n mod 32)))) (\<lambda>buf.
     Inr (bm\<lparr>BitBuffer := buf\<rparr>)))"

definition RtlSetBit :: "RTL_BITMAP \<Rightarrow> ULONG \<Rightarrow> RTL_BITMAP res" where
  "RtlSetBit bm n =
     bindE (arr_get (BitBuffer bm) (unat n div 32)) (\<lambda>w.
     bindE (arr_set (BitBuffer bm) (unat n div 32) (w OR lsh1 (unat n mod 32))) (\<lambda>buf.
     Inr (bm\<lparr>BitBuffer := buf\<rparr>)))"

definition RtlTestBit :: "RTL_BITMAP \<Rightarrow> ULONG \<Rightarrow> bool res" where
  "RtlTestBit bm n =
     bindE (arr_get (BitBuffer bm) (unat n div 32)) (\<lambda>w. Inr (testw w (lsh1 (unat n mod 32))))"

text \<open>The bits the buffer really holds.\<close>

definition bm_valid :: "RTL_BITMAP \<Rightarrow> ULONG \<Rightarrow> bool" where
  "bm_valid bm n \<longleftrightarrow> unat n < 32 * length (BitBuffer bm)"

section \<open>The interface\<close>

locale bit_registry =
  fixes tst :: "'b \<Rightarrow> ULONG \<Rightarrow> bool res"
    and st :: "'b \<Rightarrow> ULONG \<Rightarrow> 'b res"
    and clr :: "'b \<Rightarrow> ULONG \<Rightarrow> 'b res"
    and valid :: "'b \<Rightarrow> ULONG \<Rightarrow> bool"
  assumes test_valid: "(\<exists>v. tst b n = Inr v) \<longleftrightarrow> valid b n"
    and test_invalid: "\<not> valid b n \<Longrightarrow> tst b n = Inl OutOfBounds"
    and set_valid: "valid b n \<Longrightarrow> \<exists>b'. st b n = Inr b'"
    and set_invalid: "\<not> valid b n \<Longrightarrow> st b n = Inl OutOfBounds"
    and clear_valid: "valid b n \<Longrightarrow> \<exists>b'. clr b n = Inr b'"
    and clear_invalid: "\<not> valid b n \<Longrightarrow> clr b n = Inl OutOfBounds"
    and valid_set: "st b n = Inr b' \<Longrightarrow> valid b' m = valid b m"
    and valid_clear: "clr b n = Inr b' \<Longrightarrow> valid b' m = valid b m"
    and test_set: "st b n = Inr b' \<Longrightarrow> tst b' m = (if m = n then Inr True else tst b m)"
    and test_clear: "clr b n = Inr b' \<Longrightarrow> tst b' m = (if m = n then Inr False else tst b m)"
begin

lemma set_then_clear:
  assumes "tst b n = Inr False" and "st b n = Inr b'" and "clr b' n = Inr b''"
  shows "tst b'' m = tst b m"
  using assms by (auto simp: test_set test_clear)

lemma set_all:
  assumes "\<And>n. n \<in> set ns \<Longrightarrow> valid b n"
  shows "specE {} (\<lambda>b'. \<forall>m. tst b' m = (if m \<in> set ns then Inr True else tst b m))
           (foldE (\<lambda>n b. st b n) ns b)"
  using assms
proof (induction ns arbitrary: b)
  case Nil
  then show ?case by simp
next
  case (Cons n ns)
  obtain b' where b': "st b n = Inr b'" using Cons.prems set_valid by fastforce
  have "\<And>m. m \<in> set ns \<Longrightarrow> valid b' m" using Cons.prems valid_set [OF b'] by simp
  from Cons.IH [OF this] obtain b'' where
    "foldE (\<lambda>n b. st b n) ns b' = Inr b''"
    "\<forall>m. tst b'' m = (if m \<in> set ns then Inr True else tst b' m)"
    by (auto simp: specE_total)
  then show ?case using b' test_set [OF b'] by simp
qed

end

section \<open>The bitmap provides it\<close>

lemma bm_valid_index: "bm_valid bm n \<longleftrightarrow> unat n div 32 < length (BitBuffer bm)"
  unfolding bm_valid_def by (simp add: less_mult_imp_div_less div_less_iff_less_mult mult.commute)

lemma RtlTestBit_eq:
  "RtlTestBit bm n = (if bm_valid bm n
     then Inr (bit (BitBuffer bm ! (unat n div 32)) (unat n mod 32)) else Inl OutOfBounds)"
  by (simp add: RtlTestBit_def bm_valid_index)

lemma RtlSetBit_eq:
  "RtlSetBit bm n = (if bm_valid bm n
     then Inr (bm\<lparr>BitBuffer := (BitBuffer bm)[unat n div 32 :=
        BitBuffer bm ! (unat n div 32) OR lsh1 (unat n mod 32)]\<rparr>) else Inl OutOfBounds)"
  by (simp add: RtlSetBit_def bm_valid_index)

lemma RtlClearBit_eq:
  "RtlClearBit bm n = (if bm_valid bm n
     then Inr (bm\<lparr>BitBuffer := (BitBuffer bm)[unat n div 32 :=
        BitBuffer bm ! (unat n div 32) AND NOT (lsh1 (unat n mod 32))]\<rparr>) else Inl OutOfBounds)"
  by (simp add: RtlClearBit_def bm_valid_index)

lemma same_bit_iff: "unat n div 32 = unat m div 32 \<and> unat n mod 32 = unat m mod 32 \<longleftrightarrow> n = (m::ULONG)"
  by (metis div_mult_mod_eq unsigned_word_eqI)

lemma RtlTestBit_RtlSetBit:
  assumes "RtlSetBit bm n = Inr bm'"
  shows "RtlTestBit bm' m = (if m = n then Inr True else RtlTestBit bm m)"
proof -
  from assms have v: "bm_valid bm n" and bm': "bm' = bm\<lparr>BitBuffer := (BitBuffer bm)[unat n div 32 :=
        BitBuffer bm ! (unat n div 32) OR lsh1 (unat n mod 32)]\<rparr>"
    by (auto simp: RtlSetBit_eq split: if_splits)
  have "bm_valid bm' m = bm_valid bm m" by (simp add: bm_valid_def bm')
  with v show ?thesis
    using same_bit_iff [of n m]
    by (auto simp: RtlTestBit_eq bm' bm_valid_index nth_list_update bit_or_iff)
qed

lemma RtlTestBit_RtlClearBit:
  assumes "RtlClearBit bm n = Inr bm'"
  shows "RtlTestBit bm' m = (if m = n then Inr False else RtlTestBit bm m)"
proof -
  from assms have v: "bm_valid bm n" and bm': "bm' = bm\<lparr>BitBuffer := (BitBuffer bm)[unat n div 32 :=
        BitBuffer bm ! (unat n div 32) AND NOT (lsh1 (unat n mod 32))]\<rparr>"
    by (auto simp: RtlClearBit_eq split: if_splits)
  have "bm_valid bm' m = bm_valid bm m" by (simp add: bm_valid_def bm')
  with v show ?thesis
    using same_bit_iff [of n m]
    by (auto simp: RtlTestBit_eq bm' bm_valid_index nth_list_update bit_clear_lsh1)
qed

lemma bm_valid_RtlSetBit: "RtlSetBit bm n = Inr bm' \<Longrightarrow> bm_valid bm' m = bm_valid bm m"
  by (auto simp: RtlSetBit_eq bm_valid_def split: if_splits)

lemma bm_valid_RtlClearBit: "RtlClearBit bm n = Inr bm' \<Longrightarrow> bm_valid bm' m = bm_valid bm m"
  by (auto simp: RtlClearBit_eq bm_valid_def split: if_splits)

lemma RtlTestBit_valid: "(\<exists>v. RtlTestBit b n = Inr v) \<longleftrightarrow> bm_valid b n"
  by (simp add: RtlTestBit_eq)

interpretation bm: bit_registry RtlTestBit RtlSetBit RtlClearBit bm_valid
  apply unfold_locales
           apply (rule RtlTestBit_valid)
          apply (simp add: RtlTestBit_eq)
         apply (simp add: RtlSetBit_eq)
        apply (simp add: RtlSetBit_eq)
       apply (simp add: RtlClearBit_eq)
      apply (simp add: RtlClearBit_eq)
     apply (erule bm_valid_RtlSetBit)
    apply (erule bm_valid_RtlClearBit)
   apply (erule RtlTestBit_RtlSetBit)
  apply (erule RtlTestBit_RtlClearBit)
  done

end
