(* ===== verification/Timer.thy ===== *)
theory Timer
  imports Svmm_Prelude
begin

text \<open>
  The timer wheel of \<open>timer.c\<close>: 32 software timers that the main loop advances with
  \<open>TimerTick\<close>. A timer names the C function it calls (\<open>timer_fn\<close>) and the parameter that
  function gets. \<open>TimerTick\<close> is parametric in how a handler runs, because the handlers are
  the operations of the device theories. The record \<open>timer_state\<close> is the root of the
  machine's extensible state.
\<close>

section \<open>State\<close>

datatype timer_fn = PitTimerFn | ApicTimerFn | CmosUipTimerFn | Ps2TimerFn | HpetTimerFn
  | AcpiTimerFn | IdeTimerFn | VgaCoreTimerFn | GuiTimerFn

record TIMER =
  Handler :: "timer_fn option"
  Nseconds :: ULONG64
  TimeToFire :: ULONG64
  Param :: nat
  Active :: BYTE
  OneShot :: BYTE

definition TIMER_zero :: TIMER where
  "TIMER_zero = \<lparr>Handler = None, Nseconds = 0, TimeToFire = 0, Param = 0, Active = 0, OneShot = 0\<rparr>"

record timer_state =
  Timers :: "TIMER list"
  TimersIdx :: DWORD
  TicksTotal :: ULONG64
  NsecondsTotal :: ULONG64

text \<open>The globals as a C program starts with them.\<close>

definition timer_zero :: timer_state where
  "timer_zero = \<lparr>Timers = replicate 32 TIMER_zero, TimersIdx = 0, TicksTotal = 0, NsecondsTotal = 0\<rparr>"

section \<open>Operations\<close>

text \<open>
  \<open>muldiv64\<close> multiplies with \<open>_mm_mul_epu32\<close>, which takes the low 32 bits of each 64-bit
  lane. Every call passes a nonzero constant \<open>c\<close>.
\<close>

definition muldiv64 :: "ULONG64 \<Rightarrow> ULONG \<Rightarrow> ULONG \<Rightarrow> ULONG64" where
  "muldiv64 a b c =
     (let mulResult = (ucast (ucast a :: ULONG) * ucast b :: ULONG64);
          lo = mulResult;
          hi = (ucast (drop_bit 32 mulResult) :: ULONG);
          result = push_bit 32 (ucast hi) OR lo
      in result div ucast c)"

definition TimerInitialize :: "'z timer_state_scheme \<Rightarrow> 'z timer_state_scheme" where
  "TimerInitialize s = s\<lparr>TimersIdx := 0, TicksTotal := 0, NsecondsTotal := 0,
                         Timers := replicate 32 TIMER_zero\<rparr>"

definition TimerGet :: "'z timer_state_scheme \<Rightarrow> DWORD \<Rightarrow> TIMER res" where
  "TimerGet s i = arr_get (Timers s) (unat i)"

definition TimerGetClockNs :: "'z timer_state_scheme \<Rightarrow> ULONG64" where
  "TimerGetClockNs s = muldiv64 (TicksTotal s) 1000000 4000000"

definition TimerGetElapsed :: "'z timer_state_scheme \<Rightarrow> DWORD \<Rightarrow> ULONG64 res" where
  "TimerGetElapsed s i =
     bindE (arr_get (Timers s) (unat i)) (\<lambda>t. Inr (Nseconds t - TimeToFire t))"

definition TimerGetState :: "'z timer_state_scheme \<Rightarrow> DWORD \<Rightarrow> BYTE res" where
  "TimerGetState s i = bindE (arr_get (Timers s) (unat i)) (\<lambda>t. Inr (Active t))"

text \<open>Write one entry of \<open>Timers\<close>.\<close>

definition upd_timer ::
  "(TIMER \<Rightarrow> TIMER) \<Rightarrow> 'z timer_state_scheme \<Rightarrow> DWORD \<Rightarrow> 'z timer_state_scheme res" where
  "upd_timer f s i =
     bindE (arr_get (Timers s) (unat i)) (\<lambda>t.
     bindE (arr_set (Timers s) (unat i) (f t)) (\<lambda>ts. Inr (s\<lparr>Timers := ts\<rparr>)))"

definition TimerActivate ::
  "'z timer_state_scheme \<Rightarrow> DWORD \<Rightarrow> ULONG64 \<Rightarrow> BYTE \<Rightarrow> 'z timer_state_scheme res" where
  "TimerActivate s i ns oneshot =
     upd_timer (\<lambda>t. t\<lparr>Active := 1, Nseconds := ns, OneShot := oneshot\<rparr>) s i"

text \<open>The second and third assignments of the C function index with \<open>TimersIdx\<close>, not with \<open>Index\<close>.\<close>

definition TimerDeactivate :: "'z timer_state_scheme \<Rightarrow> DWORD \<Rightarrow> 'z timer_state_scheme res" where
  "TimerDeactivate s i =
     bindE (upd_timer (\<lambda>t. t\<lparr>Active := 0\<rparr>) s i) (\<lambda>s.
     upd_timer (\<lambda>t. t\<lparr>Nseconds := 0, TimeToFire := 0\<rparr>) s (TimersIdx s))"

definition TimerCreate ::
  "'z timer_state_scheme \<Rightarrow> timer_fn \<Rightarrow> nat \<Rightarrow> (DWORD \<times> 'z timer_state_scheme) res" where
  "TimerCreate s h p =
     bindE (upd_timer (\<lambda>_. \<lparr>Handler = Some h, Nseconds = 0, TimeToFire = 0, Param = p,
                            Active = 0, OneShot = 0\<rparr>) s (TimersIdx s)) (\<lambda>s.
     Inr (TimersIdx s, s\<lparr>TimersIdx := TimersIdx s + 1\<rparr>))"

definition TimerRegister ::
  "'z timer_state_scheme \<Rightarrow> DWORD \<Rightarrow> timer_fn \<Rightarrow> nat \<Rightarrow> (DWORD \<times> 'z timer_state_scheme) res" where
  "TimerRegister s ns h p =
     bindE (upd_timer (\<lambda>_. \<lparr>Handler = Some h, Nseconds = ucast ns, TimeToFire = ucast ns, Param = p,
                            Active = 1, OneShot = 0\<rparr>) s (TimersIdx s)) (\<lambda>s.
     Inr (TimersIdx s, s\<lparr>TimersIdx := TimersIdx s + 1\<rparr>))"

text \<open>
  The body of the loop of \<open>TimerTick\<close> for one timer. The handler runs between the two writes
  of \<open>TimeToFire\<close>, and the entry is read again after it.
\<close>

definition TimerFire ::
  "(timer_fn \<Rightarrow> nat \<Rightarrow> 'z timer_state_scheme \<Rightarrow> 'z timer_state_scheme res) \<Rightarrow>
   'z timer_state_scheme \<Rightarrow> DWORD \<Rightarrow> 'z timer_state_scheme res" where
  "TimerFire run s i =
     bindE (upd_timer (\<lambda>t. t\<lparr>TimeToFire := 0\<rparr>) s i) (\<lambda>s.
     bindE (arr_get (Timers s) (unat i)) (\<lambda>t.
     bindE (case Handler t of None \<Rightarrow> Inl NullCall | Some h \<Rightarrow> run h (Param t) s) (\<lambda>s.
     upd_timer (\<lambda>t. if OneShot t \<noteq> 0
                    then t\<lparr>Active := 0, TimeToFire := Nseconds t\<rparr>
                    else t\<lparr>TimeToFire := Nseconds t\<rparr>) s i)))"

definition TimerTickOne ::
  "(timer_fn \<Rightarrow> nat \<Rightarrow> 'z timer_state_scheme \<Rightarrow> 'z timer_state_scheme res) \<Rightarrow>
   'z timer_state_scheme \<Rightarrow> DWORD \<Rightarrow> 'z timer_state_scheme res" where
  "TimerTickOne run s i =
     bindE (upd_timer (\<lambda>t. if Active t \<noteq> 0
                           then t\<lparr>TimeToFire := TimeToFire t - NsecondsTotal s\<rparr> else t) s i) (\<lambda>s.
     bindE (arr_get (Timers s) (unat i)) (\<lambda>t.
     if Active t \<noteq> 0 \<and> sint (TimeToFire t) \<le> 0 then TimerFire run s i else Inr s))"

text \<open>
  The loop reads \<open>TimersIdx\<close> again in every round; it cannot pass the 32 entries of the
  array without an access outside it.
\<close>

function TimerTickLoop ::
  "(timer_fn \<Rightarrow> nat \<Rightarrow> 'z timer_state_scheme \<Rightarrow> 'z timer_state_scheme res) \<Rightarrow>
   nat \<Rightarrow> 'z timer_state_scheme \<Rightarrow> 'z timer_state_scheme res" where
  "TimerTickLoop run i s =
     (if i < unat (TimersIdx s)
      then if i < 32
           then bindE (TimerTickOne run s (of_nat i)) (TimerTickLoop run (Suc i))
           else Inl OutOfBounds
      else Inr s)"
  by pat_completeness auto
termination
  by (relation "measure (\<lambda>(run, i, s). 32 - i)") auto

declare TimerTickLoop.simps [simp del]

definition TimerTick ::
  "(timer_fn \<Rightarrow> nat \<Rightarrow> 'z timer_state_scheme \<Rightarrow> 'z timer_state_scheme res) \<Rightarrow>
   'z timer_state_scheme \<Rightarrow> ULONG64 \<Rightarrow> 'z timer_state_scheme res" where
  "TimerTick run s ticks =
     (let s1 = s\<lparr>TicksTotal := TicksTotal s + ticks\<rparr>;
          s2 = s1\<lparr>NsecondsTotal := NsecondsTotal s1 + TimerGetClockNs s1\<rparr>
      in TimerTickLoop run 0 s2)"

definition TimerGetTotalUseconds :: "'z timer_state_scheme \<Rightarrow> ULONG64" where
  "TimerGetTotalUseconds s = TicksTotal s div 1000"

definition TimerGetTotalTicks :: "'z timer_state_scheme \<Rightarrow> ULONG64" where
  "TimerGetTotalTicks s = TicksTotal s"

section \<open>Well-formedness\<close>

definition wf_timers :: "'z timer_state_scheme \<Rightarrow> bool" where
  "wf_timers s \<longleftrightarrow> length (Timers s) = 32 \<and> unat (TimersIdx s) < 32"

text \<open>Every allocated timer has a handler.\<close>

definition timers_set :: "'z timer_state_scheme \<Rightarrow> bool" where
  "timers_set s \<longleftrightarrow> (\<forall>i < unat (TimersIdx s). Handler (Timers s ! i) \<noteq> None)"

section \<open>The clock\<close>

lemma unat_mul_low32:
  "unat (ucast (ucast a :: ULONG) * ucast b :: ULONG64) = (unat (a::ULONG64) mod 2 ^ 32) * unat (b::ULONG)"
proof -
  have "(unat a mod 2 ^ 32) * unat b < 2 ^ 32 * 2 ^ 32"
    by (intro mult_strict_mono) (use unsigned_less [of b] in auto)
  then show ?thesis
    by (simp add: unat_word_ariths unat_ucast_up unat_ucast_mod [where 'b = 32])
qed

lemma or_high_half: "push_bit 32 (ucast (ucast (drop_bit 32 x) :: ULONG)) OR x = (x::ULONG64)"
  by (rule bit_word_eqI) (auto simp: bit_simps)

lemma muldiv64_unat: "unat (muldiv64 a b c) = ((unat a mod 2 ^ 32) * unat b) div unat c"
  unfolding muldiv64_def Let_def or_high_half
  by (simp only: unat_div_distrib unat_mul_low32) (simp add: unat_ucast_up)

lemma TimerGetClockNs_unat: "unat (TimerGetClockNs s) = unat (TicksTotal s) mod 2 ^ 32 div 4"
proof -
  have "(x * 1000000) div 4000000 = x div (4::nat)" for x by simp
  then show ?thesis by (simp add: TimerGetClockNs_def muldiv64_unat)
qed

section \<open>Updates of one timer\<close>

lemma upd_timer_eq:
  "unat i < length (Timers s) \<Longrightarrow>
   upd_timer f s i = Inr (s\<lparr>Timers := (Timers s)[unat i := f (Timers s ! unat i)]\<rparr>)"
  by (simp add: upd_timer_def)

lemma upd_timer_out: "length (Timers s) \<le> unat i \<Longrightarrow> upd_timer f s i = Inl OutOfBounds"
  by (simp add: upd_timer_def)

lemma TimerActivate_eq:
  "unat i < length (Timers s) \<Longrightarrow>
   TimerActivate s i ns oneshot = Inr (s\<lparr>Timers := (Timers s)[unat i :=
     (Timers s ! unat i)\<lparr>Active := 1, Nseconds := ns, OneShot := oneshot\<rparr>]\<rparr>)"
  by (simp add: TimerActivate_def upd_timer_eq)

lemma TimerDeactivate_spec:
  assumes "wf_timers s" and "unat i < 32"
  shows "\<exists>ts. TimerDeactivate s i = Inr (s\<lparr>Timers := ts\<rparr>) \<and> length ts = 32 \<and>
     Active (ts ! unat i) = 0 \<and> (\<forall>j. j \<noteq> unat i \<longrightarrow> Active (ts ! j) = Active (Timers s ! j)) \<and>
     (\<forall>j. Handler (ts ! j) = Handler (Timers s ! j))"
proof -
  let ?t1 = "(Timers s)[unat i := (Timers s ! unat i)\<lparr>Active := 0\<rparr>]"
  let ?k = "unat (TimersIdx s)"
  let ?t2 = "?t1[?k := (?t1 ! ?k)\<lparr>Nseconds := 0, TimeToFire := 0\<rparr>]"
  have len: "length (Timers s) = 32" "?k < 32" using assms(1) by (auto simp: wf_timers_def)
  have "TimerDeactivate s i = Inr (s\<lparr>Timers := ?t2\<rparr>)"
    using len assms(2) by (simp add: TimerDeactivate_def upd_timer_eq)
  moreover have "Active (?t2 ! unat i) = 0"
    using len assms(2) by (cases "?k = unat i") auto
  moreover have "Active (?t2 ! j) = Active (Timers s ! j)" if "j \<noteq> unat i" for j
    using len assms(2) that by (cases "?k = j") auto
  moreover have "Handler (?t2 ! j) = Handler (Timers s ! j)" for j
    using len assms(2) by (cases "?k = j"; cases "unat i = j") auto
  ultimately show ?thesis using len by auto
qed

section \<open>The timer interface\<close>

locale timer_service =
  fixes activate :: "'s \<Rightarrow> DWORD \<Rightarrow> ULONG64 \<Rightarrow> BYTE \<Rightarrow> 's res"
    and deactivate :: "'s \<Rightarrow> DWORD \<Rightarrow> 's res"
    and active :: "'s \<Rightarrow> DWORD \<Rightarrow> bool"
    and inv :: "'s \<Rightarrow> bool"
  assumes activate_ok: "inv s \<Longrightarrow> unat i < 32 \<Longrightarrow>
      specE {} (\<lambda>t. inv t \<and> (\<forall>j. active t j = (if j = i then True else active s j)))
        (activate s i ns oneshot)"
    and deactivate_ok: "inv s \<Longrightarrow> unat i < 32 \<Longrightarrow>
      specE {} (\<lambda>t. inv t \<and> (\<forall>j. active t j = (if j = i then False else active s j)))
        (deactivate s i)"
begin

lemma rearm:
  assumes "inv s" and "unat i < 32"
  shows "specE {} (\<lambda>t. inv t \<and> (\<forall>j. active t j = (if j = i then True else active s j)))
           (bindE (deactivate s i) (\<lambda>s. activate s i ns oneshot))"
proof (rule specE_bindI [OF deactivate_ok [OF assms]], elim conjE)
  fix u assume u: "inv u" "\<forall>j. active u j = (if j = i then False else active s j)"
  show "specE {} (\<lambda>t. inv t \<and> (\<forall>j. active t j = (if j = i then True else active s j)))
          (activate u i ns oneshot)"
    by (rule specE_mono [OF activate_ok [OF u(1) assms(2)]]) (use u in auto)
qed

lemma arm_or_disarm:
  assumes "inv s" and "unat i < 32"
  shows "specE {} (\<lambda>t. inv t \<and> active t i = b)
           (if b then activate s i ns oneshot else deactivate s i)"
  using activate_ok [OF assms, of ns oneshot] deactivate_ok [OF assms]
  by (auto simp: specE_total)

end

definition timer_active :: "'z timer_state_scheme \<Rightarrow> DWORD \<Rightarrow> bool" where
  "timer_active s i \<longleftrightarrow> Active (Timers s ! unat i) \<noteq> 0"

interpretation tm: timer_service TimerActivate TimerDeactivate timer_active wf_timers
proof unfold_locales
  fix s :: "'z timer_state_scheme" and i :: DWORD and ns oneshot
  assume wf: "wf_timers s" and i: "unat i < 32"
  then have "unat i < length (Timers s)" by (simp add: wf_timers_def)
  then show "specE {} (\<lambda>t. wf_timers t \<and> (\<forall>j. timer_active t j = (if j = i then True else timer_active s j)))
        (TimerActivate s i ns oneshot)"
    using wf by (auto simp: TimerActivate_eq timer_active_def wf_timers_def nth_list_update word_unat_eq_iff)
  obtain ts where "TimerDeactivate s i = Inr (s\<lparr>Timers := ts\<rparr>)" "length ts = 32"
     "Active (ts ! unat i) = 0" "\<forall>j. j \<noteq> unat i \<longrightarrow> Active (ts ! j) = Active (Timers s ! j)"
    using TimerDeactivate_spec [OF wf i] by blast
  then show "specE {} (\<lambda>t. wf_timers t \<and> (\<forall>j. timer_active t j = (if j = i then False else timer_active s j)))
        (TimerDeactivate s i)"
    using wf by (auto simp: timer_active_def wf_timers_def word_unat_eq_iff)
qed

section \<open>The tick\<close>

definition timer_ok :: "'z timer_state_scheme \<Rightarrow> bool" where
  "timer_ok s \<longleftrightarrow> wf_timers s \<and> timers_set s"

lemma timer_ok_upd:
  assumes "timer_ok s" and "i < 32" and "\<And>t. Handler (f t) = Handler t"
  shows "specE {} timer_ok (upd_timer f s (of_nat i))"
proof -
  have i: "unat (of_nat i :: DWORD) = i" using assms(2) by (simp add: unat_of_nat)
  have "Handler ((Timers s)[i := f (Timers s ! i)] ! j) = Handler (Timers s ! j)" for j
    using assms by (cases "i = j") (auto simp: timer_ok_def wf_timers_def)
  then show ?thesis
    using assms by (auto simp: upd_timer_eq i timer_ok_def wf_timers_def timers_set_def)
qed

lemma timer_ok_TimerTickOne:
  assumes s: "timer_ok s" "i < unat (TimersIdx s)"
    and run: "\<And>h p t. timer_ok t \<Longrightarrow> specE E timer_ok (run h p t)"
  shows "specE E timer_ok (TimerTickOne run s (of_nat i))"
proof -
  have i: "i < 32" using s by (auto simp: timer_ok_def wf_timers_def)
  have idx: "unat (of_nat i :: DWORD) = i" using i by (simp add: unat_of_nat)
  let ?f = "\<lambda>t. if Active t \<noteq> 0 then t\<lparr>TimeToFire := TimeToFire t - NsecondsTotal s\<rparr> else t"
  let ?g = "\<lambda>t. if OneShot t \<noteq> 0 then t\<lparr>Active := 0, TimeToFire := Nseconds t\<rparr> else t\<lparr>TimeToFire := Nseconds t\<rparr>"
  have upd: "specE E timer_ok (upd_timer h u (of_nat i))"
    if "timer_ok u" "\<And>t. Handler (h t) = Handler t" for h u
    using timer_ok_upd [OF that(1) i that(2)] by (auto elim: specE_mono)
  have fire: "specE E timer_ok (TimerFire run u (of_nat i))"
    if u: "timer_ok u" "i < unat (TimersIdx u)" for u
  proof -
    have h: "Handler (Timers u ! i) \<noteq> None" "length (Timers u) = 32"
      using u by (auto simp: timer_ok_def timers_set_def wf_timers_def)
    let ?v = "u\<lparr>Timers := (Timers u)[i := (Timers u ! i)\<lparr>TimeToFire := 0\<rparr>]\<rparr>"
    have "timer_ok ?v"
      using upd [OF u(1), of "\<lambda>t. t\<lparr>TimeToFire := 0\<rparr>"] i h(2) by (simp add: upd_timer_eq idx)
    then have "specE E timer_ok (bindE (run hf p ?v) (\<lambda>s. upd_timer ?g s (of_nat i)))" for hf p
      by (intro specE_bindI [OF run] upd) auto
    then show ?thesis using i h by (auto simp: TimerFire_def upd_timer_eq idx split: option.splits)
  qed
  have len: "length (Timers s) = 32" using s by (simp add: timer_ok_def wf_timers_def)
  let ?v = "s\<lparr>Timers := (Timers s)[i := ?f (Timers s ! i)]\<rparr>"
  have "specE E timer_ok (upd_timer ?f s (of_nat i))" by (rule upd [OF s(1)]) simp
  moreover have v: "upd_timer ?f s (of_nat i) = Inr ?v"
    using upd_timer_eq [of "of_nat i" s ?f] i unfolding idx len by blast
  ultimately have "timer_ok ?v" by (simp only: specE_simps)
  then show ?thesis
    unfolding TimerTickOne_def v using fire [of ?v] s(2) i len by (simp add: idx)
qed

lemma timer_ok_TimerTickLoop:
  assumes run: "\<And>h p t. timer_ok t \<Longrightarrow> specE E timer_ok (run h p t)"
  shows "timer_ok s \<Longrightarrow> specE E timer_ok (TimerTickLoop run i s)"
  using run
proof (induction run i s rule: TimerTickLoop.induct)
  case (1 run i s)
  show ?case
  proof (cases "i < unat (TimersIdx s)")
    case True
    then have "i < 32" using "1.prems"(1) by (simp add: timer_ok_def wf_timers_def)
    moreover have "specE E timer_ok (bindE (TimerTickOne run s (of_nat i)) (TimerTickLoop run (Suc i)))"
      by (intro specE_bindI [OF timer_ok_TimerTickOne] "1.IH") (use "1.prems" True \<open>i < 32\<close> in auto)
    ultimately show ?thesis by (subst TimerTickLoop.simps) (simp add: True)
  next
    case False
    then show ?thesis using "1.prems"(1) by (subst TimerTickLoop.simps) simp
  qed
qed

text \<open>
  What one tick does to a timer when the handlers leave the timer wheel alone: \<open>tot\<close> is the
  amount the wheel subtracts.
\<close>

definition tick_timer :: "ULONG64 \<Rightarrow> TIMER \<Rightarrow> TIMER" where
  "tick_timer tot t =
     (if Active t = 0 then t
      else if sint (TimeToFire t - tot) \<le> 0
           then if OneShot t \<noteq> 0 then t\<lparr>Active := 0, TimeToFire := Nseconds t\<rparr>
                else t\<lparr>TimeToFire := Nseconds t\<rparr>
           else t\<lparr>TimeToFire := TimeToFire t - tot\<rparr>)"

definition same_wheel :: "'z timer_state_scheme \<Rightarrow> 'z timer_state_scheme \<Rightarrow> bool" where
  "same_wheel s t \<longleftrightarrow> Timers t = Timers s \<and> TimersIdx t = TimersIdx s \<and> NsecondsTotal t = NsecondsTotal s"

lemma TimerTickOne_quiet:
  assumes s: "timer_ok s" "i < unat (TimersIdx s)"
    and run: "\<And>h p t. specE {} (same_wheel t) (run h p t)"
  shows "specE {} (\<lambda>u. TimersIdx u = TimersIdx s \<and> NsecondsTotal u = NsecondsTotal s \<and>
      Timers u = (Timers s)[i := tick_timer (NsecondsTotal s) (Timers s ! i)])
    (TimerTickOne run s (of_nat i))"
proof -
  have i: "i < 32" "length (Timers s) = 32" and h: "\<exists>h. Handler (Timers s ! i) = Some h"
    using s by (auto simp: timer_ok_def wf_timers_def timers_set_def)
  have idx: "unat (of_nat i :: DWORD) = i" using i by (simp add: unat_of_nat)
  obtain h where h: "Handler (Timers s ! i) = Some h" using h by blast
  let ?t = "(Timers s ! i)\<lparr>TimeToFire := 0\<rparr>"
  let ?v = "s\<lparr>Timers := (Timers s)[i := ?t]\<rparr>"
  obtain u where u: "run h (Param (Timers s ! i)) ?v = Inr u" "same_wheel ?v u"
    using run [of ?v h "Param (Timers s ! i)"] by (auto simp: specE_total)
  show ?thesis
  proof (cases "Active (Timers s ! i) \<noteq> 0 \<and> sint (TimeToFire (Timers s ! i) - NsecondsTotal s) \<le> 0")
    case True
    then show ?thesis using i u h
      by (auto simp: TimerTickOne_def TimerFire_def upd_timer_eq idx same_wheel_def tick_timer_def)
  next
    case False
    then show ?thesis using i
      by (auto simp: TimerTickOne_def upd_timer_eq idx tick_timer_def)
  qed
qed

lemma TimerTickLoop_quiet:
  assumes "\<And>h p t. specE {} (same_wheel t) (run h p t)" and "timer_ok s"
  shows "specE {} (\<lambda>u. length (Timers u) = 32 \<and> (\<forall>j. Timers u ! j =
      (if i \<le> j \<and> j < unat (TimersIdx s) then tick_timer (NsecondsTotal s) (Timers s ! j) else Timers s ! j)))
    (TimerTickLoop run i s)"
  using assms
proof (induction run i s rule: TimerTickLoop.induct)
  case (1 run i s)
  have ok: "timer_ok s" by (rule "1.prems"(2))
  show ?case
  proof (cases "i < unat (TimersIdx s)")
    case True
    then have i: "i < 32" "length (Timers s) = 32" using ok by (simp_all add: timer_ok_def wf_timers_def)
    obtain u where u: "TimerTickOne run s (of_nat i) = Inr u" "TimersIdx u = TimersIdx s"
        "NsecondsTotal u = NsecondsTotal s"
        "Timers u = (Timers s)[i := tick_timer (NsecondsTotal s) (Timers s ! i)]"
      using TimerTickOne_quiet [OF ok True, of run] "1.prems"(1) by (auto simp: specE_total)
    have "timer_ok u" using ok u i
      by (auto simp: timer_ok_def wf_timers_def timers_set_def tick_timer_def nth_list_update)
    from "1.IH" [OF True i(1) "1.prems"(1) this]
    have "specE {} (\<lambda>v. length (Timers v) = 32 \<and> (\<forall>j. Timers v ! j =
        (if i \<le> j \<and> j < unat (TimersIdx s) then tick_timer (NsecondsTotal s) (Timers s ! j) else Timers s ! j)))
        (TimerTickLoop run (Suc i) u)"
      by (rule specE_mono) (use True i in \<open>auto simp: u nth_list_update\<close>)
    then show ?thesis using True i(1) u(1) by (subst TimerTickLoop.simps) simp
  next
    case False
    then show ?thesis using ok by (subst TimerTickLoop.simps) (auto simp: timer_ok_def wf_timers_def)
  qed
qed

section \<open>Properties\<close>


text \<open>A wheel with one periodic timer of 10 units.\<close>

definition timer_example :: timer_state where
  "timer_example = timer_zero\<lparr>TimersIdx := 1, Timers := (replicate 32 TIMER_zero)[0 :=
     \<lparr>Handler = Some PitTimerFn, Nseconds = 10, TimeToFire = 10, Param = 0, Active = 1, OneShot = 0\<rparr>]\<rparr>"


text \<open>The clock the devices read is the tick counter modulo \<open>2 ^ 32\<close>, divided by 4: the
  multiplication of \<open>muldiv64\<close> takes only the low half of its first argument, so the clock jumps
  back to 0 every \<open>2 ^ 32\<close> ticks although it is computed and returned as a 64-bit value.\<close>

theorem TimerGetClockNs_wraps:
  "unat (TimerGetClockNs s) = unat (TicksTotal s) mod 2 ^ 32 div 4"
  by (rule TimerGetClockNs_unat)

text \<open>Switching a timer off. The call returns, the timer is inactive and no other timer changes
  its activity. The period and the remaining time that are cleared are those of the first free
  entry of the table, so the timer that was switched off keeps both.\<close>

theorem TimerDeactivate_effect:
  assumes "wf_timers s" and "unat i < unat (TimersIdx s)"
  shows "specE {} (\<lambda>t. wf_timers t \<and> \<not> timer_active t i \<and> (\<forall>j. j \<noteq> i \<longrightarrow> timer_active t j = timer_active s j) \<and>
      Nseconds (Timers t ! unat i) = Nseconds (Timers s ! unat i) \<and>
      TimeToFire (Timers t ! unat i) = TimeToFire (Timers s ! unat i) \<and>
      Nseconds (Timers t ! unat (TimersIdx s)) = 0) (TimerDeactivate s i)"
proof -
  have i: "unat i < 32" "unat (TimersIdx s) < 32" "length (Timers s) = 32" using assms by (auto simp: wf_timers_def)
  then have "TimerDeactivate s i = Inr (s\<lparr>Timers := ((Timers s)[unat i := (Timers s ! unat i)\<lparr>Active := 0\<rparr>])
      [unat (TimersIdx s) := (Timers s ! unat (TimersIdx s))\<lparr>Nseconds := 0, TimeToFire := 0\<rparr>]\<rparr>)"
    using assms(2) by (simp add: TimerDeactivate_def upd_timer_eq)
  with tm.deactivate_ok [OF assms(1) i(1)] show ?thesis
    using i assms(2) by auto
qed

theorem TimerDeactivate_effect_witness:
  "specE {} (\<lambda>t. \<not> timer_active t 0 \<and> Nseconds (Timers t ! 0) = 10) (TimerDeactivate timer_example 0)"
proof -
  have "wf_timers timer_example" "unat (0 :: DWORD) < unat (TimersIdx timer_example)"
    "Nseconds (Timers timer_example ! unat (0 :: DWORD)) = 10"
    by (simp_all add: wf_timers_def timer_example_def timer_zero_def)
  from specE_mono [OF TimerDeactivate_effect [OF this(1,2)]] this(3) show ?thesis by simp
qed

end
