(* ===== verification/Kvm_Types.thy ===== *)
theory Kvm_Types
  imports Svmm_Prelude
begin

text \<open>
  The register structures of the monitor and of the driver interface: \<open>kvm_regs\<close>, \<open>kvm_segment\<close>,
  \<open>kvm_dtable\<close> and \<open>kvm_sregs\<close> of \<open>kvm.h\<close>, and \<open>segment_desc_t\<close>, \<open>vcpu_state_t\<close>, \<open>fx_layout\<close> and
  \<open>Registers\<close> of \<open>haxm.h\<close>. A bit field is a word of its width. Padding and the vector registers of
  \<open>fx_layout\<close>, which no code touches, are left out, and of a union the widest member is kept, which is
  the one the sources use. The model specific register block, which only the other hypervisor driver
  fills, and \<open>smbase\<close>, a component of the machine state, are not part of \<open>Registers\<close>.
\<close>

section \<open>The driver interface\<close>

record kvm_regs =
  k_rax :: ULONG64
  k_rbx :: ULONG64
  k_rcx :: ULONG64
  k_rdx :: ULONG64
  k_rsi :: ULONG64
  k_rdi :: ULONG64
  k_rsp :: ULONG64
  k_rbp :: ULONG64
  k_r8 :: ULONG64
  k_r9 :: ULONG64
  k_r10 :: ULONG64
  k_r11 :: ULONG64
  k_r12 :: ULONG64
  k_r13 :: ULONG64
  k_r14 :: ULONG64
  k_r15 :: ULONG64
  k_rip :: ULONG64
  k_rflags :: ULONG64

record kvm_segment =
  ks_base :: ULONG64
  ks_limit :: "32 word"
  ks_selector :: "16 word"
  ks_type :: BYTE
  ks_present :: BYTE
  ks_dpl :: BYTE
  ks_db :: BYTE
  ks_s :: BYTE
  ks_l :: BYTE
  ks_g :: BYTE
  ks_avl :: BYTE
  ks_unusable :: BYTE

record kvm_dtable =
  kd_base :: ULONG64
  kd_limit :: "16 word"

record kvm_sregs =
  k_cs :: kvm_segment
  k_ds :: kvm_segment
  k_es :: kvm_segment
  k_fs :: kvm_segment
  k_gs :: kvm_segment
  k_ss :: kvm_segment
  k_tr :: kvm_segment
  k_ldt :: kvm_segment
  k_gdt :: kvm_dtable
  k_idt :: kvm_dtable
  k_cr0 :: ULONG64
  k_cr2 :: ULONG64
  k_cr3 :: ULONG64
  k_cr4 :: ULONG64
  k_cr8 :: ULONG64
  k_efer :: ULONG64
  k_apic_base :: ULONG64
  interrupt_bitmap :: "ULONG64 list"

record kvm_cpuid_entry =
  ce_function :: "32 word"
  ce_index :: "32 word"
  ce_flags :: "32 word"
  ce_eax :: "32 word"
  ce_ebx :: "32 word"
  ce_ecx :: "32 word"
  ce_edx :: "32 word"

section \<open>The registers of the monitor\<close>

record segment_desc_t =
  seg_selector :: "16 word"
  seg_limit :: "32 word"
  seg_base :: ULONG64
  seg_type :: "4 word"
  seg_desc :: "1 word"
  seg_dpl :: "2 word"
  seg_present :: "1 word"
  seg_available :: "1 word"
  seg_long_mode :: "1 word"
  seg_operand_size :: "1 word"
  seg_granularity :: "1 word"

record vcpu_state_t =
  c_rax :: ULONG64
  c_rcx :: ULONG64
  c_rdx :: ULONG64
  c_rbx :: ULONG64
  c_rsp :: ULONG64
  c_rbp :: ULONG64
  c_rsi :: ULONG64
  c_rdi :: ULONG64
  c_r8 :: ULONG64
  c_r9 :: ULONG64
  c_r10 :: ULONG64
  c_r11 :: ULONG64
  c_r12 :: ULONG64
  c_r13 :: ULONG64
  c_r14 :: ULONG64
  c_r15 :: ULONG64
  c_rip :: ULONG64
  c_rflags :: ULONG64
  c_cs :: segment_desc_t
  c_ss :: segment_desc_t
  c_ds :: segment_desc_t
  c_es :: segment_desc_t
  c_fs :: segment_desc_t
  c_gs :: segment_desc_t
  c_ldt :: segment_desc_t
  c_tr :: segment_desc_t
  c_gdt :: segment_desc_t
  c_idt :: segment_desc_t
  c_cr0 :: ULONG64
  c_cr2 :: ULONG64
  c_cr3 :: ULONG64
  c_cr4 :: ULONG64
  c_dr0 :: ULONG64
  c_dr1 :: ULONG64
  c_dr2 :: ULONG64
  c_dr3 :: ULONG64
  c_dr6 :: ULONG64
  c_dr7 :: ULONG64
  c_pde :: ULONG64
  c_efer :: "32 word"
  c_sysenter_cs :: "32 word"
  c_sysenter_eip :: ULONG64
  c_sysenter_esp :: ULONG64
  c_activity_state :: "32 word"

record fx_layout =
  fx_fcw :: "16 word"
  fx_fsw :: "16 word"
  fx_ftw :: BYTE
  fx_fop :: "16 word"
  fx_fpu_ip :: ULONG64
  fx_fpu_dp :: ULONG64
  fx_mxcsr :: "32 word"
  fx_mxcsr_mask :: "32 word"

record Registers =
  reg_context :: vcpu_state_t
  reg_fx :: fx_layout
  reg_xcr0 :: ULONG64
  reg_cr8 :: ULONG64
  reg_tsc :: ULONG64
  reg_kernelgsbase :: ULONG64
  reg_apicbase :: ULONG64
  reg_pat :: ULONG64
  reg_star :: ULONG64
  reg_lstar :: ULONG64
  reg_cstar :: ULONG64
  reg_fmask :: ULONG64
  reg_tsc_aux :: ULONG64

section \<open>Values after \<open>memset\<close>\<close>

definition kvm_regs_zero :: kvm_regs where
  "kvm_regs_zero = \<lparr>
    k_rax = 0, k_rbx = 0, k_rcx = 0, k_rdx = 0, k_rsi = 0, k_rdi = 0, k_rsp = 0, k_rbp = 0, k_r8 = 0,
    k_r9 = 0, k_r10 = 0, k_r11 = 0, k_r12 = 0, k_r13 = 0, k_r14 = 0, k_r15 = 0, k_rip = 0,
    k_rflags = 0\<rparr>"

definition kvm_segment_zero :: kvm_segment where
  "kvm_segment_zero = \<lparr>
    ks_base = 0, ks_limit = 0, ks_selector = 0, ks_type = 0, ks_present = 0, ks_dpl = 0, ks_db = 0, ks_s = 0,
    ks_l = 0, ks_g = 0, ks_avl = 0, ks_unusable = 0\<rparr>"

definition kvm_dtable_zero :: kvm_dtable where
  "kvm_dtable_zero = \<lparr>
    kd_base = 0, kd_limit = 0\<rparr>"

definition kvm_sregs_zero :: kvm_sregs where
  "kvm_sregs_zero = \<lparr>
    k_cs = kvm_segment_zero, k_ds = kvm_segment_zero, k_es = kvm_segment_zero, k_fs = kvm_segment_zero,
    k_gs = kvm_segment_zero, k_ss = kvm_segment_zero, k_tr = kvm_segment_zero, k_ldt = kvm_segment_zero,
    k_gdt = kvm_dtable_zero, k_idt = kvm_dtable_zero, k_cr0 = 0, k_cr2 = 0, k_cr3 = 0, k_cr4 = 0, k_cr8 = 0,
    k_efer = 0, k_apic_base = 0, interrupt_bitmap = replicate 4 0\<rparr>"

definition segment_zero :: segment_desc_t where
  "segment_zero = \<lparr>
    seg_selector = 0, seg_limit = 0, seg_base = 0, seg_type = 0, seg_desc = 0, seg_dpl = 0, seg_present = 0,
    seg_available = 0, seg_long_mode = 0, seg_operand_size = 0, seg_granularity = 0\<rparr>"

definition vcpu_zero :: vcpu_state_t where
  "vcpu_zero = \<lparr>
    c_rax = 0, c_rcx = 0, c_rdx = 0, c_rbx = 0, c_rsp = 0, c_rbp = 0, c_rsi = 0, c_rdi = 0, c_r8 = 0,
    c_r9 = 0, c_r10 = 0, c_r11 = 0, c_r12 = 0, c_r13 = 0, c_r14 = 0, c_r15 = 0, c_rip = 0, c_rflags = 0,
    c_cs = segment_zero, c_ss = segment_zero, c_ds = segment_zero, c_es = segment_zero, c_fs = segment_zero,
    c_gs = segment_zero, c_ldt = segment_zero, c_tr = segment_zero, c_gdt = segment_zero,
    c_idt = segment_zero, c_cr0 = 0, c_cr2 = 0, c_cr3 = 0, c_cr4 = 0, c_dr0 = 0, c_dr1 = 0, c_dr2 = 0,
    c_dr3 = 0, c_dr6 = 0, c_dr7 = 0, c_pde = 0, c_efer = 0, c_sysenter_cs = 0, c_sysenter_eip = 0,
    c_sysenter_esp = 0, c_activity_state = 0\<rparr>"

definition fx_zero :: fx_layout where
  "fx_zero = \<lparr>
    fx_fcw = 0, fx_fsw = 0, fx_ftw = 0, fx_fop = 0, fx_fpu_ip = 0, fx_fpu_dp = 0, fx_mxcsr = 0,
    fx_mxcsr_mask = 0\<rparr>"

definition registers_zero :: Registers where
  "registers_zero = \<lparr>
    reg_context = vcpu_zero, reg_fx = fx_zero, reg_xcr0 = 0, reg_cr8 = 0, reg_tsc = 0, reg_kernelgsbase = 0,
    reg_apicbase = 0, reg_pat = 0, reg_star = 0, reg_lstar = 0, reg_cstar = 0, reg_fmask = 0,
    reg_tsc_aux = 0\<rparr>"

end
