(* ===== verification/Gvm.thy ===== *)
theory Gvm
  imports Timer Kvm_Types
begin

text \<open>
  The hypervisor side of the monitor (\<open>gvm.c\<close>): the table of guest memory slots with the
  binary search that \<open>gvm_map_memory\<close> and \<open>gvm_unmap_memory\<close> share, and the calls into the
  GVM driver. The driver is not part of the sources: its answers are the parameter \<open>env\<close>,
  an arbitrary function of the requests made so far and of the new request, and every
  request is recorded in \<open>EnvLog\<close>. The same parameter decides whether an allocation succeeds,
  and (\<open>MissingReturn\<close>) whether the value of a call is nonzero when the called function ends without a \<open>return\<close>.
\<close>

section \<open>State\<close>

record kvm_userspace_memory_region =
  slot :: "32 word"
  flags :: "32 word"
  guest_phys_addr :: "64 word"
  memory_size :: "64 word"
  userspace_addr :: "64 word"

datatype env_req =
    GVM_INTERRUPT ULONG
  | GVM_SMI
  | GVM_NMI
  | GVM_SET_MSRS ULONG ULONG64
  | GVM_SET_USER_MEMORY_REGION kvm_userspace_memory_region
  | Calloc nat
  | CreateFileGvm
  | GVM_CREATE_VM
  | GVM_GET_SUPPORTED_CPUID
  | GVM_GET_MSR_INDEX_LIST
  | GVM_CREATE_VCPU
  | GVM_GET_MSRS
  | GVM_VCPU_MMAP
  | GVM_SET_CPUID "kvm_cpuid_entry list"
  | GVM_SET_REGS kvm_regs
  | GVM_SET_SREGS kvm_sregs
  | GVM_GET_REGS
  | GVM_GET_SREGS
  | GVM_RUN
  | GVM_SET_GUEST_DEBUG ULONG "ULONG64 list"
  | GVM_MSRS bool "BYTE list"
  | MissingReturn

type_synonym env = "env_req list \<Rightarrow> env_req \<Rightarrow> bool"

record gvm_state = timer_state +
  mem_slots :: "kvm_userspace_memory_region list"
  mem_slots_num :: DWORD
  HostRam :: ULONG64
  svmm_events :: DWORD
  request_interrupt_window :: BYTE
  user_event_pending :: BYTE
  EnvLog :: "env_req list"

definition region_zero :: kvm_userspace_memory_region where
  "region_zero = \<lparr>slot = 0, flags = 0, guest_phys_addr = 0, memory_size = 0, userspace_addr = 0\<rparr>"

definition gvm_zero :: gvm_state where
  "gvm_zero = timer_state.extend timer_zero (gvm_state.fields (replicate 256 region_zero) 0 0 0 0 0 [])"

definition EVENT_PENDING_INTR :: DWORD where "EVENT_PENDING_INTR = lsh1 10"
definition EVENT_PENDING_LAPIC_INTR :: DWORD where "EVENT_PENDING_LAPIC_INTR = lsh1 11"
definition EVENT_DMA :: DWORD where "EVENT_DMA = lsh1 15"

section \<open>Operations\<close>

text \<open>One question to the environment: its answer, and the request recorded.\<close>

definition ask_env ::
  "env \<Rightarrow> env_req \<Rightarrow> 'z gvm_state_scheme \<Rightarrow> bool \<times> 'z gvm_state_scheme" where
  "ask_env env r s = (env (EnvLog s) r, s\<lparr>EnvLog := EnvLog s @ [r]\<rparr>)"

text \<open>\<open>calloc\<close> of \<open>n\<close> words: a null result is a buffer in which every access is undefined.\<close>

definition calloc_words ::
  "env \<Rightarrow> nat \<Rightarrow> 'z gvm_state_scheme \<Rightarrow> ULONG list \<times> 'z gvm_state_scheme" where
  "calloc_words env n s = (case ask_env env (Calloc n) s of (ok, t) \<Rightarrow> (if ok then replicate n 0 else [], t))"

definition DeviceIoControl ::
  "env \<Rightarrow> env_req \<Rightarrow> 'z gvm_state_scheme \<Rightarrow> bool \<times> 'z gvm_state_scheme" where
  "DeviceIoControl env r s = ask_env env r s"

text \<open>A request whose failure ends the process.\<close>

definition ioctl_or_exit ::
  "env \<Rightarrow> env_req \<Rightarrow> 'z gvm_state_scheme \<Rightarrow> 'z gvm_state_scheme res" where
  "ioctl_or_exit env r s = (case DeviceIoControl env r s of (ok, t) \<Rightarrow> if ok then Inr t else Inl Exit)"

text \<open>
  The search loop. \<open>end_addr\<close> is the end of the requested range as the caller computes it (64 bits
  wide in \<open>gvm_unmap_memory\<close>, 32 bits wide in \<open>gvm_map_memory\<close>).
\<close>

function slot_search ::
  "kvm_userspace_memory_region list \<Rightarrow> ULONG \<Rightarrow> 64 word \<Rightarrow> int \<Rightarrow> int \<Rightarrow> nat \<Rightarrow> nat res" where
  "slot_search ms addr end_addr left right i =
     (if left \<le> right
      then let i = (left + right) div 2
           in bindE (arr_get ms (nat i)) (\<lambda>m.
              if guest_phys_addr m + memory_size m \<le> ucast addr
              then slot_search ms addr end_addr (i + 1) right (nat i)
              else if guest_phys_addr m \<le> ucast addr \<and> end_addr \<le> guest_phys_addr m + memory_size m
              then Inr (nat i)
              else slot_search ms addr end_addr left (i - 1) (nat i))
      else Inr i)"
  by pat_completeness auto
termination
  by (relation "measure (\<lambda>(ms, addr, e, left, right, i). nat (right - left + 1))") auto

declare slot_search.simps [simp del]

text \<open>
  Unmapping sends the slot with size 0 and then restores the size from a 32-bit variable, which
  drops the high half of a slot of 4 GB or more.
\<close>

definition gvm_unmap_memory ::
  "env \<Rightarrow> 'z gvm_state_scheme \<Rightarrow> ULONG \<Rightarrow> ULONG64 \<Rightarrow> 'z gvm_state_scheme res" where
  "gvm_unmap_memory env s addr sz =
     bindE (slot_search (mem_slots s) addr (ucast addr + sz) 0 (sint (mem_slots_num s)) 0) (\<lambda>i.
     bindE (arr_get (mem_slots s) i) (\<lambda>m.
     if ucast addr < guest_phys_addr m \<or> guest_phys_addr m + memory_size m < ucast addr
     then Inr s
     else bindE (arr_set (mem_slots s) i (m\<lparr>memory_size := 0\<rparr>)) (\<lambda>ms.
          bindE (ioctl_or_exit env (GVM_SET_USER_MEMORY_REGION (m\<lparr>memory_size := 0\<rparr>))
                   (s\<lparr>mem_slots := ms\<rparr>)) (\<lambda>s.
          bindE (arr_set (mem_slots s) i (m\<lparr>memory_size := ucast (ucast (memory_size m) :: ULONG)\<rparr>)) (\<lambda>ms.
          Inr (s\<lparr>mem_slots := ms\<rparr>))))))"

definition gvm_map_memory ::
  "env \<Rightarrow> 'z gvm_state_scheme \<Rightarrow> ULONG \<Rightarrow> ULONG \<Rightarrow> ULONG64 \<Rightarrow> 'z gvm_state_scheme res" where
  "gvm_map_memory env s addr sz ram =
     bindE (slot_search (mem_slots s) addr (ucast (addr + sz)) 0 (sint (mem_slots_num s)) 0) (\<lambda>i.
     bindE (arr_get (mem_slots s) i) (\<lambda>m.
     bindE (arr_set (mem_slots s) i (m\<lparr>userspace_addr := ram\<rparr>)) (\<lambda>ms.
     ioctl_or_exit env (GVM_SET_USER_MEMORY_REGION (m\<lparr>userspace_addr := ram\<rparr>))
       (s\<lparr>mem_slots := ms\<rparr>))))"

definition gvm_register_mmio ::
  "env \<Rightarrow> 'z gvm_state_scheme \<Rightarrow> ULONG \<Rightarrow> ULONG64 \<Rightarrow> 'z gvm_state_scheme res" where
  "gvm_register_mmio env s addr sz = gvm_unmap_memory env s addr sz"

definition gvm_remove_mmio ::
  "env \<Rightarrow> 'z gvm_state_scheme \<Rightarrow> ULONG \<Rightarrow> ULONG64 \<Rightarrow> 'z gvm_state_scheme res" where
  "gvm_remove_mmio env s addr sz = gvm_map_memory env s addr (ucast sz) (HostRam s + ucast addr)"

text \<open>The eight regions \<open>gvm_init\<close> installs, in slot order.\<close>

definition gvm_init_regions :: "ULONG64 \<Rightarrow> ULONG64 \<Rightarrow> kvm_userspace_memory_region list" where
  "gvm_init_regions ram ram_size =
     [\<lparr>slot = 0, flags = 0, guest_phys_addr = 0, memory_size = 0x30000, userspace_addr = ram\<rparr>,
      \<lparr>slot = 1, flags = 0, guest_phys_addr = 0x30000, memory_size = 0x20000, userspace_addr = ram + 0x30000\<rparr>,
      \<lparr>slot = 2, flags = 0, guest_phys_addr = 0x50000, memory_size = 0x50000, userspace_addr = ram + 0x50000\<rparr>,
      \<lparr>slot = 3, flags = 0, guest_phys_addr = 0xa0000, memory_size = 0x20000,
       userspace_addr = ram + ram_size + 0xa0000\<rparr>,
      \<lparr>slot = 4, flags = 0, guest_phys_addr = 0xc0000, memory_size = 0x20000,
       userspace_addr = ram + ram_size + 0xc0000\<rparr>,
      \<lparr>slot = 5, flags = 0, guest_phys_addr = 0xe0000, memory_size = 0x20000,
       userspace_addr = ram + ram_size + 0xe0000\<rparr>,
      \<lparr>slot = 6, flags = 0, guest_phys_addr = 0x100000, memory_size = ram_size - 0x100000,
       userspace_addr = ram + 0x100000\<rparr>,
      \<lparr>slot = 7, flags = 0, guest_phys_addr = 0xfffe0000, memory_size = 0x20000,
       userspace_addr = ram + ram_size + 0xe0000\<rparr>]"

definition gvm_init_slot ::
  "env \<Rightarrow> kvm_userspace_memory_region \<Rightarrow> 'z gvm_state_scheme \<Rightarrow> 'z gvm_state_scheme res" where
  "gvm_init_slot env r s =
     bindE (ioctl_or_exit env (GVM_SET_USER_MEMORY_REGION r) s) (\<lambda>s.
     bindE (arr_set (mem_slots s) (unat (slot r)) r) (\<lambda>ms. Inr (s\<lparr>mem_slots := ms\<rparr>)))"

text \<open>The two regions of address space 1 (system management mode), which are not slots of the table.\<close>

definition ROM_SIZE :: ULONG64 where "ROM_SIZE = lsh1 21 + 0x20000"
definition PAGE_SIZE :: ULONG64 where "PAGE_SIZE = 0x1000"

definition gvm_smm_regions :: "ULONG64 \<Rightarrow> ULONG64 \<Rightarrow> kvm_userspace_memory_region list" where
  "gvm_smm_regions ram ram_size =
     [\<lparr>slot = 0 OR lsh1 16, flags = 0, guest_phys_addr = 0xa0000, memory_size = 0x20000,
       userspace_addr = ram + ram_size + ROM_SIZE + PAGE_SIZE\<rparr>,
      \<lparr>slot = 1 OR lsh1 16, flags = 0, guest_phys_addr = 0x30000, memory_size = 0x20000,
       userspace_addr = ram + ram_size + ROM_SIZE + PAGE_SIZE\<rparr>]"

definition gvm_init_smm ::
  "env \<Rightarrow> 'z gvm_state_scheme \<Rightarrow> ULONG64 \<Rightarrow> ULONG64 \<Rightarrow> 'z gvm_state_scheme res" where
  "gvm_init_smm env s ram ram_size =
     foldE (\<lambda>r. ioctl_or_exit env (GVM_SET_USER_MEMORY_REGION r)) (gvm_smm_regions ram ram_size) s"

definition gvm_init_slots ::
  "env \<Rightarrow> 'z gvm_state_scheme \<Rightarrow> ULONG64 \<Rightarrow> ULONG64 \<Rightarrow> 'z gvm_state_scheme res" where
  "gvm_init_slots env s ram ram_size =
     bindE (foldE (gvm_init_slot env) (gvm_init_regions ram ram_size) s) (\<lambda>s.
     gvm_init_smm env (s\<lparr>mem_slots_num := 7 + 1\<rparr>) ram ram_size)"

text \<open>\<open>SvmmInterrupt\<close> of \<open>SVMM.c\<close>: a failing request is only reported.\<close>

definition SvmmInterrupt :: "env \<Rightarrow> 'z gvm_state_scheme \<Rightarrow> DWORD \<Rightarrow> 'z gvm_state_scheme" where
  "SvmmInterrupt env s vector = snd (DeviceIoControl env (GVM_INTERRUPT vector) s)"

section \<open>Requests\<close>

lemma ioctl_or_exit_eq:
  "ioctl_or_exit env r s = (if env (EnvLog s) r then Inr (s\<lparr>EnvLog := EnvLog s @ [r]\<rparr>) else Inl Exit)"
  by (simp add: ioctl_or_exit_def DeviceIoControl_def ask_env_def)

section \<open>The slot search\<close>

text \<open>
  The slots below \<open>n\<close> are ordered and disjoint, and no slot wraps around the 64-bit address
  space.
\<close>

definition slots_sorted :: "kvm_userspace_memory_region list \<Rightarrow> nat \<Rightarrow> bool" where
  "slots_sorted ms n \<longleftrightarrow> n < length ms \<and>
     list_all (\<lambda>m. guest_phys_addr m \<le> guest_phys_addr m + memory_size m) (take n ms) \<and>
     sorted_wrt (\<lambda>a b. guest_phys_addr a + memory_size a \<le> guest_phys_addr b) (take n ms)"

definition slot_covers :: "kvm_userspace_memory_region \<Rightarrow> ULONG \<Rightarrow> 64 word \<Rightarrow> bool" where
  "slot_covers m addr end_addr \<longleftrightarrow> guest_phys_addr m \<le> ucast addr \<and> ucast addr < end_addr \<and>
     end_addr \<le> guest_phys_addr m + memory_size m"

lemma slots_sorted_nth:
  assumes "slots_sorted ms n" and "j < n"
  shows "guest_phys_addr (ms ! j) \<le> guest_phys_addr (ms ! j) + memory_size (ms ! j)"
    and "k < j \<Longrightarrow> guest_phys_addr (ms ! k) + memory_size (ms ! k) \<le> guest_phys_addr (ms ! j)"
  using assms by (auto simp: slots_sorted_def list_all_length sorted_wrt_iff_nth_less)

lemma slot_search_finds:
  assumes "slots_sorted ms n" and "j < n" and "slot_covers (ms ! j) addr e"
    and "0 \<le> left" and "left \<le> int j" and "int j \<le> right" and "right \<le> int n"
  shows "slot_search ms addr e left right i0 = Inr j"
  using assms
proof (induction ms addr e left right i0 rule: slot_search.induct)
  case (1 ms addr e left right i0)
  define i where "i = (left + right) div 2"
  have range: "left \<le> i" "i \<le> right" "i < int n" "0 \<le> i"
    using "1.prems" by (auto simp: i_def)
  have len: "nat i < length ms" using "1.prems"(1) range by (auto simp: slots_sorted_def)
  let ?m = "ms ! nat i"
  have lr: "left \<le> right" using range by simp
  note IH1 = "1.IH"(1) [OF lr i_def] and IH2 = "1.IH"(2) [OF lr i_def]
  consider "int j < i" | "int j = i" | "i < int j" by linarith
  then show ?case
  proof cases
    case 1
    then have "guest_phys_addr (ms ! j) + memory_size (ms ! j) \<le> guest_phys_addr ?m"
      and "guest_phys_addr ?m \<le> guest_phys_addr ?m + memory_size ?m"
      using slots_sorted_nth(1) [OF "1.prems"(1), of "nat i"] slots_sorted_nth(2) [OF "1.prems"(1), of "nat i" j]
        range 1 by auto
    then have "ucast addr < guest_phys_addr ?m" "\<not> guest_phys_addr ?m + memory_size ?m \<le> ucast addr"
      using "1.prems"(3) by (auto simp: slot_covers_def)
    moreover have "slot_search ms addr e left (i - 1) (nat i) = Inr j"
      by (rule IH2) (use "1.prems" 1 range calculation in auto)
    ultimately show ?thesis
      using lr len by (subst slot_search.simps) (auto simp: Let_def i_def [symmetric])
  next
    case 2
    then have "ms ! j = ?m" "nat i = j" by auto
    then show ?thesis
      using lr len "1.prems"(3)
      by (subst slot_search.simps) (auto simp: Let_def i_def [symmetric] slot_covers_def)
  next
    case 3
    then have "guest_phys_addr ?m + memory_size ?m \<le> guest_phys_addr (ms ! j)"
      using slots_sorted_nth(2) [OF "1.prems"(1,2), of "nat i"] range 3 by auto
    then have "guest_phys_addr ?m + memory_size ?m \<le> ucast addr"
      using "1.prems"(3) by (auto simp: slot_covers_def)
    moreover have "slot_search ms addr e (i + 1) right (nat i) = Inr j"
      by (rule IH1) (use "1.prems" 3 range calculation in auto)
    ultimately show ?thesis
      using lr len by (subst slot_search.simps) (auto simp: Let_def i_def [symmetric])
  qed
qed

lemma slot_search_returns:
  assumes "n < length ms" and "0 \<le> left" and "right \<le> int n" and "i0 \<le> n"
  shows "specE {} (\<lambda>k. k \<le> n) (slot_search ms addr e left right i0)"
  using assms
proof (induction ms addr e left right i0 rule: slot_search.induct)
  case (1 ms addr e left right i0)
  define i where "i = (left + right) div 2"
  show ?case
  proof (cases "left \<le> right")
    case True
    then have i: "0 \<le> i" "i \<le> int n" "nat i < length ms" "nat i \<le> n"
      using "1.prems" by (auto simp: i_def)
    note IH1 = "1.IH"(1) [OF True i_def] and IH2 = "1.IH"(2) [OF True i_def]
    show ?thesis using True i "1.prems" IH1 IH2
      by (subst slot_search.simps) (auto simp: Let_def i_def [symmetric])
  next
    case False
    then show ?thesis using "1.prems" by (subst slot_search.simps) simp
  qed
qed

section \<open>The initial memory map\<close>

definition wf_slots :: "'z gvm_state_scheme \<Rightarrow> bool" where
  "wf_slots s \<longleftrightarrow> length (mem_slots s) = 256 \<and> 0 \<le> sint (mem_slots_num s) \<and> sint (mem_slots_num s) < 256"

lemma take_Suc_update:
  "k < length xs \<Longrightarrow> take (Suc k) (xs[k := v]) = take k xs @ [v]"
  by (simp add: take_Suc_conv_app_nth)

lemma gvm_init_slots_fold:
  assumes "\<And>k. k < length rs \<Longrightarrow> unat (slot (rs ! k)) = b + k"
    and "b + length rs \<le> length (mem_slots s)"
  shows "specE {Exit} (\<lambda>t. take (b + length rs) (mem_slots t) = take b (mem_slots s) @ rs \<and>
            length (mem_slots t) = length (mem_slots s)) (foldE (gvm_init_slot env) rs s)"
  using assms
proof (induction rs arbitrary: b s)
  case Nil
  then show ?case by simp
next
  case (Cons r rs)
  have b: "unat (slot r) = b" "b < length (mem_slots s)" using Cons.prems(1) [of 0] Cons.prems(2) by auto
  let ?u = "s\<lparr>EnvLog := EnvLog s @ [GVM_SET_USER_MEMORY_REGION r], mem_slots := (mem_slots s)[b := r]\<rparr>"
  have "specE {Exit} (\<lambda>t. take (Suc b + length rs) (mem_slots t) = take (Suc b) (mem_slots ?u) @ rs \<and>
            length (mem_slots t) = length (mem_slots ?u)) (foldE (gvm_init_slot env) rs ?u)"
    using Cons.prems(1) [of "Suc _"] Cons.prems(2) by (intro Cons.IH) auto
  moreover have "gvm_init_slot env r s = (if env (EnvLog s) (GVM_SET_USER_MEMORY_REGION r) then Inr ?u else Inl Exit)"
    using b by (simp add: gvm_init_slot_def ioctl_or_exit_eq)
  ultimately show ?case using b by (simp add: take_Suc_update)
qed

lemma gvm_init_slots_sorted:
  assumes "length (mem_slots s) = 256" and "0x100000 \<le> ram_size" and "ram_size \<le> 0xfffe0000"
  shows "specE {Exit} (\<lambda>t. wf_slots t \<and> mem_slots_num t = 8 \<and> slots_sorted (mem_slots t) 8 \<and>
            take 8 (mem_slots t) = gvm_init_regions ram ram_size) (gvm_init_slots env s ram ram_size)"
proof -
  have "unat (slot (gvm_init_regions ram ram_size ! k)) = 0 + k"
    if "k < length (gvm_init_regions ram ram_size)" for k
    using that by (auto simp: gvm_init_regions_def nth_Cons split: nat.splits)
  moreover have len: "length (gvm_init_regions ram ram_size) = 8" by (simp add: gvm_init_regions_def)
  ultimately have "specE {Exit} (\<lambda>t. take 8 (mem_slots t) = gvm_init_regions ram ram_size \<and> length (mem_slots t) = 256)
          (foldE (gvm_init_slot env) (gvm_init_regions ram ram_size) s)"
    using gvm_init_slots_fold [of "gvm_init_regions ram ram_size" 0 s env] assms(1) by simp
  then show ?thesis unfolding gvm_init_slots_def
  proof (rule specE_bindI, elim conjE)
    fix t :: "'a gvm_state_scheme"
    let ?t = "t\<lparr>mem_slots_num := 7 + 1\<rparr>"
    assume t: "take 8 (mem_slots t) = gvm_init_regions ram ram_size" "length (mem_slots t) = 256"
    have "slots_sorted (mem_slots ?t) 8"
      unfolding slots_sorted_def using assms(2,3) t by (simp add: gvm_init_regions_def)
    then show "specE {Exit} (\<lambda>t. wf_slots t \<and> mem_slots_num t = 8 \<and> slots_sorted (mem_slots t) 8 \<and>
            take 8 (mem_slots t) = gvm_init_regions ram ram_size) (gvm_init_smm env ?t ram ram_size)"
      unfolding gvm_init_smm_def
      by (intro specE_foldI) (use t in \<open>auto simp: wf_slots_def ioctl_or_exit_eq\<close>)
  qed
qed

section \<open>Mapping and unmapping\<close>

text \<open>Both calls change the slot table and the request log only.\<close>

definition only_slots :: "'z gvm_state_scheme \<Rightarrow> 'z gvm_state_scheme \<Rightarrow> bool" where
  "only_slots s t \<longleftrightarrow> t = s\<lparr>mem_slots := mem_slots t, EnvLog := EnvLog t\<rparr>"

lemma only_slotsE:
  assumes "only_slots s t"
  obtains ms l where "t = s\<lparr>mem_slots := ms, EnvLog := l\<rparr>"
  using assms unfolding only_slots_def by blast

lemma slot_search_wf:
  assumes "wf_slots s"
  shows "specE {} (\<lambda>i. i < length (mem_slots s))
           (slot_search (mem_slots s) addr e 0 (sint (mem_slots_num s)) 0)"
proof -
  have "specE {} (\<lambda>i. i \<le> nat (sint (mem_slots_num s)))
          (slot_search (mem_slots s) addr e 0 (sint (mem_slots_num s)) 0)"
    using assms by (intro slot_search_returns) (auto simp: wf_slots_def)
  then show ?thesis by (rule specE_mono) (use assms in \<open>auto simp: wf_slots_def\<close>)
qed

lemma gvm_unmap_memory_spec:
  assumes "wf_slots s"
  shows "specE {Exit} (\<lambda>t. wf_slots t \<and> only_slots s t) (gvm_unmap_memory env s addr sz)"
proof -
  obtain i where i: "slot_search (mem_slots s) addr (ucast addr + sz) 0 (sint (mem_slots_num s)) 0 = Inr i"
    "i < length (mem_slots s)"
    using slot_search_wf [OF assms] by (auto simp: specE_total)
  then show ?thesis using assms
    by (simp add: gvm_unmap_memory_def ioctl_or_exit_eq wf_slots_def only_slots_def)
qed

lemma gvm_map_memory_spec:
  assumes "wf_slots s"
  shows "specE {Exit} (\<lambda>t. wf_slots t \<and> only_slots s t) (gvm_map_memory env s addr sz ram)"
proof -
  obtain i where i: "slot_search (mem_slots s) addr (ucast (addr + sz)) 0 (sint (mem_slots_num s)) 0 = Inr i"
    "i < length (mem_slots s)"
    using slot_search_wf [OF assms] by (auto simp: specE_total)
  then show ?thesis using assms
    by (simp add: gvm_map_memory_def ioctl_or_exit_eq wf_slots_def only_slots_def)
qed

section \<open>Properties\<close>

text \<open>The memory map the monitor installs. For a guest memory between 1 MB and 0xfffe0000
  bytes the initialisation either ends the process (the driver refused a region) or leaves
  the eight regions in the first eight slots, ordered by guest address and disjoint.\<close>

theorem gvm_init_slots_map:
  assumes "length (mem_slots s) = 256" and "0x100000 \<le> ram_size" and "ram_size \<le> 0xfffe0000"
  shows "specE {Exit} (\<lambda>t. wf_slots t \<and> mem_slots_num t = 8 \<and> slots_sorted (mem_slots t) 8 \<and>
            take 8 (mem_slots t) = gvm_init_regions ram ram_size) (gvm_init_slots env s ram ram_size)"
  using assms by (rule gvm_init_slots_sorted)

theorem gvm_init_slots_map_witness:
  "specE {Exit} (\<lambda>t. slots_sorted (mem_slots t) 8) (gvm_init_slots (\<lambda>_ _. True) gvm_zero 0x10000000 0x40000000)"
  by (rule specE_mono [OF gvm_init_slots_map])
     (simp_all add: gvm_zero_def timer_zero_def timer_state.defs gvm_state.defs)

text \<open>C17. Remapping memory. When the slots are ordered and disjoint and slot \<open>j\<close> covers the
  requested range, the binary search ends at that slot: exactly its host address changes, and the
  driver receives exactly that slot; only a refusal of the driver ends the process.\<close>

theorem gvm_map_memory_hits:
  assumes "slots_sorted (mem_slots s) (unat (mem_slots_num s))" and "unat (mem_slots_num s) < 256"
    and "j < unat (mem_slots_num s)" and "slot_covers (mem_slots s ! j) addr (ucast (addr + sz))"
  shows "gvm_map_memory env s addr sz ram =
     (if env (EnvLog s) (GVM_SET_USER_MEMORY_REGION ((mem_slots s ! j)\<lparr>userspace_addr := ram\<rparr>))
      then Inr (s\<lparr>mem_slots := (mem_slots s)[j := (mem_slots s ! j)\<lparr>userspace_addr := ram\<rparr>],
                  EnvLog := EnvLog s @ [GVM_SET_USER_MEMORY_REGION ((mem_slots s ! j)\<lparr>userspace_addr := ram\<rparr>)]\<rparr>)
      else Inl Exit)"
proof -
  have n: "sint (mem_slots_num s) = int (unat (mem_slots_num s))"
    using assms(2) by (intro sint_small)
  have "slot_search (mem_slots s) addr (ucast (addr + sz)) 0 (sint (mem_slots_num s)) 0 = Inr j"
    unfolding n by (rule slot_search_finds [OF assms(1,3,4)]) (use assms(3) in linarith)+
  moreover have "j < length (mem_slots s)" using assms(1,3) by (simp add: slots_sorted_def)
  ultimately show ?thesis by (simp add: gvm_map_memory_def ioctl_or_exit_eq)
qed

text \<open>The slot table right after initialisation, with 1 GB of guest memory.\<close>

definition slots_example :: gvm_state where
  "slots_example = gvm_zero\<lparr>mem_slots := gvm_init_regions 0 0x40000000 @ replicate 248 region_zero, mem_slots_num := 8\<rparr>"

lemma slots_example_facts:
  "slots_sorted (mem_slots slots_example) 8" "mem_slots_num slots_example = 8"
  "mem_slots slots_example ! 3 = \<lparr>slot = 3, flags = 0, guest_phys_addr = 0xa0000, memory_size = 0x20000,
     userspace_addr = 0x400a0000\<rparr>" "EnvLog slots_example = []"
  by (simp_all add: slots_sorted_def slots_example_def gvm_init_regions_def gvm_zero_def timer_zero_def
      timer_state.defs gvm_state.defs)

theorem gvm_map_memory_hits_witness:
  "specE {} (\<lambda>t. userspace_addr (mem_slots t ! 3) = 0x1234) (gvm_map_memory (\<lambda>_ _. True) slots_example 0xa0000 0x20000 0x1234)"
proof -
  have "slot_covers (mem_slots slots_example ! 3) 0xa0000 (ucast (0xa0000 + 0x20000 :: ULONG))"
    by (simp add: slots_example_facts slot_covers_def)
  moreover have "3 < length (mem_slots slots_example)" by (simp add: slots_example_def gvm_init_regions_def)
  ultimately show ?thesis
    using gvm_map_memory_hits [of slots_example 3 "0xa0000" "0x20000" "\<lambda>_ _. True" "0x1234"]
    by (simp add: slots_example_facts)
qed

text \<open>An address no slot covers. \<open>gvm_map_memory\<close> does not check that the search ended at a slot
  containing the address: in the initial memory map with 1 GB of memory, mapping the page at
  0xe0000000 redirects the BIOS slot at 0xfffe0000 to the given host address.\<close>

theorem gvm_map_memory_misses:
  "specE {} (\<lambda>t. guest_phys_addr (mem_slots t ! 7) = 0xfffe0000 \<and> userspace_addr (mem_slots t ! 7) = ram)
     (gvm_map_memory (\<lambda>_ _. True) slots_example 0xe0000000 0x10000 ram)"
proof -
  let ?ms = "mem_slots slots_example"
  have get: "arr_get ?ms 4 = Inr (?ms ! 4)" "arr_get ?ms 6 = Inr (?ms ! 6)" "arr_get ?ms 7 = Inr (?ms ! 7)"
    "length ?ms = 256"
    by (simp_all add: slots_example_def gvm_init_regions_def)
  have m: "guest_phys_addr (?ms ! 4) = 0xc0000" "memory_size (?ms ! 4) = 0x20000"
    "guest_phys_addr (?ms ! 6) = 0x100000" "memory_size (?ms ! 6) = 0x3ff00000"
    "guest_phys_addr (?ms ! 7) = 0xfffe0000" "memory_size (?ms ! 7) = 0x20000"
    by (simp_all add: slots_example_def gvm_init_regions_def)
  have "slot_search ?ms 0xe0000000 0xe0010000 7 6 7 = Inr 7" by (subst slot_search.simps) simp
  then have "slot_search ?ms 0xe0000000 0xe0010000 7 8 6 = Inr 7" using get m by (subst slot_search.simps) simp
  then have "slot_search ?ms 0xe0000000 0xe0010000 5 8 4 = Inr 7" using get m by (subst slot_search.simps) simp
  then have "slot_search ?ms 0xe0000000 0xe0010000 0 8 0 = Inr 7" using get m by (subst slot_search.simps) simp
  then show ?thesis using get m by (simp add: gvm_map_memory_def ioctl_or_exit_eq slots_example_facts)
qed

end
