(* ===== verification/Io_Bus.thy ===== *)
theory Io_Bus
  imports Bitmap Gvm
begin

text \<open>
  The I/O bus of \<open>pci.c\<close>: the table of port handlers (one entry per port) and the table of
  MMIO handlers (one entry per 64 KB of guest physical memory), each a bitmap of the taken
  entries with an array of write and an array of read callbacks. A callback is the name of the
  device whose handler it is. The locale \<open>handler_table\<close> is what the initialisation of the
  devices relies on; both tables are interpretations of it.
\<close>

section \<open>State\<close>

datatype port_dev = PicPort | PitPort | CmosPort | DmaPort | Ps2Port | SerialPort | ParallelPort
  | BiosPort | I440fxPort | Piix3Port | AcpiPort | IdePort | HardDiskPort | VgaPort | VgaVbePort

datatype mmio_dev = ApicMmio | IoApicMmio | HpetMmio | FlashMmio | VgaCoreMmio

record io_state = gvm_state +
  PortIoBitmap :: RTL_BITMAP
  WritePortHandlers :: "nat \<Rightarrow> port_dev option"
  ReadPortHandlers :: "nat \<Rightarrow> port_dev option"
  MMIOBitmap :: RTL_BITMAP
  MmioWriteHandlers :: "nat \<Rightarrow> mmio_dev option"
  MmioReadHandlers :: "nat \<Rightarrow> mmio_dev option"

definition bitmap_zero :: RTL_BITMAP where
  "bitmap_zero = \<lparr>SizeOfBitMap = 0, BitBuffer = []\<rparr>"

definition io_zero :: io_state where
  "io_zero = gvm_state.extend gvm_zero
     (io_state.fields bitmap_zero (\<lambda>_. None) (\<lambda>_. None) bitmap_zero (\<lambda>_. None) (\<lambda>_. None))"

section \<open>Port handlers\<close>

definition RegisterPortIoHandler ::
  "env \<Rightarrow> 'z io_state_scheme \<Rightarrow> ULONG \<Rightarrow> port_dev option \<Rightarrow> port_dev option \<Rightarrow> 'z io_state_scheme res" where
  "RegisterPortIoHandler env s addr w r =
     (let s = (if SizeOfBitMap (PortIoBitmap s) = 0
               then case calloc_words env (0xffff div 32) s of (buffer, s) \<Rightarrow>
                      s\<lparr>PortIoBitmap := RtlInitializeBitMap buffer (0xffff div 32)\<rparr>
               else s)
      in if addr \<ge> 0xffff then Inl Exit
         else bindE (RtlTestBit (PortIoBitmap s) addr) (\<lambda>taken.
              if taken then Inl Exit
              else bindE (RtlSetBit (PortIoBitmap s) addr) (\<lambda>bm.
                   Inr (s\<lparr>PortIoBitmap := bm,
                          WritePortHandlers := (WritePortHandlers s)(unat addr := w),
                          ReadPortHandlers := (ReadPortHandlers s)(unat addr := r)\<rparr>))))"

definition RemovePortIoHandler :: "'z io_state_scheme \<Rightarrow> ULONG \<Rightarrow> 'z io_state_scheme res" where
  "RemovePortIoHandler s addr =
     (if addr \<ge> 0xffff then Inl Exit
      else bindE (RtlTestBit (PortIoBitmap s) addr) (\<lambda>taken.
           if \<not> taken then Inl Exit
           else bindE (RtlClearBit (PortIoBitmap s) addr) (\<lambda>bm.
                Inr (s\<lparr>PortIoBitmap := bm,
                       WritePortHandlers := (WritePortHandlers s)(unat addr := None),
                       ReadPortHandlers := (ReadPortHandlers s)(unat addr := None)\<rparr>))))"

definition ReadPortIoHandler ::
  "(port_dev \<Rightarrow> ULONG \<Rightarrow> ULONG \<Rightarrow> 'z io_state_scheme \<Rightarrow> (ULONG \<times> 'z io_state_scheme) res) \<Rightarrow>
   'z io_state_scheme \<Rightarrow> ULONG \<Rightarrow> ULONG \<Rightarrow> (ULONG \<times> 'z io_state_scheme) res" where
  "ReadPortIoHandler run s addr len =
     (if addr \<ge> 0xffff then Inl Exit
      else bindE (RtlTestBit (PortIoBitmap s) addr) (\<lambda>taken.
           case ReadPortHandlers s (unat addr) of
             None \<Rightarrow> Inl Exit
           | Some d \<Rightarrow> if taken then run d addr len s else Inl Exit))"

definition WritePortIoHandler ::
  "(port_dev \<Rightarrow> ULONG \<Rightarrow> ULONG \<Rightarrow> ULONG \<Rightarrow> 'z io_state_scheme \<Rightarrow> 'z io_state_scheme res) \<Rightarrow>
   'z io_state_scheme \<Rightarrow> ULONG \<Rightarrow> ULONG \<Rightarrow> ULONG \<Rightarrow> 'z io_state_scheme res" where
  "WritePortIoHandler run s addr val len =
     (if addr \<ge> 0xffff then Inl Exit
      else bindE (RtlTestBit (PortIoBitmap s) addr) (\<lambda>taken.
           case WritePortHandlers s (unat addr) of
             None \<Rightarrow> Inl Exit
           | Some d \<Rightarrow> if taken then run d addr val len s else Inl Exit))"

definition GetPortIoHandler ::
  "'z io_state_scheme \<Rightarrow> ULONG \<Rightarrow> (port_dev \<times> port_dev) res" where
  "GetPortIoHandler s addr =
     (if addr \<ge> 0xffff then Inl Exit
      else bindE (RtlTestBit (PortIoBitmap s) addr) (\<lambda>taken.
           case (WritePortHandlers s (unat addr), ReadPortHandlers s (unat addr)) of
             (Some w, Some r) \<Rightarrow> if taken then Inr (w, r) else Inl Exit
           | _ \<Rightarrow> Inl Exit))"

section \<open>MMIO handlers\<close>

text \<open>
  The \<open>do ... while\<close> loop of \<open>MmioRegisterHandler\<close>. Nothing in it checks the index again, so a
  range that passes the end of the arrays is an access outside them.
\<close>

function mmio_fill ::
  "ULONG \<Rightarrow> ULONG \<Rightarrow> mmio_dev option \<Rightarrow> mmio_dev option \<Rightarrow> nat \<Rightarrow> 'z io_state_scheme \<Rightarrow>
   'z io_state_scheme res" where
  "mmio_fill addr sz w r index s =
     (if index \<ge> 0xffff then Inl OutOfBounds
      else bindE (RtlSetBit (MMIOBitmap s) (of_nat index)) (\<lambda>bm.
           let s = s\<lparr>MMIOBitmap := bm,
                     MmioWriteHandlers := (MmioWriteHandlers s)(index := w),
                     MmioReadHandlers := (MmioReadHandlers s)(index := r)\<rparr>
           in if (index + 1) * 2 ^ 16 < unat addr + unat sz then mmio_fill addr sz w r (index + 1) s
              else Inr s))"
  by pat_completeness auto
termination
  by (relation "measure (\<lambda>(addr, sz, w, r, index, s). 0xffff - index)") auto

declare mmio_fill.simps [simp del]

definition MmioRegisterHandler ::
  "env \<Rightarrow> 'z io_state_scheme \<Rightarrow> ULONG \<Rightarrow> ULONG \<Rightarrow> mmio_dev option \<Rightarrow> mmio_dev option \<Rightarrow>
   'z io_state_scheme res" where
  "MmioRegisterHandler env s addr sz w r =
     (let index = drop_bit 16 addr;
          s = (if SizeOfBitMap (MMIOBitmap s) = 0
               then case calloc_words env (0xffff div 32) s of (buffer, s) \<Rightarrow>
                      s\<lparr>MMIOBitmap := RtlInitializeBitMap buffer (0xffff div 32)\<rparr>
               else s)
      in if index \<ge> 0xffff then Inl Exit
         else bindE (RtlTestBit (MMIOBitmap s) index) (\<lambda>taken.
              if taken then Inl Exit
              else bindE (mmio_fill addr sz w r (unat index) s) (\<lambda>s.
                   gvm_register_mmio env s addr (ucast sz))))"

definition MmioRemoveHandler :: "env \<Rightarrow> 'z io_state_scheme \<Rightarrow> ULONG \<Rightarrow> 'z io_state_scheme res" where
  "MmioRemoveHandler env s addr =
     (let index = drop_bit 16 addr
      in if index \<ge> 0xffff then Inl Exit
         else bindE (RtlTestBit (MMIOBitmap s) index) (\<lambda>taken.
              if \<not> taken then Inl Exit
              else bindE (RtlClearBit (MMIOBitmap s) index) (\<lambda>bm.
                   gvm_remove_mmio env (s\<lparr>MMIOBitmap := bm,
                     MmioWriteHandlers := (MmioWriteHandlers s)(unat index := None),
                     MmioReadHandlers := (MmioReadHandlers s)(unat index := None)\<rparr>) addr 0x10000)))"

text \<open>
  \<open>Data\<close> is the buffer of the exit record: a read handler may fill it, a write handler reads it.
\<close>

definition MmioReadHandler ::
  "(mmio_dev \<Rightarrow> ULONG \<Rightarrow> 'd \<Rightarrow> ULONG \<Rightarrow> 'z io_state_scheme \<Rightarrow> ('d \<times> 'z io_state_scheme) res) \<Rightarrow>
   'z io_state_scheme \<Rightarrow> ULONG \<Rightarrow> 'd \<Rightarrow> ULONG \<Rightarrow> ('d \<times> 'z io_state_scheme) res" where
  "MmioReadHandler run s addr data len =
     (let index = drop_bit 16 addr
      in if index \<ge> 0xffff then Inl Exit
         else bindE (RtlTestBit (MMIOBitmap s) index) (\<lambda>taken.
              case MmioReadHandlers s (unat index) of
                None \<Rightarrow> Inl Exit
              | Some d \<Rightarrow> if taken then run d addr data len s else Inl Exit))"

definition MmioWriteHandler ::
  "(mmio_dev \<Rightarrow> ULONG \<Rightarrow> 'd \<Rightarrow> ULONG \<Rightarrow> 'z io_state_scheme \<Rightarrow> 'z io_state_scheme res) \<Rightarrow>
   'z io_state_scheme \<Rightarrow> ULONG \<Rightarrow> 'd \<Rightarrow> ULONG \<Rightarrow> 'z io_state_scheme res" where
  "MmioWriteHandler run s addr data len =
     (let index = drop_bit 16 addr
      in if index \<ge> 0xffff then Inl Exit
         else bindE (RtlTestBit (MMIOBitmap s) index) (\<lambda>taken.
              case MmioWriteHandlers s (unat index) of
                None \<Rightarrow> Inl Exit
              | Some d \<Rightarrow> if taken then run d addr data len s else Inl Exit))"

section \<open>The interface of a handler table\<close>

text \<open>
  \<open>entry\<close> is the table index of an address and \<open>usable\<close> says which addresses the table really
  holds. \<open>E\<close> are the errors a registration may end with although the entry is free.
\<close>

locale handler_table =
  fixes usable :: "ULONG \<Rightarrow> bool"
    and entry :: "ULONG \<Rightarrow> nat"
    and look :: "'s \<Rightarrow> ULONG \<Rightarrow> ('w \<times> 'r) option"
    and reg :: "'s \<Rightarrow> ULONG \<Rightarrow> 'w \<Rightarrow> 'r \<Rightarrow> 's res"
    and rem :: "'s \<Rightarrow> ULONG \<Rightarrow> 's res"
    and inv :: "'s \<Rightarrow> bool"
    and E :: "svmm_error set"
  assumes reg_free: "inv s \<Longrightarrow> usable a \<Longrightarrow> look s a = None \<Longrightarrow>
      specE E (\<lambda>t. inv t \<and> (\<forall>b. usable b \<longrightarrow>
        look t b = (if entry b = entry a then Some (w, r) else look s b))) (reg s a w r)"
    and reg_taken: "inv s \<Longrightarrow> usable a \<Longrightarrow> look s a \<noteq> None \<Longrightarrow> reg s a w r = Inl Exit"
    and rem_taken: "inv s \<Longrightarrow> usable a \<Longrightarrow> look s a \<noteq> None \<Longrightarrow>
      specE E (\<lambda>t. inv t \<and> (\<forall>b. usable b \<longrightarrow>
        look t b = (if entry b = entry a then None else look s b))) (rem s a)"
    and rem_free: "inv s \<Longrightarrow> usable a \<Longrightarrow> look s a = None \<Longrightarrow> rem s a = Inl Exit"
begin

lemma reg_rem:
  assumes "inv s" and "usable a" and "look s a = None" and "\<And>b. usable b \<Longrightarrow> entry b = entry a \<Longrightarrow> look s b = None"
  shows "specE E (\<lambda>t. inv t \<and> (\<forall>b. usable b \<longrightarrow> look t b = look s b)) (bindE (reg s a w r) (\<lambda>t. rem t a))"
proof (rule specE_bindI [OF reg_free [OF assms(1-3), of w r]], elim conjE)
  fix t assume t: "inv t" "\<forall>b. usable b \<longrightarrow> look t b = (if entry b = entry a then Some (w, r) else look s b)"
  show "specE E (\<lambda>t. inv t \<and> (\<forall>b. usable b \<longrightarrow> look t b = look s b)) (rem t a)"
    by (rule specE_mono [OF rem_taken [OF t(1) assms(2)]]) (use t assms in auto)
qed

lemma reg_all:
  assumes "inv s" and "\<And>a. a \<in> set as \<Longrightarrow> usable a \<and> look s a = None" and "distinct (map entry as)"
  shows "specE E (\<lambda>t. inv t \<and> (\<forall>b. usable b \<longrightarrow>
      look t b = (if entry b \<in> entry ` set as then Some (w, r) else look s b)))
    (foldE (\<lambda>a s. reg s a w r) as s)"
  using assms
proof (induction as arbitrary: s)
  case Nil
  then show ?case by simp
next
  case (Cons a as)
  have a: "usable a" "look s a = None" using Cons.prems(2) by auto
  show ?case unfolding foldE.simps
  proof (rule specE_bindI [OF reg_free [OF Cons.prems(1) a, of w r]], elim conjE)
    fix t assume t: "inv t" "\<forall>b. usable b \<longrightarrow> look t b = (if entry b = entry a then Some (w, r) else look s b)"
    have free: "usable b \<and> look t b = None" if "b \<in> set as" for b
    proof -
      have "entry b \<noteq> entry a" using that Cons.prems(3) by (metis distinct.simps(2) image_eqI list.set_map list.simps(9))
      then show ?thesis using that Cons.prems(2) t(2) by simp
    qed
    show "specE E (\<lambda>t. inv t \<and> (\<forall>b. usable b \<longrightarrow>
        look t b = (if entry b \<in> entry ` set (a # as) then Some (w, r) else look s b)))
        (foldE (\<lambda>a s. reg s a w r) as t)"
      using Cons.prems(3) t(2) by (intro specE_mono [OF Cons.IH [OF t(1) free]]) auto
  qed
qed

lemma reg_twice:
  assumes "inv s" and "usable a"
  shows "E \<subseteq> {Exit} \<Longrightarrow> bindE (reg s a w r) (\<lambda>t. reg t a w' r') = Inl Exit"
proof (cases "look s a")
  case None
  assume E: "E \<subseteq> {Exit}"
  show ?thesis
  proof (cases "reg s a w r")
    case (Inl e)
    then show ?thesis using reg_free [OF assms None, of w r] E by auto
  next
    case (Inr t)
    then show ?thesis using reg_free [OF assms None, of w r] reg_taken [of t a w' r'] assms(2) by simp
  qed
next
  case (Some p)
  then show ?thesis using reg_taken [OF assms, of w r] by simp
qed

end

section \<open>The port table\<close>

definition bm_ready :: "RTL_BITMAP \<Rightarrow> bool" where
  "bm_ready bm \<longleftrightarrow> SizeOfBitMap bm \<noteq> 0 \<and> length (BitBuffer bm) = 0xffff div 32"

text \<open>
  The bitmap has 2047 words, which is 65504 bits: the addresses from 0xffe0 to 0xfffe pass the
  check of the handlers and lie outside the bitmap.
\<close>

definition port_usable :: "ULONG \<Rightarrow> bool" where
  "port_usable a \<longleftrightarrow> unat a < 65504"

definition port_lookup :: "'z io_state_scheme \<Rightarrow> ULONG \<Rightarrow> (port_dev option \<times> port_dev option) option" where
  "port_lookup s a = (if RtlTestBit (PortIoBitmap s) a = Inr True
     then Some (WritePortHandlers s (unat a), ReadPortHandlers s (unat a)) else None)"

definition wf_ports :: "'z io_state_scheme \<Rightarrow> bool" where
  "wf_ports s \<longleftrightarrow> bm_ready (PortIoBitmap s)"

lemma bm_ready_valid: "bm_ready bm \<Longrightarrow> bm_valid bm a \<longleftrightarrow> unat a < 65504"
  by (simp add: bm_ready_def bm_valid_def)

lemma bm_ready_set: "bm_ready bm \<Longrightarrow> RtlSetBit bm a = Inr bm' \<Longrightarrow> bm_ready bm'"
  by (auto simp: bm_ready_def RtlSetBit_eq split: if_splits)

lemma bm_ready_clear: "bm_ready bm \<Longrightarrow> RtlClearBit bm a = Inr bm' \<Longrightarrow> bm_ready bm'"
  by (auto simp: bm_ready_def RtlClearBit_eq split: if_splits)

lemma bm_ready_test:
  assumes "bm_ready bm" and "unat a < 65504"
  obtains v where "RtlTestBit bm a = Inr v"
  using assms bm.test_valid bm_ready_valid by blast

lemma usable_below: "unat (a :: ULONG) < 65504 \<Longrightarrow> \<not> 0xffff \<le> a"
  by (simp add: word_le_nat_alt)

lemma RegisterPortIoHandler_free:
  assumes "wf_ports s" and "port_usable a" and "port_lookup s a = None"
  obtains bm where "RtlSetBit (PortIoBitmap s) a = Inr bm"
    "RegisterPortIoHandler env s a w r = Inr (s\<lparr>PortIoBitmap := bm,
       WritePortHandlers := (WritePortHandlers s)(unat a := w),
       ReadPortHandlers := (ReadPortHandlers s)(unat a := r)\<rparr>)"
proof -
  have v: "bm_valid (PortIoBitmap s) a" "\<not> 0xffff \<le> a" "SizeOfBitMap (PortIoBitmap s) \<noteq> 0"
    using assms bm_ready_valid usable_below by (auto simp: wf_ports_def port_usable_def bm_ready_def)
  obtain bm where bm: "RtlSetBit (PortIoBitmap s) a = Inr bm" using bm.set_valid v(1) by blast
  obtain v' where "RtlTestBit (PortIoBitmap s) a = Inr v'" using bm.test_valid v(1) by blast
  moreover from this have "\<not> v'" using assms(3) by (auto simp: port_lookup_def split: if_splits)
  ultimately show ?thesis using that [OF bm] bm v by (simp add: RegisterPortIoHandler_def)
qed

lemma port_entry_eq: "unat a = unat b \<longleftrightarrow> a = (b :: ULONG)"
  by (simp add: word_unat_eq_iff)

interpretation ports: handler_table port_usable unat port_lookup "RegisterPortIoHandler env"
  RemovePortIoHandler wf_ports "{}" for env
proof unfold_locales
  fix s :: "'z io_state_scheme" and a w r
  assume s: "wf_ports s" and a: "port_usable a"
  have v: "bm_valid (PortIoBitmap s) a" "\<not> 0xffff \<le> a" "SizeOfBitMap (PortIoBitmap s) \<noteq> 0"
    using s a bm_ready_valid usable_below by (auto simp: wf_ports_def port_usable_def bm_ready_def)
  obtain v' where t: "RtlTestBit (PortIoBitmap s) a = Inr v'" using bm.test_valid v(1) by blast
  {
    assume free: "port_lookup s a = None"
    then have "v' = False" using t by (auto simp: port_lookup_def split: if_splits)
    then show "RemovePortIoHandler s a = Inl Exit" using t v by (simp add: RemovePortIoHandler_def)
    obtain bm where bm: "RtlSetBit (PortIoBitmap s) a = Inr bm"
      and reg: "RegisterPortIoHandler env s a w r = Inr (s\<lparr>PortIoBitmap := bm,
         WritePortHandlers := (WritePortHandlers s)(unat a := w),
         ReadPortHandlers := (ReadPortHandlers s)(unat a := r)\<rparr>)"
      using RegisterPortIoHandler_free [OF s a free] by blast
    show "specE {} (\<lambda>t. wf_ports t \<and> (\<forall>b. port_usable b \<longrightarrow> port_lookup t b =
            (if unat b = unat a then Some (w, r) else port_lookup s b))) (RegisterPortIoHandler env s a w r)"
      using s bm_ready_set [OF _ bm] bm.test_set [OF bm]
      by (simp add: reg wf_ports_def port_lookup_def port_entry_eq)
  next
    assume taken: "port_lookup s a \<noteq> None"
    then have tt: "v' = True" using t by (auto simp: port_lookup_def split: if_splits)
    then show "RegisterPortIoHandler env s a w r = Inl Exit"
      using t v by (simp add: RegisterPortIoHandler_def)
    obtain bm where bm: "RtlClearBit (PortIoBitmap s) a = Inr bm" using bm.clear_valid v(1) by blast
    show "specE {} (\<lambda>t. wf_ports t \<and> (\<forall>b. port_usable b \<longrightarrow> port_lookup t b =
            (if unat b = unat a then None else port_lookup s b))) (RemovePortIoHandler s a)"
      using s bm_ready_clear [OF _ bm] bm.test_clear [OF bm] t v tt bm
      by (simp add: RemovePortIoHandler_def wf_ports_def port_lookup_def port_entry_eq)
  }
qed

section \<open>The MMIO table\<close>

text \<open>The addresses whose 4 KB page lies inside one entry of the table.\<close>

definition mmio_usable :: "ULONG \<Rightarrow> bool" where
  "mmio_usable a \<longleftrightarrow> unat a div 2 ^ 16 < 65504 \<and> unat a mod 2 ^ 16 \<le> 2 ^ 16 - 0x1000"

definition mmio_entry :: "ULONG \<Rightarrow> nat" where
  "mmio_entry a = unat (drop_bit 16 a)"

definition mmio_lookup :: "'z io_state_scheme \<Rightarrow> ULONG \<Rightarrow> (mmio_dev option \<times> mmio_dev option) option" where
  "mmio_lookup s a = (if RtlTestBit (MMIOBitmap s) (drop_bit 16 a) = Inr True
     then Some (MmioWriteHandlers s (mmio_entry a), MmioReadHandlers s (mmio_entry a)) else None)"

definition wf_mmio :: "'z io_state_scheme \<Rightarrow> bool" where
  "wf_mmio s \<longleftrightarrow> bm_ready (MMIOBitmap s) \<and> wf_slots s"

lemma mmio_entry_div: "mmio_entry a = unat a div 2 ^ 16"
  by (simp only: mmio_entry_def unat_drop_bit_eq) (simp only: drop_bit_eq_div)

lemma mmio_entry_eq: "mmio_entry a = mmio_entry b \<longleftrightarrow> drop_bit 16 a = drop_bit 16 b"
  by (simp add: mmio_entry_def word_unat_eq_iff)

lemma mmio_usable_test:
  assumes "wf_mmio s" and "mmio_usable a"
  shows "bm_valid (MMIOBitmap s) (drop_bit 16 a)" and "\<not> 0xffff \<le> drop_bit 16 a"
    and "SizeOfBitMap (MMIOBitmap s) \<noteq> 0" and "mmio_entry a < 65504"
proof -
  show e: "mmio_entry a < 65504" using assms(2) by (simp add: mmio_entry_div mmio_usable_def)
  show "bm_valid (MMIOBitmap s) (drop_bit 16 a)"
    using assms(1) e bm_ready_valid unfolding wf_mmio_def mmio_entry_def by blast
  show "\<not> 0xffff \<le> drop_bit 16 a" using e usable_below unfolding mmio_entry_def by blast
  show "SizeOfBitMap (MMIOBitmap s) \<noteq> 0" using assms(1) by (simp add: wf_mmio_def bm_ready_def)
qed

lemma mmio_fill_page:
  assumes "mmio_usable a" and "RtlSetBit (MMIOBitmap s) (drop_bit 16 a) = Inr bm"
  shows "mmio_fill a 0x1000 w r (mmio_entry a) s = Inr (s\<lparr>MMIOBitmap := bm,
     MmioWriteHandlers := (MmioWriteHandlers s)(mmio_entry a := w),
     MmioReadHandlers := (MmioReadHandlers s)(mmio_entry a := r)\<rparr>)"
proof -
  have "\<not> (n div 65536 + 1) * 65536 < n + 4096" if "n mod 65536 \<le> 61440" for n :: nat
  proof -
    obtain q r where qr: "n div 65536 = q" "n mod 65536 = r" by simp
    then have "n = q * 65536 + r" using div_mult_mod_eq [of n 65536] by simp
    then show ?thesis using that unfolding qr by simp
  qed
  then have e: "mmio_entry a < 65504" "\<not> (mmio_entry a + 1) * 2 ^ 16 < unat a + unat (0x1000 :: ULONG)"
    using assms(1) by (simp_all add: mmio_usable_def mmio_entry_div)
  have "(of_nat (mmio_entry a) :: ULONG) = drop_bit 16 a" by (simp add: mmio_entry_def)
  then show ?thesis using e assms(2) by (subst mmio_fill.simps) simp
qed

interpretation mmio: handler_table mmio_usable mmio_entry mmio_lookup
  "\<lambda>s a. MmioRegisterHandler env s a 0x1000" "MmioRemoveHandler env" wf_mmio "{Exit}" for env
proof unfold_locales
  fix s :: "'z io_state_scheme" and a w r
  assume s: "wf_mmio s" and a: "mmio_usable a"
  note v = mmio_usable_test [OF s a]
  let ?i = "drop_bit 16 a"
  have e: "unat ?i = mmio_entry a" by (simp add: mmio_entry_def)
  obtain v' where t: "RtlTestBit (MMIOBitmap s) ?i = Inr v'" using bm.test_valid v(1) by blast
  {
    assume free: "mmio_lookup s a = None"
    then have v': "v' = False" using t by (auto simp: mmio_lookup_def split: if_splits)
    then show "MmioRemoveHandler env s a = Inl Exit" using t v by (simp add: MmioRemoveHandler_def)
    obtain bm where bm: "RtlSetBit (MMIOBitmap s) ?i = Inr bm" using bm.set_valid v(1) by blast
    let ?s = "s\<lparr>MMIOBitmap := bm, MmioWriteHandlers := (MmioWriteHandlers s)(mmio_entry a := w),
       MmioReadHandlers := (MmioReadHandlers s)(mmio_entry a := r)\<rparr>"
    have "MmioRegisterHandler env s a 0x1000 w r = gvm_unmap_memory env ?s a 0x1000"
      using t v v' mmio_fill_page [OF a bm, of w r] by (simp add: MmioRegisterHandler_def gvm_register_mmio_def e)
    moreover have "wf_slots ?s" using s by (simp add: wf_mmio_def wf_slots_def)
    from gvm_unmap_memory_spec [OF this]
    have "specE {Exit} (\<lambda>t. wf_mmio t \<and> (\<forall>b. mmio_usable b \<longrightarrow> mmio_lookup t b =
            (if mmio_entry b = mmio_entry a then Some (w, r) else mmio_lookup s b)))
            (gvm_unmap_memory env ?s a 0x1000)"
      by (rule specE_mono)
         (use s bm_ready_set [OF _ bm] bm.test_set [OF bm] in
           \<open>auto elim!: only_slotsE simp: wf_mmio_def mmio_lookup_def mmio_entry_eq\<close>)
    ultimately show "specE {Exit} (\<lambda>t. wf_mmio t \<and> (\<forall>b. mmio_usable b \<longrightarrow> mmio_lookup t b =
            (if mmio_entry b = mmio_entry a then Some (w, r) else mmio_lookup s b)))
            (MmioRegisterHandler env s a 0x1000 w r)" by simp
  next
    assume taken: "mmio_lookup s a \<noteq> None"
    then have tt: "v' = True" using t by (auto simp: mmio_lookup_def split: if_splits)
    then show "MmioRegisterHandler env s a 0x1000 w r = Inl Exit"
      using t v by (simp add: MmioRegisterHandler_def)
    obtain bm where bm: "RtlClearBit (MMIOBitmap s) ?i = Inr bm" using bm.clear_valid v(1) by blast
    let ?s = "s\<lparr>MMIOBitmap := bm, MmioWriteHandlers := (MmioWriteHandlers s)(mmio_entry a := None),
       MmioReadHandlers := (MmioReadHandlers s)(mmio_entry a := None)\<rparr>"
    have "MmioRemoveHandler env s a = gvm_remove_mmio env ?s a 0x10000"
      using t v tt bm by (simp add: MmioRemoveHandler_def e)
    moreover have "wf_slots ?s" using s by (simp add: wf_mmio_def wf_slots_def)
    from gvm_map_memory_spec [OF this]
    have "specE {Exit} (\<lambda>t. wf_mmio t \<and> (\<forall>b. mmio_usable b \<longrightarrow> mmio_lookup t b =
            (if mmio_entry b = mmio_entry a then None else mmio_lookup s b)))
            (gvm_remove_mmio env ?s a 0x10000)"
      unfolding gvm_remove_mmio_def
      by (rule specE_mono)
         (use s bm_ready_clear [OF _ bm] bm.test_clear [OF bm] in
           \<open>auto elim!: only_slotsE simp: wf_mmio_def mmio_lookup_def mmio_entry_eq\<close>)
    ultimately show "specE {Exit} (\<lambda>t. wf_mmio t \<and> (\<forall>b. mmio_usable b \<longrightarrow> mmio_lookup t b =
            (if mmio_entry b = mmio_entry a then None else mmio_lookup s b)))
            (MmioRemoveHandler env s a)" by simp
  }
qed

section \<open>Properties\<close>

text \<open>C18. Installing a device on the port bus. When a device registers pairwise different free
  ports, every registration succeeds; afterwards reads and writes of those ports run the
  handlers of that device, and accesses to any other port below 65504 go where they went
  before.\<close>

theorem port_registration_dispatch:
  assumes "wf_ports s" and "distinct as" and "\<And>a. a \<in> set as \<Longrightarrow> port_usable a \<and> port_lookup s a = None"
  shows "\<exists>t. foldE (\<lambda>a s. RegisterPortIoHandler env s a (Some d) (Some d)) as s = Inr t \<and>
     (\<forall>a \<in> set as. WritePortIoHandler wr t a val len = wr d a val len t \<and> ReadPortIoHandler rd t a len = rd d a len t) \<and>
     (\<forall>b. port_usable b \<longrightarrow> b \<notin> set as \<longrightarrow> port_lookup t b = port_lookup s b)"
proof -
  have dist: "distinct (map (unat :: ULONG \<Rightarrow> nat) as)"
    using assms(2) by (simp add: distinct_map inj_on_def port_entry_eq)
  have img: "unat b \<in> unat ` set as \<longleftrightarrow> b \<in> set as" for b :: ULONG
    by (auto simp: port_entry_eq)
  obtain t where t: "foldE (\<lambda>a s. RegisterPortIoHandler env s a (Some d) (Some d)) as s = Inr t"
    "\<forall>b. port_usable b \<longrightarrow> port_lookup t b = (if b \<in> set as then Some (Some d, Some d) else port_lookup s b)"
    using ports.reg_all [OF assms(1) assms(3) dist, of "Some d" "Some d" env] by (auto simp: specE_total img)
  have "WritePortIoHandler wr t a val len = wr d a val len t \<and> ReadPortIoHandler rd t a len = rd d a len t"
    if a: "a \<in> set as" for a
  proof -
    have u: "port_usable a" using a assms(3) by blast
    have "port_lookup t a = Some (Some d, Some d)" using t(2) a u by simp
    then have "RtlTestBit (PortIoBitmap t) a = Inr True" "WritePortHandlers t (unat a) = Some d"
      "ReadPortHandlers t (unat a) = Some d"
      by (auto simp: port_lookup_def split: if_splits)
    moreover have "\<not> 0xffff \<le> a" using u usable_below by (simp add: port_usable_def)
    ultimately show ?thesis by (simp add: WritePortIoHandler_def ReadPortIoHandler_def)
  qed
  then show ?thesis using t by auto
qed

text \<open>The bus after the first registration has allocated its bitmap.\<close>

definition bus_example :: io_state where
  "bus_example = io_zero\<lparr>PortIoBitmap := RtlInitializeBitMap (replicate 2047 0) 2047\<rparr>"

lemma bus_example_facts: "wf_ports bus_example" "unat a < 65504 \<Longrightarrow> port_lookup bus_example a = None"
  by (simp_all add: bus_example_def wf_ports_def bm_ready_def RtlInitializeBitMap_def port_lookup_def
      RtlTestBit_eq bm_valid_def)

theorem port_registration_dispatch_witness:
  "\<exists>t. foldE (\<lambda>a s. RegisterPortIoHandler (\<lambda>_ _. True) s a (Some PitPort) (Some PitPort)) [0x40, 0x41, 0x42, 0x43] bus_example = Inr t \<and>
     ReadPortIoHandler (\<lambda>d a len s. Inr (if d = PitPort then a else 0, s)) t 0x42 1 = Inr (0x42, t)"
proof -
  have "port_usable a \<and> port_lookup bus_example a = None" if "a \<in> set [0x40, 0x41, 0x42, 0x43]" for a
    using that bus_example_facts(2) by (auto simp: port_usable_def)
  then show ?thesis
    using port_registration_dispatch [OF bus_example_facts(1), of "[0x40, 0x41, 0x42, 0x43]" "\<lambda>_ _. True" PitPort
      "\<lambda>d a v len s. Inr s" 0 1 "\<lambda>d a len s. Inr (if d = PitPort then a else 0, s)"]
    by auto
qed

text \<open>The ports the range check lets through although the bitmap has no bit for them. The bitmap
  has 65535 div 32 words, so for the addresses from 0xffe0 to 0xfffe the registration, the
  removal, a guest's read and a guest's write all access memory outside the buffer.\<close>

theorem port_bitmap_too_small:
  assumes "wf_ports s" and "65504 \<le> unat a" and "unat a < 65535"
  shows "RegisterPortIoHandler env s a w r = Inl OutOfBounds \<and> RemovePortIoHandler s a = Inl OutOfBounds \<and>
     ReadPortIoHandler rd s a len = Inl OutOfBounds \<and> WritePortIoHandler wr s a val len = Inl OutOfBounds"
proof -
  have "\<not> 0xffff \<le> a" using assms(3) by (simp add: word_le_nat_alt)
  moreover have "RtlTestBit (PortIoBitmap s) a = Inl OutOfBounds" "SizeOfBitMap (PortIoBitmap s) \<noteq> 0"
    using assms bm_ready_valid [of "PortIoBitmap s" a] bm.test_invalid
    by (auto simp: wf_ports_def bm_ready_def)
  ultimately show ?thesis
    by (simp add: RegisterPortIoHandler_def RemovePortIoHandler_def ReadPortIoHandler_def WritePortIoHandler_def)
qed

theorem port_bitmap_too_small_witness:
  "ReadPortIoHandler (\<lambda>d a len s. Inr (0, s)) bus_example 0xfffe 1 = Inl OutOfBounds"
  using port_bitmap_too_small [OF bus_example_facts(1), of "0xfffe" undefined None None "\<lambda>d a len s. Inr (0, s)" 1]
  by simp


definition mmio_example :: io_state where
  "mmio_example = io_zero\<lparr>MMIOBitmap := RtlInitializeBitMap (replicate 2047 0) 2047,
     mem_slots := gvm_init_regions 0 0x40000000 @ replicate 248 region_zero, mem_slots_num := 8\<rparr>"


end
