(* ===== verification/Intr_State.thy ===== *)
theory Intr_State
  imports Io_Bus
begin

text \<open>
  The registers of the I/O APIC and of the local APIC, the part of the machine state that
  \<open>apic.c\<close> and \<open>ioapic.c\<close> share, and the one operation of the I/O APIC that the local APIC
  calls back (\<open>IoApicReceiveEndOfInterrupt\<close>).

  The fixed-size arrays of these structures are total functions of the index: the code reads
  and writes them at indices that are bounded where they are computed (four bits of a vector,
  a pin that was compared with \<open>IOAPIC_NUM_PINS\<close>). \<open>Lapic\<close> itself has one element
  and is indexed with guest-controlled values, so those accesses are checked.
\<close>

section \<open>State\<close>

record IO_REDIRECT_ENTRY =
  High :: DWORD
  Low :: DWORD

record IOAPIC =
  IoRegisterSelect :: DWORD
  IoApicId :: DWORD
  IoApicVersion :: DWORD
  IoRedirectTable :: "nat \<Rightarrow> IO_REDIRECT_ENTRY"
  Irr :: DWORD

type_synonym vector_reg = "nat \<Rightarrow> USHORT"

record LAPIC =
  ApicId :: DWORD
  ApicVersion :: DWORD
  TaskPriority :: DWORD
  InterruptServiceRegister :: vector_reg
  TriggerModeRegister :: vector_reg
  InterruptRequestRegister :: vector_reg
  DestinationLogical :: DWORD
  DestinationFormat :: DWORD
  InterruptCommandRegisterLow :: DWORD
  InterruptCommandRegisterHigh :: DWORD
  LocalVectorTable :: "nat \<Rightarrow> DWORD"
  TimerDivideConfigurationRegister :: DWORD
  TimerInitialCountRegister :: DWORD
  TimerInitialLoadTime :: ULONG64
  TimerNextExpire :: ULONG64
  ErrorStatus :: DWORD
  ShadowErrorStatus :: DWORD
  LapicTimerId :: DWORD
  SpuriousVector :: BYTE
  SoftwareEnable :: BYTE
  FocusDisable :: BYTE
  MsrEnable :: BYTE

record intr_state = io_state +
  IoApic :: IOAPIC
  Lapic :: LAPIC

definition IOAPIC_zero :: IOAPIC where
  "IOAPIC_zero = \<lparr>IoRegisterSelect = 0, IoApicId = 0, IoApicVersion = 0,
     IoRedirectTable = (\<lambda>_. \<lparr>High = 0, Low = 0\<rparr>), Irr = 0\<rparr>"

definition LAPIC_zero :: LAPIC where
  "LAPIC_zero = \<lparr>ApicId = 0, ApicVersion = 0, TaskPriority = 0, InterruptServiceRegister = (\<lambda>_. 0),
     TriggerModeRegister = (\<lambda>_. 0), InterruptRequestRegister = (\<lambda>_. 0), DestinationLogical = 0,
     DestinationFormat = 0, InterruptCommandRegisterLow = 0, InterruptCommandRegisterHigh = 0,
     LocalVectorTable = (\<lambda>_. 0), TimerDivideConfigurationRegister = 0, TimerInitialCountRegister = 0,
     TimerInitialLoadTime = 0, TimerNextExpire = 0, ErrorStatus = 0, ShadowErrorStatus = 0,
     LapicTimerId = 0, SpuriousVector = 0, SoftwareEnable = 0, FocusDisable = 0, MsrEnable = 0\<rparr>"

definition intr_zero :: intr_state where
  "intr_zero = io_state.extend io_zero (intr_state.fields IOAPIC_zero LAPIC_zero)"

lemmas zero_defs = intr_zero_def io_zero_def gvm_zero_def timer_zero_def
  timer_state.defs gvm_state.defs io_state.defs intr_state.defs

definition IOAPIC_NUM_PINS :: nat where "IOAPIC_NUM_PINS = 24"
definition IOAPIC_MASKED :: DWORD where "IOAPIC_MASKED = lsh1 16"
definition IOAPIC_LEVEL_SENSITIVE :: DWORD where "IOAPIC_LEVEL_SENSITIVE = lsh1 15"
definition IOAPIC_IRR :: DWORD where "IOAPIC_IRR = lsh1 14"
definition IOAPIC_RAISED :: DWORD where "IOAPIC_RAISED = lsh1 13"
definition IOAPIC_DELIVERY_STATUS :: DWORD where "IOAPIC_DELIVERY_STATUS = lsh1 12"
definition IOAPIC_DESTINATION_MODE :: DWORD where "IOAPIC_DESTINATION_MODE = lsh1 11"
definition IOAPIC_DELIVERY_MODE :: DWORD where "IOAPIC_DELIVERY_MODE = push_bit 8 7"

lemmas IOAPIC_consts = IOAPIC_NUM_PINS_def IOAPIC_MASKED_def IOAPIC_LEVEL_SENSITIVE_def IOAPIC_IRR_def
  IOAPIC_RAISED_def IOAPIC_DELIVERY_STATUS_def IOAPIC_DESTINATION_MODE_def IOAPIC_DELIVERY_MODE_def

section \<open>Access to MMIO data\<close>

text \<open>
  \<open>Data\<close> points at the eight bytes of an MMIO exit record, modelled as one little-endian 64-bit
  word. A handler reads or writes the low 1, 2 or 4 bytes.
\<close>

definition mmio_get :: "ULONG64 \<Rightarrow> ULONG \<Rightarrow> ULONG option" where
  "mmio_get data len =
     (if len = 1 then Some (ucast data AND 0xff)
      else if len = 2 then Some (ucast data AND 0xffff)
      else if len = 4 then Some (ucast data)
      else None)"

definition mmio_put :: "ULONG64 \<Rightarrow> ULONG \<Rightarrow> ULONG \<Rightarrow> ULONG64" where
  "mmio_put data len val =
     (if len = 1 then (data AND NOT 0xff) OR (ucast val AND 0xff)
      else if len = 2 then (data AND NOT 0xffff) OR (ucast val AND 0xffff)
      else if len = 4 then (data AND NOT 0xffffffff) OR ucast val
      else data)"

lemma mmio_get_put:
  "mmio_get data len = Some v \<Longrightarrow> mmio_get (mmio_put data' len w) len =
     Some (if len = 1 then w AND 0xff else if len = 2 then w AND 0xffff else w)"
proof -
  have *: "(0xff :: 'a::len word) = mask 8" "(0xffff :: 'a::len word) = mask 16" "(0xffffffff :: 'a::len word) = mask 32"
    by (simp_all add: mask_eq_exp_minus_1)
  assume "mmio_get data len = Some v"
  then have "len = 1 \<or> len = 2 \<or> len = 4" by (auto simp: mmio_get_def split: if_splits)
  then show ?thesis
    by (elim disjE) (simp_all only: mmio_get_def mmio_put_def * if_True if_False option.inject,
      auto intro!: bit_word_eqI simp: bit_simps)
qed

section \<open>End of interrupt\<close>

definition upd_redirect :: "nat \<Rightarrow> (IO_REDIRECT_ENTRY \<Rightarrow> IO_REDIRECT_ENTRY) \<Rightarrow> 'z intr_state_scheme \<Rightarrow> 'z intr_state_scheme" where
  "upd_redirect pin f s =
     s\<lparr>IoApic := (IoApic s)\<lparr>IoRedirectTable := (IoRedirectTable (IoApic s))(pin := f (IoRedirectTable (IoApic s) pin))\<rparr>\<rparr>"

abbreviation redirect_low :: "'z intr_state_scheme \<Rightarrow> nat \<Rightarrow> DWORD" where
  "redirect_low s pin \<equiv> Low (IoRedirectTable (IoApic s) pin)"

definition IoApicReceiveEndOfInterrupt :: "'z intr_state_scheme \<Rightarrow> BYTE \<Rightarrow> 'z intr_state_scheme" where
  "IoApicReceiveEndOfInterrupt s vector =
     fold (\<lambda>pin s.
       if testw (redirect_low s pin) IOAPIC_LEVEL_SENSITIVE \<and> redirect_low s pin AND 0xff = ucast vector
       then upd_redirect pin (\<lambda>e. e\<lparr>Low := Low e AND NOT IOAPIC_IRR\<rparr>) s
       else s) [0 ..< IOAPIC_NUM_PINS] s"

end
