(* ===== verification/Apic.thy ===== *)
theory Apic
  imports Intr_State
begin

text \<open>
  The local APIC of \<open>apic.c\<close>: priorities, the request, service and trigger-mode registers,
  delivery of interrupts over the APIC bus, the APIC timer, and the MMIO registers. The three
  vector registers are shown to implement sets of vectors: raising a vector inserts it, the
  acknowledge cycle moves the largest requested vector into service, and the end of
  interrupt removes the largest vector in service.
\<close>

section \<open>Constants\<close>

definition DELIVERY_MODE_FIXED :: DWORD where "DELIVERY_MODE_FIXED = 0"
definition DELIVERY_MODE_LOW_PRI :: DWORD where "DELIVERY_MODE_LOW_PRI = lsh1 8"
definition DELIVERY_MODE_SMI :: DWORD where "DELIVERY_MODE_SMI = lsh1 9"
definition DELIVERY_MODE_NMI :: DWORD where "DELIVERY_MODE_NMI = lsh1 10"
definition DELIVERY_MODE_INIT :: DWORD where "DELIVERY_MODE_INIT = push_bit 8 5"
definition DELIVERY_MODE_SIPI :: DWORD where "DELIVERY_MODE_SIPI = push_bit 8 6"
definition DELIVERY_MODE_EXT :: DWORD where "DELIVERY_MODE_EXT = push_bit 8 7"
definition DELIVERY_MODE_MASK :: DWORD where "DELIVERY_MODE_MASK = push_bit 8 7"
definition DESTINATION_MODE_PHYSICAL :: DWORD where "DESTINATION_MODE_PHYSICAL = 0"
definition LAPIC_DESTINATION_MODE_MASK :: DWORD where "LAPIC_DESTINATION_MODE_MASK = lsh1 11"
definition LAPIC_LVT_MASKED :: DWORD where "LAPIC_LVT_MASKED = lsh1 16"
definition LAPIC_RAISED :: DWORD where "LAPIC_RAISED = lsh1 14"
definition LAPIC_TIMER_PERIODIC :: DWORD where "LAPIC_TIMER_PERIODIC = lsh1 17"
definition LAPIC_TRIGGER_MODE_MASK :: DWORD where "LAPIC_TRIGGER_MODE_MASK = lsh1 15"
definition LAPIC_DSH_APICID :: DWORD where "LAPIC_DSH_APICID = 0"
definition LAPIC_DSH_SELF :: DWORD where "LAPIC_DSH_SELF = lsh1 18"
definition LAPIC_DSH_ALL :: DWORD where "LAPIC_DSH_ALL = lsh1 19"
definition LAPIC_DSH_ALL_NO_SELF :: DWORD where "LAPIC_DSH_ALL_NO_SELF = push_bit 18 3"
definition LAPIC_DSH_MASK :: DWORD where "LAPIC_DSH_MASK = push_bit 18 3"
definition LAPIC_ESR_RECV_ILLEGAL_VECTOR :: DWORD where "LAPIC_ESR_RECV_ILLEGAL_VECTOR = lsh1 6"
definition APIC_ERR_TX_ACCEPT_ERR :: DWORD where "APIC_ERR_TX_ACCEPT_ERR = 0x04"
definition APIC_ERR_ILLEGAL_ADDR :: DWORD where "APIC_ERR_ILLEGAL_ADDR = 0x80"
definition APIC_DEFAULT_MMIO :: ULONG where "APIC_DEFAULT_MMIO = 0xfee00000"
definition APIC_MSR_SW_EN :: ULONG64 where "APIC_MSR_SW_EN = lsh1 11"
definition APIC_MSR_BSP :: ULONG64 where "APIC_MSR_BSP = lsh1 8"
definition MSR_IA32_APICBASE :: ULONG where "MSR_IA32_APICBASE = 0x1b"
definition APIC_LVT_ENTRIES :: nat where "APIC_LVT_ENTRIES = 7"
definition APIC_LVT_TIMER :: nat where "APIC_LVT_TIMER = 0"
definition APIC_LVT_CMCI :: nat where "APIC_LVT_CMCI = 6"
definition NUM_LOCAL_APICS :: nat where "NUM_LOCAL_APICS = 1"

lemmas APIC_consts = DELIVERY_MODE_FIXED_def DELIVERY_MODE_LOW_PRI_def DELIVERY_MODE_SMI_def
  DELIVERY_MODE_NMI_def DELIVERY_MODE_INIT_def DELIVERY_MODE_SIPI_def DELIVERY_MODE_EXT_def
  DELIVERY_MODE_MASK_def DESTINATION_MODE_PHYSICAL_def LAPIC_DESTINATION_MODE_MASK_def
  LAPIC_LVT_MASKED_def LAPIC_RAISED_def LAPIC_TIMER_PERIODIC_def LAPIC_TRIGGER_MODE_MASK_def
  LAPIC_DSH_APICID_def LAPIC_DSH_SELF_def LAPIC_DSH_ALL_def LAPIC_DSH_ALL_NO_SELF_def LAPIC_DSH_MASK_def

section \<open>Priorities\<close>

text \<open>The loops \<open>for (i = 15; i >= 1; i--) if (P i) return i; return i\<close>.\<close>

fun scan_down :: "(nat \<Rightarrow> bool) \<Rightarrow> nat \<Rightarrow> nat" where
  "scan_down P 0 = 0"
| "scan_down P (Suc i) = (if P (Suc i) then Suc i else scan_down P i)"

definition ApicHighestVectorBit :: "USHORT \<Rightarrow> nat" where
  "ApicHighestVectorBit reg = scan_down (\<lambda>i. testw reg (lsh1 i)) 15"

definition ApicHighestPriority :: "vector_reg \<Rightarrow> nat" where
  "ApicHighestPriority reg = scan_down (\<lambda>i. reg i AND 0xffff \<noteq> 0) 15"

definition ApicGetProcessPriority :: "LAPIC \<Rightarrow> BYTE" where
  "ApicGetProcessPriority l =
     (let ppr = of_nat (ApicHighestPriority (InterruptServiceRegister l)) :: DWORD
      in if ppr < TaskPriority l then ucast (TaskPriority l) else ucast ppr)"

definition ApicGetArbitrationPriority :: "LAPIC \<Rightarrow> BYTE" where
  "ApicGetArbitrationPriority l =
     (let ppr = ApicGetProcessPriority l;
          irrPrio = of_nat (ApicHighestPriority (InterruptRequestRegister l))
      in if irrPrio > ppr then irrPrio else ppr)"

definition ApicMatchLogicalAddress :: "LAPIC \<Rightarrow> DWORD \<Rightarrow> DWORD" where
  "ApicMatchLogicalAddress l dest =
     (if DestinationFormat l = 0xf then dest AND DestinationLogical l
      else if DestinationFormat l = 0
      then if dest = 0xff then 1
           else if dest AND 0xf0 = DestinationLogical l AND 0xf0
           then dest AND DestinationLogical l AND 0x0f
           else 0
      else 0)"

section \<open>Requesting and servicing interrupts\<close>

definition upd_lapic :: "(LAPIC \<Rightarrow> LAPIC) \<Rightarrow> 'z intr_state_scheme \<Rightarrow> 'z intr_state_scheme" where
  "upd_lapic f s = s\<lparr>Lapic := f (Lapic s)\<rparr>"

definition ApicService :: "'z intr_state_scheme \<Rightarrow> 'z intr_state_scheme" where
  "ApicService s =
     (let ppr = ApicGetProcessPriority (Lapic s);
          irrPrio = of_nat (ApicHighestPriority (InterruptRequestRegister (Lapic s)))
      in if irrPrio > ppr
         then if testw (svmm_events s) EVENT_PENDING_LAPIC_INTR then s
              else if request_interrupt_window s \<noteq> 0 then s
              else s\<lparr>request_interrupt_window := 1,
                     svmm_events := svmm_events s OR EVENT_PENDING_LAPIC_INTR\<rparr>
         else s)"

text \<open>A vector is the number of a 16-bit word of a vector register and a bit of it.\<close>

definition vec_word :: "BYTE \<Rightarrow> nat" where "vec_word v = unat v div 16"
definition vec_bit :: "BYTE \<Rightarrow> nat" where "vec_bit v = unat v mod 16"

definition reg_set :: "vector_reg \<Rightarrow> nat \<Rightarrow> nat \<Rightarrow> vector_reg" where
  "reg_set r w b = r(w := r w OR lsh1 b)"

definition reg_clear :: "vector_reg \<Rightarrow> nat \<Rightarrow> nat \<Rightarrow> vector_reg" where
  "reg_clear r w b = r(w := r w AND NOT (lsh1 b))"

definition ApicReceiveEOI :: "'z intr_state_scheme \<Rightarrow> 'z intr_state_scheme" where
  "ApicReceiveEOI s =
     (let isr = InterruptServiceRegister (Lapic s);
          isrPrio = ApicHighestPriority isr;
          vector = of_nat (ApicHighestVectorBit (isr isrPrio) + isrPrio * 16) :: BYTE
      in if vector \<noteq> SpuriousVector (Lapic s)
         then let s = upd_lapic (\<lambda>l. l\<lparr>InterruptServiceRegister :=
                        reg_clear (InterruptServiceRegister l) isrPrio (vec_bit vector)\<rparr>) s;
                  s = (if testw (TriggerModeRegister (Lapic s) isrPrio) (lsh1 (vec_bit vector))
                       then upd_lapic (\<lambda>l. l\<lparr>TriggerModeRegister :=
                              reg_clear (TriggerModeRegister l) isrPrio (vec_bit vector)\<rparr>)
                              (IoApicReceiveEndOfInterrupt s vector)
                       else s)
              in ApicService s
         else s)"

definition ApicWriteSpuriousInterrupt :: "'z intr_state_scheme \<Rightarrow> ULONG \<Rightarrow> 'z intr_state_scheme" where
  "ApicWriteSpuriousInterrupt s val =
     (let s = upd_lapic (\<lambda>l. l\<lparr>SpuriousVector := (ucast val AND 0xf0) OR 0xf,
                               SoftwareEnable := ucast (drop_bit 8 val AND 1),
                               FocusDisable := ucast (drop_bit 9 val AND 1)\<rparr>) s
      in if SoftwareEnable (Lapic s) = 0
         then upd_lapic (\<lambda>l. l\<lparr>LocalVectorTable := (\<lambda>i. if i < APIC_LVT_ENTRIES
                then LocalVectorTable l i OR LAPIC_LVT_MASKED else LocalVectorTable l i)\<rparr>) s
         else s)"

definition lvt_mask :: "DWORD list" where
  "lvt_mask = [0x000710ff, 0x000117ff, 0x000117ff, 0x0001f7ff, 0x0001f7ff, 0x000110ff, 0x000117ff]"

definition ApicSetLvtEntry :: "'z intr_state_scheme \<Rightarrow> DWORD \<Rightarrow> DWORD \<Rightarrow> 'z intr_state_scheme res" where
  "ApicSetLvtEntry s reg val =
     (let lvt_entry = (if reg = 0x2F0 then APIC_LVT_CMCI else unat (drop_bit 4 (reg - 0x320)))
      in bindE (arr_get lvt_mask lvt_entry) (\<lambda>m.
         Inr (upd_lapic (\<lambda>l. l\<lparr>LocalVectorTable := (LocalVectorTable l)(lvt_entry :=
                if SoftwareEnable l = 0 then (val AND m) OR LAPIC_LVT_MASKED else val AND m)\<rparr>) s)))"

text \<open>Every access to \<open>Lapic[ApicId]\<close> with an index other than 0 lies outside the array.\<close>

definition ApicSetIrq :: "'z intr_state_scheme \<Rightarrow> DWORD \<Rightarrow> BYTE \<Rightarrow> DWORD \<Rightarrow> 'z intr_state_scheme res" where
  "ApicSetIrq s apicId vector level =
     (if unat apicId \<ge> NUM_LOCAL_APICS then Inl OutOfBounds
      else if vector \<le> 15
      then Inr (upd_lapic (\<lambda>l. l\<lparr>ShadowErrorStatus := ShadowErrorStatus l OR LAPIC_ESR_RECV_ILLEGAL_VECTOR\<rparr>) s)
      else if testw (InterruptRequestRegister (Lapic s) (vec_word vector)) (lsh1 (vec_bit vector)) then Inr s
      else Inr (ApicService (upd_lapic (\<lambda>l. l\<lparr>
             InterruptRequestRegister := reg_set (InterruptRequestRegister l) (vec_word vector) (vec_bit vector),
             TriggerModeRegister := (if level \<noteq> 0
               then reg_set (TriggerModeRegister l) (vec_word vector) (vec_bit vector)
               else reg_clear (TriggerModeRegister l) (vec_word vector) (vec_bit vector))\<rparr>) s)))"

text \<open>
  With one APIC both loops of the C function have one round. The status 1 says that nobody took
  the interrupt.
\<close>

definition ApicBusDeliverLowPriorityInterrupt ::
  "'z intr_state_scheme \<Rightarrow> BYTE \<Rightarrow> DWORD \<Rightarrow> DWORD \<Rightarrow> (DWORD \<times> 'z intr_state_scheme) res" where
  "ApicBusDeliverLowPriorityInterrupt s vector dest trigger =
     (if FocusDisable (Lapic s) = 0 \<and> MsrEnable (Lapic s) \<noteq> 0
      then bindE (ApicSetIrq s 0 vector trigger) (\<lambda>s. Inr (0, s))
      else if MsrEnable (Lapic s) \<noteq> 0 \<and> ApicMatchLogicalAddress (Lapic s) dest \<noteq> 0 \<and>
              TaskPriority (Lapic s) < 0x10
      then bindE (ApicSetIrq s 0 vector trigger) (\<lambda>s. Inr (0, s))
      else Inr (1, s))"

definition ApicAcknowledgeInterrupt :: "'z intr_state_scheme \<Rightarrow> (BYTE \<times> 'z intr_state_scheme) res" where
  "ApicAcknowledgeInterrupt s =
     (if \<not> testw (svmm_events s) EVENT_PENDING_LAPIC_INTR then Inl Exit
      else let irr = InterruptRequestRegister (Lapic s);
               irrPrio = ApicHighestPriority irr
           in if of_nat irrPrio < ApicGetProcessPriority (Lapic s)
              then Inr (SpuriousVector (Lapic s),
                        s\<lparr>svmm_events := svmm_events s AND NOT EVENT_PENDING_LAPIC_INTR\<rparr>)
              else let vector = of_nat (ApicHighestVectorBit (irr irrPrio) + irrPrio * 16) :: BYTE;
                       s = upd_lapic (\<lambda>l. l\<lparr>
                         InterruptRequestRegister := reg_clear (InterruptRequestRegister l) (vec_word vector) (vec_bit vector),
                         InterruptServiceRegister := reg_set (InterruptServiceRegister l) (vec_word vector) (vec_bit vector)\<rparr>) s;
                       s = s\<lparr>svmm_events := svmm_events s AND NOT EVENT_PENDING_LAPIC_INTR\<rparr>
                   in Inr (vector, ApicService s))"

definition ApicBusDeliverInterrupt ::
  "env \<Rightarrow> 'z intr_state_scheme \<Rightarrow> BYTE \<Rightarrow> DWORD \<Rightarrow> DWORD \<Rightarrow> DWORD \<Rightarrow> DWORD \<Rightarrow> (DWORD \<times> 'z intr_state_scheme) res" where
  "ApicBusDeliverInterrupt env s vector dest destMode deliveryMode trigger =
     (let deliveryMode = (if destMode = DESTINATION_MODE_PHYSICAL \<and> deliveryMode = DELIVERY_MODE_LOW_PRI
                          then DELIVERY_MODE_FIXED else deliveryMode)
      in if deliveryMode = DELIVERY_MODE_FIXED
         then if destMode = DESTINATION_MODE_PHYSICAL
              then if unat dest < NUM_LOCAL_APICS \<and> MsrEnable (Lapic s) \<noteq> 0
                   then bindE (ApicSetIrq s dest vector trigger) (\<lambda>s. Inr (0, s))
                   else Inr (0, s)
              else if MsrEnable (Lapic s) \<noteq> 0 \<and> ApicMatchLogicalAddress (Lapic s) dest \<noteq> 0
                   then bindE (ApicSetIrq s 0 vector trigger) (\<lambda>s. Inr (0, s))
                   else Inr (0, s)
         else if deliveryMode = DELIVERY_MODE_LOW_PRI
         then ApicBusDeliverLowPriorityInterrupt s vector dest trigger
         else if deliveryMode = DELIVERY_MODE_SMI
         then Inr (1, snd (DeviceIoControl env GVM_SMI s))
         else if deliveryMode = DELIVERY_MODE_NMI
         then Inr (1, snd (DeviceIoControl env GVM_NMI s))
         else if deliveryMode \<in> {DELIVERY_MODE_INIT, DELIVERY_MODE_SIPI, DELIVERY_MODE_EXT}
         then Inr (1, s)
         else Inl Exit)"

text \<open>
  \<open>cpuId == Lapic[0].ApicId\<close> holds for the only round of the "all but self" loop when the
  APIC id is 0.
\<close>

definition ApicSendIpi ::
  "env \<Rightarrow> 'z intr_state_scheme \<Rightarrow> BYTE \<Rightarrow> DWORD \<Rightarrow> DWORD \<Rightarrow> DWORD \<Rightarrow> DWORD \<Rightarrow> DWORD \<Rightarrow>
   (DWORD \<times> 'z intr_state_scheme) res" where
  "ApicSendIpi env s vector dest destMode deliveryMode trigger shorthand =
     (if deliveryMode = DELIVERY_MODE_INIT
      then ApicBusDeliverLowPriorityInterrupt s vector dest trigger
      else bindE
        (if shorthand = LAPIC_DSH_APICID
         then ApicBusDeliverInterrupt env s vector dest destMode deliveryMode trigger
         else if shorthand = LAPIC_DSH_SELF
         then bindE (ApicSetIrq s dest vector trigger) (\<lambda>s. Inr (0, s))
         else if shorthand = LAPIC_DSH_ALL_NO_SELF
         then if ApicId (Lapic s) = 0 then Inr (0, s)
              else ApicBusDeliverInterrupt env s vector dest destMode deliveryMode trigger
         else if shorthand = LAPIC_DSH_ALL
         then ApicBusDeliverInterrupt env s vector dest destMode deliveryMode trigger
         else Inr (0, s))
        (\<lambda>(status, s). Inr (status,
           if status \<noteq> 0
           then upd_lapic (\<lambda>l. l\<lparr>ShadowErrorStatus := ShadowErrorStatus l OR APIC_ERR_TX_ACCEPT_ERR\<rparr>) s
           else s)))"

section \<open>The APIC timer\<close>

text \<open>The divide configuration is used as a shift count of a 64-bit value.\<close>

definition ApicGetNextTimerCount :: "LAPIC \<Rightarrow> ULONG64 \<Rightarrow> ULONG64 res" where
  "ApicGetNextTimerCount l currentTime =
     (let d = unat (TimerDivideConfigurationRegister l);
          count = ucast (TimerInitialCountRegister l) :: ULONG64
      in if d \<ge> 64 then Inl BadShift
         else let timePassed = drop_bit d (currentTime - TimerInitialLoadTime l)
              in if testw (LocalVectorTable l APIC_LVT_TIMER) LAPIC_TIMER_PERIODIC
                 then if TimerInitialCountRegister l = 0 then Inr 0
                      else Inr (TimerInitialLoadTime l +
                                push_bit d ((timePassed div (count + 1) + 1) * (count + 1)))
                 else if timePassed \<ge> count then Inr 0
                      else Inr (TimerInitialLoadTime l + push_bit d (count + 1)))"

definition ApicTimerHandler :: "env \<Rightarrow> nat \<Rightarrow> 'z intr_state_scheme \<Rightarrow> 'z intr_state_scheme res" where
  "ApicTimerHandler env param s =
     (if param \<ge> NUM_LOCAL_APICS then Inr s
      else let lvt = LocalVectorTable (Lapic s) APIC_LVT_TIMER
           in if testw lvt LAPIC_LVT_MASKED then Inr s
              else bindE (ApicBusDeliverInterrupt env s (ucast lvt) (of_nat param) DESTINATION_MODE_PHYSICAL
                            (lvt AND DELIVERY_MODE_MASK) (lvt AND LAPIC_TRIGGER_MODE_MASK)) (\<lambda>(_, s).
                   bindE (ApicGetNextTimerCount (Lapic s) (TimerInitialLoadTime (Lapic s))) (\<lambda>n.
                   let s = upd_lapic (\<lambda>l. l\<lparr>TimerNextExpire := n\<rparr>) s
                   in TimerActivate s (LapicTimerId (Lapic s)) (TimerNextExpire (Lapic s))
                        (b2w (\<not> testw (LocalVectorTable (Lapic s) APIC_LVT_TIMER) LAPIC_TIMER_PERIODIC)))))"

section \<open>Initialisation\<close>

text \<open>The message buffer of the request is allocated first; both failures end the process.\<close>

definition set_msr_or_exit :: "env \<Rightarrow> ULONG64 \<Rightarrow> 'z intr_state_scheme \<Rightarrow> 'z intr_state_scheme res" where
  "set_msr_or_exit env data s =
     (case ask_env env (Calloc 1) s of (ok, s) \<Rightarrow>
        if ok then ioctl_or_exit env (GVM_SET_MSRS MSR_IA32_APICBASE data) s else Inl Exit)"

definition ApicReset :: "env \<Rightarrow> 'z intr_state_scheme \<Rightarrow> 'z intr_state_scheme res" where
  "ApicReset env s =
     (let s = upd_lapic (\<lambda>l. l\<lparr>ApicVersion := push_bit 16 (of_nat APIC_LVT_ENTRIES - 1) OR 0x10,
                               SpuriousVector := 0xff, MsrEnable := 1, SoftwareEnable := 0\<rparr>) s;
          s = upd_lapic (\<lambda>l. l\<lparr>ApicId := 0\<rparr>) s
      in bindE (TimerCreate s ApicTimerFn 0) (\<lambda>(timer, s).
         set_msr_or_exit env (ucast APIC_DEFAULT_MMIO OR APIC_MSR_BSP) (upd_lapic (\<lambda>l. l\<lparr>LapicTimerId := timer\<rparr>) s)))"

definition ApicSetMsr :: "env \<Rightarrow> 'z intr_state_scheme \<Rightarrow> ULONG64 \<Rightarrow> 'z intr_state_scheme res" where
  "ApicSetMsr env s val =
     (let s = upd_lapic (\<lambda>l. l\<lparr>MsrEnable := b2w (testw val APIC_MSR_SW_EN)\<rparr>) s;
          s = upd_lapic (\<lambda>l. l\<lparr>MsrEnable := 1\<rparr>) s
      in set_msr_or_exit env (ucast APIC_DEFAULT_MMIO OR APIC_MSR_BSP OR
                              (if testw val APIC_MSR_SW_EN then APIC_MSR_SW_EN else 0)) s)"

definition ApicInitialize :: "env \<Rightarrow> 'z intr_state_scheme \<Rightarrow> 'z intr_state_scheme res" where
  "ApicInitialize env s =
     bindE (MmioRegisterHandler env (s\<lparr>Lapic := LAPIC_zero\<rparr>) APIC_DEFAULT_MMIO 0x1000 (Some ApicMmio) (Some ApicMmio)) (\<lambda>s.
     bindE (ApicReset env s) (\<lambda>s. ApicSetMsr env s APIC_MSR_SW_EN))"

section \<open>Registers\<close>

text \<open>The registers a write leaves alone.\<close>

definition lapic_read_only :: "ULONG \<Rightarrow> bool" where
  "lapic_read_only reg \<longleftrightarrow> reg \<in> {0x020, 0x030, 0x090, 0x0C0, 0x0A0, 0x390} \<or>
     reg \<in> {0x100, 0x110, 0x120, 0x130, 0x140, 0x150, 0x160, 0x170} \<or>
     reg \<in> {0x180, 0x190, 0x1A0, 0x1B0, 0x1C0, 0x1D0, 0x1E0, 0x1F0} \<or>
     reg \<in> {0x200, 0x210, 0x220, 0x230, 0x240, 0x250, 0x260, 0x270}"

definition ApicWriteInitialCount :: "'z intr_state_scheme \<Rightarrow> ULONG \<Rightarrow> 'z intr_state_scheme res" where
  "ApicWriteInitialCount s val =
     bindE (TimerGetState s (LapicTimerId (Lapic s))) (\<lambda>active.
     bindE (if active \<noteq> 0 then TimerDeactivate s (LapicTimerId (Lapic s)) else Inr s) (\<lambda>s.
     if val \<noteq> 0
     then let s = upd_lapic (\<lambda>l. l\<lparr>TimerInitialCountRegister := val, TimerInitialLoadTime := TimerGetClockNs s\<rparr>) s
          in TimerActivate s (LapicTimerId (Lapic s))
               (TimerInitialLoadTime (Lapic s) + ucast (TimerInitialCountRegister (Lapic s)) *
                  ucast (TimerDivideConfigurationRegister (Lapic s)))
               (b2w (\<not> testw (LocalVectorTable (Lapic s) APIC_LVT_TIMER) LAPIC_TIMER_PERIODIC))
     else Inr s))"

definition ApicMMIOWriteHandler ::
  "env \<Rightarrow> 'z intr_state_scheme \<Rightarrow> ULONG \<Rightarrow> ULONG64 \<Rightarrow> ULONG \<Rightarrow> 'z intr_state_scheme res" where
  "ApicMMIOWriteHandler env s addr data len =
     (if len \<noteq> 4 \<or> testw addr 0xf then Inr s
      else let val = ucast data :: ULONG; reg = addr AND 0xff0
      in if reg = 0x080
         then if val > 15 then Inr s
              else if TaskPriority (Lapic s) > val
              then Inr (ApicService (upd_lapic (\<lambda>l. l\<lparr>TaskPriority := val AND 0xff\<rparr>) s))
              else Inr (upd_lapic (\<lambda>l. l\<lparr>TaskPriority := val AND 0xff\<rparr>) s)
         else if reg = 0x0B0 then Inr (ApicReceiveEOI s)
         else if reg = 0x0D0
         then Inr (upd_lapic (\<lambda>l. l\<lparr>DestinationLogical := drop_bit 24 val AND 0xf\<rparr>) s)
         else if reg = 0x0E0
         then Inr (upd_lapic (\<lambda>l. l\<lparr>DestinationFormat := drop_bit 28 val AND 0xf\<rparr>) s)
         else if reg = 0x0F0 then Inr (ApicWriteSpuriousInterrupt s val)
         else if reg = 0x280
         then Inr (upd_lapic (\<lambda>l. l\<lparr>ErrorStatus := ShadowErrorStatus l, ShadowErrorStatus := 0\<rparr>) s)
         else if reg = 0x300
         then let s = upd_lapic (\<lambda>l. l\<lparr>InterruptCommandRegisterLow := val AND NOT (lsh1 12)\<rparr>) s;
                  icr = InterruptCommandRegisterLow (Lapic s)
              in bindE (ApicSendIpi env s (ucast icr) (drop_bit 24 (InterruptCommandRegisterHigh (Lapic s)))
                          (icr AND LAPIC_DESTINATION_MODE_MASK) (icr AND DELIVERY_MODE_MASK)
                          (icr AND LAPIC_TRIGGER_MODE_MASK) (icr AND LAPIC_DSH_MASK)) (\<lambda>(_, s). Inr s)
         else if reg = 0x310
         then Inr (upd_lapic (\<lambda>l. l\<lparr>InterruptCommandRegisterHigh := val AND 0xff000000\<rparr>) s)
         else if reg \<in> {0x320, 0x330, 0x340, 0x350, 0x360, 0x370, 0x2F0}
         then ApicSetLvtEntry s reg val
         else if reg = 0x380 then ApicWriteInitialCount s val
         else if reg = 0x3E0
         then let v = drop_bit 1 (val AND 8) OR (val AND 3)
              in Inr (upd_lapic (\<lambda>l. l\<lparr>TimerDivideConfigurationRegister :=
                        if v = 7 then 1 else push_bit (unat v) 2\<rparr>) s)
         else if lapic_read_only reg then Inr s
         else Inr (upd_lapic (\<lambda>l. l\<lparr>ShadowErrorStatus := ShadowErrorStatus l OR APIC_ERR_ILLEGAL_ADDR\<rparr>) s))"

text \<open>Two neighbouring 16-bit words of a vector register, read as one 32-bit register.\<close>

definition read_vector_reg :: "vector_reg \<Rightarrow> nat \<Rightarrow> ULONG" where
  "read_vector_reg r offset = push_bit 16 (ucast (r (offset + 1))) OR ucast (r offset)"

definition ApicReadCurrentCount :: "'z intr_state_scheme \<Rightarrow> (ULONG \<times> 'z intr_state_scheme) res" where
  "ApicReadCurrentCount s =
     bindE (TimerGetState s (LapicTimerId (Lapic s))) (\<lambda>active.
     bindE (if active \<noteq> 0
            then let d = TimerDivideConfigurationRegister (Lapic s)
                 in if d = 0 then Inl DivByZero
                    else Inr (upd_lapic (\<lambda>l. l\<lparr>TimerInitialCountRegister := TimerInitialCountRegister l -
                           ucast (TimerGetClockNs s - TimerInitialLoadTime l) div d\<rparr>) s)
            else Inr s) (\<lambda>s.
     Inr (TimerInitialCountRegister (Lapic s), s)))"

definition ApicMMIORead :: "'z intr_state_scheme \<Rightarrow> ULONG \<Rightarrow> (ULONG \<times> 'z intr_state_scheme) res" where
  "ApicMMIORead s addr =
     (let l = Lapic s; reg = addr AND 0xff0
      in if reg = 0x020 then Inr (push_bit 24 (ApicId l), s)
         else if reg = 0x030 then Inr (ApicVersion l, s)
         else if reg = 0x080 then Inr (push_bit 4 (TaskPriority l) AND 0xff, s)
         else if reg = 0x090 then Inr (ucast (ApicGetArbitrationPriority l), s)
         else if reg = 0x0A0 then Inr (ucast (ApicGetProcessPriority l), s)
         else if reg = 0x0B0 then Inr (0, s)
         else if reg = 0x0D0 then Inr (push_bit 24 (DestinationLogical l AND 0xf), s)
         else if reg = 0x0E0 then Inr (push_bit 28 (DestinationFormat l AND 0xf), s)
         else if reg = 0x0F0
         then Inr (if SoftwareEnable l \<noteq> 0 then ucast (SpuriousVector l) OR 0x100
                   else if FocusDisable l \<noteq> 0 then ucast (SpuriousVector l) OR 0x200
                   else ucast (SpuriousVector l), s)
         else if reg = 0x280 then Inr (ErrorStatus l, s)
         else if reg = 0x300 then Inr (InterruptCommandRegisterLow l, s)
         else if reg = 0x310 then Inr (InterruptCommandRegisterHigh l, s)
         else if reg \<in> {0x320, 0x330, 0x340, 0x350, 0x360, 0x370}
         then Inr (LocalVectorTable l (unat (drop_bit 4 (reg - 0x320))), s)
         else if reg = 0x2F0 then Inr (LocalVectorTable l APIC_LVT_CMCI, s)
         else if reg = 0x380 then Inr (TimerInitialCountRegister l, s)
         else if reg = 0x390 then ApicReadCurrentCount s
         else if reg = 0x3E0 then Inr (TimerDivideConfigurationRegister l, s)
         else if reg \<in> {0x100, 0x110, 0x120, 0x130, 0x140, 0x150, 0x160, 0x170}
         then Inr (read_vector_reg (InterruptServiceRegister l) (unat (drop_bit 3 (reg - 0x100))), s)
         else if reg \<in> {0x180, 0x190, 0x1A0, 0x1B0, 0x1C0, 0x1D0, 0x1E0, 0x1F0}
         then Inr (read_vector_reg (TriggerModeRegister l) (unat (drop_bit 3 (reg - 0x180))), s)
         else if reg \<in> {0x200, 0x210, 0x220, 0x230, 0x240, 0x250, 0x260, 0x270}
         then Inr (read_vector_reg (InterruptRequestRegister l) (unat (drop_bit 3 (reg - 0x200))), s)
         else Inr (0, upd_lapic (\<lambda>l. l\<lparr>ShadowErrorStatus := ShadowErrorStatus l OR APIC_ERR_ILLEGAL_ADDR\<rparr>) s))"

definition ApicMMIOReadHandler ::
  "'z intr_state_scheme \<Rightarrow> ULONG \<Rightarrow> ULONG64 \<Rightarrow> ULONG \<Rightarrow> (ULONG64 \<times> 'z intr_state_scheme) res" where
  "ApicMMIOReadHandler s addr data len =
     (if len \<noteq> 4 \<or> testw addr 0xf then Inr (data, s)
      else bindE (ApicMMIORead s addr) (\<lambda>(val, s). Inr (mmio_put data len val, s)))"

section \<open>Vector registers as sets\<close>

definition vectors :: "vector_reg \<Rightarrow> nat set" where
  "vectors r = {v. v < 256 \<and> bit (r (v div 16)) (v mod 16)}"

lemma scan_down_le: "scan_down P n \<le> n"
  by (induction n) auto

lemma scan_down_holds: "scan_down P n \<noteq> 0 \<Longrightarrow> P (scan_down P n)"
  by (induction n) auto

lemma scan_down_above: "scan_down P n < j \<Longrightarrow> j \<le> n \<Longrightarrow> \<not> P j"
proof (induction n)
  case 0
  then show ?case by simp
next
  case (Suc n)
  then show ?case by (cases "j = Suc n") (auto split: if_splits)
qed

lemma scan_down_Max:
  assumes "P j" and "j \<le> n"
  shows "j \<le> scan_down P n" and "P 0 \<or> j \<noteq> 0 \<Longrightarrow> P (scan_down P n)"
proof -
  show *: "j \<le> scan_down P n" using scan_down_above [of P n j] assms by (meson leI)
  show "P (scan_down P n)" if "P 0 \<or> j \<noteq> 0" using that * scan_down_holds [of P n] by (cases "scan_down P n = 0") auto
qed

lemma vectors_finite [simp]: "finite (vectors r)"
  by (simp add: vectors_def)

lemma vectors_word: "v \<in> vectors r \<Longrightarrow> r (v div 16) \<noteq> 0"
  by (auto simp: vectors_def)

lemma and_ffff [simp]: "(x :: USHORT) AND 0xffff = x"
proof -
  have "(0xffff :: USHORT) = -1" by simp
  then show ?thesis by (metis and.right_neutral)
qed

definition highest_vector :: "vector_reg \<Rightarrow> nat" where
  "highest_vector r = ApicHighestVectorBit (r (ApicHighestPriority r)) + ApicHighestPriority r * 16"

lemma ApicHighestPriority_le: "ApicHighestPriority r \<le> 15"
  by (simp add: ApicHighestPriority_def scan_down_le)

lemma ApicHighestVectorBit_le: "ApicHighestVectorBit w \<le> 15"
  by (simp add: ApicHighestVectorBit_def scan_down_le)

lemma highest_vector_less: "highest_vector r < 256"
  using ApicHighestPriority_le [of r] ApicHighestVectorBit_le [of "r (ApicHighestPriority r)"]
  by (simp add: highest_vector_def)

lemma highest_vector_parts:
  "highest_vector r div 16 = ApicHighestPriority r"
  "highest_vector r mod 16 = ApicHighestVectorBit (r (ApicHighestPriority r))"
  using ApicHighestVectorBit_le [of "r (ApicHighestPriority r)"] by (simp_all add: highest_vector_def)

lemma ApicHighestVectorBit_set:
  assumes "w \<noteq> (0 :: USHORT)"
  shows "bit w (ApicHighestVectorBit w)"
proof -
  obtain j where j: "bit w j" "j < 16"
    using word_bit_exists [OF assms] by auto
  show ?thesis
  proof (cases "j = 0")
    case True
    then have "P 0 \<Longrightarrow> P (scan_down P 15)" for P using scan_down_holds [of P 15] by metis
    then show ?thesis using j True by (simp add: ApicHighestVectorBit_def)
  next
    case False
    then show ?thesis using j scan_down_Max [of "\<lambda>i. testw w (lsh1 i)" j 15]
      by (simp add: ApicHighestVectorBit_def)
  qed
qed

lemma ApicHighestVectorBit_ge: "bit (w :: USHORT) j \<Longrightarrow> j \<le> ApicHighestVectorBit w"
  using scan_down_Max(1) [of "\<lambda>i. testw w (lsh1 i)" j 15] bit_imp_le_length [of w j]
  by (simp add: ApicHighestVectorBit_def)

lemma ApicHighestPriority_ge: "r j \<noteq> 0 \<Longrightarrow> j \<le> 15 \<Longrightarrow> j \<le> ApicHighestPriority r"
  using scan_down_Max(1) [of "\<lambda>i. r i AND 0xffff \<noteq> 0" j 15] by (simp add: ApicHighestPriority_def)

lemma ApicHighestPriority_pos: "0 < ApicHighestPriority r \<Longrightarrow> r (ApicHighestPriority r) \<noteq> 0"
  using scan_down_holds [of "\<lambda>i. r i AND 0xffff \<noteq> 0" 15] by (simp add: ApicHighestPriority_def)

lemma ApicHighestPriority_word: "vectors r \<noteq> {} \<Longrightarrow> r (ApicHighestPriority r) \<noteq> 0"
proof -
  assume "vectors r \<noteq> {}"
  then obtain v where v: "v \<in> vectors r" by blast
  then have w: "r (v div 16) \<noteq> 0" "v div 16 \<le> 15" using vectors_word by (auto simp: vectors_def)
  show ?thesis
  proof (cases "ApicHighestPriority r = 0")
    case True
    then show ?thesis using ApicHighestPriority_ge [of r "v div 16"] w by simp
  next
    case False
    then show ?thesis using ApicHighestPriority_pos by simp
  qed
qed

lemma highest_vector_mem: "vectors r \<noteq> {} \<Longrightarrow> highest_vector r \<in> vectors r"
  using ApicHighestVectorBit_set [OF ApicHighestPriority_word, of r]
  by (simp add: vectors_def highest_vector_parts highest_vector_less)

lemma highest_vector_Max:
  assumes "vectors r \<noteq> {}"
  shows "highest_vector r = Max (vectors r)"
proof (rule Max_eqI [symmetric])
  fix v assume v: "v \<in> vectors r"
  then have "v div 16 \<le> ApicHighestPriority r"
    using vectors_word [OF v] by (intro ApicHighestPriority_ge) (auto simp: vectors_def)
  moreover have "v mod 16 \<le> ApicHighestVectorBit (r (ApicHighestPriority r))" if "v div 16 = ApicHighestPriority r"
    using v that ApicHighestVectorBit_ge by (simp add: vectors_def)
  ultimately have "v div 16 < highest_vector r div 16 \<or>
      v div 16 = highest_vector r div 16 \<and> v mod 16 \<le> highest_vector r mod 16"
    by (auto simp: highest_vector_parts)
  then show "v \<le> highest_vector r"
    by (rule div_mod_le)
qed (use highest_vector_mem [OF assms] in auto)

lemma vectors_reg_set:
  assumes "w < 16" and "b < 16"
  shows "vectors (reg_set r w b) = insert (w * 16 + b) (vectors r)"
proof -
  have "v = w * 16 + b \<longleftrightarrow> v div 16 = w \<and> v mod 16 = b" for v using assms(2) by auto
  then show ?thesis using assms by (auto simp: vectors_def reg_set_def bit_or_iff)
qed

lemma vectors_reg_clear:
  assumes "w < 16" and "b < 16"
  shows "vectors (reg_clear r w b) = vectors r - {w * 16 + b}"
proof -
  have "v = w * 16 + b \<longleftrightarrow> v div 16 = w \<and> v mod 16 = b" for v using assms(2) by auto
  then show ?thesis using assms by (auto simp: vectors_def reg_clear_def bit_clear_lsh1)
qed

lemma vectors_zero: "vectors (\<lambda>_. 0) = {}"
  by (simp add: vectors_def)

lemma scan_down_False: "scan_down (\<lambda>_. False) n = 0"
  by (induction n) simp_all

lemma ApicHighestPriority_zero: "ApicHighestPriority (\<lambda>_. 0) = 0"
  by (simp add: ApicHighestPriority_def scan_down_False)

lemma vec_parts: "vec_word v < 16" "vec_bit v < 16" "vec_word v * 16 + vec_bit v = unat v"
  using unat_BYTE_less [of v] by (auto simp: vec_word_def vec_bit_def)

lemma vectors_mem_vec: "unat v \<in> vectors r \<longleftrightarrow> testw (r (vec_word v)) (lsh1 (vec_bit v))"
  using unat_BYTE_less [of v] by (simp add: vectors_def vec_word_def vec_bit_def)

lemma unat_highest: "unat (of_nat (highest_vector r) :: BYTE) = highest_vector r"
  using highest_vector_less [of r] by (simp add: unat_of_nat)

lemmas vector_sets = vectors_reg_set [OF vec_parts(1,2)] vectors_reg_clear [OF vec_parts(1,2)]

section \<open>Behaviour of the request cycle\<close>

text \<open>\<open>ApicService\<close> touches the two flags of the main loop only.\<close>

lemma ApicService_eq:
  "ApicService s = s\<lparr>request_interrupt_window := request_interrupt_window (ApicService s),
                     svmm_events := svmm_events (ApicService s)\<rparr>"
  by (simp add: ApicService_def Let_def)

lemma ApicService_frame [simp, frame]:
  "Lapic (ApicService s) = Lapic s" "IoApic (ApicService s) = IoApic s"
  "Timers (ApicService s) = Timers s" "TimersIdx (ApicService s) = TimersIdx s"
  "intr_state.more (ApicService s) = intr_state.more s"
  "EnvLog (ApicService s) = EnvLog s" "mem_slots (ApicService s) = mem_slots s"
  by (simp_all add: ApicService_def Let_def)

abbreviation irr_set :: "'z intr_state_scheme \<Rightarrow> nat set" where
  "irr_set s \<equiv> vectors (InterruptRequestRegister (Lapic s))"

abbreviation isr_set :: "'z intr_state_scheme \<Rightarrow> nat set" where
  "isr_set s \<equiv> vectors (InterruptServiceRegister (Lapic s))"

abbreviation tmr_set :: "'z intr_state_scheme \<Rightarrow> nat set" where
  "tmr_set s \<equiv> vectors (TriggerModeRegister (Lapic s))"

lemma unat_BYTE_of_16: "n \<le> 15 \<Longrightarrow> unat (of_nat n :: BYTE) = n"
  by (simp add: unat_of_nat)

text \<open>C7. The acknowledge cycle of the local APIC. When the interrupt event is pending and the
  highest requested priority class is not below the processor priority, the vector handed to
  the CPU is the largest requested vector; it leaves the request register, enters the service
  register, and nothing else in the two registers changes.\<close>

theorem ApicAcknowledgeInterrupt_highest:
  assumes "testw (svmm_events s) EVENT_PENDING_LAPIC_INTR" and "irr_set s \<noteq> {}"
    and "unat (ApicGetProcessPriority (Lapic s)) \<le> Max (irr_set s) div 16"
  shows "\<exists>v t. ApicAcknowledgeInterrupt s = Inr (v, t) \<and> unat v = Max (irr_set s) \<and>
           irr_set t = irr_set s - {Max (irr_set s)} \<and> isr_set t = insert (Max (irr_set s)) (isr_set s)"
proof -
  let ?r = "InterruptRequestRegister (Lapic s)"
  let ?v = "of_nat (highest_vector ?r) :: BYTE"
  have M: "highest_vector ?r = Max (irr_set s)" by (rule highest_vector_Max [OF assms(2)])
  have v: "unat ?v = Max (irr_set s)" using unat_highest [of ?r] M by metis
  have "\<not> of_nat (ApicHighestPriority ?r) < ApicGetProcessPriority (Lapic s)"
    using assms(3) ApicHighestPriority_le [of ?r]
    by (simp add: word_less_nat_alt unat_BYTE_of_16 flip: M highest_vector_parts(1))
  moreover have "of_nat (ApicHighestVectorBit (?r (ApicHighestPriority ?r)) + ApicHighestPriority ?r * 16) = ?v"
    by (simp add: highest_vector_def)
  ultimately show ?thesis using assms(1) v vec_parts(3) [of ?v]
    by (simp add: ApicAcknowledgeInterrupt_def Let_def upd_lapic_def vector_sets)
qed

text \<open>A local APIC with two requested vectors, ready for the acknowledge cycle.\<close>

definition apic_example :: intr_state where
  "apic_example = intr_zero\<lparr>svmm_events := EVENT_PENDING_LAPIC_INTR,
     Lapic := LAPIC_zero\<lparr>InterruptRequestRegister := reg_set (reg_set (\<lambda>_. 0) 3 0) 3 5\<rparr>\<rparr>"

lemma apic_example_irr: "irr_set apic_example = {48, 53}"
  by (auto simp: apic_example_def vectors_reg_set vectors_zero)

theorem ApicAcknowledgeInterrupt_highest_witness:
  "\<exists>v t. ApicAcknowledgeInterrupt apic_example = Inr (v, t) \<and> unat v = 53 \<and>
           irr_set t = {48} \<and> isr_set t = {53}"
proof -
  have "isr_set apic_example = {}" "ApicGetProcessPriority (Lapic apic_example) = 0"
    by (simp_all add: apic_example_def LAPIC_zero_def vectors_zero ApicGetProcessPriority_def
        ApicHighestPriority_zero)
  moreover have "testw (svmm_events apic_example) EVENT_PENDING_LAPIC_INTR"
    by (simp add: apic_example_def EVENT_PENDING_LAPIC_INTR_def)
  moreover have "{48, 53} - {53} = {48 :: nat}" by auto
  ultimately show ?thesis
    using ApicAcknowledgeInterrupt_highest [of apic_example] by (simp add: apic_example_irr)
qed

text \<open>C8. Raising a vector at the local APIC. The call always returns. A vector above 15 is
  in the request register afterwards and the service register is unchanged; if the vector was
  not requested before, the trigger-mode register records whether it is level triggered. A
  reserved vector changes no vector register and is recorded as an error.\<close>

theorem ApicSetIrq_effect:
  "specE {} (\<lambda>t. isr_set t = isr_set s \<and>
       (if unat v \<le> 15
        then irr_set t = irr_set s \<and> tmr_set t = tmr_set s \<and> bit (ShadowErrorStatus (Lapic t)) 6
        else irr_set t = insert (unat v) (irr_set s) \<and>
             tmr_set t = (if unat v \<in> irr_set s then tmr_set s
                          else if level \<noteq> 0 then insert (unat v) (tmr_set s)
                          else tmr_set s - {unat v})))
     (ApicSetIrq s 0 v level)"
proof (cases "unat v \<le> 15")
  case True
  then have "v \<le> 15" by (simp add: word_le_nat_alt)
  with True show ?thesis
    by (simp add: ApicSetIrq_def NUM_LOCAL_APICS_def upd_lapic_def LAPIC_ESR_RECV_ILLEGAL_VECTOR_def bit_or_iff)
next
  case False
  then have nv: "\<not> v \<le> 15" by (simp add: word_le_nat_alt)
  show ?thesis
  proof (cases "unat v \<in> irr_set s")
    case True
    then show ?thesis using False nv
      by (auto simp: ApicSetIrq_def NUM_LOCAL_APICS_def vectors_mem_vec insert_absorb)
  next
    case no: False
    then show ?thesis using False nv
      by (auto simp: ApicSetIrq_def NUM_LOCAL_APICS_def vectors_mem_vec upd_lapic_def vector_sets vec_parts(3))
  qed
qed

section \<open>End of interrupt\<close>

lemma fold_pins_inv:
  assumes "\<And>pin s. P s \<Longrightarrow> P (f pin s)" and "P s"
  shows "P (fold f pins s)"
  using assms(2) by (induction pins arbitrary: s) (simp_all add: assms(1))

lemma IoApicReceiveEndOfInterrupt_frame [simp, frame]:
  "Lapic (IoApicReceiveEndOfInterrupt s v) = Lapic s"
  "svmm_events (IoApicReceiveEndOfInterrupt s v) = svmm_events s"
  "request_interrupt_window (IoApicReceiveEndOfInterrupt s v) = request_interrupt_window s"
  "Irr (IoApic (IoApicReceiveEndOfInterrupt s v)) = Irr (IoApic s)"
  unfolding IoApicReceiveEndOfInterrupt_def
  by (rule fold_pins_inv; simp add: upd_redirect_def)+

text \<open>One pin's low word after the end of interrupt for vector \<open>v\<close>.\<close>

definition eoi_low :: "BYTE \<Rightarrow> DWORD \<Rightarrow> DWORD" where
  "eoi_low v x = (if testw x IOAPIC_LEVEL_SENSITIVE \<and> x AND 0xff = ucast v then x AND NOT IOAPIC_IRR else x)"

lemma eoi_fold_low:
  "distinct pins \<Longrightarrow>
   redirect_low (fold (\<lambda>pin s.
       if testw (redirect_low s pin) IOAPIC_LEVEL_SENSITIVE \<and> redirect_low s pin AND 0xff = ucast v
       then upd_redirect pin (\<lambda>e. e\<lparr>Low := Low e AND NOT IOAPIC_IRR\<rparr>) s else s) pins s) p =
   (if p \<in> set pins then eoi_low v (redirect_low s p) else redirect_low s p)"
proof (induction pins arbitrary: s)
  case Nil
  then show ?case by simp
next
  case (Cons q pins)
  then show ?case by (auto simp: eoi_low_def upd_redirect_def)
qed

lemma IoApicReceiveEndOfInterrupt_low:
  "redirect_low (IoApicReceiveEndOfInterrupt s v) p =
     (if p < IOAPIC_NUM_PINS then eoi_low v (redirect_low s p) else redirect_low s p)"
  unfolding IoApicReceiveEndOfInterrupt_def by (subst eoi_fold_low) auto

lemma highest_isr_byte:
  "of_nat (ApicHighestVectorBit (r (ApicHighestPriority r)) + ApicHighestPriority r * 16) = (of_nat (highest_vector r) :: BYTE)"
  by (simp add: highest_vector_def)

lemma vec_of_highest:
  "vec_word (of_nat (highest_vector r)) = ApicHighestPriority r"
  "vec_bit (of_nat (highest_vector r)) = ApicHighestVectorBit (r (ApicHighestPriority r))"
  unfolding vec_word_def vec_bit_def unat_highest by (simp_all add: highest_vector_parts)

lemma ApicReceiveEOI_eq:
  "ApicReceiveEOI s =
     (let v = of_nat (highest_vector (InterruptServiceRegister (Lapic s))) :: BYTE
      in if v \<noteq> SpuriousVector (Lapic s)
         then let s = upd_lapic (\<lambda>l. l\<lparr>InterruptServiceRegister :=
                        reg_clear (InterruptServiceRegister l) (vec_word v) (vec_bit v)\<rparr>) s;
                  s = (if testw (TriggerModeRegister (Lapic s) (vec_word v)) (lsh1 (vec_bit v))
                       then upd_lapic (\<lambda>l. l\<lparr>TriggerModeRegister :=
                              reg_clear (TriggerModeRegister l) (vec_word v) (vec_bit v)\<rparr>)
                              (IoApicReceiveEndOfInterrupt s v)
                       else s)
              in ApicService s
         else s)"
  by (simp only: ApicReceiveEOI_def Let_def highest_isr_byte vec_of_highest(1))

text \<open>C9. The end-of-interrupt register. When the largest vector in service is not the spurious
  vector, it leaves the service register, and the request register is unchanged. If it was
  level triggered its trigger-mode bit is cleared and every level-triggered pin of the
  I/O APIC that carries this vector loses its remote IRR bit; otherwise the I/O APIC is not
  touched.\<close>

theorem ApicReceiveEOI_effect:
  assumes "isr_set s \<noteq> {}" and "unat (SpuriousVector (Lapic s)) \<noteq> Max (isr_set s)"
  shows "isr_set (ApicReceiveEOI s) = isr_set s - {Max (isr_set s)} \<and>
         irr_set (ApicReceiveEOI s) = irr_set s \<and>
         tmr_set (ApicReceiveEOI s) = tmr_set s - {Max (isr_set s)} \<and>
         redirect_low (ApicReceiveEOI s) p =
           (if Max (isr_set s) \<in> tmr_set s \<and> p < IOAPIC_NUM_PINS
            then eoi_low (of_nat (Max (isr_set s))) (redirect_low s p) else redirect_low s p)"
proof -
  let ?r = "InterruptServiceRegister (Lapic s)"
  let ?v = "of_nat (highest_vector ?r) :: BYTE"
  have M: "highest_vector ?r = Max (isr_set s)" by (rule highest_vector_Max [OF assms(1)])
  have v: "unat ?v = highest_vector ?r" by (rule unat_highest)
  have ne: "?v \<noteq> SpuriousVector (Lapic s)" using assms(2) v M by metis
  have w: "vec_word ?v * 16 + vec_bit ?v = Max (isr_set s)" using vec_parts(3) [of ?v] v M by simp
  have t: "testw (TriggerModeRegister (Lapic s) (vec_word ?v)) (lsh1 (vec_bit ?v)) \<longleftrightarrow> Max (isr_set s) \<in> tmr_set s"
    using vectors_mem_vec [of ?v "TriggerModeRegister (Lapic s)"] v M by simp
  have eoi: "ApicReceiveEOI s = ApicService (if Max (isr_set s) \<in> tmr_set s
      then upd_lapic (\<lambda>l. l\<lparr>TriggerModeRegister := reg_clear (TriggerModeRegister l) (vec_word ?v) (vec_bit ?v)\<rparr>)
        (IoApicReceiveEndOfInterrupt (upd_lapic (\<lambda>l. l\<lparr>InterruptServiceRegister :=
            reg_clear (InterruptServiceRegister l) (vec_word ?v) (vec_bit ?v)\<rparr>) s) ?v)
      else upd_lapic (\<lambda>l. l\<lparr>InterruptServiceRegister :=
            reg_clear (InterruptServiceRegister l) (vec_word ?v) (vec_bit ?v)\<rparr>) s)"
    using ne t by (simp add: ApicReceiveEOI_eq Let_def upd_lapic_def)
  show ?thesis unfolding eoi M [symmetric] using w t
    by (simp add: upd_lapic_def vector_sets IoApicReceiveEndOfInterrupt_low M)
qed

text \<open>A level-triggered vector 53 in service, delivered by pin 9 of the I/O APIC.\<close>

definition eoi_example :: intr_state where
  "eoi_example = intr_zero\<lparr>
     IoApic := IOAPIC_zero\<lparr>IoRedirectTable := (\<lambda>p. \<lparr>High = 0, Low = if p = 9 then 0xc035 else 0\<rparr>)\<rparr>,
     Lapic := LAPIC_zero\<lparr>InterruptServiceRegister := reg_set (\<lambda>_. 0) 3 5,
                         TriggerModeRegister := reg_set (\<lambda>_. 0) 3 5\<rparr>\<rparr>"

theorem ApicReceiveEOI_effect_witness:
  "isr_set (ApicReceiveEOI eoi_example) = {} \<and> redirect_low (ApicReceiveEOI eoi_example) 9 = 0x8035"
proof -
  have "isr_set eoi_example = {53}" "tmr_set eoi_example = {53}"
    by (simp_all add: eoi_example_def vectors_reg_set vectors_zero)
  moreover have "unat (SpuriousVector (Lapic eoi_example)) \<noteq> 53" "redirect_low eoi_example 9 = 0xc035"
    by (simp_all add: eoi_example_def LAPIC_zero_def)
  moreover have "eoi_low 53 0xc035 = 0x8035"
    by (simp add: eoi_low_def testw_def IOAPIC_consts lsh1_def push_bit_eq_mult)
  ultimately show ?thesis
    using ApicReceiveEOI_effect [of eoi_example 9] by (simp add: IOAPIC_NUM_PINS_def)
qed

section \<open>The invariant of the local APIC\<close>

text \<open>
  No reserved vector is requested or in service, and while the interrupt event is pending there
  is a requested vector.
\<close>

definition lapic_inv :: "'z intr_state_scheme \<Rightarrow> bool" where
  "lapic_inv s \<longleftrightarrow> irr_set s \<subseteq> {16..} \<and> isr_set s \<subseteq> {16..} \<and>
     (testw (svmm_events s) EVENT_PENDING_LAPIC_INTR \<longrightarrow> irr_set s \<noteq> {})"

lemma word_vectors: "i < 16 \<Longrightarrow> r i \<noteq> 0 \<Longrightarrow> vectors r \<noteq> {}"
proof -
  assume i: "i < 16" "r i \<noteq> 0"
  obtain b where "b < 16" "bit (r i) b" using word_bit_exists [OF i(2)] by auto
  then have "i * 16 + b \<in> vectors r" using i by (simp add: vectors_def)
  then show ?thesis by blast
qed

lemma lapic_inv_ApicService:
  assumes "irr_set s \<subseteq> {16..}" and "isr_set s \<subseteq> {16..}"
    and "testw (svmm_events s) EVENT_PENDING_LAPIC_INTR \<Longrightarrow> irr_set s \<noteq> {}"
  shows "lapic_inv (ApicService s)"
proof -
  let ?r = "InterruptRequestRegister (Lapic s)"
  have "irr_set s \<noteq> {}" if "of_nat (ApicHighestPriority ?r) > ApicGetProcessPriority (Lapic s)"
  proof -
    have "0 < unat (of_nat (ApicHighestPriority ?r) :: BYTE)"
      using that by (metis gr0I word_less_nat_alt not_less_zero)
    then have "0 < ApicHighestPriority ?r" using ApicHighestPriority_le [of ?r] by (simp add: unat_BYTE_of_16)
    from word_vectors [of "ApicHighestPriority ?r" ?r, OF _ ApicHighestPriority_pos [OF this]] show ?thesis
      using ApicHighestPriority_le [of ?r] by linarith
  qed
  then show ?thesis using assms by (auto simp: lapic_inv_def ApicService_def Let_def)
qed

lemma lapic_inv_ApicSetIrq: "lapic_inv s \<Longrightarrow> specE {OutOfBounds} lapic_inv (ApicSetIrq s i v level)"
proof -
  assume inv: "lapic_inv s"
  let ?s = "upd_lapic (\<lambda>l. l\<lparr>
             InterruptRequestRegister := reg_set (InterruptRequestRegister l) (vec_word v) (vec_bit v),
             TriggerModeRegister := (if level \<noteq> 0
               then reg_set (TriggerModeRegister l) (vec_word v) (vec_bit v)
               else reg_clear (TriggerModeRegister l) (vec_word v) (vec_bit v))\<rparr>) s"
  have "lapic_inv (ApicService ?s)" if "\<not> v \<le> 15"
    using inv that by (intro lapic_inv_ApicService)
      (auto simp: upd_lapic_def vector_sets vec_parts(3) lapic_inv_def word_le_nat_alt)
  then show ?thesis using inv by (auto simp: ApicSetIrq_def) (auto simp: lapic_inv_def upd_lapic_def)
qed

lemma ApicSetIrq_self: "lapic_inv s \<Longrightarrow> unat i < NUM_LOCAL_APICS \<Longrightarrow> specE {} lapic_inv (ApicSetIrq s i v level)"
  using lapic_inv_ApicSetIrq [of s i v level] by (auto simp: ApicSetIrq_def)

lemma lapic_inv_ApicAcknowledge:
  assumes "lapic_inv s"
  shows "specE {Exit} (\<lambda>(v, t). lapic_inv t) (ApicAcknowledgeInterrupt s)"
proof -
  let ?r = "InterruptRequestRegister (Lapic s)" and ?v = "of_nat (highest_vector (InterruptRequestRegister (Lapic s))) :: BYTE"
  let ?e = "svmm_events s AND NOT EVENT_PENDING_LAPIC_INTR"
  have e: "\<not> testw ?e EVENT_PENDING_LAPIC_INTR"
    by (simp add: EVENT_PENDING_LAPIC_INTR_def bit_clear_lsh1)
  let ?t = "upd_lapic (\<lambda>l. l\<lparr>
       InterruptRequestRegister := reg_clear (InterruptRequestRegister l) (vec_word ?v) (vec_bit ?v),
       InterruptServiceRegister := reg_set (InterruptServiceRegister l) (vec_word ?v) (vec_bit ?v)\<rparr>) s\<lparr>svmm_events := ?e\<rparr>"
  have "lapic_inv (ApicService ?t)" if "testw (svmm_events s) EVENT_PENDING_LAPIC_INTR"
  proof (rule lapic_inv_ApicService)
    have "irr_set s \<noteq> {}" using assms that by (auto simp: lapic_inv_def)
    then have "unat ?v \<in> irr_set s" using highest_vector_mem unat_highest by metis
    then show "irr_set ?t \<subseteq> {16..}" "isr_set ?t \<subseteq> {16..}"
      using assms by (auto simp: upd_lapic_def vector_sets vec_parts(3) lapic_inv_def)
  qed (simp add: e)
  moreover have "lapic_inv (s\<lparr>svmm_events := ?e\<rparr>)" using assms e by (simp add: lapic_inv_def)
  ultimately show ?thesis
    unfolding ApicAcknowledgeInterrupt_def Let_def highest_isr_byte by (simp add: upd_lapic_def)
qed

lemma lapic_inv_cong:
  "Lapic t = Lapic s \<Longrightarrow> svmm_events t = svmm_events s \<Longrightarrow> lapic_inv t = lapic_inv s"
  by (simp add: lapic_inv_def)

lemma lapic_inv_regs [simp]:
  "InterruptRequestRegister (f (Lapic s)) = InterruptRequestRegister (Lapic s) \<Longrightarrow>
   InterruptServiceRegister (f (Lapic s)) = InterruptServiceRegister (Lapic s) \<Longrightarrow>
   lapic_inv (upd_lapic f s) = lapic_inv s"
  by (simp add: lapic_inv_def upd_lapic_def)

lemma lapic_inv_serviced: "lapic_inv s \<Longrightarrow> lapic_inv (ApicService s)"
  by (rule lapic_inv_ApicService) (auto simp: lapic_inv_def)

lemma lapic_inv_ApicReceiveEOI:
  assumes "lapic_inv s"
  shows "lapic_inv (ApicReceiveEOI s)"
proof -
  have "lapic_inv (upd_lapic (\<lambda>l. l\<lparr>InterruptServiceRegister :=
          reg_clear (InterruptServiceRegister l) (vec_word v) (vec_bit v)\<rparr>) s)" for v
    using assms by (auto simp: upd_lapic_def vector_sets lapic_inv_def)
  moreover have "lapic_inv (IoApicReceiveEndOfInterrupt t v) = lapic_inv t" for t :: "'a intr_state_scheme" and v
    by (rule lapic_inv_cong) simp_all
  ultimately show ?thesis using assms
    by (simp add: ApicReceiveEOI_eq Let_def lapic_inv_serviced)
qed

lemma lapic_inv_SetIrq_status:
  "lapic_inv s \<Longrightarrow> specE UNIV (\<lambda>(_, t). lapic_inv t) (bindE (ApicSetIrq s i v level) (\<lambda>s. Inr (st, s)))"
  by (rule specE_bindI [OF specE_UNIV [OF lapic_inv_ApicSetIrq]]) simp_all

lemma lapic_inv_lowpri:
  "lapic_inv s \<Longrightarrow> specE UNIV (\<lambda>(_, t). lapic_inv t) (ApicBusDeliverLowPriorityInterrupt s v d tr)"
  unfolding ApicBusDeliverLowPriorityInterrupt_def
  by (intro specE_if lapic_inv_SetIrq_status) simp_all

lemma lapic_inv_deliver:
  "lapic_inv s \<Longrightarrow> specE UNIV (\<lambda>(_, t). lapic_inv t) (ApicBusDeliverInterrupt env s v d dm del tr)"
  unfolding ApicBusDeliverInterrupt_def Let_def
  by (intro specE_if lapic_inv_SetIrq_status lapic_inv_lowpri)
     (simp_all add: DeviceIoControl_def ask_env_def lapic_inv_def)

lemma lapic_inv_SendIpi:
  assumes "lapic_inv s"
  shows "specE UNIV (\<lambda>(_, t). lapic_inv t) (ApicSendIpi env s v d dm del tr sh)"
proof -
  have post: "specE UNIV (\<lambda>(_, t). lapic_inv t) (bindE m (\<lambda>(status, s). Inr (status,
           if status \<noteq> 0
           then upd_lapic (\<lambda>l. l\<lparr>ShadowErrorStatus := ShadowErrorStatus l OR APIC_ERR_TX_ACCEPT_ERR\<rparr>) s
           else s)))" if "specE UNIV (\<lambda>(_, t). lapic_inv t) m" for m :: "(DWORD \<times> 'a intr_state_scheme) res"
    by (rule specE_bindI [OF that]) auto
  show ?thesis unfolding ApicSendIpi_def
    by (intro specE_if post lapic_inv_lowpri lapic_inv_deliver lapic_inv_SetIrq_status assms) (simp_all add: assms)
qed

lemma lapic_inv_upd_timer: "lapic_inv s \<Longrightarrow> specE UNIV lapic_inv (upd_timer f s i)"
  by (cases "unat i < length (Timers s)") (auto simp: upd_timer_eq upd_timer_out lapic_inv_def)

lemma lapic_inv_timer:
  assumes "lapic_inv s"
  shows "specE UNIV lapic_inv (TimerActivate s i n o1)" and "specE UNIV lapic_inv (TimerDeactivate s i)"
  unfolding TimerActivate_def TimerDeactivate_def
  by (rule lapic_inv_upd_timer [OF assms])
     (rule specE_bindI [OF lapic_inv_upd_timer [OF assms] lapic_inv_upd_timer])

lemma lapic_inv_InitialCount: "lapic_inv s \<Longrightarrow> specE UNIV lapic_inv (ApicWriteInitialCount s val)"
  unfolding ApicWriteInitialCount_def Let_def
  by (intro specE_bind_any specE_bindI [where P = lapic_inv] specE_if lapic_inv_timer) simp_all

lemma lapic_inv_ApicTimerHandler: "lapic_inv s \<Longrightarrow> specE UNIV lapic_inv (ApicTimerHandler env p s)"
  unfolding ApicTimerHandler_def Let_def
  by (intro specE_if specE_bindI [where P = "\<lambda>(_, t). lapic_inv t", OF lapic_inv_deliver])
     (auto intro!: specE_bind_any lapic_inv_timer)

lemma lapic_inv_ApicMMIOWrite:
  assumes "lapic_inv s"
  shows "specE UNIV lapic_inv (ApicMMIOWriteHandler env s addr data len)"
proof -
  have lvt: "specE UNIV lapic_inv (ApicSetLvtEntry s reg val)" for reg val
    using assms unfolding ApicSetLvtEntry_def Let_def by (intro specE_bind_any) simp
  have tpr: "lapic_inv (ApicService (upd_lapic (\<lambda>l. l\<lparr>TaskPriority := v\<rparr>) s))" for v
    using assms by (intro lapic_inv_ApicService) (auto simp: lapic_inv_def upd_lapic_def)
  have spurious: "lapic_inv (ApicWriteSpuriousInterrupt s v)" for v
    using assms by (simp add: ApicWriteSpuriousInterrupt_def Let_def)
  show ?thesis unfolding ApicMMIOWriteHandler_def Let_def
    by (intro specE_if_both lvt lapic_inv_InitialCount specE_bindI [OF lapic_inv_SendIpi] assms)
       (auto simp: assms tpr spurious lapic_inv_ApicReceiveEOI)
qed

section \<open>What delivery leaves alone\<close>

text \<open>
  Interrupt delivery changes the two APICs, the local APIC's event bit, the request for an
  interrupt window and the request log, and nothing else of the machine.
\<close>

definition apic_only :: "'z intr_state_scheme \<Rightarrow> 'z intr_state_scheme \<Rightarrow> bool" where
  "apic_only s t \<longleftrightarrow> (\<exists>io l e w log. t = s\<lparr>IoApic := io, Lapic := l, svmm_events := e,
      request_interrupt_window := w, EnvLog := log\<rparr> \<and> (\<forall>n. n \<noteq> 11 \<longrightarrow> bit e n = bit (svmm_events s) n))"

lemma apic_onlyI:
  "t = s\<lparr>IoApic := io, Lapic := l, svmm_events := e, request_interrupt_window := w, EnvLog := log\<rparr> \<Longrightarrow>
   (\<And>n. n \<noteq> 11 \<Longrightarrow> bit e n = bit (svmm_events s) n) \<Longrightarrow> apic_only s t"
  unfolding apic_only_def by blast

lemma apic_onlyE:
  assumes "apic_only s t"
  obtains io l e w log where "t = s\<lparr>IoApic := io, Lapic := l, svmm_events := e, request_interrupt_window := w, EnvLog := log\<rparr>"
    "\<And>n. n \<noteq> 11 \<Longrightarrow> bit e n = bit (svmm_events s) n"
  using assms unfolding apic_only_def by blast

lemma apic_only_refl [simp]: "apic_only s s"
  by (rule apic_onlyI [where io = "IoApic s" and l = "Lapic s" and e = "svmm_events s"
      and w = "request_interrupt_window s" and log = "EnvLog s"]) simp_all

lemma apic_only_trans: "apic_only s t \<Longrightarrow> apic_only t u \<Longrightarrow> apic_only s u"
proof (elim apic_onlyE)
  fix io l e w log io' l' e' w' log'
  assume t: "t = s\<lparr>IoApic := io, Lapic := l, svmm_events := e, request_interrupt_window := w, EnvLog := log\<rparr>"
    and u: "u = t\<lparr>IoApic := io', Lapic := l', svmm_events := e', request_interrupt_window := w', EnvLog := log'\<rparr>"
    and e: "\<And>n. n \<noteq> 11 \<Longrightarrow> bit e n = bit (svmm_events s) n" "\<And>n. n \<noteq> 11 \<Longrightarrow> bit e' n = bit (svmm_events t) n"
  show "apic_only s u"
    by (rule apic_onlyI [where io = io' and l = l' and e = e' and w = w' and log = log']) (simp_all add: t u e)
qed

lemma apic_only_ApicService [simp]: "apic_only s (ApicService s)"
proof -
  have "bit (svmm_events (ApicService s)) n = bit (svmm_events s) n" if "n \<noteq> 11" for n
    using that by (auto simp: ApicService_def Let_def EVENT_PENDING_LAPIC_INTR_def bit_or_iff)
  then show ?thesis
    by (intro apic_onlyI [where io = "IoApic s" and l = "Lapic s" and e = "svmm_events (ApicService s)"
      and w = "request_interrupt_window (ApicService s)" and log = "EnvLog s"])
       (auto simp: ApicService_def Let_def)
qed

lemma apic_only_upd_lapic [simp]: "apic_only s (upd_lapic f s)"
  by (rule apic_onlyI [where io = "IoApic s" and l = "f (Lapic s)" and e = "svmm_events s"
      and w = "request_interrupt_window s" and log = "EnvLog s"])
     (simp_all add: upd_lapic_def)

lemma apic_only_DeviceIoControl [simp]: "apic_only s (snd (DeviceIoControl env r s))"
  by (rule apic_onlyI [where io = "IoApic s" and l = "Lapic s" and e = "svmm_events s"
      and w = "request_interrupt_window s" and log = "EnvLog s @ [r]"])
     (simp_all add: DeviceIoControl_def ask_env_def)

lemma apic_only_SetIrq: "specE UNIV (apic_only s) (ApicSetIrq s i v tr)"
  unfolding ApicSetIrq_def
  by (auto intro: apic_only_trans [OF apic_only_upd_lapic apic_only_ApicService])

lemma apic_only_SetIrq_status: "specE UNIV (\<lambda>(_, t). apic_only s t) (bindE (ApicSetIrq s i v tr) (\<lambda>s. Inr (st, s)))"
  by (rule specE_bindI [OF apic_only_SetIrq]) simp

lemma apic_only_deliver: "specE UNIV (\<lambda>(_, t). apic_only s t) (ApicBusDeliverInterrupt env s v d dm del tr)"
  unfolding ApicBusDeliverInterrupt_def ApicBusDeliverLowPriorityInterrupt_def Let_def
  by (intro specE_if_both apic_only_SetIrq_status) simp_all

text \<open>Delivery itself never leaves the arrays of the APIC: it fails only by ending the process.\<close>

lemma deliver_errors: "specE {Exit} (\<lambda>_. True) (ApicBusDeliverInterrupt env s v d dm del tr)"
  unfolding ApicBusDeliverInterrupt_def ApicBusDeliverLowPriorityInterrupt_def Let_def
  by (auto simp: ApicSetIrq_def NUM_LOCAL_APICS_def)

end
