(* ===== verification/IoApic.thy ===== *)
theory IoApic
  imports Apic
begin

text \<open>
  The I/O APIC of \<open>ioapic.c\<close>: 24 pins with a redirection entry each, level and edge
  triggering, delivery to the local APIC, and the two memory-mapped registers. The step
  relation \<open>apic_step\<close> collects what devices, the guest and the main loop do to the two
  APICs; the invariant of the local APIC holds in every reachable state.
\<close>

section \<open>Operations\<close>

definition upd_ioapic :: "(IOAPIC \<Rightarrow> IOAPIC) \<Rightarrow> 'z intr_state_scheme \<Rightarrow> 'z intr_state_scheme" where
  "upd_ioapic f s = s\<lparr>IoApic := f (IoApic s)\<rparr>"

definition IoApicSetIntr :: "env \<Rightarrow> nat \<Rightarrow> 'z intr_state_scheme \<Rightarrow> 'z intr_state_scheme res" where
  "IoApicSetIntr env pin s =
     (let low = redirect_low s pin
      in if testw low IOAPIC_MASKED then Inr s
         else if testw low IOAPIC_LEVEL_SENSITIVE \<and> testw low IOAPIC_IRR then Inr s
         else bindE (ApicBusDeliverInterrupt env s (ucast low)
                       (drop_bit 24 (High (IoRedirectTable (IoApic s) pin)))
                       (low AND IOAPIC_DESTINATION_MODE) (low AND IOAPIC_DELIVERY_MODE)
                       (low AND IOAPIC_LEVEL_SENSITIVE)) (\<lambda>(status, s).
              if status = 0
              then let s = (if testw (redirect_low s pin) IOAPIC_LEVEL_SENSITIVE
                            then upd_redirect pin (\<lambda>e. e\<lparr>Low := Low e OR IOAPIC_IRR\<rparr>) s
                            else upd_ioapic (\<lambda>a. a\<lparr>Irr := Irr a AND NOT (lsh1 pin)\<rparr>) s)
                   in Inr (upd_redirect pin (\<lambda>e. e\<lparr>Low := Low e AND NOT IOAPIC_DELIVERY_STATUS\<rparr>) s)
              else Inr (upd_redirect pin (\<lambda>e. e\<lparr>Low := Low e OR IOAPIC_DELIVERY_STATUS\<rparr>) s)))"

definition IoApicService :: "env \<Rightarrow> 'z intr_state_scheme \<Rightarrow> 'z intr_state_scheme res" where
  "IoApicService env s =
     foldE (\<lambda>pin s. if testw (Irr (IoApic s)) (lsh1 pin) then IoApicSetIntr env pin s else Inr s)
       [0 ..< IOAPIC_NUM_PINS] s"

text \<open>Interrupt 0 of the ISA bus is wired to pin 2.\<close>

definition ioapic_pin :: "BYTE \<Rightarrow> nat" where
  "ioapic_pin irq = (if irq = 0 then 2 else unat irq)"

definition IoApicLowerIrq :: "'z intr_state_scheme \<Rightarrow> BYTE \<Rightarrow> 'z intr_state_scheme" where
  "IoApicLowerIrq s irq =
     (let pin = ioapic_pin irq
      in if pin \<ge> IOAPIC_NUM_PINS then s
         else if testw (redirect_low s pin) IOAPIC_LEVEL_SENSITIVE
         then upd_ioapic (\<lambda>a. a\<lparr>Irr := Irr a AND NOT (lsh1 pin)\<rparr>) s
         else s)"

definition IoApicRaiseIrq :: "env \<Rightarrow> 'z intr_state_scheme \<Rightarrow> BYTE \<Rightarrow> 'z intr_state_scheme res" where
  "IoApicRaiseIrq env s irq =
     (let pin = ioapic_pin irq
      in if pin \<ge> IOAPIC_NUM_PINS then Inr s
         else if testw (redirect_low s pin) IOAPIC_LEVEL_SENSITIVE
         then IoApicService env (upd_ioapic (\<lambda>a. a\<lparr>Irr := Irr a OR lsh1 pin\<rparr>) s)
         else if testw (Irr (IoApic s)) (lsh1 pin) then Inr s
         else IoApicService env (upd_ioapic (\<lambda>a. a\<lparr>Irr := Irr a OR lsh1 pin\<rparr>) s))"

text \<open>The entry a register number selects: \<open>(BYTE)(IoRegisterSelect - 0x10) >> 1\<close>.\<close>

definition redirect_index :: "DWORD \<Rightarrow> nat" where
  "redirect_index sel = unat (ucast (sel - 0x10) :: BYTE) div 2"

definition IoApicMMIOWrite :: "env \<Rightarrow> 'z intr_state_scheme \<Rightarrow> ULONG \<Rightarrow> ULONG \<Rightarrow> 'z intr_state_scheme res" where
  "IoApicMMIOWrite env s addr val =
     (if addr = 0x00 then Inr (upd_ioapic (\<lambda>a. a\<lparr>IoRegisterSelect := val AND 0xff\<rparr>) s)
      else if addr = 0x10
      then let sel = IoRegisterSelect (IoApic s)
           in if sel = 0 then Inr (upd_ioapic (\<lambda>a. a\<lparr>IoApicId := drop_bit 24 val AND 0xf\<rparr>) s)
              else if sel = 1 \<or> sel = 2 then Inr s
              else let i = redirect_index sel
                   in if i \<ge> IOAPIC_NUM_PINS then Inr s
                      else IoApicService env
                        (if testw sel 1 then upd_redirect i (\<lambda>e. e\<lparr>High := val\<rparr>) s
                         else upd_redirect i (\<lambda>e. e\<lparr>Low :=
                                if testw val IOAPIC_LEVEL_SENSITIVE then val else val AND NOT IOAPIC_IRR\<rparr>) s)
      else Inr s)"

definition IoApicMMIOWriteHandler ::
  "env \<Rightarrow> 'z intr_state_scheme \<Rightarrow> ULONG \<Rightarrow> ULONG64 \<Rightarrow> ULONG \<Rightarrow> 'z intr_state_scheme res" where
  "IoApicMMIOWriteHandler env s addr data len =
     (let addr = addr AND 0xff
      in if testw addr 3 then Inr s
         else case mmio_get data len of None \<Rightarrow> Inr s | Some val \<Rightarrow> IoApicMMIOWrite env s addr val)"

definition IoApicMMIORead :: "'z intr_state_scheme \<Rightarrow> ULONG \<Rightarrow> ULONG" where
  "IoApicMMIORead s addr =
     (let sel = IoRegisterSelect (IoApic s)
      in if addr = 0 then sel
         else if sel = 0 then push_bit 24 (IoApicId (IoApic s) AND 0xf)
         else if sel = 1 then IoApicVersion (IoApic s)
         else if sel = 2 then 0
         else let i = redirect_index sel
              in if i \<ge> IOAPIC_NUM_PINS then 0
                 else if testw sel 1 then High (IoRedirectTable (IoApic s) i)
                 else redirect_low s i)"

text \<open>Unlike the write handler, the read handler does not reduce the address to its low byte.\<close>

definition IoApicMMIOReadHandler ::
  "'z intr_state_scheme \<Rightarrow> ULONG \<Rightarrow> ULONG64 \<Rightarrow> ULONG \<Rightarrow> (ULONG64 \<times> 'z intr_state_scheme) res" where
  "IoApicMMIOReadHandler s addr data len =
     (if testw addr 3 then Inr (data, s)
      else Inr (mmio_put data len (IoApicMMIORead s addr), s))"

definition IOAPIC_DEFAULT_MMIO :: ULONG where "IOAPIC_DEFAULT_MMIO = 0xfec00000"

definition IoApicInitialize :: "env \<Rightarrow> 'z intr_state_scheme \<Rightarrow> 'z intr_state_scheme res" where
  "IoApicInitialize env s =
     bindE (MmioRegisterHandler env (s\<lparr>IoApic := IOAPIC_zero\<lparr>IoApicId := 1,
              IoApicVersion := push_bit 16 (of_nat IOAPIC_NUM_PINS - 1) OR 0x11\<rparr>\<rparr>)
              IOAPIC_DEFAULT_MMIO 0x1000 (Some IoApicMmio) (Some IoApicMmio)) (\<lambda>s.
     Inr (upd_ioapic (\<lambda>a. a\<lparr>IoRedirectTable := (\<lambda>i. if i < IOAPIC_NUM_PINS
            then \<lparr>High = 0, Low = IOAPIC_MASKED\<rparr> else IoRedirectTable a i)\<rparr>) s))"

section \<open>The invariant of the local APIC\<close>

lemma lapic_inv_upd_redirect [simp]: "lapic_inv (upd_redirect p f s) = lapic_inv s"
  by (rule lapic_inv_cong) (simp_all add: upd_redirect_def)

lemma lapic_inv_upd_ioapic [simp]: "lapic_inv (upd_ioapic f s) = lapic_inv s"
  by (rule lapic_inv_cong) (simp_all add: upd_ioapic_def)

lemma lapic_inv_IoApicSetIntr: "lapic_inv s \<Longrightarrow> specE UNIV lapic_inv (IoApicSetIntr env pin s)"
  unfolding IoApicSetIntr_def Let_def
  by (intro specE_if specE_bindI [OF lapic_inv_deliver]) auto

lemma lapic_inv_IoApicService: "lapic_inv s \<Longrightarrow> specE UNIV lapic_inv (IoApicService env s)"
  unfolding IoApicService_def
  by (rule specE_foldI) (simp_all add: lapic_inv_IoApicSetIntr)

lemma lapic_inv_IoApicRaiseIrq: "lapic_inv s \<Longrightarrow> specE UNIV lapic_inv (IoApicRaiseIrq env s irq)"
  unfolding IoApicRaiseIrq_def Let_def
  by (intro specE_if lapic_inv_IoApicService) simp_all

lemma lapic_inv_IoApicLowerIrq: "lapic_inv s \<Longrightarrow> lapic_inv (IoApicLowerIrq s irq)"
  by (simp add: IoApicLowerIrq_def Let_def)

lemma lapic_inv_IoApicMMIOWrite: "lapic_inv s \<Longrightarrow> specE UNIV lapic_inv (IoApicMMIOWriteHandler env s addr data len)"
  unfolding IoApicMMIOWriteHandler_def IoApicMMIOWrite_def Let_def
  by (auto split: option.splits intro!: specE_if lapic_inv_IoApicService)

lemma lapic_inv_ApicMMIORead: "lapic_inv s \<Longrightarrow> specE UNIV (\<lambda>(_, t). lapic_inv t) (ApicMMIOReadHandler s addr data len)"
proof -
  assume inv: "lapic_inv s"
  have "specE UNIV (\<lambda>(_, t). lapic_inv t) (ApicReadCurrentCount s)"
    unfolding ApicReadCurrentCount_def Let_def using inv
    by (intro specE_bind_any specE_bindI [where P = lapic_inv]) auto
  then have "specE UNIV (\<lambda>(_, t). lapic_inv t) (ApicMMIORead s addr)"
    unfolding ApicMMIORead_def Let_def by (intro specE_if_both) (simp_all add: inv)
  then show ?thesis using inv unfolding ApicMMIOReadHandler_def
    by (intro specE_if_both) (auto intro!: specE_bindI)
qed

section \<open>Reachable states of the two APICs\<close>

text \<open>
  What happens to the APICs: a device raises or lowers a line, the APIC timer fires, the guest
  reads or writes the registers, and the main loop takes an interrupt. A step that ends the
  process has no successor.
\<close>

inductive apic_step :: "env \<Rightarrow> 'z intr_state_scheme \<Rightarrow> 'z intr_state_scheme \<Rightarrow> bool" for env where
  raise_irq: "IoApicRaiseIrq env s irq = Inr t \<Longrightarrow> apic_step env s t"
| lower_irq: "apic_step env s (IoApicLowerIrq s irq)"
| apic_timer: "ApicTimerHandler env p s = Inr t \<Longrightarrow> apic_step env s t"
| lapic_write: "ApicMMIOWriteHandler env s addr data len = Inr t \<Longrightarrow> apic_step env s t"
| lapic_read: "ApicMMIOReadHandler s addr data len = Inr (d, t) \<Longrightarrow> apic_step env s t"
| ioapic_write: "IoApicMMIOWriteHandler env s addr data len = Inr t \<Longrightarrow> apic_step env s t"
| acknowledge: "ApicAcknowledgeInterrupt s = Inr (v, t) \<Longrightarrow> apic_step env s t"

inductive apic_reachable :: "env \<Rightarrow> 'z intr_state_scheme \<Rightarrow> 'z intr_state_scheme \<Rightarrow> bool" for env where
  start: "apic_reachable env s s"
| step: "apic_reachable env s t \<Longrightarrow> apic_step env t u \<Longrightarrow> apic_reachable env s u"

inductive_cases apic_stepE: "apic_step env s t"

lemma lapic_inv_apic_step: "apic_step env s t \<Longrightarrow> lapic_inv s \<Longrightarrow> lapic_inv t"
proof (induction rule: apic_step.induct)
  case (raise_irq s irq t)
  then show ?case using lapic_inv_IoApicRaiseIrq [of s env irq] by simp
next
  case (lower_irq s irq)
  then show ?case by (rule lapic_inv_IoApicLowerIrq)
next
  case (apic_timer p s t)
  then show ?case using lapic_inv_ApicTimerHandler [of s env p] by simp
next
  case (lapic_write s addr data len t)
  then show ?case using lapic_inv_ApicMMIOWrite [of s env addr data len] by simp
next
  case (lapic_read s addr data len d t)
  then show ?case using lapic_inv_ApicMMIORead [of s addr data len] by simp
next
  case (ioapic_write s addr data len t)
  then show ?case using lapic_inv_IoApicMMIOWrite [of s env addr data len] by simp
next
  case (acknowledge s v t)
  then show ?case using lapic_inv_ApicAcknowledge [of s] by simp
qed

lemma lapic_inv_reachable: "apic_reachable env s t \<Longrightarrow> lapic_inv s \<Longrightarrow> lapic_inv t"
  by (induction rule: apic_reachable.induct) (blast intro: lapic_inv_apic_step)+

section \<open>Delivery of one line\<close>

lemma IoApicService_single:
  assumes "Irr (IoApic s) = lsh1 pin" and "pin < IOAPIC_NUM_PINS"
    and "IoApicSetIntr env pin s = Inr t" and "Irr (IoApic t) = 0 \<or> Irr (IoApic t) = lsh1 pin"
  shows "IoApicService env s = Inr t"
proof -
  let ?f = "\<lambda>pin s. if testw (Irr (IoApic s)) (lsh1 pin) then IoApicSetIntr env pin s else Inr s"
  have "[0 ..< IOAPIC_NUM_PINS] = [0 ..< pin] @ pin # [Suc pin ..< IOAPIC_NUM_PINS]"
    using assms(2) upt_add_eq_append [of 0 pin "IOAPIC_NUM_PINS - pin"] by (simp add: upt_conv_Cons)
  moreover have "foldE ?f [0 ..< pin] s = Inr s" by (rule foldE_skip) (simp add: assms(1))
  moreover have "foldE ?f [Suc pin ..< IOAPIC_NUM_PINS] t = Inr t"
    by (rule foldE_skip) (use assms(4) in auto)
  moreover have "?f pin s = Inr t" using assms(1,2,3) by (simp add: IOAPIC_NUM_PINS_def)
  ultimately show ?thesis unfolding IoApicService_def by (simp add: foldE_append)
qed

text \<open>A redirection entry that sends a fixed interrupt to the local APIC in physical mode.\<close>

definition fixed_entry :: "'z intr_state_scheme \<Rightarrow> nat \<Rightarrow> bool" where
  "fixed_entry s pin \<longleftrightarrow> pin < IOAPIC_NUM_PINS \<and> \<not> testw (redirect_low s pin) IOAPIC_MASKED \<and>
     redirect_low s pin AND IOAPIC_DELIVERY_MODE = 0 \<and> redirect_low s pin AND IOAPIC_DESTINATION_MODE = 0 \<and>
     drop_bit 24 (High (IoRedirectTable (IoApic s) pin)) = 0 \<and> MsrEnable (Lapic s) \<noteq> 0"

lemma deliver_fixed:
  "MsrEnable (Lapic s) \<noteq> 0 \<Longrightarrow>
   ApicBusDeliverInterrupt env s v 0 0 0 tr = bindE (ApicSetIrq s 0 v tr) (\<lambda>s. Inr (0, s))"
  by (simp add: ApicBusDeliverInterrupt_def APIC_consts NUM_LOCAL_APICS_def)

lemma ApicSetIrq_frame:
  assumes "ApicSetIrq s 0 v tr = Inr t"
  shows "IoApic t = IoApic s" and "MsrEnable (Lapic t) = MsrEnable (Lapic s)"
  using assms by (auto simp: ApicSetIrq_def NUM_LOCAL_APICS_def upd_lapic_def split: if_splits)

lemma ApicSetIrq_irr:
  assumes "\<not> unat v \<le> 15"
  obtains t where "ApicSetIrq s 0 v tr = Inr t" "irr_set t = insert (unat v) (irr_set s)" "isr_set t = isr_set s"
proof -
  have nv: "\<not> v \<le> 15" using assms by (simp add: word_le_nat_alt)
  have "\<exists>t. ApicSetIrq s 0 v tr = Inr t \<and> irr_set t = insert (unat v) (irr_set s) \<and> isr_set t = isr_set s"
    using nv vectors_mem_vec [of v "InterruptRequestRegister (Lapic s)"]
    by (auto simp: ApicSetIrq_def NUM_LOCAL_APICS_def upd_lapic_def vector_sets vec_parts(3) insert_absorb)
  then show ?thesis using that by blast
qed

lemma IoApicSetIntr_fixed:
  assumes "fixed_entry s pin" and "\<not> unat (ucast (redirect_low s pin) :: BYTE) \<le> 15"
    and "\<not> (testw (redirect_low s pin) IOAPIC_LEVEL_SENSITIVE \<and> testw (redirect_low s pin) IOAPIC_IRR)"
  obtains t where "IoApicSetIntr env pin s = Inr t"
    "irr_set t = insert (unat (ucast (redirect_low s pin) :: BYTE)) (irr_set s)" "isr_set t = isr_set s"
    "Irr (IoApic t) = (if testw (redirect_low s pin) IOAPIC_LEVEL_SENSITIVE then Irr (IoApic s)
                       else Irr (IoApic s) AND NOT (lsh1 pin))"
    "redirect_low t pin = (if testw (redirect_low s pin) IOAPIC_LEVEL_SENSITIVE
       then (redirect_low s pin OR IOAPIC_IRR) AND NOT IOAPIC_DELIVERY_STATUS
       else redirect_low s pin AND NOT IOAPIC_DELIVERY_STATUS)"
proof -
  obtain u where u: "ApicSetIrq s 0 (ucast (redirect_low s pin)) (redirect_low s pin AND IOAPIC_LEVEL_SENSITIVE) = Inr u"
    "irr_set u = insert (unat (ucast (redirect_low s pin) :: BYTE)) (irr_set s)" "isr_set u = isr_set s"
    using ApicSetIrq_irr [OF assms(2)] by blast
  have io: "IoApic u = IoApic s" using ApicSetIrq_frame(1) [OF u(1)] .
  let ?t = "upd_redirect pin (\<lambda>e. e\<lparr>Low := Low e AND NOT IOAPIC_DELIVERY_STATUS\<rparr>)
     (if testw (redirect_low u pin) IOAPIC_LEVEL_SENSITIVE
      then upd_redirect pin (\<lambda>e. e\<lparr>Low := Low e OR IOAPIC_IRR\<rparr>) u
      else upd_ioapic (\<lambda>a. a\<lparr>Irr := Irr a AND NOT (lsh1 pin)\<rparr>) u)"
  have t: "IoApicSetIntr env pin s = Inr ?t"
    using assms u(1) unfolding fixed_entry_def IoApicSetIntr_def Let_def
    by (auto simp add: deliver_fixed)
  show ?thesis
    by (rule that [OF t]) (use u io in \<open>simp_all add: upd_redirect_def upd_ioapic_def\<close>)
qed

text \<open>C10. An interrupt line of the I/O APIC whose entry sends a fixed interrupt to the local APIC.
  With no other line pending, raising the line makes the entry's vector requested at the local
  APIC and leaves the service register alone. An edge-triggered line is consumed by
  the delivery; a level-triggered line stays pending, sets its remote IRR bit, and raising it
  again changes nothing until that bit is cleared.\<close>

theorem IoApicRaiseIrq_delivers:
  assumes "fixed_entry s (ioapic_pin irq)" and "Irr (IoApic s) = 0"
    and "15 < unat (ucast (redirect_low s (ioapic_pin irq)) :: BYTE)"
    and "\<not> testw (redirect_low s (ioapic_pin irq)) IOAPIC_IRR"
  shows "\<exists>t. IoApicRaiseIrq env s irq = Inr t \<and>
     irr_set t = insert (unat (ucast (redirect_low s (ioapic_pin irq)) :: BYTE)) (irr_set s) \<and>
     isr_set t = isr_set s \<and>
     (if testw (redirect_low s (ioapic_pin irq)) IOAPIC_LEVEL_SENSITIVE
      then Irr (IoApic t) = lsh1 (ioapic_pin irq) \<and> testw (redirect_low t (ioapic_pin irq)) IOAPIC_IRR \<and>
           IoApicRaiseIrq env t irq = Inr t
      else Irr (IoApic t) = 0)"
proof -
  let ?p = "ioapic_pin irq"
  let ?s = "upd_ioapic (\<lambda>a. a\<lparr>Irr := Irr a OR lsh1 ?p\<rparr>) s"
  have p: "?p < IOAPIC_NUM_PINS" using assms(1) by (simp add: fixed_entry_def)
  have s: "redirect_low ?s ?p = redirect_low s ?p" "Irr (IoApic ?s) = lsh1 ?p" "irr_set ?s = irr_set s" "isr_set ?s = isr_set s"
    using assms(2) by (simp_all add: upd_ioapic_def)
  have "fixed_entry ?s ?p" using assms(1) by (simp add: fixed_entry_def upd_ioapic_def)
  from IoApicSetIntr_fixed [OF this, of env] assms(3,4) obtain t where
    t: "IoApicSetIntr env ?p ?s = Inr t"
      "irr_set t = insert (unat (ucast (redirect_low s ?p) :: BYTE)) (irr_set s)" "isr_set t = isr_set s"
      "Irr (IoApic t) = (if testw (redirect_low s ?p) IOAPIC_LEVEL_SENSITIVE then lsh1 ?p
                         else lsh1 ?p AND NOT (lsh1 ?p))"
      "redirect_low t ?p = (if testw (redirect_low s ?p) IOAPIC_LEVEL_SENSITIVE
         then (redirect_low s ?p OR IOAPIC_IRR) AND NOT IOAPIC_DELIVERY_STATUS
         else redirect_low s ?p AND NOT IOAPIC_DELIVERY_STATUS)"
    unfolding s by auto
  have "IoApicService env ?s = Inr t"
    by (rule IoApicService_single [OF s(2) p t(1)]) (simp add: t(4))
  then have raise: "IoApicRaiseIrq env s irq = Inr t"
    using p assms(2) by (simp add: IoApicRaiseIrq_def Let_def)
  have "IoApicRaiseIrq env t irq = Inr t \<and> testw (redirect_low t ?p) IOAPIC_IRR"
    if lev: "testw (redirect_low s ?p) IOAPIC_LEVEL_SENSITIVE"
  proof -
    have low: "testw (redirect_low t ?p) IOAPIC_IRR" "testw (redirect_low t ?p) IOAPIC_LEVEL_SENSITIVE"
      using lev unfolding t(5) by (simp_all add: IOAPIC_consts bit_and_iff bit_or_iff bit_not_iff)
    have irr: "Irr (IoApic t) = lsh1 ?p" using t(4) lev by simp
    then have same: "upd_ioapic (\<lambda>a. a\<lparr>Irr := Irr a OR lsh1 ?p\<rparr>) t = t" by (simp add: upd_ioapic_def)
    have "IoApicSetIntr env ?p t = Inr t" using low by (simp add: IoApicSetIntr_def Let_def)
    from IoApicService_single [OF irr p this] irr have "IoApicService env t = Inr t" by simp
    then show ?thesis using p low same by (simp add: IoApicRaiseIrq_def Let_def)
  qed
  then show ?thesis using raise t(2-4) by auto
qed

text \<open>An idle machine with an enabled local APIC; pin 4 is edge triggered with vector 0x35.\<close>

definition ioapic_example :: intr_state where
  "ioapic_example = intr_zero\<lparr>
     IoApic := IOAPIC_zero\<lparr>IoRedirectTable := (\<lambda>p. \<lparr>High = 0, Low = 0x35\<rparr>)\<rparr>,
     Lapic := LAPIC_zero\<lparr>MsrEnable := 1, SpuriousVector := 0xff\<rparr>\<rparr>"

lemma ioapic_example_facts:
  "fixed_entry ioapic_example (ioapic_pin 4)" "Irr (IoApic ioapic_example) = 0"
  "redirect_low ioapic_example p = 0x35" "unat (ucast (0x35 :: DWORD) :: BYTE) = 0x35"
  "\<not> testw (0x35 :: DWORD) IOAPIC_IRR" "\<not> testw (0x35 :: DWORD) IOAPIC_LEVEL_SENSITIVE"
  "irr_set ioapic_example = {}" "isr_set ioapic_example = {}"
  "\<not> testw (svmm_events ioapic_example) EVENT_PENDING_LAPIC_INTR"
  by (simp_all add: fixed_entry_def ioapic_example_def ioapic_pin_def IOAPIC_consts IOAPIC_zero_def LAPIC_zero_def
      testw_def lsh1_def push_bit_eq_mult vectors_zero EVENT_PENDING_LAPIC_INTR_def zero_defs)

theorem IoApicRaiseIrq_delivers_witness:
  "\<exists>t. IoApicRaiseIrq (\<lambda>_ _. True) ioapic_example 4 = Inr t \<and> irr_set t = {0x35} \<and> Irr (IoApic t) = 0"
  using IoApicRaiseIrq_delivers [of ioapic_example 4 "\<lambda>_ _. True"] by (auto simp: ioapic_example_facts)

text \<open>C11. In every state the APICs can reach from one with empty registers and no pending event,
  no reserved vector is requested or in service, and a pending event means that a vector is
  requested. So when the main loop acknowledges a pending interrupt it gets a vector of at least
  16 or the spurious vector, and the process does not exit.\<close>

theorem apic_reachable_acknowledge:
  assumes "apic_reachable env s t" and "irr_set s = {}" and "isr_set s = {}"
    and "\<not> testw (svmm_events s) EVENT_PENDING_LAPIC_INTR"
  shows "lapic_inv t \<and> (testw (svmm_events t) EVENT_PENDING_LAPIC_INTR \<longrightarrow>
     (\<exists>v u. ApicAcknowledgeInterrupt t = Inr (v, u) \<and> (16 \<le> unat v \<or> v = SpuriousVector (Lapic t))))"
proof
  show inv: "lapic_inv t" using assms by (intro lapic_inv_reachable [OF assms(1)]) (simp add: lapic_inv_def)
  show "testw (svmm_events t) EVENT_PENDING_LAPIC_INTR \<longrightarrow>
     (\<exists>v u. ApicAcknowledgeInterrupt t = Inr (v, u) \<and> (16 \<le> unat v \<or> v = SpuriousVector (Lapic t)))"
  proof
    assume pend: "testw (svmm_events t) EVENT_PENDING_LAPIC_INTR"
    let ?r = "InterruptRequestRegister (Lapic t)"
    have "highest_vector ?r \<in> irr_set t" using inv pend by (intro highest_vector_mem) (auto simp: lapic_inv_def)
    then have "16 \<le> unat (of_nat (highest_vector ?r) :: BYTE)"
      using inv unfolding unat_highest lapic_inv_def by auto
    then show "\<exists>v u. ApicAcknowledgeInterrupt t = Inr (v, u) \<and> (16 \<le> unat v \<or> v = SpuriousVector (Lapic t))"
      using pend unfolding ApicAcknowledgeInterrupt_def Let_def highest_isr_byte by auto
  qed
qed

theorem apic_reachable_acknowledge_witness:
  "\<exists>t v u. IoApicRaiseIrq (\<lambda>_ _. True) ioapic_example 4 = Inr t \<and> lapic_inv t \<and>
     (testw (svmm_events t) EVENT_PENDING_LAPIC_INTR \<longrightarrow>
      ApicAcknowledgeInterrupt t = Inr (v, u) \<and> (16 \<le> unat v \<or> v = SpuriousVector (Lapic t)))"
proof -
  obtain t where t: "IoApicSetIntr (\<lambda>_ _. True) (ioapic_pin 4) (upd_ioapic (\<lambda>a. a\<lparr>Irr := Irr a OR lsh1 (ioapic_pin 4)\<rparr>) ioapic_example) = Inr t"
    "Irr (IoApic t) = 0"
  proof (rule IoApicSetIntr_fixed [of "upd_ioapic (\<lambda>a. a\<lparr>Irr := Irr a OR lsh1 (ioapic_pin 4)\<rparr>) ioapic_example"
        "ioapic_pin 4" "\<lambda>_ _. True"])
  qed (use ioapic_example_facts in \<open>auto simp: fixed_entry_def upd_ioapic_def\<close>)
  have "IoApicRaiseIrq (\<lambda>_ _. True) ioapic_example 4 = Inr t"
    using t IoApicService_single [OF _ _ t(1)] ioapic_example_facts
    by (simp add: IoApicRaiseIrq_def Let_def upd_ioapic_def fixed_entry_def)
  then have "apic_reachable (\<lambda>_ _. True) ioapic_example t"
    by (blast intro: apic_reachable.intros apic_step.intros)
  then show ?thesis
    using \<open>IoApicRaiseIrq _ _ _ = Inr t\<close> apic_reachable_acknowledge [of "\<lambda>_ _. True" ioapic_example t]
    by (auto simp: ioapic_example_facts)
qed

section \<open>The memory-mapped registers\<close>

lemma IoApicService_idle: "Irr (IoApic s) = 0 \<Longrightarrow> IoApicService env s = Inr s"
  unfolding IoApicService_def by (rule foldE_skip) (simp add: testw_def)

lemma redirect_index_odd:
  assumes "pin < IOAPIC_NUM_PINS"
  shows "redirect_index (of_nat (0x11 + 2 * pin)) = pin" and "testw (of_nat (0x11 + 2 * pin) :: DWORD) 1"
    and "(of_nat (0x11 + 2 * pin) :: DWORD) AND 0xff = of_nat (0x11 + 2 * pin)"
    and "(of_nat (0x11 + 2 * pin) :: DWORD) \<notin> {0, 1, 2}"
proof -
  have "pin \<in> set [0 ..< 24]" using assms by (simp add: IOAPIC_NUM_PINS_def)
  then show "redirect_index (of_nat (0x11 + 2 * pin)) = pin" "testw (of_nat (0x11 + 2 * pin) :: DWORD) 1"
    "(of_nat (0x11 + 2 * pin) :: DWORD) AND 0xff = of_nat (0x11 + 2 * pin)" "(of_nat (0x11 + 2 * pin) :: DWORD) \<notin> {0, 1, 2}"
    by (auto simp: upt_conv_Cons redirect_index_def testw_def)
qed

lemma select_write:
  assumes "pin < IOAPIC_NUM_PINS"
  shows "IoApicMMIOWriteHandler env s 0xfec00000 (of_nat (0x11 + 2 * pin)) 4 =
     Inr (upd_ioapic (\<lambda>a. a\<lparr>IoRegisterSelect := of_nat (0x11 + 2 * pin)\<rparr>) s)"
proof -
  have "mmio_get (of_nat (0x11 + 2 * pin)) 4 = Some (of_nat (0x11 + 2 * pin))"
    by (simp only: mmio_get_def ucast_of_nat_ULONG) simp
  then show ?thesis using redirect_index_odd(3) [OF assms]
    by (simp add: IoApicMMIOWriteHandler_def IoApicMMIOWrite_def testw_def upd_ioapic_def Let_def)
qed

text \<open>Programming the destination half of a redirection entry. With no line pending, selecting
  register \<open>0x11 + 2 * pin\<close> and writing the data register stores the value in the entry of that
  pin and nowhere else, and the next read of the data register returns it.\<close>

theorem ioapic_redirect_roundtrip:
  assumes "pin < IOAPIC_NUM_PINS" and "Irr (IoApic s) = 0"
  shows "bindE (IoApicMMIOWriteHandler env s 0xfec00000 (of_nat (0x11 + 2 * pin)) 4) (\<lambda>s.
         bindE (IoApicMMIOWriteHandler env s 0xfec00010 (ucast v) 4) (\<lambda>s.
         IoApicMMIOReadHandler s 0xfec00010 data 4)) =
       Inr (mmio_put data 4 v,
            upd_redirect pin (\<lambda>e. e\<lparr>High := v\<rparr>)
              (upd_ioapic (\<lambda>a. a\<lparr>IoRegisterSelect := of_nat (0x11 + 2 * pin)\<rparr>) s))"
proof -
  have get: "mmio_get (ucast v) 4 = Some v" by (simp add: mmio_get_def)
  let ?s = "upd_ioapic (\<lambda>a. a\<lparr>IoRegisterSelect := of_nat (0x11 + 2 * pin)\<rparr>) s"
  let ?t = "upd_redirect pin (\<lambda>e. e\<lparr>High := v\<rparr>) ?s"
  have sel: "IoRegisterSelect (IoApic ?s) = of_nat (0x11 + 2 * pin)" by (simp add: upd_ioapic_def)
  have selt: "IoRegisterSelect (IoApic ?t) = of_nat (0x11 + 2 * pin)" by (simp add: upd_ioapic_def upd_redirect_def)
  have high: "High (IoRedirectTable (IoApic ?t) pin) = v" by (simp add: upd_redirect_def)
  have "IoApicService env ?t = Inr ?t"
    by (rule IoApicService_idle) (simp add: upd_redirect_def upd_ioapic_def assms(2))
  then have "IoApicMMIOWrite env ?s 0x10 v = Inr ?t"
    unfolding IoApicMMIOWrite_def Let_def sel redirect_index_odd(1) [OF assms(1)]
    using redirect_index_odd(2,4) [OF assms(1)] assms(1) by auto
  then have "IoApicMMIOWriteHandler env ?s 0xfec00010 (ucast v) 4 = Inr ?t"
    by (simp add: IoApicMMIOWriteHandler_def get testw_def Let_def)
  moreover have "IoApicMMIORead ?t 0xfec00010 = v"
    unfolding IoApicMMIORead_def Let_def selt redirect_index_odd(1) [OF assms(1)]
    using redirect_index_odd(2,4) [OF assms(1)] assms(1) high by auto
  ultimately show ?thesis
    unfolding select_write [OF assms(1)] by (simp add: IoApicMMIOReadHandler_def testw_def)
qed

theorem ioapic_redirect_roundtrip_witness:
  "bindE (IoApicMMIOWriteHandler (\<lambda>_ _. True) ioapic_example 0xfec00000 (of_nat (0x11 + 2 * 4)) 4) (\<lambda>s.
         bindE (IoApicMMIOWriteHandler (\<lambda>_ _. True) s 0xfec00010 (ucast (0x01000000 :: ULONG)) 4) (\<lambda>s.
         IoApicMMIOReadHandler s 0xfec00010 0 4)) =
       Inr (0x01000000,
            upd_redirect 4 (\<lambda>e. e\<lparr>High := 0x01000000\<rparr>)
              (upd_ioapic (\<lambda>a. a\<lparr>IoRegisterSelect := of_nat (0x11 + 2 * 4)\<rparr>) ioapic_example))"
proof -
  have "(4 :: nat) < IOAPIC_NUM_PINS" by (simp add: IOAPIC_NUM_PINS_def)
  note * = ioapic_redirect_roundtrip [OF this ioapic_example_facts(2), of "\<lambda>_ _. True" "0x01000000" 0]
  have "mmio_put 0 4 0x01000000 = 0x01000000" by (simp add: mmio_put_def)
  with * show ?thesis by (simp only: *)
qed

text \<open>The read handler compares the full guest address with 0, so a read of the index register
  at 0xfec00000 never returns the selected index: it returns the selected register, exactly as a
  read of the data register does.\<close>

theorem ioapic_index_read_diverges:
  "IoApicMMIOReadHandler s 0xfec00000 data len = IoApicMMIOReadHandler s 0xfec00010 data len"
  by (simp add: IoApicMMIOReadHandler_def IoApicMMIORead_def testw_def)

section \<open>What raising a line leaves alone\<close>

lemma apic_only_upd_redirect [simp]: "apic_only s (upd_redirect p f s)"
  by (rule apic_onlyI [where io = "IoApic (upd_redirect p f s)" and l = "Lapic s" and e = "svmm_events s"
      and w = "request_interrupt_window s" and log = "EnvLog s"])
     (simp_all add: upd_redirect_def)

lemma apic_only_upd_ioapic [simp]: "apic_only s (upd_ioapic f s)"
  by (rule apic_onlyI [where io = "f (IoApic s)" and l = "Lapic s" and e = "svmm_events s"
      and w = "request_interrupt_window s" and log = "EnvLog s"])
     (simp_all add: upd_ioapic_def)

lemma apic_only_steps:
  "apic_only s t \<Longrightarrow> apic_only s (upd_redirect p f t)"
  "apic_only s t \<Longrightarrow> apic_only s (upd_ioapic g t)"
  by (blast intro: apic_only_trans apic_only_upd_redirect apic_only_upd_ioapic)+

lemma apic_only_IoApicSetIntr: "apic_only r s \<Longrightarrow> specE {Exit} (apic_only r) (IoApicSetIntr env pin s)"
proof -
  assume r: "apic_only r s"
  have "specE {Exit} (\<lambda>(_, t). apic_only r t) (ApicBusDeliverInterrupt env s v d dm del tr)" for v d dm del tr
    using specE_conj [OF deliver_errors apic_only_deliver]
    by (rule specE_mono) (auto intro: apic_only_trans [OF r])
  then show ?thesis unfolding IoApicSetIntr_def Let_def
    by (intro specE_if_both specE_bindI [where P = "\<lambda>(_, t). apic_only r t"]) (auto intro!: apic_only_steps simp: r)
qed

lemma apic_only_IoApicService: "apic_only r s \<Longrightarrow> specE {Exit} (apic_only r) (IoApicService env s)"
  unfolding IoApicService_def by (rule specE_foldI) (simp_all add: apic_only_IoApicSetIntr)

lemma IoApicRaiseIrq_frame: "specE {Exit} (apic_only s) (IoApicRaiseIrq env s irq)"
  unfolding IoApicRaiseIrq_def Let_def
  by (intro specE_if_both apic_only_IoApicService apic_only_steps) simp_all

lemma IoApicLowerIrq_frame: "apic_only s (IoApicLowerIrq s irq)"
  by (simp add: IoApicLowerIrq_def Let_def)

end
