(* ===== verification/Pic.thy ===== *)
theory Pic
  imports IoApic
begin

text \<open>
  The pair of 8259 interrupt controllers of \<open>pic.c\<close>. \<open>Pic[0]\<close> is the master and \<open>Pic[1]\<close> the
  slave, whose output is line 2 of the master. \<open>PicService\<close> and \<open>PicRaiseIrq\<close> call each other;
  the recursion ends because line 2 is raised at most once.
\<close>

section \<open>State\<close>

datatype pic_id = Master | Slave

record PIC =
  InitCmd :: "nat \<Rightarrow> BYTE"
  OperationCmd :: "nat \<Rightarrow> BYTE"
  EdgeLevel :: BYTE
  InterruptMask :: BYTE
  InterruptInService :: BYTE
  InterruptRequest :: BYTE
  InterruptPin :: BYTE
  InterruptNumber :: BYTE
  CurrentPriority :: BYTE
  CurrentOffset :: BYTE
  PicRaised :: BYTE
  PicState :: BYTE
  PicMode :: BYTE

record pic_state = intr_state +
  Pic :: "pic_id \<Rightarrow> PIC"

definition PIC_zero :: PIC where
  "PIC_zero = \<lparr>InitCmd = (\<lambda>_. 0), OperationCmd = (\<lambda>_. 0), EdgeLevel = 0, InterruptMask = 0,
     InterruptInService = 0, InterruptRequest = 0, InterruptPin = 0, InterruptNumber = 0,
     CurrentPriority = 0, CurrentOffset = 0, PicRaised = 0, PicState = 0, PicMode = 0\<rparr>"

definition pic_zero :: pic_state where
  "pic_zero = intr_state.extend intr_zero (pic_state.fields (\<lambda>_. PIC_zero))"

definition ICW3_CASCADE_ENABLE :: BYTE where "ICW3_CASCADE_ENABLE = lsh1 2"
definition ICW3_SLAVE_ID :: BYTE where "ICW3_SLAVE_ID = lsh1 1"
definition MODE_FULLY_NESTED :: BYTE where "MODE_FULLY_NESTED = lsh1 0"
definition MODE_SPECIAL_FULLY_NESTED :: BYTE where "MODE_SPECIAL_FULLY_NESTED = lsh1 1"
definition MODE_SPECIAL_MASK :: BYTE where "MODE_SPECIAL_MASK = lsh1 4"
definition MODE_POLL :: BYTE where "MODE_POLL = lsh1 5"
definition MODE_AUTO_EOI :: BYTE where "MODE_AUTO_EOI = lsh1 6"
definition MODE_NORMAL_EOI :: BYTE where "MODE_NORMAL_EOI = lsh1 7"

lemmas PIC_consts = ICW3_CASCADE_ENABLE_def ICW3_SLAVE_ID_def MODE_FULLY_NESTED_def
  MODE_SPECIAL_FULLY_NESTED_def MODE_SPECIAL_MASK_def MODE_POLL_def MODE_AUTO_EOI_def MODE_NORMAL_EOI_def

definition upd_pic :: "pic_id \<Rightarrow> (PIC \<Rightarrow> PIC) \<Rightarrow> 'z pic_state_scheme \<Rightarrow> 'z pic_state_scheme" where
  "upd_pic i f s = s\<lparr>Pic := (Pic s)(i := f (Pic s i))\<rparr>"

section \<open>Servicing\<close>

text \<open>
  Lines are numbers; a line of 8 or more has no bit in the 8-bit registers, and a shift by 32 or
  more is undefined.
\<close>

definition pic_wants :: "PIC \<Rightarrow> nat \<Rightarrow> bool" where
  "pic_wants p irq \<longleftrightarrow> \<not> testw (InterruptInService p) (lsh1 irq) \<and> testw (InterruptRequest p) (lsh1 irq)"

text \<open>The search loop of the fully nested mode: the first unmasked line, at most \<open>CurrentPriority\<close>,
  that is requested and not in service.\<close>

definition pic_scan :: "PIC \<Rightarrow> nat option res" where
  "pic_scan p =
     (case find (\<lambda>irq. \<not> testw (InterruptMask p) (lsh1 irq) \<and> pic_wants p irq)
             [0 ..< min (unat (CurrentPriority p) + 1) 32] of
        Some irq \<Rightarrow> Inr (Some irq)
      | None \<Rightarrow> if unat (CurrentPriority p) \<ge> 32 then Inl BadShift else Inr None)"

text \<open>
  Special mask mode: every line whose mask bit is set is considered (the comment of the source
  says the opposite), and a request the driver refuses ends the loop.
\<close>

fun pic_special :: "env \<Rightarrow> pic_id \<Rightarrow> nat list \<Rightarrow> 'z pic_state_scheme \<Rightarrow> 'z pic_state_scheme" where
  "pic_special env i [] s = s"
| "pic_special env i (irq # irqs) s =
     (let p = Pic s i
      in if testw (NOT (InterruptMask p)) (lsh1 irq) then pic_special env i irqs s
         else if pic_wants p irq
         then let s = upd_pic i (\<lambda>p. p\<lparr>PicRaised := 1, InterruptNumber := of_nat irq + CurrentOffset p\<rparr>) s
              in case DeviceIoControl env (GVM_INTERRUPT (ucast (InterruptNumber (Pic s i)))) s of (ok, s) \<Rightarrow>
                 if \<not> ok then s
                 else pic_special env i irqs (s\<lparr>svmm_events := svmm_events s OR EVENT_PENDING_INTR\<rparr>)
         else pic_special env i irqs s)"

definition line2_up :: "'z pic_state_scheme \<Rightarrow> bool" where
  "line2_up s \<longleftrightarrow> testw (InterruptPin (Pic s Master)) (lsh1 2)"

definition set_line :: "pic_id \<Rightarrow> nat \<Rightarrow> 'z pic_state_scheme \<Rightarrow> 'z pic_state_scheme" where
  "set_line i irq s = upd_pic i (\<lambda>p. p\<lparr>InterruptPin := InterruptPin p OR lsh1 irq,
                                      InterruptRequest := InterruptRequest p OR lsh1 irq\<rparr>) s"

text \<open>
  The call \<open>PicRaiseIrq(2)\<close> at the end, which does not reach the I/O APIC, is written out: it
  returns when line 2 of the master is up, and otherwise raises it and services the master.
  \<open>PicService_rec\<close> below restores the form of the source.
\<close>

function PicService :: "env \<Rightarrow> pic_id \<Rightarrow> 'z pic_state_scheme \<Rightarrow> 'z pic_state_scheme res" where
  "PicService env i s =
     (let p = Pic s i
      in if testw (PicMode p) MODE_SPECIAL_MASK then Inr (pic_special env i [0 ..< 8] s)
         else if testw (PicMode p) MODE_FULLY_NESTED
         then bindE (pic_scan p) (\<lambda>r. case r of
                None \<Rightarrow> Inr s
              | Some irq \<Rightarrow>
                  let s = upd_pic i (\<lambda>p. p\<lparr>PicRaised := 1, InterruptNumber := of_nat irq + CurrentOffset p\<rparr>) s
                  in if testw (InitCmd (Pic s i) 2) ICW3_CASCADE_ENABLE
                     then Inr (s\<lparr>request_interrupt_window := 1, svmm_events := svmm_events s OR EVENT_PENDING_INTR\<rparr>)
                     else if line2_up s then Inr s
                     else PicService env Master (set_line Master 2 s))
         else Inr s)"
  by pat_completeness auto
termination
  by (relation "measure (\<lambda>(env, i, s). if line2_up s then 0 else 1)")
     (auto simp: line2_up_def set_line_def upd_pic_def bit_or_iff split: if_splits)

declare PicService.simps [simp del]

text \<open>The controller and the bit a line number stands for.\<close>

definition line_pic :: "BYTE \<Rightarrow> pic_id" where
  "line_pic irq = (if 7 < irq then Slave else Master)"

definition line_bit :: "BYTE \<Rightarrow> nat" where
  "line_bit irq = unat (irq AND 7)"

definition PicRaiseIrq :: "env \<Rightarrow> 'z pic_state_scheme \<Rightarrow> BYTE \<Rightarrow> 'z pic_state_scheme res" where
  "PicRaiseIrq env s irq =
     bindE (if irq \<noteq> 2 then IoApicRaiseIrq env s irq else Inr s) (\<lambda>s.
     if irq > 15 \<or> testw (InterruptPin (Pic s (line_pic irq))) (lsh1 (line_bit irq)) then Inr s
     else PicService env (line_pic irq) (set_line (line_pic irq) (line_bit irq) s))"

lemma PicService_rec:
  "PicService env i s =
     (let p = Pic s i
      in if testw (PicMode p) MODE_SPECIAL_MASK then Inr (pic_special env i [0 ..< 8] s)
         else if testw (PicMode p) MODE_FULLY_NESTED
         then bindE (pic_scan p) (\<lambda>r. case r of
                None \<Rightarrow> Inr s
              | Some irq \<Rightarrow>
                  let s = upd_pic i (\<lambda>p. p\<lparr>PicRaised := 1, InterruptNumber := of_nat irq + CurrentOffset p\<rparr>) s
                  in if testw (InitCmd (Pic s i) 2) ICW3_CASCADE_ENABLE
                     then Inr (s\<lparr>request_interrupt_window := 1, svmm_events := svmm_events s OR EVENT_PENDING_INTR\<rparr>)
                     else PicRaiseIrq env s 2)
         else Inr s)"
proof -
  have r2: "PicRaiseIrq env t 2 = (if line2_up t then Inr t else PicService env Master (set_line Master 2 t))"
    for t :: "'a pic_state_scheme"
    by (simp add: PicRaiseIrq_def line_pic_def line_bit_def line2_up_def)
  show ?thesis unfolding r2 by (rule PicService.simps)
qed

definition PicLowerIrq :: "'z pic_state_scheme \<Rightarrow> BYTE \<Rightarrow> 'z pic_state_scheme" where
  "PicLowerIrq s irq =
     (let s = (if irq \<noteq> 2 then IoApicLowerIrq s irq else s);
          i = line_pic irq
      in if irq > 7 \<or> \<not> testw (InterruptPin (Pic s i)) (lsh1 (line_bit irq)) then s
         else upd_pic i (\<lambda>p. p\<lparr>InterruptPin := InterruptPin p AND NOT (lsh1 (line_bit irq)),
                               InterruptRequest := InterruptRequest p AND NOT (lsh1 (line_bit irq))\<rparr>) s)"

text \<open>The part of the acknowledge cycle that both controllers share.\<close>

definition pic_ack :: "nat \<Rightarrow> PIC \<Rightarrow> PIC" where
  "pic_ack irq p = p\<lparr>PicRaised := 0,
     InterruptRequest := (if \<not> testw (EdgeLevel p) (lsh1 irq) then InterruptRequest p AND NOT (lsh1 irq)
                          else InterruptRequest p)\<rparr>"

definition pic_in_service :: "nat \<Rightarrow> PIC \<Rightarrow> PIC" where
  "pic_in_service irq p = p\<lparr>CurrentPriority := of_nat irq, InterruptInService := InterruptInService p OR lsh1 irq\<rparr>"

definition PicIAC :: "env \<Rightarrow> 'z pic_state_scheme \<Rightarrow> (BYTE \<times> 'z pic_state_scheme) res" where
  "PicIAC env s =
     (let s = s\<lparr>svmm_events := svmm_events s AND NOT EVENT_PENDING_INTR\<rparr>;
          irq = unat (InterruptNumber (Pic s Master) - CurrentOffset (Pic s Master))
      in if irq \<ge> 32 then Inl BadShift
         else let s = upd_pic Master (pic_ack irq) s
              in if irq \<noteq> 2
                 then let vector = InterruptNumber (Pic s Master);
                          s = upd_pic Master (pic_in_service irq) s
                      in bindE (PicService env Master s) (\<lambda>s. Inr (vector, s))
                 else let irq = unat (InterruptNumber (Pic s Slave) - CurrentOffset (Pic s Slave))
                      in if irq \<ge> 32 then Inl BadShift
                         else let s = upd_pic Slave (pic_ack irq) s;
                                  s = upd_pic Master (\<lambda>p. p\<lparr>InterruptPin := InterruptPin p AND NOT (lsh1 2)\<rparr>) s;
                                  s = upd_pic Slave (pic_in_service irq) s;
                                  vector = InterruptNumber (Pic s Slave)
                              in bindE (PicService env Slave s) (\<lambda>s.
                                 bindE (PicService env Master s) (\<lambda>s. Inr (vector, s))))"

definition PicSetMode :: "'z pic_state_scheme \<Rightarrow> BYTE \<Rightarrow> BYTE \<Rightarrow> 'z pic_state_scheme" where
  "PicSetMode s master edgeLevel =
     upd_pic (if master \<noteq> 0 then Master else Slave) (\<lambda>p. p\<lparr>EdgeLevel := edgeLevel\<rparr>) s"

section \<open>Ports\<close>

definition port_pic :: "ULONG \<Rightarrow> pic_id" where
  "port_pic addr = (if addr \<ge> 0xA0 then Slave else Master)"

definition PicPortIoReadHandler :: "'z pic_state_scheme \<Rightarrow> ULONG \<Rightarrow> ULONG" where
  "PicPortIoReadHandler s addr =
     (let p = Pic s (port_pic addr)
      in if addr \<in> {0x21, 0xA1} then ucast (InterruptMask p)
         else if addr \<in> {0x20, 0xA0}
         then if testw (OperationCmd p 2) 3 then ucast (InterruptInService p)
              else if testw (OperationCmd p 2) 2 then ucast (InterruptRequest p)
              else 0
         else 0)"

text \<open>
  The search of the non-specific end of interrupt, \<open>for (irq = CurrentPriority; irq >= 0; irq--)\<close>
  with a signed 8-bit \<open>irq\<close>.
\<close>

definition pic_eoi_scan :: "PIC \<Rightarrow> nat option res" where
  "pic_eoi_scan p =
     (let prio = unat (CurrentPriority p)
      in if prio \<ge> 128 then Inr None
         else if prio \<ge> 32 then Inl BadShift
         else Inr (find (\<lambda>irq. testw (InterruptInService p) (lsh1 irq)) (rev [0 ..< prio + 1])))"

definition PicWriteCommand :: "env \<Rightarrow> pic_id \<Rightarrow> 'z pic_state_scheme \<Rightarrow> ULONG \<Rightarrow> 'z pic_state_scheme res" where
  "PicWriteCommand env i s val =
     (let cmd = val AND 0xff
      in if cmd \<in> {0, 0x80}
         then Inr (upd_pic i (\<lambda>p. p\<lparr>PicMode := if val \<noteq> 0 then MODE_AUTO_EOI else MODE_NORMAL_EOI\<rparr>) s)
         else if cmd \<in> {0x20, 0xA0}
         then bindE (pic_eoi_scan (Pic s i)) (\<lambda>r.
              PicService env i (case r of None \<Rightarrow> s
                | Some irq \<Rightarrow> upd_pic i (\<lambda>p. p\<lparr>InterruptInService := InterruptInService p AND NOT (lsh1 irq),
                                              CurrentPriority := 7\<rparr>) s))
         else if 0x60 \<le> cmd \<and> cmd \<le> 0x67
         then if unat (val - 0x60) \<ge> 32 then Inl BadShift
              else PicService env i (upd_pic i (\<lambda>p. p\<lparr>InterruptInService :=
                     InterruptInService p AND NOT (lsh1 (unat (val - 0x60)))\<rparr>) s)
         else if 0xC0 \<le> cmd \<and> cmd \<le> 0xC7
         then Inr (upd_pic i (\<lambda>p. p\<lparr>CurrentPriority := ucast (val - 0xC0)\<rparr>) s)
         else if 0xE0 \<le> cmd \<and> cmd \<le> 0xE7
         then if unat (val - 0xE0) \<ge> 32 then Inl BadShift
              else PicService env i (upd_pic i (\<lambda>p. p\<lparr>InterruptInService :=
                     InterruptInService p AND NOT (lsh1 (unat (val - 0xE0))),
                     CurrentPriority := ucast (val - 0xE0)\<rparr>) s)
         else Inr s)"

definition PicWriteData :: "env \<Rightarrow> pic_id \<Rightarrow> 'z pic_state_scheme \<Rightarrow> ULONG \<Rightarrow> 'z pic_state_scheme res" where
  "PicWriteData env i s val =
     (let p = Pic s i
      in if PicState p = 1
         then Inr (upd_pic i (\<lambda>p. p\<lparr>PicState := 2, CurrentOffset := ucast (val AND 0xff)\<rparr>) s)
         else if PicState p = 2
         then Inr (upd_pic i (\<lambda>p. p\<lparr>
                InitCmd := (InitCmd p)(2 := if i = Master then ucast val AND ICW3_CASCADE_ENABLE else ICW3_SLAVE_ID),
                PicState := 3, InterruptPin := InterruptPin p AND NOT (ucast val)\<rparr>) s)
         else if PicState p < 4 \<and> testw (InitCmd p 0) 1
         then let icw4 = val AND 0xf
              in Inr (upd_pic i (\<lambda>p. p\<lparr>PicState := 4,
                   PicMode := (if testw icw4 (lsh1 4) then PicMode p OR MODE_SPECIAL_FULLY_NESTED
                               else if testw icw4 1 then PicMode p OR MODE_FULLY_NESTED
                               else PicMode p) OR
                              (if testw icw4 2 then MODE_AUTO_EOI else MODE_NORMAL_EOI)\<rparr>) s)
         else if PicState p = 4
         then PicService env i (upd_pic i (\<lambda>p. p\<lparr>InterruptMask := ucast (val AND 0xff)\<rparr>) s)
         else Inr s)"

definition PicPortIoWriteHandler :: "env \<Rightarrow> 'z pic_state_scheme \<Rightarrow> ULONG \<Rightarrow> ULONG \<Rightarrow> 'z pic_state_scheme res" where
  "PicPortIoWriteHandler env s addr val =
     (let i = port_pic addr
      in if addr \<in> {0x20, 0xA0}
         then if testw val (lsh1 4)
              then Inr ((upd_pic i (\<lambda>p. p\<lparr>InitCmd := (InitCmd p)(0 := ucast (val AND 1)), InterruptRequest := 0,
                     InterruptMask := 0, PicState := 1, CurrentPriority := 7, PicRaised := 0, PicMode := 0\<rparr>) s)
                     \<lparr>svmm_events := svmm_events s AND NOT EVENT_PENDING_INTR\<rparr>)
              else if val AND 0x18 = 0x08
              then let s = upd_pic i (\<lambda>p. p\<lparr>OperationCmd := (OperationCmd p)(2 := ucast (val AND 0x7f))\<rparr>) s;
                       ocw3 = OperationCmd (Pic s i) 2
                   in if testw val 3 then Inr s
                      else if testw ocw3 (lsh1 6) \<and> testw ocw3 (lsh1 5)
                      then PicService env i (upd_pic i (\<lambda>p. p\<lparr>PicMode := MODE_SPECIAL_MASK\<rparr>) s)
                      else if testw ocw3 (lsh1 6)
                      then Inr (upd_pic i (\<lambda>p. p\<lparr>PicMode := MODE_SPECIAL_FULLY_NESTED\<rparr>) s)
                      else if testw ocw3 (lsh1 2)
                      then Inr (upd_pic i (\<lambda>p. p\<lparr>PicMode := MODE_POLL\<rparr>) s)
                      else Inr s
              else PicWriteCommand env i s val
         else if addr \<in> {0x21, 0xA1} then PicWriteData env i s val
         else Inr s)"

definition PicInitialize :: "env \<Rightarrow> 'z pic_state_scheme \<Rightarrow> 'z pic_state_scheme res" where
  "PicInitialize env s =
     foldE (\<lambda>a s. RegisterPortIoHandler env s a (Some PicPort) (Some PicPort)) [0x20, 0x21, 0xA0, 0xA1]
       (s\<lparr>Pic := (\<lambda>i. PIC_zero\<lparr>InterruptMask := 0xff, CurrentPriority := 7, PicMode := MODE_FULLY_NESTED,
                                CurrentOffset := (case i of Master \<Rightarrow> 0x08 | Slave \<Rightarrow> 0x70)\<rparr>)\<rparr>)"

section \<open>The initialised pair\<close>

text \<open>
  The state the firmware sets up: both controllers have seen their four initialisation words and
  are in fully nested mode, the master is cascaded. A pending event then comes with a line number
  in the master, and a request on line 2 with a line number in the slave.
\<close>

definition num_ok :: "PIC \<Rightarrow> bool" where
  "num_ok p \<longleftrightarrow> unat (InterruptNumber p - CurrentOffset p) \<le> 7"

definition pic_conf :: "PIC \<Rightarrow> bool" where
  "pic_conf p \<longleftrightarrow> testw (PicMode p) MODE_FULLY_NESTED \<and> \<not> testw (PicMode p) MODE_SPECIAL_MASK \<and>
     PicState p = 4 \<and> unat (CurrentPriority p) \<le> 7"

definition pic_ready :: "'z pic_state_scheme \<Rightarrow> bool" where
  "pic_ready s \<longleftrightarrow> pic_conf (Pic s Master) \<and> pic_conf (Pic s Slave) \<and>
     testw (InitCmd (Pic s Master) 2) ICW3_CASCADE_ENABLE \<and> \<not> testw (InitCmd (Pic s Slave) 2) ICW3_CASCADE_ENABLE \<and>
     (bit (InterruptRequest (Pic s Master)) 2 \<longrightarrow> num_ok (Pic s Slave)) \<and>
     (testw (svmm_events s) EVENT_PENDING_INTR \<longrightarrow> num_ok (Pic s Master) \<and>
        (InterruptNumber (Pic s Master) - CurrentOffset (Pic s Master) = 2 \<longrightarrow> num_ok (Pic s Slave)))"

lemma pic_conf_scan:
  assumes "pic_conf p"
  obtains "pic_scan p = Inr None"
  | irq where "pic_scan p = Inr (Some irq)" "irq \<le> 7" "irq \<le> unat (CurrentPriority p)"
      "\<not> bit (InterruptMask p) irq" "pic_wants p irq"
proof -
  have small: "unat (CurrentPriority p) \<le> 7" using assms by (simp add: pic_conf_def)
  let ?find = "find (\<lambda>irq. \<not> testw (InterruptMask p) (lsh1 irq) \<and> pic_wants p irq) [0 ..< min (unat (CurrentPriority p) + 1) 32]"
  show ?thesis
  proof (cases ?find)
    case None
    then show ?thesis using small that(1) by (simp add: pic_scan_def)
  next
    case (Some irq)
    then have "irq < unat (CurrentPriority p) + 1" "\<not> bit (InterruptMask p) irq" "pic_wants p irq"
      using find_Some_set [OF Some] by auto
    then show ?thesis using small Some that(2) [of irq] by (simp add: pic_scan_def)
  qed
qed

lemma upd_pic_simps [simp]:
  "Pic (upd_pic i f s) = (Pic s)(i := f (Pic s i))"
  "svmm_events (upd_pic i f s) = svmm_events s"
  "Lapic (upd_pic i f s) = Lapic s" "IoApic (upd_pic i f s) = IoApic s"
  by (simp_all add: upd_pic_def)

lemma num_ok_set: "irq \<le> 7 \<Longrightarrow> num_ok (p\<lparr>PicRaised := r, InterruptNumber := of_nat irq + CurrentOffset p\<rparr>)"
  by (simp add: num_ok_def unat_of_nat)

lemma pic_conf_num [simp]: "pic_conf (p\<lparr>PicRaised := r, InterruptNumber := n\<rparr>) = pic_conf p"
  by (simp add: pic_conf_def)

lemma PicService_Master:
  assumes "pic_ready s"
  shows "specE {} pic_ready (PicService env Master s)"
proof -
  let ?p = "Pic s Master"
  have c: "pic_conf ?p" "testw (PicMode ?p) MODE_FULLY_NESTED" "\<not> testw (PicMode ?p) MODE_SPECIAL_MASK"
    "testw (InitCmd ?p 2) ICW3_CASCADE_ENABLE"
    using assms by (auto simp: pic_ready_def pic_conf_def)
  from c(1) show ?thesis
  proof (cases rule: pic_conf_scan)
    case 1
    then show ?thesis using assms c by (subst PicService.simps) simp
  next
    case (2 irq)
    let ?t = "upd_pic Master (\<lambda>p. p\<lparr>PicRaised := 1, InterruptNumber := of_nat irq + CurrentOffset p\<rparr>) s"
    have "of_nat irq = (2 :: BYTE) \<Longrightarrow> irq = 2"
      using 2(2) unat_BYTE_of_16 [of irq] by (auto dest: arg_cong [of _ _ unat])
    then have "pic_ready (?t\<lparr>request_interrupt_window := 1, svmm_events := svmm_events ?t OR EVENT_PENDING_INTR\<rparr>)"
      using assms 2 num_ok_set [OF 2(2)] by (auto simp: pic_ready_def pic_wants_def)
    then show ?thesis using 2(1) c by (subst PicService.simps) (simp add: Let_def)
  qed
qed

lemma PicService_ready:
  assumes "pic_ready s"
  shows "specE {} pic_ready (PicService env i s)"
proof (cases i)
  case Master
  then show ?thesis using PicService_Master [OF assms] by simp
next
  case Slave
  let ?p = "Pic s Slave"
  have c: "pic_conf ?p" "testw (PicMode ?p) MODE_FULLY_NESTED" "\<not> testw (PicMode ?p) MODE_SPECIAL_MASK"
    "\<not> testw (InitCmd ?p 2) ICW3_CASCADE_ENABLE"
    using assms by (auto simp: pic_ready_def pic_conf_def)
  from c(1) have "specE {} pic_ready (PicService env Slave s)"
  proof (cases rule: pic_conf_scan)
    case 1
    then show ?thesis using assms c by (subst PicService.simps) simp
  next
    case (2 irq)
    let ?t = "upd_pic Slave (\<lambda>p. p\<lparr>PicRaised := 1, InterruptNumber := of_nat irq + CurrentOffset p\<rparr>) s"
    have t: "pic_ready ?t" using assms num_ok_set [OF 2(2)] by (auto simp: pic_ready_def)
    have "pic_ready (set_line Master 2 ?t)"
      using t num_ok_set [OF 2(2)] by (auto simp: pic_ready_def set_line_def pic_conf_def num_ok_def)
    then have "specE {} pic_ready (PicService env Master (set_line Master 2 ?t))" by (rule PicService_Master)
    then show ?thesis using 2(1) c t by (subst PicService.simps) (simp add: Let_def)
  qed
  then show ?thesis using Slave by simp
qed

section \<open>Operations on the initialised pair\<close>

lemma apic_only_pic:
  assumes "apic_only s t"
  shows "Pic t = Pic s" and "testw (svmm_events t) EVENT_PENDING_INTR = testw (svmm_events s) EVENT_PENDING_INTR"
  using assms by (auto elim!: apic_onlyE simp: EVENT_PENDING_INTR_def)

lemma pic_ready_apic_only: "apic_only s t \<Longrightarrow> pic_ready t = pic_ready s"
  using apic_only_pic [of s t] by (simp add: pic_ready_def)

lemma pic_ready_set_line:
  assumes "pic_ready s" and "\<not> (i = Master \<and> n = 2)"
  shows "pic_ready (set_line i n s)"
  using assms by (cases i) (auto simp: pic_ready_def set_line_def pic_conf_def num_ok_def bit_or_iff)

lemma line_bit_mod: "line_bit irq = unat irq mod 8"
proof -
  have "irq AND 7 = take_bit 3 irq" by (simp add: take_bit_eq_mask mask_eq_exp_minus_1)
  then show ?thesis by (simp add: line_bit_def unat_take_bit)
qed

lemma PicRaiseIrq_ready:
  assumes "pic_ready s" and "irq \<noteq> 2"
  shows "specE {Exit} pic_ready (PicRaiseIrq env s irq)"
  unfolding PicRaiseIrq_def
proof (rule specE_bindI)
  show "specE {Exit} (apic_only s) (if irq \<noteq> 2 then IoApicRaiseIrq env s irq else Inr s)"
    using assms(2) IoApicRaiseIrq_frame by simp
next
  fix t assume "apic_only s t"
  then have t: "pic_ready t" using assms(1) pic_ready_apic_only by blast
  have "\<not> (line_pic irq = Master \<and> line_bit irq = 2)" if "\<not> irq > 15"
  proof
    assume "line_pic irq = Master \<and> line_bit irq = 2"
    then have "unat irq \<le> 7" "unat irq mod 8 = 2"
      by (auto simp: line_pic_def line_bit_mod word_less_nat_alt split: if_splits)
    then have "unat irq = unat (2 :: BYTE)" by simp
    then show False using assms(2) by (simp only: word_unat_eq_iff)
  qed
  then show "specE {Exit} pic_ready (if irq > 15 \<or> testw (InterruptPin (Pic t (line_pic irq))) (lsh1 (line_bit irq)) then Inr t
     else PicService env (line_pic irq) (set_line (line_pic irq) (line_bit irq) t))"
    using t specE_total_any [OF PicService_ready [OF pic_ready_set_line [OF t]]] by auto
qed

lemma PicLowerIrq_ready: "pic_ready s \<Longrightarrow> pic_ready (PicLowerIrq s irq)"
proof -
  assume s: "pic_ready s"
  let ?s = "if irq \<noteq> 2 then IoApicLowerIrq s irq else s"
  have "pic_ready ?s" using s by (simp add: pic_ready_apic_only [OF IoApicLowerIrq_frame])
  then show ?thesis
    by (auto simp: PicLowerIrq_def Let_def pic_ready_def pic_conf_def num_ok_def line_pic_def bit_and_iff)
qed

lemma pic_ready_ack:
  assumes "pic_ready s" and "k \<le> 7"
  shows "pic_ready (upd_pic i (pic_in_service k) (upd_pic i (pic_ack k) s))"
  using assms unat_BYTE_of_16 [of k]
  by (cases i) (auto simp: pic_ready_def pic_conf_def num_ok_def pic_ack_def pic_in_service_def bit_and_iff)

text \<open>The vectors the pair can hand out: one of the eight of either controller.\<close>

definition pic_vector :: "'z pic_state_scheme \<Rightarrow> BYTE \<Rightarrow> bool" where
  "pic_vector s v \<longleftrightarrow> unat (v - CurrentOffset (Pic s Master)) \<le> 7 \<or> unat (v - CurrentOffset (Pic s Slave)) \<le> 7"

lemma PicIAC_ready:
  assumes s: "pic_ready s" and pend: "testw (svmm_events s) EVENT_PENDING_INTR"
  shows "specE {} (\<lambda>(v, t). pic_ready t \<and> pic_vector s v) (PicIAC env s)"
proof -
  let ?s = "s\<lparr>svmm_events := svmm_events s AND NOT EVENT_PENDING_INTR\<rparr>"
  let ?k = "unat (InterruptNumber (Pic s Master) - CurrentOffset (Pic s Master))"
  let ?j = "unat (InterruptNumber (Pic s Slave) - CurrentOffset (Pic s Slave))"
  have k: "?k \<le> 7" using s pend by (simp add: pic_ready_def num_ok_def)
  have s': "pic_ready ?s"
    using s by (simp add: pic_ready_def EVENT_PENDING_INTR_def bit_and_iff bit_not_iff)
  show ?thesis
  proof (cases "?k = 2")
    case False
    have "specE {} pic_ready (PicService env Master (upd_pic Master (pic_in_service ?k) (upd_pic Master (pic_ack ?k) ?s)))"
      by (rule PicService_ready [OF pic_ready_ack [OF s' k]])
    then show ?thesis using False k
      by (auto simp: pic_vector_def PicIAC_def Let_def pic_ack_def specE_total)
  next
    case True
    then have "unat (InterruptNumber (Pic s Master) - CurrentOffset (Pic s Master)) = unat (2 :: BYTE)" by simp
    then have "InterruptNumber (Pic s Master) - CurrentOffset (Pic s Master) = 2" by (simp only: word_unat_eq_iff)
    then have j: "?j \<le> 7" using s pend by (simp add: pic_ready_def num_ok_def)
    let ?m = "upd_pic Master (pic_ack ?k) ?s"
    let ?t = "upd_pic Slave (pic_in_service ?j) (upd_pic Master (\<lambda>p. p\<lparr>InterruptPin := InterruptPin p AND NOT (lsh1 2)\<rparr>)
        (upd_pic Slave (pic_ack ?j) ?m))"
    have "pic_ready ?m" using s' by (auto simp: pic_ready_def pic_conf_def num_ok_def pic_ack_def bit_and_iff)
    then have "pic_ready ?t" using j unat_BYTE_of_16 [of ?j]
      by (auto simp: pic_ready_def pic_conf_def num_ok_def pic_ack_def pic_in_service_def bit_and_iff)
    then have "specE {} pic_ready (bindE (PicService env Slave ?t) (PicService env Master))"
      by (rule specE_bindI [OF PicService_ready PicService_ready])
    then show ?thesis using True k j
      by (auto simp: pic_vector_def PicIAC_def Let_def pic_ack_def pic_in_service_def specE_total bindE_eq_Inr_iff)
  qed
qed

lemma pic_ready_port:
  assumes s: "pic_ready s"
  shows "specE {} pic_ready (PicPortIoWriteHandler env s 0x20 0x20)" (is ?M)
    and "specE {} pic_ready (PicPortIoWriteHandler env s 0xA0 0x20)" (is ?S)
    and "addr \<in> {0x21, 0xA1} \<Longrightarrow> specE {} pic_ready (PicPortIoWriteHandler env s addr val)"
proof -
  have eoi: "specE {} pic_ready (PicWriteCommand env i s 0x20)" for i
  proof -
    have p: "unat (CurrentPriority (Pic s i)) \<le> 7" using s by (cases i) (auto simp: pic_ready_def pic_conf_def)
    have "pic_ready (upd_pic i (\<lambda>p. p\<lparr>InterruptInService := InterruptInService p AND NOT (lsh1 irq), CurrentPriority := 7\<rparr>) s)"
      for irq using s by (cases i) (auto simp: pic_ready_def pic_conf_def num_ok_def)
    then have r: "specE {} pic_ready (PicService env i (case r of None \<Rightarrow> s
        | Some irq \<Rightarrow> upd_pic i (\<lambda>p. p\<lparr>InterruptInService := InterruptInService p AND NOT (lsh1 irq), CurrentPriority := 7\<rparr>) s))"
      for r using s by (intro PicService_ready) (auto split: option.splits)
    obtain r where "pic_eoi_scan (Pic s i) = Inr r" using p by (simp add: pic_eoi_scan_def Let_def)
    then show ?thesis using r by (simp add: PicWriteCommand_def)
  qed
  show ?M ?S using eoi by (simp_all add: PicPortIoWriteHandler_def port_pic_def Let_def testw_def lsh1_def push_bit_eq_mult)
  have "PicState (Pic s i) = 4" for i using s by (cases i) (auto simp: pic_ready_def pic_conf_def)
  moreover have "pic_ready (upd_pic i (\<lambda>p. p\<lparr>InterruptMask := m\<rparr>) s)" for i m
    using s by (cases i) (auto simp: pic_ready_def pic_conf_def num_ok_def)
  ultimately have "specE {} pic_ready (PicWriteData env i s val)" for i
    by (simp add: PicWriteData_def Let_def PicService_ready)
  then show "addr \<in> {0x21, 0xA1} \<Longrightarrow> specE {} pic_ready (PicPortIoWriteHandler env s addr val)"
    by (auto simp: PicPortIoWriteHandler_def Let_def)
qed

lemma pic_ready_PicSetMode: "pic_ready s \<Longrightarrow> pic_ready (PicSetMode s m e)"
  by (auto simp: PicSetMode_def pic_ready_def pic_conf_def num_ok_def)

section \<open>Reachable states of the initialised pair\<close>

text \<open>
  Devices raise and lower their lines (line 2 belongs to the cascade), the APICs run, the
  main loop takes a pending interrupt, and the guest sends ends of interrupt, changes the masks
  and the trigger modes.
\<close>

inductive pic_step :: "env \<Rightarrow> 'z pic_state_scheme \<Rightarrow> 'z pic_state_scheme \<Rightarrow> bool" for env where
  raise_line: "irq \<noteq> 2 \<Longrightarrow> PicRaiseIrq env s irq = Inr t \<Longrightarrow> pic_step env s t"
| lower_line: "pic_step env s (PicLowerIrq s irq)"
| apics: "apic_only s t \<Longrightarrow> pic_step env s t"
| take_intr: "testw (svmm_events s) EVENT_PENDING_INTR \<Longrightarrow> PicIAC env s = Inr (v, t) \<Longrightarrow> pic_step env s t"
| end_master: "PicPortIoWriteHandler env s 0x20 0x20 = Inr t \<Longrightarrow> pic_step env s t"
| end_slave: "PicPortIoWriteHandler env s 0xA0 0x20 = Inr t \<Longrightarrow> pic_step env s t"
| set_mask: "addr \<in> {0x21, 0xA1} \<Longrightarrow> PicPortIoWriteHandler env s addr val = Inr t \<Longrightarrow> pic_step env s t"
| trigger_mode: "pic_step env s (PicSetMode s m e)"

inductive pic_reachable :: "env \<Rightarrow> 'z pic_state_scheme \<Rightarrow> 'z pic_state_scheme \<Rightarrow> bool" for env where
  start: "pic_reachable env s s"
| step: "pic_reachable env s t \<Longrightarrow> pic_step env t u \<Longrightarrow> pic_reachable env s u"

lemma pic_ready_step: "pic_step env s t \<Longrightarrow> pic_ready s \<Longrightarrow> pic_ready t"
proof (induction rule: pic_step.induct)
  case (raise_line irq s t)
  then show ?case using PicRaiseIrq_ready [of s irq env] by simp
next
  case (lower_line s irq)
  then show ?case by (rule PicLowerIrq_ready)
next
  case (apics s t)
  then show ?case by (simp add: pic_ready_apic_only)
next
  case (take_intr s v t)
  then show ?case using PicIAC_ready [of s env] by simp
next
  case (end_master s t)
  then show ?case using pic_ready_port(1) [of s env] by simp
next
  case (end_slave s t)
  then show ?case using pic_ready_port(2) [of s env] by simp
next
  case (set_mask addr s val t)
  then show ?case using pic_ready_port(3) [of s addr env val] by simp
next
  case (trigger_mode s m e)
  then show ?case by (rule pic_ready_PicSetMode)
qed

lemma pic_ready_reachable: "pic_reachable env s t \<Longrightarrow> pic_ready s \<Longrightarrow> pic_ready t"
  by (induction rule: pic_reachable.induct) (blast intro: pic_ready_step)+


text \<open>The pair as a typical firmware leaves it: vectors 0x08 and 0x70, no line masked.\<close>

definition pic_example :: pic_state where
  "pic_example = pic_zero\<lparr>IoApic := IOAPIC_zero\<lparr>IoRedirectTable := (\<lambda>_. \<lparr>High = 0, Low = IOAPIC_MASKED\<rparr>)\<rparr>,
     Pic := (\<lambda>i. PIC_zero\<lparr>CurrentPriority := 7, PicMode := 0x81, PicState := 4,
       InitCmd := (\<lambda>k. if k = 2 then (case i of Master \<Rightarrow> 4 | Slave \<Rightarrow> 2) else 1),
       CurrentOffset := (case i of Master \<Rightarrow> 0x08 | Slave \<Rightarrow> 0x70)\<rparr>)\<rparr>"

lemma pic_example_ready: "pic_ready pic_example"
  by (simp add: pic_ready_def pic_example_def pic_conf_def PIC_consts PIC_zero_def pic_zero_def zero_defs
      pic_state.defs EVENT_PENDING_INTR_def bit_numeral_rec)


section \<open>One interrupt, from line to end of interrupt\<close>

text \<open>An idle controller: nothing requested or in service, no priority level entered.\<close>

definition pic_idle :: "PIC \<Rightarrow> bool" where
  "pic_idle p \<longleftrightarrow> InterruptRequest p = 0 \<and> InterruptInService p = 0 \<and> CurrentPriority p = 7"

lemma find_single: "x \<in> set xs \<Longrightarrow> find (\<lambda>y. y = x) xs = Some x"
  by (induction xs) auto

lemma find_none: "(\<And>y. y \<in> set xs \<Longrightarrow> \<not> P y) \<Longrightarrow> find P xs = None"
  by (induction xs) auto

lemma pic_scan_single:
  assumes "InterruptRequest p = lsh1 k" and "InterruptInService p = 0" and "CurrentPriority p = 7"
    and "k \<le> 7" and "\<not> bit (InterruptMask p) k"
  shows "pic_scan p = Inr (Some k)"
proof -
  have "(\<lambda>irq. \<not> testw (InterruptMask p) (lsh1 irq) \<and> pic_wants p irq) = (\<lambda>irq. irq = k)"
    using assms by (auto simp: pic_wants_def)
  then show ?thesis using find_single [of k "[0 ..< 8]"] assms(3,4) by (simp add: pic_scan_def)
qed

lemma pic_scan_none: "InterruptRequest p = 0 \<Longrightarrow> unat (CurrentPriority p) \<le> 7 \<Longrightarrow> pic_scan p = Inr None"
proof -
  assume "InterruptRequest p = 0" "unat (CurrentPriority p) \<le> 7"
  then show ?thesis using find_none [of "[0 ..< min (unat (CurrentPriority p) + 1) 32]"
        "\<lambda>irq. \<not> testw (InterruptMask p) (lsh1 irq) \<and> pic_wants p irq"]
    by (simp add: pic_scan_def pic_wants_def)
qed

lemma PicService_none:
  "pic_ready s \<Longrightarrow> InterruptRequest (Pic s i) = 0 \<Longrightarrow> PicService env i s = Inr s"
proof -
  assume "pic_ready s" "InterruptRequest (Pic s i) = 0"
  moreover from this have "pic_conf (Pic s i)" by (cases i) (auto simp: pic_ready_def)
  ultimately show ?thesis using pic_scan_none [of "Pic s i"]
    by (subst PicService.simps) (simp add: Let_def pic_conf_def)
qed

lemma not_lsh1_self: "(x OR lsh1 k) AND NOT (lsh1 k) = x" if "\<not> bit x k" for x :: BYTE
  by (rule bit_word_eqI) (use that in \<open>auto simp: bit_simps\<close>)

lemma PicService_Master_single:
  assumes "pic_ready s" and "InterruptRequest (Pic s Master) = lsh1 k" and "InterruptInService (Pic s Master) = 0"
    and "CurrentPriority (Pic s Master) = 7" and "k \<le> 7" and "\<not> bit (InterruptMask (Pic s Master)) k"
  shows "PicService env Master s = Inr ((upd_pic Master (\<lambda>p. p\<lparr>PicRaised := 1, InterruptNumber := of_nat k + CurrentOffset p\<rparr>) s)
      \<lparr>request_interrupt_window := 1, svmm_events := svmm_events s OR EVENT_PENDING_INTR\<rparr>)"
  using assms pic_scan_single [OF assms(2-6)]
  by (subst PicService.simps) (simp add: Let_def pic_ready_def pic_conf_def)

lemma PicService_Slave_single:
  assumes "pic_ready s" and "InterruptRequest (Pic s Slave) = lsh1 k" and "InterruptInService (Pic s Slave) = 0"
    and "CurrentPriority (Pic s Slave) = 7" and "k \<le> 7" and "\<not> bit (InterruptMask (Pic s Slave)) k" and "\<not> line2_up s"
  shows "PicService env Slave s = PicService env Master (set_line Master 2
      (upd_pic Slave (\<lambda>p. p\<lparr>PicRaised := 1, InterruptNumber := of_nat k + CurrentOffset p\<rparr>) s))"
  using assms pic_scan_single [OF assms(2-6)]
  by (subst PicService.simps) (simp add: Let_def pic_ready_def pic_conf_def line2_up_def)

lemma pic_eoi_single:
  assumes "pic_ready s" and "InterruptRequest (Pic s Master) = 0" and "InterruptInService (Pic s Master) = lsh1 k"
    and "unat (CurrentPriority (Pic s Master)) = k" and "k \<le> 7"
  shows "specE {} (\<lambda>u. pic_idle (Pic u Master)) (PicPortIoWriteHandler env s 0x20 0x20)"
proof -
  let ?c = "upd_pic Master (\<lambda>p. p\<lparr>InterruptInService := InterruptInService p AND NOT (lsh1 k), CurrentPriority := 7\<rparr>) s"
  have c: "pic_ready ?c" "InterruptRequest (Pic ?c Master) = 0" "pic_idle (Pic ?c Master)"
    using assms by (auto simp: pic_ready_def pic_conf_def num_ok_def pic_idle_def)
  have "find (\<lambda>i. testw (InterruptInService (Pic s Master)) (lsh1 i)) (rev [0 ..< k + 1]) = Some k"
    using assms(5) unfolding assms(3) by simp
  then have "pic_eoi_scan (Pic s Master) = Inr (Some k)"
    unfolding pic_eoi_scan_def Let_def assms(4) using assms(5) by simp
  then have "PicPortIoWriteHandler env s 0x20 0x20 = Inr ?c"
    using PicService_none [OF c(1,2), of env]
    by (simp add: PicPortIoWriteHandler_def port_pic_def PicWriteCommand_def Let_def testw_def lsh1_def push_bit_eq_mult)
  then show ?thesis using c by simp
qed

lemma pic_ready_no_event: "pic_ready s \<Longrightarrow> pic_ready (s\<lparr>svmm_events := svmm_events s AND NOT EVENT_PENDING_INTR\<rparr>)"
  by (auto simp: pic_ready_def EVENT_PENDING_INTR_def bit_and_iff bit_not_iff)

lemma IoApicRaiseIrq_pic:
  "pic_ready s \<Longrightarrow> specE {Exit} (\<lambda>r. pic_ready r \<and> Pic r = Pic s) (IoApicRaiseIrq env s irq)"
  using IoApicRaiseIrq_frame by (rule specE_mono) (auto simp: pic_ready_apic_only apic_only_pic(1))

text \<open>The master's half of a cycle, from the request on its line to the acknowledged vector.\<close>

lemma pic_master_ack:
  assumes s: "pic_ready s" "pic_idle (Pic s Master)" and k: "k \<le> 7" "k \<noteq> 2"
    and line: "\<not> bit (InterruptMask (Pic s Master)) k" "\<not> bit (EdgeLevel (Pic s Master)) k"
  shows "\<exists>t. bindE (PicService env Master (set_line Master k s)) (PicIAC env) =
      Inr (CurrentOffset (Pic s Master) + of_nat k, t) \<and> pic_ready t \<and>
      InterruptRequest (Pic t Master) = 0 \<and> InterruptInService (Pic t Master) = lsh1 k \<and>
      unat (CurrentPriority (Pic t Master)) = k"
proof -
  let ?l = "set_line Master k s"
  have l: "pic_ready ?l" using pic_ready_set_line [OF s(1)] k(2) by blast
  have pm: "Pic ?l Master = (Pic s Master)\<lparr>InterruptPin := InterruptPin (Pic s Master) OR lsh1 k, InterruptRequest := lsh1 k\<rparr>"
    using s(2) by (simp add: set_line_def pic_idle_def)
  let ?a = "(upd_pic Master (\<lambda>p. p\<lparr>PicRaised := 1, InterruptNumber := of_nat k + CurrentOffset p\<rparr>) ?l)
    \<lparr>request_interrupt_window := 1, svmm_events := svmm_events ?l OR EVENT_PENDING_INTR\<rparr>"
  have serv: "PicService env Master ?l = Inr ?a"
    by (rule PicService_Master_single [OF l]) (use pm s(2) k line in \<open>auto simp: pic_idle_def\<close>)
  have a: "pic_ready ?a" using PicService_Master [OF l, of env] serv by simp
  let ?b = "upd_pic Master (pic_in_service k) (upd_pic Master (pic_ack k) (?a\<lparr>svmm_events := svmm_events ?a AND NOT EVENT_PENDING_INTR\<rparr>))"
  have b: "pic_ready ?b" using pic_ready_no_event [OF a] k(1) by (rule pic_ready_ack)
  have kk: "unat (of_nat k :: BYTE) = k" using k(1) by (simp add: unat_BYTE_of_16)
  have pb: "InterruptRequest (Pic ?b Master) = 0" "InterruptInService (Pic ?b Master) = lsh1 k"
    "unat (CurrentPriority (Pic ?b Master)) = k"
    using pm s(2) line(2) kk by (simp_all add: pic_ack_def pic_in_service_def pic_idle_def)
  have "PicIAC env ?a = Inr (CurrentOffset (Pic s Master) + of_nat k, ?b)"
    using PicService_none [OF b pb(1), of env] k kk pm by (simp add: PicIAC_def Let_def pic_ack_def add.commute)
  then show ?thesis using serv b pb by simp
qed

text \<open>C21. An interrupt of the master controller. With the master idle, a device that raises an
  unmasked edge-triggered line other than 2 whose pin is low makes the acknowledge cycle return
  the master's offset plus the line number; the line is then in service and no longer requested,
  and the end of interrupt makes the controller idle again. Only the I/O APIC, to which the line
  is forwarded, can end the process.\<close>

theorem pic_master_cycle:
  assumes s: "pic_ready s" "pic_idle (Pic s Master)" and irq: "unat irq \<le> 7" "irq \<noteq> 2"
    and line: "\<not> bit (InterruptMask (Pic s Master)) (unat irq)" "\<not> bit (InterruptPin (Pic s Master)) (unat irq)"
      "\<not> bit (EdgeLevel (Pic s Master)) (unat irq)"
  shows "specE {Exit} (\<lambda>(v, t). v = CurrentOffset (Pic s Master) + irq \<and>
           InterruptRequest (Pic t Master) = 0 \<and> InterruptInService (Pic t Master) = lsh1 (unat irq) \<and>
           specE {} (\<lambda>u. pic_idle (Pic u Master)) (PicPortIoWriteHandler env t 0x20 0x20))
         (bindE (PicRaiseIrq env s irq) (PicIAC env))"
proof -
  let ?k = "unat irq"
  have k: "line_bit irq = ?k" "line_pic irq = Master" "\<not> irq > 15" "of_nat ?k = irq" "unat irq \<noteq> 2"
    using irq by (auto simp: line_bit_mod line_pic_def word_less_nat_alt word_unat_eq_iff)
  have after: "specE {} (\<lambda>(v, t). v = CurrentOffset (Pic s Master) + irq \<and>
           InterruptRequest (Pic t Master) = 0 \<and> InterruptInService (Pic t Master) = lsh1 ?k \<and>
           specE {} (\<lambda>u. pic_idle (Pic u Master)) (PicPortIoWriteHandler env t 0x20 0x20))
         (bindE (PicService env Master (set_line Master ?k r)) (PicIAC env))"
    if r: "pic_ready r" "Pic r = Pic s" for r
    using pic_master_ack [of r ?k env] pic_eoi_single [where k = ?k and env = env] r s irq line k by auto
  show ?thesis unfolding PicRaiseIrq_def bindE_assoc
    using irq by (simp only: if_True not_False_eq_True)
      (rule specE_bindI [OF IoApicRaiseIrq_pic [OF s(1)]], use k line(2) in \<open>auto intro!: specE_total_any [OF after]\<close>)
qed

lemma pic_example_idle: "pic_idle (Pic pic_example i)" "InterruptMask (Pic pic_example i) = 0"
  "InterruptPin (Pic pic_example i) = 0" "EdgeLevel (Pic pic_example i) = 0"
  "CurrentOffset (Pic pic_example Master) = 0x08" "CurrentOffset (Pic pic_example Slave) = 0x70"
  by (simp_all add: pic_idle_def pic_example_def PIC_zero_def)

theorem pic_master_cycle_witness:
  "specE {Exit} (\<lambda>(v, t). v = 0x0d) (bindE (PicRaiseIrq (\<lambda>_ _. True) pic_example 5) (PicIAC (\<lambda>_ _. True)))"
  using specE_mono [OF pic_master_cycle [OF pic_example_ready, of 5 "\<lambda>_ _. True"]]
  by (simp add: pic_example_idle case_prod_beta)

lemma PicIAC_cascade:
  assumes "InterruptNumber (Pic s Master) - CurrentOffset (Pic s Master) = 2"
    and "unat (InterruptNumber (Pic s Slave) - CurrentOffset (Pic s Slave)) = j" and "j < 32"
  shows "PicIAC env s =
    (let b = upd_pic Slave (pic_in_service j) (upd_pic Master (\<lambda>p. p\<lparr>InterruptPin := InterruptPin p AND NOT (lsh1 2)\<rparr>)
         (upd_pic Slave (pic_ack j) (upd_pic Master (pic_ack 2) (s\<lparr>svmm_events := svmm_events s AND NOT EVENT_PENDING_INTR\<rparr>))))
     in bindE (PicService env Slave b) (\<lambda>t. bindE (PicService env Master t) (\<lambda>u. Inr (InterruptNumber (Pic s Slave), u))))"
  using assms by (simp add: PicIAC_def Let_def pic_ack_def pic_in_service_def)

lemma pic_slave_ack:
  assumes s: "pic_ready s" "pic_idle (Pic s Master)" "pic_idle (Pic s Slave)" and k: "k \<le> 7"
    and line: "\<not> bit (InterruptMask (Pic s Slave)) k" "\<not> bit (EdgeLevel (Pic s Slave)) k"
    and cascade: "\<not> bit (InterruptMask (Pic s Master)) 2" "\<not> bit (InterruptPin (Pic s Master)) 2" "\<not> bit (EdgeLevel (Pic s Master)) 2"
  shows "\<exists>t. bindE (PicService env Slave (set_line Slave k s)) (PicIAC env) =
      Inr (CurrentOffset (Pic s Slave) + of_nat k, t) \<and> InterruptRequest (Pic t Slave) = 0 \<and>
      InterruptInService (Pic t Slave) = lsh1 k \<and> InterruptRequest (Pic t Master) = 0 \<and>
      \<not> bit (InterruptPin (Pic t Master)) 2"
proof -
  let ?l = "set_line Slave k s"
  have l: "pic_ready ?l" using pic_ready_set_line [OF s(1)] by blast
  let ?n = "upd_pic Slave (\<lambda>p. p\<lparr>PicRaised := 1, InterruptNumber := of_nat k + CurrentOffset p\<rparr>) ?l"
  have kk: "unat (of_nat k :: BYTE) = k" using k by (simp add: unat_BYTE_of_16)
  have serv: "PicService env Slave ?l = PicService env Master (set_line Master 2 ?n)"
    by (rule PicService_Slave_single [OF l]) (use s k line cascade in \<open>auto simp: set_line_def pic_idle_def line2_up_def\<close>)
  let ?m = "set_line Master 2 ?n"
  have m: "pic_ready ?m" using l num_ok_set [OF k] by (auto simp: pic_ready_def set_line_def pic_conf_def num_ok_def)
  let ?a = "(upd_pic Master (\<lambda>p. p\<lparr>PicRaised := 1, InterruptNumber := of_nat 2 + CurrentOffset p\<rparr>) ?m)
    \<lparr>request_interrupt_window := 1, svmm_events := svmm_events ?m OR EVENT_PENDING_INTR\<rparr>"
  have serv2: "PicService env Master ?m = Inr ?a"
    by (rule PicService_Master_single [OF m]) (use s cascade in \<open>auto simp: set_line_def pic_idle_def\<close>)
  have a: "pic_ready ?a" using PicService_Master [OF m, of env] serv2 by simp
  let ?c = "upd_pic Master (pic_ack 2) (?a\<lparr>svmm_events := svmm_events ?a AND NOT EVENT_PENDING_INTR\<rparr>)"
  let ?b = "upd_pic Slave (pic_in_service k) (upd_pic Master (\<lambda>p. p\<lparr>InterruptPin := InterruptPin p AND NOT (lsh1 2)\<rparr>)
      (upd_pic Slave (pic_ack k) ?c))"
  have b: "pic_ready ?b"
    using pic_ready_no_event [OF a] k kk by (auto simp: pic_ready_def pic_conf_def num_ok_def pic_ack_def pic_in_service_def bit_and_iff)
  have pb: "InterruptRequest (Pic ?b Master) = 0" "InterruptRequest (Pic ?b Slave) = 0"
    "InterruptInService (Pic ?b Slave) = lsh1 k" "\<not> bit (InterruptPin (Pic ?b Master)) 2"
    using s line(2) cascade(3) by (simp_all add: pic_ack_def pic_in_service_def pic_idle_def set_line_def bit_clear_lsh1)
  have "PicIAC env ?a = Inr (CurrentOffset (Pic s Slave) + of_nat k, ?b)"
  proof -
    have "InterruptNumber (Pic ?a Master) - CurrentOffset (Pic ?a Master) = 2"
      "unat (InterruptNumber (Pic ?a Slave) - CurrentOffset (Pic ?a Slave)) = k"
      "InterruptNumber (Pic ?a Slave) = CurrentOffset (Pic s Slave) + of_nat k"
      using kk by (simp_all add: set_line_def)
    then show ?thesis
      using PicService_none [OF b pb(1), of env] PicService_none [OF b pb(2), of env] k
      by (simp only: PicIAC_cascade Let_def bindE_simps)
  qed
  then show ?thesis using serv serv2 pb by simp
qed

text \<open>An interrupt of the slave controller. With both controllers idle, raising an unmasked
  edge-triggered line from 8 to 15 is cascaded through line 2 of the master, and the acknowledge
  cycle returns the slave's offset plus the line number within the slave; the line is in service
  in the slave, no request is left in either controller, and line 2 is down again.\<close>

theorem pic_slave_cycle:
  assumes s: "pic_ready s" "pic_idle (Pic s Master)" "pic_idle (Pic s Slave)" and irq: "8 \<le> unat irq" "unat irq \<le> 15"
    and line: "\<not> bit (InterruptMask (Pic s Slave)) (unat irq - 8)" "\<not> bit (InterruptPin (Pic s Slave)) (unat irq - 8)"
      "\<not> bit (EdgeLevel (Pic s Slave)) (unat irq - 8)"
    and cascade: "\<not> bit (InterruptMask (Pic s Master)) 2" "\<not> bit (InterruptPin (Pic s Master)) 2" "\<not> bit (EdgeLevel (Pic s Master)) 2"
  shows "specE {Exit} (\<lambda>(v, t). v = CurrentOffset (Pic s Slave) + (irq - 8) \<and> InterruptRequest (Pic t Slave) = 0 \<and>
           InterruptInService (Pic t Slave) = lsh1 (unat irq - 8) \<and> InterruptRequest (Pic t Master) = 0 \<and>
           \<not> bit (InterruptPin (Pic t Master)) 2)
         (bindE (PicRaiseIrq env s irq) (PicIAC env))"
proof -
  let ?k = "unat irq - 8"
  have le: "8 \<le> irq" using irq(1) by (simp add: word_le_nat_alt)
  have "unat (irq - 8) = ?k" using unat_sub [OF le] by simp
  moreover have "of_nat (unat (irq - 8)) = irq - 8" by simp
  ultimately have kk: "of_nat ?k = irq - 8" by (simp only:)
  have ne: "irq \<noteq> 2" using irq by auto
  have "unat irq mod 8 = ?k" using irq by (simp add: mod_if)
  then have k: "line_bit irq = ?k" "line_pic irq = Slave" "\<not> irq > 15" "?k \<le> 7"
    using irq by (auto simp: line_bit_mod line_pic_def word_less_nat_alt)
  have after: "specE {} (\<lambda>(v, t). v = CurrentOffset (Pic s Slave) + (irq - 8) \<and> InterruptRequest (Pic t Slave) = 0 \<and>
           InterruptInService (Pic t Slave) = lsh1 ?k \<and> InterruptRequest (Pic t Master) = 0 \<and>
           \<not> bit (InterruptPin (Pic t Master)) 2)
         (bindE (PicService env Slave (set_line Slave ?k r)) (PicIAC env))"
    if r: "pic_ready r" "Pic r = Pic s" for r
    using pic_slave_ack [of r ?k env] r s line cascade k(4) kk by auto
  show ?thesis unfolding PicRaiseIrq_def bindE_assoc
    using ne by (simp only: if_True not_False_eq_True)
      (rule specE_bindI [OF IoApicRaiseIrq_pic [OF s(1)]], use k line(2) in \<open>auto intro!: specE_total_any [OF after]\<close>)
qed

theorem pic_slave_cycle_witness:
  "specE {Exit} (\<lambda>(v, t). v = 0x76) (bindE (PicRaiseIrq (\<lambda>_ _. True) pic_example 14) (PicIAC (\<lambda>_ _. True)))"
  using specE_mono [OF pic_slave_cycle [OF pic_example_ready, of 14 "\<lambda>_ _. True"]]
  by (simp add: pic_example_idle case_prod_beta)

section \<open>Deviations\<close>

text \<open>A line of the slave controller is stuck once it is up: \<open>PicLowerIrq\<close> returns early for every
  line above 7, so the pin stays set, and raising the line again after lowering it is ignored by
  the controllers (only the I/O APIC sees it).\<close>

theorem pic_slave_line_stuck:
  assumes "8 \<le> unat irq" and "unat irq \<le> 15" and "bit (InterruptPin (Pic s Slave)) (unat irq - 8)"
  shows "Pic (PicLowerIrq s irq) = Pic s \<and> specE {Exit} (\<lambda>t. Pic t = Pic s) (PicRaiseIrq env (PicLowerIrq s irq) irq)"
proof -
  have gt: "irq > 7" and ne: "irq \<noteq> 2" using assms(1) by (auto simp: word_less_nat_alt)
  have "unat irq mod 8 = unat irq - 8" using assms by (simp add: mod_if)
  then have k: "line_bit irq = unat irq - 8" "line_pic irq = Slave"
    using gt by (auto simp: line_bit_mod line_pic_def)
  have low: "Pic (PicLowerIrq s irq) = Pic s"
    using gt ne by (simp add: PicLowerIrq_def Let_def apic_only_pic(1) [OF IoApicLowerIrq_frame])
  have "specE {Exit} (\<lambda>t. Pic t = Pic s) (IoApicRaiseIrq env (PicLowerIrq s irq) irq)"
    using IoApicRaiseIrq_frame by (rule specE_mono) (auto dest!: apic_only_pic(1) simp: low)
  then show ?thesis using low assms(3) k ne
    by (auto simp: PicRaiseIrq_def intro!: specE_bindI)
qed

theorem pic_slave_line_stuck_witness:
  "specE {Exit} (\<lambda>t. \<not> bit (InterruptRequest (Pic t Slave)) 6)
     (PicRaiseIrq (\<lambda>_ _. True) (PicLowerIrq (pic_example\<lparr>Pic := (\<lambda>_. PIC_zero\<lparr>InterruptPin := 0x40\<rparr>)\<rparr>) 14) 14)"
proof -
  let ?s = "pic_example\<lparr>Pic := (\<lambda>_. PIC_zero\<lparr>InterruptPin := 0x40\<rparr>)\<rparr>"
  have "bit (InterruptPin (Pic ?s Slave)) (unat (14 :: BYTE) - 8)" by (simp add: bit_numeral_rec)
  then have "specE {Exit} (\<lambda>t. Pic t = Pic ?s) (PicRaiseIrq (\<lambda>_ _. True) (PicLowerIrq ?s 14) 14)"
    using pic_slave_line_stuck [of 14 ?s "\<lambda>_ _. True"] by simp
  then show ?thesis by (rule specE_mono) (auto simp: PIC_zero_def)
qed

text \<open>A read of a command port never returns the interrupt request register when the guest has
  selected it: the selection is tested with the mask 3, which the read-IRR command also matches,
  so the in-service register is returned instead.\<close>

theorem pic_read_irr_returns_isr:
  "specE {} (\<lambda>t. PicPortIoReadHandler t 0x20 = ucast (InterruptInService (Pic s Master)))
     (PicPortIoWriteHandler env s 0x20 0x0a)"
  by (simp add: PicPortIoWriteHandler_def PicPortIoReadHandler_def port_pic_def Let_def testw_def lsh1_def push_bit_eq_mult)

section \<open>The interrupt lines as devices see them\<close>

text \<open>
  What a device relies on: raising and lowering a line changes nothing but the interrupt
  hardware (\<open>keeps\<close>), and only the errors \<open>E\<close> can come out of it.
\<close>

locale irq_line =
  fixes raise_line :: "'s \<Rightarrow> BYTE \<Rightarrow> 's res"
    and lower_line :: "'s \<Rightarrow> BYTE \<Rightarrow> 's"
    and keeps :: "'s \<Rightarrow> 's \<Rightarrow> bool"
    and E :: "svmm_error set"
  assumes keeps_refl: "keeps s s"
    and keeps_trans: "keeps s t \<Longrightarrow> keeps t u \<Longrightarrow> keeps s u"
    and raise_keeps: "specE E (keeps s) (raise_line s irq)"
    and lower_keeps: "keeps s (lower_line s irq)"
begin

lemma raise_after: "keeps s t \<Longrightarrow> specE E (keeps s) (raise_line t irq)"
  by (rule specE_mono [OF raise_keeps]) (auto intro: keeps_trans)

lemma pulse: "specE E (keeps s) (raise_line (lower_line s irq) irq)"
  by (rule raise_after [OF lower_keeps])

lemma raise_or_lower: "specE E (keeps s) (if b then raise_line s irq else Inr (lower_line s irq))"
  using raise_keeps lower_keeps by simp

lemma raise_if: "specE E (keeps s) (if b then raise_line s irq else Inr s)"
  using raise_keeps keeps_refl by simp

lemma raise_list: "specE E (keeps s) (foldE (\<lambda>irq t. raise_line t irq) irqs s)"
  by (rule specE_foldI) (simp_all add: keeps_refl raise_after)

end

definition pic_only :: "'z pic_state_scheme \<Rightarrow> 'z pic_state_scheme \<Rightarrow> bool" where
  "pic_only s t \<longleftrightarrow> (\<exists>pic io l e w log. t = s\<lparr>Pic := pic, IoApic := io, Lapic := l, svmm_events := e,
      request_interrupt_window := w, EnvLog := log\<rparr>)"

lemma pic_onlyI:
  "t = s\<lparr>Pic := pic, IoApic := io, Lapic := l, svmm_events := e, request_interrupt_window := w, EnvLog := log\<rparr> \<Longrightarrow> pic_only s t"
  unfolding pic_only_def by blast

lemma pic_onlyE:
  assumes "pic_only s t"
  obtains pic io l e w log where
    "t = s\<lparr>Pic := pic, IoApic := io, Lapic := l, svmm_events := e, request_interrupt_window := w, EnvLog := log\<rparr>"
  using assms unfolding pic_only_def by blast

lemma pic_only_refl [simp]: "pic_only s s"
  by (rule pic_onlyI [where pic = "Pic s" and io = "IoApic s" and l = "Lapic s" and e = "svmm_events s"
      and w = "request_interrupt_window s" and log = "EnvLog s"]) simp

lemma pic_only_trans: "pic_only s t \<Longrightarrow> pic_only t u \<Longrightarrow> pic_only s u"
proof (elim pic_onlyE)
  fix pic io l e w log pic' io' l' e' w' log'
  assume "t = s\<lparr>Pic := pic, IoApic := io, Lapic := l, svmm_events := e, request_interrupt_window := w, EnvLog := log\<rparr>"
    "u = t\<lparr>Pic := pic', IoApic := io', Lapic := l', svmm_events := e', request_interrupt_window := w', EnvLog := log'\<rparr>"
  then show "pic_only s u"
    by (intro pic_onlyI [where pic = pic' and io = io' and l = l' and e = e' and w = w' and log = log']) simp
qed

lemma pic_only_apic: "apic_only s t \<Longrightarrow> pic_only s t"
proof (elim apic_onlyE)
  fix io l e w log
  assume "t = s\<lparr>IoApic := io, Lapic := l, svmm_events := e, request_interrupt_window := w, EnvLog := log\<rparr>"
  then show "pic_only s t"
    by (intro pic_onlyI [where pic = "Pic s" and io = io and l = l and e = e and w = w and log = log]) simp
qed

lemma pic_only_upd [simp]: "pic_only s (upd_pic i f s)"
  by (rule pic_onlyI [where pic = "(Pic s)(i := f (Pic s i))" and io = "IoApic s" and l = "Lapic s"
      and e = "svmm_events s" and w = "request_interrupt_window s" and log = "EnvLog s"]) (simp add: upd_pic_def)

lemma pic_only_event [simp]:
  "pic_only s (s\<lparr>request_interrupt_window := w, svmm_events := e\<rparr>)" "pic_only s (s\<lparr>svmm_events := e\<rparr>)"
  by (rule pic_onlyI [where pic = "Pic s" and io = "IoApic s" and l = "Lapic s" and e = e and w = w and log = "EnvLog s"], simp,
      rule pic_onlyI [where pic = "Pic s" and io = "IoApic s" and l = "Lapic s" and e = e
        and w = "request_interrupt_window s" and log = "EnvLog s"], simp)

lemma pic_only_set_line [simp]: "pic_only s (set_line i n s)"
  by (simp add: set_line_def)

lemma pic_only_special: "pic_only s t \<Longrightarrow> pic_only s (pic_special env i irqs t)"
proof (induction irqs arbitrary: t)
  case Nil
  then show ?case by simp
next
  case (Cons irq irqs)
  let ?u = "upd_pic i (\<lambda>p. p\<lparr>PicRaised := 1, InterruptNumber := of_nat irq + CurrentOffset p\<rparr>) t"
  let ?r = "DeviceIoControl env (GVM_INTERRUPT (ucast (InterruptNumber (Pic ?u i)))) ?u"
  define ok v where "ok = fst ?r" and "v = snd ?r"
  then have v: "?r = (ok, v)" by simp
  have "pic_only ?u v" unfolding v_def by (rule pic_only_apic [OF apic_only_DeviceIoControl])
  then have sv: "pic_only s v" using pic_only_trans [OF Cons.prems pic_only_trans [OF pic_only_upd]] by simp
  moreover have "pic_only s (v\<lparr>svmm_events := svmm_events v OR EVENT_PENDING_INTR\<rparr>)"
    by (rule pic_only_trans [OF sv pic_only_event(2)])
  ultimately show ?case using Cons v by (simp add: Let_def)
qed

lemma PicService_frame: "specE {BadShift} (pic_only s) (PicService env i s)"
proof (induction env i s rule: PicService.induct)
  case (1 env i s)
  show ?case
  proof (cases "pic_scan (Pic s i)")
    case (Inl e)
    then have "e = BadShift" by (auto simp: pic_scan_def split: option.splits if_splits)
    then show ?thesis using Inl by (subst PicService.simps) (simp add: Let_def pic_only_special)
  next
    case (Inr r)
    show ?thesis
    proof (cases r)
      case None
      then show ?thesis using Inr by (subst PicService.simps) (simp add: Let_def pic_only_special)
    next
      case (Some irq)
      let ?u = "upd_pic i (\<lambda>p. p\<lparr>PicRaised := 1, InterruptNumber := of_nat irq + CurrentOffset p\<rparr>) s"
      have ev: "pic_only s (?u\<lparr>request_interrupt_window := w, svmm_events := e\<rparr>)" for w e
        by (rule pic_only_trans [OF pic_only_upd pic_only_event(1)])
      have "pic_only s (set_line Master 2 ?u)" by (rule pic_only_trans [OF pic_only_upd pic_only_set_line])
      then have rec: "specE {BadShift} (pic_only s) (PicService env Master (set_line Master 2 ?u))"
        if "\<not> testw (PicMode (Pic s i)) MODE_SPECIAL_MASK" "testw (PicMode (Pic s i)) MODE_FULLY_NESTED"
          "\<not> testw (InitCmd (Pic ?u i) 2) ICW3_CASCADE_ENABLE" "\<not> line2_up ?u"
        using "1.IH" [OF refl that(1,2) refl that(3,4)] by (auto elim: specE_mono intro: pic_only_trans)
      show ?thesis
        by (subst PicService.simps) (use Inr Some ev rec in \<open>simp add: Let_def pic_only_special\<close>)
    qed
  qed
qed

lemma PicRaiseIrq_frame: "specE {Exit, BadShift} (pic_only s) (PicRaiseIrq env s irq)"
proof -
  have io: "specE {Exit, BadShift} (pic_only s) (if irq \<noteq> 2 then IoApicRaiseIrq env s irq else Inr s)"
    using IoApicRaiseIrq_frame [of s env irq] by (auto elim!: specE_mono intro: pic_only_apic)
  have "specE {Exit, BadShift} (pic_only s) (PicService env i (set_line i n t))" if "pic_only s t" for t i n
    using PicService_frame by (rule specE_mono) (use that in \<open>auto intro: pic_only_trans [OF _ pic_only_trans [OF pic_only_set_line]]\<close>)
  then show ?thesis unfolding PicRaiseIrq_def using io by (auto intro!: specE_bindI)
qed

lemma PicLowerIrq_frame: "pic_only s (PicLowerIrq s irq)"
proof -
  have "pic_only s (if irq \<noteq> 2 then IoApicLowerIrq s irq else s)"
    by (simp add: pic_only_apic IoApicLowerIrq_frame)
  then show ?thesis unfolding PicLowerIrq_def Let_def by (auto intro: pic_only_trans [OF _ pic_only_upd])
qed

interpretation isa: irq_line "PicRaiseIrq env" PicLowerIrq pic_only "{Exit, BadShift}" for env
  by unfold_locales (auto intro: pic_only_trans PicRaiseIrq_frame PicLowerIrq_frame)

end
