(* ===== verification/Pit.thy ===== *)
theory Pit
  imports Pic
begin

text \<open>
  The 8254 interval timer of \<open>pit.c\<close>: three counters that are read and programmed through ports
  0x40 to 0x43, the gate and speaker port 0x61, and the timer that raises interrupt 0. The
  counter values are computed from the clock, never decremented; the decrementing helpers of the
  source are modelled too and shown to terminate.
\<close>

section \<open>State\<close>

record Counter =
  c_count :: ULONG
  c_countLatched :: BYTE
  c_writeState :: BYTE
  c_readState :: BYTE
  c_mode :: BYTE
  c_rwMode :: BYTE
  c_bcdMode :: BYTE
  c_countWritten :: BYTE
  c_inlatch :: USHORT
  c_outlatch :: USHORT
  c_statusLatch :: BYTE
  c_statusLatched :: BYTE
  c_nextTransitionTime :: ULONG64
  c_countBinary :: DWORD
  c_gate :: BYTE
  c_triggerGate :: BYTE
  c_timerId :: DWORD
  c_countLoadTime :: ULONG64

record PIT =
  pit_counter :: "nat \<Rightarrow> Counter"
  pit_totalTicks :: ULONG64
  pit_InterruptEnabled :: BYTE

record pit_state = pic_state +
  Pit :: PIT
  PitChannelSound :: BYTE
  PitClockNs :: ULONG64

definition Counter_zero :: Counter where
  "Counter_zero = \<lparr>c_count = 0, c_countLatched = 0, c_writeState = 0, c_readState = 0, c_mode = 0,
     c_rwMode = 0, c_bcdMode = 0, c_countWritten = 0, c_inlatch = 0, c_outlatch = 0, c_statusLatch = 0,
     c_statusLatched = 0, c_nextTransitionTime = 0, c_countBinary = 0, c_gate = 0, c_triggerGate = 0,
     c_timerId = 0, c_countLoadTime = 0\<rparr>"

definition PIT_zero :: PIT where
  "PIT_zero = \<lparr>pit_counter = (\<lambda>_. Counter_zero), pit_totalTicks = 0, pit_InterruptEnabled = 0\<rparr>"

definition pit_zero :: pit_state where
  "pit_zero = pic_state.extend pic_zero (pit_state.fields PIT_zero 0 0)"

definition PIT_FREQ :: ULONG where "PIT_FREQ = 1193182"
definition NANOSECONDS_PER_SECOND :: ULONG where "NANOSECONDS_PER_SECOND = 1000000000"

abbreviation cnt :: "'z pit_state_scheme \<Rightarrow> nat \<Rightarrow> Counter" where
  "cnt s ch \<equiv> pit_counter (Pit s) ch"

definition upd_cnt :: "nat \<Rightarrow> (Counter \<Rightarrow> Counter) \<Rightarrow> 'z pit_state_scheme \<Rightarrow> 'z pit_state_scheme" where
  "upd_cnt ch f s = s\<lparr>Pit := (Pit s)\<lparr>pit_counter := (pit_counter (Pit s))(ch := f (cnt s ch))\<rparr>\<rparr>"

section \<open>Counting down\<close>

definition PitSetCountToBinary :: "Counter \<Rightarrow> Counter" where
  "PitSetCountToBinary c =
     (if c_bcdMode c \<noteq> 0
      then c\<lparr>c_count := ((c_countBinary c div 1) mod 10) OR
                       push_bit 4 ((c_countBinary c div 10) mod 10) OR
                       push_bit 8 ((c_countBinary c div 100) mod 10) OR
                       push_bit 12 ((c_countBinary c div 1000) mod 10)\<rparr>
      else c\<lparr>c_count := c_countBinary c\<rparr>)"

definition PitDecrement :: "Counter \<Rightarrow> Counter" where
  "PitDecrement c =
     (if c_count c = 0
      then if c_bcdMode c \<noteq> 0 then c\<lparr>c_count := 0x9999, c_countBinary := 9999\<rparr>
           else c\<lparr>c_count := 0xFFFF, c_countBinary := 0xFFFF\<rparr>
      else PitSetCountToBinary (c\<lparr>c_countBinary := c_countBinary c - 1\<rparr>))"

lemma cycles_decrease:
  assumes "\<not> cycles \<le> n"
  shows "unat (cycles - (n + 1)) < unat (cycles :: DWORD)"
proof -
  have "unat n < unat cycles" using assms by (simp add: word_le_nat_alt)
  then have "unat (n + 1) = unat n + 1"
    using unat_ULONG_less [of cycles] by (simp add: unat_word_ariths)
  moreover from this have "n + 1 \<le> cycles" using assms by (simp add: word_le_nat_alt)
  ultimately show ?thesis using \<open>unat n < unat cycles\<close> by (simp add: unat_sub)
qed

function PitDecrementMultiple :: "Counter \<Rightarrow> DWORD \<Rightarrow> Counter" where
  "PitDecrementMultiple c cycles =
     (if cycles > 0
      then if cycles \<le> c_countBinary c
           then PitDecrementMultiple (PitSetCountToBinary (c\<lparr>c_countBinary := c_countBinary c - cycles\<rparr>)) (cycles - cycles)
           else PitDecrementMultiple
                  (PitDecrement (PitSetCountToBinary (c\<lparr>c_countBinary := c_countBinary c - c_countBinary c\<rparr>)))
                  (cycles - (c_countBinary c + 1))
      else c)"
  by pat_completeness auto

termination
  by (relation "measure (\<lambda>(c, cycles). unat cycles)") (auto simp: cycles_decrease word_less_nat_alt)

declare PitDecrementMultiple.simps [simp del]

definition PitSetCount :: "Counter \<Rightarrow> DWORD \<Rightarrow> Counter" where
  "PitSetCount c data = PitSetCountToBinary (c\<lparr>c_count := data AND 0xffff\<rparr>)"

section \<open>Counters as functions of the clock\<close>

text \<open>The division and the remainder by \<open>count\<close> are undefined when the count is 0.\<close>

definition div64 :: "ULONG64 \<Rightarrow> ULONG64 \<Rightarrow> ULONG64 res" where
  "div64 a b = (if b = 0 then Inl DivByZero else Inr (a div b))"

definition mod64 :: "ULONG64 \<Rightarrow> ULONG64 \<Rightarrow> ULONG64 res" where
  "mod64 a b = (if b = 0 then Inl DivByZero else Inr (a mod b))"

text \<open>The counter's clock cycles since its count was loaded.\<close>

definition pit_elapsed :: "Counter \<Rightarrow> ULONG64 \<Rightarrow> ULONG64" where
  "pit_elapsed c currentTime = muldiv64 (currentTime - c_countLoadTime c) PIT_FREQ NANOSECONDS_PER_SECOND"

text \<open>The result \<open>-1\<close> says that the output does not change again.\<close>

definition PitGetNextTransitionTime :: "Counter \<Rightarrow> ULONG64 \<Rightarrow> ULONG64 res" where
  "PitGetNextTransitionTime c currentTime =
     (let result = pit_elapsed c currentTime;
          count = ucast (c_count c) :: ULONG64;
          finish = (\<lambda>next. let next = c_countLoadTime c + muldiv64 next NANOSECONDS_PER_SECOND PIT_FREQ;
                              next = (if next \<le> currentTime then currentTime else next)
                          in next + 1)
      in if c_mode c = 2
         then bindE (div64 result count) (\<lambda>q. Inr (finish (q * count + count)))
         else if c_mode c = 3
         then bindE (div64 result count) (\<lambda>q.
              let base = q * count; period2 = ucast (drop_bit 1 (c_count c + 1))
              in Inr (finish (if result - base < period2 then base + period2 else base + count)))
         else if result < count then Inr (finish count)
         else Inr (- 1))"

definition PitGetOut :: "Counter \<Rightarrow> ULONG64 \<Rightarrow> bool res" where
  "PitGetOut c currentTime =
     (let result = pit_elapsed c currentTime; count = ucast (c_count c) :: ULONG64
      in if c_mode c = 1 then Inr (result < count)
         else if c_mode c = 2 then bindE (mod64 result count) (\<lambda>r. Inr (r = 0 \<and> result \<noteq> 0))
         else if c_mode c = 3
         then bindE (mod64 result count) (\<lambda>r. Inr (r < ucast (drop_bit 1 (c_count c + 1))))
         else if c_mode c = 4 \<or> c_mode c = 5 then Inr (result = count)
         else Inr (result \<ge> count))"

definition PitGetCount :: "'z pit_state_scheme \<Rightarrow> nat \<Rightarrow> ULONG res" where
  "PitGetCount s ch =
     (let c = cnt s ch; result = pit_elapsed c (TimerGetClockNs s); count = ucast (c_count c) :: ULONG64
      in if c_mode c \<in> {0, 1, 4, 5} then Inr (ucast ((count - result) AND 0xffff))
         else if c_mode c = 3 then bindE (mod64 (2 * result) count) (\<lambda>r. Inr (ucast (count - r)))
         else bindE (mod64 result count) (\<lambda>r. Inr (ucast (count - r))))"

section \<open>Latches\<close>

definition PitLatchStatus :: "'z pit_state_scheme \<Rightarrow> nat \<Rightarrow> 'z pit_state_scheme res" where
  "PitLatchStatus s ch =
     (let c = cnt s ch
      in if c_statusLatched c = 0
         then bindE (PitGetOut c (c_countLoadTime c)) (\<lambda>out.
              Inr (upd_cnt ch (\<lambda>c. c\<lparr>c_statusLatch := push_bit 7 (b2w out) OR push_bit 4 (c_rwMode c) OR
                       push_bit 1 (c_mode c) OR c_bcdMode c, c_statusLatched := 1\<rparr>) s))
         else Inr s)"

definition PitLatchCount :: "'z pit_state_scheme \<Rightarrow> nat \<Rightarrow> 'z pit_state_scheme res" where
  "PitLatchCount s ch =
     (if c_countLatched (cnt s ch) = 0
      then bindE (PitGetCount s ch) (\<lambda>n.
           Inr (upd_cnt ch (\<lambda>c. c\<lparr>c_outlatch := ucast n, c_countLatched := c_rwMode c\<rparr>) s))
      else Inr s)"

section \<open>The interrupt\<close>

definition PitIrqLine :: "env \<Rightarrow> nat \<Rightarrow> bool \<Rightarrow> bool \<Rightarrow> 'z pit_state_scheme \<Rightarrow> 'z pit_state_scheme res" where
  "PitIrqLine env ch irq_level timer s =
     (if c_mode (cnt s ch) \<in> {2, 4, 5}
      then if timer \<and> pit_InterruptEnabled (Pit s) \<noteq> 0 then PicRaiseIrq env (PicLowerIrq s 0) 0 else Inr s
      else if pit_InterruptEnabled (Pit s) \<noteq> 0
           then if irq_level then PicRaiseIrq env s 0 else Inr (PicLowerIrq s 0)
           else Inr s)"

definition PitIrqTimerUpdate ::
  "env \<Rightarrow> nat \<Rightarrow> ULONG64 \<Rightarrow> bool \<Rightarrow> 'z pit_state_scheme \<Rightarrow> 'z pit_state_scheme res" where
  "PitIrqTimerUpdate env ch currentTime timer s =
     bindE (PitGetNextTransitionTime (cnt s ch) currentTime) (\<lambda>expire_time.
     bindE (PitGetOut (cnt s ch) currentTime) (\<lambda>irq_level.
     bindE (PitIrqLine env ch irq_level timer s) (\<lambda>s.
     let s = upd_cnt ch (\<lambda>c. c\<lparr>c_nextTransitionTime := expire_time\<rparr>) s
     in if expire_time \<noteq> - 1
        then TimerActivate s (c_timerId (cnt s ch)) expire_time 0
        else TimerDeactivate s (c_timerId (cnt s ch)))))"

definition PitTimerHandler :: "env \<Rightarrow> nat \<Rightarrow> 'z pit_state_scheme \<Rightarrow> 'z pit_state_scheme res" where
  "PitTimerHandler env param s = PitIrqTimerUpdate env param (c_nextTransitionTime (cnt s param)) True s"

definition PitLoadCount :: "env \<Rightarrow> nat \<Rightarrow> ULONG \<Rightarrow> 'z pit_state_scheme \<Rightarrow> 'z pit_state_scheme res" where
  "PitLoadCount env ch val s =
     (let s = upd_cnt ch (\<lambda>c. c\<lparr>c_count := if val = 0 then 0x10000 else val AND 0xffff, c_countWritten := 1,
                               c_countLoadTime := TimerGetClockNs s\<rparr>) s
      in PitIrqTimerUpdate env ch (c_countLoadTime (cnt s ch)) False s)"

definition PitSetGate :: "env \<Rightarrow> nat \<Rightarrow> ULONG \<Rightarrow> 'z pit_state_scheme \<Rightarrow> 'z pit_state_scheme res" where
  "PitSetGate env ch val s =
     bindE (if c_mode (cnt s ch) \<in> {1, 5, 2, 3} \<and> ucast (c_gate (cnt s ch)) < val
            then let s = upd_cnt ch (\<lambda>c. c\<lparr>c_countLoadTime := TimerGetClockNs s\<rparr>) s
                 in PitIrqTimerUpdate env ch (c_countLoadTime (cnt s ch)) False s
            else Inr s) (\<lambda>s.
     Inr (upd_cnt 2 (\<lambda>c. c\<lparr>c_gate := ucast val\<rparr>) s))"

section \<open>Ports\<close>

definition pit_read_channel :: "ULONG \<Rightarrow> nat" where
  "pit_read_channel addr = unat ((addr - 0x40) AND 2)"

definition PitReadHandler :: "'z pit_state_scheme \<Rightarrow> ULONG \<Rightarrow> (ULONG \<times> 'z pit_state_scheme) res" where
  "PitReadHandler s addr =
     (if addr = 0x61
      then let now = TimerGetClockNs s + PitClockNs s;
               refresh = ucast (now div 15085 AND 1) :: ULONG
           in bindE (PitGetOut (cnt s 2) now) (\<lambda>out.
              let s = s\<lparr>PitClockNs := PitClockNs s + 4000000\<rparr>
              in Inr (ucast (c_gate (cnt s 2)) OR push_bit 4 refresh OR push_bit 5 (b2w out), s))
      else let ch = pit_read_channel addr; c = cnt s ch
           in if c_statusLatched c \<noteq> 0
              then Inr (ucast (c_statusLatch c), upd_cnt ch (\<lambda>c. c\<lparr>c_statusLatched := 0\<rparr>) s)
              else if c_countLatched c \<noteq> 0
              then if c_countLatched c = 2
                   then Inr (ucast (drop_bit 8 (c_outlatch c)) AND 0xff, upd_cnt ch (\<lambda>c. c\<lparr>c_countLatched := 0\<rparr>) s)
                   else if c_countLatched c = 3
                   then Inr (ucast (c_outlatch c) AND 0xff, upd_cnt ch (\<lambda>c. c\<lparr>c_countLatched := 2\<rparr>) s)
                   else Inr (ucast (c_outlatch c) AND 0xff, upd_cnt ch (\<lambda>c. c\<lparr>c_countLatched := 0\<rparr>) s)
              else bindE (PitGetCount s ch) (\<lambda>n.
                   if c_readState c = 2 then Inr (drop_bit 8 n AND 0xff, s)
                   else if c_readState c = 3 then Inr (n AND 0xff, upd_cnt ch (\<lambda>c. c\<lparr>c_readState := 2\<rparr>) s)
                   else if c_readState c = 4 then Inr (drop_bit 8 n AND 0xff, upd_cnt ch (\<lambda>c. c\<lparr>c_readState := 3\<rparr>) s)
                   else Inr (n AND 0xff, s)))"

definition PitWriteCount :: "env \<Rightarrow> nat \<Rightarrow> ULONG \<Rightarrow> 'z pit_state_scheme \<Rightarrow> 'z pit_state_scheme res" where
  "PitWriteCount env ch val s =
     (let c = cnt s ch
      in if c_writeState c = 2 then PitLoadCount env ch (push_bit 8 val) s
         else if c_writeState c = 3
         then Inr (upd_cnt ch (\<lambda>c. c\<lparr>c_inlatch := ucast (ucast val :: BYTE), c_writeState := 4\<rparr>) s)
         else if c_writeState c = 4
         then bindE (PitLoadCount env ch (ucast (c_inlatch c) OR push_bit 8 (val AND 0xff)) s) (\<lambda>s.
              Inr (upd_cnt ch (\<lambda>c. c\<lparr>c_writeState := 3\<rparr>) s))
         else PitLoadCount env ch val s)"

definition PitReadBack :: "ULONG \<Rightarrow> nat \<Rightarrow> 'z pit_state_scheme \<Rightarrow> 'z pit_state_scheme res" where
  "PitReadBack val ch s =
     (if testw val (push_bit ch 2)
      then bindE (if \<not> testw val 0x20 then PitLatchCount s ch else Inr s) (\<lambda>s.
           if \<not> testw val 0x10 \<and> c_statusLatched (cnt s ch) = 0 then PitLatchStatus s ch else Inr s)
      else Inr s)"

definition PitWriteControl :: "ULONG \<Rightarrow> 'z pit_state_scheme \<Rightarrow> 'z pit_state_scheme res" where
  "PitWriteControl val s =
     (let ch = unat (drop_bit 6 val AND 3); access = ucast (drop_bit 4 val AND 3) :: BYTE
      in if ch = 3 then foldE (PitReadBack val) [0 ..< 3] s
         else if access = 0 then PitLatchCount s ch
         else let m = ucast (drop_bit 1 val AND 7)
              in Inr (upd_cnt ch (\<lambda>c. c\<lparr>c_readState := access, c_writeState := access,
                        c_mode := if m > 5 then m - 4 else m,
                        c_rwMode := access, c_bcdMode := ucast (val AND 1)\<rparr>) s))"

definition PitWriteHandler :: "env \<Rightarrow> 'z pit_state_scheme \<Rightarrow> ULONG \<Rightarrow> ULONG \<Rightarrow> 'z pit_state_scheme res" where
  "PitWriteHandler env s addr val =
     (if addr \<in> {0x40, 0x41, 0x42} then PitWriteCount env (unat (addr AND 2)) val s
      else if addr = 0x43 then PitWriteControl val s
      else if addr = 0x61
      then PitSetGate env 2 (val AND 1) (s\<lparr>PitChannelSound := ucast (drop_bit 1 val AND 1)\<rparr>)
      else Inr s)"

definition PitSetInterrupt :: "'z pit_state_scheme \<Rightarrow> BYTE \<Rightarrow> 'z pit_state_scheme" where
  "PitSetInterrupt s enable = s\<lparr>Pit := (Pit s)\<lparr>pit_InterruptEnabled := enable\<rparr>\<rparr>"

definition PitInitialize :: "env \<Rightarrow> 'z pit_state_scheme \<Rightarrow> 'z pit_state_scheme res" where
  "PitInitialize env s =
     bindE (foldE (\<lambda>a s. RegisterPortIoHandler env s a (Some PitPort) (Some PitPort))
              [0x40, 0x41, 0x42, 0x43, 0x61] (s\<lparr>Pit := PIT_zero\<rparr>)) (\<lambda>s.
     let s = s\<lparr>Pit := (Pit s)\<lparr>pit_counter := (\<lambda>i. if i < 3
               then (cnt s i)\<lparr>c_readState := 1, c_writeState := 1, c_gate := 1, c_triggerGate := 0, c_mode := 4,
                              c_count := 0, c_rwMode := 1, c_statusLatch := 0, c_nextTransitionTime := 0\<rparr>
               else cnt s i)\<rparr>\<rparr>
     in bindE (TimerCreate s PitTimerFn 0) (\<lambda>(timer, s).
        let s = upd_cnt 0 (\<lambda>c. c\<lparr>c_timerId := timer\<rparr>) s
        in Inr (s\<lparr>Pit := (Pit s)\<lparr>pit_totalTicks := TimerGetTotalTicks s, pit_InterruptEnabled := 1\<rparr>\<rparr>)))"

section \<open>Well-formedness\<close>

text \<open>Every counter holds a count, and the timers the counters name exist.\<close>

definition pit_ok :: "'z pit_state_scheme \<Rightarrow> bool" where
  "pit_ok s \<longleftrightarrow> wf_timers s \<and> (\<forall>ch < 3. unat (c_timerId (cnt s ch)) < 32 \<and> c_count (cnt s ch) \<noteq> 0)"

lemma pic_only_pit:
  assumes "pic_only s t"
  shows "Pit t = Pit s" and "Timers t = Timers s" and "TimersIdx t = TimersIdx s" and "TicksTotal t = TicksTotal s"
    and "pit_ok t = pit_ok s"
  using assms by (auto elim!: pic_onlyE simp: pit_ok_def wf_timers_def)

lemma upd_cnt_simps [simp]:
  "cnt (upd_cnt ch f s) k = (if k = ch then f (cnt s ch) else cnt s k)"
  "Timers (upd_cnt ch f s) = Timers s" "TimersIdx (upd_cnt ch f s) = TimersIdx s"
  "TicksTotal (upd_cnt ch f s) = TicksTotal s" "TimerGetClockNs (upd_cnt ch f s) = TimerGetClockNs s"
  "wf_timers (upd_cnt ch f s) = wf_timers s" "Pic (upd_cnt ch f s) = Pic s"
  by (simp_all add: upd_cnt_def TimerGetClockNs_def wf_timers_def)

lemma pit_ok_upd_cnt:
  "pit_ok s \<Longrightarrow> c_timerId (f (cnt s ch)) = c_timerId (cnt s ch) \<Longrightarrow> c_count (f (cnt s ch)) \<noteq> 0 \<Longrightarrow> pit_ok (upd_cnt ch f s)"
  by (simp add: pit_ok_def)

lemma pit_ok_timer:
  assumes "pit_ok s" and "unat i < 32"
  shows "specE {} (\<lambda>t. pit_ok t \<and> Pit t = Pit s) (TimerActivate s i ns o1)"
    and "specE {} (\<lambda>t. pit_ok t \<and> Pit t = Pit s) (TimerDeactivate s i)"
proof -
  have wf: "wf_timers s" using assms(1) by (simp add: pit_ok_def)
  have i: "unat i < length (Timers s)" using wf assms(2) by (simp add: wf_timers_def)
  have upd: "pit_ok (s\<lparr>Timers := ts\<rparr>)" if "length ts = 32" for ts
    using that assms(1) by (simp add: pit_ok_def wf_timers_def)
  show "specE {} (\<lambda>t. pit_ok t \<and> Pit t = Pit s) (TimerActivate s i ns o1)"
    using i wf by (simp add: TimerActivate_eq upd wf_timers_def)
  obtain ts where "TimerDeactivate s i = Inr (s\<lparr>Timers := ts\<rparr>)" "length ts = 32"
    using TimerDeactivate_spec [OF wf assms(2)] by blast
  then show "specE {} (\<lambda>t. pit_ok t \<and> Pit t = Pit s) (TimerDeactivate s i)" using upd by simp
qed

lemma count64_nonzero: "c_count c \<noteq> 0 \<Longrightarrow> (ucast (c_count c) :: ULONG64) \<noteq> 0"
  by (metis ucast_ULONG64_ULONG unsigned_0)

lemma pit_functions_total:
  assumes "c_count c \<noteq> 0"
  shows "\<exists>x. PitGetNextTransitionTime c now = Inr x" and "\<exists>b. PitGetOut c now = Inr b"
  using count64_nonzero [OF assms]
  by (auto simp: PitGetNextTransitionTime_def PitGetOut_def Let_def div64_def mod64_def)

lemma PitGetCount_total: "c_count (cnt s ch) \<noteq> 0 \<Longrightarrow> \<exists>n. PitGetCount s ch = Inr n"
  using count64_nonzero [of "cnt s ch"] by (auto simp: PitGetCount_def Let_def mod64_def)

lemma PitIrqLine_frame: "specE {Exit, BadShift} (pic_only s) (PitIrqLine env ch lev timer s)"
  unfolding PitIrqLine_def
  by (intro specE_if_both isa.pulse isa.raise_keeps) (simp_all add: isa.keeps_refl isa.lower_keeps)

lemma PitIrqTimerUpdate_spec:
  assumes "pit_ok s" and "ch < 3"
  shows "specE {Exit, BadShift} (\<lambda>t. pit_ok t \<and>
      (\<exists>x. Pit t = Pit (upd_cnt ch (\<lambda>c. c\<lparr>c_nextTransitionTime := x\<rparr>) s))) (PitIrqTimerUpdate env ch now timer s)"
proof -
  have c: "c_count (cnt s ch) \<noteq> 0" "unat (c_timerId (cnt s ch)) < 32" using assms by (auto simp: pit_ok_def)
  obtain x b where x: "PitGetNextTransitionTime (cnt s ch) now = Inr x" "PitGetOut (cnt s ch) now = Inr b"
    using pit_functions_total [OF c(1)] by blast
  have "specE {Exit, BadShift} (\<lambda>t. pit_ok t \<and> (\<exists>x. Pit t = Pit (upd_cnt ch (\<lambda>c. c\<lparr>c_nextTransitionTime := x\<rparr>) s)))
     (let u = upd_cnt ch (\<lambda>c. c\<lparr>c_nextTransitionTime := x\<rparr>) t
     in if x \<noteq> - 1 then TimerActivate u (c_timerId (cnt u ch)) x 0 else TimerDeactivate u (c_timerId (cnt u ch)))"
    if t: "pic_only s t" for t
  proof -
    note t' = pic_only_pit [OF t]
    let ?u = "upd_cnt ch (\<lambda>c. c\<lparr>c_nextTransitionTime := x\<rparr>) t"
    have "pit_ok t" using t'(5) assms(1) by simp
    then have u: "pit_ok ?u" "unat (c_timerId (cnt ?u ch)) < 32" "Pit ?u = Pit (upd_cnt ch (\<lambda>c. c\<lparr>c_nextTransitionTime := x\<rparr>) s)"
      using c t'(1) by (simp_all add: pit_ok_upd_cnt) (simp add: upd_cnt_def)
    have "specE {Exit, BadShift} (\<lambda>v. pit_ok v \<and> Pit v = Pit ?u) (TimerActivate ?u (c_timerId (cnt ?u ch)) x 0)"
      "specE {Exit, BadShift} (\<lambda>v. pit_ok v \<and> Pit v = Pit ?u) (TimerDeactivate ?u (c_timerId (cnt ?u ch)))"
      by (rule specE_total_any, rule pit_ok_timer [OF u(1,2)])+
    then have "specE {Exit, BadShift} (\<lambda>v. pit_ok v \<and> Pit v = Pit ?u) (if x \<noteq> - 1
        then TimerActivate ?u (c_timerId (cnt ?u ch)) x 0 else TimerDeactivate ?u (c_timerId (cnt ?u ch)))"
      by (rule specE_if_both)
    then show ?thesis unfolding Let_def by (rule specE_mono) (auto simp only: u(3))
  qed
  then show ?thesis unfolding PitIrqTimerUpdate_def x
    by (simp only: bindE_simps) (rule specE_bindI [OF PitIrqLine_frame])
qed

lemma PitLoadCount_spec:
  assumes "pit_ok s" and "ch < 3" and "val = 0 \<or> val AND 0xffff \<noteq> 0"
  shows "specE {Exit, BadShift} (\<lambda>t. pit_ok t \<and> (\<exists>x. Pit t = Pit (upd_cnt ch (\<lambda>c. c\<lparr>
      c_count := if val = 0 then 0x10000 else val AND 0xffff, c_countWritten := 1,
      c_countLoadTime := TimerGetClockNs s, c_nextTransitionTime := x\<rparr>) s))) (PitLoadCount env ch val s)"
proof -
  let ?s = "upd_cnt ch (\<lambda>c. c\<lparr>c_count := if val = 0 then 0x10000 else val AND 0xffff, c_countWritten := 1,
      c_countLoadTime := TimerGetClockNs s\<rparr>) s"
  have "pit_ok ?s" using assms by (auto intro!: pit_ok_upd_cnt)
  from PitIrqTimerUpdate_spec [OF this assms(2), of env "c_countLoadTime (cnt ?s ch)" False]
  show ?thesis unfolding PitLoadCount_def Let_def by (rule specE_mono) (auto simp: upd_cnt_def)
qed

lemma and_ffff_small: "unat (x :: ULONG) < 2 ^ 16 \<Longrightarrow> x AND 0xffff = x"
proof -
  assume "unat x < 2 ^ 16"
  then have "take_bit 16 x = x" by (simp add: word_unat_eq_iff unat_take_bit)
  moreover have "x AND 0xffff = take_bit 16 x" by (simp add: take_bit_eq_mask mask_eq_exp_minus_1)
  ultimately show ?thesis by simp
qed

lemma byte_and_ffff: "unat (v :: ULONG) < 256 \<Longrightarrow> v AND 0xffff = v \<and> (push_bit 8 v = 0 \<or> push_bit 8 v AND 0xffff \<noteq> 0)"
proof -
  assume v: "unat v < 256"
  have "unat (push_bit 8 v) = unat v * 256" using v by (simp add: push_bit_eq_mult unat_word_ariths)
  then show ?thesis using v and_ffff_small [of v] and_ffff_small [of "push_bit 8 v"] by auto
qed

lemma byte_pair: "unat (v :: ULONG) < 256 \<Longrightarrow> unat (ucast (c :: USHORT) OR push_bit 8 (v AND 0xff) :: ULONG) < 2 ^ 16"
proof -
  have and_ff: "v AND 0xff = take_bit 8 v" by (simp add: take_bit_eq_mask mask_eq_exp_minus_1)
  have "(ucast c OR push_bit 8 (v AND 0xff) :: ULONG) = take_bit 16 (ucast c OR push_bit 8 (v AND 0xff))"
    unfolding and_ff by (rule bit_word_eqI) (auto simp: bit_simps dest: bit_imp_le_length)
  then show ?thesis using unat_take_bit [of 16 "ucast c OR push_bit 8 (v AND 0xff) :: ULONG"] by simp
qed

lemma pit_ok_cnt:
  assumes "pit_ok s" and "\<And>c. c_timerId (f c) = c_timerId c" and "\<And>c. c_count (f c) = c_count c" and "ch < 3"
  shows "pit_ok (upd_cnt ch f s)"
  using assms by (intro pit_ok_upd_cnt) (auto simp: pit_ok_def)

lemma PitWriteCount_ok:
  assumes "pit_ok s" and "ch < 3" and "unat val < 256"
  shows "specE {Exit, BadShift} pit_ok (PitWriteCount env ch val s)"
proof -
  have load: "specE {Exit, BadShift} pit_ok (PitLoadCount env ch v s)" if "v = 0 \<or> v AND 0xffff \<noteq> 0" for v
    by (rule specE_mono [OF PitLoadCount_spec [OF assms(1,2) that]]) auto
  let ?w = "ucast (c_inlatch (cnt s ch)) OR push_bit 8 (val AND 0xff) :: ULONG"
  have "?w AND 0xffff = ?w" by (rule and_ffff_small [OF byte_pair [OF assms(3)]])
  then have w: "specE {Exit, BadShift} pit_ok (PitLoadCount env ch ?w s)" by (intro load) (cases "?w = 0", simp_all)
  have b: "specE {Exit, BadShift} pit_ok (PitLoadCount env ch val s)" "specE {Exit, BadShift} pit_ok (PitLoadCount env ch (push_bit 8 val) s)"
    using byte_and_ffff [OF assms(3)] by (intro load; auto)+
  show ?thesis unfolding PitWriteCount_def Let_def
    by (intro specE_if_both b specE_bindI [OF w]) (simp_all add: pit_ok_cnt assms)
qed

lemma PitLatch_ok:
  assumes "pit_ok s" and "ch < 3"
  shows "specE {} pit_ok (PitLatchCount s ch)" and "specE {} pit_ok (PitLatchStatus s ch)"
proof -
  have c: "c_count (cnt s ch) \<noteq> 0" using assms by (simp add: pit_ok_def)
  obtain n b where "PitGetCount s ch = Inr n" "PitGetOut (cnt s ch) (c_countLoadTime (cnt s ch)) = Inr b"
    using PitGetCount_total [of s ch] pit_functions_total(2) [OF c] c by blast
  then show "specE {} pit_ok (PitLatchCount s ch)" "specE {} pit_ok (PitLatchStatus s ch)"
    using assms by (simp_all add: PitLatchCount_def PitLatchStatus_def Let_def pit_ok_cnt)
qed

lemma PitReadBack_ok:
  assumes "pit_ok s" and "ch < 3"
  shows "specE {} pit_ok (PitReadBack val ch s)"
proof -
  have "specE {} pit_ok (if \<not> testw val 0x20 then PitLatchCount s ch else Inr s)"
    by (simp add: assms PitLatch_ok(1))
  then show ?thesis unfolding PitReadBack_def
    by (auto intro!: specE_bindI PitLatch_ok(2) simp: assms)
qed

lemma PitWriteControl_ok:
  assumes "pit_ok s"
  shows "specE {} pit_ok (PitWriteControl val s)"
proof -
  have read_back: "specE {} pit_ok (foldE (PitReadBack val) [0 ..< 3] s)"
    by (rule specE_foldI) (use assms PitReadBack_ok in auto)
  have "drop_bit 6 val AND 3 = take_bit 2 (drop_bit 6 val)" by (simp add: take_bit_eq_mask mask_eq_exp_minus_1)
  then have "unat (drop_bit 6 val AND 3) < 4" by (simp add: unat_take_bit)
  then have ch: "unat (drop_bit 6 val AND 3) < 3" if "unat (drop_bit 6 val AND 3) \<noteq> 3" using that by linarith
  then show ?thesis unfolding PitWriteControl_def Let_def
    using read_back PitLatch_ok(1) [OF assms] pit_ok_cnt [OF assms] by simp
qed

lemma PitSetGate_ok:
  assumes "pit_ok s"
  shows "specE {Exit, BadShift} pit_ok (PitSetGate env 2 val s)"
proof -
  have gate: "pit_ok t \<Longrightarrow> pit_ok (upd_cnt 2 (\<lambda>c. c\<lparr>c_gate := g\<rparr>) t)" for t :: "'a pit_state_scheme" and g
    by (rule pit_ok_cnt) simp_all
  let ?s = "upd_cnt 2 (\<lambda>c. c\<lparr>c_countLoadTime := TimerGetClockNs s\<rparr>) s"
  have s: "pit_ok ?s" by (rule pit_ok_cnt [OF assms]) simp_all
  have "specE {Exit, BadShift} pit_ok (PitIrqTimerUpdate env 2 now False ?s)" for now
    by (rule specE_mono [OF PitIrqTimerUpdate_spec [OF s]]) auto
  then show ?thesis unfolding PitSetGate_def Let_def
    using assms by (intro specE_bindI [where P = pit_ok] specE_if_both) (simp_all add: gate)
qed

lemma addr_channel: "unat (addr AND 2 :: ULONG) < 3"
proof -
  have "addr AND 2 = (if bit addr 1 then 2 else 0)"
    by (rule bit_word_eqI) (auto simp: bit_and_iff bit_2_iff)
  then show ?thesis by simp
qed

text \<open>C22. The interval timer never fails once its counters are loaded. If every counter holds a
  count and the timers exist, then a byte written to any of its ports, a firing of its timer
  and a read of any of its ports keep it that way and never divide by zero or leave an array;
  only the interrupt hardware can end a write or the timer handler early, and a read always
  returns.\<close>

theorem pit_stays_ok:
  assumes "pit_ok s" and "unat val < 256" and "ch < 3"
  shows "specE {Exit, BadShift} pit_ok (PitWriteHandler env s addr val) \<and>
         specE {Exit, BadShift} pit_ok (PitTimerHandler env ch s) \<and>
         specE {} (\<lambda>(_, t). pit_ok t) (PitReadHandler s addr)"
proof (intro conjI)
  have sound: "pit_ok (s\<lparr>PitChannelSound := x\<rparr>)" for x using assms(1) by (simp add: pit_ok_def wf_timers_def)
  show "specE {Exit, BadShift} pit_ok (PitWriteHandler env s addr val)"
    unfolding PitWriteHandler_def
    by (intro specE_if_both PitWriteCount_ok PitSetGate_ok specE_total_any [OF PitWriteControl_ok] addr_channel assms sound)
       (simp add: assms)
  show "specE {Exit, BadShift} pit_ok (PitTimerHandler env ch s)"
    unfolding PitTimerHandler_def by (rule specE_mono [OF PitIrqTimerUpdate_spec [OF assms(1,3)]]) auto
  have ch: "pit_read_channel addr < 3" by (simp add: pit_read_channel_def addr_channel)
  then have c: "c_count (cnt s (pit_read_channel addr)) \<noteq> 0" "c_count (cnt s 2) \<noteq> 0"
    using assms(1) by (auto simp: pit_ok_def)
  obtain n where n: "PitGetCount s (pit_read_channel addr) = Inr n" using PitGetCount_total c(1) by blast
  have "\<exists>b. PitGetOut (cnt s 2) now = Inr b" for now using pit_functions_total(2) [OF c(2)] .
  then obtain b where "PitGetOut (cnt s 2) (TimerGetClockNs s + PitClockNs s) = Inr b" by blast
  moreover have "pit_ok (s\<lparr>PitClockNs := x\<rparr>)" for x using assms(1) by (simp add: pit_ok_def wf_timers_def)
  ultimately show "specE {} (\<lambda>(_, t). pit_ok t) (PitReadHandler s addr)"
    using n ch assms(1) by (simp add: PitReadHandler_def Let_def pit_ok_cnt)
qed

text \<open>Three loaded counters in mode 3, read and written as low byte then high byte.\<close>

definition pit_example :: pit_state where
  "pit_example = pit_zero\<lparr>TimersIdx := 1, Pit := PIT_zero\<lparr>pit_counter := (\<lambda>_. Counter_zero\<lparr>c_count := 0x10000,
     c_mode := 3, c_rwMode := 3, c_readState := 3, c_writeState := 3\<rparr>)\<rparr>\<rparr>"

lemmas pit_zero_defs = pit_zero_def pic_zero_def zero_defs pic_state.defs pit_state.defs

lemma pit_example_ok: "pit_ok pit_example"
  by (simp add: pit_ok_def pit_example_def wf_timers_def pit_zero_defs Counter_zero_def)

theorem pit_stays_ok_witness:
  "specE {Exit, BadShift} pit_ok (PitWriteHandler (\<lambda>_ _. True) pit_example 0x40 0x12)"
  using pit_stays_ok [OF pit_example_ok, of "0x12" 0 "\<lambda>_ _. True" "0x40"] by simp

lemma byte_pair_value:
  assumes "unat lo < 256" and "unat hi < 256"
  shows "unat (ucast (ucast (ucast (lo :: ULONG) :: BYTE) :: USHORT) OR push_bit 8 (hi AND 0xff) :: ULONG) = unat lo + 256 * unat hi"
proof -
  have lo: "take_bit 8 lo = lo" and hi: "take_bit 8 hi = hi"
    using assms by (simp_all add: word_unat_eq_iff unat_take_bit)
  have "ucast (ucast (ucast lo :: BYTE) :: USHORT) = take_bit 8 lo" by (rule bit_word_eqI) (auto simp: bit_simps)
  moreover have "hi AND 0xff = take_bit 8 hi" by (simp add: take_bit_eq_mask mask_eq_exp_minus_1)
  moreover have "\<not> bit lo n" if "8 \<le> n" for n using lo that by (metis bit_take_bit_iff not_le)
  then have "lo OR push_bit 8 hi = lo + push_bit 8 hi" by (intro disjunctive_add [symmetric]) (auto simp: bit_simps)
  ultimately have "ucast (ucast (ucast lo :: BYTE) :: USHORT) OR push_bit 8 (hi AND 0xff) = lo + push_bit 8 hi"
    using lo hi by simp
  then show ?thesis using assms by (simp add: push_bit_eq_mult unat_word_ariths)
qed

text \<open>Programming a counter. After the control word that selects low-byte-then-high-byte access for
  channel 0 or 2 (in any mode), writing the two bytes to the channel's port loads the count they
  form, where 0 means 65536, starts it at the current clock, and leaves the channel ready for
  the next pair.\<close>

theorem pit_program_count:
  assumes s: "pit_ok s" and ch: "ch = 0 \<or> ch = 2" and b: "unat lo < 256" "unat hi < 256" and m: "m < 6"
  shows "specE {Exit, BadShift} (\<lambda>t. unat (c_count (cnt t ch)) =
             (if unat lo + 256 * unat hi = 0 then 65536 else unat lo + 256 * unat hi) \<and>
           c_mode (cnt t ch) = of_nat m \<and> c_writeState (cnt t ch) = 3 \<and>
           c_countLoadTime (cnt t ch) = TimerGetClockNs s)
     (bindE (PitWriteHandler env s 0x43 (of_nat (64 * ch + 0x30 + 2 * m))) (\<lambda>s.
      bindE (PitWriteHandler env s (0x40 + of_nat ch) lo) (\<lambda>s. PitWriteHandler env s (0x40 + of_nat ch) hi)))"
proof -
  let ?cw = "of_nat (64 * ch + 0x30 + 2 * m) :: ULONG"
  let ?s1 = "upd_cnt ch (\<lambda>c. c\<lparr>c_readState := 3, c_writeState := 3, c_mode := of_nat m, c_rwMode := 3, c_bcdMode := 0\<rparr>) s"
  have "m \<in> {0, 1, 2, 3, 4, 5}" using m by auto
  then have cw: "PitWriteHandler env s 0x43 ?cw = Inr ?s1"
    using ch by (auto simp: PitWriteHandler_def PitWriteControl_def Let_def drop_bit_eq_div)
  have port: "PitWriteHandler env t (0x40 + of_nat ch) v = PitWriteCount env ch v t" for t v
    using ch by (auto simp: PitWriteHandler_def)
  let ?s2 = "upd_cnt ch (\<lambda>c. c\<lparr>c_inlatch := ucast (ucast lo :: BYTE), c_writeState := 4\<rparr>) ?s1"
  have lo: "PitWriteCount env ch lo ?s1 = Inr ?s2" by (simp add: PitWriteCount_def Let_def)
  let ?w = "ucast (ucast (ucast lo :: BYTE) :: USHORT) OR push_bit 8 (hi AND 0xff) :: ULONG"
  have w: "unat ?w = unat lo + 256 * unat hi" by (rule byte_pair_value [OF b])
  have s2: "pit_ok ?s2" "ch < 3" using s ch by (auto intro!: pit_ok_cnt)
  define v where "v = ?w"
  have v: "unat v = unat lo + 256 * unat hi" unfolding v_def by (rule w)
  have ff: "v AND 0xffff = v" using v b by (intro and_ffff_small) simp
  have load: "specE {Exit, BadShift} (\<lambda>t. pit_ok t \<and> (\<exists>x. Pit t = Pit (upd_cnt ch (\<lambda>c. c\<lparr>
      c_count := if v = 0 then 0x10000 else v AND 0xffff, c_countWritten := 1,
      c_countLoadTime := TimerGetClockNs ?s2, c_nextTransitionTime := x\<rparr>) ?s2))) (PitLoadCount env ch v ?s2)"
    by (rule PitLoadCount_spec [OF s2]) (use ff in auto)
  have zero: "v = 0 \<longleftrightarrow> unat lo + 256 * unat hi = 0" using v unat_eq_zero [of v] by (simp only:)
  have hi: "PitWriteCount env ch hi ?s2 = bindE (PitLoadCount env ch v ?s2) (\<lambda>s. Inr (upd_cnt ch (\<lambda>c. c\<lparr>c_writeState := 3\<rparr>) s))"
    by (simp add: PitWriteCount_def Let_def v_def)
  show ?thesis unfolding cw port bindE_simps lo hi
    by (rule specE_bindI [OF load]) (auto simp: ff zero v)
qed

theorem pit_program_count_witness:
  "specE {Exit, BadShift} (\<lambda>t. unat (c_count (cnt t 0)) = 0x1234)
     (bindE (PitWriteHandler (\<lambda>_ _. True) pit_example 0x43 0x34) (\<lambda>s.
      bindE (PitWriteHandler (\<lambda>_ _. True) s 0x40 0x34) (\<lambda>s. PitWriteHandler (\<lambda>_ _. True) s 0x40 0x12)))"
  using specE_mono [OF pit_program_count [OF pit_example_ok, of 0 "0x34" "0x12" 2 "\<lambda>_ _. True"], of "{Exit, BadShift}"
      "\<lambda>t. unat (c_count (cnt t 0)) = 0x1234"]
  by simp

text \<open>Latching a counter. For channel 0 or 2 in low-byte-then-high-byte access with nothing latched
  yet, the latch command freezes the current count; the next two reads of the channel's port
  return its low and its high byte, however much time passes between them, and release the
  latch.\<close>

theorem pit_latch_read:
  assumes ch: "ch = 0 \<or> ch = 2" and c: "c_statusLatched (cnt s ch) = 0" "c_countLatched (cnt s ch) = 0" "c_rwMode (cnt s ch) = 3"
    and n: "PitGetCount s ch = Inr n"
  shows "\<exists>t u v. PitWriteHandler env s 0x43 (of_nat (64 * ch)) = Inr t \<and>
     PitReadHandler (t\<lparr>TicksTotal := time1\<rparr>) (0x40 + of_nat ch) = Inr (n AND 0xff, u) \<and>
     PitReadHandler (u\<lparr>TicksTotal := time2\<rparr>) (0x40 + of_nat ch) = Inr (drop_bit 8 n AND 0xff, v) \<and>
     c_countLatched (cnt v ch) = 0"
proof -
  let ?t = "upd_cnt ch (\<lambda>c. c\<lparr>c_outlatch := ucast n, c_countLatched := 3\<rparr>) s"
  have "PitLatchCount s ch = Inr ?t" using c n by (simp add: PitLatchCount_def upd_cnt_def)
  then have t: "PitWriteHandler env s 0x43 (of_nat (64 * ch)) = Inr ?t"
    using ch by (auto simp: PitWriteHandler_def PitWriteControl_def Let_def drop_bit_eq_div)
  have a: "0x40 + of_nat ch \<noteq> (0x61 :: ULONG)" "pit_read_channel (0x40 + of_nat ch) = ch"
    using ch by (auto simp: pit_read_channel_def)
  have lo: "ucast (ucast n :: USHORT) AND 0xff = n AND (0xff :: ULONG)"
    and hi: "ucast (drop_bit 8 (ucast n :: USHORT)) AND 0xff = drop_bit 8 n AND (0xff :: ULONG)"
  proof -
    have ff: "x AND 0xff = take_bit 8 x" for x :: ULONG by (simp add: take_bit_eq_mask mask_eq_exp_minus_1)
    show "ucast (ucast n :: USHORT) AND 0xff = n AND (0xff :: ULONG)"
      unfolding ff by (rule bit_word_eqI) (auto simp: bit_simps)
    show "ucast (drop_bit 8 (ucast n :: USHORT)) AND 0xff = drop_bit 8 n AND (0xff :: ULONG)"
      unfolding ff by (rule bit_word_eqI) (auto simp: bit_simps)
  qed
  let ?u = "upd_cnt ch (\<lambda>c. c\<lparr>c_countLatched := 2\<rparr>) (?t\<lparr>TicksTotal := time1\<rparr>)"
  have r1: "PitReadHandler (?t\<lparr>TicksTotal := time1\<rparr>) (0x40 + of_nat ch) = Inr (n AND 0xff, ?u)"
    using a c lo by (simp add: PitReadHandler_def Let_def upd_cnt_def)
  have r2: "PitReadHandler (?u\<lparr>TicksTotal := time2\<rparr>) (0x40 + of_nat ch) =
      Inr (drop_bit 8 n AND 0xff, upd_cnt ch (\<lambda>c. c\<lparr>c_countLatched := 0\<rparr>) (?u\<lparr>TicksTotal := time2\<rparr>))"
    using a c hi by (simp add: PitReadHandler_def Let_def upd_cnt_def)
  show ?thesis by (intro exI conjI, rule t, rule r1, rule r2) simp
qed

theorem pit_latch_read_witness:
  "\<exists>t u v. PitWriteHandler (\<lambda>_ _. True) pit_example 0x43 0 = Inr t \<and>
     PitReadHandler (t\<lparr>TicksTotal := 5\<rparr>) 0x40 = Inr (0, u) \<and>
     PitReadHandler (u\<lparr>TicksTotal := 9\<rparr>) 0x40 = Inr (0, v)"
proof -
  have "TimerGetClockNs pit_example = 0" by (simp add: TimerGetClockNs_def muldiv64_def Let_def pit_example_def pit_zero_defs)
  then have "PitGetCount pit_example 0 = Inr 0x10000"
    by (simp add: PitGetCount_def Let_def pit_elapsed_def muldiv64_def mod64_def pit_example_def Counter_zero_def)
  then show ?thesis
    using pit_latch_read [of 0 pit_example "0x10000" "\<lambda>_ _. True" 5 9]
    by (auto simp: pit_example_def Counter_zero_def)
qed

text \<open>The next transition of a counter lies in the future. Whatever the counter's state, if the
  computation does not divide by zero its result is the value that says no transition is left,
  or a time later than the current one (except when adding one to the largest 64-bit time wraps
  to 0), so the timer is never armed for the past.\<close>

theorem pit_next_transition_future:
  "specE {DivByZero} (\<lambda>t. t = - 1 \<or> now < t \<or> t = 0) (PitGetNextTransitionTime c now)"
proof -
  have later: "now < (if x \<le> now then now else x) + 1 \<or> (if x \<le> now then now else x) + 1 = 0" for x
  proof -
    let ?y = "if x \<le> now then now else x"
    have "now \<le> ?y" by auto
    moreover have "?y < ?y + 1 \<or> ?y + 1 = 0" by (rule ULONG64_succ)
    ultimately show ?thesis by auto
  qed
  then show ?thesis
    by (simp add: PitGetNextTransitionTime_def Let_def div64_def)
qed

text \<open>A guest can crash the monitor through the interval timer. After initialisation, when no count
  has been loaded, selecting mode 2 or 3 for channel 0 and reading the channel divides by zero.\<close>

theorem pit_read_divides_by_zero:
  assumes "c_count (cnt s 0) = 0" and "c_statusLatched (cnt s 0) = 0" and "c_countLatched (cnt s 0) = 0"
    and "m = 2 \<or> m = 3"
  shows "bindE (PitWriteHandler env s 0x43 (of_nat (0x30 + 2 * m))) (\<lambda>s. PitReadHandler s 0x40) = Inl DivByZero"
  using assms(4) by (elim disjE) (use assms(1-3) in \<open>simp_all add: PitWriteHandler_def PitWriteControl_def PitReadHandler_def
      PitGetCount_def mod64_def pit_read_channel_def Let_def drop_bit_eq_div\<close>)

theorem pit_read_divides_by_zero_witness:
  "bindE (PitWriteHandler (\<lambda>_ _. True) pit_zero 0x43 0x34) (\<lambda>s. PitReadHandler s 0x40) = Inl DivByZero"
  using pit_read_divides_by_zero [of pit_zero 2 "\<lambda>_ _. True"] by (simp add: pit_zero_defs PIT_zero_def Counter_zero_def)

text \<open>Channel 1 does not exist: the port decoding keeps only bit 1 of the address, so every access
  to port 0x41 acts on channel 0 and a read of the control port 0x43 reads channel 2.\<close>

theorem pit_port_aliases:
  "PitWriteHandler env s 0x41 val = PitWriteHandler env s 0x40 val \<and>
   PitReadHandler s 0x41 = PitReadHandler s 0x40 \<and> PitReadHandler s 0x43 = PitReadHandler s 0x42"
  by (simp add: PitWriteHandler_def PitReadHandler_def pit_read_channel_def)

end
