(* ===== verification/Cmos.thy ===== *)
theory Cmos
  imports Pit "HOL-Library.Signed_Division"
begin

text \<open>
  The CMOS memory and real-time clock of \<open>cmos.c\<close>: 256 registers behind an address and a data
  port, the calendar that is converted to and from the registers, the alarm and update interrupt,
  the periodic rate, and the memory size and checksum that the firmware reads. The C library's
  calendar functions depend on the host's time zone, so they are the argument \<open>clib\<close> of the
  operations that call them.
\<close>

section \<open>State\<close>

text \<open>
  The fields of \<open>struct tm\<close> that \<open>mktime\<close> reads (without \<open>tm_isdst\<close>, which \<open>CmosUpdateTimeval\<close>
  leaves uninitialised), and the day of the week that only \<open>localtime\<close> sets.
\<close>

record tm =
  tm_sec :: int
  tm_min :: int
  tm_hour :: int
  tm_mday :: int
  tm_mon :: int
  tm_year :: int

record local_tm = tm +
  tm_wday :: int

text \<open>\<open>localtime\<close> gives a null pointer for a time it cannot represent; \<open>_strdup\<close> can run out of memory.\<close>

record clib =
  localtime :: "int \<Rightarrow> local_tm option"
  mktime :: "tm \<Rightarrow> int"
  time_now :: int
  strdup_ok :: bool

text \<open>A register number is a byte, so the 256 registers are a function on bytes.\<close>

record CMOS_STATE =
  Registers :: "BYTE \<Rightarrow> BYTE"
  CmosAddress :: BYTE
  CmosExtAddress :: BYTE
  timeval_change :: BYTE
  rtc_mode_12hour :: BYTE
  rtc_mode_binary :: BYTE
  rtc_sync :: BYTE
  cmos_InterruptEnabled :: BYTE
  timeval :: int
  PeriodicIntervalUsec :: DWORD

record cmos_state = pit_state +
  Cmos :: CMOS_STATE
  PeriodicTimerIndex :: ULONG
  UipTimerIndex :: ULONG
  OneSecondTimerIndex :: ULONG

definition CMOS_zero :: CMOS_STATE where
  "CMOS_zero = \<lparr>Registers = (\<lambda>_. 0), CmosAddress = 0, CmosExtAddress = 0, timeval_change = 0,
     rtc_mode_12hour = 0, rtc_mode_binary = 0, rtc_sync = 0, cmos_InterruptEnabled = 0, timeval = 0,
     PeriodicIntervalUsec = 0\<rparr>"

definition cmos_zero :: cmos_state where
  "cmos_zero = pit_state.extend pit_zero (cmos_state.fields CMOS_zero 0 0 0)"

definition TICK_PERIOD :: DWORD where "TICK_PERIOD = 4000000"

definition "REG_SEC = (0x00 :: BYTE)"
definition "REG_SEC_ALARM = (0x01 :: BYTE)"
definition "REG_MIN = (0x02 :: BYTE)"
definition "REG_MIN_ALARM = (0x03 :: BYTE)"
definition "REG_HOUR = (0x04 :: BYTE)"
definition "REG_HOUR_ALARM = (0x05 :: BYTE)"
definition "REG_WEEK_DAY = (0x06 :: BYTE)"
definition "REG_MONTH_DAY = (0x07 :: BYTE)"
definition "REG_MONTH = (0x08 :: BYTE)"
definition "REG_YEAR = (0x09 :: BYTE)"
definition "REG_STAT_A = (0x0a :: BYTE)"
definition "REG_STAT_B = (0x0b :: BYTE)"
definition "REG_STAT_C = (0x0c :: BYTE)"
definition "REG_STAT_D = (0x0d :: BYTE)"
definition "REG_DIAGNOSTIC_STATUS = (0x0e :: BYTE)"
definition "REG_SHUTDOWN_STATUS = (0x0f :: BYTE)"
definition "REG_EQUIPMENT_BYTE = (0x14 :: BYTE)"
definition "REG_CSUM_HIGH = (0x2e :: BYTE)"
definition "REG_CSUM_LOW = (0x2f :: BYTE)"
definition "REG_IBM_CENTURY_BYTE = (0x32 :: BYTE)"
definition "REG_IBM_PS2_CENTURY_BYTE = (0x37 :: BYTE)"

lemmas reg_defs = REG_SEC_def REG_SEC_ALARM_def REG_MIN_def REG_MIN_ALARM_def REG_HOUR_def REG_HOUR_ALARM_def
  REG_WEEK_DAY_def REG_MONTH_DAY_def REG_MONTH_def REG_YEAR_def REG_STAT_A_def REG_STAT_B_def REG_STAT_C_def
  REG_STAT_D_def REG_DIAGNOSTIC_STATUS_def REG_SHUTDOWN_STATUS_def REG_EQUIPMENT_BYTE_def REG_CSUM_HIGH_def
  REG_CSUM_LOW_def REG_IBM_CENTURY_BYTE_def REG_IBM_PS2_CENTURY_BYTE_def

abbreviation creg :: "'z cmos_state_scheme \<Rightarrow> BYTE \<Rightarrow> BYTE" where
  "creg s \<equiv> Registers (Cmos s)"

definition upd_cmos :: "(CMOS_STATE \<Rightarrow> CMOS_STATE) \<Rightarrow> 'z cmos_state_scheme \<Rightarrow> 'z cmos_state_scheme" where
  "upd_cmos f s = s\<lparr>Cmos := f (Cmos s)\<rparr>"

definition CmosSetRegister :: "'z cmos_state_scheme \<Rightarrow> BYTE \<Rightarrow> BYTE \<Rightarrow> 'z cmos_state_scheme" where
  "CmosSetRegister s address value = upd_cmos (\<lambda>c. c\<lparr>Registers := (Registers c)(address := value)\<rparr>) s"

definition CmosGetRegister :: "'z cmos_state_scheme \<Rightarrow> BYTE \<Rightarrow> BYTE" where
  "CmosGetRegister s address = creg s address"

section \<open>The calendar\<close>

definition bcd_to_bin :: "BYTE \<Rightarrow> BYTE \<Rightarrow> BYTE" where
  "bcd_to_bin value is_binary =
     (if is_binary \<noteq> 0 then value else drop_bit 4 value * 10 + (value AND 0x0f))"

definition bin_to_bcd :: "BYTE \<Rightarrow> BYTE \<Rightarrow> BYTE" where
  "bin_to_bcd value is_binary =
     (if is_binary \<noteq> 0 then value else push_bit 4 (value div 10) OR (value mod 10))"

definition cmos_hour_register :: "CMOS_STATE \<Rightarrow> BYTE \<Rightarrow> BYTE" where
  "cmos_hour_register c tmhour =
     (if rtc_mode_12hour c \<noteq> 0
      then let val_bcd = (if tmhour > 11 then 0x80 else 0x00);
               hour = (if tmhour > 11 then tmhour - 12 else tmhour);
               hour = (if hour = 0 then 12 else hour)
           in val_bcd OR bin_to_bcd hour (rtc_mode_binary c)
      else bin_to_bcd tmhour (rtc_mode_binary c))"

definition CmosUpdateClock :: "clib \<Rightarrow> 'z cmos_state_scheme \<Rightarrow> 'z cmos_state_scheme res" where
  "CmosUpdateClock lib s =
     (case localtime lib (timeval (Cmos s)) of
        None \<Rightarrow> Inl OutOfBounds
      | Some t \<Rightarrow>
          let c = Cmos s; bcd = (\<lambda>i. bin_to_bcd (word_of_int i) (rtc_mode_binary c));
              century = bcd (tm_year t sdiv 100 + 19)
          in Inr (upd_cmos (\<lambda>c. c\<lparr>Registers := (Registers c)
               (REG_SEC := bcd (tm_sec t), REG_MIN := bcd (tm_min t),
                REG_HOUR := cmos_hour_register c (word_of_int (tm_hour t)),
                REG_WEEK_DAY := bcd (tm_wday t + 1), REG_MONTH_DAY := bcd (tm_mday t),
                REG_MONTH := bcd (tm_mon t + 1), REG_YEAR := bcd (tm_year t smod 100),
                REG_IBM_CENTURY_BYTE := century, REG_IBM_PS2_CENTURY_BYTE := century)\<rparr>) s))"

text \<open>The hour as the registers give it: in 12-hour mode the mask 0x70 drops the low digit.\<close>

definition cmos_hour :: "CMOS_STATE \<Rightarrow> BYTE" where
  "cmos_hour c =
     (if rtc_mode_12hour c \<noteq> 0
      then let pm_flag = Registers c REG_HOUR AND 0x80;
               val_bin = bcd_to_bin (Registers c REG_HOUR AND 0x70) (rtc_mode_binary c)
           in if val_bin < 12 \<and> pm_flag > 0 then val_bin + 12
              else if val_bin = 12 \<and> pm_flag = 0 then 0 else val_bin
      else bcd_to_bin (Registers c REG_HOUR) (rtc_mode_binary c))"

definition CmosCalendar :: "CMOS_STATE \<Rightarrow> tm" where
  "CmosCalendar c =
     (let bin = (\<lambda>r. bcd_to_bin (Registers c r) (rtc_mode_binary c))
      in \<lparr>tm_sec = uint (bin REG_SEC), tm_min = uint (bin REG_MIN), tm_hour = uint (cmos_hour c),
          tm_mday = uint (bin REG_MONTH_DAY), tm_mon = uint (bin REG_MONTH) - 1,
          tm_year = uint ((bin REG_IBM_CENTURY_BYTE - 19) * 100 + bin REG_YEAR)\<rparr>)"

definition CmosUpdateTimeval :: "clib \<Rightarrow> 'z cmos_state_scheme \<Rightarrow> 'z cmos_state_scheme" where
  "CmosUpdateTimeval lib s = upd_cmos (\<lambda>c. c\<lparr>timeval := mktime lib (CmosCalendar c)\<rparr>) s"

section \<open>Timers\<close>

definition cmos_or_reg :: "BYTE \<Rightarrow> BYTE \<Rightarrow> 'z cmos_state_scheme \<Rightarrow> 'z cmos_state_scheme" where
  "cmos_or_reg r v s = CmosSetRegister s r (creg s r OR v)"

definition RTC_IRQ :: BYTE where "RTC_IRQ = 8"

definition cmos_irq :: "env \<Rightarrow> 'z cmos_state_scheme \<Rightarrow> 'z cmos_state_scheme res" where
  "cmos_irq env s = (if cmos_InterruptEnabled (Cmos s) \<noteq> 0 then PicRaiseIrq env s RTC_IRQ else Inr s)"

definition CmosPeriodicTimer :: "env \<Rightarrow> 'z cmos_state_scheme \<Rightarrow> 'z cmos_state_scheme res" where
  "CmosPeriodicTimer env s =
     (if testw (creg s REG_STAT_B) 0x40 then cmos_irq env (cmos_or_reg REG_STAT_C 0xc0 s) else Inr s)"

definition CmosOneSecondTimer :: "'z cmos_state_scheme \<Rightarrow> 'z cmos_state_scheme res" where
  "CmosOneSecondTimer s =
     (if creg s REG_STAT_A AND 0x60 = 0x60 then Inr s
      else let s = upd_cmos (\<lambda>c. c\<lparr>timeval := timeval c + 1\<rparr>) s
           in if testw (creg s REG_STAT_B) 0x80 then Inr s
              else let s = cmos_or_reg REG_STAT_A 0x80 s
                   in TimerActivate s (UipTimerIndex s) (ucast TICK_PERIOD) 0)"

definition alarm_field :: "'z cmos_state_scheme \<Rightarrow> BYTE \<Rightarrow> BYTE \<Rightarrow> bool" where
  "alarm_field s now alarm \<longleftrightarrow> creg s alarm AND 0xc0 = 0xc0 \<or> creg s now = creg s alarm"

definition alarm_match :: "'z cmos_state_scheme \<Rightarrow> bool" where
  "alarm_match s \<longleftrightarrow> alarm_field s REG_SEC REG_SEC_ALARM \<and> alarm_field s REG_MIN REG_MIN_ALARM \<and>
     alarm_field s REG_HOUR REG_HOUR_ALARM"

definition CmosUipTimer :: "env \<Rightarrow> clib \<Rightarrow> 'z cmos_state_scheme \<Rightarrow> 'z cmos_state_scheme res" where
  "CmosUipTimer env lib s =
     bindE (CmosUpdateClock lib s) (\<lambda>s.
     bindE (if testw (creg s REG_STAT_B) 0x10 then cmos_irq env (cmos_or_reg REG_STAT_C 0x90 s) else Inr s) (\<lambda>s.
     bindE (if testw (creg s REG_STAT_B) 0x20 \<and> alarm_match s
            then cmos_irq env (cmos_or_reg REG_STAT_C 0xa0 s) else Inr s) (\<lambda>s.
     Inr (CmosSetRegister s REG_STAT_A (creg s REG_STAT_A AND 0x7f)))))"

text \<open>
  The interval is computed in floating point as \<open>1000000 / (32768 / 2 ^ (nibble - 1))\<close>; both
  divisions are exact, and the assignment truncates.
\<close>

definition cra_interval :: "BYTE \<Rightarrow> DWORD" where
  "cra_interval nibble = of_nat (1000000 * 2 ^ (unat nibble - 1) div 32768) * TICK_PERIOD"

definition CraChange :: "'z cmos_state_scheme \<Rightarrow> 'z cmos_state_scheme res" where
  "CraChange s =
     (let nibble = creg s REG_STAT_A AND 0x0f; dcc = drop_bit 4 (creg s REG_STAT_A) AND 0x07
      in if nibble = 0 \<or> dcc AND 0x06 = 0
         then bindE (TimerDeactivate s (PeriodicTimerIndex s)) (\<lambda>s.
              Inr (upd_cmos (\<lambda>c. c\<lparr>PeriodicIntervalUsec := - 1\<rparr>) s))
         else let nibble = (if nibble \<le> 2 then nibble + 7 else nibble);
                  s = upd_cmos (\<lambda>c. c\<lparr>PeriodicIntervalUsec := cra_interval nibble\<rparr>) s
              in if testw (creg s REG_STAT_B) 0x40
                 then TimerActivate s (PeriodicTimerIndex s) (ucast (PeriodicIntervalUsec (Cmos s))) 0
                 else TimerDeactivate s (PeriodicTimerIndex s))"

section \<open>Memory size and checksum\<close>

definition CmosCheckSum :: "'z cmos_state_scheme \<Rightarrow> 'z cmos_state_scheme" where
  "CmosCheckSum s =
     (let sum = sum_list (map (\<lambda>i. ucast (creg s (of_nat i))) [0x10 ..< 0x2e]) :: USHORT;
          s = CmosSetRegister s REG_CSUM_HIGH (ucast (drop_bit 8 sum AND 0xff))
      in CmosSetRegister s REG_CSUM_LOW (ucast (sum AND 0xff)))"

definition cmos_extended_k :: "ULONG64 \<Rightarrow> ULONG64" where
  "cmos_extended_k MemorySize =
     (let memory_in_k = MemorySize div 1024;
          extended_memory_in_k = (if memory_in_k > 1024 then memory_in_k - 1024 else 0)
      in if extended_memory_in_k > 0xfc00 then 0xfc00 else extended_memory_in_k)"

definition cmos_extended_64k :: "ULONG64 \<Rightarrow> ULONG64" where
  "cmos_extended_64k MemorySize =
     (let memory_in_k = MemorySize div 1024;
          extended_memory_in_64k = (if memory_in_k > 16384 then (memory_in_k - 16384) div 64 else 0)
      in if extended_memory_in_64k > 0xbf00 then 0xbf00 else extended_memory_in_64k)"

definition BASE_MEMORY_IN_K :: DWORD where "BASE_MEMORY_IN_K = 640"

text \<open>
  With memory above 4 GB the byte for bits 32 and up is written as \<open>(BYTE)memory_above_4gb >> 32\<close>:
  the cast binds first, and a promoted byte is shifted by its width.
\<close>

definition cmos_memory_registers :: "'z cmos_state_scheme \<Rightarrow> ULONG64 \<Rightarrow> 'z cmos_state_scheme" where
  "cmos_memory_registers s MemorySize =
     (let k = cmos_extended_k MemorySize; k64 = cmos_extended_64k MemorySize;
          s = CmosSetRegister s 0x15 (ucast BASE_MEMORY_IN_K);
          s = CmosSetRegister s 0x16 (ucast (drop_bit 8 BASE_MEMORY_IN_K));
          s = CmosSetRegister s 0x17 (ucast (k AND 0xff));
          s = CmosSetRegister s 0x18 (ucast (drop_bit 8 k AND 0xff));
          s = CmosSetRegister s 0x30 (ucast (k AND 0xff));
          s = CmosSetRegister s 0x31 (ucast (drop_bit 8 k AND 0xff));
          s = CmosSetRegister s 0x34 (ucast (k64 AND 0xff))
      in CmosSetRegister s 0x35 (ucast (drop_bit 8 k64 AND 0xff)))"

definition CmosSetupMemory :: "'z cmos_state_scheme \<Rightarrow> ULONG64 \<Rightarrow> 'z cmos_state_scheme res" where
  "CmosSetupMemory s MemorySize =
     (let s = cmos_memory_registers s MemorySize;
          memory_above_4gb = (if MemorySize > 0x100000000 then MemorySize - 0x100000000 else 0)
      in if memory_above_4gb \<noteq> 0 then Inl BadShift else Inr (CmosCheckSum s))"

section \<open>Ports\<close>

definition CmosPortIoReadHandler :: "'z cmos_state_scheme \<Rightarrow> ULONG \<Rightarrow> ULONG \<times> 'z cmos_state_scheme" where
  "CmosPortIoReadHandler s addr =
     (if addr = 0x70 \<or> addr = 0x72 then (0xff, s)
      else if addr = 0x71
      then let s = (if CmosAddress (Cmos s) = REG_STAT_C
                    then PicLowerIrq (CmosSetRegister s REG_STAT_C 0x00) 8 else s)
           in (ucast (creg s (CmosAddress (Cmos s))), s)
      else if addr = 0x73 then (ucast (creg s (CmosExtAddress (Cmos s))), s)
      else (0, s))"

definition cmos_write_clock :: "clib \<Rightarrow> 'z cmos_state_scheme \<Rightarrow> BYTE \<Rightarrow> 'z cmos_state_scheme" where
  "cmos_write_clock lib s value =
     (let a = CmosAddress (Cmos s);
          s = CmosSetRegister s a value;
          s = (if a = REG_IBM_PS2_CENTURY_BYTE then CmosSetRegister s REG_IBM_CENTURY_BYTE value else s)
      in if testw (creg s REG_STAT_B) 0x80 then upd_cmos (\<lambda>c. c\<lparr>timeval_change := 1\<rparr>) s
         else CmosUpdateTimeval lib s)"

definition cmos_periodic_switch :: "BYTE \<Rightarrow> 'z cmos_state_scheme \<Rightarrow> 'z cmos_state_scheme res" where
  "cmos_periodic_switch prev_CRB s =
     (if testw prev_CRB 0x40 then TimerDeactivate s (PeriodicTimerIndex s)
      else if creg s REG_STAT_A AND 0x0f \<noteq> 0
      then TimerActivate s (PeriodicTimerIndex s) (ucast (PeriodicIntervalUsec (Cmos s))) 0
      else Inr s)"

definition cmos_write_stat_b :: "clib \<Rightarrow> 'z cmos_state_scheme \<Rightarrow> ULONG \<Rightarrow> 'z cmos_state_scheme res" where
  "cmos_write_stat_b lib s val =
     (let val = val AND 0xf7;
          val = (if testw val 0x80 then val AND 0xef else val);
          prev_CRB = creg s REG_STAT_B;
          s = CmosSetRegister s REG_STAT_B (ucast val);
          changed = (\<lambda>m. ucast prev_CRB AND m \<noteq> val AND m)
      in bindE (if changed 0x02
                then CmosUpdateClock lib (upd_cmos (\<lambda>c. c\<lparr>rtc_mode_12hour := b2w (val AND 0x02 = 0)\<rparr>) s)
                else Inr s) (\<lambda>s.
         bindE (if changed 0x04
                then CmosUpdateClock lib (upd_cmos (\<lambda>c. c\<lparr>rtc_mode_binary := b2w (val AND 0x04 \<noteq> 0)\<rparr>) s)
                else Inr s) (\<lambda>s.
         bindE (if changed 0x40 then cmos_periodic_switch prev_CRB s else Inr s) (\<lambda>s.
         Inr (if prev_CRB \<ge> 0x80 \<and> val < 0x80 \<and> timeval_change (Cmos s) \<noteq> 0
              then upd_cmos (\<lambda>c. c\<lparr>timeval_change := 0\<rparr>) (CmosUpdateTimeval lib s)
              else s)))))"

definition CmosPortIoWriteHandler ::
  "clib \<Rightarrow> 'z cmos_state_scheme \<Rightarrow> ULONG \<Rightarrow> ULONG \<Rightarrow> 'z cmos_state_scheme res" where
  "CmosPortIoWriteHandler lib s addr val =
     (if addr = 0x70 then Inr (upd_cmos (\<lambda>c. c\<lparr>CmosAddress := ucast (val AND 0x7f)\<rparr>) s)
      else if addr = 0x71
      then let a = CmosAddress (Cmos s)
           in if a \<in> {REG_SEC_ALARM, REG_MIN_ALARM, REG_HOUR_ALARM}
              then Inr (CmosSetRegister s a (ucast val))
              else if a \<in> {REG_SEC, REG_MIN, REG_HOUR, REG_WEEK_DAY, REG_MONTH_DAY, REG_MONTH, REG_YEAR,
                           REG_IBM_CENTURY_BYTE, REG_IBM_PS2_CENTURY_BYTE}
              then Inr (cmos_write_clock lib s (ucast val))
              else if a = REG_STAT_A
              then CraChange (CmosSetRegister s REG_STAT_A
                     ((creg s REG_STAT_A AND 0x80) OR ucast (val AND 0x7f)))
              else if a = REG_STAT_B then cmos_write_stat_b lib s val
              else if a \<in> {REG_DIAGNOSTIC_STATUS, REG_SHUTDOWN_STATUS}
              then Inr (CmosSetRegister s a (ucast val))
              else Inr s
      else if addr = 0x72 then Inr (upd_cmos (\<lambda>c. c\<lparr>CmosExtAddress := ucast (val OR 0x80)\<rparr>) s)
      else Inr s)"

definition CmosSetInterrupt :: "'z cmos_state_scheme \<Rightarrow> BYTE \<Rightarrow> 'z cmos_state_scheme" where
  "CmosSetInterrupt s enable = upd_cmos (\<lambda>c. c\<lparr>cmos_InterruptEnabled := enable\<rparr>) s"

definition CmosInitialize :: "env \<Rightarrow> clib \<Rightarrow> 'z cmos_state_scheme \<Rightarrow> 'z cmos_state_scheme res" where
  "CmosInitialize env lib s =
     bindE (foldE (\<lambda>a s. RegisterPortIoHandler env s a (Some CmosPort) (Some CmosPort)) [0x70, 0x71]
              (s\<lparr>Cmos := CMOS_zero\<rparr>)) (\<lambda>s.
     bindE (TimerRegister s TICK_PERIOD CmosUipTimerFn 0) (\<lambda>(i, s).
     bindE (TimerDeactivate (s\<lparr>UipTimerIndex := i\<rparr>) i) (\<lambda>s.
     let s = CmosSetRegister s REG_STAT_A 0x26;
         s = CmosSetRegister s REG_STAT_B 0x02;
         s = CmosSetRegister s REG_STAT_C 0x00;
         s = CmosSetRegister s REG_STAT_D 0x80;
         s = cmos_or_reg REG_EQUIPMENT_BYTE 0x02 s;
         s = upd_cmos (\<lambda>c. c\<lparr>rtc_mode_12hour := 0, rtc_mode_binary := 0, timeval := time_now lib\<rparr>) s
     in bindE (CmosUpdateClock lib s) (\<lambda>s.
        let s = upd_cmos (\<lambda>c. c\<lparr>cmos_InterruptEnabled := 1\<rparr>) s
        in if strdup_ok lib then Inr s else Inl Exit))))"

section \<open>Register access\<close>

lemma upd_cmos_simps [simp]:
  "Cmos (upd_cmos f s) = f (Cmos s)" "Timers (upd_cmos f s) = Timers s" "TimersIdx (upd_cmos f s) = TimersIdx s"
  "PeriodicTimerIndex (upd_cmos f s) = PeriodicTimerIndex s" "UipTimerIndex (upd_cmos f s) = UipTimerIndex s"
  "wf_timers (upd_cmos f s) = wf_timers s" "Pic (upd_cmos f s) = Pic s"
  by (simp_all add: upd_cmos_def wf_timers_def)

lemma CmosSetRegister_simps [simp]:
  "creg (CmosSetRegister s r v) = (creg s)(r := v)"
  "timeval (Cmos (CmosSetRegister s r v)) = timeval (Cmos s)"
  "CmosAddress (Cmos (CmosSetRegister s r v)) = CmosAddress (Cmos s)"
  "CmosExtAddress (Cmos (CmosSetRegister s r v)) = CmosExtAddress (Cmos s)"
  "PeriodicTimerIndex (CmosSetRegister s r v) = PeriodicTimerIndex s"
  "UipTimerIndex (CmosSetRegister s r v) = UipTimerIndex s"
  "Timers (CmosSetRegister s r v) = Timers s" "TimersIdx (CmosSetRegister s r v) = TimersIdx s"
  "wf_timers (CmosSetRegister s r v) = wf_timers s" "Pic (CmosSetRegister s r v) = Pic s"
  by (simp_all add: CmosSetRegister_def)

lemma pic_only_cmos:
  assumes "pic_only s t"
  shows "Cmos t = Cmos s" and "Timers t = Timers s" and "TimersIdx t = TimersIdx s"
    and "PeriodicTimerIndex t = PeriodicTimerIndex s" and "UipTimerIndex t = UipTimerIndex s"
  using assms by (auto elim!: pic_onlyE)

lemma cmos_irq_frame: "specE {Exit, BadShift} (pic_only s) (cmos_irq env s)"
  unfolding cmos_irq_def by (rule isa.raise_if)

section \<open>Well-formedness\<close>

definition cmos_ok :: "'z cmos_state_scheme \<Rightarrow> bool" where
  "cmos_ok s \<longleftrightarrow> wf_timers s \<and> unat (PeriodicTimerIndex s) < 32 \<and> unat (UipTimerIndex s) < 32"

lemma cmos_ok_simps [simp]:
  "cmos_ok (upd_cmos f s) = cmos_ok s" "cmos_ok (CmosSetRegister s r v) = cmos_ok s"
  "cmos_ok (cmos_or_reg r v s) = cmos_ok s" "cmos_ok (CmosUpdateTimeval lib s) = cmos_ok s"
  by (simp_all add: cmos_ok_def cmos_or_reg_def CmosUpdateTimeval_def)

lemma cmos_ok_pic_only: "pic_only s t \<Longrightarrow> cmos_ok t = cmos_ok s"
  by (auto elim!: pic_onlyE simp: cmos_ok_def wf_timers_def)

text \<open>The two timer calls keep the whole clock and the well-formedness.\<close>

definition clock_kept :: "'z cmos_state_scheme \<Rightarrow> 'z cmos_state_scheme \<Rightarrow> bool" where
  "clock_kept s t \<longleftrightarrow> cmos_ok t \<and> Cmos t = Cmos s"

lemma clock_kept_timer:
  assumes "cmos_ok s" and "unat i < 32"
  shows "specE {} (clock_kept s) (TimerActivate s i ns o1)" and "specE {} (clock_kept s) (TimerDeactivate s i)"
proof -
  have wf: "wf_timers s" using assms(1) by (simp add: cmos_ok_def)
  have upd: "clock_kept s (s\<lparr>Timers := ts\<rparr>)" if "length ts = 32" for ts
    using that assms(1) by (simp add: clock_kept_def cmos_ok_def wf_timers_def)
  show "specE {} (clock_kept s) (TimerActivate s i ns o1)"
    using wf assms(2) by (simp add: TimerActivate_eq wf_timers_def upd)
  show "specE {} (clock_kept s) (TimerDeactivate s i)"
    using TimerDeactivate_spec [OF wf assms(2)] upd by (auto simp: specE_total)
qed

lemma CmosUpdateClock_ok:
  assumes "cmos_ok s" and "localtime lib (timeval (Cmos s)) \<noteq> None"
  shows "specE {} (\<lambda>t. cmos_ok t \<and> timeval (Cmos t) = timeval (Cmos s)) (CmosUpdateClock lib s)"
  using assms by (auto simp: CmosUpdateClock_def Let_def)

lemma periodic_timer_ok:
  assumes "cmos_ok t"
  shows "specE {} cmos_ok (TimerActivate t (PeriodicTimerIndex t) ns o1)"
    and "specE {} cmos_ok (TimerDeactivate t (PeriodicTimerIndex t))"
proof -
  have p: "unat (PeriodicTimerIndex t) < 32" using assms by (simp add: cmos_ok_def)
  show "specE {} cmos_ok (TimerActivate t (PeriodicTimerIndex t) ns o1)"
    by (rule specE_mono [OF clock_kept_timer(1) [OF assms p]]) (simp_all add: clock_kept_def)
  show "specE {} cmos_ok (TimerDeactivate t (PeriodicTimerIndex t))"
    by (rule specE_mono [OF clock_kept_timer(2) [OF assms p]]) (simp_all add: clock_kept_def)
qed

lemma CraChange_ok:
  assumes "cmos_ok s"
  shows "specE {} cmos_ok (CraChange s)"
  unfolding CraChange_def Let_def
  by (intro specE_if_both periodic_timer_ok specE_bindI [OF periodic_timer_ok(2)]) (simp_all add: assms)

lemma cmos_write_stat_b_ok:
  assumes "cmos_ok s" and "localtime lib (timeval (Cmos s)) \<noteq> None"
  shows "specE {} cmos_ok (cmos_write_stat_b lib s val)"
proof -
  let ?P = "\<lambda>t. cmos_ok t \<and> timeval (Cmos t) = timeval (Cmos s)"
  have clock: "specE {} ?P (if b then CmosUpdateClock lib (upd_cmos f t) else Inr t)"
    if "?P t" "\<And>c. timeval (f c) = timeval c" for b f t
    using CmosUpdateClock_ok [of "upd_cmos f t" lib] that assms(2) by (auto elim!: specE_mono)
  have switch: "specE {} cmos_ok (if b then cmos_periodic_switch v t else Inr t)" if t: "cmos_ok t" for b v t
    unfolding cmos_periodic_switch_def using t by (intro specE_if_both periodic_timer_ok) auto
  show ?thesis unfolding cmos_write_stat_b_def Let_def
    by (intro specE_bindI [OF clock] specE_bindI [OF switch]) (use assms in auto)
qed

section \<open>Binary-coded decimals\<close>

lemma bcd_table: "list_all (\<lambda>i. bcd_to_bin (bin_to_bcd (of_nat i) 0) 0 = of_nat i) [0 ..< 100]"
  by code_simp

lemma bcd_roundtrip:
  assumes "unat v < 100"
  shows "bcd_to_bin (bin_to_bcd v b) b = v"
proof (cases "b = 0")
  case True
  have "bcd_to_bin (bin_to_bcd (of_nat (unat v)) 0) 0 = of_nat (unat v)"
    using bcd_table assms unfolding list_all_iff by (metis atLeast_upt lessThan_iff)
  then show ?thesis using True by simp
next
  case False
  then show ?thesis by (simp add: bcd_to_bin_def bin_to_bcd_def)
qed

lemma unat_word_of_int_BYTE: "0 \<le> i \<Longrightarrow> i < 256 \<Longrightarrow> unat (word_of_int i :: BYTE) = nat i"
  by (simp add: unsigned_of_int take_bit_eq_mod)

lemma bcd_roundtrip_int:
  assumes "0 \<le> i" and "i < 100"
  shows "bcd_to_bin (bin_to_bcd (word_of_int i) b) b = word_of_int i"
  using assms by (intro bcd_roundtrip) (simp add: unat_word_of_int_BYTE)

lemma uint_word_of_int_BYTE: "0 \<le> i \<Longrightarrow> i < 256 \<Longrightarrow> uint (word_of_int i :: BYTE) = i"
  by (simp add: unsigned_of_int take_bit_eq_mod)

text \<open>The ranges the C standard gives for \<open>localtime\<close>, and the years a byte can hold.\<close>

definition tm_range :: "local_tm \<Rightarrow> bool" where
  "tm_range t \<longleftrightarrow> 0 \<le> tm_sec t \<and> tm_sec t \<le> 60 \<and> 0 \<le> tm_min t \<and> tm_min t \<le> 59 \<and>
     0 \<le> tm_hour t \<and> tm_hour t \<le> 23 \<and> 1 \<le> tm_mday t \<and> tm_mday t \<le> 31 \<and> 0 \<le> tm_mon t \<and> tm_mon t \<le> 11 \<and>
     0 \<le> tm_wday t \<and> tm_wday t \<le> 6"

definition year_range :: "local_tm \<Rightarrow> bool" where
  "year_range t \<longleftrightarrow> 0 \<le> tm_year t \<and> tm_year t \<le> 255"

lemma year_roundtrip:
  assumes "0 \<le> y" and "y \<le> 255"
  shows "(word_of_int (y sdiv 100 + 19) - 19) * 100 + word_of_int (y smod 100) = (word_of_int y :: BYTE)"
proof -
  have "(y sdiv 100 + 19 - 19) * 100 + y smod 100 = y" using sdiv_mult_smod_eq [of y 100] by simp
  then have "word_of_int ((y sdiv 100 + 19 - 19) * 100 + y smod 100) = (word_of_int y :: BYTE)"
    by (simp only:)
  then show ?thesis by (simp only: of_int_add of_int_mult of_int_diff of_int_numeral)
qed

section \<open>Properties\<close>

text \<open>C23. The calendar survives the registers. In 24-hour mode, with either number format, converting the
  time to the clock registers and the registers back to a time gives \<open>mktime\<close> exactly the
  calendar that \<open>localtime\<close> produced, for the years 1900 to 2155; so the time is unchanged
  whenever \<open>mktime\<close> inverts \<open>localtime\<close> there.\<close>

theorem cmos_clock_roundtrip:
  assumes "localtime lib (timeval (Cmos s)) = Some t" and "tm_range t" and "year_range t"
    and "rtc_mode_12hour (Cmos s) = 0" and "mktime lib (tm.truncate t) = timeval (Cmos s)"
  shows "\<exists>u. CmosUpdateClock lib s = Inr u \<and> CmosCalendar (Cmos u) = tm.truncate t \<and>
             Cmos (CmosUpdateTimeval lib u) = Cmos u"
proof -
  let ?b = "rtc_mode_binary (Cmos s)"
  obtain u where u: "CmosUpdateClock lib s = Inr u" using assms(1) by (simp add: CmosUpdateClock_def Let_def)
  have y: "0 \<le> tm_year t smod 100" "tm_year t smod 100 < 100" "0 \<le> tm_year t sdiv 100" "tm_year t sdiv 100 + 19 < 100"
    using assms(3) by (auto simp: year_range_def signed_modulo_int_def signed_divide_int_def sgn_if)
  have reg: "creg u REG_SEC = bin_to_bcd (word_of_int (tm_sec t)) ?b" "creg u REG_MIN = bin_to_bcd (word_of_int (tm_min t)) ?b"
    "creg u REG_HOUR = bin_to_bcd (word_of_int (tm_hour t)) ?b" "creg u REG_MONTH_DAY = bin_to_bcd (word_of_int (tm_mday t)) ?b"
    "creg u REG_MONTH = bin_to_bcd (word_of_int (tm_mon t + 1)) ?b" "creg u REG_YEAR = bin_to_bcd (word_of_int (tm_year t smod 100)) ?b"
    "creg u REG_IBM_CENTURY_BYTE = bin_to_bcd (word_of_int (tm_year t sdiv 100 + 19)) ?b"
    and mode: "rtc_mode_binary (Cmos u) = ?b" "rtc_mode_12hour (Cmos u) = 0"
    using u assms(1,4) by (auto simp: CmosUpdateClock_def Let_def reg_defs cmos_hour_register_def)
  have r: "0 \<le> tm_sec t" "tm_sec t < 100" "0 \<le> tm_min t" "tm_min t < 100" "0 \<le> tm_hour t" "tm_hour t < 100"
    "0 \<le> tm_mday t" "tm_mday t < 100" "0 \<le> tm_mon t + 1" "tm_mon t + 1 < 100" "0 \<le> tm_year t" "tm_year t \<le> 255"
    using assms(2,3) by (auto simp: tm_range_def year_range_def)
  have b: "bcd_to_bin (bin_to_bcd (word_of_int i) ?b) ?b = word_of_int i" if "0 \<le> i" "i < 100" for i
    using that by (rule bcd_roundtrip_int)
  have i: "uint (word_of_int i :: BYTE) = i" if "0 \<le> i" "i < 100" for i
    by (rule uint_word_of_int_BYTE) (use that in auto)
  have "(word_of_int (tm_year t sdiv 100 + 19) - 19) * 100 + word_of_int (tm_year t smod 100) = (word_of_int (tm_year t) :: BYTE)"
    by (rule year_roundtrip [OF r(11,12)])
  moreover have "uint (word_of_int (tm_year t) :: BYTE) = tm_year t" by (rule uint_word_of_int_BYTE) (use r in auto)
  ultimately have yr: "uint ((word_of_int (tm_year t sdiv 100 + 19) - 19) * 100 + word_of_int (tm_year t smod 100) :: BYTE) = tm_year t"
    by (simp only:)
  have bc: "bcd_to_bin (bin_to_bcd (word_of_int (tm_year t sdiv 100 + 19)) ?b) ?b = word_of_int (tm_year t sdiv 100 + 19)"
    by (rule b) (use y in auto)
  have hour: "cmos_hour (Cmos u) = word_of_int (tm_hour t)"
    unfolding cmos_hour_def mode reg using b [OF r(5,6)] by simp
  have cal: "CmosCalendar (Cmos u) = tm.truncate t"
    unfolding CmosCalendar_def Let_def reg mode hour tm.defs
      b [OF r(1,2)] b [OF r(3,4)] b [OF r(7,8)] b [OF r(9,10)] b [OF y(1,2)] bc yr
      i [OF r(1,2)] i [OF r(3,4)] i [OF r(5,6)] i [OF r(7,8)] i [OF r(9,10)]
    by (simp only: diff_add_eq diff_self add_0_right add_diff_cancel_right')
  have "timeval (Cmos u) = timeval (Cmos s)"
    using u assms(1) by (auto simp: CmosUpdateClock_def Let_def)
  then have "Cmos (CmosUpdateTimeval lib u) = Cmos u" using cal assms(5) by (simp add: CmosUpdateTimeval_def)
  then show ?thesis using u cal by blast
qed

definition clib_example :: clib where
  "clib_example = \<lparr>localtime = (\<lambda>t. if t < 0 then None else Some \<lparr>tm_sec = t mod 60, tm_min = t div 60 mod 60,
       tm_hour = t div 3600 mod 24, tm_mday = 1, tm_mon = 0, tm_year = 70, tm_wday = 4\<rparr>),
     mktime = (\<lambda>t. if tm_year t < 70 then - 1 else tm_hour t * 3600 + tm_min t * 60 + tm_sec t),
     time_now = 0, strdup_ok = True\<rparr>"

lemmas cmos_zero_defs = cmos_zero_def pit_zero_defs cmos_state.defs

theorem cmos_clock_roundtrip_witness:
  "\<exists>u. CmosUpdateClock clib_example (cmos_zero\<lparr>Cmos := CMOS_zero\<lparr>timeval := 5025\<rparr>\<rparr>) = Inr u \<and>
     CmosCalendar (Cmos u) = \<lparr>tm_sec = 45, tm_min = 23, tm_hour = 1, tm_mday = 1, tm_mon = 0, tm_year = 70\<rparr>"
proof -
  let ?s = "cmos_zero\<lparr>Cmos := CMOS_zero\<lparr>timeval := 5025\<rparr>\<rparr>"
  let ?t = "\<lparr>tm_sec = 45, tm_min = 23, tm_hour = 1, tm_mday = 1, tm_mon = 0, tm_year = 70, tm_wday = 4\<rparr>"
  have "localtime clib_example (timeval (Cmos ?s)) = Some ?t" by (simp add: clib_example_def)
  moreover have "tm_range ?t" "year_range ?t" by (simp_all add: tm_range_def year_range_def)
  moreover have "rtc_mode_12hour (Cmos ?s) = 0" by (simp add: CMOS_zero_def)
  moreover have "mktime clib_example (tm.truncate ?t) = timeval (Cmos ?s)" by (simp add: clib_example_def tm.defs)
  ultimately show ?thesis using cmos_clock_roundtrip [of clib_example ?s ?t] by (auto simp: tm.defs)
qed

lemma cmos_irq_kept: "specE {Exit, BadShift} (\<lambda>t. Cmos t = Cmos s \<and> cmos_ok t = cmos_ok s) (cmos_irq env s)"
  by (rule specE_mono [OF cmos_irq_frame]) (auto simp: pic_only_cmos(1) cmos_ok_pic_only)



text \<open>The alarm. When the update timer completes, the update-in-progress bit is clear; with alarm
  interrupts enabled, the alarm bit of status register C is set afterwards exactly if it was
  set before or each of seconds, minutes and hours equals its alarm register or that alarm
  register is in the do-not-care range 0xc0 to 0xff.\<close>

theorem cmos_uip_alarm:
  assumes "localtime lib (timeval (Cmos s)) \<noteq> None" and "testw (creg s REG_STAT_B) 0x20"
  shows "specE {Exit, BadShift} (\<lambda>t. \<not> bit (creg t REG_STAT_A) 7 \<and>
     (bit (creg t REG_STAT_C) 5 \<longleftrightarrow> bit (creg s REG_STAT_C) 5 \<or>
        (\<forall>(now, alarm) \<in> {(REG_SEC, REG_SEC_ALARM), (REG_MIN, REG_MIN_ALARM), (REG_HOUR, REG_HOUR_ALARM)}.
           0xc0 \<le> creg t alarm \<or> creg t now = creg t alarm)))
    (CmosUipTimer env lib s)"
proof -
  have dontcare: "v AND 0xc0 = 0xc0 \<longleftrightarrow> 0xc0 \<le> v" for v :: BYTE
  proof -
    have "list_all (\<lambda>i. ((of_nat i :: BYTE) AND 0xc0 = 0xc0) = (0xc0 \<le> (of_nat i :: BYTE))) [0 ..< 256]" by code_simp
    then have "((of_nat (unat v) :: BYTE) AND 0xc0 = 0xc0) = (0xc0 \<le> (of_nat (unat v) :: BYTE))"
      unfolding list_all_iff using unat_BYTE_less [of v] by (metis atLeast_upt lessThan_iff)
    then show ?thesis by simp
  qed
  obtain u where u: "CmosUpdateClock lib s = Inr u" "creg u REG_STAT_C = creg s REG_STAT_C" "creg u REG_STAT_B = creg s REG_STAT_B"
    using assms(1) by (auto simp: CmosUpdateClock_def Let_def reg_defs)
  let ?P = "\<lambda>v. \<exists>b. creg v = (creg u)(REG_STAT_C := creg u REG_STAT_C OR b) \<and> \<not> bit b 5"
  have first: "specE {Exit, BadShift} ?P
      (if testw (creg u REG_STAT_B) 0x10 then cmos_irq env (cmos_or_reg REG_STAT_C 0x90 u) else Inr u)"
    by (intro specE_if_both specE_mono [OF cmos_irq_kept])
       (auto simp: cmos_or_reg_def bit_numeral_rec intro: exI [of _ "0x90"] exI [of _ 0])
  have second: "specE {Exit, BadShift} (\<lambda>w. \<not> bit ((creg w REG_STAT_A) AND 0x7f) 7 \<and>
     (bit (creg w REG_STAT_C) 5 \<longleftrightarrow> bit (creg s REG_STAT_C) 5 \<or> alarm_match v) \<and> (\<forall>r. r < REG_STAT_A \<longrightarrow> creg w r = creg v r))
     (if testw (creg v REG_STAT_B) 0x20 \<and> alarm_match v then cmos_irq env (cmos_or_reg REG_STAT_C 0xa0 v) else Inr v)"
    if v: "?P v" for v
  proof -
    obtain b where b: "creg v = (creg u)(REG_STAT_C := creg u REG_STAT_C OR b)" "\<not> bit b 5" using v by blast
    have "testw (creg v REG_STAT_B) 0x20" using b(1) u(3) assms(2) by (simp add: reg_defs)
    moreover have "bit (creg v REG_STAT_C) 5 = bit (creg s REG_STAT_C) 5" using b u(2) by (simp add: bit_or_iff)
    moreover have "specE {Exit, BadShift} (\<lambda>w. creg w = (creg v)(REG_STAT_C := creg v REG_STAT_C OR 0xa0))
        (cmos_irq env (cmos_or_reg REG_STAT_C 0xa0 v))"
      by (rule specE_mono [OF cmos_irq_kept]) (auto simp: cmos_or_reg_def)
    ultimately show ?thesis
      by (cases "alarm_match v") (auto elim!: specE_mono simp: bit_simps bit_numeral_rec reg_defs)
  qed
  show ?thesis unfolding CmosUipTimer_def u(1) bindE_simps
  proof (rule specE_bindI [OF first], rule specE_bindI [OF second], assumption, goal_cases)
    case (1 v w)
    then have "alarm_match v \<longleftrightarrow> alarm_match w" by (simp add: alarm_match_def alarm_field_def reg_defs)
    then show ?case using 1 by (auto simp: alarm_match_def alarm_field_def dontcare reg_defs)
  qed
qed

theorem cmos_uip_alarm_witness:
  "specE {Exit, BadShift} (\<lambda>t. \<not> bit (creg t REG_STAT_A) 7)
     (CmosUipTimer (\<lambda>_ _. True) clib_example (CmosSetRegister cmos_zero REG_STAT_B 0x20))"
proof -
  have "localtime clib_example (timeval (Cmos (CmosSetRegister cmos_zero REG_STAT_B 0x20))) \<noteq> None"
    by (simp add: clib_example_def cmos_zero_defs CMOS_zero_def)
  moreover have "testw (creg (CmosSetRegister cmos_zero REG_STAT_B 0x20) REG_STAT_B) 0x20" by (simp add: testw_def)
  ultimately show ?thesis
    using cmos_uip_alarm [of clib_example "CmosSetRegister cmos_zero REG_STAT_B 0x20" "\<lambda>_ _. True"]
    by (auto elim!: specE_mono)
qed

definition reg_pair :: "'z cmos_state_scheme \<Rightarrow> BYTE \<Rightarrow> BYTE \<Rightarrow> nat" where
  "reg_pair s hi lo = 256 * unat (creg s hi) + unat (creg s lo)"

lemma byte_split:
  assumes "unat k < 65536"
  shows "256 * unat (ucast (drop_bit 8 k AND 0xff) :: BYTE) + unat (ucast (k AND 0xff) :: BYTE) = unat (k :: ULONG64)"
proof -
  have ff: "x AND 0xff = take_bit 8 x" for x :: ULONG64 by (simp add: take_bit_eq_mask mask_eq_exp_minus_1)
  have "unat (ucast (take_bit 8 x) :: BYTE) = unat x mod 256" for x :: ULONG64
    by (simp add: unat_ucast_mod unat_take_bit)
  moreover have "unat (drop_bit 8 k) = unat k div 256" by (simp add: drop_bit_eq_div unat_div)
  ultimately show ?thesis using assms unfolding ff by (simp add: mod_mult_self1)
qed

lemma word_split16:
  "256 * unat (ucast (drop_bit 8 w AND 0xff) :: BYTE) + unat (ucast (w AND 0xff) :: BYTE) = unat (w :: USHORT)"
proof -
  have ff: "x AND 0xff = take_bit 8 x" for x :: USHORT by (simp add: take_bit_eq_mask mask_eq_exp_minus_1)
  have "unat (ucast (take_bit 8 x) :: BYTE) = unat x mod 256" for x :: USHORT
    by (simp add: unat_ucast_mod unat_take_bit)
  moreover have "unat (drop_bit 8 w) = unat w div 256" by (simp add: drop_bit_eq_div unat_div)
  moreover have "unat w < 65536" by (rule order_less_le_trans [OF unsigned_less]) simp
  ultimately show ?thesis unfolding ff by simp
qed

lemma unat_sum_bytes:
  "length bs < 256 \<Longrightarrow> unat (sum_list (map ucast (bs :: BYTE list)) :: USHORT) = sum_list (map unat bs) \<and>
     sum_list (map unat bs) \<le> 255 * length bs"
proof (induction bs)
  case Nil
  then show ?case by simp
next
  case (Cons b bs)
  have b: "unat (ucast b :: USHORT) = unat b" "unat b \<le> 255" using unat_BYTE_less [of b] by (simp_all add: unat_ucast_up)
  have "unat b + sum_list (map unat bs) < 65536" using Cons b(2) by simp
  then show ?case using Cons b by (simp add: unat_word_ariths)
qed

lemma cmos_checksum:
  "reg_pair (CmosCheckSum s) REG_CSUM_HIGH REG_CSUM_LOW = (\<Sum>i\<leftarrow>[0x10 ..< 0x2e]. unat (creg s (of_nat i)))"
proof -
  let ?bs = "map (\<lambda>i. creg s (of_nat i)) [0x10 ..< 0x2e]"
  have "unat (sum_list (map ucast ?bs) :: USHORT) = sum_list (map unat ?bs)"
    using unat_sum_bytes [of ?bs] by simp
  then show ?thesis unfolding reg_pair_def CmosCheckSum_def Let_def
    using word_split16 [of "sum_list (map ucast ?bs)"] by (simp add: reg_defs comp_def del: upt_conv_Cons_Cons upt_rec_numeral)
qed

text \<open>The memory size the firmware reads. For at most 4 GB of guest memory the setup stores the memory
  above 1 MB in kilobytes (at most 63 MB) and the memory above 16 MB in units of 64 kilobytes (at
  most 3 GB less 16 MB) in their register pairs, and the checksum pair holds the sum of registers
  0x10 to 0x2d; for more memory it runs into an undefined shift.\<close>

theorem cmos_memory_setup:
  "if unat m \<le> 2 ^ 32
   then \<exists>t. CmosSetupMemory s m = Inr t \<and>
     reg_pair t 0x18 0x17 = min 0xfc00 (unat m div 1024 - 1024) \<and> reg_pair t 0x31 0x30 = reg_pair t 0x18 0x17 \<and>
     reg_pair t 0x35 0x34 = min 0xbf00 ((unat m div 1024 - 16384) div 64) \<and>
     reg_pair t REG_CSUM_HIGH REG_CSUM_LOW = (\<Sum>i\<leftarrow>[0x10 ..< 0x2e]. unat (creg t (of_nat i)))
   else CmosSetupMemory s m = Inl BadShift"
proof -
  let ?k = "cmos_extended_k m" and ?k64 = "cmos_extended_64k m"
  have q: "unat (m div 1024) = unat m div 1024" by (simp add: unat_div)
  have k: "unat ?k = min 0xfc00 (unat m div 1024 - 1024)"
    by (simp add: cmos_extended_k_def Let_def word_less_nat_alt unat_sub_if' q unat_div)
  have k64: "unat ?k64 = min 0xbf00 ((unat m div 1024 - 16384) div 64)"
    by (simp add: cmos_extended_64k_def Let_def word_less_nat_alt unat_sub_if' q unat_div)
  have sum: "(\<Sum>i\<leftarrow>[0x10 ..< 0x2e]. unat (creg (CmosCheckSum u) (of_nat i))) = (\<Sum>i\<leftarrow>[0x10 ..< 0x2e]. unat (creg u (of_nat i)))"
    for u :: "'a cmos_state_scheme"
    by (simp add: CmosCheckSum_def Let_def reg_defs)
  have keep: "reg_pair (CmosCheckSum u) hi lo = reg_pair u hi lo" if "hi \<notin> {0x2e, 0x2f}" "lo \<notin> {0x2e, 0x2f}" for hi lo
    and u :: "'a cmos_state_scheme"
    using that by (simp add: CmosCheckSum_def Let_def reg_defs reg_pair_def)
  show ?thesis
  proof (cases "unat m \<le> 2 ^ 32")
    case True
    then have "\<not> m > 0x100000000" by (simp add: word_less_nat_alt)
    then have u: "CmosSetupMemory s m = Inr (CmosCheckSum (cmos_memory_registers s m))"
      by (simp add: CmosSetupMemory_def Let_def)
    have "unat ?k < 65536" "unat ?k64 < 65536" unfolding k k64 by simp_all
    then have "reg_pair (cmos_memory_registers s m) 0x18 0x17 = unat ?k" "reg_pair (cmos_memory_registers s m) 0x31 0x30 = unat ?k"
      "reg_pair (cmos_memory_registers s m) 0x35 0x34 = unat ?k64"
      using byte_split [of ?k] byte_split [of ?k64] by (simp_all add: cmos_memory_registers_def Let_def reg_pair_def)
    then show ?thesis using u True k k64 by (simp add: keep sum cmos_checksum del: upt_rec_numeral)
  next
    case False
    then have "m > 0x100000000" by (simp add: word_less_nat_alt)
    then show ?thesis using False by (simp add: CmosSetupMemory_def Let_def)
  qed
qed

text \<open>Status register C always reads as 0: the read handler clears the register before it returns it,
  so the guest cannot tell which of the clock's interrupts was raised.\<close>

theorem cmos_stat_c_reads_zero:
  "bindE (CmosPortIoWriteHandler lib s 0x70 0x0c) (\<lambda>s. Inr (fst (CmosPortIoReadHandler s 0x71))) = Inr 0"
proof -
  let ?s = "CmosSetRegister (upd_cmos (\<lambda>c. c\<lparr>CmosAddress := 0x0c\<rparr>) s) 0x0c 0"
  have "pic_only ?s (PicLowerIrq ?s 8)" by (rule isa.lower_keeps)
  then have "Cmos (PicLowerIrq ?s 8) = Cmos ?s" by (rule pic_only_cmos)
  then show ?thesis by (simp add: CmosPortIoWriteHandler_def CmosPortIoReadHandler_def Let_def reg_defs)
qed

text \<open>In 12-hour mode the low digit of the hour register does not reach the time.\<close>

lemma cmos_hour_drops_digit:
  assumes "rtc_mode_12hour c \<noteq> 0"
  shows "cmos_hour (c\<lparr>Registers := (Registers c)(REG_HOUR := v)\<rparr>) = cmos_hour (c\<lparr>Registers := (Registers c)(REG_HOUR := v AND 0xf0)\<rparr>)"
proof -
  have "(v AND 0xf0) AND 0x80 = v AND 0x80" "(v AND 0xf0) AND 0x70 = v AND 0x70" by (simp_all add: and.assoc)
  then show ?thesis using assms by (simp add: cmos_hour_def Let_def)
qed

text \<open>
  A guest can set a time that the host cannot represent (on the C library of the program, any time
  before 1970): the next conversion dereferences the null pointer \<open>localtime\<close> returns.
\<close>

lemma cmos_clock_crash: "localtime lib (timeval (Cmos s)) = None \<Longrightarrow> CmosUpdateClock lib s = Inl OutOfBounds"
  by (simp add: CmosUpdateClock_def)


end
