(* ===== verification/Scancodes.thy ===== *)
theory Scancodes
  imports Svmm_Prelude
begin

text \<open>
  The tables of \<open>scancodes.c\<close>: the 8042's translation of scancode set 2 to set 1, and the make and
  break codes of the 119 keys in the three scancode sets, in the order of the key enumeration.
  The C strings are lists of bytes without the terminating zero (no code contains a zero byte).
\<close>

definition translation8042 :: "BYTE list" where
  "translation8042 = [
    0xff, 0x43, 0x41, 0x3f, 0x3d, 0x3b, 0x3c, 0x58, 0x64, 0x44, 0x42, 0x40, 0x3e, 0x0f, 0x29, 0x59,
    0x65, 0x38, 0x2a, 0x70, 0x1d, 0x10, 0x02, 0x5a, 0x66, 0x71, 0x2c, 0x1f, 0x1e, 0x11, 0x03, 0x5b,
    0x67, 0x2e, 0x2d, 0x20, 0x12, 0x05, 0x04, 0x5c, 0x68, 0x39, 0x2f, 0x21, 0x14, 0x13, 0x06, 0x5d,
    0x69, 0x31, 0x30, 0x23, 0x22, 0x15, 0x07, 0x5e, 0x6a, 0x72, 0x32, 0x24, 0x16, 0x08, 0x09, 0x5f,
    0x6b, 0x33, 0x25, 0x17, 0x18, 0x0b, 0x0a, 0x60, 0x6c, 0x34, 0x35, 0x26, 0x27, 0x19, 0x0c, 0x61,
    0x6d, 0x73, 0x28, 0x74, 0x1a, 0x0d, 0x62, 0x6e, 0x3a, 0x36, 0x1c, 0x1b, 0x75, 0x2b, 0x63, 0x76,
    0x55, 0x56, 0x77, 0x78, 0x79, 0x7a, 0x0e, 0x7b, 0x7c, 0x4f, 0x7d, 0x4b, 0x47, 0x7e, 0x7f, 0x6f,
    0x52, 0x53, 0x50, 0x4c, 0x4d, 0x48, 0x01, 0x45, 0x57, 0x4e, 0x51, 0x4a, 0x37, 0x49, 0x46, 0x54,
    0x80, 0x81, 0x82, 0x41, 0x54, 0x85, 0x86, 0x87, 0x88, 0x89, 0x8a, 0x8b, 0x8c, 0x8d, 0x8e, 0x8f,
    0x90, 0x91, 0x92, 0x93, 0x94, 0x95, 0x96, 0x97, 0x98, 0x99, 0x9a, 0x9b, 0x9c, 0x9d, 0x9e, 0x9f,
    0xa0, 0xa1, 0xa2, 0xa3, 0xa4, 0xa5, 0xa6, 0xa7, 0xa8, 0xa9, 0xaa, 0xab, 0xac, 0xad, 0xae, 0xaf,
    0xb0, 0xb1, 0xb2, 0xb3, 0xb4, 0xb5, 0xb6, 0xb7, 0xb8, 0xb9, 0xba, 0xbb, 0xbc, 0xbd, 0xbe, 0xbf,
    0xc0, 0xc1, 0xc2, 0xc3, 0xc4, 0xc5, 0xc6, 0xc7, 0xc8, 0xc9, 0xca, 0xcb, 0xcc, 0xcd, 0xce, 0xcf,
    0xd0, 0xd1, 0xd2, 0xd3, 0xd4, 0xd5, 0xd6, 0xd7, 0xd8, 0xd9, 0xda, 0xdb, 0xdc, 0xdd, 0xde, 0xdf,
    0xe0, 0xe1, 0xe2, 0xe3, 0xe4, 0xe5, 0xe6, 0xe7, 0xe8, 0xe9, 0xea, 0xeb, 0xec, 0xed, 0xee, 0xef,
    0xf0, 0xf1, 0xf2, 0xf3, 0xf4, 0xf5, 0xf6, 0xf7, 0xf8, 0xf9, 0xfa, 0xfb, 0xfc, 0xfd, 0xfe, 0xff]"

record SCANCODE =
  Make :: "BYTE list"
  Break :: "BYTE list"

definition sc :: "BYTE list \<Rightarrow> BYTE list \<Rightarrow> SCANCODE" where
  "sc m b = \<lparr>Make = m, Break = b\<rparr>"

definition scancodes_1 :: "SCANCODE list list" where
  "scancodes_1 = [
    [sc [0x1D] [0x9D], sc [0x14] [0xF0, 0x14], sc [0x11] [0xF0, 0x11]],
    [sc [0x2A] [0xAA], sc [0x12] [0xF0, 0x12], sc [0x12] [0xF0, 0x12]],
    [sc [0x3B] [0xBB], sc [0x05] [0xF0, 0x05], sc [0x07] [0xF0, 0x07]],
    [sc [0x3C] [0xBC], sc [0x06] [0xF0, 0x06], sc [0x0F] [0xF0, 0x0F]],
    [sc [0x3D] [0xBD], sc [0x04] [0xF0, 0x04], sc [0x17] [0xF0, 0x17]],
    [sc [0x3E] [0xBE], sc [0x0C] [0xF0, 0x0C], sc [0x1F] [0xF0, 0x1F]],
    [sc [0x3F] [0xBF], sc [0x03] [0xF0, 0x03], sc [0x27] [0xF0, 0x27]],
    [sc [0x40] [0xC0], sc [0x0B] [0xF0, 0x0B], sc [0x2F] [0xF0, 0x2F]],
    [sc [0x41] [0xC1], sc [0x83] [0xF0, 0x83], sc [0x37] [0xF0, 0x37]],
    [sc [0x42] [0xC2], sc [0x0A] [0xF0, 0x0A], sc [0x3F] [0xF0, 0x3F]],
    [sc [0x43] [0xC3], sc [0x01] [0xF0, 0x01], sc [0x47] [0xF0, 0x47]],
    [sc [0x44] [0xC4], sc [0x09] [0xF0, 0x09], sc [0x4F] [0xF0, 0x4F]],
    [sc [0x57] [0xD7], sc [0x78] [0xF0, 0x78], sc [0x56] [0xF0, 0x56]],
    [sc [0x58] [0xD8], sc [0x07] [0xF0, 0x07], sc [0x5E] [0xF0, 0x5E]],
    [sc [0xE0, 0x1D] [0xE0, 0x9D], sc [0xE0, 0x14] [0xE0, 0xF0, 0x14], sc [0x58] [0xF0, 0x58]],
    [sc [0x36] [0xB6], sc [0x59] [0xF0, 0x59], sc [0x59] [0xF0, 0x59]],
    [sc [0x3A] [0xBA], sc [0x58] [0xF0, 0x58], sc [0x14] [0xF0, 0x14]],
    [sc [0x45] [0xC5], sc [0x77] [0xF0, 0x77], sc [0x76] [0xF0, 0x76]],
    [sc [0x38] [0xB8], sc [0x11] [0xF0, 0x11], sc [0x19] [0xF0, 0x19]],
    [sc [0xE0, 0x38] [0xE0, 0xB8], sc [0xE0, 0x11] [0xE0, 0xF0, 0x11], sc [0x39] [0xF0, 0x39]],
    [sc [0x1E] [0x9E], sc [0x1C] [0xF0, 0x1C], sc [0x1C] [0xF0, 0x1C]],
    [sc [0x30] [0xB0], sc [0x32] [0xF0, 0x32], sc [0x32] [0xF0, 0x32]],
    [sc [0x2E] [0xAE], sc [0x21] [0xF0, 0x21], sc [0x21] [0xF0, 0x21]],
    [sc [0x20] [0xA0], sc [0x23] [0xF0, 0x23], sc [0x23] [0xF0, 0x23]],
    [sc [0x12] [0x92], sc [0x24] [0xF0, 0x24], sc [0x24] [0xF0, 0x24]]]"

definition scancodes_2 :: "SCANCODE list list" where
  "scancodes_2 = [
    [sc [0x21] [0xA1], sc [0x2B] [0xF0, 0x2B], sc [0x2B] [0xF0, 0x2B]],
    [sc [0x22] [0xA2], sc [0x34] [0xF0, 0x34], sc [0x34] [0xF0, 0x34]],
    [sc [0x23] [0xA3], sc [0x33] [0xF0, 0x33], sc [0x33] [0xF0, 0x33]],
    [sc [0x17] [0x97], sc [0x43] [0xF0, 0x43], sc [0x43] [0xF0, 0x43]],
    [sc [0x24] [0xA4], sc [0x3B] [0xF0, 0x3B], sc [0x3B] [0xF0, 0x3B]],
    [sc [0x25] [0xA5], sc [0x42] [0xF0, 0x42], sc [0x42] [0xF0, 0x42]],
    [sc [0x26] [0xA6], sc [0x4B] [0xF0, 0x4B], sc [0x4B] [0xF0, 0x4B]],
    [sc [0x32] [0xB2], sc [0x3A] [0xF0, 0x3A], sc [0x3A] [0xF0, 0x3A]],
    [sc [0x31] [0xB1], sc [0x31] [0xF0, 0x31], sc [0x31] [0xF0, 0x31]],
    [sc [0x18] [0x98], sc [0x44] [0xF0, 0x44], sc [0x44] [0xF0, 0x44]],
    [sc [0x19] [0x99], sc [0x4D] [0xF0, 0x4D], sc [0x4D] [0xF0, 0x4D]],
    [sc [0x10] [0x90], sc [0x15] [0xF0, 0x15], sc [0x15] [0xF0, 0x15]],
    [sc [0x13] [0x93], sc [0x2D] [0xF0, 0x2D], sc [0x2D] [0xF0, 0x2D]],
    [sc [0x1F] [0x9F], sc [0x1B] [0xF0, 0x1B], sc [0x1B] [0xF0, 0x1B]],
    [sc [0x14] [0x94], sc [0x2C] [0xF0, 0x2C], sc [0x2C] [0xF0, 0x2C]],
    [sc [0x16] [0x96], sc [0x3C] [0xF0, 0x3C], sc [0x3C] [0xF0, 0x3C]],
    [sc [0x2F] [0xAF], sc [0x2A] [0xF0, 0x2A], sc [0x2A] [0xF0, 0x2A]],
    [sc [0x11] [0x91], sc [0x1D] [0xF0, 0x1D], sc [0x1D] [0xF0, 0x1D]],
    [sc [0x2D] [0xAD], sc [0x22] [0xF0, 0x22], sc [0x22] [0xF0, 0x22]],
    [sc [0x15] [0x95], sc [0x35] [0xF0, 0x35], sc [0x35] [0xF0, 0x35]],
    [sc [0x2C] [0xAC], sc [0x1A] [0xF0, 0x1A], sc [0x1A] [0xF0, 0x1A]],
    [sc [0x0B] [0x8B], sc [0x45] [0xF0, 0x45], sc [0x45] [0xF0, 0x45]],
    [sc [0x02] [0x82], sc [0x16] [0xF0, 0x16], sc [0x16] [0xF0, 0x16]],
    [sc [0x03] [0x83], sc [0x1E] [0xF0, 0x1E], sc [0x1E] [0xF0, 0x1E]],
    [sc [0x04] [0x84], sc [0x26] [0xF0, 0x26], sc [0x26] [0xF0, 0x26]]]"

definition scancodes_3 :: "SCANCODE list list" where
  "scancodes_3 = [
    [sc [0x05] [0x85], sc [0x25] [0xF0, 0x25], sc [0x25] [0xF0, 0x25]],
    [sc [0x06] [0x86], sc [0x2E] [0xF0, 0x2E], sc [0x2E] [0xF0, 0x2E]],
    [sc [0x07] [0x87], sc [0x36] [0xF0, 0x36], sc [0x36] [0xF0, 0x36]],
    [sc [0x08] [0x88], sc [0x3D] [0xF0, 0x3D], sc [0x3D] [0xF0, 0x3D]],
    [sc [0x09] [0x89], sc [0x3E] [0xF0, 0x3E], sc [0x3E] [0xF0, 0x3E]],
    [sc [0x0A] [0x8A], sc [0x46] [0xF0, 0x46], sc [0x46] [0xF0, 0x46]],
    [sc [0x01] [0x81], sc [0x76] [0xF0, 0x76], sc [0x08] [0xF0, 0x08]],
    [sc [0x39] [0xB9], sc [0x29] [0xF0, 0x29], sc [0x29] [0xF0, 0x29]],
    [sc [0x28] [0xA8], sc [0x52] [0xF0, 0x52], sc [0x52] [0xF0, 0x52]],
    [sc [0x33] [0xB3], sc [0x41] [0xF0, 0x41], sc [0x41] [0xF0, 0x41]],
    [sc [0x34] [0xB4], sc [0x49] [0xF0, 0x49], sc [0x49] [0xF0, 0x49]],
    [sc [0x35] [0xB5], sc [0x4A] [0xF0, 0x4A], sc [0x4A] [0xF0, 0x4A]],
    [sc [0x27] [0xA7], sc [0x4C] [0xF0, 0x4C], sc [0x4C] [0xF0, 0x4C]],
    [sc [0x0D] [0x8D], sc [0x55] [0xF0, 0x55], sc [0x55] [0xF0, 0x55]],
    [sc [0x1A] [0x9A], sc [0x54] [0xF0, 0x54], sc [0x54] [0xF0, 0x54]],
    [sc [0x2B] [0xAB], sc [0x5D] [0xF0, 0x5D], sc [0x53] [0xF0, 0x53]],
    [sc [0x1B] [0x9B], sc [0x5B] [0xF0, 0x5B], sc [0x5B] [0xF0, 0x5B]],
    [sc [0x0C] [0x8C], sc [0x4E] [0xF0, 0x4E], sc [0x4E] [0xF0, 0x4E]],
    [sc [0x29] [0xA9], sc [0x0E] [0xF0, 0x0E], sc [0x0E] [0xF0, 0x0E]],
    [sc [0x0E] [0x8E], sc [0x66] [0xF0, 0x66], sc [0x66] [0xF0, 0x66]],
    [sc [0x1C] [0x9C], sc [0x5A] [0xF0, 0x5A], sc [0x5A] [0xF0, 0x5A]],
    [sc [0x0F] [0x8F], sc [0x0D] [0xF0, 0x0D], sc [0x0D] [0xF0, 0x0D]],
    [sc [0x56] [0xD6], sc [0x61] [0xF0, 0x61], sc [0x13] [0xF0, 0x13]],
    [sc [0xE0, 0x2A, 0xE0, 0x37] [0xE0, 0xB7, 0xE0, 0xAA], sc [0xE0, 0x12, 0xE0, 0x7C] [0xE0, 0xF0, 0x7C, 0xE0, 0xF0, 0x12], sc [0x57] [0xF0, 0x57]],
    [sc [0x46] [0xC6], sc [0x7E] [0xF0, 0x7E], sc [0x5F] [0xF0, 0x5F]]]"

definition scancodes_4 :: "SCANCODE list list" where
  "scancodes_4 = [
    [sc [0xE1, 0x1D, 0x45, 0xE1, 0x9D, 0xC5] [], sc [0xE1, 0x14, 0x77, 0xE1, 0xF0, 0x14, 0xF0, 0x77] [], sc [0x62] [0xF0, 0x62]],
    [sc [0xE0, 0x52] [0xE0, 0xD2], sc [0xE0, 0x70] [0xE0, 0xF0, 0x70], sc [0x67] [0xF0, 0x67]],
    [sc [0xE0, 0x53] [0xE0, 0xD3], sc [0xE0, 0x71] [0xE0, 0xF0, 0x71], sc [0x64] [0xF0, 0x64]],
    [sc [0xE0, 0x47] [0xE0, 0xC7], sc [0xE0, 0x6C] [0xE0, 0xF0, 0x6C], sc [0x6E] [0xF0, 0x6E]],
    [sc [0xE0, 0x4F] [0xE0, 0xCF], sc [0xE0, 0x69] [0xE0, 0xF0, 0x69], sc [0x65] [0xF0, 0x65]],
    [sc [0xE0, 0x49] [0xE0, 0xC9], sc [0xE0, 0x7D] [0xE0, 0xF0, 0x7D], sc [0x6F] [0xF0, 0x6F]],
    [sc [0xE0, 0x51] [0xE0, 0xD1], sc [0xE0, 0x7A] [0xE0, 0xF0, 0x7A], sc [0x6D] [0xF0, 0x6D]],
    [sc [0x4E] [0xCE], sc [0x79] [0xF0, 0x79], sc [0x7C] [0xF0, 0x7C]],
    [sc [0x4A] [0xCA], sc [0x7B] [0xF0, 0x7B], sc [0x84] [0xF0, 0x84]],
    [sc [0x4F] [0xCF], sc [0x69] [0xF0, 0x69], sc [0x69] [0xF0, 0x69]],
    [sc [0x50] [0xD0], sc [0x72] [0xF0, 0x72], sc [0x72] [0xF0, 0x72]],
    [sc [0x51] [0xD1], sc [0x7A] [0xF0, 0x7A], sc [0x7A] [0xF0, 0x7A]],
    [sc [0x4B] [0xCB], sc [0x6B] [0xF0, 0x6B], sc [0x6B] [0xF0, 0x6B]],
    [sc [0x4D] [0xCD], sc [0x74] [0xF0, 0x74], sc [0x74] [0xF0, 0x74]],
    [sc [0x47] [0xC7], sc [0x6C] [0xF0, 0x6C], sc [0x6C] [0xF0, 0x6C]],
    [sc [0x48] [0xC8], sc [0x75] [0xF0, 0x75], sc [0x75] [0xF0, 0x75]],
    [sc [0x49] [0xC9], sc [0x7D] [0xF0, 0x7D], sc [0x7D] [0xF0, 0x7D]],
    [sc [0x52] [0xD2], sc [0x70] [0xF0, 0x70], sc [0x70] [0xF0, 0x70]],
    [sc [0x53] [0xD3], sc [0x71] [0xF0, 0x71], sc [0x71] [0xF0, 0x71]],
    [sc [0x4C] [0xCC], sc [0x73] [0xF0, 0x73], sc [0x73] [0xF0, 0x73]],
    [sc [0xE0, 0x48] [0xE0, 0xC8], sc [0xE0, 0x75] [0xE0, 0xF0, 0x75], sc [0x63] [0xF0, 0x63]],
    [sc [0xE0, 0x50] [0xE0, 0xD0], sc [0xE0, 0x72] [0xE0, 0xF0, 0x72], sc [0x60] [0xF0, 0x60]],
    [sc [0xE0, 0x4B] [0xE0, 0xCB], sc [0xE0, 0x6B] [0xE0, 0xF0, 0x6B], sc [0x61] [0xF0, 0x61]],
    [sc [0xE0, 0x4D] [0xE0, 0xCD], sc [0xE0, 0x74] [0xE0, 0xF0, 0x74], sc [0x6A] [0xF0, 0x6A]],
    [sc [0xE0, 0x1C] [0xE0, 0x9C], sc [0xE0, 0x5A] [0xE0, 0xF0, 0x5A], sc [0x79] [0xF0, 0x79]]]"

definition scancodes_5 :: "SCANCODE list list" where
  "scancodes_5 = [
    [sc [0x37] [0xB7], sc [0x7C] [0xF0, 0x7C], sc [0x7E] [0xF0, 0x7E]],
    [sc [0xE0, 0x35] [0xE0, 0xB5], sc [0xE0, 0x4A] [0xE0, 0xF0, 0x4A], sc [0x77] [0xF0, 0x77]],
    [sc [0xE0, 0x5B] [0xE0, 0xDB], sc [0xE0, 0x1F] [0xE0, 0xF0, 0x1F], sc [0x8B] [0xF0, 0x8B]],
    [sc [0xE0, 0x5C] [0xE0, 0xDC], sc [0xE0, 0x27] [0xE0, 0xF0, 0x27], sc [0x8C] [0xF0, 0x8C]],
    [sc [0xE0, 0x5D] [0xE0, 0xDD], sc [0xE0, 0x2F] [0xE0, 0xF0, 0x2F], sc [0x8D] [0xF0, 0x8D]],
    [sc [0x54] [0xD4], sc [0x84] [0xF0, 0x84], sc [0x57] [0xF0, 0x57]],
    [sc [0xE0, 0x46] [0xE0, 0xC6], sc [0xE0, 0x7E] [0xE0, 0xF0, 0x7E], sc [0x62] [0xF0, 0x62]],
    [sc [0xE0, 0x6A] [0xE0, 0xEA], sc [0xE0, 0x38] [0xE0, 0xF0, 0x38], sc [0x38] [0xF0, 0x38]],
    [sc [0xE0, 0x69] [0xE0, 0xE9], sc [0xE0, 0x30] [0xE0, 0xF0, 0x30], sc [0x30] [0xF0, 0x30]],
    [sc [0xE0, 0x68] [0xE0, 0xE8], sc [0xE0, 0x28] [0xE0, 0xF0, 0x28], sc [0x28] [0xF0, 0x28]],
    [sc [0xE0, 0x6C] [0xE0, 0xEC], sc [0xE0, 0x48] [0xE0, 0xF0, 0x48], sc [0x48] [0xF0, 0x48]],
    [sc [0xE0, 0x65] [0xE0, 0xE5], sc [0xE0, 0x10] [0xE0, 0xF0, 0x10], sc [0x10] [0xF0, 0x10]],
    [sc [0xE0, 0x66] [0xE0, 0xE6], sc [0xE0, 0x18] [0xE0, 0xF0, 0x18], sc [0x18] [0xF0, 0x18]],
    [sc [0xE0, 0x32] [0xE0, 0xB2], sc [0xE0, 0x3A] [0xE0, 0xF0, 0x3A], sc [0x97] [0xF0, 0x97]],
    [sc [0xE0, 0x6B] [0xE0, 0xEB], sc [0xE0, 0x40] [0xE0, 0xF0, 0x40], sc [0x40] [0xF0, 0x40]],
    [sc [0xE0, 0x21] [0xE0, 0xA1], sc [0xE0, 0x2B] [0xE0, 0xF0, 0x2B], sc [0x99] [0xF0, 0x99]],
    [sc [0xE0, 0x5F] [0xE0, 0xDF], sc [0xE0, 0x3F] [0xE0, 0xF0, 0x3F], sc [0x7F] [0xF0, 0x7F]],
    [sc [0xE0, 0x5E] [0xE0, 0xDE], sc [0xE0, 0x37] [0xE0, 0xF0, 0x37], sc [] []],
    [sc [0xE0, 0x63] [0xE0, 0xE3], sc [0xE0, 0x5E] [0xE0, 0xF0, 0x5E], sc [] []]]"

definition scancodes :: "SCANCODE list list" where
  "scancodes = scancodes_1 @ scancodes_2 @ scancodes_3 @ scancodes_4 @ scancodes_5"

definition translate8042 :: "BYTE \<Rightarrow> BYTE" where
  "translate8042 b = translation8042 ! unat b"

text \<open>The loop of \<open>Ps2GenerateScancode\<close> that translates a code: 0xF0 marks the next byte as a release.\<close>

fun translate_codes :: "BYTE \<Rightarrow> BYTE list \<Rightarrow> BYTE list" where
  "translate_codes escaped [] = []"
| "translate_codes escaped (b # bs) =
     (if b \<noteq> 0xF0 then (translate8042 b OR escaped) # translate_codes 0x00 bs
      else translate_codes 0x80 bs)"

section \<open>The tables agree\<close>

definition set1_agrees :: "SCANCODE list \<Rightarrow> bool" where
  "set1_agrees k \<longleftrightarrow> length k = 3 \<and> translate_codes 0 (Make (k ! 1)) = Make (k ! 0) \<and>
     translate_codes 0 (Break (k ! 1)) = Break (k ! 0) \<and> length (Make (k ! 0)) \<le> 6"

lemma scancodes_1_agree: "list_all set1_agrees scancodes_1"
  by code_simp

lemma scancodes_2_agree: "list_all set1_agrees scancodes_2"
  by code_simp

lemma scancodes_3_agree: "list_all set1_agrees scancodes_3"
  by code_simp

lemma scancodes_4_agree: "list_all set1_agrees scancodes_4"
  by code_simp

lemma scancodes_5_agree: "list_all set1_agrees scancodes_5"
  by code_simp

lemma scancodes_length: "length scancodes = 119"
  by (simp add: scancodes_def scancodes_1_def scancodes_2_def scancodes_3_def scancodes_4_def scancodes_5_def)

lemma scancodes_agree: "key < 119 \<Longrightarrow> set1_agrees (scancodes ! key)"
  using scancodes_1_agree scancodes_2_agree scancodes_3_agree scancodes_4_agree scancodes_5_agree
  unfolding scancodes_length [symmetric] by (simp add: scancodes_def list_all_length nth_append) 

end
