(* ===== verification/Ps2.thy ===== *)
theory Ps2
  imports Cmos Scancodes
begin

text \<open>
  The PS/2 controller of \<open>ps2.c\<close>: the output buffer with its controller queue, the memories of the
  keyboard and the mouse, the command and data ports, the scancodes of a key, and the timer that
  moves bytes from a memory to the output buffer and raises lines 1 and 12. \<open>memcpy\<close> of an array
  onto itself, one place down, copies upwards here, as the C library of the program does.
\<close>

section \<open>State\<close>

record KEYBOARD =
  KeyboardMemory :: "BYTE list"
  KeyboardMemoryIndex :: BYTE
  KeyboardClockEnabled :: BYTE
  ScanCodeEnabled :: BYTE
  ScanCodeSet :: BYTE
  LedState :: BYTE
  Typematic :: BYTE

record MOUSE =
  MouseMemory :: "BYTE list"
  MouseMemoryIndex :: BYTE
  MouseClockEnabled :: BYTE

record PS2 =
  DataRegister :: BYTE
  CommandRegister :: BYTE
  StatusRegister :: BYTE
  ControllerQueueIndex :: BYTE
  ControllerQueue :: "BYTE list"
  TimerPending :: DWORD
  TimerId :: DWORD
  KeyboardBuffer :: BYTE
  MouseBuffer :: BYTE
  CommandBuffer :: BYTE
  OutputPort :: BYTE
  Keyboard :: KEYBOARD
  Mouse :: MOUSE

record ps2_state = cmos_state +
  Ps2 :: PS2

definition PS2_zero :: PS2 where
  "PS2_zero = \<lparr>DataRegister = 0, CommandRegister = 0, StatusRegister = 0, ControllerQueueIndex = 0,
     ControllerQueue = replicate 5 0, TimerPending = 0, TimerId = 0, KeyboardBuffer = 0, MouseBuffer = 0,
     CommandBuffer = 0, OutputPort = 0,
     Keyboard = \<lparr>KeyboardMemory = replicate 16 0, KeyboardMemoryIndex = 0, KeyboardClockEnabled = 0,
                 ScanCodeEnabled = 0, ScanCodeSet = 0, LedState = 0, Typematic = 0\<rparr>,
     Mouse = \<lparr>MouseMemory = replicate 48 0, MouseMemoryIndex = 0, MouseClockEnabled = 0\<rparr>\<rparr>"

definition ps2_zero :: ps2_state where
  "ps2_zero = cmos_state.extend cmos_zero (ps2_state.fields PS2_zero)"

definition "STATUS_OUTPUT_KB_BUFFER_FULL = (0x01 :: BYTE)"
definition "STATUS_INPUT_BUFFER_FULL = (0x02 :: BYTE)"
definition "STATUS_SYSTEM_TEST = (0x04 :: BYTE)"
definition "STATUS_COMMAND_LAST = (0x08 :: BYTE)"
definition "STATUS_OUTPUT_MS_BUFFER_FULL = (0x20 :: BYTE)"
definition "STATUS_RECEIVE_TIMEOUT_ERROR = (0x40 :: BYTE)"
definition "DATA_KB_INTERRUPT = (0x01 :: BYTE)"
definition "DATA_MS_INTERRUPT = (0x02 :: BYTE)"
definition "DATA_DISABLE_KEYBOARD = (0x10 :: BYTE)"
definition "DATA_DISABLE_MOUSE = (0x20 :: BYTE)"
definition "DATA_SCAN_CODE = (0x40 :: BYTE)"
definition "OUTPUT_PORT_A20 = (0x02 :: BYTE)"

lemmas ps2_bits = STATUS_OUTPUT_KB_BUFFER_FULL_def STATUS_INPUT_BUFFER_FULL_def STATUS_SYSTEM_TEST_def
  STATUS_COMMAND_LAST_def STATUS_OUTPUT_MS_BUFFER_FULL_def STATUS_RECEIVE_TIMEOUT_ERROR_def DATA_KB_INTERRUPT_def
  DATA_MS_INTERRUPT_def DATA_DISABLE_KEYBOARD_def DATA_DISABLE_MOUSE_def DATA_SCAN_CODE_def OUTPUT_PORT_A20_def

datatype ps2_device = KEYBOARD_DEVICE | MOUSE_DEVICE

definition upd_ps2 :: "(PS2 \<Rightarrow> PS2) \<Rightarrow> 'z ps2_state_scheme \<Rightarrow> 'z ps2_state_scheme" where
  "upd_ps2 f s = s\<lparr>Ps2 := f (Ps2 s)\<rparr>"

definition kb_full :: "PS2 \<Rightarrow> bool" where
  "kb_full p \<longleftrightarrow> testw (StatusRegister p) STATUS_OUTPUT_KB_BUFFER_FULL"

definition ms_full :: "PS2 \<Rightarrow> bool" where
  "ms_full p \<longleftrightarrow> testw (StatusRegister p) STATUS_OUTPUT_MS_BUFFER_FULL"

text \<open>\<open>if (!Ps2.TimerPending) Ps2.TimerPending = 1\<close>\<close>

definition ps2_pend :: "PS2 \<Rightarrow> PS2" where
  "ps2_pend p = (if TimerPending p = 0 then p\<lparr>TimerPending := 1\<rparr> else p)"

text \<open>\<open>memcpy(a, a + 1, n)\<close>\<close>

definition shift_down :: "BYTE list \<Rightarrow> nat \<Rightarrow> BYTE list res" where
  "shift_down a n = (if Suc n \<le> length a \<or> n = 0 then Inr (take n (drop 1 a) @ drop n a) else Inl OutOfBounds)"

section \<open>Clocks\<close>

definition Ps2EnableMouseClock :: "'z ps2_state_scheme \<Rightarrow> bool \<Rightarrow> 'z ps2_state_scheme res" where
  "Ps2EnableMouseClock s enable =
     (if \<not> enable then Inr (upd_ps2 (\<lambda>p. p\<lparr>Mouse := (Mouse p)\<lparr>MouseClockEnabled := 0\<rparr>\<rparr>) s)
      else bindE (if \<not> kb_full (Ps2 s) \<and> MouseClockEnabled (Mouse (Ps2 s)) = 0
                  then let s = upd_ps2 ps2_pend s
                       in TimerActivate s (TimerId (Ps2 s)) (TimerGetClockNs s + 1000000 * 10) 1
                  else Inr s) (\<lambda>s.
           Inr (upd_ps2 (\<lambda>p. p\<lparr>Mouse := (Mouse p)\<lparr>MouseClockEnabled := 1\<rparr>\<rparr>) s)))"

definition Ps2EnableKeyboardClock :: "'z ps2_state_scheme \<Rightarrow> bool \<Rightarrow> 'z ps2_state_scheme" where
  "Ps2EnableKeyboardClock s enable =
     (if enable
      then upd_ps2 (\<lambda>p. let p = (if \<not> kb_full p \<and> KeyboardClockEnabled (Keyboard p) = 0 then ps2_pend p else p)
                        in p\<lparr>Keyboard := (Keyboard p)\<lparr>KeyboardClockEnabled := 1\<rparr>\<rparr>) s
      else upd_ps2 (\<lambda>p. p\<lparr>Keyboard := (Keyboard p)\<lparr>KeyboardClockEnabled := 0\<rparr>\<rparr>) s)"

section \<open>The output buffer\<close>

definition Ps2QueueByte :: "BYTE \<Rightarrow> ps2_device \<Rightarrow> 'z ps2_state_scheme \<Rightarrow> 'z ps2_state_scheme res" where
  "Ps2QueueByte data device s =
     (let p = Ps2 s
      in if kb_full p
         then if ControllerQueueIndex p \<ge> 5 then Inl Exit
              else bindE (arr_set (ControllerQueue p) (unat (ControllerQueueIndex p)) data) (\<lambda>q.
                   Inr (upd_ps2 (\<lambda>p. p\<lparr>ControllerQueue := q, ControllerQueueIndex := ControllerQueueIndex p + 1\<rparr>) s))
         else case device of
           KEYBOARD_DEVICE \<Rightarrow> Inr (upd_ps2 (\<lambda>p. p\<lparr>
               StatusRegister := (StatusRegister p OR STATUS_OUTPUT_KB_BUFFER_FULL) AND
                 NOT (STATUS_INPUT_BUFFER_FULL OR STATUS_OUTPUT_MS_BUFFER_FULL),
               KeyboardBuffer := data, DataRegister := DataRegister p OR DATA_KB_INTERRUPT\<rparr>) s)
         | MOUSE_DEVICE \<Rightarrow> Inr (upd_ps2 (\<lambda>p. p\<lparr>
               StatusRegister := (StatusRegister p OR (STATUS_OUTPUT_KB_BUFFER_FULL OR STATUS_OUTPUT_MS_BUFFER_FULL)) AND
                 NOT STATUS_INPUT_BUFFER_FULL,
               MouseBuffer := data, DataRegister := DataRegister p OR DATA_MS_INTERRUPT\<rparr>) s))"

text \<open>Take the next byte of the controller queue, if there is one, with \<open>deliver\<close>.\<close>

definition ps2_refill :: "(BYTE \<Rightarrow> PS2 \<Rightarrow> PS2) \<Rightarrow> PS2 \<Rightarrow> PS2 res" where
  "ps2_refill deliver p =
     (if ControllerQueueIndex p \<noteq> 0
      then bindE (arr_get (ControllerQueue p) 0) (\<lambda>b.
           let p = deliver b p; n = ControllerQueueIndex p - 1
           in bindE (shift_down (ControllerQueue p) (unat n)) (\<lambda>q.
              Inr (p\<lparr>ControllerQueue := q, ControllerQueueIndex := n\<rparr>)))
      else Inr p)"

definition ps2_to_mouse :: "BYTE \<Rightarrow> PS2 \<Rightarrow> PS2" where
  "ps2_to_mouse b p = p\<lparr>MouseBuffer := b,
     StatusRegister := StatusRegister p OR (STATUS_OUTPUT_KB_BUFFER_FULL OR STATUS_OUTPUT_MS_BUFFER_FULL),
     DataRegister := DataRegister p OR DATA_MS_INTERRUPT\<rparr>"

definition ps2_to_keyboard :: "BYTE \<Rightarrow> PS2 \<Rightarrow> PS2" where
  "ps2_to_keyboard b p = p\<lparr>KeyboardBuffer := b,
     StatusRegister := StatusRegister p OR STATUS_OUTPUT_KB_BUFFER_FULL,
     DataRegister := DataRegister p OR DATA_KB_INTERRUPT\<rparr>"

definition ps2_read_data :: "'z ps2_state_scheme \<Rightarrow> (ULONG \<times> 'z ps2_state_scheme) res" where
  "ps2_read_data s =
     (let p = Ps2 s;
          flags = STATUS_OUTPUT_MS_BUFFER_FULL OR STATUS_OUTPUT_KB_BUFFER_FULL OR STATUS_INPUT_BUFFER_FULL
      in if ms_full p
         then bindE (ps2_refill ps2_to_mouse (p\<lparr>StatusRegister := StatusRegister p AND NOT flags,
                        DataRegister := DataRegister p AND NOT DATA_MS_INTERRUPT, MouseBuffer := 0\<rparr>)) (\<lambda>q.
              let s = PicLowerIrq (s\<lparr>Ps2 := q\<rparr>) 12
              in Inr (ucast (MouseBuffer p), upd_ps2 ps2_pend s))
         else if kb_full p
         then bindE (ps2_refill ps2_to_keyboard (p\<lparr>StatusRegister := StatusRegister p AND NOT flags,
                        DataRegister := DataRegister p AND NOT DATA_KB_INTERRUPT, KeyboardBuffer := 0\<rparr>)) (\<lambda>q.
              let s = PicLowerIrq (s\<lparr>Ps2 := q\<rparr>) 1
              in Inr (ucast (KeyboardBuffer p), upd_ps2 ps2_pend s))
         else Inr (ucast (KeyboardBuffer p), s))"

definition Ps2PortIoReadHandler :: "'z ps2_state_scheme \<Rightarrow> ULONG \<Rightarrow> (ULONG \<times> 'z ps2_state_scheme) res" where
  "Ps2PortIoReadHandler s addr =
     (if addr AND 0xff = 0x60 then ps2_read_data s
      else if addr AND 0xff = 0x64
      then Inr (ucast (StatusRegister (Ps2 s)),
                upd_ps2 (\<lambda>p. p\<lparr>StatusRegister := StatusRegister p AND NOT STATUS_RECEIVE_TIMEOUT_ERROR\<rparr>) s)
      else Inr (0, s))"

section \<open>Mouse and keyboard memories\<close>

text \<open>Ask for the timer when the output buffer is free and the keyboard clock runs.\<close>

definition ps2_want_timer :: "PS2 \<Rightarrow> PS2" where
  "ps2_want_timer p =
     (if \<not> kb_full p \<and> KeyboardClockEnabled (Keyboard p) \<noteq> 0 \<and> TimerPending p = 0
      then p\<lparr>TimerPending := 1\<rparr> else p)"

definition Ps2WriteMouseMemory :: "BYTE \<Rightarrow> 'z ps2_state_scheme \<Rightarrow> 'z ps2_state_scheme res" where
  "Ps2WriteMouseMemory code s =
     (let m = Mouse (Ps2 s)
      in if 48 \<le> MouseMemoryIndex m then Inl Exit
         else bindE (arr_set (MouseMemory m) (unat (MouseMemoryIndex m)) code) (\<lambda>a.
              Inr (upd_ps2 (\<lambda>p. ps2_want_timer (p\<lparr>Mouse := m\<lparr>MouseMemory := a,
                     MouseMemoryIndex := MouseMemoryIndex m + 1\<rparr>\<rparr>)) s)))"

definition Ps2ReadMouse :: "'z ps2_state_scheme \<Rightarrow> (BYTE \<times> 'z ps2_state_scheme) res" where
  "Ps2ReadMouse s =
     (let m = Mouse (Ps2 s)
      in if 48 \<le> MouseMemoryIndex m \<or> MouseMemoryIndex m = 0 then Inl Exit
         else bindE (arr_get (MouseMemory m) 0) (\<lambda>b.
              bindE (shift_down (MouseMemory m) (unat (MouseMemoryIndex m - 1))) (\<lambda>a.
              Inr (b, upd_ps2 (\<lambda>p. p\<lparr>Mouse := m\<lparr>MouseMemory := a, MouseMemoryIndex := MouseMemoryIndex m - 1\<rparr>\<rparr>) s))))"

definition Ps2SendMouse :: "BYTE \<Rightarrow> 'z ps2_state_scheme \<Rightarrow> 'z ps2_state_scheme" where
  "Ps2SendMouse value s = s"

definition Ps2ReadKeyboardMemory :: "'z ps2_state_scheme \<Rightarrow> (BYTE \<times> 'z ps2_state_scheme) res" where
  "Ps2ReadKeyboardMemory s =
     (let k = Keyboard (Ps2 s)
      in if KeyboardMemoryIndex k = 0 then Inl Exit
         else bindE (arr_get (KeyboardMemory k) 0) (\<lambda>b.
              bindE (shift_down (KeyboardMemory k) (unat (KeyboardMemoryIndex k - 1))) (\<lambda>a.
              Inr (b, upd_ps2 (\<lambda>p. p\<lparr>Keyboard := k\<lparr>KeyboardMemory := a,
                     KeyboardMemoryIndex := KeyboardMemoryIndex k - 1\<rparr>\<rparr>) s))))"

definition Ps2WriteKeyboardMemory :: "BYTE \<Rightarrow> 'z ps2_state_scheme \<Rightarrow> 'z ps2_state_scheme res" where
  "Ps2WriteKeyboardMemory code s =
     (let k = Keyboard (Ps2 s)
      in if 16 \<le> KeyboardMemoryIndex k then Inr s
         else bindE (arr_set (KeyboardMemory k) (unat (KeyboardMemoryIndex k)) code) (\<lambda>a.
              Inr (upd_ps2 (\<lambda>p. ps2_want_timer (p\<lparr>Keyboard := k\<lparr>KeyboardMemory := a,
                     KeyboardMemoryIndex := KeyboardMemoryIndex k + 1\<rparr>\<rparr>)) s)))"

definition Ps2KeyboardReset :: "'z ps2_state_scheme \<Rightarrow> 'z ps2_state_scheme" where
  "Ps2KeyboardReset s = upd_ps2 (\<lambda>p. p\<lparr>
     Keyboard := (Keyboard p)\<lparr>KeyboardMemory := replicate 16 0, KeyboardMemoryIndex := 0, Typematic := 0,
                              ScanCodeEnabled := 0, ScanCodeSet := 1, LedState := 0\<rparr>,
     StatusRegister := StatusRegister p AND NOT STATUS_OUTPUT_KB_BUFFER_FULL\<rparr>) s"

section \<open>Commands to the keyboard\<close>

definition KBD_REPLY_ACK :: BYTE where "KBD_REPLY_ACK = 0xFA"
definition KBD_REPLY_POR :: BYTE where "KBD_REPLY_POR = 0xAA"
definition KBD_REPLY_ID :: BYTE where "KBD_REPLY_ID = 0xAB"
definition KBD_REPLY_RESEND :: BYTE where "KBD_REPLY_RESEND = 0xFE"

definition ps2_reply :: "BYTE list \<Rightarrow> 'z ps2_state_scheme \<Rightarrow> 'z ps2_state_scheme res" where
  "ps2_reply bs s = foldE Ps2WriteKeyboardMemory bs s"

definition ps2_select_set :: "BYTE \<Rightarrow> 'z ps2_state_scheme \<Rightarrow> 'z ps2_state_scheme res" where
  "ps2_select_set value s =
     (let s = upd_ps2 (\<lambda>p. p\<lparr>Keyboard := (Keyboard p)\<lparr>ScanCodeEnabled := 0\<rparr>\<rparr>) s
      in if value \<noteq> 0
         then if value < 4
              then ps2_reply [KBD_REPLY_ACK] (upd_ps2 (\<lambda>p. p\<lparr>Keyboard := (Keyboard p)\<lparr>ScanCodeSet := value - 1\<rparr>\<rparr>) s)
              else ps2_reply [0xFF] s
         else ps2_reply [KBD_REPLY_ACK, 1 + ScanCodeSet (Keyboard (Ps2 s))] s)"

definition Ps2SendKeyboard :: "BYTE \<Rightarrow> 'z ps2_state_scheme \<Rightarrow> 'z ps2_state_scheme res" where
  "Ps2SendKeyboard value s =
     (if ScanCodeEnabled (Keyboard (Ps2 s)) \<noteq> 0 then ps2_select_set value s
      else if value = 0x05 then Inr s
      else if value = 0xED then Ps2QueueByte KBD_REPLY_ACK KEYBOARD_DEVICE s
      else if value = 0xEE then ps2_reply [0xEE] s
      else if value = 0xF0
      then ps2_reply [KBD_REPLY_ACK] (upd_ps2 (\<lambda>p. p\<lparr>Keyboard := (Keyboard p)\<lparr>ScanCodeEnabled := 1\<rparr>\<rparr>) s)
      else if value = 0xF2
      then ps2_reply [KBD_REPLY_ACK, KBD_REPLY_ID, if testw (DataRegister (Ps2 s)) DATA_SCAN_CODE then 0x41 else 0x83] s
      else if value = 0xF3 \<or> value = 0xF4 then ps2_reply [KBD_REPLY_ACK] s
      else if value = 0xF5 \<or> value = 0xF6 then ps2_reply [KBD_REPLY_ACK] (Ps2KeyboardReset s)
      else if value = 0xFF then ps2_reply [KBD_REPLY_ACK, KBD_REPLY_POR] (Ps2KeyboardReset s)
      else if value = 0xD3 then ps2_reply [KBD_REPLY_ACK] s
      else ps2_reply [KBD_REPLY_RESEND] s)"

section \<open>Ports\<close>

definition ps2_write_data :: "BYTE \<Rightarrow> 'z ps2_state_scheme \<Rightarrow> 'z ps2_state_scheme res" where
  "ps2_write_data value s =
     (let cmd = CommandBuffer (Ps2 s)
      in if testw (StatusRegister (Ps2 s)) STATUS_COMMAND_LAST
         then if cmd = 0x60
              then let s = upd_ps2 (\<lambda>p. p\<lparr>DataRegister := value\<rparr>) s;
                       s = Ps2EnableKeyboardClock s (\<not> testw (DataRegister (Ps2 s)) DATA_DISABLE_KEYBOARD)
                   in Ps2EnableMouseClock s (\<not> testw (DataRegister (Ps2 s)) DATA_DISABLE_MOUSE)
              else if cmd = 0xD2 then Ps2QueueByte value KEYBOARD_DEVICE s
              else if cmd = 0xD3 then Ps2QueueByte value MOUSE_DEVICE s
              else if cmd = 0xD1 then Inr (upd_ps2 (\<lambda>p. p\<lparr>OutputPort := value\<rparr>) s)
              else if cmd = 0xD4 then Inr (Ps2SendMouse value s)
              else Inr s
         else Ps2SendKeyboard value s)"

definition ps2_test_controller :: "'z ps2_state_scheme \<Rightarrow> 'z ps2_state_scheme res" where
  "ps2_test_controller s =
     (let s = (if \<not> testw (StatusRegister (Ps2 s)) STATUS_SYSTEM_TEST
               then upd_ps2 (\<lambda>p. p\<lparr>StatusRegister := StatusRegister p AND NOT STATUS_OUTPUT_KB_BUFFER_FULL,
                                   ControllerQueueIndex := 0\<rparr>) s
               else s)
      in if kb_full (Ps2 s) then Inr s
         else Ps2QueueByte 0x55 KEYBOARD_DEVICE
                (upd_ps2 (\<lambda>p. p\<lparr>StatusRegister := StatusRegister p OR STATUS_SYSTEM_TEST\<rparr>) s))"

definition ps2_write_command :: "BYTE \<Rightarrow> 'z ps2_state_scheme \<Rightarrow> 'z ps2_state_scheme res" where
  "ps2_write_command value s =
     (if value = 0x20 then Ps2QueueByte (OutputPort (Ps2 s)) KEYBOARD_DEVICE s
      else if value = 0xD0 then Ps2QueueByte 0x55 KEYBOARD_DEVICE s
      else if value \<in> {0x60, 0xD1, 0xD4, 0xD2, 0xD3}
      then Inr (upd_ps2 (\<lambda>p. p\<lparr>StatusRegister := StatusRegister p OR STATUS_COMMAND_LAST, CommandBuffer := value\<rparr>) s)
      else if value = 0xA7 then Ps2EnableMouseClock s False
      else if value = 0xA8 then Ps2EnableMouseClock s True
      else if value = 0xA9 then if kb_full (Ps2 s) then Inl Exit else Ps2QueueByte 0x00 MOUSE_DEVICE s
      else if value = 0xAA then ps2_test_controller s
      else if value = 0xAB then if kb_full (Ps2 s) then Inl Exit else Ps2QueueByte 0x00 KEYBOARD_DEVICE s
      else if value = 0xAD then Inr (Ps2EnableKeyboardClock s False)
      else if value = 0xAE then Inr (Ps2EnableKeyboardClock s True)
      else if value = 0xC0 then Ps2QueueByte 0x80 KEYBOARD_DEVICE s
      else if value = 0xCA then Ps2QueueByte 0x1 KEYBOARD_DEVICE s
      else if value = 0xDD then Inr (upd_ps2 (\<lambda>p. p\<lparr>OutputPort := OutputPort p AND NOT OUTPUT_PORT_A20\<rparr>) s)
      else if value = 0xDF then Inr (upd_ps2 (\<lambda>p. p\<lparr>OutputPort := OutputPort p OR OUTPUT_PORT_A20\<rparr>) s)
      else Inr s)"

definition Ps2PortIoWriteHandler :: "'z ps2_state_scheme \<Rightarrow> ULONG \<Rightarrow> ULONG \<Rightarrow> 'z ps2_state_scheme res" where
  "Ps2PortIoWriteHandler s addr val =
     (let value = ucast (val AND 0xff) :: BYTE
      in if addr AND 0xff = 0x60
         then bindE (ps2_write_data value s) (\<lambda>s.
              Inr (upd_ps2 (\<lambda>p. p\<lparr>CommandBuffer := 0, StatusRegister := StatusRegister p AND NOT STATUS_COMMAND_LAST\<rparr>) s))
         else if addr AND 0xff = 0x64 then ps2_write_command value s
         else Inr s)"

section \<open>Keys\<close>

definition BX_KEY_RELEASED :: ULONG where "BX_KEY_RELEASED = 0x80000000"

fun ps2_send_translated :: "BYTE \<Rightarrow> BYTE list \<Rightarrow> 'z ps2_state_scheme \<Rightarrow> 'z ps2_state_scheme res" where
  "ps2_send_translated escaped [] s = Inr s"
| "ps2_send_translated escaped (b # bs) s =
     (if b \<noteq> 0xF0
      then bindE (Ps2WriteKeyboardMemory (translate8042 b OR escaped) s) (ps2_send_translated 0x00 bs)
      else ps2_send_translated 0x80 bs s)"

definition Ps2GenerateScancode :: "ULONG \<Rightarrow> 'z ps2_state_scheme \<Rightarrow> 'z ps2_state_scheme res" where
  "Ps2GenerateScancode key s =
     (if key \<ge> 119 then Inr s
      else bindE (arr_get scancodes (unat key)) (\<lambda>sets.
           bindE (arr_get sets (unat (ScanCodeSet (Keyboard (Ps2 s))))) (\<lambda>code.
           let bytes = (if testw key BX_KEY_RELEASED then Break code else Make code)
           in if testw (DataRegister (Ps2 s)) DATA_SCAN_CODE then ps2_send_translated 0x00 bytes s
              else foldE Ps2WriteKeyboardMemory bytes s)))"

section \<open>The timer\<close>

definition Ps2TimerPeriodic :: "DWORD \<Rightarrow> 'z ps2_state_scheme \<Rightarrow> (BYTE \<times> 'z ps2_state_scheme) res" where
  "Ps2TimerPeriodic Seconds s =
     (let ints = DATA_MS_INTERRUPT OR DATA_KB_INTERRUPT;
          ret = DataRegister (Ps2 s) AND ints;
          s = upd_ps2 (\<lambda>p. p\<lparr>DataRegister := DataRegister p AND NOT ints\<rparr>) s;
          pending = TimerPending (Ps2 s)
      in if pending = 0 then Inr (ret, s)
         else if \<not> Seconds \<ge> pending then Inr (ret, upd_ps2 (\<lambda>p. p\<lparr>TimerPending := TimerPending p - Seconds\<rparr>) s)
         else let s = upd_ps2 (\<lambda>p. p\<lparr>TimerPending := 0\<rparr>) s
         in if kb_full (Ps2 s) then Inr (ret, s)
         else if KeyboardMemoryIndex (Keyboard (Ps2 s)) \<noteq> 0 \<and> KeyboardClockEnabled (Keyboard (Ps2 s)) \<noteq> 0
         then bindE (Ps2ReadKeyboardMemory s) (\<lambda>(b, s). Inr (ret, upd_ps2 (ps2_to_keyboard b) s))
         else if MouseMemoryIndex (Mouse (Ps2 s)) \<noteq> 0 \<and> MouseClockEnabled (Mouse (Ps2 s)) \<noteq> 0
         then bindE (Ps2ReadMouse s) (\<lambda>(b, s). Inr (ret, upd_ps2 (ps2_to_mouse b) s))
         else Inr (ret, s))"

definition Ps2TimerHandler :: "env \<Rightarrow> 'z ps2_state_scheme \<Rightarrow> 'z ps2_state_scheme res" where
  "Ps2TimerHandler env s =
     bindE (Ps2TimerPeriodic 1 s) (\<lambda>(ret, s).
     bindE (if testw ret DATA_KB_INTERRUPT then PicRaiseIrq env s 1 else Inr s) (\<lambda>s.
     if testw ret DATA_MS_INTERRUPT then PicRaiseIrq env s 12 else Inr s))"

definition Ps2Initialize :: "env \<Rightarrow> 'z ps2_state_scheme \<Rightarrow> 'z ps2_state_scheme res" where
  "Ps2Initialize env s =
     bindE (foldE (\<lambda>a s. RegisterPortIoHandler env s a (Some Ps2Port) (Some Ps2Port)) [0x60, 0x64]
              (s\<lparr>Ps2 := PS2_zero\<rparr>)) (\<lambda>s.
     bindE (TimerRegister s (TICK_PERIOD * 10) Ps2TimerFn 0) (\<lambda>(_, s).
     Inr (CmosSetRegister s REG_EQUIPMENT_BYTE (CmosGetRegister s REG_EQUIPMENT_BYTE OR 0x04))))"

section \<open>Well-formedness\<close>

definition PS2_ok :: "PS2 \<Rightarrow> bool" where
  "PS2_ok p \<longleftrightarrow> unat (TimerId p) < 32 \<and>
     length (ControllerQueue p) = 5 \<and> unat (ControllerQueueIndex p) \<le> 5 \<and>
     length (KeyboardMemory (Keyboard p)) = 16 \<and> unat (KeyboardMemoryIndex (Keyboard p)) \<le> 16 \<and>
     unat (ScanCodeSet (Keyboard p)) < 3 \<and>
     length (MouseMemory (Mouse p)) = 48 \<and> unat (MouseMemoryIndex (Mouse p)) \<le> 48"

definition ps2_ok :: "'z ps2_state_scheme \<Rightarrow> bool" where
  "ps2_ok s \<longleftrightarrow> wf_timers s \<and> PS2_ok (Ps2 s)"

lemma upd_ps2_simps [simp]:
  "Ps2 (upd_ps2 f s) = f (Ps2 s)" "Timers (upd_ps2 f s) = Timers s" "wf_timers (upd_ps2 f s) = wf_timers s"
  "upd_ps2 f (upd_ps2 g s) = upd_ps2 (\<lambda>p. f (g p)) s"
  by (simp_all add: upd_ps2_def wf_timers_def)

lemma ps2_ok_upd: "ps2_ok s \<Longrightarrow> PS2_ok (f (Ps2 s)) \<Longrightarrow> ps2_ok (upd_ps2 f s)"
  by (simp add: ps2_ok_def)

lemma ps2_pend_simps [simp]: "PS2_ok (ps2_pend p) = PS2_ok p" "PS2_ok (ps2_want_timer p) = PS2_ok p"
  by (simp_all add: ps2_pend_def ps2_want_timer_def PS2_ok_def)

lemma pic_only_ps2: "pic_only s t \<Longrightarrow> Ps2 t = Ps2 s" "pic_only s t \<Longrightarrow> ps2_ok t = ps2_ok s"
  by (auto elim!: pic_onlyE simp: ps2_ok_def wf_timers_def)

lemma BYTE_succ: "unat v < 255 \<Longrightarrow> unat (v + 1 :: BYTE) = unat v + 1"
  by (simp add: unat_word_ariths)

lemma BYTE_pred: "v \<noteq> 0 \<Longrightarrow> unat (v - 1 :: BYTE) = unat v - 1"
  by (rule unat_minus_one)

lemma shift_down_eq:
  assumes "0 < n" and "n \<le> length a"
  shows "\<exists>c. shift_down a (n - 1) = Inr c \<and> length c = length a \<and> take (n - 1) c = tl (take n a)"
proof -
  let ?c = "take (n - 1) (drop 1 a) @ drop (n - 1) a"
  have "shift_down a (n - 1) = Inr ?c" using assms by (simp add: shift_down_def)
  moreover have "length ?c = length a" using assms by simp
  moreover have "take (n - 1) ?c = tl (take n a)"
    using assms by (cases a) (auto simp: take_Cons' take_tl)
  ultimately show ?thesis by blast
qed

section \<open>First-in first-out queues\<close>

fun drainE :: "('s \<Rightarrow> ('b \<times> 's) res) \<Rightarrow> nat \<Rightarrow> 's \<Rightarrow> ('b list \<times> 's) res" where
  "drainE pop 0 s = Inr ([], s)"
| "drainE pop (Suc n) s = bindE (pop s) (\<lambda>(b, s). bindE (drainE pop n s) (\<lambda>(bs, s). Inr (b # bs, s)))"

text \<open>
  The contract of a bounded queue: \<open>contents\<close> is its abstract value, a push with room appends, a
  pop takes the first element or ends with an error of \<open>E\<close>.
\<close>

locale fifo =
  fixes contents :: "'s \<Rightarrow> 'b list"
    and push :: "'b \<Rightarrow> 's \<Rightarrow> 's res"
    and pop :: "'s \<Rightarrow> ('b \<times> 's) res"
    and cap :: nat
    and inv :: "'s \<Rightarrow> bool"
    and E :: "svmm_error set"
  assumes push_ok: "inv s \<Longrightarrow> length (contents s) < cap \<Longrightarrow>
      specE {} (\<lambda>t. inv t \<and> contents t = contents s @ [b]) (push b s)"
    and pop_ok: "inv s \<Longrightarrow> contents s = b # bs \<Longrightarrow>
      specE E (\<lambda>(c, t). c = b \<and> inv t \<and> contents t = bs) (pop s)"
begin

lemma push_list:
  "inv s \<Longrightarrow> length (contents s) + length bs \<le> cap \<Longrightarrow>
   specE {} (\<lambda>t. inv t \<and> contents t = contents s @ bs) (foldE push bs s)"
proof (induction bs arbitrary: s)
  case Nil
  then show ?case by simp
next
  case (Cons b bs)
  have "specE {} (\<lambda>t. inv t \<and> contents t = contents s @ [b]) (push b s)"
    by (rule push_ok) (use Cons.prems in auto)
  then show ?case unfolding foldE.simps
  proof (rule specE_bindI, elim conjE)
    fix t assume t: "inv t" "contents t = contents s @ [b]"
    show "specE {} (\<lambda>t. inv t \<and> contents t = contents s @ b # bs) (foldE push bs t)"
      by (rule specE_mono [OF Cons.IH [OF t(1)]]) (use t Cons.prems in auto)
  qed
qed

lemma drain:
  "inv s \<Longrightarrow> specE E (\<lambda>(cs, t). cs = contents s \<and> inv t \<and> contents t = []) (drainE pop (length (contents s)) s)"
proof (induction "contents s" arbitrary: s)
  case Nil
  then show ?case by (simp flip: Nil.hyps)
next
  case (Cons b bs)
  have first: "specE E (\<lambda>(c, t). c = b \<and> inv t \<and> contents t = bs) (pop s)"
    by (rule pop_ok [OF Cons.prems Cons.hyps(2) [symmetric]])
  have rest: "specE E (\<lambda>(cs, u). cs = bs \<and> inv u \<and> contents u = []) (drainE pop (length bs) t)"
    if "inv t" "contents t = bs" for t using Cons.hyps(1) [of t] that by simp
  show ?case unfolding Cons.hyps(2) [symmetric] length_Cons drainE.simps
  proof (rule specE_bindI [OF first])
    fix x assume "case x of (c, t) \<Rightarrow> c = b \<and> inv t \<and> contents t = bs"
    then obtain t where x: "x = (b, t)" "inv t" "contents t = bs" by (cases x) auto
    show "specE E (\<lambda>(cs, t). cs = b # bs \<and> inv t \<and> contents t = [])
        (case x of (b, s) \<Rightarrow> bindE (drainE pop (length bs) s) (\<lambda>(bs, s). Inr (b # bs, s)))"
      unfolding x(1) prod.case by (rule specE_bindI [OF rest [OF x(2,3)]]) auto
  qed
qed

lemma push_drain:
  assumes "inv s" and "contents s = []" and "length bs \<le> cap"
  shows "specE E (\<lambda>(cs, t). cs = bs \<and> inv t \<and> contents t = []) (bindE (foldE push bs s) (drainE pop (length bs)))"
proof (rule specE_bindI [OF specE_total_any [OF push_list]])
  fix t assume "inv t \<and> contents t = contents s @ bs"
  then have "inv t" "contents t = bs" using assms(2) by auto
  then show "specE E (\<lambda>(cs, t). cs = bs \<and> inv t \<and> contents t = []) (drainE pop (length bs) t)"
    using drain [of t] by simp
qed (use assms in auto)

end

text \<open>The three queues of the controller refine the contract.\<close>

definition keyboard_contents :: "'z ps2_state_scheme \<Rightarrow> BYTE list" where
  "keyboard_contents s = take (unat (KeyboardMemoryIndex (Keyboard (Ps2 s)))) (KeyboardMemory (Keyboard (Ps2 s)))"

definition mouse_contents :: "'z ps2_state_scheme \<Rightarrow> BYTE list" where
  "mouse_contents s = take (unat (MouseMemoryIndex (Mouse (Ps2 s)))) (MouseMemory (Mouse (Ps2 s)))"

text \<open>The output buffer followed by the controller queue, while the buffer holds a keyboard byte.\<close>

definition output_contents :: "'z ps2_state_scheme \<Rightarrow> BYTE list" where
  "output_contents s = (if kb_full (Ps2 s)
     then KeyboardBuffer (Ps2 s) # take (unat (ControllerQueueIndex (Ps2 s))) (ControllerQueue (Ps2 s)) else [])"

definition output_ok :: "'z ps2_state_scheme \<Rightarrow> bool" where
  "output_ok s \<longleftrightarrow> ps2_ok s \<and> \<not> ms_full (Ps2 s) \<and> (kb_full (Ps2 s) \<or> ControllerQueueIndex (Ps2 s) = 0)"

definition mouse_ok :: "'z ps2_state_scheme \<Rightarrow> bool" where
  "mouse_ok s \<longleftrightarrow> ps2_ok s \<and> unat (MouseMemoryIndex (Mouse (Ps2 s))) < 48"

text \<open>Reading the data port as a byte.\<close>

definition ps2_pop :: "'z ps2_state_scheme \<Rightarrow> (BYTE \<times> 'z ps2_state_scheme) res" where
  "ps2_pop s = bindE (Ps2PortIoReadHandler s 0x60) (\<lambda>(v, s). Inr (ucast v, s))"

lemma take_snoc: "n < length a \<Longrightarrow> take (Suc n) (a[n := b]) = take n a @ [b]"
  by (simp add: take_Suc_conv_app_nth)

lemma take_ConsD: "take n a = b # bs \<Longrightarrow> 0 < n \<and> a ! 0 = b \<and> tl (take n a) = bs"
  by (cases n; cases a) auto

lemma keyboard_push:
  assumes "ps2_ok s" and "length (keyboard_contents s) < 16"
  shows "specE {} (\<lambda>t. ps2_ok t \<and> keyboard_contents t = keyboard_contents s @ [b]) (Ps2WriteKeyboardMemory b s)"
proof -
  let ?k = "Keyboard (Ps2 s)"
  have i: "unat (KeyboardMemoryIndex ?k) < 16" "length (KeyboardMemory ?k) = 16"
    using assms by (auto simp: keyboard_contents_def ps2_ok_def PS2_ok_def)
  then have "\<not> 16 \<le> KeyboardMemoryIndex ?k" "unat (KeyboardMemoryIndex ?k + 1) = Suc (unat (KeyboardMemoryIndex ?k))"
    by (simp_all add: word_le_nat_alt BYTE_succ)
  then show ?thesis using assms i
    by (auto simp: Ps2WriteKeyboardMemory_def Let_def keyboard_contents_def ps2_ok_def ps2_want_timer_def PS2_ok_def take_snoc)
qed

lemma keyboard_pop:
  assumes "ps2_ok s" and "keyboard_contents s = b # bs"
  shows "specE {} (\<lambda>(c, t). c = b \<and> ps2_ok t \<and> keyboard_contents t = bs) (Ps2ReadKeyboardMemory s)"
proof -
  let ?k = "Keyboard (Ps2 s)" and ?n = "unat (KeyboardMemoryIndex (Keyboard (Ps2 s)))"
  have n: "0 < ?n" "KeyboardMemory ?k ! 0 = b" "tl (take ?n (KeyboardMemory ?k)) = bs"
    using take_ConsD [of ?n "KeyboardMemory ?k" b bs] assms(2) by (auto simp: keyboard_contents_def)
  have le: "?n \<le> length (KeyboardMemory ?k)" using assms(1) by (simp add: ps2_ok_def PS2_ok_def)
  have nz: "KeyboardMemoryIndex ?k \<noteq> 0" using n(1) by auto
  obtain c where c: "shift_down (KeyboardMemory ?k) (?n - 1) = Inr c" "length c = length (KeyboardMemory ?k)"
      "take (?n - 1) c = bs"
    using shift_down_eq [OF n(1) le] n(3) by auto
  show ?thesis using assms(1) n(1,2) le c nz
    by (auto simp: Ps2ReadKeyboardMemory_def Let_def BYTE_pred keyboard_contents_def ps2_ok_def PS2_ok_def)
qed

interpretation kbm: fifo keyboard_contents Ps2WriteKeyboardMemory Ps2ReadKeyboardMemory 16 ps2_ok "{}"
  by unfold_locales (simp_all add: keyboard_push keyboard_pop)

lemma mouse_push:
  assumes "mouse_ok s" and "length (mouse_contents s) < 47"
  shows "specE {} (\<lambda>t. mouse_ok t \<and> mouse_contents t = mouse_contents s @ [b]) (Ps2WriteMouseMemory b s)"
proof -
  let ?m = "Mouse (Ps2 s)"
  have i: "unat (MouseMemoryIndex ?m) < 47" "length (MouseMemory ?m) = 48"
    using assms by (auto simp: mouse_contents_def mouse_ok_def ps2_ok_def PS2_ok_def)
  then have "\<not> 48 \<le> MouseMemoryIndex ?m" "unat (MouseMemoryIndex ?m + 1) = Suc (unat (MouseMemoryIndex ?m))"
    by (simp_all add: word_le_nat_alt BYTE_succ)
  then show ?thesis using assms i
    by (auto simp: Ps2WriteMouseMemory_def Let_def mouse_contents_def mouse_ok_def ps2_ok_def ps2_want_timer_def PS2_ok_def take_snoc)
qed

lemma mouse_pop:
  assumes "mouse_ok s" and "mouse_contents s = b # bs"
  shows "specE {} (\<lambda>(c, t). c = b \<and> mouse_ok t \<and> mouse_contents t = bs) (Ps2ReadMouse s)"
proof -
  let ?m = "Mouse (Ps2 s)" and ?n = "unat (MouseMemoryIndex (Mouse (Ps2 s)))"
  have n: "0 < ?n" "MouseMemory ?m ! 0 = b" "tl (take ?n (MouseMemory ?m)) = bs"
    using take_ConsD [of ?n "MouseMemory ?m" b bs] assms(2) by (auto simp: mouse_contents_def)
  have le: "?n \<le> length (MouseMemory ?m)" "\<not> 48 \<le> MouseMemoryIndex ?m"
    using assms(1) by (auto simp: mouse_ok_def ps2_ok_def PS2_ok_def word_le_nat_alt)
  have nz: "MouseMemoryIndex ?m \<noteq> 0" using n(1) by auto
  obtain c where c: "shift_down (MouseMemory ?m) (?n - 1) = Inr c" "length c = length (MouseMemory ?m)"
      "take (?n - 1) c = bs"
    using shift_down_eq [OF n(1) le(1)] n(3) by auto
  show ?thesis using assms(1) n(1,2) le c nz
    by (auto simp: Ps2ReadMouse_def Let_def BYTE_pred mouse_contents_def mouse_ok_def ps2_ok_def PS2_ok_def)
qed

interpretation msm: fifo mouse_contents Ps2WriteMouseMemory Ps2ReadMouse 47 mouse_ok "{}"
  by unfold_locales (simp_all add: mouse_push mouse_pop)

text \<open>The status bits as bits.\<close>

lemma kb_full_bit: "kb_full p \<longleftrightarrow> bit (StatusRegister p) 0"
  using testw_lsh1 [of "StatusRegister p" 0] by (simp add: kb_full_def ps2_bits lsh1_def)

lemma ms_full_bit: "ms_full p \<longleftrightarrow> bit (StatusRegister p) 5"
  using testw_lsh1 [of "StatusRegister p" 5] by (simp add: ms_full_def ps2_bits lsh1_def push_bit_eq_mult)

lemma full_keyboard [simp]: "ms_full (p\<lparr>Keyboard := k\<rparr>) = ms_full p" "kb_full (p\<lparr>Keyboard := k\<rparr>) = kb_full p"
  by (simp_all add: ms_full_def kb_full_def)

lemma ps2_deliver_simps [simp]:
  "kb_full (ps2_to_keyboard b p)" "ms_full (ps2_to_keyboard b p) = ms_full p"
  "kb_full (ps2_to_mouse b p)" "ms_full (ps2_to_mouse b p)"
  "KeyboardBuffer (ps2_to_keyboard b p) = b" "MouseBuffer (ps2_to_mouse b p) = b"
  "ControllerQueue (ps2_to_keyboard b p) = ControllerQueue p" "ControllerQueue (ps2_to_mouse b p) = ControllerQueue p"
  "ControllerQueueIndex (ps2_to_keyboard b p) = ControllerQueueIndex p"
  "ControllerQueueIndex (ps2_to_mouse b p) = ControllerQueueIndex p"
  "PS2_ok (ps2_to_keyboard b p) = PS2_ok p" "PS2_ok (ps2_to_mouse b p) = PS2_ok p"
  "Keyboard (ps2_to_keyboard b p) = Keyboard p" "Keyboard (ps2_to_mouse b p) = Keyboard p"
  "TimerPending (ps2_to_keyboard b p) = TimerPending p"
  "TimerPending (ps2_to_mouse b p) = TimerPending p"
  by (auto simp: ps2_to_keyboard_def ps2_to_mouse_def kb_full_bit ms_full_bit ps2_bits bit_simps bit_numeral_rec PS2_ok_def)

lemma ps2_refill_ok:
  assumes "PS2_ok p" and "\<And>b q. PS2_ok (deliver b q) = PS2_ok q"
    and "\<And>b q. ControllerQueue (deliver b q) = ControllerQueue q"
    and "\<And>b q. ControllerQueueIndex (deliver b q) = ControllerQueueIndex q"
  shows "specE {} (\<lambda>q. PS2_ok q \<and> (if ControllerQueueIndex p = 0 then q = p else
      \<exists>c n. q = (deliver (ControllerQueue p ! 0) p)\<lparr>ControllerQueue := c, ControllerQueueIndex := n\<rparr> \<and>
         unat n = unat (ControllerQueueIndex p) - 1 \<and>
         take (unat n) c = tl (take (unat (ControllerQueueIndex p)) (ControllerQueue p))))
    (ps2_refill deliver p)"
proof (cases "ControllerQueueIndex p = 0")
  case True
  then show ?thesis using assms(1) by (simp add: ps2_refill_def)
next
  case False
  let ?n = "unat (ControllerQueueIndex p)" and ?p = "deliver (ControllerQueue p ! 0) p"
  have n: "0 < ?n" "?n \<le> length (ControllerQueue p)" "length (ControllerQueue p) = 5"
    using False assms(1) by (auto simp: PS2_ok_def unat_gt_0)
  obtain c where c: "shift_down (ControllerQueue p) (?n - 1) = Inr c" "length c = 5"
      "take (?n - 1) c = tl (take ?n (ControllerQueue p))"
    using shift_down_eq [OF n(1,2)] n(3) by auto
  let ?q = "?p\<lparr>ControllerQueue := c, ControllerQueueIndex := ControllerQueueIndex p - 1\<rparr>"
  have "ps2_refill deliver p = Inr ?q"
    using False n c(1) by (simp add: ps2_refill_def Let_def assms(3,4) BYTE_pred)
  moreover have "PS2_ok ?p" using assms(1,2) by simp
  then have "PS2_ok ?q" using n c(2) False assms(3,4) by (auto simp: PS2_ok_def BYTE_pred)
  ultimately show ?thesis using False c(3)
    by (auto simp: BYTE_pred intro!: exI [of _ c] exI [of _ "ControllerQueueIndex p - 1"])
qed

lemma ps2_pop_pic:
  "pic_only s (PicLowerIrq s irq)" "Ps2 (PicLowerIrq (s :: 'z ps2_state_scheme) irq) = Ps2 s"
  "ps2_ok (PicLowerIrq (s :: 'z ps2_state_scheme) irq) = ps2_ok s"
  using isa.lower_keeps pic_only_ps2 by blast+

lemma ps2_lower_ok:
  assumes "ps2_ok s" and "PS2_ok q"
  shows "ps2_ok (upd_ps2 ps2_pend (PicLowerIrq (s\<lparr>Ps2 := q\<rparr>) irq))"
proof -
  have "ps2_ok (s\<lparr>Ps2 := q\<rparr>)" using assms by (simp add: ps2_ok_def wf_timers_def)
  then show ?thesis using assms(2) by (intro ps2_ok_upd) (simp_all add: ps2_pop_pic(2,3))
qed

lemma output_push:
  assumes "output_ok s" and "length (output_contents s) < 6"
  shows "specE {} (\<lambda>t. output_ok t \<and> output_contents t = output_contents s @ [b]) (Ps2QueueByte b KEYBOARD_DEVICE s)"
proof (cases "kb_full (Ps2 s)")
  case True
  let ?n = "unat (ControllerQueueIndex (Ps2 s))"
  have len: "length (ControllerQueue (Ps2 s)) = 5" "?n < 5"
    using assms True by (auto simp: output_contents_def output_ok_def ps2_ok_def PS2_ok_def)
  then have "\<not> 5 \<le> ControllerQueueIndex (Ps2 s)" "unat (ControllerQueueIndex (Ps2 s) + 1) = Suc ?n"
    by (simp_all add: word_le_nat_alt BYTE_succ)
  then show ?thesis using True len assms
    by (auto simp: Ps2QueueByte_def Let_def output_ok_def ps2_ok_def PS2_ok_def output_contents_def kb_full_bit ms_full_bit take_snoc)
next
  case False
  then show ?thesis using assms
    by (auto simp: Ps2QueueByte_def Let_def output_ok_def ps2_ok_def PS2_ok_def output_contents_def kb_full_bit ms_full_bit
        ps2_bits bit_simps bit_numeral_rec)
qed

lemma ps2_pop_eq:
  assumes "\<not> ms_full (Ps2 s)" and "kb_full (Ps2 s)"
  shows "ps2_pop s = bindE (ps2_refill ps2_to_keyboard ((Ps2 s)\<lparr>
      StatusRegister := StatusRegister (Ps2 s) AND NOT (STATUS_OUTPUT_MS_BUFFER_FULL OR STATUS_OUTPUT_KB_BUFFER_FULL OR STATUS_INPUT_BUFFER_FULL),
      DataRegister := DataRegister (Ps2 s) AND NOT DATA_KB_INTERRUPT, KeyboardBuffer := 0\<rparr>)) (\<lambda>q.
      Inr (KeyboardBuffer (Ps2 s), upd_ps2 ps2_pend (PicLowerIrq (s\<lparr>Ps2 := q\<rparr>) 1)))"
  using assms by (simp add: ps2_pop_def Ps2PortIoReadHandler_def ps2_read_data_def Let_def bindE_assoc)

lemma output_pop:
  assumes s: "output_ok s" and c: "output_contents s = b # bs"
  shows "specE {} (\<lambda>(d, t). d = b \<and> output_ok t \<and> output_contents t = bs) (ps2_pop s)"
proof -
  let ?p = "Ps2 s"
  have full: "kb_full ?p" "\<not> ms_full ?p" and b: "KeyboardBuffer ?p = b"
      "take (unat (ControllerQueueIndex ?p)) (ControllerQueue ?p) = bs"
    using assms by (auto simp: output_contents_def output_ok_def split: if_splits)
  let ?p0 = "?p\<lparr>StatusRegister := StatusRegister ?p AND NOT (STATUS_OUTPUT_MS_BUFFER_FULL OR STATUS_OUTPUT_KB_BUFFER_FULL OR STATUS_INPUT_BUFFER_FULL),
      DataRegister := DataRegister ?p AND NOT DATA_KB_INTERRUPT, KeyboardBuffer := 0\<rparr>"
  have p0: "PS2_ok ?p0" "\<not> kb_full ?p0" "\<not> ms_full ?p0"
    using s full(2) by (auto simp: output_ok_def ps2_ok_def PS2_ok_def kb_full_bit ms_full_bit ps2_bits bit_simps bit_numeral_rec)
  let ?Q = "\<lambda>q. PS2_ok q \<and> \<not> ms_full q \<and> (if kb_full q
      then KeyboardBuffer q # take (unat (ControllerQueueIndex q)) (ControllerQueue q) = bs
      else ControllerQueueIndex q = 0 \<and> bs = [])"
  have refill: "specE {} ?Q (ps2_refill ps2_to_keyboard ?p0)"
  proof (rule specE_mono [OF ps2_refill_ok [OF p0(1), of ps2_to_keyboard]], goal_cases)
    case (5 q)
    show ?case
    proof (cases "ControllerQueueIndex ?p = 0")
      case True
      then show ?thesis using 5 p0 b by auto
    next
      case False
      define d where "d = ps2_to_keyboard (ControllerQueue ?p0 ! 0) ?p0"
      obtain c n where q: "q = d\<lparr>ControllerQueue := c, ControllerQueueIndex := n\<rparr>"
          "take (unat n) c = tl (take (unat (ControllerQueueIndex ?p)) (ControllerQueue ?p))" "PS2_ok q"
        using 5 False unfolding d_def by auto
      have d: "kb_full d" "\<not> ms_full d" "KeyboardBuffer d = ControllerQueue ?p ! 0" using p0(3) by (auto simp: d_def)
      have "bs \<noteq> []" using b(2) False s unat_gt_0 [of "ControllerQueueIndex ?p"]
        by (auto simp: output_ok_def ps2_ok_def PS2_ok_def)
      then have "bs ! 0 # tl bs = bs" by (cases bs) auto
      moreover have "bs ! 0 = ControllerQueue ?p ! 0" unfolding b(2) [symmetric] using False by (simp add: unat_gt_0)
      ultimately have "ControllerQueue ?p ! 0 # tl bs = bs" by simp
      then show ?thesis using q d b(2) by (simp add: kb_full_bit ms_full_bit)
    qed
  qed auto
  have out: "output_ok t \<and> output_contents t = bs" if q: "?Q q" and t: "t = upd_ps2 ps2_pend (PicLowerIrq (s\<lparr>Ps2 := q\<rparr>) 1)" for q t
  proof -
    have "ps2_ok t" unfolding t using q s by (intro ps2_lower_ok) (simp_all add: output_ok_def)
    moreover have "Ps2 t = ps2_pend q" unfolding t by (simp add: ps2_pop_pic(2))
    ultimately show ?thesis using q by (auto simp: output_ok_def output_contents_def ps2_pend_def kb_full_bit ms_full_bit split: if_splits)
  qed
  show ?thesis unfolding ps2_pop_eq [OF full(2,1)] by (rule specE_bindI [OF refill]) (use out b(1) in auto)
qed

interpretation kbc: fifo output_contents "\<lambda>b. Ps2QueueByte b KEYBOARD_DEVICE" ps2_pop 6 output_ok "{}"
  by unfold_locales (simp_all add: output_push output_pop)

section \<open>Every operation keeps the controller well-formed\<close>

lemma Ps2QueueByte_ok: "ps2_ok s \<Longrightarrow> specE {Exit} ps2_ok (Ps2QueueByte b d s)"
proof -
  assume s: "ps2_ok s"
  have "unat (ControllerQueueIndex (Ps2 s)) < 5" "unat (ControllerQueueIndex (Ps2 s) + 1) = Suc (unat (ControllerQueueIndex (Ps2 s)))"
    if "\<not> 5 \<le> ControllerQueueIndex (Ps2 s)" using that by (simp_all add: word_le_nat_alt BYTE_succ)
  then show ?thesis using s
    by (cases d) (auto simp: Ps2QueueByte_def Let_def ps2_ok_def PS2_ok_def)
qed

lemma ps2_ok_activate:
  assumes "ps2_ok s"
  shows "specE {} (\<lambda>t. ps2_ok t \<and> Ps2 t = Ps2 s) (TimerActivate s (TimerId (Ps2 s)) ns o1)"
  using assms by (simp add: TimerActivate_eq ps2_ok_def PS2_ok_def wf_timers_def)

lemma Ps2Clock_ok:
  assumes "ps2_ok s"
  shows "specE {} ps2_ok (Ps2EnableMouseClock s e)" and "ps2_ok (Ps2EnableKeyboardClock s e)"
proof -
  have m: "ps2_ok (upd_ps2 (\<lambda>p. p\<lparr>Mouse := (Mouse p)\<lparr>MouseClockEnabled := v\<rparr>\<rparr>) t)" if "ps2_ok t"
    for v and t :: "'a ps2_state_scheme"
    using that by (simp add: ps2_ok_def PS2_ok_def)
  have pend: "ps2_ok (upd_ps2 ps2_pend s)" using assms by (simp add: ps2_ok_def)
  have act: "specE {} ps2_ok (if b then TimerActivate (upd_ps2 ps2_pend s) (TimerId (Ps2 (upd_ps2 ps2_pend s))) ns o1 else Inr s)" for b ns o1
    by (intro specE_if_both specE_mono [OF ps2_ok_activate [OF pend]]) (auto simp: assms)
  show "specE {} ps2_ok (Ps2EnableMouseClock s e)"
    unfolding Ps2EnableMouseClock_def Let_def by (intro specE_if_both specE_bindI [OF act]) (simp_all add: m assms)
  show "ps2_ok (Ps2EnableKeyboardClock s e)"
    using assms by (auto simp: Ps2EnableKeyboardClock_def ps2_ok_def PS2_ok_def ps2_pend_def Let_def)
qed

lemma ps2_read_data_ok:
  assumes "ps2_ok s"
  shows "specE {} (\<lambda>(_, t). ps2_ok t) (ps2_read_data s)"
proof -
  have p: "PS2_ok ((Ps2 s)\<lparr>StatusRegister := a, DataRegister := b, MouseBuffer := c\<rparr>)"
    "PS2_ok ((Ps2 s)\<lparr>StatusRegister := a, DataRegister := b, KeyboardBuffer := c\<rparr>)" for a b c
    using assms by (simp_all add: ps2_ok_def PS2_ok_def)
  have m: "specE {} PS2_ok (ps2_refill ps2_to_mouse p)" if "PS2_ok p" for p
    by (rule specE_mono [OF ps2_refill_ok [OF that]]) auto
  have k: "specE {} PS2_ok (ps2_refill ps2_to_keyboard p)" if "PS2_ok p" for p
    by (rule specE_mono [OF ps2_refill_ok [OF that]]) auto
  show ?thesis unfolding ps2_read_data_def Let_def
    by (intro specE_if_both specE_bindI [OF m] specE_bindI [OF k] p) (simp_all add: ps2_lower_ok assms)
qed

lemma Ps2WriteKeyboardMemory_ok:
  assumes "ps2_ok s"
  shows "specE {} ps2_ok (Ps2WriteKeyboardMemory b s)"
proof (cases "16 \<le> KeyboardMemoryIndex (Keyboard (Ps2 s))")
  case True
  then show ?thesis using assms by (simp add: Ps2WriteKeyboardMemory_def Let_def)
next
  case False
  then have "length (keyboard_contents s) < 16" by (simp add: keyboard_contents_def word_le_nat_alt)
  then show ?thesis by (intro specE_mono [OF keyboard_push [OF assms]]) auto
qed

lemma ps2_reply_ok: "ps2_ok s \<Longrightarrow> specE {} ps2_ok (ps2_reply bs s)"
  unfolding ps2_reply_def by (rule specE_foldI) (simp_all add: Ps2WriteKeyboardMemory_ok)

lemma ps2_send_translated_ok: "ps2_ok s \<Longrightarrow> specE {} ps2_ok (ps2_send_translated e bs s)"
  by (induction e bs s rule: ps2_send_translated.induct)
     (auto intro!: specE_bindI [OF Ps2WriteKeyboardMemory_ok])

lemma ps2_ok_keyboard:
  "ps2_ok s \<Longrightarrow> ps2_ok (upd_ps2 (\<lambda>p. p\<lparr>Keyboard := (Keyboard p)\<lparr>ScanCodeEnabled := v\<rparr>\<rparr>) s)"
  "ps2_ok s \<Longrightarrow> ps2_ok (Ps2KeyboardReset s)"
  by (simp_all add: ps2_ok_def PS2_ok_def Ps2KeyboardReset_def)

lemma ps2_select_set_ok:
  assumes "ps2_ok s"
  shows "specE {} ps2_ok (ps2_select_set value s)"
proof -
  let ?s = "upd_ps2 (\<lambda>p. p\<lparr>Keyboard := (Keyboard p)\<lparr>ScanCodeEnabled := 0\<rparr>\<rparr>) s"
  have s: "ps2_ok ?s" by (rule ps2_ok_keyboard(1) [OF assms])
  have "ps2_ok (upd_ps2 (\<lambda>p. p\<lparr>Keyboard := (Keyboard p)\<lparr>ScanCodeSet := value - 1\<rparr>\<rparr>) ?s)" if "value \<noteq> 0" "value < 4"
  proof -
    have "unat (value - 1) < 3" using that by (simp add: BYTE_pred word_less_nat_alt)
    then show ?thesis using assms by (simp add: ps2_ok_def PS2_ok_def)
  qed
  then show ?thesis unfolding ps2_select_set_def Let_def
    using ps2_reply_ok [OF s] by (simp add: ps2_reply_ok)
qed

lemma Ps2SendKeyboard_ok: "ps2_ok s \<Longrightarrow> specE {Exit} ps2_ok (Ps2SendKeyboard value s)"
  unfolding Ps2SendKeyboard_def
  by (intro specE_if_both Ps2QueueByte_ok specE_total_any [OF ps2_reply_ok] specE_total_any [OF ps2_select_set_ok])
     (simp_all add: ps2_ok_keyboard)

lemma ps2_ok_registers:
  assumes "ps2_ok s"
  shows "ps2_ok (upd_ps2 (\<lambda>p. p\<lparr>DataRegister := v p\<rparr>) s)" "ps2_ok (upd_ps2 (\<lambda>p. p\<lparr>OutputPort := v p\<rparr>) s)"
    "ps2_ok (upd_ps2 (\<lambda>p. p\<lparr>StatusRegister := w p, CommandBuffer := v p\<rparr>) s)"
    "ps2_ok (upd_ps2 (\<lambda>p. p\<lparr>CommandBuffer := v p, StatusRegister := w p\<rparr>) s)"
    "ps2_ok (upd_ps2 (\<lambda>p. p\<lparr>StatusRegister := v p\<rparr>) s)"
    "ps2_ok (upd_ps2 (\<lambda>p. p\<lparr>StatusRegister := v p, ControllerQueueIndex := 0\<rparr>) s)"
  using assms by (simp_all add: ps2_ok_def PS2_ok_def)

lemma Ps2PortIoWriteHandler_ok:
  assumes "ps2_ok s"
  shows "specE {Exit} ps2_ok (Ps2PortIoWriteHandler s addr val)"
proof -
  have data: "specE {Exit} ps2_ok (ps2_write_data v s)" for v
    unfolding ps2_write_data_def Let_def Ps2SendMouse_def
    by (intro specE_if_both Ps2QueueByte_ok Ps2SendKeyboard_ok specE_total_any [OF Ps2Clock_ok(1)] Ps2Clock_ok(2))
       (simp_all add: assms ps2_ok_registers)
  have test: "specE {Exit} ps2_ok (ps2_test_controller s)"
    unfolding ps2_test_controller_def Let_def
    by (intro specE_if_both Ps2QueueByte_ok ps2_ok_registers(5)) (simp_all add: assms ps2_ok_registers)
  have cmd: "specE {Exit} ps2_ok (ps2_write_command v s)" for v
    unfolding ps2_write_command_def
    by (intro specE_if_both Ps2QueueByte_ok test specE_total_any [OF Ps2Clock_ok(1)]) (simp_all add: assms ps2_ok_registers Ps2Clock_ok)
  show ?thesis unfolding Ps2PortIoWriteHandler_def Let_def
    by (intro specE_if_both specE_bindI [OF data] cmd) (simp_all add: assms ps2_ok_registers)
qed

lemma Ps2GenerateScancode_ok:
  assumes "ps2_ok s"
  shows "specE {} ps2_ok (Ps2GenerateScancode key s)"
proof (cases "119 \<le> key")
  case True
  then show ?thesis using assms by (simp add: Ps2GenerateScancode_def)
next
  case False
  then have k: "unat key < 119" by (simp add: word_le_nat_alt)
  have len: "length (scancodes ! unat key) = 3" using scancodes_agree [OF k] by (simp add: set1_agrees_def)
  have set: "unat (ScanCodeSet (Keyboard (Ps2 s))) < 3" using assms by (simp add: ps2_ok_def PS2_ok_def)
  have "specE {} ps2_ok (foldE Ps2WriteKeyboardMemory bs s)" for bs
    by (rule specE_foldI) (simp_all add: assms Ps2WriteKeyboardMemory_ok)
  then show ?thesis using False k set len
    by (simp add: Ps2GenerateScancode_def Let_def scancodes_length ps2_send_translated_ok [OF assms])
qed

lemma Ps2TimerPeriodic_ok:
  assumes "ps2_ok s"
  shows "specE {Exit} (\<lambda>(_, t). ps2_ok t) (Ps2TimerPeriodic n s)"
proof -
  have k: "specE {Exit} (\<lambda>(_, t). ps2_ok t) (Ps2ReadKeyboardMemory t)" if t: "ps2_ok t" for t :: "'a ps2_state_scheme"
  proof (cases "keyboard_contents t")
    case Nil
    then have "unat (KeyboardMemoryIndex (Keyboard (Ps2 t))) = 0" using t by (auto simp: keyboard_contents_def ps2_ok_def PS2_ok_def)
    then show ?thesis by (simp add: Ps2ReadKeyboardMemory_def Let_def unat_eq_zero)
  qed (rule specE_mono [OF keyboard_pop [OF t]], auto)
  have m: "specE {Exit} (\<lambda>(_, t). ps2_ok t) (Ps2ReadMouse t)" if t: "ps2_ok t" for t :: "'a ps2_state_scheme"
  proof (cases "mouse_contents t = [] \<or> \<not> mouse_ok t")
    case True
    then have "unat (MouseMemoryIndex (Mouse (Ps2 t))) = 0 \<or> 48 \<le> MouseMemoryIndex (Mouse (Ps2 t))"
      using t by (auto simp: mouse_contents_def mouse_ok_def ps2_ok_def PS2_ok_def word_le_nat_alt)
    then show ?thesis by (auto simp: Ps2ReadMouse_def Let_def unat_eq_zero)
  next
    case False
    then obtain b bs where "mouse_contents t = b # bs" "mouse_ok t" by (auto simp: neq_Nil_conv)
    then show ?thesis by (intro specE_mono [OF mouse_pop]) (auto simp: mouse_ok_def)
  qed
  have s: "ps2_ok (upd_ps2 (\<lambda>p. p\<lparr>DataRegister := v p, TimerPending := w p\<rparr>) s)"
       "ps2_ok (upd_ps2 (\<lambda>p. p\<lparr>DataRegister := v p\<rparr>) s)" for v w
    using assms by (simp_all add: ps2_ok_def PS2_ok_def)
  have put: "ps2_ok (upd_ps2 (ps2_to_keyboard b) t)" "ps2_ok (upd_ps2 (ps2_to_mouse b) t)" if "ps2_ok t"
    for b and t :: "'a ps2_state_scheme" using that by (simp_all add: ps2_ok_def)
  show ?thesis unfolding Ps2TimerPeriodic_def Let_def upd_ps2_simps
    by (intro specE_if_both specE_bindI [OF k] specE_bindI [OF m]) (auto simp: s put)
qed

section \<open>From a key to the guest\<close>

text \<open>One round of the guest's keyboard driver: the timer fires, then the guest reads the data port.\<close>

definition ps2_fetch :: "env \<Rightarrow> 'z ps2_state_scheme \<Rightarrow> (BYTE \<times> 'z ps2_state_scheme) res" where
  "ps2_fetch env s = bindE (Ps2TimerHandler env s) ps2_pop"

text \<open>The controller with an empty output buffer and a running keyboard.\<close>

definition key_idle :: "'z ps2_state_scheme \<Rightarrow> bool" where
  "key_idle s \<longleftrightarrow> ps2_ok s \<and> \<not> kb_full (Ps2 s) \<and> \<not> ms_full (Ps2 s) \<and> ControllerQueueIndex (Ps2 s) = 0 \<and>
     KeyboardClockEnabled (Keyboard (Ps2 s)) \<noteq> 0 \<and> TimerPending (Ps2 s) \<in> {0, 1} \<and>
     (keyboard_contents s \<noteq> [] \<longrightarrow> TimerPending (Ps2 s) = 1)"

lemma key_push:
  assumes "key_idle s" and "length (keyboard_contents s) < 16"
  shows "specE {} (\<lambda>t. key_idle t \<and> keyboard_contents t = keyboard_contents s @ [b]) (Ps2WriteKeyboardMemory b s)"
proof -
  have s: "ps2_ok s" using assms(1) by (simp add: key_idle_def)
  have "TimerPending (Ps2 s) = 0 \<or> TimerPending (Ps2 s) = 1"
    using assms(1) by (simp add: key_idle_def)
  moreover have "\<not> 16 \<le> KeyboardMemoryIndex (Keyboard (Ps2 s))"
    using assms(2) s by (auto simp: keyboard_contents_def ps2_ok_def PS2_ok_def word_le_nat_alt)
  ultimately show ?thesis using keyboard_push [OF s assms(2), of b] assms(1)
    by (cases "arr_set (KeyboardMemory (Keyboard (Ps2 s))) (unat (KeyboardMemoryIndex (Keyboard (Ps2 s)))) b")
       (auto simp: Ps2WriteKeyboardMemory_def Let_def key_idle_def ps2_want_timer_def kb_full_bit ms_full_bit)
qed

lemma key_tick:
  assumes "key_idle s" and "keyboard_contents s = b # bs"
  shows "specE {Exit, BadShift} (\<lambda>t. ps2_ok t \<and> kb_full (Ps2 t) \<and> \<not> ms_full (Ps2 t) \<and> KeyboardBuffer (Ps2 t) = b \<and>
      ControllerQueueIndex (Ps2 t) = 0 \<and> KeyboardClockEnabled (Keyboard (Ps2 t)) \<noteq> 0 \<and> TimerPending (Ps2 t) = 0 \<and>
      keyboard_contents t = bs) (Ps2TimerHandler env s)"
proof -
  let ?ints = "DATA_MS_INTERRUPT OR DATA_KB_INTERRUPT"
  define u where "u = upd_ps2 (\<lambda>p. p\<lparr>DataRegister := DataRegister p AND NOT ?ints, TimerPending := 0\<rparr>) s"
  have pend: "TimerPending (Ps2 s) = 1" using assms by (simp add: key_idle_def)
  have u: "ps2_ok u" "\<not> kb_full (Ps2 u)" "\<not> ms_full (Ps2 u)" "ControllerQueueIndex (Ps2 u) = 0" "TimerPending (Ps2 u) = 0"
      "KeyboardClockEnabled (Keyboard (Ps2 u)) \<noteq> 0" "keyboard_contents u = b # bs"
    using assms by (auto simp: u_def key_idle_def ps2_ok_def PS2_ok_def kb_full_bit ms_full_bit keyboard_contents_def)
  then have idx: "KeyboardMemoryIndex (Keyboard (Ps2 u)) \<noteq> 0" by (auto simp: keyboard_contents_def)
  obtain v where v: "Ps2ReadKeyboardMemory u = Inr (b, v)" "ps2_ok v" "keyboard_contents v = bs"
    using keyboard_pop [OF u(1,7)] by (auto simp: specE_total)
  obtain k where k: "v = upd_ps2 (\<lambda>p. p\<lparr>Keyboard := k\<rparr>) u" "KeyboardClockEnabled k = KeyboardClockEnabled (Keyboard (Ps2 u))"
    using v(1) by (auto simp: Ps2ReadKeyboardMemory_def Let_def bindE_eq_Inr_iff split: if_splits)
  let ?w = "upd_ps2 (ps2_to_keyboard b) v"
  have "Ps2TimerPeriodic 1 s = bindE (Ps2ReadKeyboardMemory u) (\<lambda>(b, t). Inr (DataRegister (Ps2 s) AND ?ints, upd_ps2 (ps2_to_keyboard b) t))"
    using pend u idx by (simp add: Ps2TimerPeriodic_def Let_def u_def)
  then obtain ret where tick: "Ps2TimerPeriodic 1 s = Inr (ret, ?w)" unfolding v(1) by auto
  have w: "ps2_ok ?w" "kb_full (Ps2 ?w)" "\<not> ms_full (Ps2 ?w)" "KeyboardBuffer (Ps2 ?w) = b" "ControllerQueueIndex (Ps2 ?w) = 0"
      "KeyboardClockEnabled (Keyboard (Ps2 ?w)) \<noteq> 0" "TimerPending (Ps2 ?w) = 0" "keyboard_contents ?w = bs"
    using v u k by (auto simp: ps2_ok_def keyboard_contents_def)
  have "specE {Exit, BadShift} (pic_only ?w)
      (bindE (if testw ret DATA_KB_INTERRUPT then PicRaiseIrq env ?w 1 else Inr ?w) (\<lambda>s.
       if testw ret DATA_MS_INTERRUPT then PicRaiseIrq env s 12 else Inr s))"
    by (rule specE_bindI [OF isa.raise_if]) (auto intro: isa.raise_after)
  then show ?thesis unfolding Ps2TimerHandler_def tick
    using w by (auto elim!: specE_mono simp: pic_only_ps2 keyboard_contents_def)
qed

lemma key_fetch:
  assumes "key_idle s" and "keyboard_contents s = b # bs"
  shows "specE {Exit, BadShift} (\<lambda>(c, t). c = b \<and> key_idle t \<and> keyboard_contents t = bs) (ps2_fetch env s)"
  unfolding ps2_fetch_def
proof (rule specE_bindI [OF key_tick [OF assms]], elim conjE)
  fix t :: "'a ps2_state_scheme"
  assume t: "ps2_ok t" "kb_full (Ps2 t)" "\<not> ms_full (Ps2 t)" "KeyboardBuffer (Ps2 t) = b" "ControllerQueueIndex (Ps2 t) = 0"
    "KeyboardClockEnabled (Keyboard (Ps2 t)) \<noteq> 0" "TimerPending (Ps2 t) = 0" "keyboard_contents t = bs"
  define p where "p = (Ps2 t)\<lparr>StatusRegister := StatusRegister (Ps2 t) AND NOT (STATUS_OUTPUT_MS_BUFFER_FULL OR STATUS_OUTPUT_KB_BUFFER_FULL OR STATUS_INPUT_BUFFER_FULL),
      DataRegister := DataRegister (Ps2 t) AND NOT DATA_KB_INTERRUPT, KeyboardBuffer := 0\<rparr>"
  have p: "PS2_ok p" "\<not> kb_full p" "\<not> ms_full p" "ControllerQueueIndex p = 0" "Keyboard p = Keyboard (Ps2 t)" "TimerPending p = 0"
    using t by (auto simp: p_def ps2_ok_def PS2_ok_def kb_full_bit ms_full_bit ps2_bits bit_simps bit_numeral_rec)
  let ?u = "upd_ps2 ps2_pend (PicLowerIrq (t\<lparr>Ps2 := p\<rparr>) 1)"
  have pop: "ps2_pop t = Inr (b, ?u)"
    unfolding ps2_pop_eq [OF t(3,2)] p_def [symmetric] t(4) using p(4) by (simp add: ps2_refill_def)
  have "Ps2 ?u = ps2_pend p" by (simp add: ps2_pop_pic(2))
  moreover have "ps2_ok ?u" by (rule ps2_lower_ok [OF t(1) p(1)])
  ultimately have "key_idle ?u \<and> keyboard_contents ?u = bs"
    using p t by (auto simp: key_idle_def ps2_pend_def kb_full_bit ms_full_bit keyboard_contents_def)
  then show "specE {Exit, BadShift} (\<lambda>(c, t). c = b \<and> key_idle t \<and> keyboard_contents t = bs) (ps2_pop t)"
    unfolding pop by simp
qed

interpretation kbi: fifo keyboard_contents Ps2WriteKeyboardMemory "ps2_fetch env" 16 key_idle "{Exit, BadShift}" for env
  by unfold_locales (simp_all add: key_push key_fetch)

lemma ps2_send_translated_eq: "ps2_send_translated e bs s = foldE Ps2WriteKeyboardMemory (translate_codes e bs) s"
proof (induction e bs s rule: ps2_send_translated.induct)
  case (2 e b bs s)
  then show ?case by (cases "Ps2WriteKeyboardMemory (translate8042 b OR e) s") auto
qed simp

section \<open>Properties\<close>


lemmas ps2_zero_defs = ps2_zero_def cmos_zero_defs ps2_state.defs PS2_zero_def

lemma ps2_zero_ok: "ps2_ok ps2_zero"
  by (simp add: ps2_ok_def PS2_ok_def wf_timers_def ps2_zero_defs)


text \<open>C26. The output channel is a first-in first-out queue of six bytes. Queuing at most six keyboard
  bytes on an empty channel and reading the data port as often returns exactly these bytes in
  order and leaves the channel empty; queuing a byte when six are waiting ends the process.\<close>

theorem ps2_output_fifo:
  assumes "output_ok s"
  shows "(output_contents s = [] \<and> length bs \<le> 6 \<longrightarrow>
           specE {} (\<lambda>(cs, t). cs = bs \<and> output_ok t \<and> output_contents t = [])
             (bindE (foldE (\<lambda>b. Ps2QueueByte b KEYBOARD_DEVICE) bs s) (drainE ps2_pop (length bs)))) \<and>
         (length (output_contents s) = 6 \<longrightarrow> Ps2QueueByte b d s = Inl Exit)"
proof (intro conjI impI)
  assume "output_contents s = [] \<and> length bs \<le> 6"
  then show "specE {} (\<lambda>(cs, t). cs = bs \<and> output_ok t \<and> output_contents t = [])
      (bindE (foldE (\<lambda>b. Ps2QueueByte b KEYBOARD_DEVICE) bs s) (drainE ps2_pop (length bs)))"
    using assms by (intro kbc.push_drain) auto
next
  assume "length (output_contents s) = 6"
  then have "kb_full (Ps2 s)" "5 \<le> ControllerQueueIndex (Ps2 s)"
    by (auto simp: output_contents_def word_le_nat_alt min_def split: if_splits)
  then show "Ps2QueueByte b d s = Inl Exit" by (simp add: Ps2QueueByte_def)
qed

lemma ps2_zero_output: "output_ok ps2_zero" "output_contents ps2_zero = []"
  using ps2_zero_ok by (simp_all add: output_ok_def output_contents_def kb_full_bit ms_full_bit ps2_zero_defs)

theorem ps2_output_fifo_witness:
  "specE {} (\<lambda>(cs, t). cs = [1, 2, 3] \<and> output_contents t = [])
     (bindE (foldE (\<lambda>b. Ps2QueueByte b KEYBOARD_DEVICE) [1, 2, 3] ps2_zero) (drainE ps2_pop 3))"
proof -
  have "specE {} (\<lambda>(cs, t). cs = [1, 2, 3] \<and> output_ok t \<and> output_contents t = [])
     (bindE (foldE (\<lambda>b. Ps2QueueByte b KEYBOARD_DEVICE) [1, 2, 3] ps2_zero) (drainE ps2_pop (length [1, 2, 3 :: BYTE])))"
    using ps2_output_fifo [OF ps2_zero_output(1), of "[1, 2, 3]"] ps2_zero_output(2) by auto
  then show ?thesis by (auto elim!: specE_mono simp: numeral_3_eq_3)
qed

lemma ps2_key_delivered:
  assumes "key_idle s" and "keyboard_contents s = []" and "unat key < 119"
    and "ScanCodeSet (Keyboard (Ps2 s)) = 1" and "testw (DataRegister (Ps2 s)) DATA_SCAN_CODE"
  shows "specE {Exit, BadShift} (\<lambda>(cs, t). cs = Make (scancodes ! unat key ! 0) \<and> key_idle t \<and> keyboard_contents t = [])
     (bindE (Ps2GenerateScancode key s) (drainE (ps2_fetch env) (length (Make (scancodes ! unat key ! 0)))))"
proof -
  let ?codes = "Make (scancodes ! unat key ! 0)"
  have agree: "length (scancodes ! unat key) = 3" "translate_codes 0 (Make (scancodes ! unat key ! 1)) = ?codes" "length ?codes \<le> 6"
    using scancodes_agree [OF assms(3)] by (auto simp: set1_agrees_def)
  have "\<not> bit key 31" using assms(3) bit_imp_ge [of key 31] by auto
  then have "\<not> testw key BX_KEY_RELEASED"
    using testw_lsh1 [of key 31] by (simp add: BX_KEY_RELEASED_def lsh1_def push_bit_eq_mult)
  then have "Ps2GenerateScancode key s = foldE Ps2WriteKeyboardMemory ?codes s"
    using assms agree by (simp add: Ps2GenerateScancode_def word_le_nat_alt scancodes_length ps2_send_translated_eq)
  then show ?thesis using kbi.push_drain [OF assms(1,2), of ?codes env] agree(3) by simp
qed

text \<open>A key reaches the guest. With scancode set 2 and translation selected, the keyboard enabled and
  everything empty, pressing a key makes the guest receive exactly that key's set 1 code, byte by
  byte, when it reads the data port after each firing of the timer; afterwards everything is
  empty again. Only the interrupt hardware can interfere.\<close>

theorem ps2_key_reaches_guest:
  assumes "key_idle s" and "keyboard_contents s = []" and "unat key < 119"
    and "ScanCodeSet (Keyboard (Ps2 s)) = 1" and "testw (DataRegister (Ps2 s)) DATA_SCAN_CODE"
  shows "specE {Exit, BadShift} (\<lambda>(cs, t). cs = Make (scancodes ! unat key ! 0) \<and> key_idle t \<and> keyboard_contents t = [])
     (bindE (Ps2GenerateScancode key s) (drainE (ps2_fetch env) (length (Make (scancodes ! unat key ! 0)))))"
  by (rule ps2_key_delivered [OF assms])

definition ps2_example :: ps2_state where
  "ps2_example = upd_ps2 (\<lambda>p. p\<lparr>DataRegister := 0x40, Keyboard := (Keyboard p)\<lparr>KeyboardClockEnabled := 1, ScanCodeSet := 1\<rparr>\<rparr>) ps2_zero"

lemma ps2_example_idle: "key_idle ps2_example" "keyboard_contents ps2_example = []"
  by (simp_all add: key_idle_def ps2_example_def ps2_ok_def PS2_ok_def wf_timers_def kb_full_bit ms_full_bit
      keyboard_contents_def ps2_zero_defs upd_ps2_def)

theorem ps2_key_reaches_guest_witness:
  "specE {Exit, BadShift} (\<lambda>(cs, t). cs = [0xE0, 0x1D])
     (bindE (Ps2GenerateScancode 14 ps2_example) (drainE (ps2_fetch (\<lambda>_ _. True)) 2))"
proof -
  have k: "Make (scancodes ! unat (14 :: ULONG) ! 0) = [0xE0, 0x1D]"
    by (simp add: scancodes_def scancodes_1_def sc_def)
  have "ScanCodeSet (Keyboard (Ps2 ps2_example)) = 1" "testw (DataRegister (Ps2 ps2_example)) DATA_SCAN_CODE"
    by (simp_all add: ps2_example_def ps2_bits testw_def)
  then have "specE {Exit, BadShift} (\<lambda>(cs, t). cs = [0xE0, 0x1D] \<and> key_idle t \<and> keyboard_contents t = [])
     (bindE (Ps2GenerateScancode 14 ps2_example) (drainE (ps2_fetch (\<lambda>_ _. True)) (length [0xE0, 0x1D :: BYTE])))"
    using ps2_key_reaches_guest [OF ps2_example_idle, of 14 "\<lambda>_ _. True"] unfolding k by simp
  then show ?thesis by (auto elim!: specE_mono simp: numeral_2_eq_2)
qed

text \<open>C27. The scancode tables are consistent: for each of the 119 keys the 8042 translation of the set 2
  make and break codes is the set 1 make and break code of the table.\<close>

theorem scancode_translation:
  assumes "key < 119"
  shows "translate_codes 0 (Make (scancodes ! key ! 1)) = Make (scancodes ! key ! 0) \<and>
         translate_codes 0 (Break (scancodes ! key ! 1)) = Break (scancodes ! key ! 0)"
  using scancodes_agree [OF assms] by (simp add: set1_agrees_def)

theorem scancode_translation_witness: "translate_codes 0 (Make (scancodes ! 3 ! 1)) = Make (scancodes ! 3 ! 0)"
  using scancode_translation [of 3] by simp

text \<open>The command byte cannot be read back: command 0x20 queues the output port instead of the mode
  register that command 0x60 writes, so the guest reads the output port.\<close>

theorem ps2_mode_byte_unreadable:
  assumes "output_ok s" and "output_contents s = []"
  shows "specE {} (\<lambda>(v, t). v = OutputPort (Ps2 s)) (bindE (Ps2PortIoWriteHandler s 0x64 0x20) ps2_pop)"
proof -
  have "Ps2PortIoWriteHandler s 0x64 0x20 = Ps2QueueByte (OutputPort (Ps2 s)) KEYBOARD_DEVICE s"
    by (simp add: Ps2PortIoWriteHandler_def ps2_write_command_def)
  then show ?thesis
    using kbc.push_ok [OF assms(1), of "OutputPort (Ps2 s)"] assms(2)
    by (auto intro!: specE_bindI specE_mono [OF kbc.pop_ok])
qed

theorem ps2_mode_byte_unreadable_witness:
  "specE {} (\<lambda>(v, t). v = 0) (bindE (Ps2PortIoWriteHandler ps2_example 0x64 0x20) ps2_pop)"
proof -
  have "output_ok ps2_example" "output_contents ps2_example = []" "OutputPort (Ps2 ps2_example) = 0"
    using ps2_example_idle(1) by (auto simp: output_ok_def output_contents_def key_idle_def ps2_example_def ps2_zero_defs upd_ps2_def)
  then show ?thesis using ps2_mode_byte_unreadable [of ps2_example] by simp
qed

text \<open>The release of a key never reaches the guest: a key event with the release flag is larger than
  every key number, so it is dropped before the flag is looked at.\<close>

theorem ps2_release_dropped: "Ps2GenerateScancode (key OR BX_KEY_RELEASED) s = Inr s"
proof -
  have "bit (key OR BX_KEY_RELEASED) 31" by (simp add: bit_or_iff BX_KEY_RELEASED_def bit_numeral_rec numeral_nat)
  then have "119 \<le> key OR BX_KEY_RELEASED"
    using bit_imp_ge [of "key OR BX_KEY_RELEASED" 31] by (simp add: word_le_nat_alt)
  then show ?thesis by (simp add: Ps2GenerateScancode_def)
qed


end
