(* ===== verification/Dma.thy ===== *)
theory Dma
  imports Ps2
begin

text \<open>
  The two DMA controllers of \<open>dma.c\<close>: address, count, mode, mask and page registers of their
  channels behind the ports, the request lines with the cascade from the first controller to the
  second, and one transfer step. No device of the program installs a transfer function, so a
  transfer function is a name that the argument \<open>run\<close> interprets.
\<close>

section \<open>State\<close>

datatype dma_fn = DmaFn nat

record DMA_CHANNEL =
  CurrentAddressRegister :: USHORT
  CurrentCountRegister :: USHORT
  BaseAddressRegister :: USHORT
  BaseCountRegister :: USHORT
  ModeRegister :: BYTE
  MaskRegister :: BYTE
  PageRegisters :: BYTE
  HiPageRegisters :: BYTE
  DmaReadHandler :: "dma_fn option"
  DmaWriteHandler :: "dma_fn option"

record DMA_CONTROLLER =
  dma_StatusRegister :: BYTE
  dma_CommandRegister :: BYTE
  FlipFlop :: BYTE
  DmaAck :: "BYTE list"
  Channels :: "DMA_CHANNEL list"

text \<open>The array \<open>Dma[2]\<close>.\<close>

record dma_state = ps2_state +
  Dma :: "nat \<Rightarrow> DMA_CONTROLLER"

definition DMA_CHANNEL_zero :: DMA_CHANNEL where
  "DMA_CHANNEL_zero = \<lparr>CurrentAddressRegister = 0, CurrentCountRegister = 0, BaseAddressRegister = 0,
     BaseCountRegister = 0, ModeRegister = 0, MaskRegister = 0, PageRegisters = 0, HiPageRegisters = 0,
     DmaReadHandler = None, DmaWriteHandler = None\<rparr>"

definition DMA_zero :: DMA_CONTROLLER where
  "DMA_zero = \<lparr>dma_StatusRegister = 0, dma_CommandRegister = 0, FlipFlop = 0, DmaAck = replicate 4 0,
     Channels = replicate 4 DMA_CHANNEL_zero\<rparr>"

definition dma_zero :: dma_state where
  "dma_zero = ps2_state.extend ps2_zero (dma_state.fields (\<lambda>_. DMA_zero))"

definition DMA_MODE_WRITE :: BYTE where "DMA_MODE_WRITE = 0x04"
definition DMA_MODE_READ :: BYTE where "DMA_MODE_READ = 0x08"
definition DMA_MODE_VERIFY :: BYTE where "DMA_MODE_VERIFY = 0x00"
definition DMA_MODE_AUTO_INIT :: BYTE where "DMA_MODE_AUTO_INIT = 0x10"
definition DMA_MODE_DECREMENT :: BYTE where "DMA_MODE_DECREMENT = 0x20"
definition CMD_DISABLE :: BYTE where "CMD_DISABLE = 0x04"

definition DmaChannelPage :: "nat list" where "DmaChannelPage = [2, 3, 1, 0, 0, 0, 0]"
definition DmaChannelHipage :: "nat list" where "DmaChannelHipage = [0, 0, 0, 2, 3, 4, 0]"

definition upd_dma :: "nat \<Rightarrow> (DMA_CONTROLLER \<Rightarrow> DMA_CONTROLLER) \<Rightarrow> 'z dma_state_scheme \<Rightarrow> 'z dma_state_scheme" where
  "upd_dma n f s = s\<lparr>Dma := (Dma s)(n := f (Dma s n))\<rparr>"

definition get_ch :: "'z dma_state_scheme \<Rightarrow> nat \<Rightarrow> nat \<Rightarrow> DMA_CHANNEL res" where
  "get_ch s n c = arr_get (Channels (Dma s n)) c"

definition upd_ch ::
  "nat \<Rightarrow> nat \<Rightarrow> (DMA_CHANNEL \<Rightarrow> DMA_CHANNEL) \<Rightarrow> 'z dma_state_scheme \<Rightarrow> 'z dma_state_scheme res" where
  "upd_ch n c f s =
     bindE (get_ch s n c) (\<lambda>ch.
     bindE (arr_set (Channels (Dma s n)) c (f ch)) (\<lambda>chs.
     Inr (upd_dma n (\<lambda>d. d\<lparr>Channels := chs\<rparr>) s)))"

definition flip :: "nat \<Rightarrow> 'z dma_state_scheme \<Rightarrow> 'z dma_state_scheme" where
  "flip n s = upd_dma n (\<lambda>d. d\<lparr>FlipFlop := b2w (FlipFlop d = 0)\<rparr>) s"

section \<open>Requests\<close>

definition DMA_CHANNEL_TO_CONTROLLER :: "nat \<Rightarrow> nat" where
  "DMA_CHANNEL_TO_CONTROLLER c = (if c < 4 then 0 else 1)"

text \<open>The first channel of a controller that is requested and not masked.\<close>

definition dma_wants :: "DMA_CONTROLLER \<Rightarrow> nat \<Rightarrow> bool" where
  "dma_wants d i \<longleftrightarrow> testw (dma_StatusRegister d) (lsh1 (i + 4)) \<and> MaskRegister (Channels d ! i) = 0"

definition dma_pick :: "DMA_CONTROLLER \<Rightarrow> nat option" where
  "dma_pick d = find (dma_wants d) [0 ..< 4]"

definition dma_set_request :: "nat \<Rightarrow> BYTE \<Rightarrow> 'z dma_state_scheme \<Rightarrow> 'z dma_state_scheme" where
  "dma_set_request channel val s =
     (let n = DMA_CHANNEL_TO_CONTROLLER channel; c = (if channel > 3 then channel mod 4 else channel)
      in upd_dma n (\<lambda>d. d\<lparr>dma_StatusRegister := if val = 0 then dma_StatusRegister d AND NOT (lsh1 (c + 4))
                                             else dma_StatusRegister d OR lsh1 (c + 4)\<rparr>) s)"

text \<open>The two functions call each other: the first controller forwards to channel 4 of the second.\<close>

function DmaSetHoldRequest :: "nat \<Rightarrow> BYTE \<Rightarrow> 'z dma_state_scheme \<Rightarrow> 'z dma_state_scheme"
  and DmaControlHoldRequestLine :: "nat \<Rightarrow> 'z dma_state_scheme \<Rightarrow> 'z dma_state_scheme" where
  "DmaSetHoldRequest channel val s =
     (if channel > 7 then s
      else DmaControlHoldRequestLine (DMA_CHANNEL_TO_CONTROLLER channel) (dma_set_request channel val s))"
| "DmaControlHoldRequestLine n s =
     (if testw (dma_StatusRegister (Dma s n)) CMD_DISABLE then s
      else if \<not> testw (dma_StatusRegister (Dma s n)) 0xf0
      then if n \<noteq> 0 then s\<lparr>user_event_pending := 0, svmm_events := svmm_events s AND NOT EVENT_DMA\<rparr>
           else DmaSetHoldRequest 4 0 s
      else if dma_pick (Dma s n) \<noteq> None
      then if n \<noteq> 0 then s\<lparr>user_event_pending := 1, svmm_events := svmm_events s OR EVENT_DMA\<rparr>
           else DmaSetHoldRequest 4 1 s
      else s)"
  by pat_completeness auto
termination
  by (relation "measure (\<lambda>x. case x of
        Inl (channel, _, _) \<Rightarrow> if channel < 4 then 3 else 1
      | Inr (n, _) \<Rightarrow> if n = 0 then 2 else 0)") (auto simp: DMA_CHANNEL_TO_CONTROLLER_def)

declare DmaSetHoldRequest.simps [simp del] DmaControlHoldRequestLine.simps [simp del]

section \<open>Ports\<close>

definition dma_number :: "ULONG \<Rightarrow> nat" where
  "dma_number addr = (if addr \<ge> 0xc0 then 1 else 0)"

definition dma_channel :: "ULONG \<Rightarrow> nat" where
  "dma_channel addr = unat (drop_bit (1 + dma_number addr) addr AND 0x03)"

definition dma_address_port :: "ULONG \<Rightarrow> bool" where
  "dma_address_port addr \<longleftrightarrow> addr \<in> {0x00, 0x02, 0x04, 0x06, 0xc0, 0xc4, 0xc8, 0xcc}"

definition dma_count_port :: "ULONG \<Rightarrow> bool" where
  "dma_count_port addr \<longleftrightarrow> addr \<in> {0x01, 0x03, 0x05, 0x07, 0xc2, 0xc6, 0xca, 0xce}"

definition dma_page_port :: "ULONG \<Rightarrow> bool" where
  "dma_page_port addr \<longleftrightarrow> addr \<in> {0x81, 0x82, 0x83, 0x87, 0x89, 0x8a, 0x8b, 0x8f}"

definition dma_hipage_port :: "ULONG \<Rightarrow> bool" where
  "dma_hipage_port addr \<longleftrightarrow> addr \<in> {0x80, 0x84, 0x85, 0x86, 0x88, 0x8c, 0x8d, 0x8e}"

text \<open>The controller and channel a page port names: ports from 0x88 on belong to the second one.\<close>

definition dma_page_target :: "ULONG \<Rightarrow> nat \<times> nat" where
  "dma_page_target addr =
     (if addr \<ge> 0x89 then (1, DmaChannelPage ! unat (addr - 0x89)) else (0, DmaChannelPage ! unat (addr - 0x81)))"

definition dma_hipage_target :: "ULONG \<Rightarrow> nat \<times> nat" where
  "dma_hipage_target addr =
     (if addr \<ge> 0x88 then (1, DmaChannelHipage ! unat (addr - 0x88)) else (0, DmaChannelHipage ! unat (addr - 0x80)))"

definition dma_half :: "'z dma_state_scheme \<Rightarrow> nat \<Rightarrow> USHORT \<Rightarrow> ULONG" where
  "dma_half s n v = (if FlipFlop (Dma s n) = 0 then ucast v AND 0xff else ucast (drop_bit 8 v) AND 0xff)"

definition DmaPortIoReadHandler :: "'z dma_state_scheme \<Rightarrow> ULONG \<Rightarrow> (ULONG \<times> 'z dma_state_scheme) res" where
  "DmaPortIoReadHandler s addr =
     (let n = dma_number addr; c = dma_channel addr
      in if dma_address_port addr
         then bindE (get_ch s n c) (\<lambda>ch. Inr (dma_half s n (CurrentAddressRegister ch), flip n s))
         else if dma_count_port addr
         then bindE (get_ch s n c) (\<lambda>ch. Inr (dma_half s n (BaseCountRegister ch), flip n s))
         else if addr \<in> {0x08, 0xd0}
         then Inr (ucast (dma_StatusRegister (Dma s n)),
                   upd_dma n (\<lambda>d. d\<lparr>dma_StatusRegister := dma_StatusRegister d AND 0xf0\<rparr>) s)
         else if addr \<in> {0x0d, 0xda} then Inr (0, s)
         else if dma_page_port addr
         then let (n, c) = dma_page_target addr in bindE (get_ch s n c) (\<lambda>ch. Inr (ucast (PageRegisters ch), s))
         else if dma_hipage_port addr
         then let (n, c) = dma_hipage_target addr in bindE (get_ch s n c) (\<lambda>ch. Inr (ucast (HiPageRegisters ch), s))
         else if addr \<in> {0x0f, 0xde}
         then bindE (get_ch s n 0) (\<lambda>c0. bindE (get_ch s n 1) (\<lambda>c1.
              bindE (get_ch s n 2) (\<lambda>c2. bindE (get_ch s n 3) (\<lambda>c3.
              Inr (ucast (MaskRegister c0) OR push_bit 1 (ucast (MaskRegister c1)) OR push_bit 2 (ucast (MaskRegister c2)) OR
                   push_bit 3 (ucast (MaskRegister c3)) OR 0xf0, s)))))
         else Inr (0, s))"

text \<open>A byte of an address or a count: the first byte shifts the old value up, the second replaces the high byte.\<close>

definition dma_put :: "'z dma_state_scheme \<Rightarrow> nat \<Rightarrow> ULONG \<Rightarrow> USHORT \<Rightarrow> USHORT" where
  "dma_put s n val base =
     (if FlipFlop (Dma s n) = 0 then ucast (val AND 0xff) OR push_bit 8 base
      else push_bit 8 (ucast (val AND 0xff)) OR (base AND 0xff))"

definition dma_write_address :: "'z dma_state_scheme \<Rightarrow> nat \<Rightarrow> nat \<Rightarrow> ULONG \<Rightarrow> 'z dma_state_scheme res" where
  "dma_write_address s n c val =
     bindE (upd_ch n c (\<lambda>ch. let a = dma_put s n val (BaseAddressRegister ch)
                             in ch\<lparr>BaseAddressRegister := a, CurrentAddressRegister := a,
                                   CurrentCountRegister := if FlipFlop (Dma s n) = 0 then CurrentCountRegister ch else 0\<rparr>) s) (\<lambda>s.
     Inr (flip n s))"

definition dma_write_count :: "'z dma_state_scheme \<Rightarrow> nat \<Rightarrow> nat \<Rightarrow> ULONG \<Rightarrow> 'z dma_state_scheme res" where
  "dma_write_count s n c val =
     bindE (upd_ch n c (\<lambda>ch. let a = dma_put s n val (BaseCountRegister ch)
                             in ch\<lparr>BaseCountRegister := a, CurrentCountRegister := a,
                                   CurrentAddressRegister := if FlipFlop (Dma s n) = 0 then CurrentAddressRegister ch
                                                             else BaseAddressRegister ch\<rparr>) s) (\<lambda>s.
     Inr (flip n s))"

definition dma_mask_all :: "nat \<Rightarrow> BYTE \<Rightarrow> 'z dma_state_scheme \<Rightarrow> 'z dma_state_scheme res" where
  "dma_mask_all n v s = foldE (\<lambda>i s. upd_ch n i (\<lambda>ch. ch\<lparr>MaskRegister := v\<rparr>) s) [0 ..< 4] s"

definition DmaPortIoWriteHandler :: "'z dma_state_scheme \<Rightarrow> ULONG \<Rightarrow> ULONG \<Rightarrow> 'z dma_state_scheme res" where
  "DmaPortIoWriteHandler s addr val =
     (let n = dma_number addr; c = dma_channel addr
      in if dma_address_port addr then dma_write_address s n c val
         else if dma_count_port addr then dma_write_count s n c val
         else if addr \<in> {0x08, 0xd0}
         then Inr (DmaControlHoldRequestLine n (upd_dma n (\<lambda>d. d\<lparr>dma_CommandRegister := ucast (val AND 0xff)\<rparr>) s))
         else if addr \<in> {0x09, 0xd2}
         then Inr (DmaControlHoldRequestLine n (upd_dma n (\<lambda>d. d\<lparr>dma_StatusRegister :=
                if testw val 0x04 then dma_StatusRegister d OR lsh1 (c + 4)
                else dma_StatusRegister d AND NOT (lsh1 (c + 4))\<rparr>) s))
         else if addr \<in> {0x0a, 0xd4}
         then bindE (upd_ch n (unat (val AND 0x03)) (\<lambda>ch. ch\<lparr>MaskRegister := b2w (testw val 0x04)\<rparr>) s) (\<lambda>s.
              Inr (DmaControlHoldRequestLine n s))
         else if addr \<in> {0x0b, 0xd6}
         then upd_ch n (unat (val AND 0x03)) (\<lambda>ch. ch\<lparr>ModeRegister := ucast (val AND 0xff)\<rparr>) s
         else if addr \<in> {0x0c, 0xd8} then Inr (upd_dma n (\<lambda>d. d\<lparr>FlipFlop := 0\<rparr>) s)
         else if addr \<in> {0x0d, 0xda} then Inr s
         else if addr \<in> {0x0e, 0xdc} then bindE (dma_mask_all n 0 s) (\<lambda>s. Inr (DmaControlHoldRequestLine n s))
         else if addr \<in> {0x0f, 0xde}
         then bindE (dma_mask_all n (ucast (val AND 1)) s) (\<lambda>s. Inr (DmaControlHoldRequestLine n s))
         else if dma_page_port addr
         then let (n, c) = dma_page_target addr
              in upd_ch n c (\<lambda>ch. ch\<lparr>PageRegisters := ucast (val AND 0xff), HiPageRegisters := 0\<rparr>) s
         else if dma_hipage_port addr
         then let (n, c) = dma_hipage_target addr
              in upd_ch n c (\<lambda>ch. ch\<lparr>HiPageRegisters := ucast (val AND 0xff)\<rparr>) s
         else Inr s)"

section \<open>Transfers\<close>

definition dma_offset :: "nat \<Rightarrow> DMA_CHANNEL \<Rightarrow> ULONG" where
  "dma_offset n ch =
     push_bit 24 (ucast (HiPageRegisters ch)) OR push_bit 16 (ucast (PageRegisters ch) AND NOT (of_nat n)) OR
     push_bit n (ucast (CurrentAddressRegister ch))"

type_synonym 's dma_run = "dma_fn \<Rightarrow> nat \<Rightarrow> ULONG64 \<Rightarrow> ULONG \<Rightarrow> 's \<Rightarrow> (ULONG \<times> 's) res"

definition dma_memory ::
  "(DMA_CHANNEL \<Rightarrow> dma_fn option) \<Rightarrow> ('z dma_state_scheme) dma_run \<Rightarrow> nat \<Rightarrow> ULONG64 \<Rightarrow> ULONG \<Rightarrow>
   'z dma_state_scheme \<Rightarrow> (ULONG \<times> 'z dma_state_scheme) res" where
  "dma_memory handler run channel pa len s =
     (if channel > 7 then Inr (0, s)
      else let n = DMA_CHANNEL_TO_CONTROLLER channel; c = (if channel > 3 then channel mod 4 else channel)
           in bindE (get_ch s n c) (\<lambda>ch.
              case handler ch of
                None \<Rightarrow> Inr (0, s)
              | Some f \<Rightarrow> bindE (run f c (ucast (dma_offset n ch) + pa) len s) (\<lambda>(_, s). Inr (0, s))))"

definition DmaWriteMemory ::
  "('z dma_state_scheme) dma_run \<Rightarrow> nat \<Rightarrow> ULONG64 \<Rightarrow> ULONG \<Rightarrow> 'z dma_state_scheme \<Rightarrow> (ULONG \<times> 'z dma_state_scheme) res" where
  "DmaWriteMemory = dma_memory DmaWriteHandler"

definition DmaReadMemory ::
  "('z dma_state_scheme) dma_run \<Rightarrow> nat \<Rightarrow> ULONG64 \<Rightarrow> ULONG \<Rightarrow> 'z dma_state_scheme \<Rightarrow> (ULONG \<times> 'z dma_state_scheme) res" where
  "DmaReadMemory = dma_memory DmaReadHandler"

definition dma_call ::
  "('z dma_state_scheme) dma_run \<Rightarrow> dma_fn option \<Rightarrow> nat \<Rightarrow> ULONG \<Rightarrow> ULONG \<Rightarrow> 'z dma_state_scheme \<Rightarrow>
   (ULONG \<times> 'z dma_state_scheme) res" where
  "dma_call run f i pa len s = (case f of None \<Rightarrow> Inl NullCall | Some f \<Rightarrow> run f i (ucast pa) len s)"

definition set_ack :: "nat \<Rightarrow> nat \<Rightarrow> BYTE \<Rightarrow> 'z dma_state_scheme \<Rightarrow> 'z dma_state_scheme res" where
  "set_ack n i v s = bindE (arr_set (DmaAck (Dma s n)) i v) (\<lambda>a. Inr (upd_dma n (\<lambda>d. d\<lparr>DmaAck := a\<rparr>) s))"

definition dma_transfer :: "('z dma_state_scheme) dma_run \<Rightarrow> nat \<Rightarrow> nat \<Rightarrow> 'z dma_state_scheme \<Rightarrow> 'z dma_state_scheme res" where
  "dma_transfer run n i s =
     bindE (get_ch s n i) (\<lambda>ch.
     let pa = dma_offset n ch;
         dec = testw (ModeRegister ch) DMA_MODE_DECREMENT;
         len = (if dec then min 512 (push_bit n (ucast (CurrentCountRegister ch) + 1)) else push_bit n 1) :: ULONG
     in bindE (if testw (ModeRegister ch) DMA_MODE_WRITE then dma_call run (DmaWriteHandler ch) i pa len s
               else if testw (ModeRegister ch) DMA_MODE_READ then dma_call run (DmaReadHandler ch) i pa len s
               else if testw (ModeRegister ch) DMA_MODE_VERIFY then dma_call run (DmaWriteHandler ch) i pa 1 s
               else Inr (0, s)) (\<lambda>(ret, s).
        bindE (set_ack n i 1 s) (\<lambda>s.
        bindE (upd_ch n i (\<lambda>ch. ch\<lparr>
                 CurrentAddressRegister := if \<not> testw (ModeRegister ch) DMA_MODE_DECREMENT
                   then CurrentAddressRegister ch + ucast ret else CurrentAddressRegister ch - 1,
                 CurrentCountRegister := CurrentCountRegister ch - ucast len\<rparr>) s) (\<lambda>s.
        bindE (get_ch s n i) (\<lambda>ch.
        if CurrentCountRegister ch = 0xffff
        then bindE (upd_ch n i (\<lambda>ch. if \<not> testw (ModeRegister ch) DMA_MODE_AUTO_INIT then ch\<lparr>MaskRegister := 1\<rparr>
                      else ch\<lparr>CurrentAddressRegister := BaseAddressRegister ch, CurrentCountRegister := BaseCountRegister ch\<rparr>)
                    (upd_dma n (\<lambda>d. d\<lparr>dma_StatusRegister := dma_StatusRegister d OR lsh1 i\<rparr>) s)) (\<lambda>s.
             bindE (set_ack n i 0 (s\<lparr>svmm_events := svmm_events s AND NOT EVENT_DMA\<rparr>)) (\<lambda>s.
             if n = 0 then set_ack 1 i 0 (DmaSetHoldRequest 4 0 s) else Inr s))
        else Inr s)))))"

definition DmaRaiseHoldAcknowledge :: "('z dma_state_scheme) dma_run \<Rightarrow> 'z dma_state_scheme \<Rightarrow> 'z dma_state_scheme res" where
  "DmaRaiseHoldAcknowledge run s =
     (case dma_pick (Dma s 1) of
        None \<Rightarrow> Inr s
      | Some i \<Rightarrow>
          if i = 0
          then bindE (set_ack 1 0 1 s) (\<lambda>s.
               case dma_pick (Dma s 0) of None \<Rightarrow> Inr s | Some i \<Rightarrow> dma_transfer run 0 i s)
          else dma_transfer run 1 i s)"

definition DmaInitialize :: "env \<Rightarrow> 'z dma_state_scheme \<Rightarrow> 'z dma_state_scheme res" where
  "DmaInitialize env s =
     foldE (\<lambda>a s. RegisterPortIoHandler env s (of_nat a) (Some DmaPort) (Some DmaPort))
       ([0 ..< 0xf] @ [0x80 ..< 0x90] @ map (\<lambda>i. 0xc0 + 2 * i) [0 ..< 16])
       (s\<lparr>Dma := (\<lambda>_. DMA_zero)\<rparr>)"

section \<open>Well-formedness\<close>

definition dma_ok :: "'z dma_state_scheme \<Rightarrow> bool" where
  "dma_ok s \<longleftrightarrow> (\<forall>n. length (Channels (Dma s n)) = 4 \<and> length (DmaAck (Dma s n)) = 4)"

lemma upd_dma_simps [simp]:
  "Dma (upd_dma n f s) k = (if k = n then f (Dma s n) else Dma s k)"
  "svmm_events (upd_dma n f s) = svmm_events s" "user_event_pending (upd_dma n f s) = user_event_pending s"
  by (simp_all add: upd_dma_def)

lemma upd_ch_eq:
  "dma_ok s \<Longrightarrow> c < 4 \<Longrightarrow>
   upd_ch n c f s = Inr (upd_dma n (\<lambda>d. d\<lparr>Channels := (Channels d)[c := f (Channels d ! c)]\<rparr>) s)"
  by (simp add: upd_ch_def get_ch_def dma_ok_def upd_dma_def)

lemma get_ch_eq: "dma_ok s \<Longrightarrow> c < 4 \<Longrightarrow> get_ch s n c = Inr (Channels (Dma s n) ! c)"
  by (simp add: get_ch_def dma_ok_def)

lemma dma_ok_upd:
  assumes "dma_ok s" and "length (Channels (f (Dma s n))) = 4" and "length (DmaAck (f (Dma s n))) = 4"
  shows "dma_ok (upd_dma n f s)"
  using assms by (simp add: dma_ok_def)

lemma upd_ch_ok: "dma_ok s \<Longrightarrow> c < 4 \<Longrightarrow> specE {} dma_ok (upd_ch n c f s)"
  by (simp add: upd_ch_eq dma_ok_upd dma_ok_def)

lemma flip_ok [simp]: "dma_ok (flip n s) = dma_ok s"
  by (auto simp: flip_def dma_ok_def split: if_splits)

text \<open>The request functions touch the status registers and the event flags only.\<close>

definition request_only :: "'z dma_state_scheme \<Rightarrow> 'z dma_state_scheme \<Rightarrow> bool" where
  "request_only s t \<longleftrightarrow> (\<exists>st u e. t = s\<lparr>Dma := (\<lambda>n. (Dma s n)\<lparr>dma_StatusRegister := st n\<rparr>), user_event_pending := u, svmm_events := e\<rparr>)"

lemma request_onlyI:
  "t = s\<lparr>Dma := (\<lambda>n. (Dma s n)\<lparr>dma_StatusRegister := st n\<rparr>), user_event_pending := u, svmm_events := e\<rparr> \<Longrightarrow> request_only s t"
  unfolding request_only_def by blast

lemma request_only_refl: "request_only s s"
  by (rule request_onlyI [where st = "\<lambda>n. dma_StatusRegister (Dma s n)" and u = "user_event_pending s" and e = "svmm_events s"]) simp

lemma request_only_trans: "request_only s t \<Longrightarrow> request_only t v \<Longrightarrow> request_only s v"
  unfolding request_only_def by (elim exE) (rule exI, rule exI, rule exI, simp)

lemma request_only_events: "request_only s (s\<lparr>user_event_pending := u, svmm_events := e\<rparr>)"
  by (rule request_onlyI [where st = "\<lambda>n. dma_StatusRegister (Dma s n)" and u = u and e = e]) simp

lemma request_only_status: "request_only s (upd_dma k (\<lambda>d. d\<lparr>dma_StatusRegister := v d\<rparr>) s)"
  by (rule request_onlyI [where st = "\<lambda>n. if n = k then v (Dma s k) else dma_StatusRegister (Dma s n)"
      and u = "user_event_pending s" and e = "svmm_events s"]) (auto simp: upd_dma_def fun_eq_iff)

lemma request_only_set: "request_only s (dma_set_request c v s)"
  unfolding dma_set_request_def Let_def by (rule request_only_status)

lemma request_frame:
  "request_only s (DmaSetHoldRequest c v s)" "request_only s (DmaControlHoldRequestLine n s)"
proof (induction c v s and n s rule: DmaSetHoldRequest_DmaControlHoldRequestLine.induct)
  case (1 c v s)
  then show ?case using request_only_set [of s c v]
    by (subst DmaSetHoldRequest.simps) (auto intro: request_only_refl request_only_trans)
next
  case (2 n s)
  then show ?case
    by (subst DmaControlHoldRequestLine.simps) (auto simp: request_only_refl request_only_events)
qed

lemma request_only_ok: "request_only s t \<Longrightarrow> dma_ok t = dma_ok s"
  by (auto simp: request_only_def dma_ok_def)

lemma Control_ok [simp]: "dma_ok (DmaControlHoldRequestLine n s) = dma_ok s"
  by (rule request_only_ok [OF request_frame(2)])

lemma dma_channel_less: "dma_channel addr < 4"
proof -
  have "x AND 3 = take_bit 2 x" for x :: ULONG by (simp add: take_bit_eq_mask mask_eq_exp_minus_1)
  then show ?thesis by (simp add: dma_channel_def unat_take_bit)
qed

lemma and_3_less: "unat (val AND 3 :: ULONG) < 4"
proof -
  have "val AND 3 = take_bit 2 val" by (simp add: take_bit_eq_mask mask_eq_exp_minus_1)
  then show ?thesis by (simp add: unat_take_bit)
qed

lemma dma_page_target_less: "dma_page_port addr \<Longrightarrow> snd (dma_page_target addr) < 4"
  by (auto simp: dma_page_port_def dma_page_target_def DmaChannelPage_def)

text \<open>Two of the high page ports name a fifth channel.\<close>

lemma dma_hipage_target_less:
  "dma_hipage_port addr \<Longrightarrow> snd (dma_hipage_target addr) < 4 \<longleftrightarrow> addr \<notin> {0x85, 0x8d}"
  by (auto simp: dma_hipage_port_def dma_hipage_target_def DmaChannelHipage_def)

lemma dma_mask_all_ok:
  assumes "dma_ok s"
  shows "specE {} dma_ok (dma_mask_all n v s)"
  unfolding dma_mask_all_def by (rule specE_foldI) (simp_all add: assms upd_ch_ok)

lemma dma_write_ok:
  assumes "dma_ok s" and "c < 4"
  shows "specE {} dma_ok (dma_write_address s n c val)" and "specE {} dma_ok (dma_write_count s n c val)"
  unfolding dma_write_address_def dma_write_count_def
  by (rule specE_bindI [OF upd_ch_ok [OF assms]], simp)+

lemma dma_page_write_ok:
  assumes "dma_ok s" and "snd t < 4"
  shows "specE {} dma_ok (case t of (n, c) \<Rightarrow> upd_ch n c f s)"
  using assms by (cases t) (simp add: upd_ch_ok)

lemma get_ch_ok:
  assumes "dma_ok s" and "c < 4" and "\<And>ch. dma_ok (snd (g ch))"
  shows "specE {} (\<lambda>(_, t). dma_ok t) (bindE (get_ch s n c) (\<lambda>ch. Inr (g ch)))"
  using assms by (simp add: get_ch_eq case_prod_unfold)

lemma dma_page_read_ok:
  assumes "dma_ok s" and "snd t < 4"
  shows "specE {} (\<lambda>(_, t). dma_ok t) (case t of (n, c) \<Rightarrow> bindE (get_ch s n c) (\<lambda>ch. Inr (g ch, s)))"
  using assms by (cases t) (simp add: get_ch_ok)

section \<open>Properties\<close>

text \<open>C28. The ports of the DMA controllers. Every port write to a well-formed state returns a well-formed
  state and every port read returns, except at the high page ports 0x85 and 0x8d: their table
  entry is channel 4 of four, so each access to them is outside the array (the write to 0x8d
  lies beyond both controllers).\<close>

theorem dma_ports:
  assumes "dma_ok s"
  shows "(if addr \<in> {0x85, 0x8d}
          then DmaPortIoWriteHandler s addr val = Inl OutOfBounds \<and> DmaPortIoReadHandler s addr = Inl OutOfBounds
          else specE {} dma_ok (DmaPortIoWriteHandler s addr val) \<and>
               specE {} (\<lambda>(_, t). dma_ok t) (DmaPortIoReadHandler s addr))"
proof (cases "addr \<in> {0x85, 0x8d}")
  case True
  then show ?thesis using assms
    by (elim insertE) (simp_all add: DmaPortIoWriteHandler_def DmaPortIoReadHandler_def dma_address_port_def
      dma_count_port_def dma_page_port_def dma_hipage_port_def dma_hipage_target_def DmaChannelHipage_def
      get_ch_def upd_ch_def dma_ok_def)
next
  case False
  have c: "dma_channel addr < 4" by (rule dma_channel_less)
  have upd: "dma_ok (upd_dma n f s)" if "\<And>d. Channels (f d) = Channels d" "\<And>d. DmaAck (f d) = DmaAck d" for n f
    using assms that by (simp add: dma_ok_def)
  have "specE {} dma_ok (DmaPortIoWriteHandler s addr val)"
    unfolding DmaPortIoWriteHandler_def Let_def
    by (intro specE_if specE_bindI [OF upd_ch_ok] specE_bindI [OF dma_mask_all_ok] dma_write_ok upd_ch_ok dma_page_write_ok c assms)
       (use False in \<open>simp_all add: assms upd and_3_less dma_page_target_less dma_hipage_target_less\<close>)
  moreover have "specE {} (\<lambda>(_, t). dma_ok t) (DmaPortIoReadHandler s addr)"
    unfolding DmaPortIoReadHandler_def Let_def
    by (intro specE_if get_ch_ok dma_page_read_ok c assms)
       (use False in \<open>simp_all add: assms upd dma_page_target_less dma_hipage_target_less get_ch_eq\<close>)
  ultimately show ?thesis using False by simp
qed

lemma dma_zero_ok: "dma_ok dma_zero"
  by (simp add: dma_ok_def dma_zero_def dma_state.defs ps2_state.defs ps2_zero_def DMA_zero_def)

theorem dma_ports_witness: "DmaPortIoWriteHandler dma_zero 0x8d 1 = Inl OutOfBounds"
  using dma_ports [OF dma_zero_ok, of "0x8d" 1] by simp

text \<open>The port that clears the flip-flop of a controller.\<close>

definition dma_clear_port :: "nat \<Rightarrow> ULONG" where
  "dma_clear_port n = (if n = 0 then 0x0c else 0xd8)"

lemma dma_clear:
  "DmaPortIoWriteHandler s (dma_clear_port (dma_number addr)) v = Inr (upd_dma (dma_number addr) (\<lambda>d. d\<lparr>FlipFlop := 0\<rparr>) s)"
  by (simp add: DmaPortIoWriteHandler_def dma_clear_port_def dma_number_def dma_address_port_def dma_count_port_def)

lemma dma_write_port:
  "dma_address_port a \<Longrightarrow> DmaPortIoWriteHandler s a v = dma_write_address s (dma_number a) (dma_channel a) v"
  "dma_count_port a \<Longrightarrow> DmaPortIoWriteHandler s a v = dma_write_count s (dma_number a) (dma_channel a) v"
  by (auto simp: DmaPortIoWriteHandler_def Let_def dma_address_port_def dma_count_port_def)

lemma dma_read_port:
  "dma_address_port a \<Longrightarrow> DmaPortIoReadHandler s a =
     bindE (get_ch s (dma_number a) (dma_channel a)) (\<lambda>ch. Inr (dma_half s (dma_number a) (CurrentAddressRegister ch), flip (dma_number a) s))"
  "dma_count_port a \<Longrightarrow> DmaPortIoReadHandler s a =
     bindE (get_ch s (dma_number a) (dma_channel a)) (\<lambda>ch. Inr (dma_half s (dma_number a) (BaseCountRegister ch), flip (dma_number a) s))"
  by (auto simp: DmaPortIoReadHandler_def Let_def dma_address_port_def dma_count_port_def)

definition dma_pair :: "ULONG \<Rightarrow> ULONG \<Rightarrow> USHORT" where
  "dma_pair lo hi = push_bit 8 (ucast (hi AND 0xff)) OR ucast (lo AND 0xff)"

lemma ff_take: "x AND 0xff = take_bit 8 (x :: ULONG)" "y AND 0xff = take_bit 8 (y :: USHORT)"
  by (simp_all add: take_bit_eq_mask mask_eq_exp_minus_1)

lemma dma_pair_put:
  "push_bit 8 (ucast (hi AND 0xff)) OR ((ucast (lo AND 0xff) OR push_bit 8 base) AND 0xff) = dma_pair lo hi"
  unfolding dma_pair_def ff_take by (rule bit_word_eqI) (auto simp: bit_simps)

lemma dma_pair_get:
  "ucast (dma_pair lo hi) AND 0xff = lo AND 0xff" "ucast (drop_bit 8 (dma_pair lo hi)) AND 0xff = hi AND 0xff"
  unfolding dma_pair_def ff_take by (rule bit_word_eqI; auto simp: bit_simps)+

text \<open>Two writes after the flip-flop is cleared leave the pair in the register.\<close>

lemma dma_two_writes:
  assumes "dma_ok s" and "dma_address_port a \<or> dma_count_port a"
  defines "n \<equiv> dma_number a" and "c \<equiv> dma_channel a"
  shows "specE {} (\<lambda>t. dma_ok t \<and> FlipFlop (Dma t n) = 0 \<and>
      (dma_address_port a \<longrightarrow> CurrentAddressRegister (Channels (Dma t n) ! c) = dma_pair lo hi \<and>
         BaseAddressRegister (Channels (Dma t n) ! c) = dma_pair lo hi) \<and>
      (dma_count_port a \<longrightarrow> BaseCountRegister (Channels (Dma t n) ! c) = dma_pair lo hi \<and>
         CurrentCountRegister (Channels (Dma t n) ! c) = dma_pair lo hi))
    (bindE (DmaPortIoWriteHandler s (dma_clear_port n) 0) (\<lambda>s.
     bindE (DmaPortIoWriteHandler s a lo) (\<lambda>s. DmaPortIoWriteHandler s a hi)))"
proof -
  have c: "c < 4" "length (Channels (Dma s n)) = 4" using assms(1) dma_channel_less by (auto simp: c_def dma_ok_def)
  let ?s = "upd_dma n (\<lambda>d. d\<lparr>FlipFlop := 0\<rparr>) s"
  have s: "dma_ok ?s" using assms(1) by (simp add: dma_ok_def)
  have upd: "upd_ch n c f t = Inr (upd_dma n (\<lambda>d. d\<lparr>Channels := (Channels d)[c := f (Channels d ! c)]\<rparr>) t)" if "dma_ok t"
    for f and t :: "'a dma_state_scheme" using upd_ch_eq [OF that c(1)] .
  have ok: "dma_ok (flip n (upd_dma n (\<lambda>d. d\<lparr>Channels := (Channels d)[c := f d]\<rparr>) t))" if "dma_ok t"
    for f and t :: "'a dma_state_scheme" using that by (auto simp: dma_ok_def flip_def)
  have excl: "\<not> (dma_address_port a \<and> dma_count_port a)" by (auto simp: dma_address_port_def dma_count_port_def)
  show ?thesis using assms(2)
  proof
    assume a: "dma_address_port a"
    show ?thesis using a excl c unfolding n_def dma_clear bindE_simps dma_write_port(1) [OF a] unfolding n_def [symmetric] c_def [symmetric]
      by (simp add: dma_write_address_def upd [OF s] upd [OF ok [OF s]] Let_def)
         (simp add: flip_def dma_put_def Let_def dma_pair_put dma_ok_def assms(1) [unfolded dma_ok_def])
  next
    assume a: "dma_count_port a"
    show ?thesis using a excl c unfolding n_def dma_clear bindE_simps dma_write_port(2) [OF a] unfolding n_def [symmetric] c_def [symmetric]
      by (simp add: dma_write_count_def upd [OF s] upd [OF ok [OF s]] Let_def)
         (simp add: flip_def dma_put_def Let_def dma_pair_put dma_ok_def assms(1) [unfolded dma_ok_def])
  qed
qed

text \<open>Programming a channel. After the flip-flop is cleared, two bytes written to an address or count
  port of a channel and two reads of the same port return the bytes in the same order, for
  every channel of both controllers.\<close>

theorem dma_register_roundtrip:
  assumes "dma_ok s" and "dma_address_port a \<or> dma_count_port a"
  shows "specE {} (\<lambda>(l, h). l = lo AND 0xff \<and> h = hi AND 0xff)
    (bindE (DmaPortIoWriteHandler s (dma_clear_port (dma_number a)) 0) (\<lambda>s.
     bindE (DmaPortIoWriteHandler s a lo) (\<lambda>s.
     bindE (DmaPortIoWriteHandler s a hi) (\<lambda>s.
     bindE (DmaPortIoReadHandler s a) (\<lambda>(l, s).
     bindE (DmaPortIoReadHandler s a) (\<lambda>(h, s). Inr (l, h)))))))"
proof -
  let ?n = "dma_number a" and ?c = "dma_channel a"
  have read: "specE {} (\<lambda>(l, h). l = lo AND 0xff \<and> h = hi AND 0xff)
      (bindE (DmaPortIoReadHandler t a) (\<lambda>(l, s). bindE (DmaPortIoReadHandler s a) (\<lambda>(h, s). Inr (l, h))))"
    if t: "dma_ok t" "FlipFlop (Dma t ?n) = 0" "dma_address_port a \<longrightarrow> CurrentAddressRegister (Channels (Dma t ?n) ! ?c) = dma_pair lo hi"
      "dma_count_port a \<longrightarrow> BaseCountRegister (Channels (Dma t ?n) ! ?c) = dma_pair lo hi" for t :: "'a dma_state_scheme"
  proof -
    have g: "get_ch (flip ?n t) ?n ?c = get_ch t ?n ?c" by (simp add: get_ch_def flip_def)
    show ?thesis using assms(2)
      by (elim disjE; simp add: dma_read_port get_ch_eq [OF t(1) dma_channel_less] g dma_half_def t(2-4) dma_pair_get)
         (simp_all add: flip_def t(2) dma_pair_get)
  qed
  show ?thesis
    using dma_two_writes [OF assms, of lo hi] read
    by (auto simp: specE_total bindE_eq_Inr_iff)
qed

theorem dma_register_roundtrip_witness:
  "specE {} (\<lambda>(l, h). l = 0x34 \<and> h = 0x12)
    (bindE (DmaPortIoWriteHandler dma_zero 0xd8 0) (\<lambda>s.
     bindE (DmaPortIoWriteHandler s 0xc4 0x34) (\<lambda>s.
     bindE (DmaPortIoWriteHandler s 0xc4 0x12) (\<lambda>s.
     bindE (DmaPortIoReadHandler s 0xc4) (\<lambda>(l, s).
     bindE (DmaPortIoReadHandler s 0xc4) (\<lambda>(h, s). Inr (l, h)))))))"
  using dma_register_roundtrip [OF dma_zero_ok, of "0xc4" "0x34" "0x12"]
  by (simp add: dma_address_port_def dma_clear_port_def dma_number_def)

lemma testw_CMD_DISABLE: "testw v CMD_DISABLE \<longleftrightarrow> bit v 2"
  using testw_lsh1 [of v 2] by (simp add: CMD_DISABLE_def lsh1_def push_bit_eq_mult)

lemma dma_pick_some: "i < 4 \<Longrightarrow> dma_wants d i \<Longrightarrow> dma_pick d \<noteq> None"
  by (auto simp: dma_pick_def find_None_iff)

lemma request_mask: "i < 4 \<Longrightarrow> bit v (i + 4) \<Longrightarrow> testw (v :: BYTE) 0xf0"
proof -
  assume "i < 4" "bit v (i + 4)"
  moreover from this have "bit (0xf0 :: BYTE) (i + 4)" by (auto simp: less_Suc_eq numeral_nat bit_numeral_rec)
  ultimately have "bit (v AND 0xf0) (i + 4)" by (simp add: bit_and_iff)
  then show ?thesis by (auto simp: testw_def)
qed

lemma Control_raises:
  assumes "\<not> bit (dma_StatusRegister (Dma s n)) 2" and "i < 4" and "bit (dma_StatusRegister (Dma s n)) (i + 4)"
    and "MaskRegister (Channels (Dma s n) ! i) = 0"
  shows "DmaControlHoldRequestLine n s =
     (if n \<noteq> 0 then s\<lparr>user_event_pending := 1, svmm_events := svmm_events s OR EVENT_DMA\<rparr> else DmaSetHoldRequest 4 1 s)"
proof -
  have "dma_wants (Dma s n) i" using assms by (simp add: dma_wants_def)
  then show ?thesis using assms dma_pick_some [OF assms(2)] request_mask [OF assms(2,3)]
    by (subst DmaControlHoldRequestLine.simps) (simp add: testw_CMD_DISABLE)
qed

text \<open>A DMA request reaches the main loop. When a device raises the request of a channel of the
  first controller, the channel and the cascade channel are not masked, and bit 2 is clear in
  both status registers, the request is forwarded over the cascade and the DMA event is pending.
  If bit 2 of the first status register is set, which also records the terminal count of channel
  2, the request is recorded but nothing is forwarded.\<close>

theorem dma_request_cascades:
  assumes "c < 4" and "MaskRegister (Channels (Dma s 0) ! c) = 0" and "MaskRegister (Channels (Dma s 1) ! 0) = 0"
    and "\<not> bit (dma_StatusRegister (Dma s 1)) 2"
  shows "let t = DmaSetHoldRequest c 1 s in
     bit (dma_StatusRegister (Dma t 0)) (c + 4) \<and>
     (if bit (dma_StatusRegister (Dma s 0)) 2 then svmm_events t = svmm_events s
      else bit (svmm_events t) 15 \<and> user_event_pending t = 1 \<and> bit (dma_StatusRegister (Dma t 1)) 4)"
proof -
  let ?u = "dma_set_request c 1 s" and ?v = "dma_set_request 4 1 (dma_set_request c 1 s)"
  have u: "DmaSetHoldRequest c 1 s = DmaControlHoldRequestLine 0 ?u" "bit (dma_StatusRegister (Dma ?u 0)) (c + 4)"
    "bit (dma_StatusRegister (Dma ?u 0)) 2 = bit (dma_StatusRegister (Dma s 0)) 2" "Channels (Dma ?u 0) = Channels (Dma s 0)"
    "svmm_events ?u = svmm_events s"
    using assms(1) by (auto simp: DmaSetHoldRequest.simps DMA_CHANNEL_TO_CONTROLLER_def dma_set_request_def bit_or_iff)
  have v: "DmaSetHoldRequest 4 1 ?u = DmaControlHoldRequestLine 1 ?v" "bit (dma_StatusRegister (Dma ?v 1)) (0 + 4)"
    "\<not> bit (dma_StatusRegister (Dma ?v 1)) 2" "MaskRegister (Channels (Dma ?v 1) ! 0) = 0"
    "bit (dma_StatusRegister (Dma ?v 0)) (c + 4)"
    using assms by (auto simp: DmaSetHoldRequest.simps DMA_CHANNEL_TO_CONTROLLER_def dma_set_request_def bit_or_iff)
  show ?thesis
  proof (cases "bit (dma_StatusRegister (Dma s 0)) 2")
    case True
    then have "DmaControlHoldRequestLine 0 ?u = ?u"
      using u(3) by (subst DmaControlHoldRequestLine.simps) (simp add: testw_CMD_DISABLE)
    then show ?thesis using True u by simp
  next
    case False
    then have "DmaSetHoldRequest c 1 s = ?v\<lparr>user_event_pending := 1, svmm_events := svmm_events ?v OR EVENT_DMA\<rparr>"
      unfolding u(1) using v(1) Control_raises [of ?u 0 c] Control_raises [of ?v 1 0] u(2-4) v(2-4) assms(1,2) by simp
    then show ?thesis using False v by (simp add: Let_def EVENT_DMA_def bit_or_iff)
  qed
qed

theorem dma_request_cascades_witness: "bit (svmm_events (DmaSetHoldRequest 3 1 dma_zero)) 15"
proof -
  have "Dma dma_zero = (\<lambda>_. DMA_zero)" by (simp add: dma_zero_def dma_state.defs ps2_state.defs)
  then show ?thesis using dma_request_cascades [of 3 dma_zero]
    by (simp add: Let_def DMA_zero_def DMA_CHANNEL_zero_def)
qed


end
