(* ===== verification/Pci.thy ===== *)
theory Pci
  imports Dma
begin

text \<open>
  The PCI configuration space of \<open>pci.c\<close>: the table of devices with their configuration bytes and
  base address registers (BARs), the access functions that decode a configuration address, the
  BAR writes that move the port and memory-mapped handlers of a device, and the interrupt lines.
  A device's own configuration handler is named by \<open>pci_dev\<close> and run by the argument \<open>run\<close>.
\<close>

section \<open>State\<close>

datatype pci_dev = I440fxPci | Piix3Pci | AcpiPci | IdePci | VgaPci

record pci_bar =
  bar_type :: BYTE
  bar_size :: DWORD
  bar_addr :: DWORD
  bar_mask :: ULONG64
  bar_WriteHandler :: "(port_dev + mmio_dev) option"
  bar_ReadHandler :: "(port_dev + mmio_dev) option"

record PCI =
  conf :: "BYTE list"
  bar :: "pci_bar list"
  initialized :: BYTE
  WritePciConfHandler :: "pci_dev option"
  ReadPciConfHandler :: "pci_dev option"

text \<open>Bus and device numbers are masked to a byte, so the table is a function of two bytes.\<close>

record pci_state = dma_state +
  PciDevices :: "BYTE \<Rightarrow> BYTE \<Rightarrow> PCI"

definition bar_zero :: pci_bar where
  "bar_zero = \<lparr>bar_type = 0, bar_size = 0, bar_addr = 0, bar_mask = 0, bar_WriteHandler = None, bar_ReadHandler = None\<rparr>"

definition PCI_zero :: PCI where
  "PCI_zero = \<lparr>conf = replicate 256 0, bar = replicate 6 bar_zero, initialized = 0,
     WritePciConfHandler = None, ReadPciConfHandler = None\<rparr>"

definition pci_zero :: pci_state where
  "pci_zero = dma_state.extend dma_zero (pci_state.fields (\<lambda>_ _. PCI_zero))"

definition BX_PCI_BAR_TYPE_NONE :: BYTE where "BX_PCI_BAR_TYPE_NONE = 0"
definition BX_PCI_BAR_TYPE_IO :: BYTE where "BX_PCI_BAR_TYPE_IO = 1"
definition BX_PCI_BAR_TYPE_MEM :: BYTE where "BX_PCI_BAR_TYPE_MEM = 2"

lemmas bar_types = BX_PCI_BAR_TYPE_NONE_def BX_PCI_BAR_TYPE_IO_def BX_PCI_BAR_TYPE_MEM_def

definition PCI_ADDRESS_TO_BUS :: "ULONG \<Rightarrow> BYTE" where
  "PCI_ADDRESS_TO_BUS address = ucast (drop_bit 16 address AND 0xff)"

definition PCI_ADDRESS_TO_FUNCTION_DEVICE :: "ULONG \<Rightarrow> BYTE" where
  "PCI_ADDRESS_TO_FUNCTION_DEVICE address = ucast (drop_bit 8 address AND 0xff)"

definition PCI_ADDRESS_TO_OFFSET :: "ULONG \<Rightarrow> BYTE" where
  "PCI_ADDRESS_TO_OFFSET address = ucast (address AND 0xff)"

definition BX_PCI_DEVICE :: "ULONG \<Rightarrow> ULONG \<Rightarrow> ULONG" where
  "BX_PCI_DEVICE device function = push_bit 3 device OR function"

definition PCI_DEVFUNC_OFFSET_TO_ADDRESS :: "ULONG \<Rightarrow> ULONG \<Rightarrow> ULONG \<Rightarrow> ULONG" where
  "PCI_DEVFUNC_OFFSET_TO_ADDRESS bus devFunc offset = push_bit 16 bus OR push_bit 8 devFunc OR offset"

definition upd_pci :: "BYTE \<Rightarrow> BYTE \<Rightarrow> (PCI \<Rightarrow> PCI) \<Rightarrow> 'z pci_state_scheme \<Rightarrow> 'z pci_state_scheme" where
  "upd_pci bus df f s = s\<lparr>PciDevices := (PciDevices s)(bus := (PciDevices s bus)(df := f (PciDevices s bus df)))\<rparr>"

definition get_conf :: "'z pci_state_scheme \<Rightarrow> BYTE \<Rightarrow> BYTE \<Rightarrow> nat \<Rightarrow> BYTE res" where
  "get_conf s bus df i = arr_get (conf (PciDevices s bus df)) i"

definition set_conf :: "BYTE \<Rightarrow> BYTE \<Rightarrow> nat \<Rightarrow> BYTE \<Rightarrow> 'z pci_state_scheme \<Rightarrow> 'z pci_state_scheme res" where
  "set_conf bus df i v s =
     bindE (arr_set (conf (PciDevices s bus df)) i v) (\<lambda>c. Inr (upd_pci bus df (\<lambda>p. p\<lparr>conf := c\<rparr>) s))"

text \<open>A store through \<open>*(ULONG*)&conf[i]\<close>.\<close>

definition set_conf32 :: "BYTE \<Rightarrow> BYTE \<Rightarrow> nat \<Rightarrow> ULONG \<Rightarrow> 'z pci_state_scheme \<Rightarrow> 'z pci_state_scheme res" where
  "set_conf32 bus df i v s = foldE (\<lambda>k. set_conf bus df (i + k) (ucast (drop_bit (8 * k) v))) [0 ..< 4] s"

definition get_bar :: "'z pci_state_scheme \<Rightarrow> BYTE \<Rightarrow> BYTE \<Rightarrow> nat \<Rightarrow> pci_bar res" where
  "get_bar s bus df n = arr_get (bar (PciDevices s bus df)) n"

definition upd_bar ::
  "BYTE \<Rightarrow> BYTE \<Rightarrow> nat \<Rightarrow> (pci_bar \<Rightarrow> pci_bar) \<Rightarrow> 'z pci_state_scheme \<Rightarrow> 'z pci_state_scheme res" where
  "upd_bar bus df n f s =
     bindE (get_bar s bus df n) (\<lambda>b.
     bindE (arr_set (bar (PciDevices s bus df)) n (f b)) (\<lambda>bs.
     Inr (upd_pci bus df (\<lambda>p. p\<lparr>bar := bs\<rparr>) s)))"

definition port_fn :: "(port_dev + mmio_dev) option \<Rightarrow> port_dev option" where
  "port_fn h = (case h of Some (Inl d) \<Rightarrow> Some d | _ \<Rightarrow> None)"

definition mmio_fn :: "(port_dev + mmio_dev) option \<Rightarrow> mmio_dev option" where
  "mmio_fn h = (case h of Some (Inr d) \<Rightarrow> Some d | _ \<Rightarrow> None)"

section \<open>Setting up\<close>

definition PciInitialize :: "'z pci_state_scheme \<Rightarrow> 'z pci_state_scheme" where
  "PciInitialize s = s\<lparr>PciDevices := (\<lambda>_ _. PCI_zero\<lparr>conf := replicate 256 0xff\<rparr>)\<rparr>"

text \<open>The result is the returned status; the two bound checks on bytes never fail.\<close>

definition PciRegisterConfigHandler ::
  "'z pci_state_scheme \<Rightarrow> ULONG \<Rightarrow> pci_dev \<Rightarrow> bool \<times> 'z pci_state_scheme" where
  "PciRegisterConfigHandler s PciAddress d =
     (let bus = PCI_ADDRESS_TO_BUS PciAddress; df = PCI_ADDRESS_TO_FUNCTION_DEVICE PciAddress
      in if initialized (PciDevices s bus df) \<noteq> 0 then (False, s)
         else (True, upd_pci bus df (\<lambda>p. p\<lparr>initialized := 1, WritePciConfHandler := Some d, ReadPciConfHandler := Some d\<rparr>) s))"

text \<open>\<open>memset(conf, 0, 0xff)\<close> leaves the last byte.\<close>

definition PciInitConfig ::
  "'z pci_state_scheme \<Rightarrow> ULONG \<Rightarrow> USHORT \<Rightarrow> USHORT \<Rightarrow> BYTE \<Rightarrow> ULONG \<Rightarrow> BYTE \<Rightarrow> BYTE \<Rightarrow> BYTE \<Rightarrow> 'z pci_state_scheme res" where
  "PciInitConfig s PciAddress vendor device revision class progIf type interruptPin =
     (let bus = PCI_ADDRESS_TO_BUS PciAddress; df = PCI_ADDRESS_TO_FUNCTION_DEVICE PciAddress
      in if initialized (PciDevices s bus df) = 0 then Inl Exit
         else bindE (foldE (\<lambda>i. set_conf bus df i 0) [0 ..< 0xff] s)
              (foldE (\<lambda>(i, v). set_conf bus df i v)
                [(0x00, ucast (vendor AND 0xff)), (0x01, ucast (drop_bit 8 vendor)),
                 (0x02, ucast (device AND 0xff)), (0x03, ucast (drop_bit 8 device)),
                 (0x08, revision), (0x09, progIf), (0x0a, ucast (class AND 0xff)),
                 (0x0b, ucast (drop_bit 8 class AND 0xff)), (0x0e, type), (0x3d, interruptPin)]))"

definition pci_set_bar ::
  "'z pci_state_scheme \<Rightarrow> ULONG \<Rightarrow> BYTE \<Rightarrow> pci_bar \<Rightarrow> ULONG \<Rightarrow> 'z pci_state_scheme res" where
  "pci_set_bar s PciAddress barNumber b confValue =
     (let bus = PCI_ADDRESS_TO_BUS PciAddress; df = PCI_ADDRESS_TO_FUNCTION_DEVICE PciAddress
      in if barNumber < 6
         then bindE (upd_bar bus df (unat barNumber) (\<lambda>_. b) s)
                (set_conf32 bus df (0x10 + unat barNumber * 4) confValue)
         else Inr s)"

definition PciSetBarIo ::
  "'z pci_state_scheme \<Rightarrow> ULONG \<Rightarrow> BYTE \<Rightarrow> ULONG \<Rightarrow> USHORT \<Rightarrow> port_dev option \<Rightarrow> port_dev option \<Rightarrow> ULONG64 \<Rightarrow>
   'z pci_state_scheme res" where
  "PciSetBarIo s PciAddress barNumber barAddress sz r w msk =
     pci_set_bar s PciAddress barNumber
       \<lparr>bar_type = BX_PCI_BAR_TYPE_IO, bar_size = ucast sz, bar_addr = barAddress, bar_mask = msk,
        bar_WriteHandler = map_option Inl w, bar_ReadHandler = map_option Inl r\<rparr> (barAddress OR 0x01)"

text \<open>The memory variant leaves the mask of the register as it was.\<close>

definition PciSetBarMmio ::
  "'z pci_state_scheme \<Rightarrow> ULONG \<Rightarrow> BYTE \<Rightarrow> ULONG \<Rightarrow> DWORD \<Rightarrow> mmio_dev option \<Rightarrow> mmio_dev option \<Rightarrow>
   'z pci_state_scheme res" where
  "PciSetBarMmio s PciAddress barNumber barAddress sz r w =
     (let bus = PCI_ADDRESS_TO_BUS PciAddress; df = PCI_ADDRESS_TO_FUNCTION_DEVICE PciAddress
      in if barNumber < 6
         then bindE (get_bar s bus df (unat barNumber)) (\<lambda>old.
              pci_set_bar s PciAddress barNumber
                \<lparr>bar_type = BX_PCI_BAR_TYPE_MEM, bar_size = sz, bar_addr = barAddress, bar_mask = bar_mask old,
                 bar_WriteHandler = map_option Inr w, bar_ReadHandler = map_option Inr r\<rparr> barAddress)
         else Inr s)"

section \<open>Writes to a base address register\<close>

text \<open>The byte loop: the new bytes, and whether one of them changed.\<close>

definition pci_bar_byte :: "pci_bar \<Rightarrow> nat \<Rightarrow> BYTE \<Rightarrow> BYTE \<Rightarrow> BYTE" where
  "pci_bar_byte b i value8 oldval =
     (if i = 0
      then if bar_type b = BX_PCI_BAR_TYPE_IO then (value8 AND 0xfc) OR 0x01 else (value8 AND 0xf0) OR (oldval AND 0x0f)
      else value8)"

definition pci_bar_bytes ::
  "BYTE \<Rightarrow> BYTE \<Rightarrow> nat \<Rightarrow> pci_bar \<Rightarrow> ULONG \<Rightarrow> nat \<Rightarrow> 'z pci_state_scheme \<Rightarrow> (bool \<times> 'z pci_state_scheme) res" where
  "pci_bar_bytes bus df offset b val len s =
     foldE (\<lambda>i (change, s).
        if 32 \<le> i * 8 then Inl BadShift
        else bindE (get_conf s bus df (offset + i)) (\<lambda>oldval.
             let value8 = pci_bar_byte b i (ucast (drop_bit (i * 8) val AND 0xff)) oldval
             in bindE (set_conf bus df (offset + i) value8 s) (\<lambda>s. Inr (change \<or> value8 \<noteq> oldval, s))))
       [0 ..< len] (False, s)"

text \<open>
  The loop that moves the ports of a BAR. \<open>(1ULL << i)\<close> needs \<open>i < 64\<close>. The result says whether the
  function returned from inside the loop.
\<close>

fun pci_move_ports ::
  "env \<Rightarrow> BYTE \<Rightarrow> BYTE \<Rightarrow> nat \<Rightarrow> nat \<Rightarrow> ULONG \<Rightarrow> nat list \<Rightarrow> 'z pci_state_scheme \<Rightarrow> (bool \<times> 'z pci_state_scheme) res" where
  "pci_move_ports env bus df offset n val [] s = Inr (False, s)"
| "pci_move_ports env bus df offset n val (i # is) s =
     bindE (get_bar s bus df n) (\<lambda>b.
     if 64 \<le> i then Inl BadShift
     else if testw (bar_mask b) (lsh1 i) then pci_move_ports env bus df offset n val is s
     else bindE (if bar_addr b \<noteq> 0 then RemovePortIoHandler s (bar_addr b + of_nat i) else Inr s) (\<lambda>s.
          if val AND NOT 3 = 0
          then bindE (upd_bar bus df n (\<lambda>b. b\<lparr>bar_addr := 0\<rparr>) s) (\<lambda>s.
               bindE (set_conf32 bus df offset (ucast BX_PCI_BAR_TYPE_IO) s) (\<lambda>s. Inr (True, s)))
          else bindE (RegisterPortIoHandler env s ((val AND NOT 3) + of_nat i)
                        (port_fn (bar_WriteHandler b)) (port_fn (bar_ReadHandler b)))
                 (pci_move_ports env bus df offset n val is)))"

fun pci_move_mmio ::
  "env \<Rightarrow> BYTE \<Rightarrow> BYTE \<Rightarrow> nat \<Rightarrow> nat \<Rightarrow> ULONG \<Rightarrow> nat list \<Rightarrow> 'z pci_state_scheme \<Rightarrow> (bool \<times> 'z pci_state_scheme) res" where
  "pci_move_mmio env bus df offset n val [] s = Inr (False, s)"
| "pci_move_mmio env bus df offset n val (i # is) s =
     bindE (get_bar s bus df n) (\<lambda>b.
     bindE (if bar_addr b \<noteq> 0 then MmioRemoveHandler env s (bar_addr b + of_nat i) else Inr s) (\<lambda>s.
     if val AND NOT 3 = 0
     then bindE (upd_bar bus df n (\<lambda>b. b\<lparr>bar_addr := 0\<rparr>) s) (\<lambda>s.
          bindE (set_conf32 bus df offset 0 s) (\<lambda>s. Inr (True, s)))
     else bindE (MmioRegisterHandler env s ((val AND NOT 3) + of_nat i) 0x1000
                   (mmio_fn (bar_WriteHandler b)) (mmio_fn (bar_ReadHandler b)))
            (pci_move_mmio env bus df offset n val is)))"

text \<open>A write of all ones asks for the size: the bytes become the size mask.\<close>

definition pci_size_io :: "BYTE \<Rightarrow> BYTE \<Rightarrow> nat \<Rightarrow> pci_bar \<Rightarrow> 'z pci_state_scheme \<Rightarrow> 'z pci_state_scheme res" where
  "pci_size_io bus df offset b s =
     (let msk = NOT (bar_size b - 1)
      in foldE (\<lambda>(i, v). set_conf bus df (offset + i) v)
           [(0, ucast (msk AND 0xfc) OR BX_PCI_BAR_TYPE_IO), (1, ucast (drop_bit 8 msk)),
            (2, ucast (drop_bit 16 msk)), (3, ucast (drop_bit 24 msk))] s)"

definition pci_size_mem :: "BYTE \<Rightarrow> BYTE \<Rightarrow> nat \<Rightarrow> pci_bar \<Rightarrow> 'z pci_state_scheme \<Rightarrow> 'z pci_state_scheme res" where
  "pci_size_mem bus df offset b s =
     (let msk = NOT (bar_size b - 1)
      in foldE (\<lambda>(i, v) s. bindE (get_conf s bus df (offset + i)) (\<lambda>c. set_conf bus df (offset + i) (c AND v) s))
           [(3, ucast (msk AND 0xfc)), (2, ucast (drop_bit 8 msk)),
            (1, ucast (drop_bit 16 msk)), (0, ucast (drop_bit 24 msk))] s)"

definition pci_write_bar ::
  "env \<Rightarrow> BYTE \<Rightarrow> BYTE \<Rightarrow> BYTE \<Rightarrow> ULONG \<Rightarrow> ULONG \<Rightarrow> 'z pci_state_scheme \<Rightarrow> 'z pci_state_scheme res" where
  "pci_write_bar env bus df offset val len s =
     (let n = unat (drop_bit 2 (offset - 0x10)); off = unat offset
      in bindE (get_bar s bus df n) (\<lambda>b.
         if bar_type b = BX_PCI_BAR_TYPE_NONE then Inr s
         else bindE (pci_bar_bytes bus df off b val (unat len) s) (\<lambda>(change, s).
         if \<not> change then Inr s
         else if val = 0xffffffff
         then if bar_type b = BX_PCI_BAR_TYPE_IO then pci_size_io bus df off b s else pci_size_mem bus df off b s
         else bindE (if bar_type b = BX_PCI_BAR_TYPE_IO
                     then pci_move_ports env bus df off n val [0 ..< unat (bar_size b)] s
                     else pci_move_mmio env bus df off n val (map (\<lambda>k. k * 0x10000) [0 ..< (unat (bar_size b) + 0xffff) div 0x10000]) s)
                (\<lambda>(returned, s). if returned then Inr s else upd_bar bus df n (\<lambda>b. b\<lparr>bar_addr := val AND NOT 3\<rparr>) s))))"

section \<open>Configuration accesses\<close>

definition pci_bad_offset :: "BYTE \<Rightarrow> ULONG \<Rightarrow> bool" where
  "pci_bad_offset offset len \<longleftrightarrow> offset = 0xff \<or> ucast offset + len < ucast offset \<or> ucast offset + len \<ge> 0xff"

definition pci_is_bar :: "PCI \<Rightarrow> BYTE \<Rightarrow> bool" where
  "pci_is_bar p offset \<longleftrightarrow> (conf p ! 0x0e) AND 3 = 0 \<and> 0x10 \<le> offset \<and> offset \<le> 0x24"

type_synonym 's pci_run = "pci_dev \<Rightarrow> BYTE \<Rightarrow> BYTE \<Rightarrow> BYTE \<Rightarrow> ULONG \<Rightarrow> ULONG \<Rightarrow> 's \<Rightarrow> 's res"

definition PciWriteConfHandler ::
  "env \<Rightarrow> ('z pci_state_scheme) pci_run \<Rightarrow> ULONG \<Rightarrow> ULONG \<Rightarrow> ULONG \<Rightarrow> 'z pci_state_scheme \<Rightarrow> 'z pci_state_scheme res" where
  "PciWriteConfHandler env run address val len s =
     (let df = PCI_ADDRESS_TO_FUNCTION_DEVICE address; offset = PCI_ADDRESS_TO_OFFSET address;
          bus = PCI_ADDRESS_TO_BUS address; p = PciDevices s bus df
      in if initialized p = 0 then Inr s
         else if pci_bad_offset offset len then Inr s
         else if pci_is_bar p offset then pci_write_bar env bus df offset val len s
         else if offset = 0x30 then Inr s
         else if offset = 0x3c
         then bindE (set_conf bus df 0x3c (ucast (val AND 0xff)) s) (set_conf bus df 0x3d 1)
         else case WritePciConfHandler p of None \<Rightarrow> Inl NullCall | Some d \<Rightarrow> run d bus df offset val len s)"

definition PciReadConfHandler :: "ULONG \<Rightarrow> ULONG \<Rightarrow> 'z pci_state_scheme \<Rightarrow> ULONG res" where
  "PciReadConfHandler address len s =
     (let df = PCI_ADDRESS_TO_FUNCTION_DEVICE address; offset = PCI_ADDRESS_TO_OFFSET address;
          bus = PCI_ADDRESS_TO_BUS address; p = PciDevices s bus df
      in if pci_bad_offset offset len then Inl Exit
         else bindE (if pci_is_bar p offset
                     then bindE (get_bar s bus df (unat (drop_bit 2 (offset - 0x10)))) (\<lambda>b. Inr (bar_type b = BX_PCI_BAR_TYPE_NONE))
                     else Inr False) (\<lambda>none.
              if none \<or> offset = 0x30 then Inr 0
              else foldE (\<lambda>i v. if 32 \<le> i * 8 then Inl BadShift
                                else bindE (get_conf s bus df (unat offset + i)) (\<lambda>c. Inr (v OR push_bit (i * 8) (ucast c))))
                     [0 ..< unat len] 0))"

section \<open>Interrupts\<close>

definition PciSetIrq :: "env \<Rightarrow> ULONG \<Rightarrow> BYTE \<Rightarrow> bool \<Rightarrow> 'z pci_state_scheme \<Rightarrow> 'z pci_state_scheme res" where
  "PciSetIrq env PciAddress irqNumber raised s =
     (let bus = PCI_ADDRESS_TO_BUS PciAddress; df = PCI_ADDRESS_TO_FUNCTION_DEVICE PciAddress;
          irq = (drop_bit 3 df + irqNumber - 2) AND 3
      in bindE (if raised then IoApicRaiseIrq env s (irqNumber + irq) else Inr (IoApicLowerIrq s (irqNumber + irq))) (\<lambda>s.
         bindE (get_conf s bus df (0x60 + unat irq)) (\<lambda>irq.
         if irq < 16 \<and> testw (lsh1 (unat irq) :: DWORD) 0xdef8
         then if raised then PicRaiseIrq env s irq else Inr (PicLowerIrq s irq)
         else Inr s)))"

section \<open>Configuration bytes\<close>

definition pci_ok :: "'z pci_state_scheme \<Rightarrow> bool" where
  "pci_ok s \<longleftrightarrow> (\<forall>bus df. length (conf (PciDevices s bus df)) = 256 \<and> length (bar (PciDevices s bus df)) = 6)"

definition conf32 :: "PCI \<Rightarrow> nat \<Rightarrow> ULONG" where
  "conf32 p off = ucast (conf p ! off) OR push_bit 8 (ucast (conf p ! (off + 1)))
     OR push_bit 16 (ucast (conf p ! (off + 2))) OR push_bit 24 (ucast (conf p ! (off + 3)))"

definition put_conf32 :: "nat \<Rightarrow> ULONG \<Rightarrow> PCI \<Rightarrow> PCI" where
  "put_conf32 off v p = p\<lparr>conf := (conf p)[off := ucast v, off + 1 := ucast (drop_bit 8 v),
     off + 2 := ucast (drop_bit 16 v), off + 3 := ucast (drop_bit 24 v)]\<rparr>"

lemma upd_pci_simps [simp]:
  "PciDevices (upd_pci bus df f s) bus df = f (PciDevices s bus df)"
  "upd_pci bus df f (upd_pci bus df g s) = upd_pci bus df (\<lambda>p. f (g p)) s"
  "b \<noteq> bus \<or> d \<noteq> df \<Longrightarrow> PciDevices (upd_pci bus df f s) b d = PciDevices s b d"
  by (simp_all add: upd_pci_def)

lemma upd_pci_id [simp]: "upd_pci bus df (\<lambda>p. p) s = s"
  by (simp add: upd_pci_def)

lemma pci_ok_cong: "PciDevices t = PciDevices s \<Longrightarrow> pci_ok t = pci_ok s"
  by (simp only: pci_ok_def)

lemma pci_okD [simp]:
  "pci_ok s \<Longrightarrow> length (conf (PciDevices s bus df)) = 256"
  "pci_ok s \<Longrightarrow> length (bar (PciDevices s bus df)) = 6"
  by (simp_all add: pci_ok_def)

lemma PciDevices_upd:
  "PciDevices (upd_pci bus df f s) b d = (if b = bus \<and> d = df then f (PciDevices s b d) else PciDevices s b d)"
  by simp

lemma pci_ok_upd:
  assumes "pci_ok s" and "length (conf (f (PciDevices s bus df))) = 256" and "length (bar (f (PciDevices s bus df))) = 6"
  shows "pci_ok (upd_pci bus df f s)"
  using assms unfolding pci_ok_def PciDevices_upd by simp

lemma get_conf_ok [simp]:
  "pci_ok s \<Longrightarrow> i < 256 \<Longrightarrow> get_conf s bus df i = Inr (conf (PciDevices s bus df) ! i)"
  by (simp add: get_conf_def)

lemma set_conf_ok:
  "i < length (conf (PciDevices s bus df)) \<Longrightarrow>
   set_conf bus df i v s = Inr (upd_pci bus df (\<lambda>p. p\<lparr>conf := (conf p)[i := v]\<rparr>) s)"
  by (simp add: set_conf_def upd_pci_def)

lemma upto4: "[0 ..< 4] = [0, 1, 2, 3 :: nat]"
  by (simp add: upt_rec)

lemma put_conf32_frame [simp]:
  "length (conf (put_conf32 off v p)) = length (conf p)" "bar (put_conf32 off v p) = bar p"
  "initialized (put_conf32 off v p) = initialized p"
  "WritePciConfHandler (put_conf32 off v p) = WritePciConfHandler p"
  "ReadPciConfHandler (put_conf32 off v p) = ReadPciConfHandler p"
  by (simp_all add: put_conf32_def)

lemma put_conf32_same [simp]: "put_conf32 off v (put_conf32 off w p) = put_conf32 off v p"
  by (rule PCI.equality) (simp_all add: put_conf32_def list_update_swap)

lemma set_conf32_ok:
  "off + 3 < length (conf (PciDevices s bus df)) \<Longrightarrow>
   set_conf32 bus df off v s = Inr (upd_pci bus df (put_conf32 off v) s)"
  by (simp add: set_conf32_def upto4 set_conf_ok put_conf32_def [abs_def])

lemma split_bytes:
  "ucast (ucast v :: BYTE) OR push_bit 8 (ucast (ucast (drop_bit 8 v) :: BYTE)) OR push_bit 16 (ucast (ucast (drop_bit 16 v) :: BYTE))
     OR push_bit 24 (ucast (ucast (drop_bit 24 v) :: BYTE)) = (v :: ULONG)"
proof (rule bit_word_eqI)
  fix n assume "n < LENGTH(32)"
  then have "n < 8 \<or> 8 \<le> n \<and> n < 16 \<or> 16 \<le> n \<and> n < 24 \<or> 24 \<le> n \<and> n < 32" by auto
  then show "bit (ucast (ucast v :: BYTE) OR push_bit 8 (ucast (ucast (drop_bit 8 v) :: BYTE)) OR push_bit 16 (ucast (ucast (drop_bit 16 v) :: BYTE))
     OR push_bit 24 (ucast (ucast (drop_bit 24 v) :: BYTE)) :: ULONG) n = bit v n"
    by (auto simp: bit_simps)
qed

lemma conf32_put:
  "off + 3 < length (conf p) \<Longrightarrow> conf32 (put_conf32 off v p) off = v"
  by (simp add: conf32_def put_conf32_def split_bytes)

lemma bit_BYTE_high: "8 \<le> n \<Longrightarrow> \<not> bit (a :: BYTE) n"
  by (auto dest: bit_imp_le_length)

lemma join_bytes:
  fixes a b c d :: BYTE
  defines "v \<equiv> (ucast a OR push_bit 8 (ucast b) OR push_bit 16 (ucast c) OR push_bit 24 (ucast d) :: ULONG)"
  shows "ucast v = a" "ucast (drop_bit 8 v) = b" "ucast (drop_bit 16 v) = c" "ucast (drop_bit 24 v) = d"
  unfolding v_def by (rule bit_word_eqI, simp add: bit_simps bit_BYTE_high)+

lemma conf32_bytes:
  "ucast (conf32 p off) = conf p ! off" "ucast (drop_bit 8 (conf32 p off)) = conf p ! (off + 1)"
  "ucast (drop_bit 16 (conf32 p off)) = conf p ! (off + 2)" "ucast (drop_bit 24 (conf32 p off)) = conf p ! (off + 3)"
  unfolding conf32_def by (rule join_bytes)+

section \<open>Programming an I/O base address register\<close>

text \<open>The value a register of four bytes holds after the guest writes \<open>val\<close>.\<close>

definition bar_value :: "pci_bar \<Rightarrow> ULONG \<Rightarrow> ULONG \<Rightarrow> ULONG" where
  "bar_value b val old = (if bar_type b = BX_PCI_BAR_TYPE_IO then (val AND NOT 3) OR 1 else (val AND NOT 0xf) OR (old AND 0xf))"

lemma bar_value_bytes:
  "ucast (bar_value b val old) = pci_bar_byte b 0 (ucast val) (ucast old)"
  "ucast (drop_bit 8 (bar_value b val old)) = (ucast (drop_bit 8 val) :: BYTE)"
  "ucast (drop_bit 16 (bar_value b val old)) = (ucast (drop_bit 16 val) :: BYTE)"
  "ucast (drop_bit 24 (bar_value b val old)) = (ucast (drop_bit 24 val) :: BYTE)"
proof -
  have m: "(3 :: 'a::len word) = mask 2" "(0xf :: 'a::len word) = mask 4" "(0xfc :: BYTE) = NOT (mask 2)" "(0xf0 :: BYTE) = NOT (mask 4)"
    by (simp_all add: mask_eq_exp_minus_1)
  show "ucast (bar_value b val old) = pci_bar_byte b 0 (ucast val) (ucast old)"
    unfolding bar_value_def pci_bar_byte_def m by (auto intro!: bit_word_eqI simp: bit_simps)
  show "ucast (drop_bit 8 (bar_value b val old)) = (ucast (drop_bit 8 val) :: BYTE)"
    "ucast (drop_bit 16 (bar_value b val old)) = (ucast (drop_bit 16 val) :: BYTE)"
    "ucast (drop_bit 24 (bar_value b val old)) = (ucast (drop_bit 24 val) :: BYTE)"
    unfolding bar_value_def m by (auto intro!: bit_word_eqI simp: bit_simps)
qed

lemma ucast_and_ff: "(ucast (v AND 0xff) :: BYTE) = ucast (v :: ULONG)"
proof -
  have m: "(0xff :: ULONG) = mask 8" by (simp add: mask_eq_exp_minus_1)
  show ?thesis unfolding m by (auto intro!: bit_word_eqI simp: bit_simps)
qed

lemma conf32_eqI:
  "conf32 p off = v \<longleftrightarrow> conf p ! off = ucast v \<and> conf p ! (off + 1) = ucast (drop_bit 8 v) \<and>
    conf p ! (off + 2) = ucast (drop_bit 16 v) \<and> conf p ! (off + 3) = ucast (drop_bit 24 v)" (is "?l = ?r")
proof
  assume ?l
  then show ?r using conf32_bytes [of p off] by auto
next
  assume ?r
  then show ?l by (simp add: conf32_def split_bytes)
qed

lemma pci_bar_bytes_4:
  fixes s :: "'z pci_state_scheme" and bus df :: BYTE and val :: ULONG and b :: pci_bar
  assumes ok: "pci_ok s" and off: "off + 3 < 256"
  defines "p \<equiv> PciDevices s bus df"
  defines "v \<equiv> bar_value b val (conf32 p off)"
  shows "pci_bar_bytes bus df off b val 4 s = Inr (conf32 p off \<noteq> v, upd_pci bus df (put_conf32 off v) s)"
proof -
  have l: "length (conf p) = 256" using ok by (simp add: p_def)
  have byte: "pci_bar_byte b (Suc n) x y = x" for n x y by (simp add: pci_bar_byte_def)
  have g: "get_conf (upd_pci bus df f s) bus df i = Inr (conf (f p) ! i)" if "i < length (conf (f p))" for f i
    using that by (simp add: get_conf_def p_def)
  have c: "set_conf bus df i x (upd_pci bus df f s) = Inr (upd_pci bus df (\<lambda>p. (f p)\<lparr>conf := (conf (f p))[i := x]\<rparr>) s)"
    if "i < length (conf (f p))" for f i x
    using that by (simp add: set_conf_ok p_def)
  have s: "get_conf s bus df off = Inr (conf p ! off)" using ok off by (simp add: p_def)
  have s': "set_conf bus df off x s = Inr (upd_pci bus df (\<lambda>p. p\<lparr>conf := (conf p)[off := x]\<rparr>) s)" for x
    using ok off by (intro set_conf_ok) simp
  have v: "pci_bar_byte b 0 (ucast val) (conf p ! off) = ucast v" "ucast (drop_bit 8 val) = (ucast (drop_bit 8 v) :: BYTE)"
    "ucast (drop_bit 16 val) = (ucast (drop_bit 16 v) :: BYTE)" "ucast (drop_bit 24 val) = (ucast (drop_bit 24 v) :: BYTE)"
    using bar_value_bytes [of b val "conf32 p off"] conf32_bytes(1) [of p off] by (simp_all add: v_def)
  show ?thesis unfolding pci_bar_bytes_def conf32_eqI put_conf32_def [abs_def]
    using off l by (simp add: upto4 s s' g c byte ucast_and_ff v Let_def numeral_3_eq_3 numeral_2_eq_2) metis
qed

text \<open>The ports of a register at a base address: its size in ports, less the masked ones.\<close>

definition bar_ports :: "pci_bar \<Rightarrow> ULONG \<Rightarrow> nat list \<Rightarrow> ULONG set" where
  "bar_ports b base is = (\<lambda>i. base + of_nat i) ` {i \<in> set is. \<not> bit (bar_mask b) i}"

lemma bar_ports_simps [simp]:
  "bar_ports b base [] = {}"
  "bit (bar_mask b) i \<Longrightarrow> bar_ports b base (i # is) = bar_ports b base is"
  "\<not> bit (bar_mask b) i \<Longrightarrow> bar_ports b base (i # is) = insert (base + of_nat i) (bar_ports b base is)"
  by (auto simp: bar_ports_def)

definition ports_only :: "'z io_state_scheme \<Rightarrow> 'z io_state_scheme \<Rightarrow> bool" where
  "ports_only s t \<longleftrightarrow> (\<exists>bm w r. t = s\<lparr>PortIoBitmap := bm, WritePortHandlers := w, ReadPortHandlers := r\<rparr>)"

lemma ports_only_refl [simp]: "ports_only s s"
  unfolding ports_only_def by (rule exI [of _ "PortIoBitmap s"], rule exI [of _ "WritePortHandlers s"], rule exI [of _ "ReadPortHandlers s"]) simp

lemma ports_only_trans: "ports_only s t \<Longrightarrow> ports_only t u \<Longrightarrow> ports_only s u"
  by (auto simp: ports_only_def) metis

lemma ports_only_pci: "ports_only s t \<Longrightarrow> PciDevices t = PciDevices (s :: 'z pci_state_scheme)"
  by (auto simp: ports_only_def)

text \<open>One registration and one removal, with what they leave alone.\<close>

lemma register_port:
  assumes "wf_ports s" and "port_usable a" and "port_lookup s a = None"
  obtains t where "RegisterPortIoHandler env s a w r = Inr t" "wf_ports t" "ports_only s t"
    "\<And>c. port_usable c \<Longrightarrow> port_lookup t c = (if c = a then Some (w, r) else port_lookup s c)"
proof -
  obtain bm where "RegisterPortIoHandler env s a w r = Inr (s\<lparr>PortIoBitmap := bm,
       WritePortHandlers := (WritePortHandlers s)(unat a := w), ReadPortHandlers := (ReadPortHandlers s)(unat a := r)\<rparr>)" (is "_ = Inr ?t")
    using RegisterPortIoHandler_free [OF assms] by metis
  moreover have "ports_only s ?t" unfolding ports_only_def by blast
  ultimately show thesis using ports.reg_free [OF assms, where w = w and r = r and env = env] by (intro that) (auto simp: port_entry_eq)
qed

lemma remove_port:
  assumes "wf_ports s" and "port_usable a" and "port_lookup s a \<noteq> None"
  obtains t where "RemovePortIoHandler s a = Inr t" "wf_ports t" "ports_only s t"
    "\<And>c. port_usable c \<Longrightarrow> port_lookup t c = (if c = a then None else port_lookup s c)"
proof -
  obtain t where t: "RemovePortIoHandler s a = Inr t" using ports.rem_taken [OF assms] by (auto simp: specE_total)
  moreover have "ports_only s t" using t
    by (auto simp: RemovePortIoHandler_def ports_only_def bindE_eq_Inr_iff split: if_splits)
  ultimately show thesis using ports.rem_taken [OF assms] by (intro that) (auto simp: port_entry_eq)
qed

lemma of_nat_small_eq: "(of_nat i :: ULONG) = of_nat j \<Longrightarrow> i < 64 \<Longrightarrow> j < 64 \<Longrightarrow> i = j"
  by (drule arg_cong [of _ _ unat]) (simp add: unat_of_nat)

text \<open>The whole loop: the old ports are freed and the new ones taken, as maps.\<close>

lemma pci_move_ports_spec:
  assumes "wf_ports s" and "get_bar s bus df n = Inr b" and "val AND NOT 3 \<noteq> 0"
    and "distinct is" and "\<And>i. i \<in> set is \<Longrightarrow> i < 64"
    and "\<And>a. a \<in> bar_ports b (val AND NOT 3) is \<Longrightarrow> port_usable a \<and> port_lookup s a = None"
    and "\<And>a. bar_addr b \<noteq> 0 \<Longrightarrow> a \<in> bar_ports b (bar_addr b) is \<Longrightarrow> port_usable a \<and> port_lookup s a \<noteq> None"
  shows "\<exists>t. pci_move_ports env bus df off n val is s = Inr (False, t) \<and> ports_only s t \<and> wf_ports t \<and>
    (\<forall>a. port_usable a \<longrightarrow> port_lookup t a =
      (if a \<in> bar_ports b (val AND NOT 3) is then Some (port_fn (bar_WriteHandler b), port_fn (bar_ReadHandler b))
       else if bar_addr b \<noteq> 0 \<and> a \<in> bar_ports b (bar_addr b) is then None else port_lookup s a))"
  using assms
proof (induction "is" arbitrary: s)
  case Nil
  then show ?case by auto
next
  case (Cons i "is")
  let ?new = "val AND NOT 3"
  have i: "i < 64" using Cons.prems(5) by simp
  have bar: "get_bar t bus df n = Inr b" if "ports_only s t" for t
    using that Cons.prems(2) by (simp add: get_bar_def ports_only_pci)
  show ?case
  proof (cases "bit (bar_mask b) i")
    case True
    have "pci_move_ports env bus df off n val (i # is) s = pci_move_ports env bus df off n val is s"
      using Cons.prems(2) i True by simp
    moreover note Cons.IH [OF Cons.prems(1-3)]
    ultimately show ?thesis using Cons.prems(4-7) unfolding bar_ports_simps(2) [of b i, OF True] by simp
  next
    case False
    have fresh: "base + of_nat i \<notin> bar_ports b base is" for base
    proof
      assume "base + of_nat i \<in> bar_ports b base is"
      then obtain j where "j \<in> set is" "(of_nat i :: ULONG) = of_nat j" by (auto simp: bar_ports_def)
      moreover from this have "i = j" using i Cons.prems(5) by (intro of_nat_small_eq) auto
      ultimately show False using Cons.prems(4) by simp
    qed
    obtain t1 where t1: "(if bar_addr b \<noteq> 0 then RemovePortIoHandler s (bar_addr b + of_nat i) else Inr s) = Inr t1"
        "wf_ports t1" "ports_only s t1"
        "\<And>c. port_usable c \<Longrightarrow> port_lookup t1 c = (if bar_addr b \<noteq> 0 \<and> c = bar_addr b + of_nat i then None else port_lookup s c)"
    proof (cases "bar_addr b = 0")
      case False
      then show thesis using remove_port [OF Cons.prems(1), of "bar_addr b + of_nat i"] Cons.prems(7) \<open>\<not> bit (bar_mask b) i\<close>
        by (metis bar_ports_simps(3) insertI1 that)
    qed (use Cons.prems(1) that in auto)
    have n: "port_usable (?new + of_nat i)" "port_lookup t1 (?new + of_nat i) = None"
      using Cons.prems(6) [of "?new + of_nat i"] False t1(4) [of "?new + of_nat i"] by (auto split: if_splits)
    obtain t2 where t2: "RegisterPortIoHandler env t1 (?new + of_nat i) (port_fn (bar_WriteHandler b)) (port_fn (bar_ReadHandler b)) = Inr t2"
        "wf_ports t2" "ports_only t1 t2"
        "\<And>c. port_usable c \<Longrightarrow> port_lookup t2 c = (if c = ?new + of_nat i
           then Some (port_fn (bar_WriteHandler b), port_fn (bar_ReadHandler b)) else port_lookup t1 c)"
      using register_port [OF t1(2) n] by metis
    have s2: "ports_only s t2" using t1(3) t2(3) by (rule ports_only_trans)
    have step: "pci_move_ports env bus df off n val (i # is) s = pci_move_ports env bus df off n val is t2"
      using Cons.prems(2,3) i False t1(1) t2(1) by simp
    have new: "port_usable a \<and> port_lookup t2 a = None" if "a \<in> bar_ports b ?new is" for a
      using that Cons.prems(6) [of a] fresh [of ?new] False t1(4) [of a] t2(4) [of a] by (auto split: if_splits)
    have old: "port_usable a \<and> port_lookup t2 a \<noteq> None" if "bar_addr b \<noteq> 0" "a \<in> bar_ports b (bar_addr b) is" for a
      using that Cons.prems(7) [of a] fresh [of "bar_addr b"] False t1(4) [of a] t2(4) [of a] by (auto split: if_splits)
    obtain t where t: "pci_move_ports env bus df off n val is t2 = Inr (False, t)" "ports_only t2 t" "wf_ports t"
      "\<And>a. port_usable a \<Longrightarrow> port_lookup t a =
      (if a \<in> bar_ports b ?new is then Some (port_fn (bar_WriteHandler b), port_fn (bar_ReadHandler b))
       else if bar_addr b \<noteq> 0 \<and> a \<in> bar_ports b (bar_addr b) is then None else port_lookup t2 a)"
      using Cons.IH [OF t2(2) bar [OF s2] Cons.prems(3) _ _ new old] Cons.prems(4,5) by auto
    have "ports_only s t" using s2 t(2) by (rule ports_only_trans)
    moreover have "port_lookup t a = (if a \<in> bar_ports b ?new (i # is) then Some (port_fn (bar_WriteHandler b), port_fn (bar_ReadHandler b))
       else if bar_addr b \<noteq> 0 \<and> a \<in> bar_ports b (bar_addr b) (i # is) then None else port_lookup s a)" if "port_usable a" for a
      using that t(4) [of a] t2(4) [of a] t1(4) [of a] False Cons.prems(6,7) [of a] by auto
    ultimately show ?thesis using step t(1,3) by auto
  qed
qed

text \<open>Configuration addresses as the source builds them, and the offset of a base address register.\<close>

abbreviation pci_addr :: "BYTE \<Rightarrow> BYTE \<Rightarrow> BYTE \<Rightarrow> ULONG" where
  "pci_addr bus df off \<equiv> PCI_DEVFUNC_OFFSET_TO_ADDRESS (ucast bus) (ucast df) (ucast off)"

definition bar_off :: "nat \<Rightarrow> BYTE" where
  "bar_off n = 0x10 + 4 * of_nat n"

lemma pci_addr_decode [simp]:
  "PCI_ADDRESS_TO_BUS (pci_addr bus df off) = bus"
  "PCI_ADDRESS_TO_FUNCTION_DEVICE (pci_addr bus df off) = df"
  "PCI_ADDRESS_TO_OFFSET (pci_addr bus df off) = off"
proof -
  have "pci_addr bus df off = ucast off OR push_bit 8 (ucast df) OR push_bit 16 (ucast bus) OR push_bit 24 (ucast (0 :: BYTE))"
    by (simp add: PCI_DEVFUNC_OFFSET_TO_ADDRESS_def or.commute or.left_commute)
  then show "PCI_ADDRESS_TO_BUS (pci_addr bus df off) = bus"
    "PCI_ADDRESS_TO_FUNCTION_DEVICE (pci_addr bus df off) = df" "PCI_ADDRESS_TO_OFFSET (pci_addr bus df off) = off"
    by (simp_all only: PCI_ADDRESS_TO_BUS_def PCI_ADDRESS_TO_FUNCTION_DEVICE_def PCI_ADDRESS_TO_OFFSET_def ucast_and_ff join_bytes)
qed

lemma bar_off_simps:
  assumes "n < 6"
  shows "unat (bar_off n) = 0x10 + 4 * n" "drop_bit 2 (bar_off n - 0x10) = of_nat n" "unat (of_nat n :: BYTE) = n"
    "0x10 \<le> bar_off n" "bar_off n \<le> 0x24" "\<not> pci_bad_offset (bar_off n) 4"
proof -
  have "n = 0 \<or> n = 1 \<or> n = 2 \<or> n = 3 \<or> n = 4 \<or> n = 5" using assms by auto
  then show "unat (bar_off n) = 0x10 + 4 * n" "drop_bit 2 (bar_off n - 0x10) = of_nat n" "unat (of_nat n :: BYTE) = n"
    "0x10 \<le> bar_off n" "bar_off n \<le> 0x24" "\<not> pci_bad_offset (bar_off n) 4"
    by (auto simp: bar_off_def pci_bad_offset_def drop_bit_eq_div)
qed

definition pci_has_bar :: "'z pci_state_scheme \<Rightarrow> BYTE \<Rightarrow> BYTE \<Rightarrow> nat \<Rightarrow> pci_bar \<Rightarrow> bool" where
  "pci_has_bar s bus df n b \<longleftrightarrow> (let p = PciDevices s bus df in
     initialized p \<noteq> 0 \<and> (conf p ! 0x0e) AND 3 = 0 \<and> n < 6 \<and> bar p ! n = b \<and> bar_type b \<noteq> BX_PCI_BAR_TYPE_NONE)"

lemma pci_has_barD:
  assumes "pci_has_bar s bus df n b"
  shows "n < 6" "bar (PciDevices s bus df) ! n = b" "bar_type b \<noteq> BX_PCI_BAR_TYPE_NONE"
    "initialized (PciDevices s bus df) \<noteq> 0" "(conf (PciDevices s bus df) ! 0x0e) AND 3 = 0"
    "pci_is_bar (PciDevices s bus df) (bar_off n)"
  using assms bar_off_simps [of n] by (simp_all add: pci_has_bar_def Let_def pci_is_bar_def)

lemma write_bar_4:
  fixes s :: "'z pci_state_scheme" and val :: ULONG
  assumes "pci_ok s" and "pci_has_bar s bus df n b"
  defines "off \<equiv> 0x10 + 4 * n"
  defines "v \<equiv> bar_value b val (conf32 (PciDevices s bus df) off)"
  defines "t \<equiv> upd_pci bus df (put_conf32 off v) s"
  shows "PciWriteConfHandler env run (pci_addr bus df (bar_off n)) val 4 s =
    (if conf32 (PciDevices s bus df) off = v then Inr t
     else if val = 0xffffffff
     then if bar_type b = BX_PCI_BAR_TYPE_IO then pci_size_io bus df off b t else pci_size_mem bus df off b t
     else bindE (if bar_type b = BX_PCI_BAR_TYPE_IO
                 then pci_move_ports env bus df off n val [0 ..< unat (bar_size b)] t
                 else pci_move_mmio env bus df off n val (map (\<lambda>k. k * 0x10000) [0 ..< (unat (bar_size b) + 0xffff) div 0x10000]) t)
            (\<lambda>(returned, s). if returned then Inr s else upd_bar bus df n (\<lambda>b. b\<lparr>bar_addr := val AND NOT 3\<rparr>) s))"
proof -
  note d = pci_has_barD [OF assms(2)]
  have off: "unat (bar_off n) = off" "off + 3 < 256" using d(1) by (simp_all add: bar_off_simps off_def)
  have g: "get_bar s bus df n = Inr b" using d(1,2) assms(1) by (simp add: get_bar_def)
  have "PciWriteConfHandler env run (pci_addr bus df (bar_off n)) val 4 s = pci_write_bar env bus df (bar_off n) val 4 s"
    unfolding PciWriteConfHandler_def using d(4,6) bar_off_simps(6) [OF d(1)] by (simp add: Let_def)
  then show ?thesis
    using d(3) off g pci_bar_bytes_4 [OF assms(1) off(2), of bus df b val] bar_off_simps(2,3) [OF d(1)]
    by (simp add: pci_write_bar_def v_def t_def)
qed

lemma read_conf_4:
  assumes "pci_ok s" and "pci_has_bar s bus df n b"
  shows "PciReadConfHandler (pci_addr bus df (bar_off n)) 4 s = Inr (conf32 (PciDevices s bus df) (0x10 + 4 * n))"
proof -
  note d = pci_has_barD [OF assms(2)]
  have "bar_off n \<noteq> 0x30" using bar_off_simps(5) [OF d(1)] by auto
  moreover have "get_bar s bus df n = Inr b" using d(1,2) assms(1) by (simp add: get_bar_def)
  ultimately show ?thesis
    unfolding PciReadConfHandler_def using d(1,3,6) assms(1) bar_off_simps(1,2,3,6) [OF d(1)]
    by (simp add: Let_def upto4 conf32_def or.assoc)
qed

lemma upd_bar_ok:
  "n < length (bar (PciDevices s bus df)) \<Longrightarrow>
   upd_bar bus df n f s = Inr (upd_pci bus df (\<lambda>p. p\<lparr>bar := (bar p)[n := f (bar p ! n)]\<rparr>) s)"
  by (simp add: upd_bar_def get_bar_def upd_pci_def)

lemma wf_ports_upd_pci [simp]: "wf_ports (upd_pci bus df f s) = wf_ports s"
  by (simp add: wf_ports_def upd_pci_def)

lemma port_lookup_upd_pci [simp]: "port_lookup (upd_pci bus df f s) = port_lookup s"
  by (rule ext) (simp add: port_lookup_def upd_pci_def)

lemma pci_ok_ports_only: "ports_only s t \<Longrightarrow> pci_ok t = pci_ok s"
  unfolding pci_ok_def by (drule ports_only_pci) (simp only:)

lemma conf_put_other: "i < off \<or> off + 3 < i \<Longrightarrow> conf (put_conf32 off v p) ! i = conf p ! i"
  by (auto simp: put_conf32_def nth_list_update)

lemma pci_has_bar_put:
  "pci_has_bar s bus df n b \<Longrightarrow> pci_has_bar (upd_pci bus df (put_conf32 (0x10 + 4 * m) v) s) bus df n b"
  by (simp add: pci_has_bar_def Let_def conf_put_other)

lemma pci_ok_put [simp]: "pci_ok s \<Longrightarrow> pci_ok (upd_pci bus df (put_conf32 off v) s)"
  by (rule pci_ok_upd) simp_all

text \<open>C29. Programming an I/O base address register: when the guest writes a new address and the ports of
  the new range are usable and free, the handlers of the old range are removed, the device's handlers
  are installed on every port of the new range that the register does not mask out, all other ports keep
  their handlers, and the register reads back as the new address with the I/O bit.
\<close>

theorem pci_bar_moves_ports:
  assumes "pci_ok s" and "wf_ports s" and "pci_has_bar s bus df n b" and "bar_type b = BX_PCI_BAR_TYPE_IO"
    and "unat (bar_size b) \<le> 64" and "val \<noteq> 0xffffffff" and "val AND NOT 3 \<noteq> 0"
    and "conf32 (PciDevices s bus df) (0x10 + 4 * n) \<noteq> (val AND NOT 3) OR 1"
    and "\<And>a. a \<in> bar_ports b (val AND NOT 3) [0 ..< unat (bar_size b)] \<Longrightarrow> port_usable a \<and> port_lookup s a = None"
    and "\<And>a. bar_addr b \<noteq> 0 \<Longrightarrow> a \<in> bar_ports b (bar_addr b) [0 ..< unat (bar_size b)] \<Longrightarrow> port_usable a \<and> port_lookup s a \<noteq> None"
  shows "\<exists>t. PciWriteConfHandler env run (pci_addr bus df (bar_off n)) val 4 s = Inr t \<and>
    PciReadConfHandler (pci_addr bus df (bar_off n)) 4 t = Inr ((val AND NOT 3) OR 1) \<and>
    pci_ok t \<and> wf_ports t \<and> pci_has_bar t bus df n (b\<lparr>bar_addr := val AND NOT 3\<rparr>) \<and>
    (\<forall>a. port_usable a \<longrightarrow> port_lookup t a =
      (if a \<in> bar_ports b (val AND NOT 3) [0 ..< unat (bar_size b)] then Some (port_fn (bar_WriteHandler b), port_fn (bar_ReadHandler b))
       else if bar_addr b \<noteq> 0 \<and> a \<in> bar_ports b (bar_addr b) [0 ..< unat (bar_size b)] then None else port_lookup s a))"
proof -
  define off where "off = 0x10 + 4 * n"
  define v where "v = (val AND NOT 3) OR 1"
  define u where "u = upd_pci bus df (put_conf32 off v) s"
  have v: "bar_value b val (conf32 (PciDevices s bus df) off) = v" using assms(4) by (simp add: bar_value_def v_def)
  have n: "n < 6" using pci_has_barD(1) [OF assms(3)] .
  then have off: "off + 3 < 256" by (simp add: off_def)
  have u: "pci_ok u" "wf_ports u" "port_lookup u = port_lookup s" "pci_has_bar u bus df n b"
    using assms(1,2) pci_has_bar_put [OF assms(3)] by (simp_all add: u_def off_def)
  have g: "get_bar u bus df n = Inr b" using pci_has_barD(1,2) [OF u(4)] u(1) by (simp add: get_bar_def)
  obtain w where w: "pci_move_ports env bus df off n val [0 ..< unat (bar_size b)] u = Inr (False, w)" "ports_only u w" "wf_ports w"
    "\<And>a. port_usable a \<Longrightarrow> port_lookup w a =
      (if a \<in> bar_ports b (val AND NOT 3) [0 ..< unat (bar_size b)] then Some (port_fn (bar_WriteHandler b), port_fn (bar_ReadHandler b))
       else if bar_addr b \<noteq> 0 \<and> a \<in> bar_ports b (bar_addr b) [0 ..< unat (bar_size b)] then None else port_lookup s a)"
    using pci_move_ports_spec [OF u(2) g assms(7), of "[0 ..< unat (bar_size b)]" env off] assms(5,9,10) u(3) by auto
  define t where "t = upd_pci bus df (\<lambda>p. p\<lparr>bar := (bar p)[n := (bar p ! n)\<lparr>bar_addr := val AND NOT 3\<rparr>]\<rparr>) w"
  have D: "PciDevices w = PciDevices u" "pci_ok w" using ports_only_pci [OF w(2)] pci_ok_ports_only [OF w(2)] u(1) by simp_all
  have "PciWriteConfHandler env run (pci_addr bus df (bar_off n)) val 4 s = Inr t"
    using write_bar_4 [OF assms(1,3), of env run val, folded off_def, unfolded v, folded u_def]
      assms(8) [folded off_def v_def] assms(4,6) w(1) n D(2)
    by (simp add: upd_bar_ok t_def)
  moreover have t: "pci_ok t" unfolding t_def using D(2) by (intro pci_ok_upd) simp_all
  moreover have b: "pci_has_bar t bus df n (b\<lparr>bar_addr := val AND NOT 3\<rparr>)"
    using pci_has_barD [OF u(4)] u(1) by (simp add: pci_has_bar_def Let_def t_def D(1))
  moreover have "conf32 (PciDevices t bus df) off = conf32 (put_conf32 off v (PciDevices s bus df)) off"
    by (simp add: t_def D(1) u_def conf32_def)
  then have "PciReadConfHandler (pci_addr bus df (bar_off n)) 4 t = Inr v"
    using read_conf_4 [OF t b, folded off_def] off assms(1) by (simp add: conf32_put)
  ultimately show ?thesis using w(3,4) by (simp add: v_def t_def)
qed

lemma io_low_byte: "ucast (w AND 0xfc) OR BX_PCI_BAR_TYPE_IO = (ucast ((w AND NOT 3) OR 1 :: ULONG) :: BYTE)"
proof -
  have c: "(0xfc :: ULONG) = mask 8 AND NOT (mask 2)" "(3 :: ULONG) = mask 2" by (simp_all add: mask_eq_exp_minus_1)
  show ?thesis unfolding c BX_PCI_BAR_TYPE_IO_def by (rule bit_word_eqI) (auto simp: bit_simps)
qed

lemma io_high_bytes:
  "2 \<le> k \<Longrightarrow> drop_bit k ((w AND NOT 3) OR 1 :: ULONG) = drop_bit k w"
proof -
  have c: "(3 :: ULONG) = mask 2" by (simp add: mask_eq_exp_minus_1)
  show "2 \<le> k \<Longrightarrow> ?thesis" unfolding c by (rule bit_word_eqI) (auto simp: bit_simps dest: bit_imp_le_length)
qed

lemma pci_size_io_ok:
  "off + 3 < length (conf (PciDevices s bus df)) \<Longrightarrow>
   pci_size_io bus df off b s = Inr (upd_pci bus df (put_conf32 off ((- bar_size b AND NOT 3) OR 1)) s)"
proof -
  have m: "NOT (bar_size b - 1) = - bar_size b" by (simp add: not_eq_complement)
  define z where "z = (- bar_size b AND NOT 3) OR 1"
  have z: "ucast (- bar_size b AND 0xfc) OR BX_PCI_BAR_TYPE_IO = (ucast z :: BYTE)" "drop_bit 8 (- bar_size b) = drop_bit 8 z"
    "drop_bit 16 (- bar_size b) = drop_bit 16 z" "drop_bit 24 (- bar_size b) = drop_bit 24 z"
    unfolding z_def by (rule io_low_byte, (rule io_high_bytes [symmetric], simp)+)
  show "off + 3 < length (conf (PciDevices s bus df)) \<Longrightarrow> ?thesis"
    unfolding pci_size_io_def m z_def [symmetric] put_conf32_def Let_def z by (simp add: set_conf_ok)
qed

text \<open>Size probe of an I/O register: after a write of all ones the register reads as the two's complement
  size mask with the I/O bit, so the guest computes the right size, and no port changes.
\<close>

theorem pci_bar_size_probe:
  assumes "pci_ok s" and "pci_has_bar s bus df n b" and "bar_type b = BX_PCI_BAR_TYPE_IO"
    and "conf32 (PciDevices s bus df) (0x10 + 4 * n) \<noteq> 0xfffffffd"
  shows "\<exists>t. PciWriteConfHandler env run (pci_addr bus df (bar_off n)) 0xffffffff 4 s = Inr t \<and>
    PciReadConfHandler (pci_addr bus df (bar_off n)) 4 t = Inr ((- bar_size b AND NOT 3) OR 1) \<and>
    pci_has_bar t bus df n b \<and> port_lookup t = port_lookup s"
proof -
  define off where "off = 0x10 + 4 * n"
  define v where "v = ((- bar_size b AND NOT 3) OR 1 :: ULONG)"
  define u where "u = upd_pci bus df (put_conf32 off 0xfffffffd) s"
  define t where "t = upd_pci bus df (put_conf32 off v) s"
  have n: "n < 6" using pci_has_barD(1) [OF assms(2)] .
  have x: "bar_value b 0xffffffff old = 0xfffffffd" for old using assms(3) by (simp add: bar_value_def)
  have off: "off + 3 < 256" using n by (simp add: off_def)
  have "pci_size_io bus df off b u = Inr t"
    using pci_size_io_ok [of off u bus df b] assms(1) off by (simp add: u_def t_def v_def)
  then have "PciWriteConfHandler env run (pci_addr bus df (bar_off n)) 0xffffffff 4 s = Inr t"
    using write_bar_4 [OF assms(1,2), of env run "0xffffffff", folded off_def, unfolded x, folded u_def]
      assms(3) assms(4) [folded off_def] by simp
  moreover have b: "pci_has_bar t bus df n b" unfolding t_def off_def by (rule pci_has_bar_put [OF assms(2)])
  moreover have "PciReadConfHandler (pci_addr bus df (bar_off n)) 4 t = Inr v"
    using read_conf_4 [OF _ b, folded off_def] off assms(1) by (simp add: t_def conf32_put)
  ultimately show ?thesis unfolding v_def by (auto simp: t_def)
qed

lemma upt_two: "2 \<le> m \<Longrightarrow> [0 ..< m] = 0 # 1 # [2 ..< m]"
  by (simp add: upt_conv_Cons numeral_2_eq_2)

lemma io_value_ne: "w AND NOT 3 \<noteq> 0 \<Longrightarrow> (w AND NOT 3) OR 1 \<noteq> (1 :: ULONG)"
proof
  assume "w AND NOT 3 \<noteq> 0" and "(w AND NOT 3) OR 1 = 1"
  then have d: "drop_bit 2 w = 0" using io_high_bytes [of 2 w] by (simp add: drop_bit_eq_div)
  have h: "\<not> bit w n" if two: "2 \<le> n" for n
  proof -
    obtain k where "n = 2 + k" using le_Suc_ex [OF two] by blast
    moreover have "bit (drop_bit 2 w) k = bit w (2 + k)" by (simp only: bit_drop_bit_eq comp_def)
    ultimately show ?thesis unfolding d by simp
  qed
  have "w AND NOT (mask 2) = 0" by (rule bit_word_eqI) (use h in \<open>auto simp: bit_simps not_less\<close>)
  moreover have "(3 :: ULONG) = mask 2" by (simp add: mask_eq_exp_minus_1)
  ultimately show False using \<open>w AND NOT 3 \<noteq> 0\<close> by (simp only:)
qed

text \<open>C30. Taking an I/O register out of use leaks its ports: a write of the address 0 removes the handlers of
  the first port only, and clears the recorded address. When the guest later programs the old address
  again, the second port is still taken and the process ends.
\<close>

theorem pci_bar_disable_leaks:
  assumes "pci_ok s" and "wf_ports s" and "pci_has_bar s bus df n b" and "bar_type b = BX_PCI_BAR_TYPE_IO"
    and "2 \<le> unat (bar_size b)" and "\<not> bit (bar_mask b) 0" and "\<not> bit (bar_mask b) 1"
    and "bar_addr b AND NOT 3 = bar_addr b" and "bar_addr b \<noteq> 0" and "conf32 (PciDevices s bus df) (0x10 + 4 * n) \<noteq> 1"
    and "port_usable (bar_addr b)" and "port_usable (bar_addr b + 1)"
    and "port_lookup s (bar_addr b) \<noteq> None" and "port_lookup s (bar_addr b + 1) \<noteq> None"
  shows "\<exists>t. PciWriteConfHandler env run (pci_addr bus df (bar_off n)) 0 4 s = Inr t \<and>
    (\<forall>a. port_usable a \<longrightarrow> port_lookup t a = (if a = bar_addr b then None else port_lookup s a)) \<and>
    PciWriteConfHandler env run (pci_addr bus df (bar_off n)) (bar_addr b) 4 t = Inl Exit"
proof -
  define off where "off = 0x10 + 4 * n"
  define a where "a = bar_addr b"
  have n: "n < 6" and off: "off + 3 < 256" using pci_has_barD(1) [OF assms(3)] by (simp_all add: off_def)
  have x: "bar_value b val old = (val AND NOT 3) OR 1" for val old using assms(4) by (simp add: bar_value_def)
  define u where "u = upd_pci bus df (put_conf32 off 1) s"
  have u: "pci_ok u" "wf_ports u" "port_lookup u = port_lookup s" "pci_has_bar u bus df n b"
    using assms(1,2) pci_has_bar_put [OF assms(3)] by (simp_all add: u_def off_def)
  have gu: "get_bar u bus df n = Inr b" using pci_has_barD(1,2) [OF u(4)] u(1) by (simp add: get_bar_def)
  obtain w where w: "RemovePortIoHandler u a = Inr w" "wf_ports w" "ports_only u w"
      "\<And>c. port_usable c \<Longrightarrow> port_lookup w c = (if c = a then None else port_lookup s c)"
    using remove_port [OF u(2), of a] assms(11,13) u(3) unfolding a_def by metis
  have D: "PciDevices w = PciDevices u" "pci_ok w" using ports_only_pci [OF w(3)] pci_ok_ports_only [OF w(3)] u(1) by simp_all
  define t where "t = upd_pci bus df (put_conf32 off 1 \<circ> (\<lambda>p. p\<lparr>bar := (bar p)[n := (bar p ! n)\<lparr>bar_addr := 0\<rparr>]\<rparr>)) w"
  have loop0: "pci_move_ports env bus df off n 0 [0 ..< unat (bar_size b)] u = Inr (True, t)"
    using upt_two [OF assms(5)] gu assms(6,9) w(1) n D(2) off
    by (simp add: upd_bar_ok set_conf32_ok t_def comp_def a_def BX_PCI_BAR_TYPE_IO_def)
  have write0: "PciWriteConfHandler env run (pci_addr bus df (bar_off n)) 0 4 s = Inr t"
    using write_bar_4 [OF assms(1,3), of env run 0, folded off_def, unfolded x] assms(10) [folded off_def] assms(4) loop0
    by (simp add: u_def)
  have t: "pci_ok t" "wf_ports t" "port_lookup t = port_lookup w"
    unfolding t_def using D(2) w(2) by (auto intro!: pci_ok_upd)
  have b: "pci_has_bar t bus df n (b\<lparr>bar_addr := 0\<rparr>)"
    using pci_has_barD [OF u(4)] u(1) by (simp add: pci_has_bar_def Let_def t_def D(1) conf_put_other off_def)
  define u' where "u' = upd_pci bus df (put_conf32 off ((a AND NOT 3) OR 1)) t"
  have u': "pci_ok u'" "wf_ports u'" "port_lookup u' = port_lookup w" "pci_has_bar u' bus df n (b\<lparr>bar_addr := 0\<rparr>)"
    using t pci_has_bar_put [OF b] by (simp_all add: u'_def off_def)
  have gu': "get_bar u' bus df n = Inr (b\<lparr>bar_addr := 0\<rparr>)" using pci_has_barD(1,2) [OF u'(4)] u'(1) by (simp add: get_bar_def)
  obtain y where y: "RegisterPortIoHandler env u' a (port_fn (bar_WriteHandler b)) (port_fn (bar_ReadHandler b)) = Inr y"
      "wf_ports y" "ports_only u' y"
      "\<And>c. port_usable c \<Longrightarrow> port_lookup y c = (if c = a then Some (port_fn (bar_WriteHandler b), port_fn (bar_ReadHandler b)) else port_lookup w c)"
    using register_port [OF u'(2), of a env] assms(11) w(4) [of a] u'(3) unfolding a_def by metis
  have gy: "get_bar y bus df n = Inr (b\<lparr>bar_addr := 0\<rparr>)" using gu' ports_only_pci [OF y(3)] by (simp add: get_bar_def)
  have "port_lookup y (a + 1) \<noteq> None" using y(4) [of "a + 1"] w(4) [of "a + 1"] assms(12,14) by (simp add: a_def)
  then have z: "RegisterPortIoHandler env y (a + 1) h k = Inl Exit" for h k
    using ports.reg_taken [OF y(2), of "a + 1"] assms(12) by (simp add: a_def)
  have loop1: "pci_move_ports env bus df off n a [0 ..< unat (bar_size b)] u' = Inl Exit"
    using upt_two [OF assms(5)] gu' gy assms(6-9) y(1) z by (simp add: a_def)
  have "conf32 (PciDevices t bus df) off = 1" using D(2) off by (simp add: t_def conf32_put)
  moreover have "(a AND NOT 3) OR 1 \<noteq> 1" using assms(8,9) by (intro io_value_ne) (simp add: a_def)
  moreover have "a \<noteq> 0xffffffff" using assms(8) by (auto simp: a_def)
  ultimately have "PciWriteConfHandler env run (pci_addr bus df (bar_off n)) a 4 t = Inl Exit"
    using write_bar_4 [OF t(1) b, of env run a, folded off_def] assms(4) loop1
    by (simp add: bar_value_def u'_def)
  then show ?thesis using write0 t(3) w(4) by (auto simp: a_def)
qed

text \<open>The configuration space of the ACPI function with a register at port 0xb000, for the examples.\<close>

definition example_bar :: "ULONG \<Rightarrow> pci_bar" where
  "example_bar a = \<lparr>bar_type = 1, bar_size = 4, bar_addr = a, bar_mask = 0,
     bar_WriteHandler = Some (Inl AcpiPort), bar_ReadHandler = Some (Inl AcpiPort)\<rparr>"

definition pci_example :: "ULONG \<Rightarrow> pci_state" where
  "pci_example a = pci_zero\<lparr>PortIoBitmap := RtlInitializeBitMap (if a = 0 then replicate 2047 0 else (replicate 2047 0)[1408 := 15]) 2047,
     PciDevices := (\<lambda>_ _. PCI_zero\<lparr>initialized := 1, bar := example_bar a # replicate 5 bar_zero\<rparr>)\<rparr>"

lemmas pci_zero_defs = pci_zero_def pci_state.defs

lemma pci_example_facts:
  "pci_ok (pci_example a)" "wf_ports (pci_example a)" "pci_has_bar (pci_example a) 0 9 0 (example_bar a)"
  "conf32 (PciDevices (pci_example a) 0 9) 0x10 = 0"
  by (simp_all add: pci_example_def pci_ok_def PCI_zero_def pci_zero_def pci_state.defs wf_ports_def bm_ready_def RtlInitializeBitMap_def
      pci_has_bar_def example_bar_def bar_types conf32_def)

lemma pci_example_lookup:
  "port_lookup (pci_example 0) p = None \<or> \<not> port_usable p"
  "p \<in> {0xb000, 0xb001} \<Longrightarrow> port_lookup (pci_example 0xb000) p \<noteq> None"
  by (auto simp: pci_example_def port_lookup_def port_usable_def RtlTestBit_eq bm_valid_def RtlInitializeBitMap_def)

theorem pci_bar_moves_ports_witness:
  "\<exists>t. PciWriteConfHandler (\<lambda>_ _. True) (\<lambda>_ _ _ _ _ _. Inr) (pci_addr 0 9 (bar_off 0)) 0xb001 4 (pci_example 0) = Inr t \<and>
    PciReadConfHandler (pci_addr 0 9 (bar_off 0)) 4 t = Inr 0xb001"
proof -
  have "port_usable a \<and> port_lookup (pci_example 0) a = None" if "a \<in> bar_ports (example_bar 0) 0xb000 [0 ..< 4]" for a
  proof -
    have "port_usable a" using that by (auto simp: bar_ports_def upto4 example_bar_def port_usable_def)
    then show ?thesis using pci_example_lookup(1) [of a] by blast
  qed
  then show ?thesis
    using pci_bar_moves_ports [OF pci_example_facts(1-3) [of 0], where val = "0xb001" and env = "\<lambda>_ _. True" and run = "\<lambda>_ _ _ _ _ _. Inr"] pci_example_facts(4) [of 0]
    by (auto simp: example_bar_def bar_types)
qed

theorem pci_bar_size_probe_witness:
  "\<exists>t. PciWriteConfHandler (\<lambda>_ _. True) (\<lambda>_ _ _ _ _ _. Inr) (pci_addr 0 9 (bar_off 0)) 0xffffffff 4 (pci_example 0) = Inr t \<and>
    PciReadConfHandler (pci_addr 0 9 (bar_off 0)) 4 t = Inr 0xfffffffd"
  using pci_bar_size_probe [OF pci_example_facts(1,3) [of 0], where env = "\<lambda>_ _. True" and run = "\<lambda>_ _ _ _ _ _. Inr"] pci_example_facts(4) [of 0]
  by (auto simp: example_bar_def bar_types)

theorem pci_bar_disable_leaks_witness:
  "\<exists>t. PciWriteConfHandler (\<lambda>_ _. True) (\<lambda>_ _ _ _ _ _. Inr) (pci_addr 0 9 (bar_off 0)) 0 4 (pci_example 0xb000) = Inr t \<and>
    PciWriteConfHandler (\<lambda>_ _. True) (\<lambda>_ _ _ _ _ _. Inr) (pci_addr 0 9 (bar_off 0)) 0xb000 4 t = Inl Exit"
  using pci_bar_disable_leaks [OF pci_example_facts(1-3) [of "0xb000"], where env = "\<lambda>_ _. True" and run = "\<lambda>_ _ _ _ _ _. Inr"]
    pci_example_facts(4) [of "0xb000"] pci_example_lookup(2)
  by (auto simp: example_bar_def bar_types port_usable_def)

end
