(* ===== verification/Acpi.thy ===== *)
theory Acpi
  imports Pci
begin

text \<open>
  The power management function of \<open>acpi.c\<close>: the status, enable and control registers with the
  power management timer, the SMBus registers, the configuration writes that place the two register
  blocks, and the system control interrupt. A \<open>return;\<close> without a value leaves whatever is in the
  return register, which is the argument \<open>eax\<close> of the read handler.
\<close>

section \<open>State\<close>

record SMBUS =
  HostStatus :: BYTE
  SlaveStatus :: BYTE
  HostControl :: BYTE
  HostCommand :: BYTE
  HostAddress :: BYTE
  HostData0 :: BYTE
  HostData1 :: BYTE
  SlaveControl :: BYTE
  sm_Index :: BYTE
  sm_Data :: "BYTE list"

record ACPI =
  PmBase :: ULONG
  SmBase :: ULONG
  PmRegisters :: "BYTE list"
  SmBus :: SMBUS
  TimerOverflow :: ULONG
  PmStatus :: USHORT
  PmEnable :: USHORT
  PmControl :: USHORT
  AcpiTimerId :: ULONG

record acpi_state = pci_state +
  Acpi :: ACPI

definition ACPI_PM_REGISTERS_SIZE :: nat where "ACPI_PM_REGISTERS_SIZE = 56"
definition ACPI_SM_REGISTERS_SIZE :: nat where "ACPI_SM_REGISTERS_SIZE = 56"
definition PM_FREQ :: ULONG where "PM_FREQ = 3579545"
definition RTC_EN :: USHORT where "RTC_EN = lsh1 10"
definition PWRBTN_EN :: USHORT where "PWRBTN_EN = lsh1 8"
definition GBL_EN :: USHORT where "GBL_EN = lsh1 5"
definition TMROF_EN :: USHORT where "TMROF_EN = lsh1 0"
definition RSM_STS :: USHORT where "RSM_STS = lsh1 15"
definition PWRBTN_STS :: USHORT where "PWRBTN_STS = lsh1 8"
definition SCI_EN :: USHORT where "SCI_EN = lsh1 0"
definition ACPI_ENABLE :: BYTE where "ACPI_ENABLE = 0xf1"
definition ACPI_DISABLE :: BYTE where "ACPI_DISABLE = 0xf0"

lemmas ACPI_consts = ACPI_PM_REGISTERS_SIZE_def ACPI_SM_REGISTERS_SIZE_def PM_FREQ_def RTC_EN_def PWRBTN_EN_def
  GBL_EN_def TMROF_EN_def RSM_STS_def PWRBTN_STS_def SCI_EN_def ACPI_ENABLE_def ACPI_DISABLE_def

definition ACPI_zero :: ACPI where
  "ACPI_zero = \<lparr>PmBase = 0, SmBase = 0, PmRegisters = replicate ACPI_PM_REGISTERS_SIZE 0,
     SmBus = \<lparr>HostStatus = 0, SlaveStatus = 0, HostControl = 0, HostCommand = 0, HostAddress = 0, HostData0 = 0,
       HostData1 = 0, SlaveControl = 0, sm_Index = 0, sm_Data = replicate ACPI_SM_REGISTERS_SIZE 0\<rparr>,
     TimerOverflow = 0, PmStatus = 0, PmEnable = 0, PmControl = 0, AcpiTimerId = 0\<rparr>"

definition acpi_zero :: acpi_state where
  "acpi_zero = pci_state.extend pci_zero (acpi_state.fields ACPI_zero)"

definition upd_acpi :: "(ACPI \<Rightarrow> ACPI) \<Rightarrow> 'z acpi_state_scheme \<Rightarrow> 'z acpi_state_scheme" where
  "upd_acpi f s = s\<lparr>Acpi := f (Acpi s)\<rparr>"

text \<open>The function sits at bus 0, device 1, function 3.\<close>

definition acpi_df :: BYTE where
  "acpi_df = ucast (BX_PCI_DEVICE 1 3)"

definition acpi_addr :: "ULONG \<Rightarrow> ULONG" where
  "acpi_addr offset = PCI_DEVFUNC_OFFSET_TO_ADDRESS 0 (BX_PCI_DEVICE 1 3) offset"

section \<open>System control interrupt\<close>

definition AcpiGenerateAcpi :: "env \<Rightarrow> BYTE \<Rightarrow> 'z acpi_state_scheme \<Rightarrow> 'z acpi_state_scheme res" where
  "AcpiGenerateAcpi env val s =
     (let s = (if val = ACPI_ENABLE then upd_acpi (\<lambda>a. a\<lparr>PmControl := PmControl a OR SCI_EN\<rparr>) s
               else if val = ACPI_DISABLE then upd_acpi (\<lambda>a. a\<lparr>PmControl := PmControl a AND NOT SCI_EN\<rparr>) s
               else s)
      in bindE (get_conf s 0 acpi_df 0x5b) (\<lambda>c.
         if testw c 2
         then bindE (ApicBusDeliverInterrupt env s 0 0 0 DELIVERY_MODE_SMI 1) (\<lambda>(_, s). Inr s)
         else Inr s))"

definition acpi_pm_timer :: "'z acpi_state_scheme \<Rightarrow> ULONG64" where
  "acpi_pm_timer s = muldiv64 (TimerGetTotalUseconds s) PM_FREQ 1000000"

definition acpi_note_overflow :: "'z acpi_state_scheme \<Rightarrow> 'z acpi_state_scheme" where
  "acpi_note_overflow s =
     (if acpi_pm_timer s \<ge> ucast (TimerOverflow (Acpi s))
      then upd_acpi (\<lambda>a. a\<lparr>PmStatus := PmStatus a OR TMROF_EN\<rparr>) s else s)"

definition AcpiGetPmStatus :: "'z acpi_state_scheme \<Rightarrow> USHORT \<times> 'z acpi_state_scheme" where
  "AcpiGetPmStatus s = (PmStatus (Acpi s), acpi_note_overflow s)"

text \<open>\<open>SciLevel\<close> is a byte, so the bits 8 and 10 of the status are lost.\<close>

definition acpi_sci_level :: "USHORT \<Rightarrow> USHORT \<Rightarrow> BYTE" where
  "acpi_sci_level status now = ucast ((status AND now) AND (RTC_EN OR PWRBTN_EN OR GBL_EN OR TMROF_EN))"

definition AcpiPmUpdateSci :: "env \<Rightarrow> 'z acpi_state_scheme \<Rightarrow> 'z acpi_state_scheme res" where
  "AcpiPmUpdateSci env s =
     (case AcpiGetPmStatus s of (status, s) \<Rightarrow>
      bindE (get_conf s 0 acpi_df 0x3d) (\<lambda>pin.
      bindE (PciSetIrq env (acpi_addr 0) pin (acpi_sci_level status (PmStatus (Acpi s)) \<noteq> 0) s) (\<lambda>s.
      if testw (PmEnable (Acpi s)) TMROF_EN \<and> \<not> testw status TMROF_EN
      then TimerActivate s (AcpiTimerId (Acpi s)) (muldiv64 (ucast (TimerOverflow (Acpi s))) 1000000 PM_FREQ) 0
      else TimerDeactivate s (AcpiTimerId (Acpi s)))))"

definition AcpiTimerHandler :: "env \<Rightarrow> 'z acpi_state_scheme \<Rightarrow> 'z acpi_state_scheme res" where
  "AcpiTimerHandler env s = AcpiPmUpdateSci env s"

section \<open>Configuration space\<close>

text \<open>
  A write that places a register block goes through \<open>PciWriteConfHandler\<close> again, at the offset of a
  base address register of this function. If the header type does not let it be decoded as such, this
  handler is called with that offset and returns at once, which is the inner handler here.
\<close>

definition acpi_write_bar :: "env \<Rightarrow> ULONG \<Rightarrow> ULONG \<Rightarrow> 'z acpi_state_scheme \<Rightarrow> 'z acpi_state_scheme res" where
  "acpi_write_bar env offset val s =
     PciWriteConfHandler env (\<lambda>_ _ _ _ _ _ s. Inr s) (acpi_addr offset) (val AND NOT 1) 4 s"

definition AcpiPciConfWriteHandler ::
  "env \<Rightarrow> BYTE \<Rightarrow> BYTE \<Rightarrow> BYTE \<Rightarrow> ULONG \<Rightarrow> ULONG \<Rightarrow> 'z acpi_state_scheme \<Rightarrow> 'z acpi_state_scheme res" where
  "AcpiPciConfWriteHandler env bus df address val len s =
     (if 0x10 \<le> address \<and> address < 0x34 then Inr s
      else if unat address + unat len \<ge> 0xff then Inr s
      else if address = 0x06 then Inr s
      else if address = 0x40
      then bindE (acpi_write_bar env 0x10 val s) (\<lambda>s. Inr (upd_acpi (\<lambda>a. a\<lparr>PmBase := val AND NOT 1\<rparr>) s))
      else if address = 0x90
      then bindE (acpi_write_bar env 0x14 val s) (\<lambda>s. Inr (upd_acpi (\<lambda>a. a\<lparr>SmBase := val AND NOT 1\<rparr>) s))
      else set_conf32 bus df (unat address) val s)"

definition AcpiPciConfReadHandler :: "ULONG64 \<Rightarrow> ULONG \<Rightarrow> ULONG" where
  "AcpiPciConfReadHandler address len = 0xff"

section \<open>Ports\<close>

definition acpi_ignored :: "ULONG \<Rightarrow> bool" where
  "acpi_ignored reg \<longleftrightarrow> reg \<in> {0x0c, 0x0d, 0x14, 0x15, 0x18, 0x19, 0x1c, 0x1d, 0x1e, 0x1f, 0x30, 0x31, 0x32}"

definition acpi_put :: "nat \<Rightarrow> nat \<Rightarrow> ULONG \<Rightarrow> 'z acpi_state_scheme \<Rightarrow> 'z acpi_state_scheme res" where
  "acpi_put reg n val s =
     bindE (foldE (\<lambda>k r. arr_set r (reg + k) (ucast (drop_bit (8 * k) val))) [0 ..< n] (PmRegisters (Acpi s)))
       (\<lambda>r. Inr (upd_acpi (\<lambda>a. a\<lparr>PmRegisters := r\<rparr>) s))"

text \<open>The cases of the width fall through, down to the store of four bytes.\<close>

definition acpi_put_reg :: "ULONG \<Rightarrow> ULONG \<Rightarrow> ULONG \<Rightarrow> 'z acpi_state_scheme \<Rightarrow> 'z acpi_state_scheme res" where
  "acpi_put_reg reg val len s =
     (if reg > of_nat ACPI_PM_REGISTERS_SIZE - len then Inr s
      else bindE (if len = 1 then acpi_put (unat reg) 1 val s else Inr s) (\<lambda>s.
           bindE (if len = 1 \<or> len = 2 then acpi_put (unat reg) 2 val s else Inr s) (\<lambda>s.
           if len = 1 \<or> len = 2 \<or> len = 4 then acpi_put (unat reg) 4 val s else Inr s)))"

definition acpi_write_pm :: "env \<Rightarrow> ULONG \<Rightarrow> ULONG \<Rightarrow> ULONG \<Rightarrow> 'z acpi_state_scheme \<Rightarrow> 'z acpi_state_scheme res" where
  "acpi_write_pm env reg val len s =
     (if reg = 0
      then AcpiPmUpdateSci env (upd_acpi (\<lambda>a. a\<lparr>PmStatus := 0\<rparr>) (acpi_note_overflow s))
      else if reg = 2 then AcpiPmUpdateSci env (upd_acpi (\<lambda>a. a\<lparr>PmEnable := ucast val\<rparr>) s)
      else if reg = 4
      then let s = upd_acpi (\<lambda>a. a\<lparr>PmControl := ucast (val AND NOT (lsh1 13))\<rparr>) s
           in if testw (PmControl (Acpi s)) (lsh1 13) \<and> testw (drop_bit 10 val) 7
              then Inr (CmosSetRegister (upd_acpi (\<lambda>a. a\<lparr>PmStatus := PmStatus a OR (RSM_STS OR PWRBTN_STS)\<rparr>) s) 0x0f 0xfe)
              else Inr s
      else if acpi_ignored reg then Inr s
      else acpi_put_reg reg val len s)"

text \<open>The cases of an SMBus write fall through: register \<open>n\<close> clears all the later ones and stores the value.\<close>

definition acpi_sm_clear :: "ULONG \<Rightarrow> SMBUS \<Rightarrow> SMBUS" where
  "acpi_sm_clear reg b =
     (let b = (if reg = 0 then b\<lparr>HostStatus := 0\<rparr> else b);
          b = (if reg \<le> 1 then b\<lparr>SlaveStatus := 0\<rparr> else b);
          b = (if reg \<le> 2 then b\<lparr>HostControl := 0\<rparr> else b);
          b = (if reg \<le> 3 then b\<lparr>HostCommand := 0\<rparr> else b);
          b = (if reg \<le> 4 then b\<lparr>HostAddress := 0\<rparr> else b);
          b = (if reg \<le> 5 then b\<lparr>HostData0 := 0\<rparr> else b)
      in if reg \<le> 6 then b\<lparr>HostData1 := 0\<rparr> else b)"

definition sm_next :: "BYTE \<Rightarrow> BYTE" where
  "sm_next i = (if i + 1 > 31 then 0 else i + 1)"

definition acpi_write_sm :: "ULONG \<Rightarrow> ULONG \<Rightarrow> 'z acpi_state_scheme \<Rightarrow> 'z acpi_state_scheme res" where
  "acpi_write_sm reg val s =
     (if reg \<le> 7
      then let b = acpi_sm_clear reg (SmBus (Acpi s))
           in bindE (arr_set (sm_Data b) (unat (sm_Index b)) (ucast val)) (\<lambda>d.
              Inr (upd_acpi (\<lambda>a. a\<lparr>SmBus := b\<lparr>sm_Data := d, sm_Index := sm_next (sm_Index b)\<rparr>\<rparr>) s))
      else if reg = 8 then Inr (upd_acpi (\<lambda>a. a\<lparr>SmBus := (SmBus a)\<lparr>SlaveControl := 0\<rparr>\<rparr>) s)
      else Inr s)"

definition AcpiWritePortIoHandler ::
  "env \<Rightarrow> ULONG \<Rightarrow> ULONG \<Rightarrow> ULONG \<Rightarrow> 'z acpi_state_scheme \<Rightarrow> 'z acpi_state_scheme res" where
  "AcpiWritePortIoHandler env address val len s =
     (let reg = address AND 0x3f
      in if address AND 0xffc0 = PmBase (Acpi s)
         then bindE (get_conf s 0 acpi_df 0x80) (\<lambda>c. if \<not> testw c 1 then Inr s else acpi_write_pm env reg val len s)
         else if address AND 0xfff0 = SmBase (Acpi s)
         then bindE (get_conf s 0 acpi_df 0x04) (\<lambda>c. bindE (get_conf s 0 acpi_df 0xd2) (\<lambda>d.
              if \<not> testw c 1 \<and> \<not> testw d 1 then Inr s else acpi_write_sm reg val s))
         else Inr s)"

definition acpi_get :: "nat \<Rightarrow> nat \<Rightarrow> 'z acpi_state_scheme \<Rightarrow> ULONG res" where
  "acpi_get reg n s =
     foldE (\<lambda>k v. bindE (arr_get (PmRegisters (Acpi s)) (reg + k)) (\<lambda>b. Inr (v OR push_bit (8 * k) (ucast b)))) [0 ..< n] 0"

definition acpi_read_sm :: "ULONG \<Rightarrow> 'z acpi_state_scheme \<Rightarrow> (ULONG \<times> 'z acpi_state_scheme) res" where
  "acpi_read_sm reg s =
     (let b = SmBus (Acpi s)
      in if reg = 0 then Inr (ucast (HostStatus b), s)
         else if reg = 1 then Inr (ucast (SlaveStatus b), s)
         else if reg = 2 then Inr (ucast (HostControl b) AND 0x1f, upd_acpi (\<lambda>a. a\<lparr>SmBus := b\<lparr>sm_Index := 0\<rparr>\<rparr>) s)
         else if reg = 3 then Inr (ucast (HostCommand b), s)
         else if reg = 4 then Inr (ucast (HostAddress b), s)
         else if reg = 5 then Inr (ucast (HostData0 b), s)
         else if reg = 6 then Inr (ucast (HostData1 b), s)
         else if reg = 7
         then bindE (arr_get (sm_Data b) (unat (sm_Index b))) (\<lambda>v.
              Inr (ucast v, upd_acpi (\<lambda>a. a\<lparr>SmBus := b\<lparr>sm_Index := sm_next (sm_Index b)\<rparr>\<rparr>) s))
         else if reg = 8 then Inr (ucast (SlaveControl b), s)
         else Inr (0, s))"

definition acpi_read_pm :: "ULONG \<Rightarrow> ULONG \<Rightarrow> 'z acpi_state_scheme \<Rightarrow> (ULONG \<times> 'z acpi_state_scheme) res" where
  "acpi_read_pm reg len s =
     (if reg = 0 then let s = acpi_note_overflow s in Inr (ucast (PmStatus (Acpi s)), s)
      else if reg = 2 then Inr (ucast (PmEnable (Acpi s)), s)
      else if reg = 4 then Inr (ucast (PmControl (Acpi s)), s)
      else if reg = 8 then Inr (ucast (acpi_pm_timer s), s)
      else if len = 1 \<or> len = 2 \<or> len = 4
      then bindE (acpi_get (unat reg) (unat len) s) (\<lambda>v. Inr (v, s))
      else Inr (0, s))"

definition AcpiReadPortIoHandler ::
  "ULONG \<Rightarrow> ULONG \<Rightarrow> ULONG \<Rightarrow> 'z acpi_state_scheme \<Rightarrow> (ULONG \<times> 'z acpi_state_scheme) res" where
  "AcpiReadPortIoHandler eax address len s =
     (let reg = address AND 0x3f
      in if reg > of_nat ACPI_PM_REGISTERS_SIZE - len then Inr (0, s)
         else if address AND 0xffc0 = PmBase (Acpi s)
         then bindE (get_conf s 0 acpi_df 0x80) (\<lambda>c. if \<not> testw c 1 then Inr (eax, s) else acpi_read_pm reg len s)
         else if address AND 0xfff0 = SmBase (Acpi s) then acpi_read_sm reg s
         else Inr (0, s))"

section \<open>Initialisation\<close>

text \<open>\<open>AcpiInitialize\<close> ignores the status of the registration of the configuration handler.\<close>

definition AcpiInitialize :: "env \<Rightarrow> 'z acpi_state_scheme \<Rightarrow> 'z acpi_state_scheme res" where
  "AcpiInitialize env s =
     (let s = snd (PciRegisterConfigHandler (s\<lparr>Acpi := ACPI_zero\<rparr>) (acpi_addr 0) AcpiPci)
      in bindE (PciInitConfig s (acpi_addr 0) 0x8086 0x7113 0x03 0x0680 0x00 0x00 1) (\<lambda>s.
         bindE (PciSetBarIo s (acpi_addr 0) 0 0 16 (Some AcpiPort) (Some AcpiPort) 0) (\<lambda>s.
         bindE (PciSetBarIo s (acpi_addr 0) 1 0 64 (Some AcpiPort) (Some AcpiPort) 0) (\<lambda>s.
         bindE (foldE (\<lambda>(i, v). set_conf 0 acpi_df i v)
                 [(0x06, 0x80), (0x07, 0x02), (0x40, 0x01), (0x41, 0), (0x42, 0), (0x43, 0),
                  (0x5f, 0x90), (0x63, 0x60), (0x67, 0x98), (0x90, 0x01), (0x91, 0), (0x92, 0), (0x93, 0)] s) (\<lambda>s.
         bindE (TimerRegister (upd_acpi (\<lambda>a. a\<lparr>TimerOverflow := 0xffffffff\<rparr>) s) (TICK_PERIOD * 10) AcpiTimerFn 0) (\<lambda>(i, s).
         Inr (upd_acpi (\<lambda>a. a\<lparr>AcpiTimerId := i\<rparr>) s)))))))"

section \<open>Well-formedness\<close>

definition ACPI_ok :: "ACPI \<Rightarrow> bool" where
  "ACPI_ok a \<longleftrightarrow> length (PmRegisters a) = 56 \<and> length (sm_Data (SmBus a)) = 56 \<and> unat (sm_Index (SmBus a)) < 32 \<and>
     unat (AcpiTimerId a) < 32"

definition acpi_ok :: "'z acpi_state_scheme \<Rightarrow> bool" where
  "acpi_ok s \<longleftrightarrow> pci_ok s \<and> wf_timers s \<and> ACPI_ok (Acpi s)"

lemma upd_acpi_simps [simp]:
  "Acpi (upd_acpi f s) = f (Acpi s)" "pci_ok (upd_acpi f s) = pci_ok s" "wf_timers (upd_acpi f s) = wf_timers s"
  "PciDevices (upd_acpi f s) = PciDevices s"
  by (simp_all add: upd_acpi_def wf_timers_def pci_ok_cong [of "s\<lparr>Acpi := f (Acpi s)\<rparr>" s])

lemma acpi_okD:
  assumes "acpi_ok s"
  shows "pci_ok s" "wf_timers s" "ACPI_ok (Acpi s)" "unat (AcpiTimerId (Acpi s)) < 32"
  using assms by (simp_all add: acpi_ok_def ACPI_ok_def)

lemma acpi_ok_upd: "acpi_ok s \<Longrightarrow> ACPI_ok (f (Acpi s)) \<Longrightarrow> acpi_ok (upd_acpi f s)"
  by (simp add: acpi_ok_def)

lemma PciSetIrq_frame:
  assumes "pci_ok s" shows "specE {Exit, BadShift} (pic_only s) (PciSetIrq env a n r s)"
proof -
  define irq where "irq = (drop_bit 3 (PCI_ADDRESS_TO_FUNCTION_DEVICE a) + n - 2) AND 3"
  have irq: "unat irq < 4" unfolding irq_def
    by (rule le_less_trans [OF word_le_nat_alt [THEN iffD1, OF word_and_le1]]) simp
  have first: "specE {Exit, BadShift} (pic_only s) (if r then IoApicRaiseIrq env s (n + irq) else Inr (IoApicLowerIrq s (n + irq)))"
    by (auto intro: pic_only_apic IoApicLowerIrq_frame specE_mono [OF IoApicRaiseIrq_frame])
  show ?thesis unfolding PciSetIrq_def Let_def irq_def [symmetric]
  proof (rule specE_bindI [OF first])
    fix t assume t: "pic_only s t"
    then have "pci_ok t" using assms by (auto elim!: pic_onlyE intro: pci_ok_cong [THEN iffD2])
    moreover have low: "pic_only s (PicLowerIrq t i)" for i by (rule pic_only_trans [OF t PicLowerIrq_frame])
    moreover have up: "specE {Exit, BadShift} (pic_only s) (PicRaiseIrq env t i)" for i
      by (rule specE_mono [OF PicRaiseIrq_frame subset_refl]) (rule pic_only_trans [OF t])
    ultimately show "specE {Exit, BadShift} (pic_only s)
      (bindE (get_conf t (PCI_ADDRESS_TO_BUS a) (PCI_ADDRESS_TO_FUNCTION_DEVICE a) (0x60 + unat irq)) (\<lambda>irq.
         if irq < 16 \<and> testw (lsh1 (unat irq) :: DWORD) 0xdef8
         then if r then PicRaiseIrq env t irq else Inr (PicLowerIrq t irq) else Inr t))"
      using irq t low up by (auto intro!: specE_if_both split del: if_split)
  qed
qed

lemma acpi_ok_pic: "pic_only s t \<Longrightarrow> acpi_ok s \<Longrightarrow> acpi_ok t"
  by (auto elim!: pic_onlyE intro: pci_ok_cong [THEN iffD2] simp: acpi_ok_def wf_timers_def)

lemma acpi_ok_note: "acpi_ok s \<Longrightarrow> acpi_ok (acpi_note_overflow s)"
  unfolding acpi_note_overflow_def by (auto intro!: acpi_ok_upd simp: acpi_ok_def ACPI_ok_def)

lemma acpi_ok_timers: "acpi_ok s \<Longrightarrow> length ts = 32 \<Longrightarrow> acpi_ok (s\<lparr>Timers := ts\<rparr>)"
  by (auto intro: pci_ok_cong [THEN iffD2] simp: acpi_ok_def wf_timers_def)

lemma AcpiPmUpdateSci_ok:
  assumes "acpi_ok s" shows "specE {Exit, BadShift} acpi_ok (AcpiPmUpdateSci env s)"
proof -
  define t where "t = acpi_note_overflow s"
  have t: "acpi_ok t" using acpi_ok_note [OF assms] by (simp add: t_def)
  have arm: "specE {Exit, BadShift} acpi_ok
      (if b then TimerActivate u (AcpiTimerId (Acpi u)) ns 0 else TimerDeactivate u (AcpiTimerId (Acpi u)))"
    if "acpi_ok u" for u b ns
    using acpi_okD [OF that] TimerDeactivate_spec [OF acpi_okD(2) [OF that] acpi_okD(4) [OF that]] acpi_ok_timers [OF that]
    by (auto simp: TimerActivate_eq wf_timers_def)
  show ?thesis unfolding AcpiPmUpdateSci_def AcpiGetPmStatus_def t_def [symmetric]
    using acpi_okD(1) [OF t]
    by (auto intro!: specE_bindI [OF PciSetIrq_frame [OF acpi_okD(1) [OF t]]] acpi_ok_pic [OF _ t] arm split del: if_split)
qed

lemma acpi_put_ok:
  "acpi_ok s \<Longrightarrow> specE {} (\<lambda>t. acpi_ok t) (acpi_put reg n val s)" if "reg + n \<le> 56"
proof -
  assume s: "acpi_ok s"
  have "specE {} (\<lambda>r. length r = 56) (foldE (\<lambda>k r. arr_set r (reg + k) (ucast (drop_bit (8 * k) val))) [0 ..< n] (PmRegisters (Acpi s)))"
    by (rule specE_foldI) (use that acpi_okD(3) [OF s] in \<open>auto simp: ACPI_ok_def\<close>)
  then show ?thesis unfolding acpi_put_def
    by (rule specE_bindI) (use acpi_okD(3) [OF s] in \<open>auto intro!: acpi_ok_upd [OF s] simp: ACPI_ok_def\<close>)
qed

lemma acpi_put_out:
  assumes "acpi_ok s" and "reg < 56" and "56 < reg + n"
  shows "acpi_put reg n val s = Inl OutOfBounds"
proof -
  have "foldE (\<lambda>k r. arr_set r (reg + k) (ucast (drop_bit (8 * k) val))) ([0 ..< 56 - reg] @ [56 - reg ..< n]) (PmRegisters (Acpi s)) = Inl OutOfBounds"
  proof -
    have "specE {} (\<lambda>r. length r = 56)
        (foldE (\<lambda>k r. arr_set r (reg + k) (ucast (drop_bit (8 * k) val))) [0 ..< 56 - reg] (PmRegisters (Acpi s)))"
      by (rule specE_foldI) (use acpi_okD(3) [OF assms(1)] in \<open>auto simp: ACPI_ok_def\<close>)
    then obtain r where r: "foldE (\<lambda>k r. arr_set r (reg + k) (ucast (drop_bit (8 * k) val))) [0 ..< 56 - reg] (PmRegisters (Acpi s)) = Inr r"
      "length r = 56" by (auto simp: specE_total)
    have "[56 - reg ..< n] = (56 - reg) # [Suc (56 - reg) ..< n]" using assms(2,3) by (intro upt_conv_Cons) simp
    then show ?thesis using r assms(2) by (simp add: foldE_append)
  qed
  moreover have "[0 ..< n] = [0 ..< 56 - reg] @ [56 - reg ..< n]" using assms(2,3) upt_add_eq_append [of 0 "56 - reg" "n - (56 - reg)"] by simp
  ultimately show ?thesis by (simp add: acpi_put_def)
qed

text \<open>The stores that pass the range check although four bytes do not fit.\<close>

definition acpi_overflow_reg :: "ULONG \<Rightarrow> ULONG \<Rightarrow> bool" where
  "acpi_overflow_reg reg len \<longleftrightarrow> (len = 1 \<and> reg \<in> {53, 54, 55}) \<or> (len = 2 \<and> reg \<in> {53, 54})"

lemma acpi_put_reg_cases:
  assumes "acpi_ok s"
  shows "acpi_overflow_reg reg len \<Longrightarrow> acpi_put_reg reg val len s = Inl OutOfBounds"
    and "\<not> acpi_overflow_reg reg len \<Longrightarrow> specE {} acpi_ok (acpi_put_reg reg val len s)"
proof -
  have fit: "specE {} acpi_ok (acpi_put (unat reg) n val t)" if "unat reg + 4 \<le> 56" "n \<le> 4" "acpi_ok t" for n t
    using acpi_put_ok [of "unat reg" n] that by simp
  have out: "bindE (acpi_put (unat reg) 2 val t) (acpi_put (unat reg) 4 val) = Inl OutOfBounds"
    if "acpi_ok t" "unat reg \<in> {53, 54, 55}" for t
  proof (cases "unat reg = 55")
    case True
    then show ?thesis using acpi_put_out [OF that(1), of "unat reg" 2] by simp
  next
    case False
    then have r: "unat reg < 56" "56 < unat reg + 4" "unat reg + 2 \<le> 56" using that(2) by auto
    from acpi_put_ok [OF r(3) that(1), of val] obtain u where "acpi_put (unat reg) 2 val t = Inr u" "acpi_ok u"
      by (auto simp: specE_total)
    then show ?thesis using acpi_put_out [OF _ r(1,2)] by simp
  qed
  {
    assume "acpi_overflow_reg reg len"
    then consider "len = 1" "reg \<in> {53, 54, 55}" | "len = 2" "reg \<in> {53, 54}" by (auto simp: acpi_overflow_reg_def)
    then show "acpi_put_reg reg val len s = Inl OutOfBounds"
    proof cases
      case 1
      then have "unat reg + 1 \<le> 56" "unat reg \<in> {53, 54, 55}" by auto
      moreover obtain u where "acpi_put (unat reg) 1 val s = Inr u" "acpi_ok u"
        using acpi_put_ok [OF _ assms, of "unat reg" 1 val] calculation by (auto simp: specE_total)
      ultimately show ?thesis using 1 out [of u] by (auto simp: acpi_put_reg_def ACPI_PM_REGISTERS_SIZE_def)
    next
      case 2
      then have "unat reg \<in> {53, 54, 55}" by auto
      then show ?thesis using 2 out [OF assms] by (auto simp: acpi_put_reg_def ACPI_PM_REGISTERS_SIZE_def)
    qed
  }
  assume no: "\<not> acpi_overflow_reg reg len"
  show "specE {} acpi_ok (acpi_put_reg reg val len s)"
  proof (cases "(len = 1 \<or> len = 2 \<or> len = 4) \<and> reg \<le> of_nat ACPI_PM_REGISTERS_SIZE - len")
    case True
    have "reg \<le> 52"
    proof (rule ccontr)
      assume "\<not> reg \<le> 52"
      then have "52 < unat reg" by (simp add: word_le_nat_alt)
      moreover have "unat reg \<le> 55" "len = 2 \<longrightarrow> unat reg \<le> 54" "len = 4 \<longrightarrow> unat reg \<le> 52"
        using True by (auto simp: ACPI_PM_REGISTERS_SIZE_def word_le_nat_alt)
      ultimately have "unat reg \<in> {53, 54, 55} \<and> len \<noteq> 4 \<and> (len = 2 \<longrightarrow> unat reg \<in> {53, 54})" by auto
      moreover have "reg = 53 \<longleftrightarrow> unat reg = 53" "reg = 54 \<longleftrightarrow> unat reg = 54" "reg = 55 \<longleftrightarrow> unat reg = 55"
        by (simp_all add: word_unat_eq_iff)
      ultimately show False using True no unfolding acpi_overflow_reg_def by auto
    qed
    then have "unat reg + 4 \<le> 56" by (simp add: word_le_nat_alt)
    then show ?thesis unfolding acpi_put_reg_def
      using assms by (auto intro!: specE_bindI [where P = acpi_ok] fit)
  next
    case False
    then show ?thesis using assms by (auto simp: acpi_put_reg_def not_le)
  qed
qed

lemma sm_next_less: "unat (sm_next i) < 32"
proof (cases "i + 1 > 31")
  case False
  then have "unat (i + 1) \<le> 31" by (simp add: not_less word_le_nat_alt)
  then show ?thesis by (auto simp: sm_next_def)
qed (simp add: sm_next_def)

lemma acpi_sm_clear_frame [simp]: "sm_Data (acpi_sm_clear reg b) = sm_Data b" "sm_Index (acpi_sm_clear reg b) = sm_Index b"
  by (simp_all add: acpi_sm_clear_def)

lemma acpi_write_sm_ok: "acpi_ok s \<Longrightarrow> specE {} acpi_ok (acpi_write_sm reg val s)"
  unfolding acpi_write_sm_def Let_def
  by (frule acpi_okD(3)) (auto simp: ACPI_ok_def sm_next_less intro!: acpi_ok_upd)

lemma acpi_read_sm_ok: "acpi_ok s \<Longrightarrow> specE {} (\<lambda>(_, t). acpi_ok t) (acpi_read_sm reg s)"
  unfolding acpi_read_sm_def Let_def
  by (frule acpi_okD(3)) (auto simp: ACPI_ok_def sm_next_less intro!: acpi_ok_upd)

lemma acpi_get_ok: "acpi_ok s \<Longrightarrow> reg + n \<le> 56 \<Longrightarrow> specE {} (\<lambda>_. True) (acpi_get reg n s)"
  unfolding acpi_get_def by (rule specE_foldI) (auto dest!: acpi_okD(3) simp: ACPI_ok_def)

lemma acpi_ok_CmosSetRegister: "acpi_ok s \<Longrightarrow> acpi_ok (CmosSetRegister s i v)"
  by (auto simp: CmosSetRegister_def upd_cmos_def acpi_ok_def wf_timers_def intro: pci_ok_cong [THEN iffD2])

lemma acpi_write_pm_cases:
  assumes "acpi_ok s"
  shows "acpi_overflow_reg reg len \<Longrightarrow> acpi_write_pm env reg val len s = Inl OutOfBounds"
    and "\<not> acpi_overflow_reg reg len \<Longrightarrow> specE {Exit, BadShift} acpi_ok (acpi_write_pm env reg val len s)"
proof -
  note a = acpi_okD(3) [OF assms]
  have u: "acpi_ok (upd_acpi (\<lambda>a. a\<lparr>PmStatus := f a\<rparr>) t)" "acpi_ok (upd_acpi (\<lambda>a. a\<lparr>PmEnable := f a\<rparr>) t)"
    "acpi_ok (upd_acpi (\<lambda>a. a\<lparr>PmControl := f a\<rparr>) t)" if "acpi_ok t" for t and f :: "ACPI \<Rightarrow> USHORT"
    using that acpi_okD(3) [OF that] by (auto intro!: acpi_ok_upd simp: ACPI_ok_def)
  show "acpi_overflow_reg reg len \<Longrightarrow> acpi_write_pm env reg val len s = Inl OutOfBounds"
    using acpi_put_reg_cases(1) [OF assms, of reg len val] by (auto simp: acpi_overflow_reg_def acpi_write_pm_def acpi_ignored_def)
  assume "\<not> acpi_overflow_reg reg len"
  then have put: "specE {Exit, BadShift} acpi_ok (acpi_put_reg reg val len s)"
    by (rule specE_total_any [OF acpi_put_reg_cases(2) [OF assms]])
  show "specE {Exit, BadShift} acpi_ok (acpi_write_pm env reg val len s)"
    unfolding acpi_write_pm_def Let_def
    by (intro specE_if_both AcpiPmUpdateSci_ok put)
       (use u(1) [OF acpi_ok_note [OF assms], of "\<lambda>_. 0"] u(1) [OF u(3) [OF assms]] in
         \<open>auto intro!: u(2,3) assms acpi_ok_CmosSetRegister\<close>)
qed

text \<open>Every read of an ACPI port returns, and every read and write keeps the registers well-formed,
  with one exception: a one- or two-byte store to the power management registers 53 to 55 passes the
  range check, falls through to the store of four bytes and leaves the array. A write may otherwise only
  end with the errors of raising an interrupt line.
\<close>

theorem acpi_ports:
  assumes "acpi_ok s"
  shows "specE {} (\<lambda>(_, t). acpi_ok t) (AcpiReadPortIoHandler eax address len s) \<and>
    (if address AND 0xffc0 = PmBase (Acpi s) \<and> testw (conf (PciDevices s 0 acpi_df) ! 0x80) 1 \<and> acpi_overflow_reg (address AND 0x3f) len
      then AcpiWritePortIoHandler env address val len s = Inl OutOfBounds
      else specE {Exit, BadShift} acpi_ok (AcpiWritePortIoHandler env address val len s))"
proof (rule conjI)
  note p = acpi_okD(1) [OF assms]
  have reg: "specE {} (\<lambda>(_, t). acpi_ok t) (acpi_read_pm reg len s)" if "reg \<le> of_nat ACPI_PM_REGISTERS_SIZE - len" for reg
  proof -
    have "unat reg + unat len \<le> 56" if "len = 1 \<or> len = 2 \<or> len = 4"
      using that \<open>reg \<le> _\<close> by (auto simp: ACPI_PM_REGISTERS_SIZE_def word_le_nat_alt)
    then show ?thesis unfolding acpi_read_pm_def Let_def
      using assms acpi_ok_note [OF assms] by (auto intro!: specE_bindI [OF acpi_get_ok [OF assms]])
  qed
  show "specE {} (\<lambda>(_, t). acpi_ok t) (AcpiReadPortIoHandler eax address len s)"
    unfolding AcpiReadPortIoHandler_def Let_def
    using assms p reg acpi_read_sm_ok by (auto simp: not_less)
  show "if address AND 0xffc0 = PmBase (Acpi s) \<and> testw (conf (PciDevices s 0 acpi_df) ! 0x80) 1 \<and> acpi_overflow_reg (address AND 0x3f) len
      then AcpiWritePortIoHandler env address val len s = Inl OutOfBounds
      else specE {Exit, BadShift} acpi_ok (AcpiWritePortIoHandler env address val len s)"
    unfolding AcpiWritePortIoHandler_def Let_def
    using assms p acpi_write_pm_cases [OF assms] acpi_write_sm_ok [OF assms, THEN specE_total_any] by auto
qed

definition acpi_example :: acpi_state where
  "acpi_example = acpi_zero\<lparr>PciDevices := (\<lambda>_ _. PCI_zero\<lparr>conf := (replicate 256 0)[0x80 := 1]\<rparr>)\<rparr>"

lemmas acpi_zero_defs = acpi_zero_def ACPI_zero_def PCI_zero_def pci_zero_def dma_zero_def ps2_zero_defs
  acpi_state.defs pci_state.defs dma_state.defs ACPI_consts

lemma acpi_example_ok: "acpi_ok acpi_example"
  unfolding acpi_ok_def pci_ok_def acpi_example_def
  by (simp add: ACPI_ok_def wf_timers_def acpi_zero_defs)

theorem acpi_ports_witness:
  "AcpiWritePortIoHandler (\<lambda>_ _. True) 0x35 0 1 acpi_example = Inl OutOfBounds \<and>
   specE {Exit, BadShift} acpi_ok (AcpiWritePortIoHandler (\<lambda>_ _. True) 2 0x101 2 acpi_example)"
proof -
  have e: "PmBase (Acpi acpi_example) = 0" "conf (PciDevices acpi_example 0 acpi_df) ! 0x80 = 1"
    by (simp_all add: acpi_example_def acpi_zero_defs)
  show ?thesis
    using acpi_ports [OF acpi_example_ok, of 0 "0x35" 1 "\<lambda>_ _. True" 0] acpi_ports [OF acpi_example_ok, of 0 2 2 "\<lambda>_ _. True" "0x101"]
    by (simp add: e testw_def acpi_overflow_reg_def)
qed

text \<open>
  A one-byte write to configuration byte 0xfd passes the range check and stores four bytes, the last
  of them behind the configuration space.
\<close>

theorem acpi_conf_overflow: "pci_ok s \<Longrightarrow> AcpiPciConfWriteHandler env bus df 0xfd val 1 s = Inl OutOfBounds"
  by (simp add: AcpiPciConfWriteHandler_def set_conf32_def upto4 set_conf_ok) (simp add: set_conf_def)

text \<open>The interrupt level is cut to a byte: the real-time clock and power button bits never raise it.\<close>

theorem acpi_sci_level_low: "acpi_sci_level status now = ucast (status AND now AND 0x21)"
proof -
  have c: "(0x21 :: USHORT) = lsh1 5 OR lsh1 0" by (simp add: lsh1_def)
  show ?thesis unfolding acpi_sci_level_def c ACPI_consts by (rule bit_word_eqI) (auto simp: bit_simps)
qed

end
