(* ===== verification/I440fx.thy ===== *)
theory I440fx
  imports Acpi
begin

text \<open>
  The host bridge of \<open>i440fx.c\<close>: the configuration mechanism behind the ports 0xcf8 and 0xcfc, the
  shadow memory, DRAM and SMRAM registers of its own configuration space, and its initialisation.
  The arrays \<open>memory_type\<close> and \<open>drb\<close> are functions of the index, which is masked or fixed where it is
  computed. \<open>smbase\<close> and \<open>RamSize\<close> are globals of \<open>SVMM.c\<close>; the argument \<open>run\<close> runs the configuration
  handler of a PCI function.
\<close>

section \<open>State\<close>

record I440FX =
  confAddress :: DWORD
  confData :: DWORD
  memory_type :: "nat \<Rightarrow> BYTE \<times> BYTE"
  dramDetect :: BYTE
  drb :: "nat \<Rightarrow> BYTE"
  a20 :: BYTE

record i440fx_state = acpi_state +
  i440fx :: I440FX
  smbase :: ULONG64
  RamSize :: ULONG64

definition SMM_RAM_SIZE :: ULONG where "SMM_RAM_SIZE = 0x20000"
definition BX_MEM_AREA_F0000 :: nat where "BX_MEM_AREA_F0000 = 12"

definition I440FX_zero :: I440FX where
  "I440FX_zero = \<lparr>confAddress = 0, confData = 0, memory_type = (\<lambda>_. (0, 0)), dramDetect = 0, drb = (\<lambda>_. 0), a20 = 0\<rparr>"

definition i440fx_zero :: i440fx_state where
  "i440fx_zero = acpi_state.extend acpi_zero (i440fx_state.fields I440FX_zero 0 0)"

definition upd_i440fx :: "(I440FX \<Rightarrow> I440FX) \<Rightarrow> 'z i440fx_state_scheme \<Rightarrow> 'z i440fx_state_scheme" where
  "upd_i440fx f s = s\<lparr>i440fx := f (i440fx s)\<rparr>"

definition i440fx_df :: ULONG where
  "i440fx_df = BX_PCI_DEVICE 0 0"

section \<open>Configuration space\<close>

definition I440fxPciConfReadHandler :: "ULONG64 \<Rightarrow> ULONG \<Rightarrow> ULONG" where
  "I440fxPciConfReadHandler address len = 0"

text \<open>The host address of the SMM memory, behind the RAM, the ROM and the shared page.\<close>

definition smm_ram :: "'z i440fx_state_scheme \<Rightarrow> ULONG64" where
  "smm_ram s = HostRam s + RamSize s + ROM_SIZE + PAGE_SIZE"

definition smram_control :: "env \<Rightarrow> BYTE \<Rightarrow> 'z i440fx_state_scheme \<Rightarrow> 'z i440fx_state_scheme res" where
  "smram_control env byte s =
     (if testw byte 0x40
      then bindE (gvm_unmap_memory env s (ucast (smbase s)) (ucast SMM_RAM_SIZE)) (\<lambda>s.
           bindE (gvm_map_memory env s (ucast (smbase s)) SMM_RAM_SIZE (smm_ram s)) (\<lambda>s.
           gvm_map_memory env s 0xa0000 SMM_RAM_SIZE (smm_ram s)))
      else bindE (gvm_unmap_memory env s (ucast (smbase s)) (ucast SMM_RAM_SIZE)) (\<lambda>s.
           bindE (gvm_map_memory env s (ucast (smbase s)) SMM_RAM_SIZE (HostRam s + smbase s)) (\<lambda>s.
           bindE (gvm_register_mmio env s 0xa0000 (ucast SMM_RAM_SIZE)) (\<lambda>s.
           Inr (s\<lparr>smbase := 0xa0000\<rparr>)))))"

text \<open>The shadow memory types are taken from the whole value, not from the byte.\<close>

definition bit_byte :: "ULONG \<Rightarrow> nat \<Rightarrow> BYTE" where
  "bit_byte val n = ucast (drop_bit n val AND 1)"

definition i440fx_set_pam :: "nat \<Rightarrow> ULONG \<Rightarrow> I440FX \<Rightarrow> I440FX" where
  "i440fx_set_pam n val x =
     (if n = 0x59
      then x\<lparr>memory_type := (memory_type x)(BX_MEM_AREA_F0000 := (bit_byte val 4, bit_byte val 5))\<rparr>
      else let area = (n - 0x5a) * 2
           in x\<lparr>memory_type := (memory_type x)(area := (bit_byte val 0, bit_byte val 1),
                                                area + 1 := (bit_byte val 4, bit_byte val 5))\<rparr>)"

definition i440fx_detect :: "nat \<Rightarrow> BYTE \<Rightarrow> I440FX \<Rightarrow> I440FX" where
  "i440fx_detect n c x =
     x\<lparr>dramDetect := (if c \<noteq> drb x (n mod 8) then dramDetect x OR lsh1 (n mod 8) else dramDetect x AND NOT (lsh1 (n mod 8)))\<rparr>"

text \<open>One byte of a configuration write: \<open>n\<close> is the offset \<open>Address + i\<close>.\<close>

definition i440fx_conf_byte ::
  "env \<Rightarrow> BYTE \<Rightarrow> BYTE \<Rightarrow> nat \<Rightarrow> nat \<Rightarrow> ULONG \<Rightarrow> BYTE \<Rightarrow> 'z i440fx_state_scheme \<Rightarrow> 'z i440fx_state_scheme res" where
  "i440fx_conf_byte env bus df address n val byte s =
     (if n = 0x04 then set_conf bus df n ((byte AND 0x40) OR 0x06) s
      else if n = 0x07 then bindE (get_conf s bus df n) (\<lambda>c. set_conf bus df n (c AND NOT (byte AND 0xf9)) s)
      else if n = 0x0d then set_conf bus df n (byte AND 0xf8) s
      else if n \<in> {0x06, 0x0c, 0x0f} then Inr s
      else if n = 0x50 then set_conf bus df n (byte AND 0x70) s
      else if n = 0x51 then set_conf bus df n ((byte AND 0x8f) OR 0x20) s
      else if 0x59 \<le> n \<and> n \<le> 0x5f
      then bindE (get_conf s bus df n) (\<lambda>c.
           if c \<noteq> byte
           then bindE (set_conf bus df n byte s) (\<lambda>s. Inr (upd_i440fx (i440fx_set_pam n val) s))
           else Inr s)
      else if 0x60 \<le> n \<and> n \<le> 0x67
      then bindE (set_conf bus df n byte s) (\<lambda>s.
           bindE (get_conf s bus df address) (\<lambda>c. Inr (upd_i440fx (i440fx_detect n c) s)))
      else if n = 0x72 then bindE (smram_control env byte s) (set_conf bus df n byte)
      else if n = 0x7a then bindE (get_conf s bus df n) (\<lambda>c. set_conf bus df n ((c AND 0x0a) OR (byte AND 0xf5)) s)
      else set_conf bus df n byte s)"

text \<open>The value is shifted by the byte number, not by eight times it.\<close>

definition I440fxPciConfWriteHandler ::
  "env \<Rightarrow> BYTE \<Rightarrow> BYTE \<Rightarrow> BYTE \<Rightarrow> ULONG \<Rightarrow> ULONG \<Rightarrow> 'z i440fx_state_scheme \<Rightarrow> 'z i440fx_state_scheme res" where
  "I440fxPciConfWriteHandler env bus df address val len s =
     (if 0x10 \<le> address \<and> address < 0x34 then Inr s
      else foldE (\<lambda>i s. if 32 \<le> i then Inl BadShift
                        else i440fx_conf_byte env bus df (unat address) (unat address + i) val (ucast (drop_bit i val AND 0xff)) s)
             [0 ..< unat len] s)"

definition i440fx_write ::
  "env \<Rightarrow> ('z i440fx_state_scheme) pci_run \<Rightarrow> ULONG \<times> ULONG \<Rightarrow> 'z i440fx_state_scheme \<Rightarrow> 'z i440fx_state_scheme res" where
  "i440fx_write env run = (\<lambda>(offset, val). PciWriteConfHandler env run (PCI_DEVFUNC_OFFSET_TO_ADDRESS 0 i440fx_df offset) val 1)"

definition I440fxReset ::
  "env \<Rightarrow> ('z i440fx_state_scheme) pci_run \<Rightarrow> 'z i440fx_state_scheme \<Rightarrow> 'z i440fx_state_scheme res" where
  "I440fxReset env run s =
     foldE (i440fx_write env run)
       ([(0x04, 0x06), (0x05, 0x00), (0x06, 0x80), (0x07, 0x02), (0x0d, 0x00), (0x0f, 0x00), (0x50, 0x00), (0x51, 0x01),
         (0x52, 0x00), (0x54, 0x00), (0x55, 0x00), (0x56, 0x00), (0x57, 0x00), (0x58, 0x10)]
        @ map (\<lambda>i. (of_nat i, 0x00)) [0x59 ..< 0x60]
        @ [(0xb4, 0x00), (0xb9, 0x00), (0xba, 0x00), (0xbb, 0x00)]) s"

section \<open>Ports\<close>

definition i440fx_dev_address :: "'z i440fx_state_scheme \<Rightarrow> ULONG \<Rightarrow> ULONG" where
  "i440fx_dev_address s address =
     (confAddress (i440fx s) AND 0xffffff00) OR ((confAddress (i440fx s) AND 0xfc) + (address AND 3))"

definition I440fxPortIoReadHandler ::
  "ULONG \<Rightarrow> ULONG \<Rightarrow> 'z i440fx_state_scheme \<Rightarrow> (ULONG \<times> 'z i440fx_state_scheme) res" where
  "I440fxPortIoReadHandler address len s =
     (if address = 0x92 then Inr (push_bit 1 (ucast (a20 (i440fx s))), s)
      else if address = 0xcf8 then Inr (confAddress (i440fx s), s)
      else if address \<in> {0xcfc, 0xcfd, 0xcfe, 0xcff}
      then bindE (PciReadConfHandler (i440fx_dev_address s address) len s) (\<lambda>v.
           Inr (v, upd_i440fx (\<lambda>x. x\<lparr>confData := v\<rparr>) s))
      else Inr (confData (i440fx s), s))"

definition I440fxPortIoWriteHandler ::
  "env \<Rightarrow> ('z i440fx_state_scheme) pci_run \<Rightarrow> ULONG \<Rightarrow> ULONG \<Rightarrow> ULONG \<Rightarrow> 'z i440fx_state_scheme \<Rightarrow> 'z i440fx_state_scheme res" where
  "I440fxPortIoWriteHandler env run address val len s =
     (if address = 0x92 then Inr (if testw val 2 then upd_i440fx (\<lambda>x. x\<lparr>a20 := 1\<rparr>) s else s)
      else if address = 0xcf8 then Inr (upd_i440fx (\<lambda>x. x\<lparr>confAddress := val\<rparr>) s)
      else if address \<in> {0xcfc, 0xcfd, 0xcfe, 0xcff}
      then let s = upd_i440fx (\<lambda>x. x\<lparr>confData := val\<rparr>) s
           in PciWriteConfHandler env run (i440fx_dev_address s address) (confData (i440fx s)) len s
      else Inr s)"

section \<open>Initialisation\<close>

text \<open>
  The DRAM row boundaries. The function has parameters that hide the globals, and its caller passes none:
  \<open>ramSize\<close> is whatever the argument register holds. The loop over the modules adds to a byte and wraps.
\<close>

definition i440fx_ram_mb :: "ULONG64 \<Rightarrow> ULONG64" where
  "i440fx_ram_mb ramSize =
     (let r = (if testw ramSize 7 then (ramSize AND NOT 7) + 8 else ramSize) in if r > 1024 then 1024 else r)"

definition i440fx_drbval :: "ULONG64 \<Rightarrow> BYTE" where
  "i440fx_drbval ramSize =
     fold (\<lambda>t drbval. fold (\<lambda>_ drbval. drbval + drop_bit 3 t) [0 ..< unat (i440fx_ram_mb ramSize) div unat t] drbval)
       [128, 32, 8 :: BYTE] 0"

definition I440fxInitialize ::
  "env \<Rightarrow> ('z i440fx_state_scheme) pci_run \<Rightarrow> ULONG64 \<Rightarrow> 'z i440fx_state_scheme \<Rightarrow> 'z i440fx_state_scheme res" where
  "I440fxInitialize env run ramSize s =
     (let addr = PCI_DEVFUNC_OFFSET_TO_ADDRESS 0 i440fx_df 0;
          s = snd (PciRegisterConfigHandler (s\<lparr>i440fx := I440FX_zero\<rparr>) addr I440fxPci)
      in bindE (PciInitConfig s addr 0x8086 0x1237 0 0x0600 0 0 0) (\<lambda>s.
         bindE (I440fxReset env run s) (\<lambda>s.
         bindE (foldE (\<lambda>a s. RegisterPortIoHandler env s a (Some I440fxPort) (Some I440fxPort))
                  [0x92, 0xcf8, 0xcfc, 0xcfd, 0xcfe, 0xcff] s) (\<lambda>s.
         let s = upd_i440fx (\<lambda>x. x\<lparr>drb := (\<lambda>_. i440fx_drbval ramSize), dramDetect := 0\<rparr>) s
         in foldE (\<lambda>i s. i440fx_write env run (0x60 + of_nat i, ucast (drb (i440fx s) i)) s) [0 ..< 8] s))))"

section \<open>The configuration mechanism\<close>

lemma upd_i440fx_simps [simp]:
  "i440fx (upd_i440fx f s) = f (i440fx s)" "pci_ok (upd_i440fx f s) = pci_ok s" "PciDevices (upd_i440fx f s) = PciDevices s"
  "wf_slots (upd_i440fx f s) = wf_slots s" "upd_i440fx f (upd_i440fx g s) = upd_i440fx (f \<circ> g) s"
  by (simp_all add: upd_i440fx_def wf_slots_def pci_ok_cong [of "s\<lparr>i440fx := f (i440fx s)\<rparr>" s])

lemma PciWriteConfHandler_cong:
  assumes "PCI_ADDRESS_TO_BUS a = PCI_ADDRESS_TO_BUS b" and "PCI_ADDRESS_TO_FUNCTION_DEVICE a = PCI_ADDRESS_TO_FUNCTION_DEVICE b"
    and "PCI_ADDRESS_TO_OFFSET a = PCI_ADDRESS_TO_OFFSET b"
  shows "PciWriteConfHandler env run a val len s = PciWriteConfHandler env run b val len s"
    and "PciReadConfHandler a len s = PciReadConfHandler b len s"
  unfolding PciWriteConfHandler_def PciReadConfHandler_def assms by (rule refl)+

lemma dev_address_decode:
  fixes ca :: ULONG and k :: nat
  assumes "k < 4"
  defines "d \<equiv> (ca AND 0xffffff00) OR ((ca AND 0xfc) + of_nat k)"
  shows "PCI_ADDRESS_TO_BUS d = PCI_ADDRESS_TO_BUS ca" "PCI_ADDRESS_TO_FUNCTION_DEVICE d = PCI_ADDRESS_TO_FUNCTION_DEVICE ca"
    "PCI_ADDRESS_TO_OFFSET d = (PCI_ADDRESS_TO_OFFSET ca AND 0xfc) OR of_nat k"
proof -
  have m: "(0xffffff00 :: ULONG) = NOT (mask 8)" "(0xfc :: ULONG) = mask 8 AND NOT (mask 2)" "(0xfc :: BYTE) = NOT (mask 2)"
    by (simp_all add: mask_eq_exp_minus_1)
  have k: "\<not> bit k n" if "2 \<le> n" for n
  proof -
    have "k < 2 ^ n" using assms(1) power_increasing [OF that, of "2 :: nat"] by simp
    then show "\<not> bit k n" by (metis bit_iff_odd div_less even_zero)
  qed
  have d: "d = (ca AND NOT (mask 8)) OR ((ca AND (mask 8 AND NOT (mask 2))) OR of_nat k)"
    unfolding d_def m by (subst disjunctive_add_eq_or) (auto intro!: bit_word_eqI simp: bit_simps k not_less)
  show "PCI_ADDRESS_TO_BUS d = PCI_ADDRESS_TO_BUS ca" "PCI_ADDRESS_TO_FUNCTION_DEVICE d = PCI_ADDRESS_TO_FUNCTION_DEVICE ca"
    unfolding PCI_ADDRESS_TO_BUS_def PCI_ADDRESS_TO_FUNCTION_DEVICE_def ucast_and_ff d
    by (rule bit_word_eqI, auto simp: bit_simps k not_less)+
  show "PCI_ADDRESS_TO_OFFSET d = (PCI_ADDRESS_TO_OFFSET ca AND 0xfc) OR of_nat k"
    unfolding PCI_ADDRESS_TO_OFFSET_def ucast_and_ff d m by (rule bit_word_eqI) (auto simp: bit_simps bit_of_nat_iff)
qed

text \<open>C31. The configuration mechanism: selecting an address at port 0xcf8 and accessing port 0xcfc + k is the
  same as accessing the configuration space directly, at the bus and function the address names and at
  its dword offset plus k; the enable bit of the address is not looked at.
\<close>

theorem conf_mechanism:
  fixes ca :: ULONG and k :: nat
  assumes "k < 4"
  shows "bindE (I440fxPortIoWriteHandler env run 0xcf8 ca 4 s) (I440fxPortIoWriteHandler env run (0xcfc + of_nat k) val len) =
      PciWriteConfHandler env run
        (pci_addr (PCI_ADDRESS_TO_BUS ca) (PCI_ADDRESS_TO_FUNCTION_DEVICE ca) ((PCI_ADDRESS_TO_OFFSET ca AND 0xfc) OR of_nat k)) val len
        (upd_i440fx (\<lambda>x. x\<lparr>confAddress := ca, confData := val\<rparr>) s) \<and>
    bindE (I440fxPortIoWriteHandler env run 0xcf8 ca 4 s) (I440fxPortIoReadHandler (0xcfc + of_nat k) len) =
      bindE (PciReadConfHandler
        (pci_addr (PCI_ADDRESS_TO_BUS ca) (PCI_ADDRESS_TO_FUNCTION_DEVICE ca) ((PCI_ADDRESS_TO_OFFSET ca AND 0xfc) OR of_nat k)) len s)
        (\<lambda>v. Inr (v, upd_i440fx (\<lambda>x. x\<lparr>confAddress := ca, confData := v\<rparr>) s))"
proof -
  let ?a = "pci_addr (PCI_ADDRESS_TO_BUS ca) (PCI_ADDRESS_TO_FUNCTION_DEVICE ca) ((PCI_ADDRESS_TO_OFFSET ca AND 0xfc) OR of_nat k)"
  let ?d = "(ca AND 0xffffff00) OR ((ca AND 0xfc) + of_nat k)"
  have "k = 0 \<or> k = 1 \<or> k = 2 \<or> k = 3" using assms by auto
  then have port: "(0xcfc + of_nat k :: ULONG) \<in> {0xcfc, 0xcfd, 0xcfe, 0xcff}" "(0xcfc + of_nat k :: ULONG) \<notin> {0x92, 0xcf8}"
    and low: "(0xcfc + of_nat k :: ULONG) AND 3 = of_nat k" by auto
  note w = PciWriteConfHandler_cong [of ?d ?a, unfolded pci_addr_decode, OF dev_address_decode [OF assms]]
  have f: "PciReadConfHandler a len (upd_i440fx f s) = PciReadConfHandler a len s" for a f
    by (simp add: PciReadConfHandler_def get_bar_def [abs_def] get_conf_def [abs_def] cong: if_cong)
  have d: "i440fx_dev_address (upd_i440fx f s) (0xcfc + of_nat k) = ?d" if "confAddress (f (i440fx s)) = ca" for f
    using that low by (simp add: i440fx_dev_address_def)
  have "I440fxPortIoWriteHandler env run 0xcf8 ca 4 s = Inr (upd_i440fx (\<lambda>x. x\<lparr>confAddress := ca\<rparr>) s)"
    by (simp add: I440fxPortIoWriteHandler_def)
  then show ?thesis using port d
    by (simp add: I440fxPortIoWriteHandler_def I440fxPortIoReadHandler_def Let_def w f comp_def)
qed

theorem conf_mechanism_witness:
  "bindE (I440fxPortIoWriteHandler (\<lambda>_ _. True) (\<lambda>_ _ _ _ _ _. Inr) 0xcf8 0x80000b04 4 i440fx_zero) (I440fxPortIoReadHandler 0xcfe 1) =
      bindE (PciReadConfHandler (pci_addr 0 0xb 6) 1 i440fx_zero)
        (\<lambda>v. Inr (v, upd_i440fx (\<lambda>x. x\<lparr>confAddress := 0x80000b04, confData := v\<rparr>) i440fx_zero))"
  using conf_mechanism [of 2 "\<lambda>_ _. True" "\<lambda>_ _ _ _ _ _. Inr" "0x80000b04" i440fx_zero 0 1]
  by (simp add: PCI_ADDRESS_TO_BUS_def PCI_ADDRESS_TO_FUNCTION_DEVICE_def PCI_ADDRESS_TO_OFFSET_def drop_bit_eq_div)

section \<open>Well-formedness\<close>

definition i440fx_ok :: "'z i440fx_state_scheme \<Rightarrow> bool" where
  "i440fx_ok s \<longleftrightarrow> pci_ok s \<and> wf_slots s"

lemma set_conf_pci:
  assumes "i440fx_ok s" and "n < 256" shows "specE E i440fx_ok (set_conf bus df n v s)"
proof -
  have "set_conf bus df n v s = Inr (upd_pci bus df (\<lambda>p. p\<lparr>conf := (conf p)[n := v]\<rparr>) s)"
    using assms by (intro set_conf_ok) (simp add: i440fx_ok_def)
  moreover have "pci_ok (upd_pci bus df (\<lambda>p. p\<lparr>conf := (conf p)[n := v]\<rparr>) s)"
    using assms by (intro pci_ok_upd) (simp_all add: i440fx_ok_def)
  ultimately show ?thesis using assms(1) by (simp add: i440fx_ok_def upd_pci_def wf_slots_def)
qed

lemma i440fx_ok_slots: "only_slots s t \<Longrightarrow> wf_slots t \<Longrightarrow> i440fx_ok s \<Longrightarrow> i440fx_ok t"
  by (auto elim!: only_slotsE intro: pci_ok_cong [THEN iffD2] simp: i440fx_ok_def)

lemma i440fx_ok_map:
  assumes "i440fx_ok s"
  shows "specE {Exit} i440fx_ok (gvm_map_memory env s a sz ram)" "specE {Exit} i440fx_ok (gvm_unmap_memory env s a sz')"
    "specE {Exit} i440fx_ok (gvm_register_mmio env s a sz')"
proof -
  have w: "wf_slots s" using assms by (simp add: i440fx_ok_def)
  show "specE {Exit} i440fx_ok (gvm_map_memory env s a sz ram)"
    by (rule specE_mono [OF gvm_map_memory_spec [OF w]]) (auto intro: i440fx_ok_slots assms)
  show "specE {Exit} i440fx_ok (gvm_unmap_memory env s a sz')" "specE {Exit} i440fx_ok (gvm_register_mmio env s a sz')"
    unfolding gvm_register_mmio_def by (rule specE_mono [OF gvm_unmap_memory_spec [OF w]], auto intro: i440fx_ok_slots assms)+
qed

lemma smram_control_ok: "i440fx_ok s \<Longrightarrow> specE {Exit} i440fx_ok (smram_control env byte s)"
  unfolding smram_control_def
  by (intro specE_if_both specE_bindI [where P = i440fx_ok] i440fx_ok_map)
     (auto simp: i440fx_ok_def wf_slots_def intro: pci_ok_cong [THEN iffD2])

lemma i440fx_ok_upd [simp]: "i440fx_ok (upd_i440fx f s) = i440fx_ok s"
  by (simp add: i440fx_ok_def)

lemma i440fx_conf_byte_ok:
  assumes "i440fx_ok s" and "n < 256" and "address < 256"
  shows "specE {Exit} i440fx_ok (i440fx_conf_byte env bus df address n val byte s)"
proof -
  have get: "get_conf t bus df k = Inr (conf (PciDevices t bus df) ! k)" if "i440fx_ok t" "k < 256" for t k
    using that by (simp add: i440fx_ok_def)
  have set: "specE {Exit} i440fx_ok (set_conf bus df n v t)" if "i440fx_ok t" for v t
    using that assms(2) by (rule set_conf_pci)
  show ?thesis unfolding i440fx_conf_byte_def get [OF assms(1,2)] bindE_simps
    by (intro specE_if_both specE_bindI [OF smram_control_ok] specE_bindI [OF set] set) (use assms in \<open>auto simp: get\<close>)
qed

lemma I440fxPciConfWriteHandler_ok:
  assumes "i440fx_ok s" and "unat address + unat len < 0xff" and "unat len \<le> 32"
  shows "specE {Exit} i440fx_ok (I440fxPciConfWriteHandler env bus df address val len s)"
  unfolding I440fxPciConfWriteHandler_def
  by (rule specE_if_both, simp add: assms(1), rule specE_foldI) (use assms in \<open>auto intro!: i440fx_conf_byte_ok\<close>)

text \<open>A two-byte write stores the value shifted by one bit in the second byte.\<close>

theorem i440fx_word_write_shifts:
  assumes "pci_ok s"
  shows "I440fxPciConfWriteHandler env bus df 0x40 val 2 s =
    Inr (upd_pci bus df (\<lambda>p. p\<lparr>conf := (conf p)[0x40 := ucast val, 0x41 := ucast (drop_bit 1 val)]\<rparr>) s)"
proof -
  have "[0 ..< 2] = [0, 1 :: nat]" by (simp add: upt_rec)
  then show ?thesis using assms
    by (simp add: I440fxPciConfWriteHandler_def i440fx_conf_byte_def set_conf_ok ucast_and_ff)
qed

end
