(* ===== verification/Piix3.thy ===== *)
theory Piix3
  imports I440fx
begin

text \<open>
  The south bridge of \<open>piix3.c\<close>: the routing of the PCI interrupt lines to the interrupt
  controllers, the edge/level registers, the APM ports that reach the ACPI function, and the
  initialisation. \<open>irqRegister\<close> is a function of the line, which is compared with 16 before
  each access; \<open>irqStatus\<close> is a function of the link and the line.
\<close>

section \<open>State\<close>

record PIIX3 =
  APMControl :: BYTE
  APMStatus :: BYTE
  edgeLevelTrigger1 :: BYTE
  edgeLevelTrigger2 :: BYTE
  pciReset :: BYTE
  irqRegister :: "BYTE \<Rightarrow> BYTE"
  irqStatus :: "nat \<Rightarrow> BYTE \<Rightarrow> DWORD"

record piix3_state = i440fx_state +
  piix3 :: PIIX3

definition PIIX3_zero :: PIIX3 where
  "PIIX3_zero = \<lparr>APMControl = 0, APMStatus = 0, edgeLevelTrigger1 = 0, edgeLevelTrigger2 = 0, pciReset = 0,
     irqRegister = (\<lambda>_. 0), irqStatus = (\<lambda>_ _. 0)\<rparr>"

definition piix3_zero :: piix3_state where
  "piix3_zero = i440fx_state.extend i440fx_zero (piix3_state.fields PIIX3_zero)"

definition upd_piix3 :: "(PIIX3 \<Rightarrow> PIIX3) \<Rightarrow> 'z piix3_state_scheme \<Rightarrow> 'z piix3_state_scheme" where
  "upd_piix3 f s = s\<lparr>piix3 := f (piix3 s)\<rparr>"

definition piix3_df :: ULONG where
  "piix3_df = BX_PCI_DEVICE 1 0"

section \<open>Interrupt routing\<close>

definition Piix3RegisterIrq ::
  "BYTE \<Rightarrow> BYTE \<Rightarrow> nat \<Rightarrow> BYTE \<Rightarrow> 'z piix3_state_scheme \<Rightarrow> 'z piix3_state_scheme res" where
  "Piix3RegisterIrq bus df address irq s =
     (if irq \<ge> 16 then Inr s
      else bindE (set_conf bus df address irq s) (\<lambda>s.
           Inr (upd_piix3 (\<lambda>x. x\<lparr>irqRegister := (irqRegister x)(irq := irqRegister x irq OR lsh1 (address mod 4))\<rparr>) s)))"

definition Piix3UnregisterIrq ::
  "BYTE \<Rightarrow> BYTE \<Rightarrow> nat \<Rightarrow> BYTE \<Rightarrow> 'z piix3_state_scheme \<Rightarrow> 'z piix3_state_scheme res" where
  "Piix3UnregisterIrq bus df address irq s =
     (if irq \<ge> 16 then Inr s
      else bindE (set_conf bus df address irq s) (\<lambda>s.
           Inr (upd_piix3 (\<lambda>x. x\<lparr>irqRegister := (irqRegister x)(irq := irqRegister x irq AND NOT (lsh1 (address mod 4)))\<rparr>) s)))"

definition irq_quiet :: "PIIX3 \<Rightarrow> BYTE \<Rightarrow> bool" where
  "irq_quiet x irq \<longleftrightarrow> irqStatus x 0 irq = 0 \<and> irqStatus x 1 irq = 0 \<and> irqStatus x 2 irq = 0 \<and> irqStatus x 3 irq = 0"

definition set_irqStatus :: "nat \<Rightarrow> BYTE \<Rightarrow> (DWORD \<Rightarrow> DWORD) \<Rightarrow> PIIX3 \<Rightarrow> PIIX3" where
  "set_irqStatus offset irq f x =
     x\<lparr>irqStatus := (irqStatus x)(offset := (irqStatus x offset)(irq := f (irqStatus x offset irq)))\<rparr>"

text \<open>\<open>irq\<close> is at most 16, and line 16 is cut off by the mask.\<close>

definition Piix3SetIrq ::
  "env \<Rightarrow> BYTE \<Rightarrow> BYTE \<Rightarrow> BYTE \<Rightarrow> BYTE \<Rightarrow> bool \<Rightarrow> 'z piix3_state_scheme \<Rightarrow> 'z piix3_state_scheme res" where
  "Piix3SetIrq env bus pdf devFunc line level s =
     (let offset = unat ((drop_bit 3 devFunc + line - 2) AND 3)
      in bindE (get_conf s bus pdf (0x60 + offset)) (\<lambda>irq.
         if irq > 16 \<or> \<not> testw (lsh1 (unat irq) :: DWORD) 0xdef8 then Inr s
         else if level
         then bindE (if irq_quiet (piix3 s) irq then PicRaiseIrq env s irq else Inr s) (\<lambda>s.
              Inr (upd_piix3 (set_irqStatus offset irq (\<lambda>w. w OR lsh1 (unat (drop_bit 3 devFunc)))) s))
         else let s = upd_piix3 (set_irqStatus offset irq (\<lambda>w. w AND NOT (lsh1 (unat (drop_bit 3 devFunc))))) s
              in Inr (if irq_quiet (piix3 s) irq then PicLowerIrq s irq else s)))"

section \<open>Configuration space\<close>

text \<open>
  One byte of a configuration write. The state of the loop carries \<open>Value\<close>, which the case of the
  status register changes.
\<close>

definition piix3_conf_byte ::
  "BYTE \<Rightarrow> BYTE \<Rightarrow> nat \<Rightarrow> BYTE \<Rightarrow> ULONG \<times> 'z piix3_state_scheme \<Rightarrow> (ULONG \<times> 'z piix3_state_scheme) res" where
  "piix3_conf_byte bus df n byte = (\<lambda>(val, s).
     let keep = (\<lambda>m. bindE m (\<lambda>s. Inr (val, s)))
     in if n = 0x04 then keep (set_conf bus df n ((byte AND 0x08) OR 0x07) s)
        else if n = 0x05 then keep (set_conf bus df n (byte AND 0x01) s)
        else if n = 0x07
        then bindE (get_conf s bus df n) (\<lambda>c.
             bindE (set_conf bus df n ((c AND NOT byte) OR 0x02) s) (\<lambda>s. Inr (val AND 0x78, s)))
        else if n = 0x4e then keep (set_conf bus df n byte s)
        else if n = 0x4f then keep (set_conf bus df n (byte AND 1) s)
        else if 0x60 \<le> n \<and> n \<le> 0x63
        then let byte = byte AND 0x8f
             in bindE (get_conf s bus df n) (\<lambda>c.
                if byte \<noteq> c
                then if testw byte 0x80 then keep (Piix3UnregisterIrq bus df n byte s) else keep (Piix3RegisterIrq bus df n byte s)
                else Inr (val, s))
        else if n = 0x6a then keep (set_conf bus df n (byte AND 0xd7) s)
        else if n = 0x80 then Inr (val, s)
        else keep (set_conf bus df n byte s))"

definition Piix3PciConfWriteHandler ::
  "BYTE \<Rightarrow> BYTE \<Rightarrow> BYTE \<Rightarrow> ULONG \<Rightarrow> ULONG \<Rightarrow> 'z piix3_state_scheme \<Rightarrow> 'z piix3_state_scheme res" where
  "Piix3PciConfWriteHandler bus df address val len s =
     (if 0x10 \<le> address \<and> address < 0x34 then Inr s
      else bindE (foldE (\<lambda>i (val, s). if 32 \<le> i then Inl BadShift
                           else piix3_conf_byte bus df (unat address + i) (ucast (drop_bit i val AND 0xff)) (val, s))
                   [0 ..< unat len] (val, s)) (\<lambda>(_, s). Inr s))"

definition Piix3fxPciConfReadHandler :: "ULONG64 \<Rightarrow> ULONG \<Rightarrow> ULONG" where
  "Piix3fxPciConfReadHandler address len = 0"

section \<open>Ports\<close>

definition Piix3PortIoWriteHandler ::
  "env \<Rightarrow> ULONG \<Rightarrow> ULONG \<Rightarrow> ULONG \<Rightarrow> 'z piix3_state_scheme \<Rightarrow> 'z piix3_state_scheme res" where
  "Piix3PortIoWriteHandler env address val len s =
     (if address = 0xb2
      then let s = upd_piix3 (\<lambda>x. x\<lparr>APMControl := ucast (val AND 0xff)\<rparr>) s in AcpiGenerateAcpi env (APMControl (piix3 s)) s
      else if address = 0xb3 then Inr (upd_piix3 (\<lambda>x. x\<lparr>APMStatus := ucast (val AND 0xff)\<rparr>) s)
      else if address = 0x4d0
      then let val = val AND 0xf8
           in Inr (if val \<noteq> ucast (edgeLevelTrigger1 (piix3 s))
                   then PicSetMode (upd_piix3 (\<lambda>x. x\<lparr>edgeLevelTrigger1 := ucast val\<rparr>) s) 1 (ucast val) else s)
      else if address = 0x4d1
      then let val = val AND 0xde
           in Inr (if val \<noteq> ucast (edgeLevelTrigger2 (piix3 s))
                   then PicSetMode (upd_piix3 (\<lambda>x. x\<lparr>edgeLevelTrigger2 := ucast val\<rparr>) s) 0 (ucast val) else s)
      else if address = 0xcf9 then Inr (upd_piix3 (\<lambda>x. x\<lparr>pciReset := 1\<rparr>) s)
      else Inr s)"

definition Piix3PortIoReadHandler :: "ULONG \<Rightarrow> ULONG \<Rightarrow> 'z piix3_state_scheme \<Rightarrow> ULONG" where
  "Piix3PortIoReadHandler address len s =
     (let x = piix3 s
      in if address = 0xb2 then ucast (APMControl x)
         else if address = 0xb3 then ucast (APMStatus x)
         else if address = 0x4d0 then ucast (edgeLevelTrigger1 x)
         else if address = 0x4d1 then ucast (edgeLevelTrigger2 x)
         else if address = 0xcf9 then ucast (pciReset x)
         else 0)"

section \<open>Initialisation\<close>

definition piix3_write ::
  "env \<Rightarrow> ('z piix3_state_scheme) pci_run \<Rightarrow> ULONG \<times> ULONG \<Rightarrow> 'z piix3_state_scheme \<Rightarrow> 'z piix3_state_scheme res" where
  "piix3_write env run = (\<lambda>(offset, val). PciWriteConfHandler env run (PCI_DEVFUNC_OFFSET_TO_ADDRESS 0 piix3_df offset) val 1)"

definition Piix3Reset ::
  "env \<Rightarrow> ('z piix3_state_scheme) pci_run \<Rightarrow> 'z piix3_state_scheme \<Rightarrow> 'z piix3_state_scheme res" where
  "Piix3Reset env run s =
     foldE (piix3_write env run)
       [(0x07, 0x02), (0x4c, 0x4d), (0x4e, 0x03), (0x69, 0x02), (0x70, 0x80), (0x76, 0x0c), (0x77, 0x0c), (0x78, 0x02),
        (0xa0, 0x08), (0xa8, 0x0f)] s"

definition Piix3Initialize ::
  "env \<Rightarrow> ('z piix3_state_scheme) pci_run \<Rightarrow> 'z piix3_state_scheme \<Rightarrow> 'z piix3_state_scheme res" where
  "Piix3Initialize env run s =
     (let addr = PCI_DEVFUNC_OFFSET_TO_ADDRESS 0 piix3_df 0;
          s = snd (PciRegisterConfigHandler (s\<lparr>piix3 := PIIX3_zero\<rparr>) addr Piix3Pci)
      in bindE (PciInitConfig s addr 0x8086 0x7000 0 0x0601 0 0x80 0) (\<lambda>s.
         bindE (Piix3Reset env run s) (\<lambda>s.
         bindE (foldE (\<lambda>a s. RegisterPortIoHandler env s a (Some Piix3Port) (Some Piix3Port)) [0xb2, 0xb3, 0x4d0, 0x4d1, 0xcf9] s) (\<lambda>s.
         foldE (piix3_write env run) [(0x04, 0x07), (0x60, 0x80), (0x61, 0x80), (0x62, 0x80), (0x63, 0x80)] s))))"

section \<open>Properties\<close>

lemma upd_piix3_simps [simp]:
  "piix3 (upd_piix3 f s) = f (piix3 s)" "pci_ok (upd_piix3 f s) = pci_ok s" "PciDevices (upd_piix3 f s) = PciDevices s"
  by (simp_all add: upd_piix3_def pci_ok_cong [of "s\<lparr>piix3 := f (piix3 s)\<rparr>" s])

lemma set_conf_keeps: "pci_ok s \<Longrightarrow> n < 256 \<Longrightarrow> specE E pci_ok (set_conf bus df n v s)"
  by (simp add: set_conf_ok pci_ok_upd)

lemma irq_registers_keep:
  "pci_ok s \<Longrightarrow> n < 256 \<Longrightarrow> specE E pci_ok (Piix3RegisterIrq bus df n irq s)"
  "pci_ok s \<Longrightarrow> n < 256 \<Longrightarrow> specE E pci_ok (Piix3UnregisterIrq bus df n irq s)"
  unfolding Piix3RegisterIrq_def Piix3UnregisterIrq_def
  by (auto intro!: specE_if_both specE_bindI [OF set_conf_keeps] simp del: specE_simps(2)) (simp_all add: specE_def)

lemma piix3_conf_byte_ok:
  assumes "pci_ok (snd vs)" and "n < 256"
  shows "specE {} (\<lambda>vs. pci_ok (snd vs)) (piix3_conf_byte bus df n byte vs)"
proof -
  obtain val s where vs: "vs = (val, s)" by fastforce
  have s: "pci_ok s" using assms(1) vs by simp
  have k: "specE {} (\<lambda>vs. pci_ok (snd vs)) (bindE m (\<lambda>s. Inr (v, s)))" if "specE {} pci_ok m" for m v
    by (rule specE_bindI [OF that]) simp
  show ?thesis unfolding vs piix3_conf_byte_def Let_def prod.case get_conf_ok [OF s assms(2)] bindE_simps
    by (intro specE_if_both k set_conf_keeps irq_registers_keep s assms(2)) (simp_all add: s)
qed

text \<open>The configuration handler returns for every write that the caller's range check admits.\<close>

lemma Piix3PciConfWriteHandler_ok:
  assumes "pci_ok s" and "unat address + unat len < 0xff" and "unat len \<le> 32"
  shows "specE {} pci_ok (Piix3PciConfWriteHandler bus df address val len s)"
proof -
  have "specE {} (\<lambda>vs. pci_ok (snd vs)) (foldE (\<lambda>i (val, s). if 32 \<le> i then Inl BadShift
            else piix3_conf_byte bus df (unat address + i) (ucast (drop_bit i val AND 0xff)) (val, s)) [0 ..< unat len] (val, s))"
    by (rule specE_foldI) (use assms in \<open>auto intro!: piix3_conf_byte_ok\<close>)
  then show ?thesis unfolding Piix3PciConfWriteHandler_def
    by (intro specE_if_both) (auto simp: assms(1) intro!: specE_bindI)
qed

text \<open>Routing of the PCI interrupt links: a one-byte write of a line below 16 to a routing register stores
  it there and records the link at the line, and changes no other configuration byte. A write with the
  disable bit changes nothing, so a link that was routed stays routed.
\<close>

theorem piix3_routing:
  assumes "pci_ok s" and "link < 4"
  shows "if testw val 0x80
     then Piix3PciConfWriteHandler bus df (0x60 + of_nat link) val 1 s = Inr s
     else \<exists>t. Piix3PciConfWriteHandler bus df (0x60 + of_nat link) val 1 s = Inr t \<and>
       conf (PciDevices t bus df) = (conf (PciDevices s bus df))[0x60 + link := ucast (val AND 0xf)] \<and>
       (conf (PciDevices s bus df) ! (0x60 + link) \<noteq> ucast (val AND 0xf) \<longrightarrow> bit (irqRegister (piix3 t) (ucast (val AND 0xf))) link)"
proof -
  define byte where "byte = (ucast val :: BYTE) AND 0x8f"
  have m: "(0x8f :: BYTE) = mask 4 OR lsh1 7" "(0x80 :: BYTE) = lsh1 7" "(0x80 :: ULONG) = lsh1 7" "(0xf :: ULONG) = mask 4" "(16 :: BYTE) = lsh1 4"
    by (simp_all add: mask_eq_exp_minus_1 lsh1_def)
  have high: "testw byte 0x80 \<longleftrightarrow> testw val 0x80" unfolding byte_def m testw_lsh1 by (simp add: bit_simps)
  have ge: "16 \<le> byte" if "testw byte 0x80"
  proof -
    have "bit byte 7" using that unfolding m(2) by simp
    then have "2 ^ 7 \<le> unat byte" by (rule bit_imp_ge)
    then show ?thesis by (simp add: word_le_nat_alt)
  qed
  have low: "byte = ucast (val AND 0xf)" "unat byte < 16" if "\<not> testw val 0x80"
  proof -
    show e: "byte = ucast (val AND 0xf)" using that unfolding byte_def m testw_lsh1
      by (intro bit_word_eqI) (auto simp: bit_simps)
    have "val AND 0xf \<le> 0xf" by (rule word_and_le1)
    then show "unat byte < 16" unfolding e by (simp add: word_le_nat_alt unat_ucast_mod)
  qed
  have l: "unat (0x60 + of_nat link :: BYTE) = 0x60 + link" "link mod 4 = link" "(0x60 + link) mod 4 = link"
    "\<not> (0x60 + of_nat link :: BYTE) < 0x34"
  proof -
    have "link = 0 \<or> link = 1 \<or> link = 2 \<or> link = 3" using assms(2) by auto
    then show "unat (0x60 + of_nat link :: BYTE) = 0x60 + link" "link mod 4 = link" "(0x60 + link) mod 4 = link"
      "\<not> (0x60 + of_nat link :: BYTE) < 0x34" by auto
  qed
  have "Piix3PciConfWriteHandler bus df (0x60 + of_nat link) val 1 s =
     (if byte \<noteq> conf (PciDevices s bus df) ! (0x60 + link)
      then if testw byte 0x80 then Piix3UnregisterIrq bus df (0x60 + link) byte s else Piix3RegisterIrq bus df (0x60 + link) byte s
      else Inr s)"
    using l assms by (simp add: Piix3PciConfWriteHandler_def piix3_conf_byte_def Let_def ucast_and_ff byte_def bindE_assoc)
  moreover have "Piix3UnregisterIrq bus df (0x60 + link) byte s = Inr s" if "testw byte 0x80"
    using ge [OF that] by (simp add: Piix3UnregisterIrq_def)
  moreover have "Piix3RegisterIrq bus df (0x60 + link) byte s =
      Inr (upd_piix3 (\<lambda>x. x\<lparr>irqRegister := (irqRegister x)(byte := irqRegister x byte OR lsh1 link)\<rparr>)
        (upd_pci bus df (\<lambda>p. p\<lparr>conf := (conf p)[0x60 + link := byte]\<rparr>) s))" if "\<not> testw val 0x80"
    using low(2) [OF that] assms l(3) by (simp add: Piix3RegisterIrq_def set_conf_ok word_le_nat_alt)
  ultimately show ?thesis using high low(1) assms(2) by (auto simp: list_update_same_conv assms(1) bit_or_iff)
qed

theorem piix3_routing_witness:
  "\<exists>t. Piix3PciConfWriteHandler 0 8 0x61 0x0b 1 piix3_zero = Inr t \<and> conf (PciDevices t 0 8) ! 0x61 = 0x0b \<and>
     bit (irqRegister (piix3 t) 0x0b) 1 \<and> Piix3PciConfWriteHandler 0 8 0x61 0x80 1 t = Inr t"
proof -
  have ok: "pci_ok piix3_zero" and z: "conf (PciDevices piix3_zero 0 8) = replicate 256 0"
    by (auto simp: pci_ok_def piix3_zero_def piix3_state.defs i440fx_zero_def i440fx_state.defs acpi_zero_defs)
  obtain t where t: "Piix3PciConfWriteHandler 0 8 0x61 0x0b 1 piix3_zero = Inr t" "conf (PciDevices t 0 8) = (replicate 256 0)[0x61 := 0x0b]"
    "bit (irqRegister (piix3 t) 0x0b) 1"
    using piix3_routing [OF ok, of 1 "0x0b" 0 8] z by (auto simp: testw_def)
  moreover have "specE {} pci_ok (Piix3PciConfWriteHandler 0 8 0x61 0x0b 1 piix3_zero)"
    using ok by (rule Piix3PciConfWriteHandler_ok) simp_all
  then have "pci_ok t" using t(1) by simp
  then have "Piix3PciConfWriteHandler 0 8 0x61 0x80 1 t = Inr t"
    using piix3_routing [of t 1 "0x80" 0 8] by (simp add: testw_def)
  ultimately show ?thesis by simp
qed

end
