(* ===== verification/Hpet.thy ===== *)
theory Hpet
  imports Piix3
begin

text \<open>
  The high precision event timer of \<open>hpet.c\<close>: the main counter derived from the device clock, the
  three comparators with their interrupts, the memory-mapped registers and the timer handler, whose
  loop moves a periodic comparator past the current count. That loop does not always end, so it is a
  partial function, and a handler that does not return is the error \<open>Hang\<close>. The argument \<open>store\<close> is
  the store of a word through \<open>SvmmGetHostAddress\<close>.
\<close>

section \<open>State\<close>

record HPET_TIMER_BLOCK =
  ConfigCapabilities :: ULONG
  InterruptRoutingCapability :: ULONG
  Comparator :: ULONG64
  FrontSideBusInterruptValue :: ULONG
  FrontSideBusInterruptAddress :: ULONG
  HpetTimerId :: ULONG
  LastTimeChecked :: ULONG64
  TimerPeriod :: ULONG64
  HpetId :: ULONG

text \<open>\<open>Timer\<close> has 32 elements, of which the code uses the first three.\<close>

record HPET =
  GlobalCapabilities :: ULONG
  ClockPeriod :: ULONG
  GlobalConfiguration :: ULONG64
  InterruptStatus :: ULONG64
  HpetCounter :: ULONG64
  ReferenceTime :: ULONG64
  ReferenceValue :: ULONG64
  HpetTimer :: "nat \<Rightarrow> HPET_TIMER_BLOCK"

record hpet_state = piix3_state +
  Hpet :: HPET

definition HPET_MMIO :: ULONG where "HPET_MMIO = 0xFED00000"
definition HPET_CONFIG_ENABLED :: ULONG where "HPET_CONFIG_ENABLED = lsh1 0"
definition HPET_CONFIG_LEGACY :: ULONG where "HPET_CONFIG_LEGACY = lsh1 1"
definition HPET_TIMER_CONF_EDGE_LEVEL :: ULONG where "HPET_TIMER_CONF_EDGE_LEVEL = lsh1 1"
definition HPET_TIMER_CONF_IRQ_ENABLE :: ULONG where "HPET_TIMER_CONF_IRQ_ENABLE = lsh1 2"
definition HPET_TIMER_CONF_PERIODIC_ENABLED :: ULONG where "HPET_TIMER_CONF_PERIODIC_ENABLED = lsh1 3"
definition HPET_TIMER_CONF_VALUE_SET :: ULONG where "HPET_TIMER_CONF_VALUE_SET = lsh1 6"
definition HPET_TIMER_CONF_TIMER_32BIT :: ULONG where "HPET_TIMER_CONF_TIMER_32BIT = lsh1 8"
definition HPET_TIMER_CONF_INT_ROUTE_MASK :: ULONG where "HPET_TIMER_CONF_INT_ROUTE_MASK = 0x3e00"
definition HPET_TIMER_CONF_FSB_ENABLE :: ULONG where "HPET_TIMER_CONF_FSB_ENABLE = 0x4000"
definition HPET_TIMER_CONF_CFG_WRITE_MASK :: ULONG where "HPET_TIMER_CONF_CFG_WRITE_MASK = 0x7f4e"
definition PIT_IRQ :: BYTE where "PIT_IRQ = 0"

lemmas HPET_consts = HPET_MMIO_def HPET_CONFIG_ENABLED_def HPET_CONFIG_LEGACY_def HPET_TIMER_CONF_EDGE_LEVEL_def
  HPET_TIMER_CONF_IRQ_ENABLE_def HPET_TIMER_CONF_PERIODIC_ENABLED_def HPET_TIMER_CONF_VALUE_SET_def
  HPET_TIMER_CONF_TIMER_32BIT_def HPET_TIMER_CONF_INT_ROUTE_MASK_def HPET_TIMER_CONF_FSB_ENABLE_def
  HPET_TIMER_CONF_CFG_WRITE_MASK_def PIT_IRQ_def

definition HPET_TIMER_zero :: HPET_TIMER_BLOCK where
  "HPET_TIMER_zero = \<lparr>ConfigCapabilities = 0, InterruptRoutingCapability = 0, Comparator = 0, FrontSideBusInterruptValue = 0,
     FrontSideBusInterruptAddress = 0, HpetTimerId = 0, LastTimeChecked = 0, TimerPeriod = 0, HpetId = 0\<rparr>"

definition HPET_zero :: HPET where
  "HPET_zero = \<lparr>GlobalCapabilities = 0, ClockPeriod = 0, GlobalConfiguration = 0, InterruptStatus = 0, HpetCounter = 0,
     ReferenceTime = 0, ReferenceValue = 0, HpetTimer = (\<lambda>_. HPET_TIMER_zero)\<rparr>"

definition hpet_zero :: hpet_state where
  "hpet_zero = piix3_state.extend piix3_zero (hpet_state.fields HPET_zero)"

definition upd_hpet :: "(HPET \<Rightarrow> HPET) \<Rightarrow> 'z hpet_state_scheme \<Rightarrow> 'z hpet_state_scheme" where
  "upd_hpet f s = s\<lparr>Hpet := f (Hpet s)\<rparr>"

definition upd_block :: "nat \<Rightarrow> (HPET_TIMER_BLOCK \<Rightarrow> HPET_TIMER_BLOCK) \<Rightarrow> 'z hpet_state_scheme \<Rightarrow> 'z hpet_state_scheme" where
  "upd_block i f = upd_hpet (\<lambda>h. h\<lparr>HpetTimer := (HpetTimer h)(i := f (HpetTimer h i))\<rparr>)"

abbreviation blk :: "'z hpet_state_scheme \<Rightarrow> nat \<Rightarrow> HPET_TIMER_BLOCK" where
  "blk s i \<equiv> HpetTimer (Hpet s) i"

type_synonym 's store = "ULONG \<Rightarrow> ULONG \<Rightarrow> 's \<Rightarrow> 's res"

section \<open>Counter and interrupts\<close>

definition HpetGetTicks :: "'z hpet_state_scheme \<Rightarrow> ULONG64" where
  "HpetGetTicks s = (TimerGetClockNs s - ReferenceTime (Hpet s)) div 10 + ReferenceValue (Hpet s)"

definition HpetTicksToNs :: "ULONG64 \<Rightarrow> ULONG64" where
  "HpetTicksToNs ticks = ticks * 10"

definition hpet_enabled :: "'z hpet_state_scheme \<Rightarrow> bool" where
  "hpet_enabled s \<longleftrightarrow> testw (GlobalConfiguration (Hpet s)) (ucast HPET_CONFIG_ENABLED)"

definition hpet_irq :: "HPET_TIMER_BLOCK \<Rightarrow> BYTE" where
  "hpet_irq b =
     (if testw (ConfigCapabilities b) HPET_CONFIG_LEGACY then if HpetId b \<noteq> 0 then RTC_IRQ else PIT_IRQ
      else ucast (drop_bit 9 (ConfigCapabilities b AND HPET_TIMER_CONF_INT_ROUTE_MASK)))"

definition HpetUpdateIrq ::
  "env \<Rightarrow> ('z hpet_state_scheme) store \<Rightarrow> nat \<Rightarrow> bool \<Rightarrow> 'z hpet_state_scheme \<Rightarrow> 'z hpet_state_scheme res" where
  "HpetUpdateIrq env store i raised s =
     (let b = blk s i; irq = hpet_irq b; level = testw (ConfigCapabilities b) HPET_TIMER_CONF_EDGE_LEVEL
      in if raised \<and> hpet_enabled s
         then let s = (if level then upd_hpet (\<lambda>h. h\<lparr>InterruptStatus := InterruptStatus h OR lsh1 (unat (HpetId b))\<rparr>) s else s)
              in if \<not> testw (ConfigCapabilities b) HPET_TIMER_CONF_IRQ_ENABLE then Inr s
                 else if testw (ConfigCapabilities b) HPET_TIMER_CONF_FSB_ENABLE
                 then store (FrontSideBusInterruptAddress b) (FrontSideBusInterruptValue b) s
                 else if \<not> level then PicRaiseIrq env (PicLowerIrq s irq) irq
                 else PicRaiseIrq env s irq
         else Inr (PicLowerIrq s irq))"

definition HpetUpdateTimer :: "nat \<Rightarrow> 'z hpet_state_scheme \<Rightarrow> 'z hpet_state_scheme res" where
  "HpetUpdateTimer i s =
     (let b = blk s i
      in TimerActivate s (HpetTimerId b) (HpetTicksToNs (Comparator b - HpetGetTicks s))
           (ucast (ConfigCapabilities b AND HPET_TIMER_CONF_PERIODIC_ENABLED)))"

definition HpetDisableTimer ::
  "env \<Rightarrow> ('z hpet_state_scheme) store \<Rightarrow> nat \<Rightarrow> 'z hpet_state_scheme \<Rightarrow> 'z hpet_state_scheme res" where
  "HpetDisableTimer env store i s =
     bindE (TimerDeactivate s (HpetTimerId (blk s i))) (HpetUpdateIrq env store i False)"

text \<open>The \<open>do ... while\<close> loop that moves a periodic comparator forward.\<close>

partial_function (option) hpet_catch_up :: "ULONG64 \<Rightarrow> ULONG64 \<Rightarrow> ULONG64 \<Rightarrow> ULONG64 \<Rightarrow> ULONG64 option" where
  "hpet_catch_up last_time cur period cmp =
     (if last_time \<le> cur \<and> last_time \<le> cmp + period \<and> cmp + period \<le> cur
      then hpet_catch_up last_time cur period (cmp + period) else Some (cmp + period))"

declare hpet_catch_up.simps [code]

definition hpet_due :: "ULONG64 \<Rightarrow> ULONG64 \<Rightarrow> ULONG64 \<Rightarrow> bool" where
  "hpet_due last_time cur cmp \<longleftrightarrow> (last_time \<le> cur \<and> last_time \<le> cmp \<and> cmp \<le> cur) \<or> last_time \<le> cmp \<or> cmp \<le> cur"

definition HpetTimerHandler ::
  "env \<Rightarrow> ('z hpet_state_scheme) store \<Rightarrow> nat \<Rightarrow> 'z hpet_state_scheme \<Rightarrow> 'z hpet_state_scheme res" where
  "HpetTimerHandler env store i s =
     (let cur = HpetGetTicks s
      in bindE (if hpet_due (LastTimeChecked (blk s i)) cur (Comparator (blk s i))
                then bindE (HpetUpdateIrq env store i True s) (\<lambda>s.
                     if testw (ConfigCapabilities (blk s i)) HPET_TIMER_CONF_PERIODIC_ENABLED \<and> TimerPeriod (blk s i) \<noteq> 0
                     then case hpet_catch_up (LastTimeChecked (blk s i)) cur (TimerPeriod (blk s i)) (Comparator (blk s i)) of
                            None \<Rightarrow> Inl Hang
                          | Some c \<Rightarrow> Inr (upd_block i (\<lambda>b. b\<lparr>Comparator := c\<rparr>) s)
                     else Inr s)
                else Inr s) (\<lambda>s.
         bindE (HpetUpdateTimer i s) (\<lambda>s. Inr (upd_block i (\<lambda>b. b\<lparr>LastTimeChecked := cur\<rparr>) s))))"

section \<open>Registers\<close>

definition hpet_enable_timers ::
  "env \<Rightarrow> ('z hpet_state_scheme) store \<Rightarrow> 'z hpet_state_scheme \<Rightarrow> 'z hpet_state_scheme res" where
  "hpet_enable_timers env store s =
     foldE (\<lambda>i s. bindE (if testw (ConfigCapabilities (blk s i)) HPET_TIMER_CONF_IRQ_ENABLE \<and> bit (InterruptStatus (Hpet s)) i
                          then HpetUpdateIrq env store i True s else Inr s) (HpetUpdateTimer i))
       [0 ..< 3] (upd_hpet (\<lambda>h. h\<lparr>ReferenceTime := TimerGetClockNs s, ReferenceValue := HpetCounter h\<rparr>) s)"

definition hpet_disable_timers ::
  "env \<Rightarrow> ('z hpet_state_scheme) store \<Rightarrow> 'z hpet_state_scheme \<Rightarrow> 'z hpet_state_scheme res" where
  "hpet_disable_timers env store s =
     foldE (HpetDisableTimer env store) [0 ..< 3] (upd_hpet (\<lambda>h. h\<lparr>HpetCounter := HpetGetTicks s\<rparr>) s)"

definition hpet_configure ::
  "env \<Rightarrow> ('z hpet_state_scheme) store \<Rightarrow> ULONG \<Rightarrow> 'z hpet_state_scheme \<Rightarrow> 'z hpet_state_scheme res" where
  "hpet_configure env store val s =
     bindE (if testw val HPET_CONFIG_ENABLED \<and> \<not> hpet_enabled s then hpet_enable_timers env store s
            else if hpet_enabled s \<and> \<not> testw val HPET_CONFIG_ENABLED then hpet_disable_timers env store s
            else Inr s) (\<lambda>s.
     let legacy = testw (GlobalConfiguration (Hpet s)) (ucast HPET_CONFIG_LEGACY);
         s = (if testw val HPET_CONFIG_LEGACY \<and> \<not> legacy then CmosSetInterrupt (PitSetInterrupt s 0) 0
              else if legacy \<and> \<not> testw val HPET_CONFIG_LEGACY then CmosSetInterrupt (PitSetInterrupt s 1) 1
              else s)
     in Inr (upd_hpet (\<lambda>h. h\<lparr>GlobalConfiguration := (GlobalConfiguration h AND NOT 3) OR ucast (val AND 3)\<rparr>) s))"

definition hpet_write_status ::
  "env \<Rightarrow> ('z hpet_state_scheme) store \<Rightarrow> ULONG \<Rightarrow> 'z hpet_state_scheme \<Rightarrow> 'z hpet_state_scheme res" where
  "hpet_write_status env store val s =
     foldE (\<lambda>i s. if bit (ucast val AND InterruptStatus (Hpet s)) i
                  then bindE (HpetUpdateIrq env store i False s) (\<lambda>s.
                       Inr (upd_hpet (\<lambda>h. h\<lparr>InterruptStatus := InterruptStatus h AND NOT (lsh1 i)\<rparr>) s))
                  else Inr s) [0 ..< 3] s"

definition hpet_set_counter :: "ULONG64 \<Rightarrow> 'z hpet_state_scheme \<Rightarrow> 'z hpet_state_scheme" where
  "hpet_set_counter c s =
     fold (\<lambda>i. upd_block i (\<lambda>b. b\<lparr>LastTimeChecked := c\<rparr>)) [0 ..< 3] (upd_hpet (\<lambda>h. h\<lparr>HpetCounter := c\<rparr>) s)"

definition set_low :: "ULONG64 \<Rightarrow> ULONG \<Rightarrow> ULONG64" where
  "set_low x v = (x AND 0xffffffff00000000) OR ucast v"

definition set_high :: "ULONG64 \<Rightarrow> ULONG \<Rightarrow> ULONG64" where
  "set_high x v = (x AND 0xffffffff) OR push_bit 32 (ucast v)"

text \<open>The write of the low half of the counter falls through to the high half.\<close>

definition hpet_write_counter :: "bool \<Rightarrow> ULONG \<Rightarrow> 'z hpet_state_scheme \<Rightarrow> 'z hpet_state_scheme" where
  "hpet_write_counter low val s =
     (if hpet_enabled s then s
      else let s = (if low then hpet_set_counter (set_low (HpetCounter (Hpet s)) val) s else s)
           in hpet_set_counter (set_high (HpetCounter (Hpet s)) val) s)"

definition hpet_write_config ::
  "env \<Rightarrow> ('z hpet_state_scheme) store \<Rightarrow> nat \<Rightarrow> ULONG \<Rightarrow> 'z hpet_state_scheme \<Rightarrow> 'z hpet_state_scheme res" where
  "hpet_write_config env store i val s =
     (let s = upd_block i (\<lambda>b. b\<lparr>ConfigCapabilities := val AND HPET_TIMER_CONF_CFG_WRITE_MASK\<rparr>) s;
          cap = ConfigCapabilities (blk s i);
          s = (if testw cap HPET_TIMER_CONF_TIMER_32BIT
               then upd_block i (\<lambda>b. b\<lparr>Comparator := Comparator b AND 0xffffffff, TimerPeriod := TimerPeriod b AND 0xffffffff\<rparr>) s
               else s);
          s = (if testw cap HPET_TIMER_CONF_FSB_ENABLE \<or> \<not> testw cap HPET_TIMER_CONF_EDGE_LEVEL
               then upd_hpet (\<lambda>h. h\<lparr>InterruptStatus := InterruptStatus h AND NOT (lsh1 i)\<rparr>) s else s)
      in bindE (if testw cap HPET_TIMER_CONF_IRQ_ENABLE \<and> hpet_enabled s
                then HpetUpdateIrq env store i (bit (InterruptStatus (Hpet s)) i) s else Inr s) (\<lambda>s.
         if hpet_enabled s then HpetUpdateTimer i s else Inr s))"

definition hpet_write_compare ::
  "(ULONG64 \<Rightarrow> ULONG \<Rightarrow> ULONG64) \<Rightarrow> nat \<Rightarrow> ULONG \<Rightarrow> 'z hpet_state_scheme \<Rightarrow> 'z hpet_state_scheme res" where
  "hpet_write_compare half i val s =
     (let cap = ConfigCapabilities (blk s i);
          s = (if \<not> testw cap HPET_TIMER_CONF_PERIODIC_ENABLED \<or> testw cap HPET_TIMER_CONF_VALUE_SET
               then upd_block i (\<lambda>b. b\<lparr>Comparator := half (Comparator b) val\<rparr>) s else s);
          s = upd_block i (\<lambda>b. b\<lparr>TimerPeriod := half (TimerPeriod b) val,
                                 ConfigCapabilities := ConfigCapabilities b AND NOT HPET_TIMER_CONF_VALUE_SET\<rparr>) s
      in if hpet_enabled s then HpetUpdateTimer i s else Inr s)"

definition hpet_write_timer ::
  "env \<Rightarrow> ('z hpet_state_scheme) store \<Rightarrow> nat \<Rightarrow> ULONG \<Rightarrow> ULONG \<Rightarrow> 'z hpet_state_scheme \<Rightarrow> 'z hpet_state_scheme res" where
  "hpet_write_timer env store i reg val s =
     (if reg = 0x00 then hpet_write_config env store i val s
      else if reg = 0x08 then hpet_write_compare set_low i val s
      else if reg = 0x0c
      then if testw (ConfigCapabilities (blk s i)) HPET_TIMER_CONF_TIMER_32BIT then Inr s else hpet_write_compare set_high i val s
      else if reg = 0x10
      then Inr (upd_block i (\<lambda>b. b\<lparr>FrontSideBusInterruptValue := val, FrontSideBusInterruptAddress := val\<rparr>) s)
      else if reg = 0x14 then Inr (upd_block i (\<lambda>b. b\<lparr>FrontSideBusInterruptAddress := val\<rparr>) s)
      else Inr s)"

text \<open>\<open>_HpetWriteMmioHandler\<close> and the handler that splits an eight-byte write.\<close>

definition hpet_write ::
  "env \<Rightarrow> ('z hpet_state_scheme) store \<Rightarrow> ULONG \<Rightarrow> ULONG \<Rightarrow> 'z hpet_state_scheme \<Rightarrow> 'z hpet_state_scheme res" where
  "hpet_write env store address val s =
     (let index = address AND 0x3ff
      in if index < 0x100
         then if index = 0x010 then hpet_configure env store val s
              else if index = 0x020 then hpet_write_status env store val s
              else if index = 0x0f0 then Inr (hpet_write_counter True val s)
              else if index = 0x0f4 then Inr (hpet_write_counter False val s)
              else Inr s
         else let i = unat ((index - 0x100) div 0x20)
              in if i \<ge> 3 then Inr s else hpet_write_timer env store i (index AND 0x1f) val s)"

definition HpetWriteMmioHandler ::
  "env \<Rightarrow> ('z hpet_state_scheme) store \<Rightarrow> 'z hpet_state_scheme \<Rightarrow> ULONG \<Rightarrow> ULONG64 \<Rightarrow> ULONG \<Rightarrow> 'z hpet_state_scheme res" where
  "HpetWriteMmioHandler env store s address data len =
     (if len = 4 then hpet_write env store address (ucast data) s
      else if len = 8
      then bindE (hpet_write env store address (ucast data) s) (hpet_write env store (address + 4) (ucast (drop_bit 32 data)))
      else Inr s)"

definition hpet_read_timer :: "HPET_TIMER_BLOCK \<Rightarrow> ULONG \<Rightarrow> ULONG" where
  "hpet_read_timer b reg =
     (if reg = 0x00 then ConfigCapabilities b
      else if reg = 0x04 then InterruptRoutingCapability b
      else if reg = 0x08 then ucast (Comparator b)
      else if reg = 0x0c then ucast (drop_bit 32 (Comparator b))
      else if reg = 0x10 then FrontSideBusInterruptValue b
      else if reg = 0x14 then FrontSideBusInterruptAddress b
      else 0)"

text \<open>\<open>_HpetReadMmioHandler\<close>: a timer number above 2 returns without a value.\<close>

definition hpet_read :: "ULONG \<Rightarrow> ULONG \<Rightarrow> 'z hpet_state_scheme \<Rightarrow> ULONG" where
  "hpet_read eax address s =
     (let index = address AND 0x3ff; h = Hpet s;
          count = (if testw (GlobalConfiguration h) 1 then HpetGetTicks s else HpetCounter h)
      in if index < 0x100
         then if index = 0x000 then GlobalCapabilities h
              else if index = 0x004 then ClockPeriod h
              else if index = 0x010 then ucast (GlobalConfiguration h)
              else if index = 0x014 then ucast (drop_bit 32 (GlobalConfiguration h))
              else if index = 0x020 then ucast (InterruptStatus h)
              else if index = 0x024 then ucast (drop_bit 32 (InterruptStatus h))
              else if index = 0x0f0 then ucast count
              else if index = 0x0f4 then ucast (drop_bit 32 count)
              else 0
         else let i = unat ((index - 0x100) div 0x20)
              in if i \<ge> 3 then eax else hpet_read_timer (blk s i) (index AND 0x1f))"

definition HpetReadMmioHandler :: "ULONG \<Rightarrow> 'z hpet_state_scheme \<Rightarrow> ULONG \<Rightarrow> ULONG64 \<Rightarrow> ULONG \<Rightarrow> ULONG64" where
  "HpetReadMmioHandler eax s address data len = mmio_put data len (hpet_read eax address s)"

definition HpetInitialize :: "env \<Rightarrow> 'z hpet_state_scheme \<Rightarrow> 'z hpet_state_scheme res" where
  "HpetInitialize env s =
     bindE (MmioRegisterHandler env
        (upd_hpet (\<lambda>h. h\<lparr>GlobalCapabilities := 1 OR push_bit 8 2 OR lsh1 13 OR lsh1 15 OR push_bit 16 0x8086, ClockPeriod := 1000000 * 10\<rparr>) s)
        HPET_MMIO 0x1000 (Some HpetMmio) (Some HpetMmio))
     (foldE (\<lambda>i s. bindE (TimerCreate s HpetTimerFn i) (\<lambda>(t, s).
                    Inr (upd_block i (\<lambda>b. b\<lparr>HpetTimerId := t, HpetId := of_nat i\<rparr>) s))) [0 ..< 3])"

section \<open>The catch-up loop\<close>

lemma catch_up_step:
  "last_time \<le> cur \<and> last_time \<le> cmp + p \<and> cmp + p \<le> cur \<Longrightarrow> hpet_catch_up last_time cur p cmp = hpet_catch_up last_time cur p (cmp + p)"
  "\<not> (last_time \<le> cur \<and> last_time \<le> cmp + p \<and> cmp + p \<le> cur) \<Longrightarrow> hpet_catch_up last_time cur p cmp = Some (cmp + p)"
  by (subst hpet_catch_up.simps, simp only: if_True if_False simp_thms)+

lemma unat_add_ULONG64: "unat (a + b :: ULONG64) = (if unat a + unat b < 2 ^ 64 then unat a + unat b else unat a + unat b - 2 ^ 64)"
proof -
  have "unat a < 2 ^ 64" "unat b < 2 ^ 64" using unsigned_less [of a] unsigned_less [of b] by simp_all
  then show ?thesis by (simp add: unat_word_ariths mod_if)
qed

text \<open>Inside the window every step goes in one direction, so the loop ends.\<close>

lemma catch_up_window:
  fixes p :: ULONG64
  assumes p: "p \<noteq> 0" and w: "unat cur - unat last_time < 2 ^ 63" and le: "last_time \<le> cmp" "cmp \<le> cur"
  shows "\<exists>c. hpet_catch_up last_time cur p cmp = Some c \<and> \<not> (last_time \<le> c \<and> c \<le> cur)"
  using le
proof (induction "if unat p \<le> 2 ^ 63 then unat cur - unat cmp else unat cmp - unat last_time" arbitrary: cmp rule: less_induct)
  case less
  have in_w: "unat last_time \<le> unat cmp" "unat cmp \<le> unat cur" using less.prems by (simp_all add: word_le_nat_alt)
  have pos: "0 < unat p" using p by (simp add: unat_gt_0)
  have lt: "unat p < 2 ^ 64" "unat cur < 2 ^ 64" using unsigned_less [of p] unsigned_less [of cur] by simp_all
  show ?case
  proof (cases "last_time \<le> cmp + p \<and> cmp + p \<le> cur")
    case False
    moreover have "last_time \<le> cur" using less.prems by (rule order_trans)
    ultimately show ?thesis using catch_up_step(2) [of last_time cur cmp p] by blast
  next
    case True
    then have t: "unat last_time \<le> unat (cmp + p)" "unat (cmp + p) \<le> unat cur" by (simp_all add: word_le_nat_alt)
    have "(if unat p \<le> 2 ^ 63 then unat cur - unat (cmp + p) else unat (cmp + p) - unat last_time)
      < (if unat p \<le> 2 ^ 63 then unat cur - unat cmp else unat cmp - unat last_time)"
      using t in_w pos lt w unfolding unat_add_ULONG64 by (auto split: if_splits)
    from less.hyps [OF this] True
    obtain c where "hpet_catch_up last_time cur p (cmp + p) = Some c" "\<not> (last_time \<le> c \<and> c \<le> cur)" by blast
    moreover have "last_time \<le> cur" using less.prems by (rule order_trans)
    ultimately show ?thesis using catch_up_step(1) [of last_time cur cmp p] True by auto
  qed
qed

lemma catch_up_multiple:
  fixes p :: ULONG64
  assumes p: "p \<noteq> 0" and le: "last_time \<le> cmp" "cmp \<le> cur" and room: "unat cur + unat p < 2 ^ 64"
  shows "\<exists>c. hpet_catch_up last_time cur p cmp = Some c \<and> unat c = unat cmp + unat p * ((unat cur - unat cmp) div unat p + 1)"
  using le
proof (induction "(unat cur - unat cmp) div unat p" arbitrary: cmp)
  case 0
  have in_w: "unat last_time \<le> unat cmp" "unat cmp \<le> unat cur" using 0(2,3) by (simp_all add: word_le_nat_alt)
  have pos: "0 < unat p" using p by (simp add: unat_gt_0)
  have d: "unat cur - unat cmp < unat p" using 0(1) pos by (metis div_greater_zero_iff not_le less_irrefl)
  have a: "unat (cmp + p) = unat cmp + unat p" using in_w room unfolding unat_add_ULONG64 by auto
  then have "\<not> cmp + p \<le> cur" using d in_w by (simp add: word_le_nat_alt)
  then show ?case using catch_up_step(2) [of last_time cur cmp p] a 0(1) by simp
next
  case (Suc n)
  have in_w: "unat last_time \<le> unat cmp" "unat cmp \<le> unat cur" using Suc.prems by (simp_all add: word_le_nat_alt)
  have pos: "0 < unat p" using p by (simp add: unat_gt_0)
  have d: "unat p \<le> unat cur - unat cmp" using Suc(2) pos by (metis div_less not_le nat.distinct(1))
  have a: "unat (cmp + p) = unat cmp + unat p" using in_w room unfolding unat_add_ULONG64 by auto
  have w: "last_time \<le> cmp + p" "cmp + p \<le> cur" using a d in_w by (simp_all add: word_le_nat_alt)
  have q: "(unat cur - unat cmp) div unat p = (unat cur - unat (cmp + p)) div unat p + 1"
    using d pos le_div_geq [of "unat p" "unat cur - unat cmp"] unfolding a by (simp add: diff_diff_add)
  obtain c where c: "hpet_catch_up last_time cur p (cmp + p) = Some c"
    "unat c = unat (cmp + p) + unat p * ((unat cur - unat (cmp + p)) div unat p + 1)"
    using Suc(1) [OF _ w] Suc(2) q by auto
  have "last_time \<le> cur" using Suc.prems by (rule order_trans)
  then have "hpet_catch_up last_time cur p cmp = Some c" using catch_up_step(1) [of last_time cur cmp p] w c(1) by simp
  then show ?case using c(2) a q by (simp add: algebra_simps)
qed

lemma catch_up_total:
  fixes p :: ULONG64
  assumes "p \<noteq> 0" and "unat cur - unat last_time < 2 ^ 63"
  obtains c where "hpet_catch_up last_time cur p cmp = Some c" "\<not> (last_time \<le> c \<and> c \<le> cur)"
proof (cases "last_time \<le> cur \<and> last_time \<le> cmp + p \<and> cmp + p \<le> cur")
  case True
  then show thesis using that catch_up_step(1) catch_up_window [OF assms, of "cmp + p"] by auto
next
  case False
  then show thesis using that catch_up_step(2) [OF False] by (auto dest: order_trans)
qed

text \<open>C32. The loop that moves a periodic comparator forward ends whenever fewer than 2^63 ticks passed since the
  last check, and leaves the comparator outside the elapsed window. When the comparator was in the window and
  the sum does not wrap, the result is the first multiple of the period that is later than the current count.
\<close>

theorem hpet_catch_up_ends:
  fixes p :: ULONG64
  assumes "p \<noteq> 0" and "unat cur - unat last_time < 2 ^ 63"
  shows "\<exists>c. hpet_catch_up last_time cur p cmp = Some c \<and> \<not> (last_time \<le> c \<and> c \<le> cur) \<and>
    (last_time \<le> cmp \<and> cmp \<le> cur \<and> unat cur + unat p < 2 ^ 64 \<longrightarrow>
       cur < c \<and> unat c = unat cmp + unat p * ((unat cur - unat cmp) div unat p + 1))"
proof -
  obtain c where c: "hpet_catch_up last_time cur p cmp = Some c" "\<not> (last_time \<le> c \<and> c \<le> cur)"
    using catch_up_total [OF assms] .
  moreover have "cur < c" if "last_time \<le> cmp" "unat c = unat cmp + n" for n
    using c(2) that by (auto simp: word_le_nat_alt word_less_nat_alt)
  ultimately show ?thesis using catch_up_multiple [OF assms(1), of last_time cmp cur] by auto
qed

theorem hpet_catch_up_ends_witness:
  "\<exists>c. hpet_catch_up 100 1000 30 110 = Some c \<and> unat c = 110 + 30 * (890 div 30 + 1)"
  using hpet_catch_up_ends [of 30 1000 100 110] by auto

section \<open>Well-formedness\<close>

definition hpet_ok :: "'z hpet_state_scheme \<Rightarrow> bool" where
  "hpet_ok s \<longleftrightarrow> wf_timers s \<and> (\<forall>i < 3. unat (HpetTimerId (blk s i)) < 32)"

text \<open>What the handlers rely on of a store to guest memory: it leaves the timers and this device alone.\<close>

definition store_ok :: "('z hpet_state_scheme) store \<Rightarrow> svmm_error set \<Rightarrow> bool" where
  "store_ok store E \<longleftrightarrow> (\<forall>a v s. specE E (\<lambda>t. Timers t = Timers s \<and> TimersIdx t = TimersIdx s \<and> Hpet t = Hpet s) (store a v s))"

lemma upd_hpet_simps [simp]:
  "Hpet (upd_hpet f s) = f (Hpet s)" "wf_timers (upd_hpet f s) = wf_timers s" "TicksTotal (upd_hpet f s) = TicksTotal s"
  by (simp_all add: upd_hpet_def wf_timers_def)

lemma blk_upd_block [simp]: "blk (upd_block i f s) j = (if j = i then f (blk s i) else blk s j)"
  by (simp add: upd_block_def)

lemma hpet_ok_upd: "hpet_ok s \<Longrightarrow> HpetTimer (f (Hpet s)) = HpetTimer (Hpet s) \<Longrightarrow> hpet_ok (upd_hpet f s)"
  by (simp add: hpet_ok_def)

lemma hpet_ok_block: "hpet_ok s \<Longrightarrow> (\<And>b. HpetTimerId (f b) = HpetTimerId b) \<Longrightarrow> hpet_ok (upd_block i f s)"
  by (simp add: hpet_ok_def upd_block_def)

lemma hpet_ok_same: "Timers t = Timers s \<Longrightarrow> TimersIdx t = TimersIdx s \<Longrightarrow> Hpet t = Hpet s \<Longrightarrow> hpet_ok t = hpet_ok s"
  by (simp add: hpet_ok_def wf_timers_def)

lemma hpet_pic:
  "pic_only s t \<Longrightarrow> Timers t = Timers s \<and> TimersIdx t = TimersIdx s \<and> Hpet t = Hpet s" for s t :: "'z hpet_state_scheme"
  by (auto elim!: pic_onlyE)

text \<open>Raising or lowering the interrupt of a comparator changes only the status bits of this device.\<close>

definition irq_only :: "'z hpet_state_scheme \<Rightarrow> 'z hpet_state_scheme \<Rightarrow> bool" where
  "irq_only s t \<longleftrightarrow> Timers t = Timers s \<and> TimersIdx t = TimersIdx s \<and> (\<exists>x. Hpet t = (Hpet s)\<lparr>InterruptStatus := x\<rparr>)"

lemma irq_onlyI: "Timers t = Timers s \<Longrightarrow> TimersIdx t = TimersIdx s \<Longrightarrow> Hpet t = (Hpet s)\<lparr>InterruptStatus := x\<rparr> \<Longrightarrow> irq_only s t"
  by (auto simp: irq_only_def)

lemma irq_only_refl [simp]: "irq_only s s"
  by (rule irq_onlyI [of _ _ "InterruptStatus (Hpet s)"]) simp_all

lemma irq_only_pic: "irq_only s t \<Longrightarrow> pic_only t u \<Longrightarrow> irq_only s u"
  by (auto simp: irq_only_def dest!: hpet_pic)

lemma irq_only_status: "irq_only s (upd_hpet (\<lambda>h. h\<lparr>InterruptStatus := f h\<rparr>) s)"
  by (rule irq_onlyI [of _ _ "f (Hpet s)"]) (simp_all add: upd_hpet_def)

lemma irq_only_ok: "irq_only s t \<Longrightarrow> hpet_ok s \<Longrightarrow> hpet_ok t"
  by (auto simp: irq_only_def hpet_ok_def wf_timers_def)

lemma irq_only_blk: "irq_only s t \<Longrightarrow> blk t i = blk s i"
  by (auto simp: irq_only_def)

lemma HpetUpdateIrq_spec:
  assumes "store_ok store E"
  shows "specE ({Exit, BadShift} \<union> E) (irq_only s) (HpetUpdateIrq env store i raised s)"
proof -
  have raise: "specE ({Exit, BadShift} \<union> E) (irq_only s) (PicRaiseIrq env u irq)" if "irq_only s u" for u irq
    by (rule specE_mono [OF PicRaiseIrq_frame]) (use that irq_only_pic in auto)
  have st: "specE ({Exit, BadShift} \<union> E) (irq_only s) (store a v u)" if "irq_only s u" for a v u
    by (rule specE_mono [OF assms [unfolded store_ok_def, rule_format]]) (use that in \<open>auto simp: irq_only_def\<close>)
  have low: "irq_only s (PicLowerIrq u irq)" if "irq_only s u" for u irq
    using that PicLowerIrq_frame by (rule irq_only_pic)
  show ?thesis unfolding HpetUpdateIrq_def Let_def
    by (intro specE_if_both raise st low) (auto simp: irq_only_status intro: low)
qed

lemma HpetUpdateTimer_ok: "hpet_ok s \<Longrightarrow> i < 3 \<Longrightarrow> specE F (\<lambda>t. hpet_ok t \<and> Hpet t = Hpet s) (HpetUpdateTimer i s)"
  by (auto simp: HpetUpdateTimer_def Let_def TimerActivate_eq hpet_ok_def wf_timers_def)

lemma HpetUpdateTimer_keeps: "hpet_ok s \<Longrightarrow> i < 3 \<Longrightarrow> specE F hpet_ok (HpetUpdateTimer i s)"
  by (rule specE_mono [OF HpetUpdateTimer_ok]) auto

lemma HpetDisableTimer_ok:
  assumes "store_ok store E" and "hpet_ok s" and "i < 3"
  shows "specE ({Exit, BadShift} \<union> E) hpet_ok (HpetDisableTimer env store i s)"
proof -
  have i: "wf_timers s" "unat (HpetTimerId (blk s i)) < 32" using assms(2,3) by (auto simp: hpet_ok_def)
  obtain ts where ts: "TimerDeactivate s (HpetTimerId (blk s i)) = Inr (s\<lparr>Timers := ts\<rparr>)" "length ts = 32"
    using TimerDeactivate_spec [OF i] by auto
  have "hpet_ok (s\<lparr>Timers := ts\<rparr>)" using assms(2) ts(2) by (simp add: hpet_ok_def wf_timers_def)
  then show ?thesis unfolding HpetDisableTimer_def ts(1) bindE_simps
    by (intro specE_mono [OF HpetUpdateIrq_spec [OF assms(1)] subset_refl]) (rule irq_only_ok)
qed

lemma hpet_write_parts_ok:
  assumes st: "store_ok store E" and s: "hpet_ok s" and i: "i < 3"
  shows "specE ({Exit, BadShift} \<union> E) hpet_ok (hpet_write_config env store i val s)"
    and "specE ({Exit, BadShift} \<union> E) hpet_ok (hpet_write_compare half i val s)"
    and "specE ({Exit, BadShift} \<union> E) hpet_ok (hpet_write_timer env store i reg val s)"
proof -
  have upd: "specE ({Exit, BadShift} \<union> E) hpet_ok (if b then HpetUpdateTimer i t else Inr t)" if "hpet_ok t" for b t
    using that by (simp add: HpetUpdateTimer_keeps [OF that i])
  have irq: "specE ({Exit, BadShift} \<union> E) hpet_ok (HpetUpdateIrq env store i r t)" if "hpet_ok t" for r t
    by (rule specE_mono [OF HpetUpdateIrq_spec [OF st] subset_refl]) (rule irq_only_ok [OF _ that])
  show c: "specE ({Exit, BadShift} \<union> E) hpet_ok (hpet_write_config env store i val s)" for val
    unfolding hpet_write_config_def Let_def
    by (intro specE_bindI [where P = hpet_ok] specE_if_both irq upd)
       (auto intro!: hpet_ok_block hpet_ok_upd s)
  show cmp: "specE ({Exit, BadShift} \<union> E) hpet_ok (hpet_write_compare half i val s)" for half
    unfolding hpet_write_compare_def Let_def by (intro upd) (auto intro!: hpet_ok_block s)
  show "specE ({Exit, BadShift} \<union> E) hpet_ok (hpet_write_timer env store i reg val s)"
    unfolding hpet_write_timer_def by (intro specE_if_both c cmp) (auto intro!: hpet_ok_block s)
qed

lemma hpet_ok_interrupts: "hpet_ok t \<Longrightarrow> hpet_ok (CmosSetInterrupt (PitSetInterrupt t a) b)"
  by (simp add: hpet_ok_def wf_timers_def CmosSetInterrupt_def upd_cmos_def PitSetInterrupt_def)

lemma hpet_configure_ok:
  assumes st: "store_ok store E" and s: "hpet_ok s"
  shows "specE ({Exit, BadShift} \<union> E) hpet_ok (hpet_configure env store val s)"
    and "specE ({Exit, BadShift} \<union> E) hpet_ok (hpet_write_status env store val s)"
proof -
  have irq: "specE ({Exit, BadShift} \<union> E) hpet_ok (HpetUpdateIrq env store i r t)" if "hpet_ok t" for r t i
    by (rule specE_mono [OF HpetUpdateIrq_spec [OF st] subset_refl]) (rule irq_only_ok [OF _ that])
  have tim: "specE ({Exit, BadShift} \<union> E) hpet_ok (HpetUpdateTimer i t)" if "hpet_ok t" "i \<in> set [0 ..< 3]" for i t
    using that(2) by (intro HpetUpdateTimer_keeps [OF that(1)]) simp
  have "specE ({Exit, BadShift} \<union> E) hpet_ok (hpet_enable_timers env store s)"
    unfolding hpet_enable_timers_def
    by (rule specE_foldI, simp add: hpet_ok_upd s, intro specE_bindI [where P = hpet_ok] specE_if_both irq tim) simp_all
  moreover have "specE ({Exit, BadShift} \<union> E) hpet_ok (hpet_disable_timers env store s)"
    unfolding hpet_disable_timers_def
    by (rule specE_foldI, simp add: hpet_ok_upd s, rule HpetDisableTimer_ok [OF st]) simp_all
  ultimately show "specE ({Exit, BadShift} \<union> E) hpet_ok (hpet_configure env store val s)"
    unfolding hpet_configure_def Let_def
    by (intro specE_bindI [where P = hpet_ok] specE_if_both)
       (auto intro!: hpet_ok_upd hpet_ok_interrupts s)
  show "specE ({Exit, BadShift} \<union> E) hpet_ok (hpet_write_status env store val s)"
    unfolding hpet_write_status_def
    by (rule specE_foldI, rule s, intro specE_if_both specE_bindI [where P = hpet_ok] irq) (simp_all add: hpet_ok_upd)
qed

lemma hpet_ok_counter: "hpet_ok s \<Longrightarrow> hpet_ok (hpet_write_counter low val s)"
proof -
  have b: "hpet_ok (fold (\<lambda>i. upd_block i (\<lambda>b. b\<lparr>LastTimeChecked := c\<rparr>)) is t)" if "hpet_ok t" for c "is" t
    using that by (induction "is" arbitrary: t) (simp_all add: hpet_ok_block)
  show "hpet_ok s \<Longrightarrow> ?thesis"
    unfolding hpet_write_counter_def hpet_set_counter_def Let_def by (auto intro!: b hpet_ok_upd)
qed

lemma hpet_write_ok:
  assumes "store_ok store E" and "hpet_ok s"
  shows "specE ({Exit, BadShift} \<union> E) hpet_ok (hpet_write env store address val s)"
  unfolding hpet_write_def Let_def
  using hpet_write_parts_ok(3) [OF assms] hpet_configure_ok [OF assms] hpet_ok_counter [OF assms(2)] assms(2) by auto


lemma hpet_example_ok: "hpet_ok hpet_zero"
  by (simp add: hpet_ok_def wf_timers_def hpet_zero_def hpet_state.defs piix3_zero_def piix3_state.defs i440fx_zero_def i440fx_state.defs
      acpi_zero_defs HPET_zero_def HPET_TIMER_zero_def)


text \<open>A window of the whole range makes the loop run for ever.\<close>

lemma max_word: "x \<le> (0xffffffffffffffff :: ULONG64)"
  unfolding word_le_nat_alt using unsigned_less [of x, where 'a = nat] by simp

theorem hpet_catch_up_hangs: "hpet_catch_up 0 0xffffffffffffffff p c = None"
proof (rule ccontr)
  assume "hpet_catch_up 0 0xffffffffffffffff p c \<noteq> None"
  then obtain y where "hpet_catch_up 0 0xffffffffffffffff p c = Some y" by blast
  moreover have "hpet_catch_up l u p c = Some y \<Longrightarrow> l = 0 \<and> u = 0xffffffffffffffff \<longrightarrow> False" for l u
    by (erule hpet_catch_up.raw_induct [rotated, where P = "\<lambda>l u p c y. l = 0 \<and> u = 0xffffffffffffffff \<longrightarrow> False"])
       (auto split: if_splits simp: max_word)
  ultimately show False by blast
qed

text \<open>The legacy routing is decided by the level bit of the timer instead of the global configuration.\<close>

theorem hpet_level_is_legacy:
  "testw (ConfigCapabilities b) HPET_TIMER_CONF_EDGE_LEVEL \<Longrightarrow> hpet_irq b = (if HpetId b \<noteq> 0 then 8 else 0)"
  by (simp add: hpet_irq_def HPET_consts RTC_IRQ_def)

end
