(* ===== verification/Legacy_Ports.thy ===== *)
theory Legacy_Ports
  imports Hpet
begin

text \<open>
  The three devices that are little more than ports: the message ports of the two BIOS images
  (\<open>bios.c\<close>), which collect lines and print them, and the serial and parallel ports
  (\<open>serial.c\<close>, \<open>parallel.c\<close>), which answer with constants. What is printed is recorded in
  \<open>Console\<close>.
\<close>

section \<open>State\<close>

datatype console_line = Stderr "BYTE list" | Stdout "BYTE list" | BiosLine ULONG | VgaBiosLine ULONG

record BIOS_MESSAGES =
  message :: "BYTE list"
  message_i :: DWORD
  panic_flag :: DWORD

record bios_state = hpet_state +
  bios :: BIOS_MESSAGES
  vgabios :: BIOS_MESSAGES
  Console :: "console_line list"

definition BX_BIOS_MESSAGE_SIZE :: nat where "BX_BIOS_MESSAGE_SIZE = 80"

definition BIOS_zero :: BIOS_MESSAGES where
  "BIOS_zero = \<lparr>message = replicate BX_BIOS_MESSAGE_SIZE 0, message_i = 0, panic_flag = 0\<rparr>"

definition bios_zero :: bios_state where
  "bios_zero = hpet_state.extend hpet_zero (bios_state.fields BIOS_zero BIOS_zero [])"

section \<open>BIOS messages\<close>

text \<open>The argument of \<open>%s\<close>, up to the terminating zero.\<close>

definition c_string :: "BYTE list \<Rightarrow> BYTE list" where
  "c_string m = takeWhile (\<lambda>b. b \<noteq> 0) m"

text \<open>Both BIOS images use the same code on their own variables: the buffer, and the lines printed.\<close>

definition bios_flush :: "ULONG \<Rightarrow> (ULONG \<Rightarrow> console_line) \<Rightarrow> BIOS_MESSAGES \<Rightarrow> (BIOS_MESSAGES \<times> console_line list) res" where
  "bios_flush val line b =
     (if val = 0 then Inr (b\<lparr>panic_flag := 1\<rparr>, [])
      else if message_i b > 0
      then let i = (if unat (message_i b) \<ge> BX_BIOS_MESSAGE_SIZE then BX_BIOS_MESSAGE_SIZE - 1 else unat (message_i b))
           in bindE (arr_set (message b) i 0) (\<lambda>m. Inr (b\<lparr>message := m, message_i := 0\<rparr>, [Stderr (c_string m)]))
      else Inr (b, if val > 0 then [line val] else []))"

definition bios_put :: "ULONG \<Rightarrow> BIOS_MESSAGES \<Rightarrow> (BIOS_MESSAGES \<times> console_line list) res" where
  "bios_put val b =
     bindE (arr_set (message b) (unat (message_i b)) (ucast val)) (\<lambda>m.
     let i = message_i b + 1
     in if unat i \<ge> BX_BIOS_MESSAGE_SIZE
        then bindE (arr_set m (BX_BIOS_MESSAGE_SIZE - 1) 0) (\<lambda>m. Inr (b\<lparr>message := m, message_i := 0\<rparr>, [Stdout (c_string m)]))
        else if val AND 0xff = 10
        then bindE (arr_set m (unat (i - 1)) 0) (\<lambda>m.
             Inr (b\<lparr>message := m, message_i := 0, panic_flag := 0\<rparr>,
                  [if panic_flag b = 1 then Stderr (c_string m) else Stdout (c_string m)]))
        else Inr (b\<lparr>message := m, message_i := i\<rparr>, []))"

definition bios_store :: "'z bios_state_scheme \<Rightarrow> BIOS_MESSAGES \<times> console_line list \<Rightarrow> 'z bios_state_scheme" where
  "bios_store s r = s\<lparr>bios := fst r, Console := Console s @ snd r\<rparr>"

definition vgabios_store :: "'z bios_state_scheme \<Rightarrow> BIOS_MESSAGES \<times> console_line list \<Rightarrow> 'z bios_state_scheme" where
  "vgabios_store s r = s\<lparr>vgabios := fst r, Console := Console s @ snd r\<rparr>"

definition BiosWriteHandler :: "ULONG \<Rightarrow> ULONG \<Rightarrow> ULONG \<Rightarrow> 'z bios_state_scheme \<Rightarrow> 'z bios_state_scheme res" where
  "BiosWriteHandler address val len s =
     (if address = 0x401 then bindE (bios_flush val BiosLine (bios s)) (\<lambda>r. Inr (bios_store s r))
      else if address = 0x400 then Inr (bios_store s (bios s, if val > 0 then [BiosLine val] else []))
      else if address = 0x402 \<or> address = 0x403 then bindE (bios_put val (bios s)) (\<lambda>r. Inr (bios_store s r))
      else if address = 0x502 then bindE (bios_flush val VgaBiosLine (vgabios s)) (\<lambda>r. Inr (vgabios_store s r))
      else if address = 0x501 then Inr (vgabios_store s (vgabios s, if val > 0 then [VgaBiosLine val] else []))
      else if address = 0x500 \<or> address = 0x503 then bindE (bios_put val (vgabios s)) (\<lambda>r. Inr (vgabios_store s r))
      else Inr s)"

text \<open>\<open>BiosReadHandler\<close> has an empty body: the value is whatever the return register holds.\<close>

definition BiosReadHandler :: "ULONG \<Rightarrow> ULONG \<Rightarrow> ULONG \<Rightarrow> ULONG" where
  "BiosReadHandler eax address len = eax"

definition BiosInitialize :: "env \<Rightarrow> 'z bios_state_scheme \<Rightarrow> 'z bios_state_scheme res" where
  "BiosInitialize env s =
     foldE (\<lambda>a s. RegisterPortIoHandler env s a (Some BiosPort) (Some BiosPort))
       [0x400, 0x401, 0x402, 0x403, 0x500, 0x501, 0x502, 0x503] s"

section \<open>Serial and parallel ports\<close>

definition SerialInitialize :: "env \<Rightarrow> 'z bios_state_scheme \<Rightarrow> 'z bios_state_scheme res" where
  "SerialInitialize env s =
     foldE (\<lambda>i s. foldE (\<lambda>a s. RegisterPortIoHandler env s (a + of_nat i) (Some SerialPort) (Some SerialPort))
                     [0x3f8, 0x2f8, 0x3e8, 0x2e8] s) [0 ..< 8] s"

definition SerialPortIoReadHandler :: "ULONG \<Rightarrow> ULONG \<Rightarrow> ULONG" where
  "SerialPortIoReadHandler address len = 2"

definition SerialPortIoWriteHandler :: "ULONG \<Rightarrow> ULONG \<Rightarrow> ULONG \<Rightarrow> 'z bios_state_scheme \<Rightarrow> 'z bios_state_scheme" where
  "SerialPortIoWriteHandler address val len s = s"

definition ParallelInitialize :: "env \<Rightarrow> 'z bios_state_scheme \<Rightarrow> 'z bios_state_scheme res" where
  "ParallelInitialize env s =
     foldE (\<lambda>i s. foldE (\<lambda>a s. RegisterPortIoHandler env s (a + of_nat i) (Some ParallelPort) (Some ParallelPort))
                     [0x278, 0x378] s) [0 ..< 3] s"

definition ParallelPortIoReadHandler :: "ULONG \<Rightarrow> ULONG \<Rightarrow> ULONG \<Rightarrow> ULONG" where
  "ParallelPortIoReadHandler eax address len = (if address AND 7 \<in> {0, 1, 2} then 0xff else eax)"

definition ParallelPortIoWriteHandler :: "ULONG \<Rightarrow> ULONG \<Rightarrow> ULONG \<Rightarrow> 'z bios_state_scheme \<Rightarrow> 'z bios_state_scheme" where
  "ParallelPortIoWriteHandler address val len s = s"

section \<open>Properties\<close>

definition MESSAGES_ok :: "BIOS_MESSAGES \<Rightarrow> bool" where
  "MESSAGES_ok b \<longleftrightarrow> length (message b) = 80 \<and> unat (message_i b) < 80"

definition bios_ok :: "'z bios_state_scheme \<Rightarrow> bool" where
  "bios_ok s \<longleftrightarrow> MESSAGES_ok (bios s) \<and> MESSAGES_ok (vgabios s)"

lemma bios_flush_ok: "MESSAGES_ok b \<Longrightarrow> specE {} (\<lambda>r. MESSAGES_ok (fst r)) (bios_flush val line b)"
  by (auto simp: bios_flush_def Let_def MESSAGES_ok_def BX_BIOS_MESSAGE_SIZE_def)

lemma message_i_succ: "unat (message_i b) < 80 \<Longrightarrow> unat (message_i b + 1) = unat (message_i b) + 1"
  by (simp add: unat_word_ariths)

lemma bios_put_ok: "MESSAGES_ok b \<Longrightarrow> specE {} (\<lambda>r. MESSAGES_ok (fst r)) (bios_put val b)"
  by (auto simp: bios_put_def Let_def MESSAGES_ok_def BX_BIOS_MESSAGE_SIZE_def message_i_succ)

text \<open>Every write to the message ports returns: the index never leaves the buffer.\<close>

theorem bios_ports: "bios_ok s \<Longrightarrow> specE {} bios_ok (BiosWriteHandler address val len s)"
  unfolding BiosWriteHandler_def
  by (auto simp: bios_ok_def bios_store_def vgabios_store_def intro!: specE_bindI [OF bios_flush_ok] specE_bindI [OF bios_put_ok])

lemma in_set_ne: "x \<notin> set xs \<Longrightarrow> c \<in> set xs \<Longrightarrow> c \<noteq> x"
  by auto

lemma bios_put_chars:
  assumes "MESSAGES_ok b" and "unat (message_i b) + length cs < 79" and "\<And>c. c \<in> set cs \<Longrightarrow> c \<noteq> 10"
  shows "\<exists>b'. foldE (\<lambda>c (b, out). bindE (bios_put (ucast c) b) (\<lambda>(b, o'). Inr (b, out @ o'))) cs (b, out) = Inr (b', out) \<and>
     MESSAGES_ok b' \<and> unat (message_i b') = unat (message_i b) + length cs \<and> panic_flag b' = panic_flag b \<and>
     take (unat (message_i b')) (message b') = take (unat (message_i b)) (message b) @ cs"
  using assms
proof (induction cs arbitrary: b)
  case Nil
  then show ?case by auto
next
  case (Cons c cs)
  let ?b = "b\<lparr>message := (message b)[unat (message_i b) := c], message_i := message_i b + 1\<rparr>"
  have i: "unat (message_i b + 1) = unat (message_i b) + 1" "length (message b) = 80" "unat (message_i b) < 79"
    using Cons.prems(1,2) message_i_succ [of b] by (simp_all add: MESSAGES_ok_def)
  have "(ucast c :: ULONG) AND 0xff = ucast c"
  proof -
    have m: "(0xff :: ULONG) = mask 8" by (simp add: mask_eq_exp_minus_1)
    show ?thesis unfolding m by (rule bit_word_eqI) (use bit_BYTE_high in \<open>auto simp: bit_simps not_less [symmetric]\<close>)
  qed
  moreover have "(ucast c :: ULONG) \<noteq> 10" using Cons.prems(3) [of c] unat_ucast_up [of c, where 'b = 32] by (auto simp: word_unat_eq_iff)
  ultimately have put: "bios_put (ucast c) b = Inr (?b, [])"
    using i by (simp add: bios_put_def Let_def BX_BIOS_MESSAGE_SIZE_def)
  have "\<exists>b'. foldE (\<lambda>c (b, out). bindE (bios_put (ucast c) b) (\<lambda>(b, o'). Inr (b, out @ o'))) cs (?b, out) = Inr (b', out) \<and>
     MESSAGES_ok b' \<and> unat (message_i b') = unat (message_i ?b) + length cs \<and> panic_flag b' = panic_flag ?b \<and>
     take (unat (message_i b')) (message b') = take (unat (message_i ?b)) (message ?b) @ cs"
    by (rule Cons.IH) (use i Cons.prems in \<open>auto simp: MESSAGES_ok_def\<close>)
  then show ?case using put i by (auto simp: take_Suc_conv_app_nth)
qed

text \<open>
  A line of fewer than 79 characters, none of them zero or a newline, written byte by byte to an empty
  buffer and ended by a newline, is printed as it is, on the error stream when a panic was announced.
\<close>

theorem bios_line_printed:
  assumes "MESSAGES_ok b" and "message_i b = 0" and "length cs < 79" and "0 \<notin> set cs" and "10 \<notin> set cs"
  shows "\<exists>b'. foldE (\<lambda>c (b, out). bindE (bios_put (ucast c) b) (\<lambda>(b, o'). Inr (b, out @ o'))) (cs @ [10]) (b, []) =
     Inr (b', [if panic_flag b = 1 then Stderr cs else Stdout cs]) \<and> message_i b' = 0 \<and> panic_flag b' = 0"
proof -
  obtain b1 where b1: "foldE (\<lambda>c (b, out). bindE (bios_put (ucast c) b) (\<lambda>(b, o'). Inr (b, out @ o'))) cs (b, []) = Inr (b1, [])"
     "MESSAGES_ok b1" "unat (message_i b1) = length cs" "panic_flag b1 = panic_flag b" "take (length cs) (message b1) = cs"
    using bios_put_chars [OF assms(1), of cs "[]"] assms(2,3) in_set_ne [OF assms(5)] by auto
  have len: "length (message b1) = 80" using b1(2) by (simp add: MESSAGES_ok_def)
  have split: "xs[n := x] = take n xs @ x # drop (Suc n) xs" if "n < length xs" for xs :: "BYTE list" and n x
    using that by (rule upd_conv_take_nth_drop)
  have tw: "takeWhile (\<lambda>c. c \<noteq> 0) (xs @ 0 # ys) = xs" if "0 \<notin> set xs" for xs ys :: "BYTE list"
    using that by (induction xs) auto
  have str: "c_string ((message b1)[length cs := 10, length cs := 0]) = cs"
    using split [of "length cs" "message b1" 0] len assms(3) b1(5) by (simp add: c_string_def tw [OF assms(4)])
  have "unat (message_i b1 + 1) = length cs + 1" using message_i_succ [of b1] b1(3) assms(3) by simp
  then have "bios_put (ucast (10 :: BYTE)) b1 =
      Inr (b1\<lparr>message := (message b1)[length cs := 10, length cs := 0], message_i := 0, panic_flag := 0\<rparr>,
        [if panic_flag b = 1 then Stderr cs else Stdout cs])"
    using len assms(3) b1(3,4) str by (simp add: bios_put_def Let_def BX_BIOS_MESSAGE_SIZE_def)
  then show ?thesis using b1(1) by (auto simp: foldE_append)
qed

end
