(* ===== verification/Flash.thy ===== *)
theory Flash
  imports Legacy_Ports
begin

text \<open>
  The flash memory of \<open>flash.c\<close>: its command state machine behind the memory-mapped window, and the
  initialisation that loads the firmware image. The image is the argument \<open>file\<close> (\<open>None\<close> when the file
  cannot be opened or read). The state machine is a step relation; from the initial state it never
  leaves the array-read mode.
\<close>

section \<open>State\<close>

record FLASH =
  flash_Cmd :: BYTE
  flash_Status :: BYTE
  flash_Wcycle :: BYTE
  CfiTable :: "BYTE list"
  Storage :: "BYTE list"

text \<open>\<open>BiosRom\<close> is the ROM area of the host memory that receives the end of the image.\<close>

record flash_state = bios_state +
  Flash :: FLASH
  BiosRom :: "BYTE list"

definition FLASH_MMIO :: ULONG where "FLASH_MMIO = 0xffc00000"
definition FLASH_SIZE :: ULONG where "FLASH_SIZE = 0x400000"

definition FLASH_zero :: FLASH where
  "FLASH_zero = \<lparr>flash_Cmd = 0, flash_Status = 0, flash_Wcycle = 0, CfiTable = replicate 0x52 0, Storage = []\<rparr>"

definition flash_zero :: flash_state where
  "flash_zero = bios_state.extend bios_zero (flash_state.fields FLASH_zero [])"

definition upd_flash :: "(FLASH \<Rightarrow> FLASH) \<Rightarrow> 'z flash_state_scheme \<Rightarrow> 'z flash_state_scheme" where
  "upd_flash f s = s\<lparr>Flash := f (Flash s)\<rparr>"

section \<open>Memory-mapped window\<close>

definition flash_reset :: "FLASH \<Rightarrow> FLASH" where
  "flash_reset f = f\<lparr>flash_Wcycle := 0, flash_Cmd := 0\<rparr>"

definition flash_ready :: "FLASH \<Rightarrow> FLASH" where
  "flash_ready f = f\<lparr>flash_Wcycle := 0, flash_Status := flash_Status f OR 0x80\<rparr>"

text \<open>\<open>memcpy(Flash.Storage + Address, Data, Length)\<close>.\<close>

definition flash_store :: "ULONG \<Rightarrow> ULONG64 \<Rightarrow> ULONG \<Rightarrow> FLASH \<Rightarrow> FLASH res" where
  "flash_store address data len f =
     bindE (foldE (\<lambda>k st. arr_set st (unat address + k) (ucast (drop_bit (8 * k) data))) [0 ..< unat len] (Storage f))
       (\<lambda>st. Inr (f\<lparr>Storage := st\<rparr>))"

definition flash_out :: "ULONG \<Rightarrow> ULONG \<Rightarrow> bool" where
  "flash_out address len \<longleftrightarrow> address + len \<ge> FLASH_SIZE"

definition flash_write_0 :: "ULONG64 \<Rightarrow> FLASH \<Rightarrow> FLASH" where
  "flash_write_0 data f =
     (let cmd = flash_Cmd f
      in if cmd \<in> {0x10, 0x40, 0x60, 0x98} then f\<lparr>flash_Wcycle := flash_Wcycle f + 1, flash_Cmd := ucast data\<rparr>
         else if cmd \<in> {0x70, 0x90} then f\<lparr>flash_Cmd := ucast data\<rparr>
         else if cmd = 0xe8
         then f\<lparr>flash_Status := flash_Status f OR 0x80, flash_Wcycle := flash_Wcycle f + 1, flash_Cmd := ucast data\<rparr>
         else if cmd = 0x20 then f
         else if cmd = 0x50 then f\<lparr>flash_Status := 0, flash_Wcycle := 0, flash_Cmd := 0\<rparr>
         else flash_reset f)"

definition flash_write_1 :: "ULONG \<Rightarrow> ULONG64 \<Rightarrow> ULONG \<Rightarrow> FLASH \<Rightarrow> FLASH res" where
  "flash_write_1 address data len f =
     (let cmd = flash_Cmd f; byte = (ucast data :: BYTE)
      in if cmd \<in> {0x10, 0x40}
         then if flash_out address len then Inr f else bindE (flash_store address data len f) (\<lambda>f. Inr (flash_ready f))
         else if cmd \<in> {0x20, 0x28} then Inr (if byte = 0xd0 then flash_ready f else flash_reset f)
         else if cmd = 0xe8 then Inr (f\<lparr>flash_Wcycle := flash_Wcycle f + 1\<rparr>)
         else if cmd = 0x60 then Inr (if byte = 0xd0 \<or> byte = 0x01 then flash_ready f else flash_reset f)
         else if cmd = 0x98 then Inr (if byte = 0xff then flash_reset f else f)
         else Inr (flash_reset f))"

definition flash_write_2 :: "ULONG \<Rightarrow> ULONG64 \<Rightarrow> ULONG \<Rightarrow> FLASH \<Rightarrow> FLASH res" where
  "flash_write_2 address data len f =
     (if flash_Cmd f = 0xe8
      then if flash_out address len then Inr f
           else bindE (flash_store address data len f) (\<lambda>f. Inr (f\<lparr>flash_Status := flash_Status f OR 0x80\<rparr>))
      else Inr (flash_reset f))"

definition flash_write_3 :: "ULONG64 \<Rightarrow> FLASH \<Rightarrow> FLASH" where
  "flash_write_3 data f =
     (if flash_Cmd f = 0xe8 \<and> (ucast data :: BYTE) = 0xd0 \<and> \<not> testw (flash_Status f) 0x10 then flash_ready f else flash_reset f)"

definition FlashWriteMmioHandler :: "'z flash_state_scheme \<Rightarrow> ULONG \<Rightarrow> ULONG64 \<Rightarrow> ULONG \<Rightarrow> 'z flash_state_scheme res" where
  "FlashWriteMmioHandler s address data len =
     (let address = address - FLASH_MMIO; f = Flash s
      in bindE (if flash_Wcycle f = 0 then Inr (flash_write_0 data f)
                else if flash_Wcycle f = 1 then flash_write_1 address data len f
                else if flash_Wcycle f = 2 then flash_write_2 address data len f
                else if flash_Wcycle f = 3 then Inr (flash_write_3 data f)
                else Inr f) (\<lambda>f. Inr (upd_flash (\<lambda>_. f) s)))"

text \<open>\<open>memcpy(Data, Flash.Storage + Address, Length)\<close> into the eight bytes of the exit record.\<close>

definition put_byte :: "nat \<Rightarrow> BYTE \<Rightarrow> ULONG64 \<Rightarrow> ULONG64" where
  "put_byte k b data = (data AND NOT (push_bit (8 * k) 0xff)) OR push_bit (8 * k) (ucast b)"

definition flash_fetch :: "FLASH \<Rightarrow> ULONG \<Rightarrow> ULONG64 \<Rightarrow> ULONG \<Rightarrow> ULONG64 res" where
  "flash_fetch f address data len =
     (if flash_out address len then Inr data
      else foldE (\<lambda>k d. bindE (arr_get (Storage f) (unat address + k)) (\<lambda>b. if 8 \<le> k then Inl OutOfBounds else Inr (put_byte k b d)))
             [0 ..< unat len] data)"

definition FlashReadMmioHandler ::
  "'z flash_state_scheme \<Rightarrow> ULONG \<Rightarrow> ULONG64 \<Rightarrow> ULONG \<Rightarrow> (ULONG64 \<times> 'z flash_state_scheme) res" where
  "FlashReadMmioHandler s address data len =
     (let address = address - FLASH_MMIO; f = Flash s
      in if flash_Cmd f \<in> {0x10, 0x20, 0x28, 0x40, 0x50, 0x60, 0x70, 0xe8} then Inr (put_byte 0 (flash_Status f) data, s)
         else if flash_Cmd f = 0x90 then Inr (data, s)
         else if flash_Cmd f = 0x98
         then bindE (arr_get (CfiTable f) (unat (address AND 0x51))) (\<lambda>b. Inr (put_byte 0 b data, s))
         else let s = (if flash_Cmd f = 0 then s else upd_flash flash_reset s)
              in bindE (flash_fetch f address data len) (\<lambda>d. Inr (d, s)))"

section \<open>Initialisation\<close>

text \<open>The bytes of the query table from 0x10 on; the others stay 0.\<close>

definition cfi_bytes :: "(nat \<times> BYTE) list" where
  "cfi_bytes =
     [(0x10, 0x51), (0x11, 0x52), (0x12, 0x59), (0x13, 0x01), (0x14, 0x00), (0x15, 0x31), (0x16, 0x00), (0x17, 0x00), (0x18, 0x00),
      (0x19, 0x00), (0x1a, 0x00), (0x1b, 0x45), (0x1c, 0x55), (0x1d, 0x00), (0x1e, 0x00), (0x1f, 0x07), (0x20, 0x07), (0x21, 0x0a),
      (0x22, 0x00), (0x23, 0x04), (0x24, 0x04), (0x25, 0x04), (0x26, 0x00), (0x27, 0x22), (0x28, 0x02), (0x29, 0x00), (0x2a, 0x08),
      (0x2b, 0x00), (0x2c, 0x01), (0x2d, 0xff), (0x2e, 0x03), (0x2f, 0x10), (0x30, 0x00), (0x31, 0x50), (0x32, 0x52), (0x33, 0x49),
      (0x34, 0x31), (0x35, 0x30), (0x36, 0x00), (0x37, 0x00), (0x38, 0x00), (0x39, 0x00), (0x3a, 0x00), (0x3b, 0x00), (0x3c, 0x00),
      (0x3f, 0x01)]"

definition flash_rom_size :: nat where "flash_rom_size = 128 * 1024"

definition FlashInitialize :: "env \<Rightarrow> BYTE list option \<Rightarrow> 'z flash_state_scheme \<Rightarrow> 'z flash_state_scheme res" where
  "FlashInitialize env file s =
     bindE (MmioRegisterHandler env s FLASH_MMIO (FLASH_SIZE - 128 * 1024) (Some FlashMmio) (Some FlashMmio)) (\<lambda>s.
     case file of None \<Rightarrow> Inr s
     | Some img \<Rightarrow>
         (case ask_env env (Calloc (length img)) s of (ok, s) \<Rightarrow>
          if \<not> ok \<or> length img < flash_rom_size then Inl OutOfBounds
          else Inr (upd_flash (\<lambda>f. f\<lparr>Storage := img, CfiTable := fold (\<lambda>(i, b) t. t[i := b]) cfi_bytes (CfiTable f)\<rparr>)
                 (s\<lparr>BiosRom := drop (length img - flash_rom_size) img\<rparr>))))"

section \<open>The state machine\<close>

inductive flash_step :: "'z flash_state_scheme \<Rightarrow> 'z flash_state_scheme \<Rightarrow> bool" where
  store: "FlashWriteMmioHandler s address data len = Inr t \<Longrightarrow> flash_step s t"
| fetch: "FlashReadMmioHandler s address data len = Inr (d, t) \<Longrightarrow> flash_step s t"

inductive flash_reachable :: "'z flash_state_scheme \<Rightarrow> 'z flash_state_scheme \<Rightarrow> bool" where
  init: "flash_reachable s s"
| step: "flash_reachable s t \<Longrightarrow> flash_step t u \<Longrightarrow> flash_reachable s u"

lemma flash_step_idle:
  assumes "flash_step s t" and "flash_Cmd (Flash s) = 0" and "flash_Wcycle (Flash s) = 0" shows "t = s"
  using assms(1)
proof (cases rule: flash_step.cases)
  case (store address data len)
  have "flash_write_0 data (Flash s) = Flash s" using assms(2,3) by (simp add: flash_write_0_def flash_reset_def)
  then show ?thesis using store assms(3) by (simp add: FlashWriteMmioHandler_def Let_def upd_flash_def)
next
  case (fetch address data len d)
  then show ?thesis using assms(2) by (auto simp: FlashReadMmioHandler_def Let_def bindE_eq_Inr_iff)
qed

text \<open>The command state machine looks at the stored command instead of the written one, so from its
  initial state no sequence of reads and writes ever changes the flash: it stays in array-read mode, its
  contents are never programmed, and every read in the window returns the stored byte.\<close>

theorem flash_inert:
  assumes "flash_reachable s t" and "flash_Cmd (Flash s) = 0" and "flash_Wcycle (Flash s) = 0"
  shows "t = s \<and> (unat (address - FLASH_MMIO) + 1 < 0x400000 \<and> unat (address - FLASH_MMIO) < length (Storage (Flash s)) \<longrightarrow>
    FlashReadMmioHandler t address data 1 = Inr (put_byte 0 (Storage (Flash s) ! unat (address - FLASH_MMIO)) data, t))"
proof
  show t: "t = s" using assms by (induction rule: flash_reachable.induct) (auto dest: flash_step_idle)
  show "unat (address - FLASH_MMIO) + 1 < 0x400000 \<and> unat (address - FLASH_MMIO) < length (Storage (Flash s)) \<longrightarrow>
    FlashReadMmioHandler t address data 1 = Inr (put_byte 0 (Storage (Flash s) ! unat (address - FLASH_MMIO)) data, t)"
  proof
    assume a: "unat (address - FLASH_MMIO) + 1 < 0x400000 \<and> unat (address - FLASH_MMIO) < length (Storage (Flash s))"
    then have "unat (address - FLASH_MMIO + 1) = unat (address - FLASH_MMIO) + 1" by (simp add: unat_word_ariths)
    then have "\<not> flash_out (address - FLASH_MMIO) 1" using a by (simp add: flash_out_def FLASH_SIZE_def word_le_nat_alt)
    then show "FlashReadMmioHandler t address data 1 = Inr (put_byte 0 (Storage (Flash s) ! unat (address - FLASH_MMIO)) data, t)"
      using a assms(2) by (simp add: t FlashReadMmioHandler_def Let_def flash_fetch_def)
  qed
qed

definition flash_example :: flash_state where
  "flash_example = flash_zero\<lparr>Flash := FLASH_zero\<lparr>Storage := [0x5a, 0xa5]\<rparr>\<rparr>"

theorem flash_inert_witness:
  "\<exists>t. flash_reachable flash_example t \<and> t = flash_example \<and> FlashReadMmioHandler t 0xffc00001 0 1 = Inr (0xa5, t)"
proof -
  have i: "flash_Cmd (Flash flash_example) = 0" "flash_Wcycle (Flash flash_example) = 0" "Storage (Flash flash_example) = [0x5a, 0xa5]"
    by (simp_all add: flash_example_def FLASH_zero_def)
  have "FlashWriteMmioHandler flash_example 0xffc00000 0x10 1 = Inr (upd_flash (\<lambda>_. flash_write_0 0x10 (Flash flash_example)) flash_example)"
    using i by (simp add: FlashWriteMmioHandler_def)
  then have "flash_reachable flash_example (upd_flash (\<lambda>_. flash_write_0 0x10 (Flash flash_example)) flash_example)"
    by (intro flash_reachable.step [OF flash_reachable.init] flash_step.store)
  then show ?thesis using flash_inert [OF _ i(1,2), of _ "0xffc00001" 0] i(3) by (fastforce simp: FLASH_MMIO_def put_byte_def)
qed

section \<open>The window does not fit the bitmap\<close>

lemma mmio_fill_overflow:
  assumes "bm_ready (MMIOBitmap s)" and "index \<le> 65504" and "65504 * 2 ^ 16 < unat addr + unat sz"
  shows "mmio_fill addr sz w r index s = Inl OutOfBounds"
  using assms
proof (induction "65504 - index" arbitrary: index s)
  case 0
  then have i: "index = 65504" by simp
  have "RtlSetBit (MMIOBitmap s) 0xffe0 = Inl OutOfBounds"
    using 0(2) bm_ready_valid [OF 0(2), of "0xffe0"] by (simp add: RtlSetBit_eq)
  then show ?case by (subst mmio_fill.simps) (simp add: i)
next
  case (Suc n)
  have i: "index < 65504" using Suc(2) by simp
  then have v: "unat (of_nat index :: ULONG) < 65504" by (simp add: unat_of_nat)
  obtain bm where bm: "RtlSetBit (MMIOBitmap s) (of_nat index) = Inr bm"
    using bm.set_valid [of "MMIOBitmap s" "of_nat index"] bm_ready_valid [OF Suc.prems(1), of "of_nat index"] v by blast
  have "(index + 1) * 2 ^ 16 \<le> 65504 * 2 ^ 16" using i by (intro mult_le_mono) simp_all
  then have c: "(index + 1) * 2 ^ 16 < unat addr + unat sz" using Suc.prems(3) by (rule le_less_trans)
  have "mmio_fill addr sz w r index s = mmio_fill addr sz w r (index + 1)
      (s\<lparr>MMIOBitmap := bm, MmioWriteHandlers := (MmioWriteHandlers s)(index := w), MmioReadHandlers := (MmioReadHandlers s)(index := r)\<rparr>)"
    by (subst mmio_fill.simps) (use i c bm in simp)
  also have "\<dots> = Inl OutOfBounds"
    by (rule Suc(1)) (use Suc(2) i Suc.prems(3) bm_ready_set [OF Suc.prems(1) bm] in simp_all)
  finally show ?case .
qed

text \<open>The window of the flash ends behind the last entry of the MMIO bitmap: whenever the first entry of
  the window is free, the initialisation writes outside the bitmap, whatever the firmware file holds.\<close>

theorem flash_initialize_overflows:
  assumes "bm_ready (MMIOBitmap s)" and "mmio_lookup s FLASH_MMIO = None"
  shows "FlashInitialize env file s = Inl OutOfBounds"
proof -
  have e: "drop_bit 16 FLASH_MMIO = 0xffc0" "unat (drop_bit 16 FLASH_MMIO) = 65472" by (simp_all add: FLASH_MMIO_def drop_bit_eq_div)
  obtain v where v: "RtlTestBit (MMIOBitmap s) 0xffc0 = Inr v"
    by (rule bm_ready_test [OF assms(1), of "0xffc0"]) simp_all
  then have "v = False" using assms(2) e by (auto simp: mmio_lookup_def split: if_splits)
  moreover have "SizeOfBitMap (MMIOBitmap s) \<noteq> 0" using assms(1) by (simp add: bm_ready_def)
  moreover have "mmio_fill FLASH_MMIO (FLASH_SIZE - 128 * 1024) w r 65472 s = Inl OutOfBounds" for w r
    by (rule mmio_fill_overflow [OF assms(1)]) (simp_all add: FLASH_MMIO_def FLASH_SIZE_def)
  ultimately have "MmioRegisterHandler env s FLASH_MMIO (FLASH_SIZE - 128 * 1024) w r = Inl OutOfBounds" for w r
    using v e by (simp add: MmioRegisterHandler_def Let_def)
  then show ?thesis by (simp add: FlashInitialize_def)
qed

definition flash_boot :: flash_state where
  "flash_boot = flash_zero\<lparr>MMIOBitmap := RtlInitializeBitMap (replicate 2047 0) 2047\<rparr>"

theorem flash_initialize_overflows_witness:
  "FlashInitialize (\<lambda>_ _. True) (Some (replicate 0x20000 0)) flash_boot = Inl OutOfBounds"
proof -
  have "bm_ready (MMIOBitmap flash_boot)" "mmio_lookup flash_boot FLASH_MMIO = None"
    by (simp_all add: flash_boot_def bm_ready_def RtlInitializeBitMap_def mmio_lookup_def RtlTestBit_eq FLASH_MMIO_def bm_valid_def drop_bit_eq_div)
  then show ?thesis using flash_initialize_overflows by blast
qed

end
