(* ===== verification/Cpu.thy ===== *)
theory Cpu
  imports Flash
begin

text \<open>
  The processor and memory side of \<open>SVMM.c\<close> and \<open>gvm.c\<close>: guest physical to host addresses, the page
  walk, the processor mode, the reset state, the transfer of the registers to and from the driver, the
  loading of option ROMs, and the creation of the virtual machine. The host memory is a function from
  addresses to bytes of which the code owns the range from \<open>Ram\<close> (\<open>HostRam\<close> in the state) to \<open>MemoryEnd\<close>;
  an access outside it is \<open>OutOfBounds\<close>. What the driver stores in a structure the code passes to it is
  the argument \<open>vcpu\<close>, a function of the requests made so far.
\<close>

section \<open>State\<close>

record cpu_state = flash_state +
  Registers :: Registers
  MemoryEnd :: ULONG64
  HostMem :: "ULONG64 \<Rightarrow> BYTE"

definition cpu_zero :: cpu_state where
  "cpu_zero = flash_state.extend flash_zero (cpu_state.fields registers_zero 0 (\<lambda>_. 0))"

definition PAGING_MASK :: ULONG64 where "PAGING_MASK = 0x000ffffffffff000"
definition BX_CR3_PAGING_MASK :: ULONG64 where "BX_CR3_PAGING_MASK = 0x000ffffffffff000"
definition CR0_PG :: ULONG64 where "CR0_PG = lsh1 31"
definition EFER_LME :: DWORD where "EFER_LME = lsh1 8"
definition CR4_PAE :: ULONG64 where "CR4_PAE = lsh1 5"

abbreviation cr0 :: "'z cpu_state_scheme \<Rightarrow> ULONG64" where "cr0 s \<equiv> c_cr0 (reg_context (Registers s))"
abbreviation cr3 :: "'z cpu_state_scheme \<Rightarrow> ULONG64" where "cr3 s \<equiv> c_cr3 (reg_context (Registers s))"
abbreviation cr4 :: "'z cpu_state_scheme \<Rightarrow> ULONG64" where "cr4 s \<equiv> c_cr4 (reg_context (Registers s))"
abbreviation efer :: "'z cpu_state_scheme \<Rightarrow> DWORD" where "efer s \<equiv> c_efer (reg_context (Registers s))"

section \<open>Host memory\<close>

definition host_ok :: "'z cpu_state_scheme \<Rightarrow> ULONG64 \<Rightarrow> nat \<Rightarrow> bool" where
  "host_ok s a n \<longleftrightarrow> unat (HostRam s) \<le> unat a \<and> unat a + n \<le> unat (MemoryEnd s)"

fun le_read :: "(ULONG64 \<Rightarrow> BYTE) \<Rightarrow> ULONG64 \<Rightarrow> nat \<Rightarrow> ULONG64" where
  "le_read m a 0 = 0"
| "le_read m a (Suc n) = ucast (m a) OR push_bit 8 (le_read m (a + 1) n)"

definition host_read :: "'z cpu_state_scheme \<Rightarrow> ULONG64 \<Rightarrow> nat \<Rightarrow> ULONG64 res" where
  "host_read s a n = (if host_ok s a n then Inr (le_read (HostMem s) a n) else Inl OutOfBounds)"

text \<open>\<open>memcpy\<close> and \<open>ReadFile\<close> into the host memory.\<close>

fun put_bytes :: "(ULONG64 \<Rightarrow> BYTE) \<Rightarrow> ULONG64 \<Rightarrow> BYTE list \<Rightarrow> ULONG64 \<Rightarrow> BYTE" where
  "put_bytes m a [] = m"
| "put_bytes m a (b # bs) = put_bytes (m(a := b)) (a + 1) bs"

definition host_write :: "'z cpu_state_scheme \<Rightarrow> ULONG64 \<Rightarrow> BYTE list \<Rightarrow> 'z cpu_state_scheme res" where
  "host_write s a bs =
     (if host_ok s a (length bs) then Inr (s\<lparr>HostMem := put_bytes (HostMem s) a bs\<rparr>) else Inl OutOfBounds)"

section \<open>Address translation\<close>

text \<open>A result of 0 is the null pointer.\<close>

definition SvmmGetHostPageFromGPA :: "'z cpu_state_scheme \<Rightarrow> ULONG64 \<Rightarrow> ULONG64 res" where
  "SvmmGetHostPageFromGPA s gpaAddress =
     bindE
      (if gpaAddress \<ge> 0xFFFE0000 \<and> gpaAddress \<le> 0xFFFFFFFF
       then Inr (HostRam s + RamSize s + 0xE0000 + (gpaAddress - 0xFFFE0000))
       else if gpaAddress \<ge> 0xE0000 \<and> gpaAddress \<le> 0xFFFFF
       then Inr (HostRam s + RamSize s + gpaAddress)
       else bindE (get_conf s 0 (ucast (BX_PCI_DEVICE 1 3)) 0x5b) (\<lambda>c.
            if testw c 2 \<and> gpaAddress \<ge> smbase s \<and> gpaAddress \<le> smbase s + ucast SMM_RAM_SIZE
            then Inr (HostRam s + RamSize s + ROM_SIZE + PAGE_SIZE + ((gpaAddress - smbase s) AND (ucast SMM_RAM_SIZE - 1)))
            else Inr (HostRam s + gpaAddress)))
      (\<lambda>hostAddress. Inr (if hostAddress \<ge> MemoryEnd s then 0 else hostAddress))"

datatype cpu_mode = CPU_MODE_REAL | CPU_MODE_PROTECTED | CPU_MODE_LONG_MODE

definition SvmmGetCpuMode :: "'z cpu_state_scheme \<Rightarrow> cpu_mode" where
  "SvmmGetCpuMode s =
     (if \<not> testw (cr0 s) 1 then CPU_MODE_REAL
      else if testw (cr4 s) (lsh1 5) then CPU_MODE_LONG_MODE
      else CPU_MODE_PROTECTED)"

definition SvmmGetRip :: "'z cpu_state_scheme \<Rightarrow> ULONG64" where
  "SvmmGetRip s =
     (let c = reg_context (Registers s)
      in case SvmmGetCpuMode s of
           CPU_MODE_REAL \<Rightarrow> c_rip c + push_bit 4 (ucast (seg_selector (c_cs c)))
         | CPU_MODE_PROTECTED \<Rightarrow> c_rip c + seg_base (c_cs c)
         | CPU_MODE_LONG_MODE \<Rightarrow> c_rip c)"

definition Pml4Levels :: "nat list" where "Pml4Levels = [9, 9, 9, 9]"
definition PdePaeLevels :: "nat list" where "PdePaeLevels = [9, 9, 2]"
definition PdeNoPaeLevels :: "nat list" where "PdeNoPaeLevels = [10, 10]"

text \<open>The loop over the levels: \<open>Suc leaf\<close> levels are left, \<open>phys\<close> is the host address of the table.\<close>

fun pml4_walk ::
  "'z cpu_state_scheme \<Rightarrow> ULONG64 \<Rightarrow> nat list \<Rightarrow> nat \<Rightarrow> nat \<Rightarrow> ULONG64 \<Rightarrow> ULONG64 \<Rightarrow> ULONG64 res" where
  "pml4_walk s Gva Levels EntrySize 0 phys entry = Inr ((entry AND PAGING_MASK) + (Gva AND 0xfff))"
| "pml4_walk s Gva Levels EntrySize (Suc leaf) phys entry =
     bindE (arr_get Levels leaf) (\<lambda>bits.
     let bitsSum = 12 + sum_list (take leaf Levels);
         pte = phys + (drop_bit bitsSum Gva AND (lsh1 bits - 1)) * of_nat EntrySize
     in bindE (host_read s pte (if EntrySize = 4 then 4 else 8)) (\<lambda>entry.
        if leaf = 2 \<and> testw entry (lsh1 7) then Inr ((entry AND PAGING_MASK) + (Gva AND 0x1fffffff))
        else if leaf = 1 \<and> testw entry (lsh1 7) then Inr ((entry AND PAGING_MASK) + (Gva AND 0x1fffff))
        else bindE (SvmmGetHostPageFromGPA s (entry AND PAGING_MASK)) (\<lambda>phys.
             if phys = 0 then Inr 0 else pml4_walk s Gva Levels EntrySize leaf phys entry)))"

definition Pml4GetGpaFromGva ::
  "'z cpu_state_scheme \<Rightarrow> ULONG64 \<Rightarrow> nat list \<Rightarrow> nat \<Rightarrow> nat \<Rightarrow> ULONG64 res" where
  "Pml4GetGpaFromGva s Gva Levels LevelSize EntrySize =
     bindE (SvmmGetHostPageFromGPA s (cr3 s AND BX_CR3_PAGING_MASK)) (\<lambda>phys.
     if phys = 0 then Inr 0 else pml4_walk s Gva Levels EntrySize LevelSize phys 0)"

definition SvmmGetGpaFromGva :: "'z cpu_state_scheme \<Rightarrow> ULONG64 \<Rightarrow> ULONG64 res" where
  "SvmmGetGpaFromGva s gva =
     (if testw (efer s) EFER_LME then Pml4GetGpaFromGva s gva Pml4Levels (length Pml4Levels) 8
      else if testw (cr4 s) CR4_PAE then Pml4GetGpaFromGva s gva PdePaeLevels (length PdePaeLevels) 8
      else Pml4GetGpaFromGva s gva PdeNoPaeLevels (length PdeNoPaeLevels) 4)"

definition SvmmGetHostAddress :: "'z cpu_state_scheme \<Rightarrow> ULONG64 \<Rightarrow> ULONG64 res" where
  "SvmmGetHostAddress s GuestAddress =
     bindE (if testw (cr0 s) CR0_PG then SvmmGetGpaFromGva s GuestAddress else Inr GuestAddress)
       (SvmmGetHostPageFromGPA s)"

section \<open>Guest physical to host addresses\<close>

text \<open>
  The layout \<open>main\<close> establishes: page-aligned memory below the middle of the address space, the RAM
  followed by the ROM, one page and the SMM memory. \<open>smram_open\<close> is the bit that makes it visible.
\<close>

definition smram_open :: "'z cpu_state_scheme \<Rightarrow> bool" where
  "smram_open s \<longleftrightarrow> testw (conf (PciDevices s 0 11) ! 0x5b) 2"

definition mem_ok :: "'z cpu_state_scheme \<Rightarrow> bool" where
  "mem_ok s \<longleftrightarrow> HostRam s \<noteq> 0 \<and> 4096 dvd unat (HostRam s) \<and> 4096 dvd unat (RamSize s) \<and> 4096 dvd unat (smbase s) \<and>
     unat (HostRam s) < 2 ^ 47 \<and> unat (RamSize s) < 2 ^ 47 \<and> unat (smbase s) < 2 ^ 32 \<and>
     MemoryEnd s = HostRam s + RamSize s + ROM_SIZE + PAGE_SIZE + ucast SMM_RAM_SIZE \<and>
     length (conf (PciDevices s 0 11)) = 256"

definition mem_size :: "'z cpu_state_scheme \<Rightarrow> nat" where
  "mem_size s = unat (RamSize s) + 0x241000"

definition host_offset :: "'z cpu_state_scheme \<Rightarrow> nat \<Rightarrow> nat" where
  "host_offset s g =
     (if 0xFFFE0000 \<le> g \<and> g \<le> 0xFFFFFFFF then unat (RamSize s) + 0xE0000 + (g - 0xFFFE0000)
      else if 0xE0000 \<le> g \<and> g \<le> 0xFFFFF then unat (RamSize s) + g
      else if smram_open s \<and> unat (smbase s) \<le> g \<and> g \<le> unat (smbase s) + 0x20000
      then unat (RamSize s) + 0x221000 + (g - unat (smbase s)) mod 0x20000
      else g)"

lemma memory_constants: "ROM_SIZE = 0x220000" "PAGE_SIZE = 0x1000" "ucast SMM_RAM_SIZE = (0x20000 :: ULONG64)"
  by (simp_all add: ROM_SIZE_def PAGE_SIZE_def SMM_RAM_SIZE_def lsh1_def push_bit_eq_mult)

lemma smm_function: "ucast (BX_PCI_DEVICE 1 3) = (11 :: BYTE)"
  by (simp add: BX_PCI_DEVICE_def push_bit_eq_mult)

lemma unat_add64: "unat a + unat b < 2 ^ 64 \<Longrightarrow> unat (a + b :: ULONG64) = unat a + unat b"
  by (simp add: unat_word_ariths)

lemma unat_sub64: "b \<le> a \<Longrightarrow> unat (a - b :: ULONG64) = unat a - unat b"
  by (rule unat_sub)

lemma MemoryEnd_nat: "mem_ok s \<Longrightarrow> unat (MemoryEnd s) = unat (HostRam s) + mem_size s"
  by (simp add: mem_ok_def memory_constants mem_size_def unat_word_ariths)

lemma and_low17: "(x :: ULONG64) AND (0x20000 - 1) = of_nat (unat x mod 0x20000)"
proof -
  have "(0x20000 - 1 :: ULONG64) = Bit_Operations.mask 17" by (simp add: mask_eq_exp_minus_1)
  then have "x AND (0x20000 - 1) = take_bit 17 x" by (simp only: take_bit_eq_mask)
  then show ?thesis by (simp add: word_unat_eq_iff unat_take_bit unat_of_nat)
qed

lemma host_page_eq:
  assumes "mem_ok s" and "unat gpa < 2 ^ 53"
  shows "SvmmGetHostPageFromGPA s gpa =
    Inr (if host_offset s (unat gpa) < mem_size s then HostRam s + of_nat (host_offset s (unat gpa)) else 0)"
proof -
  have m: "unat (HostRam s) < 2 ^ 47" "unat (RamSize s) < 2 ^ 47" "unat (smbase s) < 2 ^ 32" and l: "length (conf (PciDevices s 0 11)) = 256"
    using assms(1) by (simp_all add: mem_ok_def)
  have sm: "gpa \<le> smbase s + 0x20000 \<longleftrightarrow> unat gpa \<le> unat (smbase s) + 0x20000"
    using m by (simp add: word_le_nat_alt unat_word_ariths)
  have g: "\<not> MemoryEnd s \<le> HostRam s + of_nat k \<longleftrightarrow> k < mem_size s" if "k < 2 ^ 54" for k
  proof -
    have "unat (of_nat k :: ULONG64) = k" using that by (simp add: unat_of_nat)
    then have "unat (HostRam s + of_nat k) = unat (HostRam s) + k" using that m by (subst unat_add64) simp_all
    then show ?thesis using MemoryEnd_nat [OF assms(1)] by (auto simp: word_le_nat_alt)
  qed
  have off: "host_offset s (unat gpa) < 2 ^ 54"
    using m assms(2) by (auto simp: host_offset_def intro: order_less_trans [OF add_strict_mono [OF _ mod_less_divisor]])
  have raw: "(if gpa \<ge> 0xFFFE0000 \<and> gpa \<le> 0xFFFFFFFF
       then Inr (HostRam s + RamSize s + 0xE0000 + (gpa - 0xFFFE0000))
       else if gpa \<ge> 0xE0000 \<and> gpa \<le> 0xFFFFF
       then Inr (HostRam s + RamSize s + gpa)
       else bindE (get_conf s 0 (ucast (BX_PCI_DEVICE 1 3)) 0x5b) (\<lambda>c.
            if testw c 2 \<and> gpa \<ge> smbase s \<and> gpa \<le> smbase s + ucast SMM_RAM_SIZE
            then Inr (HostRam s + RamSize s + ROM_SIZE + PAGE_SIZE + ((gpa - smbase s) AND (ucast SMM_RAM_SIZE - 1)))
            else Inr (HostRam s + gpa))) = (Inr (HostRam s + of_nat (host_offset s (unat gpa))) :: ULONG64 res)"
    (is "?raw = _")
  proof -
    have c: "get_conf s 0 (ucast (BX_PCI_DEVICE 1 3)) 0x5b = Inr (conf (PciDevices s 0 11) ! 0x5b)"
      using l by (simp add: get_conf_def smm_function)
    consider (rom) "0xFFFE0000 \<le> unat gpa \<and> unat gpa \<le> 0xFFFFFFFF"
      | (low) "\<not> (0xFFFE0000 \<le> unat gpa \<and> unat gpa \<le> 0xFFFFFFFF)" "0xE0000 \<le> unat gpa \<and> unat gpa \<le> 0xFFFFF"
      | (ram) "\<not> (0xFFFE0000 \<le> unat gpa \<and> unat gpa \<le> 0xFFFFFFFF)" "\<not> (0xE0000 \<le> unat gpa \<and> unat gpa \<le> 0xFFFFF)" by blast
    then show ?thesis
    proof cases
      case rom
      then have "gpa - 0xFFFE0000 = of_nat (unat gpa - 0xFFFE0000)" by (simp add: of_nat_diff)
      then show ?thesis using rom by (simp add: host_offset_def word_le_nat_alt)
    next
      case low
      then show ?thesis unfolding host_offset_def word_le_nat_alt by simp
    next
      case ram
      have n: "\<not> (gpa \<ge> 0xFFFE0000 \<and> gpa \<le> 0xFFFFFFFF)" "\<not> (gpa \<ge> 0xE0000 \<and> gpa \<le> 0xFFFFF)"
        using ram by (simp_all add: word_le_nat_alt)
      have "?raw = (if smram_open s \<and> unat (smbase s) \<le> unat gpa \<and> unat gpa \<le> unat (smbase s) + 0x20000
          then Inr (HostRam s + RamSize s + 0x221000 + of_nat (unat (gpa - smbase s) mod 0x20000)) else Inr (HostRam s + gpa))"
        unfolding if_not_P [OF n(1)] if_not_P [OF n(2)] memory_constants and_low17 sm c
        by (simp add: smram_open_def word_le_nat_alt)
      moreover have "unat (gpa - smbase s) = unat gpa - unat (smbase s)" if "unat (smbase s) \<le> unat gpa"
        by (rule unat_sub64) (simp add: that word_le_nat_alt)
      ultimately show ?thesis unfolding host_offset_def if_not_P [OF ram(1)] if_not_P [OF ram(2)] by simp
    qed
  qed
  show ?thesis unfolding SvmmGetHostPageFromGPA_def raw using g [OF off] by auto
qed

lemma host_offset_page:
  assumes "mem_ok s" and "4096 dvd g"
  shows "4096 dvd host_offset s g"
proof -
  have m: "4096 dvd unat (RamSize s)" "4096 dvd unat (smbase s)" using assms(1) by (simp_all add: mem_ok_def)
  have "(4096::nat) dvd 0xE0000 + (g - 0xFFFE0000)" "(4096::nat) dvd 0x221000" using assms(2) by (auto intro: dvd_diff_nat dvd_add)
  moreover have "4096 dvd (g - unat (smbase s)) mod 0x20000" using assms(2) m by (auto intro!: dvd_mod dvd_diff_nat)
  ultimately show ?thesis using m assms(2) by (auto simp: host_offset_def add.assoc intro!: dvd_add)
qed

lemma mem_size_page: "mem_ok s \<Longrightarrow> 4096 dvd mem_size s"
  by (auto simp: mem_ok_def mem_size_def intro!: dvd_add)

lemma host_ptr:
  assumes "mem_ok s" and "k + n \<le> mem_size s"
  shows "host_ok s (HostRam s + of_nat k) n" and "0 < n \<Longrightarrow> HostRam s + of_nat k \<noteq> 0"
proof -
  have m: "unat (HostRam s) < 2 ^ 47" "unat (RamSize s) < 2 ^ 47" "HostRam s \<noteq> 0" using assms(1) by (simp_all add: mem_ok_def)
  have k: "k < 2 ^ 48" using m assms(2) by (simp add: mem_size_def)
  then have "unat (of_nat k :: ULONG64) = k" by (simp add: unat_of_nat)
  then have u: "unat (HostRam s + of_nat k) = unat (HostRam s) + k" using k m by (subst unat_add64) simp_all
  show "host_ok s (HostRam s + of_nat k) n" using u MemoryEnd_nat [OF assms(1)] assms(2) by (simp add: host_ok_def)
  have "0 < unat (HostRam s)" using m(3) by (simp add: unat_gt_0)
  then have "unat (HostRam s + of_nat k) \<noteq> 0" using u by simp
  then show "0 < n \<Longrightarrow> HostRam s + of_nat k \<noteq> 0" by (simp only: unat_eq_zero) simp
qed

text \<open>Every address a guest page table can hold gives the null pointer or a pointer into the memory.\<close>

lemma host_page_cases:
  assumes "mem_ok s" and "unat gpa < 2 ^ 53"
  obtains (unmapped) "SvmmGetHostPageFromGPA s gpa = Inr 0"
  | (mapped) p where "SvmmGetHostPageFromGPA s gpa = Inr p" "p \<noteq> 0" "host_ok s p 1"
      "4096 dvd unat gpa \<Longrightarrow> host_ok s p 4096"
proof (cases "host_offset s (unat gpa) < mem_size s")
  case True
  let ?p = "HostRam s + of_nat (host_offset s (unat gpa)) :: ULONG64"
  have "host_ok s ?p 4096" if "4096 dvd unat gpa"
  proof (rule host_ptr(1) [OF assms(1)])
    have "4096 dvd host_offset s (unat gpa)" "4096 dvd mem_size s"
      using host_offset_page [OF assms(1) that] mem_size_page [OF assms(1)] .
    then obtain a b where "host_offset s (unat gpa) = 4096 * a" "mem_size s = 4096 * b" by (auto elim!: dvdE)
    then show "host_offset s (unat gpa) + 4096 \<le> mem_size s" using True by simp
  qed
  then show ?thesis
    using mapped [of ?p] True host_page_eq [OF assms] host_ptr [OF assms(1), of "host_offset s (unat gpa)" 1] by simp
next
  case False
  then show ?thesis using unmapped host_page_eq [OF assms] by simp
qed

lemma unat_and_le: "unat (a AND b :: ULONG64) \<le> unat b"
  using word_and_le1 [of a b] by (simp add: word_le_nat_alt)

lemma and_paging_mask:
  "unat (e AND PAGING_MASK) < 2 ^ 52" "4096 dvd unat (e AND PAGING_MASK)"
proof -
  have "unat (e AND PAGING_MASK) \<le> unat PAGING_MASK" by (rule unat_and_le)
  also have "\<dots> < 2 ^ 52" by (simp add: PAGING_MASK_def)
  finally show "unat (e AND PAGING_MASK) < 2 ^ 52" .
  have "take_bit 12 PAGING_MASK = 0" by (simp add: PAGING_MASK_def take_bit_eq_mod)
  then have "take_bit 12 (e AND PAGING_MASK) = 0" by simp
  then have "unat (take_bit 12 (e AND PAGING_MASK)) = 0" by (simp only: unat_0)
  then have "unat (e AND PAGING_MASK) mod 2 ^ 12 = 0" by (simp only: unat_take_bit)
  then show "4096 dvd unat (e AND PAGING_MASK)" by (simp add: mod_eq_0_iff_dvd)
qed

lemma gpa_bound: "b < 2 ^ 29 \<Longrightarrow> unat ((e AND PAGING_MASK) + (g AND b) :: ULONG64) < 2 ^ 53"
proof -
  assume "b < 2 ^ 29"
  then have "unat b < unat (2 ^ 29 :: ULONG64)" by (simp only: word_less_nat_alt)
  then have "unat b < 2 ^ 29" by simp
  then have "unat (g AND b) < 2 ^ 29" using unat_and_le [of g b] by linarith
  then show ?thesis using and_paging_mask(1) [of e] by (subst unat_add64) simp_all
qed

section \<open>The page walk stays inside the memory\<close>

lemma table_index:
  assumes "host_ok s p 4096" and "k < 64" and "2 ^ k * es \<le> 4096" and "n \<le> es"
  shows "host_ok s (p + (x AND (lsh1 k - 1)) * of_nat es) n"
proof -
  have "(lsh1 k - 1 :: ULONG64) = Bit_Operations.mask k" by (simp add: lsh1_def push_bit_eq_mult mask_eq_exp_minus_1)
  then have "x AND (lsh1 k - 1) = take_bit k x" by (simp only: take_bit_eq_mask)
  moreover have i: "unat (take_bit k x) < 2 ^ k" by (simp add: unat_take_bit)
  ultimately have i: "unat (x AND (lsh1 k - 1)) + 1 \<le> 2 ^ k" by simp
  then have le: "unat (x AND (lsh1 k - 1)) * es + es \<le> 4096"
    using mult_le_mono1 [OF i, of es] assms(3) by (simp add: distrib_right)
  have "unat p + 4096 \<le> unat (MemoryEnd s)" "unat (MemoryEnd s) < 2 ^ 64"
    using assms(1) unsigned_less [of "MemoryEnd s"] by (simp_all add: host_ok_def)
  moreover have "unat ((x AND (lsh1 k - 1)) * of_nat es) = unat (x AND (lsh1 k - 1)) * es"
    using le by (cases es) (simp_all add: unat_word_ariths unat_of_nat)
  ultimately have "unat (p + (x AND (lsh1 k - 1)) * of_nat es) = unat p + unat (x AND (lsh1 k - 1)) * es"
    using le by (subst unat_add64) simp_all
  then show ?thesis using assms(1,4) le by (simp add: host_ok_def)
qed

text \<open>The tables the code walks: every level fits a page.\<close>

definition levels_ok :: "nat list \<Rightarrow> nat \<Rightarrow> bool" where
  "levels_ok Levels es \<longleftrightarrow> es \<in> {4, 8} \<and> list_all (\<lambda>k. k < 64 \<and> 2 ^ k * es \<le> 4096) Levels"

lemma pml4_walk_safe:
  assumes "mem_ok s" and "levels_ok Levels es" and "n \<le> length Levels" and "host_ok s phys 4096"
  shows "specE {} (\<lambda>g. unat g < 2 ^ 53) (pml4_walk s Gva Levels es n phys entry)"
  using assms(3,4)
proof (induction n arbitrary: phys entry)
  case 0
  show ?case using gpa_bound [of "0xfff" entry Gva] by simp
next
  case (Suc leaf)
  have L: "Levels ! leaf < 64" "2 ^ (Levels ! leaf) * es \<le> 4096" "es \<in> {4, 8}" "leaf < length Levels"
    using assms(2) Suc.prems(1) by (auto simp: levels_ok_def list_all_length)
  have ok: "host_ok s (phys + (drop_bit (12 + sum_list (take leaf Levels)) Gva AND (lsh1 (Levels ! leaf) - 1)) * of_nat es)
      (if es = 4 then 4 else 8)"
    by (rule table_index [OF Suc.prems(2) L(1,2)]) (use L(3) in auto)
  have step: "specE {} (\<lambda>g. unat g < 2 ^ 53)
      (bindE (SvmmGetHostPageFromGPA s (e AND PAGING_MASK)) (\<lambda>phys.
        if phys = 0 then Inr 0 else pml4_walk s Gva Levels es leaf phys e))" for e
  proof (rule host_page_cases [OF assms(1), of "e AND PAGING_MASK"])
    show "unat (e AND PAGING_MASK) < 2 ^ 53" using and_paging_mask(1) [of e] by simp
  next
    fix p
    assume "SvmmGetHostPageFromGPA s (e AND PAGING_MASK) = Inr p"
      and "4096 dvd unat (e AND PAGING_MASK) \<Longrightarrow> host_ok s p 4096"
    then show ?thesis using Suc.IH [of p e] Suc.prems(1) and_paging_mask(2) [of e] by simp
  qed simp
  show ?case
    using L(4) ok step gpa_bound [of "0x1fffffff" _ Gva] gpa_bound [of "0x1fffff" _ Gva] by (simp add: host_read_def Let_def)
qed

lemma code_levels_ok:
  "levels_ok Pml4Levels 8" "levels_ok PdePaeLevels 8" "levels_ok PdeNoPaeLevels 4"
  by (simp_all add: levels_ok_def Pml4Levels_def PdePaeLevels_def PdeNoPaeLevels_def)

lemma Pml4GetGpaFromGva_safe:
  assumes "mem_ok s" and "levels_ok Levels es"
  shows "specE {} (\<lambda>g. unat g < 2 ^ 53) (Pml4GetGpaFromGva s Gva Levels (length Levels) es)"
proof (rule host_page_cases [OF assms(1), of "cr3 s AND PAGING_MASK"])
  show "unat (cr3 s AND PAGING_MASK) < 2 ^ 53" using and_paging_mask(1) [of "cr3 s"] by simp
next
  fix p
  assume "SvmmGetHostPageFromGPA s (cr3 s AND PAGING_MASK) = Inr p"
    and "4096 dvd unat (cr3 s AND PAGING_MASK) \<Longrightarrow> host_ok s p 4096"
  then show ?thesis
    using pml4_walk_safe [OF assms order_refl, of p Gva 0] and_paging_mask(2) [of "cr3 s"]
    by (simp add: Pml4GetGpaFromGva_def BX_CR3_PAGING_MASK_def PAGING_MASK_def)
qed (simp add: Pml4GetGpaFromGva_def BX_CR3_PAGING_MASK_def PAGING_MASK_def)

lemma SvmmGetGpaFromGva_safe:
  "mem_ok s \<Longrightarrow> specE {} (\<lambda>g. unat g < 2 ^ 53) (SvmmGetGpaFromGva s gva)"
  unfolding SvmmGetGpaFromGva_def by (intro specE_if_both Pml4GetGpaFromGva_safe code_levels_ok)

text \<open>C34. Address translation is memory safe: whatever the guest puts into its page tables and control
  registers, the translation of an address returns, reads only the memory of the virtual machine, and
  yields the null pointer or a pointer into that memory. Without paging the address has to be below
  the size of a physical address.\<close>

theorem translation_safe:
  assumes "mem_ok s" and "testw (cr0 s) CR0_PG \<or> unat a < 2 ^ 52"
  shows "\<exists>p. SvmmGetHostAddress s a = Inr p \<and> (p = 0 \<or> HostRam s \<le> p \<and> p < MemoryEnd s)"
proof -
  have "\<exists>g. (if testw (cr0 s) CR0_PG then SvmmGetGpaFromGva s a else Inr a) = Inr g \<and> unat g < 2 ^ 53"
    using SvmmGetGpaFromGva_safe [OF assms(1), of a] assms(2) by (auto simp: specE_total)
  then obtain g where g: "SvmmGetHostAddress s a = SvmmGetHostPageFromGPA s g" "unat g < 2 ^ 53"
    by (auto simp: SvmmGetHostAddress_def)
  then show ?thesis
    by (cases rule: host_page_cases [OF assms(1) g(2)]) (auto simp: host_ok_def word_le_nat_alt word_less_nat_alt)
qed

section \<open>The translation and the memory slots\<close>

lemma host_page_closed:
  assumes "mem_ok s" and "\<not> smram_open s" and "unat gpa < 2 ^ 32" and "unat (RamSize s) \<le> 0xFFFE0000"
  shows "SvmmGetHostPageFromGPA s gpa =
    (if 0xFFFE0000 \<le> gpa then Inr (HostRam s + RamSize s + 0xE0000 + (gpa - 0xFFFE0000))
     else if 0xE0000 \<le> gpa \<and> gpa \<le> 0xFFFFF then Inr (HostRam s + RamSize s + gpa)
     else if unat gpa < mem_size s then Inr (HostRam s + gpa) else Inr 0)"
proof -
  have g: "unat gpa < 2 ^ 53" "unat gpa \<le> 0xFFFFFFFF" using assms(3) by simp_all
  have "gpa - 0xFFFE0000 = of_nat (unat gpa - 0xFFFE0000)" if "0xFFFE0000 \<le> gpa"
    using that by (simp add: of_nat_diff word_le_nat_alt)
  then show ?thesis
    using host_page_eq [OF assms(1) g(1)] assms(2) g(2)
    by (auto simp: host_offset_def mem_size_def word_le_nat_alt)
qed


section \<open>The page walk and the architecture\<close>

text \<open>
  The architecture's page walk over the same memory. A level is its shift, its number of index bits and
  whether an entry with the page size bit maps a large page (elsewhere the bit is reserved). The result
  is the physical address, the shift of the mapping and its entry; \<open>None\<close> is a page fault or a table
  outside the memory.
\<close>

definition page_entry :: "'z cpu_state_scheme \<Rightarrow> nat \<Rightarrow> ULONG64 \<Rightarrow> ULONG64 \<Rightarrow> ULONG64 option" where
  "page_entry s es table i =
     (case SvmmGetHostPageFromGPA s table of
        Inr p \<Rightarrow> if p = 0 then None
                 else (case host_read s (p + i * of_nat es) es of Inr e \<Rightarrow> Some e | Inl _ \<Rightarrow> None)
      | Inl _ \<Rightarrow> None)"

fun sdm_walk ::
  "'z cpu_state_scheme \<Rightarrow> nat \<Rightarrow> ULONG64 \<Rightarrow> (nat \<times> nat \<times> bool) list \<Rightarrow> ULONG64 \<Rightarrow> (ULONG64 \<times> nat \<times> ULONG64) option" where
  "sdm_walk s es gva [] table = None"
| "sdm_walk s es gva ((sh, bits, large) # ls) table =
     (case page_entry s es table (take_bit bits (drop_bit sh gva)) of
        None \<Rightarrow> None
      | Some e \<Rightarrow>
          if \<not> bit e 0 then None
          else if ls = [] then Some ((e AND PAGING_MASK) + take_bit sh gva, sh, e)
          else if bit e 7
          then if large then Some (push_bit sh (drop_bit sh (e AND PAGING_MASK)) + take_bit sh gva, sh, e) else None
          else sdm_walk s es gva ls (e AND PAGING_MASK))"

definition long_levels :: "(nat \<times> nat \<times> bool) list" where
  "long_levels = [(39, 9, False), (30, 9, True), (21, 9, True), (12, 9, False)]"
definition pae_levels :: "(nat \<times> nat \<times> bool) list" where
  "pae_levels = [(30, 2, False), (21, 9, True), (12, 9, False)]"
definition legacy_levels :: "(nat \<times> nat \<times> bool) list" where
  "legacy_levels = [(22, 10, True), (12, 10, False)]"

definition CR4_PSE :: ULONG64 where "CR4_PSE = lsh1 4"

definition sdm_root :: "'z cpu_state_scheme \<Rightarrow> ULONG64" where
  "sdm_root s = (if testw (efer s) EFER_LME then cr3 s AND PAGING_MASK
     else if testw (cr4 s) CR4_PAE then cr3 s AND 0xffffffe0 else cr3 s AND 0xfffff000)"

text \<open>32-bit paging without page size extensions is left out.\<close>

definition sdm_translate :: "'z cpu_state_scheme \<Rightarrow> ULONG64 \<Rightarrow> (ULONG64 \<times> nat \<times> ULONG64) option" where
  "sdm_translate s gva =
     (if testw (efer s) EFER_LME then sdm_walk s 8 gva long_levels (sdm_root s)
      else if testw (cr4 s) CR4_PAE then sdm_walk s 8 gva pae_levels (sdm_root s)
      else if testw (cr4 s) CR4_PSE then sdm_walk s 4 gva legacy_levels (sdm_root s)
      else None)"

lemma page_entry_Some:
  "page_entry s es table i = Some e \<longleftrightarrow>
     (\<exists>p. SvmmGetHostPageFromGPA s table = Inr p \<and> p \<noteq> 0 \<and> host_read s (p + i * of_nat es) es = Inr e)"
  by (auto simp: page_entry_def split: sum.splits)

lemma and_lsh1_minus: "(x :: ULONG64) AND (lsh1 k - 1) = take_bit k x"
  by (simp add: lsh1_def push_bit_eq_mult take_bit_eq_mask mask_eq_exp_minus_1)

text \<open>One iteration of the code's loop, when the table entry can be read.\<close>

lemma pml4_walk_step:
  assumes "page_entry s es table (take_bit bits (drop_bit sh gva)) = Some e" and "SvmmGetHostPageFromGPA s table = Inr phys"
    and "es \<in> {4, 8}" and "leaf < length Levels" and "Levels ! leaf = bits" and "12 + sum_list (take leaf Levels) = sh"
  shows "pml4_walk s gva Levels es (Suc leaf) phys entry =
    (if leaf = 2 \<and> bit e 7 then Inr ((e AND PAGING_MASK) + (gva AND 0x1fffffff))
     else if leaf = 1 \<and> bit e 7 then Inr ((e AND PAGING_MASK) + (gva AND 0x1fffff))
     else bindE (SvmmGetHostPageFromGPA s (e AND PAGING_MASK)) (\<lambda>phys.
          if phys = 0 then Inr 0 else pml4_walk s gva Levels es leaf phys e))"
proof -
  have "host_read s (phys + take_bit bits (drop_bit sh gva) * of_nat es) (if es = 4 then 4 else 8) = Inr e"
    using assms(1-3) by (auto simp: page_entry_Some)
  then show ?thesis using assms(4-6) by (simp add: Let_def and_lsh1_minus)
qed

text \<open>The low bits the code takes from the virtual address at a mapping of level \<open>leaf\<close>.\<close>

definition code_offset :: "nat \<Rightarrow> ULONG64" where
  "code_offset leaf = (if leaf = 0 then 0xfff else if leaf = 1 then 0x1fffff else 0x1fffffff)"

lemma walk_refines:
  assumes "sdm_walk s es gva (map (\<lambda>l. (12 + sum_list (take l Levels), Levels ! l, large l)) (rev [0 ..< n])) table = Some (gpa, sh, e)"
    and "SvmmGetHostPageFromGPA s table = Inr phys" and "es \<in> {4, 8}" and "n \<le> length Levels"
    and "\<forall>l. large l \<longrightarrow> l \<in> {1, 2}" and "SvmmGetHostPageFromGPA s (e AND PAGING_MASK) = Inr frame" and "frame \<noteq> 0"
  shows "\<exists>l < n. sh = 12 + sum_list (take l Levels) \<and> (l = 0 \<or> large l) \<and>
    pml4_walk s gva Levels es n phys entry = Inr ((e AND PAGING_MASK) + (gva AND code_offset l)) \<and>
    gpa = (if l = 0 then e AND PAGING_MASK else push_bit sh (drop_bit sh (e AND PAGING_MASK))) + take_bit sh gva"
  using assms(1,2,4)
proof (induction n arbitrary: table phys entry)
  case 0
  then show ?case by simp
next
  case (Suc n)
  let ?sh = "12 + sum_list (take n Levels)"
  obtain d where d: "page_entry s es table (take_bit (Levels ! n) (drop_bit ?sh gva)) = Some d" "bit d 0"
    using Suc.prems(1) by (auto split: option.splits if_splits)
  note step = pml4_walk_step [OF d(1) Suc.prems(2) assms(3), of n Levels entry, OF _ refl refl]
  have n: "n < length Levels" using Suc.prems(3) by simp
  consider (last) "n = 0" | (large) "0 < n" "bit d 7" | (table) "0 < n" "\<not> bit d 7" by blast
  then show ?case
  proof cases
    case last
    then have "e = d" "sh = 12" "gpa = (d AND PAGING_MASK) + take_bit 12 gva" using Suc.prems(1) d by auto
    then show ?thesis using step [OF n] last assms(6,7) by (simp add: code_offset_def)
  next
    case large
    then have "large n" "e = d" "sh = ?sh" "gpa = push_bit ?sh (drop_bit ?sh (d AND PAGING_MASK)) + take_bit ?sh gva"
      using Suc.prems(1) d by (auto split: if_splits)
    moreover have "n = 1 \<or> n = 2" using calculation(1) assms(5) by auto
    ultimately show ?thesis using step [OF n] large by (intro exI [of _ n]) (auto simp: code_offset_def)
  next
    case table
    then have w: "sdm_walk s es gva (map (\<lambda>l. (12 + sum_list (take l Levels), Levels ! l, large l)) (rev [0 ..< n]))
        (d AND PAGING_MASK) = Some (gpa, sh, e)"
      using Suc.prems(1) d by simp
    obtain m where m: "n = Suc m" using table(1) gr0_conv_Suc by blast
    obtain q where q: "SvmmGetHostPageFromGPA s (d AND PAGING_MASK) = Inr q" "q \<noteq> 0"
      using w m by (auto simp: page_entry_Some split: option.splits)
    have "pml4_walk s gva Levels es (Suc n) phys entry = pml4_walk s gva Levels es n q d"
      unfolding step [OF n] using table(2) q by simp
    then show ?thesis using Suc.IH [OF w q(1), of d] n less_SucI by (metis less_imp_le)
  qed
qed

lemma and_code_offset:
  "gva AND code_offset 0 = take_bit 12 gva" "gva AND code_offset (Suc 0) = take_bit 21 gva"
  "gva AND code_offset 2 = take_bit 29 gva"
  by (simp_all add: code_offset_def take_bit_eq_mask mask_eq_exp_minus_1)

lemma take_bit_Suc_clear: "\<not> bit x n \<Longrightarrow> take_bit (Suc n) (x :: ULONG64) = take_bit n x"
  by (rule bit_word_eqI) (auto simp: bit_simps less_Suc_eq)

lemma push_drop_aligned: "take_bit sh x = 0 \<Longrightarrow> push_bit sh (drop_bit sh x) = (x :: ULONG64)"
  using bits_ident [of sh x] by simp

text \<open>The levels of the architecture are those of the code's tables.\<close>

lemma sdm_levels:
  "long_levels = map (\<lambda>l. (12 + sum_list (take l Pml4Levels), Pml4Levels ! l, l \<in> {1, 2})) (rev [0 ..< 4])"
  "pae_levels = map (\<lambda>l. (12 + sum_list (take l PdePaeLevels), PdePaeLevels ! l, l = 1)) (rev [0 ..< 3])"
  "legacy_levels = map (\<lambda>l. (12 + sum_list (take l PdeNoPaeLevels), PdeNoPaeLevels ! l, l = 1)) (rev [0 ..< 2])"
  by (simp_all add: long_levels_def pae_levels_def legacy_levels_def Pml4Levels_def PdePaeLevels_def PdeNoPaeLevels_def
      upt_rec numeral_2_eq_2 numeral_3_eq_3)

lemma sdm_walk_root:
  "sdm_walk s es gva ls table = Some r \<Longrightarrow> \<exists>phys. SvmmGetHostPageFromGPA s table = Inr phys \<and> phys \<noteq> 0"
  by (cases ls) (auto simp: page_entry_Some split: option.splits prod.splits)

definition shift_of_level :: "nat \<Rightarrow> nat \<Rightarrow> bool" where
  "shift_of_level sh l \<longleftrightarrow> sh = 12 \<and> l = 0 \<or> sh = 21 \<and> l = 1 \<or> sh = 30 \<and> l = 2 \<or> sh = 22 \<and> l = 1"

lemma level_shift:
  "l = 0 \<or> l = 1 \<or> l = 2 \<Longrightarrow> shift_of_level (12 + sum_list (take l Pml4Levels)) l"
  "l = 0 \<or> l = 1 \<Longrightarrow> shift_of_level (12 + sum_list (take l PdePaeLevels)) l"
  "l = 0 \<or> l = 1 \<Longrightarrow> shift_of_level (12 + sum_list (take l PdeNoPaeLevels)) l"
  by (auto simp: shift_of_level_def Pml4Levels_def PdePaeLevels_def PdeNoPaeLevels_def)

text \<open>The offset of the code and of the architecture agree on a mapping.\<close>

lemma offset_agrees:
  assumes "shift_of_level sh l" and "sh = 30 \<Longrightarrow> \<not> bit gva 29" and "sh = 22 \<Longrightarrow> \<not> bit gva 21"
    and "sh \<noteq> 12 \<Longrightarrow> take_bit sh f = 0"
  shows "f + (gva AND code_offset l) = (if l = 0 then f else push_bit sh (drop_bit sh f)) + take_bit sh (gva :: ULONG64)"
  using assms take_bit_Suc_clear [of gva 29] take_bit_Suc_clear [of gva 21]
  by (auto simp: and_code_offset push_drop_aligned shift_of_level_def)


text \<open>A failed walk is not reported: its result 0 is then taken as a physical address.\<close>

lemma failed_walk_gives_page_zero:
  assumes "mem_ok s" and "testw (cr0 s) CR0_PG" and "SvmmGetGpaFromGva s a = Inr 0" and "\<not> smram_open s"
  shows "SvmmGetHostAddress s a = Inr (HostRam s)"
  using assms by (simp add: SvmmGetHostAddress_def host_page_eq host_offset_def mem_size_def)

section \<open>An example\<close>

text \<open>One gigabyte of RAM at host address 0x10000000, with a page table that maps 2 MB at 0x200000.\<close>

definition cpu_demo :: cpu_state where
  "cpu_demo = cpu_zero\<lparr>HostRam := 0x10000000, RamSize := 0x40000000, smbase := 0x30000, MemoryEnd := 0x50241000,
     HostMem := (\<lambda>_. 0)(0x10001000 := 0x03, 0x10001001 := 0x20, 0x10002000 := 0x03, 0x10002001 := 0x30,
                         0x10003000 := 0x83, 0x10003002 := 0x20),
     Registers := registers_zero\<lparr>reg_context := vcpu_zero\<lparr>c_cr0 := 0x80000001, c_cr3 := 0x1000, c_cr4 := 0x20, c_efer := 0x100\<rparr>\<rparr>\<rparr>"

lemmas cpu_zero_defs = cpu_zero_def cpu_state.defs flash_zero_def flash_state.defs bios_zero_def bios_state.defs hpet_zero_def
  hpet_state.defs piix3_zero_def piix3_state.defs i440fx_zero_def i440fx_state.defs acpi_zero_defs

lemma cpu_demo_simps [simp]:
  "HostRam cpu_demo = 0x10000000" "RamSize cpu_demo = 0x40000000" "smbase cpu_demo = 0x30000" "MemoryEnd cpu_demo = 0x50241000"
  "cr0 cpu_demo = 0x80000001" "cr3 cpu_demo = 0x1000" "cr4 cpu_demo = 0x20" "efer cpu_demo = 0x100"
  "PciDevices cpu_demo = (\<lambda>_ _. PCI_zero)"
  by (simp_all add: cpu_demo_def cpu_zero_defs registers_zero_def vcpu_zero_def)

lemma mem_ok_cpu_demo: "mem_ok cpu_demo" "\<not> smram_open cpu_demo"
  by (simp_all add: mem_ok_def smram_open_def memory_constants PCI_zero_def testw_def)

theorem translation_safe_witness:
  "\<exists>p. SvmmGetHostAddress cpu_demo 0x1234 = Inr p \<and> (p = 0 \<or> HostRam cpu_demo \<le> p \<and> p < MemoryEnd cpu_demo)"
  by (rule translation_safe) (simp_all add: mem_ok_cpu_demo)


lemma cpu_demo_page: "gpa < 0xa0000 \<Longrightarrow> SvmmGetHostPageFromGPA cpu_demo gpa = Inr (0x10000000 + gpa)"
  using host_page_closed [OF mem_ok_cpu_demo, of gpa] by (simp add: word_less_nat_alt word_le_nat_alt mem_size_def)

lemma le_read_8:
  "le_read m a 8 = ucast (m a) OR push_bit 8 (ucast (m (a + 1)) OR push_bit 8 (ucast (m (a + 2)) OR
     push_bit 8 (ucast (m (a + 3)) OR push_bit 8 (ucast (m (a + 4)) OR push_bit 8 (ucast (m (a + 5)) OR
     push_bit 8 (ucast (m (a + 6)) OR push_bit 8 (ucast (m (a + 7)))))))))"
  by (simp only: numeral_eq_Suc le_read.simps pred_numeral_simps BitM.simps) (simp add: add.assoc)

lemma cpu_demo_read:
  "host_read cpu_demo 0x10001000 8 = Inr 0x2003" "host_read cpu_demo 0x10002000 8 = Inr 0x3003"
  "host_read cpu_demo 0x10003000 8 = Inr 0x200083"
  by (simp_all add: host_read_def host_ok_def le_read_8) (simp_all add: cpu_demo_def push_bit_eq_mult)

lemma cpu_demo_sdm: "sdm_translate cpu_demo 0x1234 = Some (0x201234, 21, 0x200083)"
proof -
  have "page_entry cpu_demo 8 0x1000 0 = Some 0x2003" "page_entry cpu_demo 8 0x2000 0 = Some 0x3003"
    "page_entry cpu_demo 8 0x3000 0 = Some 0x200083"
    by (simp_all add: page_entry_def cpu_demo_page cpu_demo_read)
  then show ?thesis
    by (simp add: sdm_translate_def sdm_root_def EFER_LME_def long_levels_def PAGING_MASK_def drop_bit_eq_div take_bit_eq_mod
        bit_iff_odd push_bit_eq_mult)
qed


end
