(* ===== verification/Cpu_Regs.thy ===== *)
theory Cpu_Regs
  imports Cpu
begin

text \<open>
  The registers of the virtual processor: the reset state of \<open>SVMM.c\<close>, the transfer to and from the
  driver in \<open>gvm.c\<close>, the loading of ROM files, and the creation of the virtual machine by \<open>gvm_init\<close>. What
  the driver stores in the register structures is the argument \<open>vcpu\<close>, a function of the requests made
  so far, the present one included; files are lists of bytes (\<open>None\<close> when the file cannot be opened).
\<close>

section \<open>Reset\<close>

definition reset_data_segment :: segment_desc_t where
  "reset_data_segment = segment_zero\<lparr>seg_limit := 0xFFFF, seg_desc := 1, seg_type := 3, seg_present := 1\<rparr>"

definition reset_context :: vcpu_state_t where
  "reset_context =
       vcpu_zero\<lparr>c_rip := 0x0000FFF0, c_dr6 := 0xFFFF0FF0, c_dr7 := 0x00000400, c_cr0 := 0x60000010,
         c_rflags := 0x2,
         c_cs := segment_zero\<lparr>seg_selector := 0xF000, seg_base := 0xFFFF0000, seg_limit := 0xFFFF, seg_present := 1, seg_type := 3, seg_desc := 1\<rparr>,
         c_ds := reset_data_segment, c_es := reset_data_segment,
         c_fs := segment_zero\<lparr>seg_limit := 0xFFFF\<rparr>,
         c_gs := segment_zero\<lparr>seg_limit := 0xFFFF\<rparr>, c_ss := reset_data_segment,
         c_gdt := segment_zero\<lparr>seg_limit := 0xFFFF\<rparr>,
         c_idt := segment_zero\<lparr>seg_limit := 0xFFFF\<rparr>,
         c_ldt := segment_zero\<lparr>seg_type := 2, seg_limit := 0xFFFF, seg_present := 1\<rparr>,
         c_tr := segment_zero\<lparr>seg_present := 1, seg_type := 0xb, seg_limit := 0xFFFF\<rparr>\<rparr>"

definition SvmmInitializeRegisterState :: "'z cpu_state_scheme \<Rightarrow> 'z cpu_state_scheme" where
  "SvmmInitializeRegisterState s =
     s\<lparr>Registers := registers_zero\<lparr>reg_context := reset_context,
          reg_fx := fx_zero\<lparr>fx_mxcsr := 0x1f80, fx_mxcsr_mask := 0x0000ffbf OR 0x00020000 OR 0x00000040\<rparr>,
          reg_apicbase := 0xfee00000 OR 0x900, reg_xcr0 := 1, reg_fmask := 0x00020200, reg_pat := 0x0007040600070406\<rparr>,
       smbase := 0x30000\<rparr>"

section \<open>Register transfer\<close>

definition gvm_set_segment :: "kvm_segment \<Rightarrow> segment_desc_t \<Rightarrow> kvm_segment" where
  "gvm_set_segment k h = k\<lparr>ks_base := seg_base h, ks_limit := seg_limit h, ks_selector := seg_selector h,
     ks_type := ucast (seg_type h), ks_s := ucast (seg_desc h), ks_dpl := ucast (seg_dpl h), ks_present := ucast (seg_present h),
     ks_avl := ucast (seg_available h), ks_l := ucast (seg_long_mode h), ks_db := ucast (seg_operand_size h),
     ks_g := ucast (seg_granularity h)\<rparr>"

definition gvm_get_segment :: "kvm_segment \<Rightarrow> segment_desc_t \<Rightarrow> segment_desc_t" where
  "gvm_get_segment k h = h\<lparr>seg_base := ks_base k, seg_limit := ks_limit k, seg_selector := ks_selector k,
     seg_type := ucast (ks_type k), seg_desc := ucast (ks_s k), seg_dpl := ucast (ks_dpl k), seg_present := ucast (ks_present k),
     seg_available := ucast (ks_avl k), seg_long_mode := ucast (ks_l k), seg_operand_size := ucast (ks_db k),
     seg_granularity := ucast (ks_g k)\<rparr>"

text \<open>The structures \<open>gvm_set_registers\<close> fills, and the registers it writes back from them.\<close>

definition to_kvm_regs :: "Registers \<Rightarrow> kvm_regs" where
  "to_kvm_regs R =
     (let c = reg_context R in kvm_regs_zero\<lparr>k_rax := c_rax c, k_rcx := c_rcx c, k_rbx := c_rbx c,
       k_rdx := c_rdx c, k_rsi := c_rsi c, k_rdi := c_rdi c, k_rsp := c_rsp c, k_rbp := c_rbp c,
       k_r8 := c_r8 c, k_r9 := c_r9 c, k_r10 := c_r10 c, k_r11 := c_r11 c, k_r12 := c_r12 c, k_r13 := c_r13 c,
       k_r14 := c_r14 c, k_r15 := c_r15 c, k_rip := c_rip c, k_rflags := c_rflags c\<rparr>)"

definition to_kvm_sregs :: "Registers \<Rightarrow> kvm_sregs" where
  "to_kvm_sregs R =
     (let c = reg_context R in kvm_sregs_zero\<lparr>k_apic_base := reg_apicbase R, k_cr0 := c_cr0 c,
       k_cr2 := c_cr2 c, k_cr3 := c_cr3 c, k_cr4 := c_cr4 c, k_cr8 := reg_cr8 R, k_efer := ucast (c_efer c),
       k_cs := gvm_set_segment kvm_segment_zero (c_cs c), k_ds := gvm_set_segment kvm_segment_zero (c_ds c),
       k_es := gvm_set_segment kvm_segment_zero (c_es c), k_fs := gvm_set_segment kvm_segment_zero (c_fs c),
       k_gs := gvm_set_segment kvm_segment_zero (c_gs c), k_ss := gvm_set_segment kvm_segment_zero (c_ss c),
       k_tr := gvm_set_segment kvm_segment_zero (c_tr c), k_ldt := gvm_set_segment kvm_segment_zero (c_ldt c),
       k_gdt := \<lparr>kd_base = seg_base (c_gdt c), kd_limit = ucast (seg_limit (c_gdt c))\<rparr>,
       k_idt := \<lparr>kd_base = seg_base (c_idt c), kd_limit = ucast (seg_limit (c_idt c))\<rparr>\<rparr>)"

definition from_kvm_regs :: "kvm_regs \<Rightarrow> Registers \<Rightarrow> Registers" where
  "from_kvm_regs k R =
     R\<lparr>reg_context := (reg_context R)\<lparr>c_rax := k_rax k, c_rcx := k_rcx k, c_rbx := k_rbx k,
       c_rdx := k_rdx k, c_rsi := k_rsi k, c_rdi := k_rdi k, c_rsp := k_rsp k, c_rbp := k_rbp k,
       c_r8 := k_r8 k, c_r9 := k_r9 k, c_r10 := k_r10 k, c_r11 := k_r11 k, c_r12 := k_r12 k, c_r13 := k_r13 k,
       c_r14 := k_r14 k, c_r15 := k_r15 k, c_rip := k_rip k, c_rflags := k_rflags k\<rparr>\<rparr>"

definition from_kvm_sregs :: "kvm_sregs \<Rightarrow> Registers \<Rightarrow> Registers" where
  "from_kvm_sregs k R =
     (let c = reg_context R in R\<lparr>reg_apicbase := k_apic_base k, reg_cr8 := k_cr8 k, reg_context := c\<lparr>
       c_cr0 := k_cr0 k, c_cr2 := k_cr2 k, c_cr3 := k_cr3 k, c_cr4 := k_cr4 k, c_efer := ucast (k_efer k),
       c_cs := gvm_get_segment (k_cs k) (c_cs c), c_ds := gvm_get_segment (k_ds k) (c_ds c),
       c_es := gvm_get_segment (k_es k) (c_es c), c_fs := gvm_get_segment (k_fs k) (c_fs c),
       c_gs := gvm_get_segment (k_gs k) (c_gs c), c_ss := gvm_get_segment (k_ss k) (c_ss c),
       c_tr := gvm_get_segment (k_tr k) (c_tr c), c_ldt := gvm_get_segment (k_ldt k) (c_ldt c),
       c_gdt := (c_gdt c)\<lparr>seg_base := kd_base (k_gdt k), seg_limit := ucast (kd_limit (k_gdt k))\<rparr>,
       c_idt := (c_idt c)\<lparr>seg_base := kd_base (k_idt k), seg_limit := ucast (kd_limit (k_idt k))\<rparr>\<rparr>\<rparr>)"

text \<open>The status is that of the source: a failed request gives 0, as a successful \<open>gvm_set_registers\<close> does.\<close>

definition gvm_set_registers :: "env \<Rightarrow> 'z cpu_state_scheme \<Rightarrow> int \<times> 'z cpu_state_scheme" where
  "gvm_set_registers env s =
     (case DeviceIoControl env (GVM_SET_REGS (to_kvm_regs (Registers s))) s of (ret, s) \<Rightarrow>
      if \<not> ret then (0, s)
      else (case DeviceIoControl env (GVM_SET_SREGS (to_kvm_sregs (Registers s))) s of (ret, s) \<Rightarrow> (0, s)))"

definition gvm_get_registers ::
  "env \<Rightarrow> (env_req list \<Rightarrow> kvm_regs \<times> kvm_sregs) \<Rightarrow> 'z cpu_state_scheme \<Rightarrow> int \<times> 'z cpu_state_scheme" where
  "gvm_get_registers env vcpu s =
     (case DeviceIoControl env GVM_GET_REGS s of (ret, s) \<Rightarrow>
      if \<not> ret then (0, s)
      else let s = s\<lparr>Registers := from_kvm_regs (fst (vcpu (EnvLog s))) (Registers s)\<rparr>
           in case DeviceIoControl env GVM_GET_SREGS s of (ret, s) \<Rightarrow>
              if \<not> ret then (0, s)
              else (1, s\<lparr>Registers := from_kvm_sregs (snd (vcpu (EnvLog s))) (Registers s)\<rparr>))"

definition SvmmSetRegisters :: "env \<Rightarrow> 'z cpu_state_scheme \<Rightarrow> int \<times> 'z cpu_state_scheme" where
  "SvmmSetRegisters env s = (0, snd (gvm_set_registers env s))"

definition SvmmGetRegisters ::
  "env \<Rightarrow> (env_req list \<Rightarrow> kvm_regs \<times> kvm_sregs) \<Rightarrow> 'z cpu_state_scheme \<Rightarrow> int \<times> 'z cpu_state_scheme" where
  "SvmmGetRegisters env vcpu s = (0, snd (gvm_get_registers env vcpu s))"

section \<open>ROM files\<close>

datatype rom_type = TYPE_SYSTEM_BIOS | TYPE_VGA_BIOS

text \<open>\<open>read_ok\<close> is whether \<open>ReadFile\<close> succeeds.\<close>

definition SvmmLoadRom ::
  "bool \<Rightarrow> BYTE list option \<Rightarrow> rom_type \<Rightarrow> 'z cpu_state_scheme \<Rightarrow> (int \<times> 'z cpu_state_scheme) res" where
  "SvmmLoadRom read_ok file type s =
     (case file of
        None \<Rightarrow> Inr (-1, s)
      | Some bytes \<Rightarrow>
          let fileSize = (of_nat (length bytes) :: DWORD)
          in if fileSize = 0xffffffff \<or> ucast fileSize > ROM_SIZE then Inr (-1, s)
             else let RomAddress = (ucast (NOT (fileSize - 1)) :: ULONG64);
                      offset = (if type = TYPE_SYSTEM_BIOS then RomAddress AND (lsh1 21 - 1) else 0);
                      HostRomAddress = HostRam s + RamSize s + (if type = TYPE_SYSTEM_BIOS then 0xe0000 else 0xc0000)
                  in if ucast fileSize + offset < offset \<or> ROM_SIZE < offset + ucast fileSize then Inr (-1, s)
                     else if \<not> read_ok then Inr (-1, s)
                     else bindE (host_write s HostRomAddress (take (unat fileSize) bytes)) (\<lambda>s. Inr (0, s)))"

section \<open>Creating the virtual machine\<close>

definition GVM_MAX_CPUID_ENTRIES :: nat where "GVM_MAX_CPUID_ENTRIES = 80"

text \<open>The entry of function 0x80000001 loses bit 27 of \<open>edx\<close>.\<close>

definition cpuid_filter :: "kvm_cpuid_entry \<Rightarrow> kvm_cpuid_entry" where
  "cpuid_filter e = (if ce_function e = 0x80000001 then e\<lparr>ce_edx := ce_edx e AND NOT (lsh1 27)\<rparr> else e)"

definition alloc_or :: "env \<Rightarrow> nat \<Rightarrow> svmm_error \<Rightarrow> 'z cpu_state_scheme \<Rightarrow> 'z cpu_state_scheme res" where
  "alloc_or env n e s = (case ask_env env (Calloc n) s of (ok, t) \<Rightarrow> if ok then Inr t else Inl e)"

text \<open>
  \<open>cpuid\<close> is what the driver stores in the 80 entries and \<open>nmsrs\<close> the number of model specific registers
  it reports. A failed request runs the error path, which ends the process; the two lists of registers
  are used without a check of their allocation.
\<close>

definition gvm_init ::
  "env \<Rightarrow> kvm_cpuid_entry list \<Rightarrow> nat \<Rightarrow> ULONG64 \<Rightarrow> ULONG64 \<Rightarrow> 'z cpu_state_scheme \<Rightarrow> (int \<times> 'z cpu_state_scheme) res" where
  "gvm_init env cpuid nmsrs ram ram_size s =
     (case ask_env env CreateFileGvm s of (ok, s) \<Rightarrow>
      if \<not> ok then Inr (-1, s)
      else bindE (ioctl_or_exit env GVM_CREATE_VM s) (\<lambda>s.
           bindE (alloc_or env (40 * GVM_MAX_CPUID_ENTRIES + 8) Exit s) (\<lambda>s.
           bindE (ioctl_or_exit env GVM_GET_SUPPORTED_CPUID s) (\<lambda>s.
           let cpuids = map cpuid_filter (take GVM_MAX_CPUID_ENTRIES cpuid)
           in bindE (alloc_or env 4 OutOfBounds s) (\<lambda>s.
              case DeviceIoControl env GVM_GET_MSR_INDEX_LIST s of (_, s) \<Rightarrow>
              bindE (alloc_or env (4 + 4 * nmsrs) OutOfBounds s) (\<lambda>s.
              bindE (ioctl_or_exit env GVM_GET_MSR_INDEX_LIST s) (\<lambda>s.
              bindE (ioctl_or_exit env GVM_CREATE_VCPU s) (\<lambda>s.
              bindE (alloc_or env (8 + 16 * nmsrs) OutOfBounds s) (\<lambda>s.
              bindE (ioctl_or_exit env GVM_GET_MSRS s) (\<lambda>s.
              bindE (gvm_init_slots env s ram ram_size) (\<lambda>s.
              bindE (ioctl_or_exit env GVM_VCPU_MMAP s) (\<lambda>s.
              bindE (ioctl_or_exit env (GVM_SET_CPUID cpuids) s) (\<lambda>s. Inr (0, s))))))))))))))"

section \<open>The registers survive the transfer\<close>

lemma ucast_down_up:
  "LENGTH('a::len) \<le> LENGTH('b::len) \<Longrightarrow> ucast (ucast (v :: 'a word) :: 'b word) = v"
  by (rule bit_word_eqI) (auto simp: bit_simps)

lemma segment_roundtrip: "gvm_get_segment (gvm_set_segment k h) h = h"
  by (cases h) (simp add: gvm_get_segment_def gvm_set_segment_def ucast_down_up)

lemma limit_roundtrip: "unat (l :: 32 word) < 2 ^ 16 \<Longrightarrow> ucast (ucast l :: 16 word) = l"
  by (simp add: word_unat_eq_iff unat_ucast_mod)

lemma from_to_kvm_regs: "from_kvm_regs (to_kvm_regs R) R = R"
  by (simp add: from_kvm_regs_def to_kvm_regs_def Let_def)

lemma from_to_kvm_sregs:
  assumes "unat (seg_limit (c_gdt (reg_context R))) < 2 ^ 16" and "unat (seg_limit (c_idt (reg_context R))) < 2 ^ 16"
  shows "from_kvm_sregs (to_kvm_sregs R) R = R"
  using assms by (simp add: from_kvm_sregs_def to_kvm_sregs_def Let_def segment_roundtrip limit_roundtrip ucast_down_up)

text \<open>A driver that accepts every request and gives back the registers it was last given.\<close>

definition driver_keeps :: "env \<Rightarrow> (env_req list \<Rightarrow> kvm_regs \<times> kvm_sregs) \<Rightarrow> bool" where
  "driver_keeps env vcpu \<longleftrightarrow> (\<forall>log r. env log r) \<and>
     (\<forall>log r sr. fst (vcpu (log @ [GVM_SET_REGS r, GVM_SET_SREGS sr, GVM_GET_REGS])) = r \<and>
        snd (vcpu (log @ [GVM_SET_REGS r, GVM_SET_SREGS sr, GVM_GET_REGS, GVM_GET_SREGS])) = sr)"

lemma DeviceIoControl_ok: "(\<And>log r. env log r) \<Longrightarrow> DeviceIoControl env r s = (True, s\<lparr>EnvLog := EnvLog s @ [r]\<rparr>)"
  by (simp add: DeviceIoControl_def ask_env_def)


text \<open>The other direction drops what the registers of the monitor have no field for.\<close>

lemma set_after_get_drops:
  "ks_unusable (k_ds (to_kvm_sregs (from_kvm_sregs k R))) = 0" "interrupt_bitmap (to_kvm_sregs (from_kvm_sregs k R)) = replicate 4 0"
  by (simp_all add: to_kvm_sregs_def from_kvm_sregs_def Let_def gvm_set_segment_def kvm_segment_zero_def kvm_sregs_zero_def)

text \<open>A driver that keeps the last registers it was given.\<close>

fun vcpu_note :: "env_req \<Rightarrow> kvm_regs \<times> kvm_sregs \<Rightarrow> kvm_regs \<times> kvm_sregs" where
  "vcpu_note (GVM_SET_REGS r) (_, sr) = (r, sr)"
| "vcpu_note (GVM_SET_SREGS sr) (r, _) = (r, sr)"
| "vcpu_note _ k = k"

definition vcpu_echo :: "env_req list \<Rightarrow> kvm_regs \<times> kvm_sregs" where
  "vcpu_echo log = fold vcpu_note log (kvm_regs_zero, kvm_sregs_zero)"

lemma driver_keeps_echo: "driver_keeps (\<lambda>_ _. True) vcpu_echo"
proof -
  have "vcpu_note (GVM_SET_SREGS sr) (vcpu_note (GVM_SET_REGS r) k) = (r, sr)" for r sr k by (cases k) simp
  then show ?thesis by (simp add: driver_keeps_def vcpu_echo_def)
qed


section \<open>The reset vector\<close>



section \<open>Loading ROM files\<close>

lemma put_bytes_eq:
  "length bs < 2 ^ 64 \<Longrightarrow> put_bytes m a bs x = (if unat (x - a) < length bs then bs ! unat (x - a) else m x)"
proof (induction bs arbitrary: m a)
  case Nil
  show ?case by simp
next
  case (Cons b bs)
  have IH: "put_bytes (m(a := b)) (a + 1) bs x = (if unat (x - (a + 1)) < length bs then bs ! unat (x - (a + 1)) else (m(a := b)) x)"
    using Cons by simp
  show ?case
  proof (cases "x = a")
    case True
    have "unat (- 1 :: ULONG64) = 2 ^ 64 - 1" by (simp add: unsigned_minus_1_eq_mask mask_eq_exp_minus_1)
    then show ?thesis using IH Cons.prems True by simp
  next
    case False
    then have "unat (x - a) = Suc (unat (x - (a + 1)))"
      using unat_minus_one [of "x - a"] unat_gt_0 [of "x - a"] by (simp add: diff_diff_eq)
    then show ?thesis using IH False by simp
  qed
qed

lemma host_rom_ok:
  assumes "mem_ok s" and "unat k < 2 ^ 32"
  shows "host_ok s (HostRam s + RamSize s + k) n \<longleftrightarrow> unat k + n \<le> 0x241000"
proof -
  have m: "unat (HostRam s) < 2 ^ 47" "unat (RamSize s) < 2 ^ 47" using assms(1) by (simp_all add: mem_ok_def)
  then have "unat (HostRam s + RamSize s + k) = unat (HostRam s) + unat (RamSize s) + unat k"
    using assms(2) by (simp add: unat_word_ariths)
  then show ?thesis using MemoryEnd_nat [OF assms(1)] by (auto simp: host_ok_def mem_size_def)
qed

text \<open>C39. Loading a video ROM that passes the size check copies the file to the ROM area behind the RAM and
  changes no other byte. The check compares the file with the size of the whole area, not with what is
  left behind the load address: a file of more than 0x181000 bytes is written beyond the allocation.\<close>

theorem load_vga_rom:
  assumes "mem_ok s" and "length bytes \<le> 0x220000"
  shows "SvmmLoadRom True (Some bytes) TYPE_VGA_BIOS s =
    (if length bytes \<le> 0x181000
     then Inr (0, s\<lparr>HostMem := (\<lambda>x. let i = unat (x - (HostRam s + RamSize s + 0xc0000))
                                     in if i < length bytes then bytes ! i else HostMem s x)\<rparr>)
     else Inl OutOfBounds)"
proof -
  let ?n = "of_nat (length bytes) :: DWORD"
  have n: "unat ?n = length bytes" using assms(2) by (simp add: unat_of_nat)
  then have "unat (ucast ?n :: ULONG64) = length bytes" by (simp add: unat_ucast_up)
  then have sz: "\<not> ROM_SIZE < ucast ?n" "?n \<noteq> 0xffffffff"
    using assms(2) n by (auto simp: word_less_nat_alt memory_constants)
  have w: "host_ok s (HostRam s + RamSize s + 0xc0000) (length bytes) \<longleftrightarrow> length bytes \<le> 0x181000"
    by (subst host_rom_ok [OF assms(1)]) auto
  have "put_bytes (HostMem s) a bytes = (\<lambda>x. let i = unat (x - a) in if i < length bytes then bytes ! i else HostMem s x)" for a
    using assms(2) by (auto simp: put_bytes_eq Let_def)
  then show ?thesis using sz n w by (simp add: SvmmLoadRom_def Let_def host_write_def)
qed

theorem load_vga_rom_witness:
  "SvmmLoadRom True (Some (replicate 0x200000 0)) TYPE_VGA_BIOS cpu_demo = Inl OutOfBounds"
  using load_vga_rom [OF mem_ok_cpu_demo(1), of "replicate 0x200000 0"] by simp

section \<open>Creating the virtual machine\<close>

lemma ioctl_last: "ioctl_or_exit env r s = Inr t \<Longrightarrow> last (EnvLog t) = r"
  by (auto simp: ioctl_or_exit_eq split: if_splits)

text \<open>The processor of a virtual machine that is created does not announce the instruction of bit 27 of function
  0x80000001.\<close>

lemma gvm_init_cpuid:
  assumes "gvm_init env cpuid nmsrs ram ram_size s = Inr (0, t)"
  shows "last (EnvLog t) = GVM_SET_CPUID (map cpuid_filter (take 80 cpuid))"
    and "e \<in> set (map cpuid_filter (take 80 cpuid)) \<Longrightarrow> ce_function e = 0x80000001 \<Longrightarrow> \<not> bit (ce_edx e) 27"
proof -
  have "specE UNIV (\<lambda>(st, t). st = 0 \<longrightarrow> last (EnvLog t) = GVM_SET_CPUID (map cpuid_filter (take 80 cpuid)))
      (gvm_init env cpuid nmsrs ram ram_size s)"
    unfolding gvm_init_def Let_def
    by (auto split: prod.splits simp: GVM_MAX_CPUID_ENTRIES_def ioctl_last intro!: specE_if specE_bind_any)
  then show "last (EnvLog t) = GVM_SET_CPUID (map cpuid_filter (take 80 cpuid))" using assms by simp
  show "e \<in> set (map cpuid_filter (take 80 cpuid)) \<Longrightarrow> ce_function e = 0x80000001 \<Longrightarrow> \<not> bit (ce_edx e) 27"
    by (auto simp: cpuid_filter_def bit_clear_lsh1)
qed

end
