(* ===== verification/Vhd.thy ===== *)
theory Vhd
  imports Cpu_Regs
begin

text \<open>
  The disk image of \<open>vhd.c\<close>: opening a fixed or dynamic VHD image and reading it. A file of the host is
  its size and what a read of a number of bytes at an offset returns: fewer bytes at the end of the
  file, \<open>None\<close> when the read fails. A structure on the stack into which too few bytes were read is
  indeterminate behind them, and using such a field is \<open>OutOfBounds\<close>; \<open>SetFilePointerEx\<close> refuses
  negative offsets. The image is opened read-only and \<open>VhdWrite\<close> is empty.
\<close>

section \<open>State\<close>

record host_file =
  fsize :: ULONG64
  fread :: "ULONG64 \<Rightarrow> nat \<Rightarrow> BYTE list option"

record VDGEOMETRY =
  cCylinders :: "32 word"
  cHeads :: "32 word"
  cSectors :: "32 word"

record VHDIMAGE =
  vhd_hFile :: "host_file option"
  uImageFlags :: "32 word"
  cbSize :: ULONG64
  PCHSGeometry :: VDGEOMETRY
  LCHSGeometry :: VDGEOMETRY
  pBlockAllocationTable :: "32 word list option"
  cBlockAllocationTableEntries :: "32 word"
  cbDataBlock :: "32 word"
  cSectorsPerDataBlock :: "32 word"
  cbDataBlockBitmap :: "32 word"
  cDataBlockBitmapSectors :: "32 word"
  uBlockAllocationTableOffset :: ULONG64
  u64DataOffset :: ULONG64

record vhd_state = cpu_state +
  vhdImage :: VHDIMAGE

definition GEOMETRY_zero :: VDGEOMETRY where
  "GEOMETRY_zero = \<lparr>cCylinders = 0, cHeads = 0, cSectors = 0\<rparr>"

definition VHDIMAGE_zero :: VHDIMAGE where
  "VHDIMAGE_zero = \<lparr>vhd_hFile = None, uImageFlags = 0, cbSize = 0, PCHSGeometry = GEOMETRY_zero,
     LCHSGeometry = GEOMETRY_zero, pBlockAllocationTable = None, cBlockAllocationTableEntries = 0, cbDataBlock = 0,
     cSectorsPerDataBlock = 0, cbDataBlockBitmap = 0, cDataBlockBitmapSectors = 0, uBlockAllocationTableOffset = 0,
     u64DataOffset = 0\<rparr>"

definition vhd_zero :: vhd_state where
  "vhd_zero = cpu_state.extend cpu_zero (vhd_state.fields VHDIMAGE_zero)"

definition upd_vhd :: "(VHDIMAGE \<Rightarrow> VHDIMAGE) \<Rightarrow> 'z vhd_state_scheme \<Rightarrow> 'z vhd_state_scheme" where
  "upd_vhd f s = s\<lparr>vhdImage := f (vhdImage s)\<rparr>"

section \<open>Files\<close>

text \<open>\<open>SetFilePointerEx\<close> from the start of the file followed by \<open>ReadFile\<close>; both failures end the process.\<close>

definition read_at :: "host_file \<Rightarrow> ULONG64 \<Rightarrow> nat \<Rightarrow> BYTE list res" where
  "read_at f off n =
     (if sint off < 0 then Inl Exit
      else case fread f off n of None \<Rightarrow> Inl Exit | Some bs \<Rightarrow> Inr (take n bs))"

text \<open>A field of a structure in network byte order, as \<open>htons\<close>, \<open>htonl\<close> and \<open>htonll\<close> give it.\<close>

definition be_word :: "BYTE list \<Rightarrow> 'a::len word" where
  "be_word bs = fold (\<lambda>b w. push_bit 8 w OR ucast b) bs 0"

definition slice :: "BYTE list \<Rightarrow> nat \<Rightarrow> nat \<Rightarrow> BYTE list res" where
  "slice bs off n = (if off + n \<le> length bs then Inr (take n (drop off bs)) else Inl OutOfBounds)"

definition be_field :: "BYTE list \<Rightarrow> nat \<Rightarrow> nat \<Rightarrow> 'a::len word res" where
  "be_field bs off n = bindE (slice bs off n) (\<lambda>b. Inr (be_word b))"

definition VHD_FOOTER_COOKIE :: "BYTE list" where
  "VHD_FOOTER_COOKIE = [0x63, 0x6f, 0x6e, 0x65, 0x63, 0x74, 0x69, 0x78]"

definition VHD_DYNAMIC_DISK_HEADER_COOKIE :: "BYTE list" where
  "VHD_DYNAMIC_DISK_HEADER_COOKIE = [0x63, 0x78, 0x73, 0x70, 0x61, 0x72, 0x73, 0x65]"

definition VD_IMAGE_FLAGS_FIXED :: "32 word" where "VD_IMAGE_FLAGS_FIXED = 0x10000"
definition VD_IMAGE_FLAGS_DIFF :: "32 word" where "VD_IMAGE_FLAGS_DIFF = 0x20000"
definition VHD_SECTOR_SIZE :: nat where "VHD_SECTOR_SIZE = 512"

section \<open>Operations\<close>

definition VhdGetHardDiskSize :: "'z vhd_state_scheme \<Rightarrow> ULONG64" where
  "VhdGetHardDiskSize s = cbSize (vhdImage s)"

definition sectors_of_bitmap :: "32 word \<Rightarrow> 32 word" where
  "sectors_of_bitmap n = n div 512 + (if n mod 512 > 0 then 1 else 0)"

text \<open>The table: what was read over the zeros of \<open>calloc\<close>, every entry converted.\<close>

definition bat_of :: "32 word \<Rightarrow> BYTE list \<Rightarrow> 32 word list" where
  "bat_of n bs = map (\<lambda>i. be_word (take 4 (drop (4 * i) (bs @ replicate (4 * unat n - length bs) 0)))) [0 ..< unat n]"

definition vhd_calloc :: "env \<Rightarrow> nat \<Rightarrow> 'z vhd_state_scheme \<Rightarrow> 'z vhd_state_scheme res" where
  "vhd_calloc env n s = (case ask_env env (Calloc n) s of (ok, t) \<Rightarrow> if ok then Inr t else Inl Exit)"

definition VhdLoadDynamicDisk :: "env \<Rightarrow> host_file \<Rightarrow> ULONG64 \<Rightarrow> 'z vhd_state_scheme \<Rightarrow> 'z vhd_state_scheme res" where
  "VhdLoadDynamicDisk env f off s =
     bindE (read_at f off 1024) (\<lambda>hdr.
     bindE (slice hdr 0 8) (\<lambda>cookie.
     if cookie \<noteq> VHD_DYNAMIC_DISK_HEADER_COOKIE then Inl Exit
     else
      bindE (be_field hdr 32 4) (\<lambda>blockSize.
      bindE (be_field hdr 28 4) (\<lambda>entries.
      if unat entries > 2 ^ 32 - 2 then Inl Exit
      else
       let sectors = blockSize div 512; bitmap = sectors div 8;
           s = upd_vhd (\<lambda>v. v\<lparr>cbDataBlock := blockSize, cBlockAllocationTableEntries := entries, cSectorsPerDataBlock := sectors,
                 cbDataBlockBitmap := bitmap, cDataBlockBitmapSectors := sectors_of_bitmap bitmap\<rparr>) s
       in bindE (vhd_calloc env (unat (bitmap + 8)) s) (\<lambda>s.
          bindE (vhd_calloc env (4 * unat entries) s) (\<lambda>s.
          bindE (be_field hdr 16 8) (\<lambda>table.
          bindE (read_at f table (4 * unat entries mod 2 ^ 32)) (\<lambda>bat.
          Inr (upd_vhd (\<lambda>v. v\<lparr>uBlockAllocationTableOffset := table, pBlockAllocationTable := Some (bat_of entries bat)\<rparr>) s)))))))))"

text \<open>\<open>f\<close> is the opened file, \<open>None\<close> when it cannot be opened.\<close>

definition VhdInitializeHardDisk :: "env \<Rightarrow> host_file option \<Rightarrow> 'z vhd_state_scheme \<Rightarrow> 'z vhd_state_scheme res" where
  "VhdInitializeHardDisk env file s =
     (case file of
        None \<Rightarrow> Inl Exit
      | Some f \<Rightarrow>
          if fsize f < 512 then Inl Exit
          else
           let s = s\<lparr>vhdImage := VHDIMAGE_zero\<lparr>vhd_hFile := Some f, cbSize := fsize f\<rparr>\<rparr>
           in bindE (read_at f (fsize f - 512) 512) (\<lambda>footer.
              bindE (slice footer 0 8) (\<lambda>cookie.
              if cookie \<noteq> VHD_FOOTER_COOKIE then Inl Exit
              else
               bindE (be_field footer 60 4) (\<lambda>diskType.
               bindE (be_field footer 16 8) (\<lambda>dataOffset.
               bindE (if diskType = (2 :: 32 word)
                      then Inr (upd_vhd (\<lambda>v. v\<lparr>uImageFlags := uImageFlags v OR VD_IMAGE_FLAGS_FIXED\<rparr>) s)
                      else if diskType = 3
                      then VhdLoadDynamicDisk env f dataOffset
                             (upd_vhd (\<lambda>v. v\<lparr>uImageFlags := uImageFlags v AND NOT VD_IMAGE_FLAGS_FIXED\<rparr>) s)
                      else if diskType = 4
                      then VhdLoadDynamicDisk env f dataOffset
                             (upd_vhd (\<lambda>v. v\<lparr>uImageFlags := (uImageFlags v OR VD_IMAGE_FLAGS_DIFF) AND NOT VD_IMAGE_FLAGS_FIXED\<rparr>) s)
                      else Inl Exit) (\<lambda>s.
               bindE (be_field footer 48 8) (\<lambda>curSize.
               bindE (be_field footer 56 2) (\<lambda>cyls.
               bindE (arr_get footer 58) (\<lambda>heads.
               bindE (arr_get footer 59) (\<lambda>secs.
               Inr (upd_vhd (\<lambda>v. v\<lparr>cbSize := curSize, LCHSGeometry := GEOMETRY_zero,
                      PCHSGeometry := \<lparr>cCylinders = ucast (cyls :: 16 word), cHeads = ucast heads, cSectors = ucast secs\<rparr>,
                      u64DataOffset := dataOffset\<rparr>) s)))))))))))"

definition VhdSeek :: "ULONG64 \<Rightarrow> 'z vhd_state_scheme \<Rightarrow> 'z vhd_state_scheme" where
  "VhdSeek off s = upd_vhd (\<lambda>v. v\<lparr>u64DataOffset := off\<rparr>) s"

text \<open>The bytes \<open>ReadFile\<close> stores at the start of the buffer.\<close>

definition VhdRead :: "'z vhd_state_scheme \<Rightarrow> ULONG64 \<Rightarrow> BYTE list res" where
  "VhdRead s n =
     (let v = vhdImage s
      in case vhd_hFile v of
           None \<Rightarrow> Inl Exit
         | Some f \<Rightarrow>
             (case pBlockAllocationTable v of
                Some bat \<Rightarrow>
                  if cSectorsPerDataBlock v = 0 then Inl DivByZero
                  else let sector = u64DataOffset v div 512;
                           entry = (ucast (sector div ucast (cSectorsPerDataBlock v)) :: DWORD);
                           index = (ucast (sector mod ucast (cSectorsPerDataBlock v)) :: DWORD)
                       in bindE (arr_get bat (unat entry)) (\<lambda>b.
                          if b = 0xffffffff then Inl Exit
                          else read_at f ((ucast b + ucast (cDataBlockBitmapSectors v) + ucast index) * 512) (unat (ucast n :: DWORD)))
              | None \<Rightarrow> read_at f (u64DataOffset v) (unat (ucast n :: DWORD))))"

text \<open>The buffer is a pointer that is not followed; here its offset.\<close>

definition VhdWrite :: "nat \<Rightarrow> ULONG64 \<Rightarrow> 'z vhd_state_scheme \<Rightarrow> 'z vhd_state_scheme" where
  "VhdWrite buffer n s = s"

section \<open>Network byte order\<close>

primrec be_bytes :: "nat \<Rightarrow> 'a::len word \<Rightarrow> BYTE list" where
  "be_bytes 0 w = []"
| "be_bytes (Suc n) w = ucast (drop_bit (8 * n) w) # be_bytes n w"

lemma length_be_bytes [simp]: "length (be_bytes n w) = n"
  by (induction n) simp_all

lemma fold_be: "fold (\<lambda>b w. push_bit 8 w OR ucast b) bs a = push_bit (8 * length bs) a OR (be_word bs :: 'a::len word)"
proof (induction bs arbitrary: a)
  case Nil
  show ?case by (simp add: be_word_def)
next
  case (Cons b bs)
  have "be_word (b # bs) = push_bit (8 * length bs) (ucast b) OR (be_word bs :: 'a word)"
    using Cons [of "ucast b"] by (simp add: be_word_def)
  then show ?case using Cons [of "push_bit 8 a OR ucast b"]
    by (simp add: push_bit_or push_bit_push_bit add.commute or.assoc)
qed

lemma be_word_Cons: "be_word (b # bs) = push_bit (8 * length bs) (ucast b) OR (be_word bs :: 'a::len word)"
  using fold_be [of bs "ucast b"] by (simp add: be_word_def)

lemma be_word_be_bytes: "be_word (be_bytes n w) = take_bit (8 * n) (w :: 'a::len word)"
proof (induction n)
  case 0
  show ?case by (simp add: be_word_def)
next
  case (Suc n)
  show ?case by (rule bit_word_eqI) (auto simp: be_word_Cons Suc bit_simps)
qed

lemma be_word_full: "LENGTH('a::len) \<le> 8 * n \<Longrightarrow> be_word (be_bytes n w) = (w :: 'a word)"
  unfolding be_word_be_bytes by (rule bit_word_eqI) (auto simp: bit_simps)

lemma slice_append:
  "length a = off \<Longrightarrow> length b = n \<Longrightarrow> slice (a @ b @ c) off n = Inr b"
  by (simp add: slice_def)

lemma be_field_append:
  "length a = off \<Longrightarrow> LENGTH('a) = 8 * n \<Longrightarrow> be_field (a @ be_bytes n w @ c) off n = Inr (w :: 'a::len word)"
  by (simp add: be_field_def slice_append be_word_full)

section \<open>Fixed images\<close>

text \<open>A file with the given bytes, and the footer of an image: disk type, data offset and size.\<close>

definition file_of :: "BYTE list \<Rightarrow> host_file" where
  "file_of bytes = \<lparr>fsize = of_nat (length bytes), fread = (\<lambda>off n. Some (take n (drop (unat off) bytes)))\<rparr>"

definition vhd_footer :: "32 word \<Rightarrow> ULONG64 \<Rightarrow> ULONG64 \<Rightarrow> BYTE list" where
  "vhd_footer diskType dataOffset sz =
     VHD_FOOTER_COOKIE @ replicate 8 0 @ be_bytes 8 dataOffset @ replicate 24 0 @ be_bytes 8 sz @ replicate 4 0 @
     be_bytes 4 diskType @ replicate 448 0"

lemma length_cookies [simp]: "length VHD_FOOTER_COOKIE = 8" "length VHD_DYNAMIC_DISK_HEADER_COOKIE = 8"
  by (simp_all add: VHD_FOOTER_COOKIE_def VHD_DYNAMIC_DISK_HEADER_COOKIE_def)

lemma vhd_footer_fields:
  "length (vhd_footer d off sz) = 512"
  "slice (vhd_footer d off sz) 0 8 = Inr VHD_FOOTER_COOKIE"
  "be_field (vhd_footer d off sz) 16 8 = Inr off"
  "be_field (vhd_footer d off sz) 48 8 = Inr sz"
  "be_field (vhd_footer d off sz) 60 4 = Inr d"
proof -
  have f: "vhd_footer d off sz = (VHD_FOOTER_COOKIE @ replicate 8 0) @ be_bytes 8 off @ replicate 24 0 @ be_bytes 8 sz @ replicate 4 0 @ be_bytes 4 d @ replicate 448 0"
    "vhd_footer d off sz = (VHD_FOOTER_COOKIE @ replicate 8 0 @ be_bytes 8 off @ replicate 24 0) @ be_bytes 8 sz @ replicate 4 0 @ be_bytes 4 d @ replicate 448 0"
    "vhd_footer d off sz = (VHD_FOOTER_COOKIE @ replicate 8 0 @ be_bytes 8 off @ replicate 24 0 @ be_bytes 8 sz @ replicate 4 0) @ be_bytes 4 d @ replicate 448 0"
    by (simp_all add: vhd_footer_def)
  show "length (vhd_footer d off sz) = 512" "slice (vhd_footer d off sz) 0 8 = Inr VHD_FOOTER_COOKIE"
    by (simp_all add: vhd_footer_def slice_def)
  show "be_field (vhd_footer d off sz) 16 8 = Inr off" unfolding f(1) by (rule be_field_append) simp_all
  show "be_field (vhd_footer d off sz) 48 8 = Inr sz" unfolding f(2) by (rule be_field_append) simp_all
  show "be_field (vhd_footer d off sz) 60 4 = Inr d" unfolding f(3) by (rule be_field_append) simp_all
qed

lemma sint_nonneg: "unat (w :: ULONG64) < 2 ^ 63 \<Longrightarrow> sint w = int (unat w)"
proof -
  assume "unat w < 2 ^ 63"
  then have "int (unat w) < int (2 ^ 63)" by (simp only: of_nat_less_iff)
  then have u: "uint w < 2 ^ 63" by (simp only: uint_nat of_nat_power of_nat_numeral)
  have "- (2 ^ 63) \<le> uint w" by (rule order_trans [of _ 0]) simp_all
  then have "signed_take_bit 63 (uint w) = uint w" using u by (rule signed_take_bit_int_eq_self)
  then show ?thesis by (simp add: sint_uint)
qed

lemma read_at_file_of:
  "unat off < 2 ^ 63 \<Longrightarrow> read_at (file_of bytes) off n = Inr (take n (drop (unat off) bytes))"
  by (simp add: read_at_def sint_nonneg file_of_def)

text \<open>The footer of an image file is its last 512 bytes.\<close>

lemma VhdInitialize_footer:
  assumes "length body < 2 ^ 62" and "d \<in> {2, 3}"
  shows "VhdInitializeHardDisk env (Some (file_of (body @ vhd_footer d off sz))) s =
    bindE (let t = s\<lparr>vhdImage := VHDIMAGE_zero\<lparr>vhd_hFile := Some (file_of (body @ vhd_footer d off sz)),
             cbSize := of_nat (length body + 512)\<rparr>\<rparr>
           in if d = 2 then Inr (upd_vhd (\<lambda>v. v\<lparr>uImageFlags := VD_IMAGE_FLAGS_FIXED\<rparr>) t)
              else VhdLoadDynamicDisk env (file_of (body @ vhd_footer d off sz)) off t)
      (\<lambda>t. Inr (upd_vhd (\<lambda>v. v\<lparr>cbSize := sz, LCHSGeometry := GEOMETRY_zero, PCHSGeometry := GEOMETRY_zero, u64DataOffset := off\<rparr>) t))"
proof -
  let ?f = "file_of (body @ vhd_footer d off sz)"
  have sz: "fsize ?f = of_nat (length body + 512)" by (simp add: file_of_def vhd_footer_fields)
  have u: "unat (of_nat (length body + 512) :: ULONG64) = length body + 512" using assms(1) by (simp add: unat_of_nat del: of_nat_add)
  then have s1: "\<not> fsize ?f < 512" unfolding sz by (simp add: word_less_nat_alt del: of_nat_add)
  have o: "unat (fsize ?f - 512) = length body" unfolding sz using u by (subst unat_sub64) (simp_all add: word_le_nat_alt del: of_nat_add)
  have r: "read_at ?f (fsize ?f - 512) 512 = Inr (vhd_footer d off sz)"
    using assms(1) o by (subst read_at_file_of) (simp_all add: vhd_footer_fields)
  have g: "be_field (vhd_footer d off sz) 56 2 = Inr (0 :: 16 word)" "arr_get (vhd_footer d off sz) 58 = Inr 0" "arr_get (vhd_footer d off sz) 59 = Inr 0"
  proof -
    have "take 4 (drop 56 (vhd_footer d off sz)) = replicate 4 0" by (simp add: vhd_footer_def)
    then have t: "drop 56 (vhd_footer d off sz) ! i = 0" if "i < 4" for i
      using that by (metis nth_replicate nth_take)
    have n: "vhd_footer d off sz ! (56 + i) = 0" if "i < 4" for i
      using t [OF that] vhd_footer_fields(1) by simp
    have "take 2 (drop 56 (vhd_footer d off sz)) = replicate 2 0"
      by (rule nth_equalityI) (use t in \<open>simp_all add: vhd_footer_fields\<close>)
    then show "be_field (vhd_footer d off sz) 56 2 = Inr (0 :: 16 word)"
      by (simp add: be_field_def slice_def vhd_footer_fields be_word_def numeral_2_eq_2)
    show "arr_get (vhd_footer d off sz) 58 = Inr 0" "arr_get (vhd_footer d off sz) 59 = Inr 0"
      using n [of 2] n [of 3] by (simp_all add: vhd_footer_fields)
  qed
  show ?thesis using assms(2) s1 r g
    by (auto simp: VhdInitializeHardDisk_def vhd_footer_fields sz VHDIMAGE_zero_def upd_vhd_def GEOMETRY_zero_def)
qed

text \<open>Opening a fixed image gives back the disk it was made from: the size is that of the data, and a
  read of any sector returns the bytes of that sector.\<close>

theorem vhd_fixed_roundtrip:
  assumes "length data < 2 ^ 62"
  shows "\<exists>t. VhdInitializeHardDisk env (Some (file_of (data @ vhd_footer 2 off (of_nat (length data))))) s = Inr t \<and>
    VhdGetHardDiskSize t = of_nat (length data) \<and>
    (\<forall>k. 512 * k + 512 \<le> length data \<longrightarrow>
      VhdRead (VhdSeek (of_nat (512 * k)) t) 512 = Inr (take 512 (drop (512 * k) data)))"
proof -
  let ?f = "file_of (data @ vhd_footer 2 off (of_nat (length data)))"
  obtain t where t: "VhdInitializeHardDisk env (Some ?f) s = Inr t" "cbSize (vhdImage t) = of_nat (length data)"
    "vhd_hFile (vhdImage t) = Some ?f" "pBlockAllocationTable (vhdImage t) = None"
    by (simp add: VhdInitialize_footer [OF assms] upd_vhd_def VHDIMAGE_zero_def)
  have "VhdRead (VhdSeek (of_nat (512 * k)) t) 512 = Inr (take 512 (drop (512 * k) data))" if k: "512 * k + 512 \<le> length data" for k
  proof -
    have u: "unat (of_nat (512 * k) :: ULONG64) = 512 * k" using assms k by (simp add: unat_of_nat del: of_nat_mult)
    have "read_at ?f (of_nat (512 * k)) 512 = Inr (take 512 (drop (512 * k) data))"
      using assms k u by (subst read_at_file_of) (simp_all del: of_nat_mult)
    then show ?thesis using t(3,4) by (simp add: VhdRead_def VhdSeek_def upd_vhd_def)
  qed
  then show ?thesis using t(1,2) by (auto simp: VhdGetHardDiskSize_def)
qed

theorem vhd_fixed_roundtrip_witness:
  "\<exists>t. VhdInitializeHardDisk (\<lambda>_ _. True) (Some (file_of (replicate 1024 7 @ vhd_footer 2 0 1024))) vhd_zero = Inr t \<and>
    VhdRead (VhdSeek 512 t) 512 = Inr (replicate 512 7)"
proof -
  have "length (replicate 1024 7 :: BYTE list) < 2 ^ 62" by simp
  from vhd_fixed_roundtrip [OF this, of "\<lambda>_ _. True" 0 vhd_zero] obtain t where
    "VhdInitializeHardDisk (\<lambda>_ _. True) (Some (file_of (replicate 1024 7 @ vhd_footer 2 0 1024))) vhd_zero = Inr t"
    "VhdRead (VhdSeek (of_nat (512 * 1)) t) 512 = Inr (take 512 (drop (512 * 1) (replicate 1024 7)))" by auto
  then show ?thesis by simp
qed

section \<open>Dynamic images\<close>

text \<open>
  A dynamic image of blocks of \<open>spb\<close> sectors: the header, the block allocation table, padding up to
  sector \<open>base\<close>, every block preceded by its sector bitmap, and the footer.
\<close>

definition vhd_header :: "32 word \<Rightarrow> 32 word \<Rightarrow> BYTE list" where
  "vhd_header entries blockSize =
     VHD_DYNAMIC_DISK_HEADER_COOKIE @ replicate 8 0xff @ be_bytes 8 (1024 :: ULONG64) @ replicate 4 0 @ be_bytes 4 entries @
     be_bytes 4 blockSize @ replicate 988 0"

definition bitmap_sectors :: "nat \<Rightarrow> nat" where
  "bitmap_sectors spb = (spb div 8 + 511) div 512"

definition vhd_bat :: "nat \<Rightarrow> nat \<Rightarrow> nat \<Rightarrow> 32 word list" where
  "vhd_bat spb base n = map (\<lambda>i. of_nat (base + i * (bitmap_sectors spb + spb))) [0 ..< n]"

definition vhd_block :: "nat \<Rightarrow> BYTE list \<Rightarrow> BYTE list" where
  "vhd_block spb bk = replicate (512 * bitmap_sectors spb) 0xff @ bk"

definition vhd_body :: "nat \<Rightarrow> nat \<Rightarrow> BYTE list list \<Rightarrow> BYTE list" where
  "vhd_body spb base blocks =
     vhd_header (of_nat (length blocks)) (of_nat (512 * spb)) @
     concat (map (be_bytes 4) (vhd_bat spb base (length blocks))) @
     replicate (512 * base - (1024 + 4 * length blocks)) 0 @
     concat (map (vhd_block spb) blocks)"

definition vhd_dynamic :: "nat \<Rightarrow> nat \<Rightarrow> BYTE list list \<Rightarrow> BYTE list" where
  "vhd_dynamic spb base blocks = vhd_body spb base blocks @ vhd_footer 3 0 (of_nat (512 * spb * length blocks))"

definition vhd_image_ok :: "nat \<Rightarrow> nat \<Rightarrow> BYTE list list \<Rightarrow> bool" where
  "vhd_image_ok spb base blocks \<longleftrightarrow> 0 < spb \<and> spb < 2 ^ 23 \<and> 4 * length blocks < 2 ^ 32 \<and>
     1024 + 4 * length blocks \<le> 512 * base \<and>
     base + length blocks * (bitmap_sectors spb + spb) < 2 ^ 32 - 1 \<and>
     (\<forall>bk \<in> set blocks. length bk = 512 * spb)"

lemma concat_uniform:
  "(\<forall>x \<in> set xs. length x = L) \<Longrightarrow> i < length xs \<Longrightarrow> drop (i * L) (concat xs) = xs ! i @ drop (Suc i * L) (concat xs)"
proof (induction xs arbitrary: i)
  case Nil
  then show ?case by simp
next
  case (Cons x xs)
  then show ?case by (cases i) (simp_all add: add.assoc)
qed

lemma length_concat_uniform: "(\<forall>x \<in> set xs. length x = L) \<Longrightarrow> length (concat xs) = length xs * L"
  by (induction xs) simp_all

lemma vhd_header_fields:
  "length (vhd_header n b) = 1024" "slice (vhd_header n b) 0 8 = Inr VHD_DYNAMIC_DISK_HEADER_COOKIE"
  "be_field (vhd_header n b) 16 8 = Inr (1024 :: ULONG64)" "be_field (vhd_header n b) 28 4 = Inr n" "be_field (vhd_header n b) 32 4 = Inr b"
proof -
  have f: "vhd_header n b = (VHD_DYNAMIC_DISK_HEADER_COOKIE @ replicate 8 0xff) @ be_bytes 8 (1024 :: ULONG64) @ replicate 4 0 @ be_bytes 4 n @ be_bytes 4 b @ replicate 988 0"
    "vhd_header n b = (VHD_DYNAMIC_DISK_HEADER_COOKIE @ replicate 8 0xff @ be_bytes 8 (1024 :: ULONG64) @ replicate 4 0) @ be_bytes 4 n @ be_bytes 4 b @ replicate 988 0"
    "vhd_header n b = (VHD_DYNAMIC_DISK_HEADER_COOKIE @ replicate 8 0xff @ be_bytes 8 (1024 :: ULONG64) @ replicate 4 0 @ be_bytes 4 n) @ be_bytes 4 b @ replicate 988 0"
    by (simp_all add: vhd_header_def)
  show "length (vhd_header n b) = 1024" "slice (vhd_header n b) 0 8 = Inr VHD_DYNAMIC_DISK_HEADER_COOKIE"
    by (simp_all add: vhd_header_def slice_def)
  show "be_field (vhd_header n b) 16 8 = Inr (1024 :: ULONG64)" unfolding f(1) by (rule be_field_append) simp_all
  show "be_field (vhd_header n b) 28 4 = Inr n" unfolding f(2) by (rule be_field_append) simp_all
  show "be_field (vhd_header n b) 32 4 = Inr b" unfolding f(3) by (rule be_field_append) simp_all
qed

lemma bat_of_bytes: "length ws = unat n \<Longrightarrow> bat_of n (concat (map (be_bytes 4) ws)) = ws"
proof -
  assume l: "length ws = unat n"
  have u: "\<forall>x \<in> set (map (be_bytes 4) ws). length x = 4" by auto
  have len: "length (concat (map (be_bytes 4) ws)) = 4 * unat n" using length_concat_uniform [OF u] l by simp
  have "take 4 (drop (4 * i) (concat (map (be_bytes 4) ws))) = be_bytes 4 (ws ! i)" if "i < unat n" for i
    using concat_uniform [OF u, of i] that l by (simp add: mult.commute)
  then show ?thesis using len l by (auto simp: bat_of_def be_word_full intro!: nth_equalityI)
qed

lemma vhd_body_at:
  assumes "vhd_image_ok spb base blocks"
  shows "take 1024 (vhd_dynamic spb base blocks) = vhd_header (of_nat (length blocks)) (of_nat (512 * spb))"
    and "take (4 * length blocks) (drop 1024 (vhd_dynamic spb base blocks)) = concat (map (be_bytes 4) (vhd_bat spb base (length blocks)))"
    and "drop (512 * base) (vhd_dynamic spb base blocks) =
      concat (map (vhd_block spb) blocks) @ vhd_footer 3 0 (of_nat (512 * spb * length blocks))"
proof -
  have l: "length (concat (map (be_bytes 4) (vhd_bat spb base (length blocks)))) = 4 * length blocks"
    using length_concat_uniform [of "map (be_bytes 4) (vhd_bat spb base (length blocks))" 4] by (auto simp: vhd_bat_def)
  have "1024 + 4 * length blocks \<le> 512 * base" using assms by (simp add: vhd_image_ok_def)
  then show "drop (512 * base) (vhd_dynamic spb base blocks) =
      concat (map (vhd_block spb) blocks) @ vhd_footer 3 0 (of_nat (512 * spb * length blocks))"
    using l by (simp add: vhd_dynamic_def vhd_body_def vhd_header_fields)
  show "take 1024 (vhd_dynamic spb base blocks) = vhd_header (of_nat (length blocks)) (of_nat (512 * spb))"
    "take (4 * length blocks) (drop 1024 (vhd_dynamic spb base blocks)) = concat (map (be_bytes 4) (vhd_bat spb base (length blocks)))"
    using l by (simp_all add: vhd_dynamic_def vhd_body_def vhd_header_fields)
qed

text \<open>The bytes of sector \<open>j\<close> of block \<open>i\<close> in the file.\<close>

lemma vhd_sector_at:
  assumes "vhd_image_ok spb base blocks" and "i < length blocks" and "j < spb"
  shows "take 512 (drop (512 * (base + i * (bitmap_sectors spb + spb) + bitmap_sectors spb + j)) (vhd_dynamic spb base blocks)) =
    take 512 (drop (512 * j) (blocks ! i))"
proof -
  let ?B = "bitmap_sectors spb" and ?xs = "map (vhd_block spb) blocks"
  have u: "\<forall>x \<in> set ?xs. length x = 512 * (?B + spb)" using assms(1) by (auto simp: vhd_image_ok_def vhd_block_def)
  have b: "length (blocks ! i) = 512 * spb" using assms(1,2) by (simp add: vhd_image_ok_def)
  have split: "512 * (base + i * (?B + spb) + ?B + j) = 512 * base + (i * (512 * (?B + spb)) + (512 * ?B + 512 * j))"
    by (simp add: algebra_simps)
  have drop3: "drop (a + (b + c)) ys = drop c (drop b (drop a ys))" for a b c and ys :: "BYTE list" by (simp add: ac_simps)
  have "i * (512 * (?B + spb)) \<le> length (concat ?xs)"
    using length_concat_uniform [OF u] assms(2) by simp
  then have "drop (512 * base + (i * (512 * (?B + spb)) + (512 * ?B + 512 * j))) (vhd_dynamic spb base blocks) =
      drop (512 * ?B + 512 * j) (drop (i * (512 * (?B + spb))) (concat ?xs) @ vhd_footer 3 0 (of_nat (512 * spb * length blocks)))"
    unfolding drop3 vhd_body_at(3) [OF assms(1)] by simp
  also have "drop (i * (512 * (?B + spb))) (concat ?xs) = vhd_block spb (blocks ! i) @ drop (Suc i * (512 * (?B + spb))) (concat ?xs)"
    using concat_uniform [OF u, of i] assms(2) by simp
  finally show ?thesis unfolding split using b assms(3) by (simp add: vhd_block_def)
qed

lemma round_up_512: "m div 512 + (if 0 < m mod 512 then 1 else 0) = (m + 511) div (512 :: nat)"
proof (cases "m mod 512 = 0")
  case True
  then obtain k where "m = 512 * k" by (metis mod_0_imp_dvd dvdE)
  then show ?thesis by simp
next
  case False
  define r where "r = m mod 512"
  define q where "q = m div 512"
  have m: "m = 512 * q + r" "r < 512" "0 < r" using False by (simp_all add: r_def q_def)
  then have "(m + 511) div 512 = q + (r + 511) div 512" by (simp add: add.assoc)
  moreover have "(r + 511) div 512 = 1" using m(2,3) by (simp add: div_nat_eqI)
  ultimately show ?thesis using m(3) by (simp add: q_def r_def)
qed

lemma sectors_of_bitmap_nat: "unat (sectors_of_bitmap n) = (unat n + 511) div 512"
proof -
  have lt: "unat n < 2 ^ 32" using unsigned_less [of n, where 'a = nat] by simp
  have d: "unat (n div 512) = unat n div 512" by (simp add: unat_div)
  have m: "(0 < n mod 512) \<longleftrightarrow> 0 < unat n mod 512" by (simp add: word_less_nat_alt unat_mod)
  show ?thesis
  proof (cases "0 < unat n mod 512")
    case True
    have "unat n div 512 + 1 < 2 ^ 32" using lt by simp
    then have "unat (n div 512 + 1) = unat n div 512 + 1" using d by (subst unat_word_ariths(1)) simp
    then show ?thesis using True m round_up_512 [of "unat n"] by (simp add: sectors_of_bitmap_def)
  next
    case False
    then show ?thesis using d m round_up_512 [of "unat n"] by (simp add: sectors_of_bitmap_def)
  qed
qed

lemma vhd_calloc_ok: "(\<And>log r. env log r) \<Longrightarrow> vhd_calloc env k u = Inr (u\<lparr>EnvLog := EnvLog u @ [Calloc k]\<rparr>)"
  by (simp add: vhd_calloc_def ask_env_def)

lemma length_vhd_body:
  assumes "vhd_image_ok spb base blocks"
  shows "length (vhd_body spb base blocks) < 2 ^ 62"
proof -
  have "\<forall>x \<in> set (map (vhd_block spb) blocks). length x = 512 * (bitmap_sectors spb + spb)"
    using assms by (auto simp: vhd_image_ok_def vhd_block_def)
  from length_concat_uniform [OF this] have "length (vhd_body spb base blocks) = 512 * base + length blocks * (512 * (bitmap_sectors spb + spb))"
    using assms length_concat_uniform [of "map (be_bytes 4) (vhd_bat spb base (length blocks))" 4]
    by (auto simp: vhd_body_def vhd_header_fields vhd_image_ok_def vhd_bat_def)
  then show ?thesis using assms by (simp add: vhd_image_ok_def algebra_simps)
qed

text \<open>What the code records of a well-formed dynamic image.\<close>

lemma VhdLoadDynamicDisk_ok:
  assumes ok: "vhd_image_ok spb base blocks" and env: "\<And>log r. env log r"
  obtains t where "VhdLoadDynamicDisk env (file_of (vhd_dynamic spb base blocks)) 0 s = Inr t"
    and "vhd_hFile (vhdImage t) = vhd_hFile (vhdImage s)"
    and "pBlockAllocationTable (vhdImage t) = Some (vhd_bat spb base (length blocks))"
    and "unat (cSectorsPerDataBlock (vhdImage t)) = spb"
    and "unat (cDataBlockBitmapSectors (vhdImage t)) = bitmap_sectors spb"
proof -
  let ?n = "length blocks" and ?f = "file_of (vhd_dynamic spb base blocks)"
  let ?w = "of_nat (512 * spb) :: 32 word" and ?e = "of_nat ?n :: 32 word"
  have o: "0 < spb" "spb < 2 ^ 23" "4 * ?n < 2 ^ 32" using ok by (simp_all add: vhd_image_ok_def)
  have n: "unat ?e = ?n" using o(3) by (simp add: unat_of_nat)
  have "unat ?w = 512 * spb" using o(2) by (simp add: unat_of_nat del: of_nat_mult)
  then have spb: "unat (?w div 512) = spb" by (simp add: unat_div del: of_nat_mult)
  then have bm: "unat (sectors_of_bitmap (?w div 512 div 8)) = bitmap_sectors spb"
    by (simp add: unat_div sectors_of_bitmap_nat bitmap_sectors_def del: of_nat_mult)
  have r1: "read_at ?f 0 1024 = Inr (vhd_header ?e ?w)"
    using vhd_body_at(1) [OF ok] by (subst read_at_file_of) simp_all
  have r2: "read_at ?f 1024 (4 * unat ?e mod 4294967296) = Inr (concat (map (be_bytes 4) (vhd_bat spb base ?n)))"
    using vhd_body_at(2) [OF ok] o(3) n by (subst read_at_file_of) simp_all
  have bat: "bat_of ?e (concat (map (be_bytes 4) (vhd_bat spb base ?n))) = vhd_bat spb base ?n"
    by (rule bat_of_bytes) (simp add: n vhd_bat_def)
  have m: "\<not> 4294967294 < unat ?e" using o(3) unfolding n by simp
  show thesis
  proof (rule that)
    show "VhdLoadDynamicDisk env ?f 0 s = Inr (s\<lparr>EnvLog := EnvLog s @ [Calloc (unat (?w div 512 div 8 + 8)), Calloc (4 * unat ?e)],
        vhdImage := (vhdImage s)\<lparr>cbDataBlock := ?w, cBlockAllocationTableEntries := ?e, cSectorsPerDataBlock := ?w div 512,
                 cbDataBlockBitmap := ?w div 512 div 8, cDataBlockBitmapSectors := sectors_of_bitmap (?w div 512 div 8),
                 uBlockAllocationTableOffset := 1024, pBlockAllocationTable := Some (vhd_bat spb base ?n)\<rparr>\<rparr>)"
      unfolding VhdLoadDynamicDisk_def r1 Let_def
      by (simp add: vhd_header_fields m vhd_calloc_ok [OF env] r2 bat upd_vhd_def del: of_nat_mult)
  qed (simp_all add: spb bm del: of_nat_mult)
qed

lemma VhdInitialize_dynamic:
  assumes ok: "vhd_image_ok spb base blocks" and env: "\<And>log r. env log r"
  obtains t where "VhdInitializeHardDisk env (Some (file_of (vhd_dynamic spb base blocks))) s = Inr t"
    and "cbSize (vhdImage t) = of_nat (512 * spb * length blocks)"
    and "vhd_hFile (vhdImage t) = Some (file_of (vhd_dynamic spb base blocks))"
    and "pBlockAllocationTable (vhdImage t) = Some (vhd_bat spb base (length blocks))"
    and "unat (cSectorsPerDataBlock (vhdImage t)) = spb"
    and "unat (cDataBlockBitmapSectors (vhdImage t)) = bitmap_sectors spb"
proof -
  let ?f = "file_of (vhd_dynamic spb base blocks)"
  let ?s = "s\<lparr>vhdImage := VHDIMAGE_zero\<lparr>vhd_hFile := Some ?f, cbSize := of_nat (length (vhd_body spb base blocks) + 512)\<rparr>\<rparr>"
  obtain u where u: "VhdLoadDynamicDisk env ?f 0 ?s = Inr u" "vhd_hFile (vhdImage u) = Some ?f"
    "pBlockAllocationTable (vhdImage u) = Some (vhd_bat spb base (length blocks))"
    "unat (cSectorsPerDataBlock (vhdImage u)) = spb" "unat (cDataBlockBitmapSectors (vhdImage u)) = bitmap_sectors spb"
    by (rule VhdLoadDynamicDisk_ok [OF ok env, where s = ?s]) simp
  have e: "(3 :: 32 word) \<in> {2, 3}" "(3 :: 32 word) \<noteq> 2" by simp_all
  have "VhdInitializeHardDisk env (Some ?f) s = Inr (upd_vhd (\<lambda>v. v\<lparr>cbSize := of_nat (512 * spb * length blocks),
        LCHSGeometry := GEOMETRY_zero, PCHSGeometry := GEOMETRY_zero, u64DataOffset := 0\<rparr>) u)"
    unfolding VhdInitialize_footer [OF length_vhd_body [OF ok] e(1), of env 0 "of_nat (512 * spb * length blocks)", folded vhd_dynamic_def]
      Let_def if_not_P [OF e(2)] u(1) by simp
  from this show thesis by (rule that) (use u in \<open>simp_all add: upd_vhd_def\<close>)
qed

text \<open>Locating a sector: the block of the table, the sectors of the bitmap, the sector in the block.\<close>

lemma VhdRead_dynamic:
  assumes ok: "vhd_image_ok spb base blocks" and k: "k < length blocks * spb"
    and t: "vhd_hFile (vhdImage t) = Some (file_of (vhd_dynamic spb base blocks))"
      "pBlockAllocationTable (vhdImage t) = Some (vhd_bat spb base (length blocks))"
      "unat (cSectorsPerDataBlock (vhdImage t)) = spb" "unat (cDataBlockBitmapSectors (vhdImage t)) = bitmap_sectors spb"
  shows "VhdRead (VhdSeek (of_nat (512 * k)) t) 512 = Inr (take 512 (drop (512 * (k mod spb)) (blocks ! (k div spb))))"
proof -
  let ?i = "k div spb" and ?j = "k mod spb" and ?B = "bitmap_sectors spb"
  let ?spb = "cSectorsPerDataBlock (vhdImage t)" and ?bs = "cDataBlockBitmapSectors (vhdImage t)"
  let ?sector = "(of_nat (512 * k) :: ULONG64) div 512"
  have o: "0 < spb" "spb < 2 ^ 23" "base + length blocks * (?B + spb) < 2 ^ 32 - 1" using ok by (simp_all add: vhd_image_ok_def)
  have i: "?i < length blocks" "?j < spb" using k o(1) by (simp_all add: less_mult_imp_div_less)
  have "length blocks * spb \<le> length blocks * (?B + spb)" by simp
  then have k32: "k < 2 ^ 32" using k o(3) by linarith
  have "unat (of_nat (512 * k) :: ULONG64) = 512 * k" using k32 by (simp add: unat_of_nat del: of_nat_mult)
  then have sec: "unat ?sector = k" by (simp add: unat_div del: of_nat_mult)
  have lt: "base + ?i * (?B + spb) + ?B + ?j < base + length blocks * (?B + spb)"
  proof -
    have "Suc ?i * (?B + spb) \<le> length blocks * (?B + spb)" using i(1) by (intro mult_le_mono1) simp
    then show ?thesis using i(2) by simp
  qed
  have ent: "unat (ucast (?sector div ucast ?spb) :: DWORD) = ?i" "unat (ucast (?sector mod ucast ?spb) :: DWORD) = ?j"
    using sec t(3) k32 o(2) i(2) order.strict_trans1 [OF div_le_dividend [of k spb] k32]
    by (simp_all add: unsigned_ucast_eq unat_div unat_mod take_bit_nat_eq_self del: of_nat_mult)
  let ?b = "of_nat (base + ?i * (?B + spb)) :: 32 word"
  have bat: "vhd_bat spb base (length blocks) ! ?i = ?b" using i(1) by (simp add: vhd_bat_def)
  have b: "unat ?b = base + ?i * (?B + spb)" using lt o(3) by (simp add: unat_of_nat del: of_nat_add of_nat_mult)
  then have nb: "?b \<noteq> 0xffffffff" using lt o(3) by auto
  have l: "length (vhd_bat spb base (length blocks)) = length blocks" by (simp add: vhd_bat_def)
  let ?off = "(ucast ?b + ucast ?bs + ucast (ucast (?sector mod ucast ?spb) :: DWORD)) * 512 :: ULONG64"
  have nat: "(ucast w :: ULONG64) = of_nat (unat w)" for w :: "32 word" by simp
  have off: "?off = of_nat (512 * (base + ?i * (?B + spb) + ?B + ?j))"
    unfolding nat [of ?b] nat [of ?bs] nat [of "ucast (?sector mod ucast ?spb)"] ent b t(4)
    by (simp only: of_nat_add of_nat_mult of_nat_numeral mult.commute)
  have sum: "unat ?off = 512 * (base + ?i * (?B + spb) + ?B + ?j)"
    unfolding off using lt o(3) by (simp add: unat_of_nat del: of_nat_add of_nat_mult)
  have "read_at (file_of (vhd_dynamic spb base blocks)) ?off 512 = Inr (take 512 (drop (512 * ?j) (blocks ! ?i)))"
    unfolding vhd_sector_at [OF ok i, symmetric] sum [symmetric] using lt o(3) sum by (intro read_at_file_of) simp
  moreover have "?spb \<noteq> 0" using t(3) o(1) by auto
  ultimately show ?thesis using i(1)
    by (simp add: VhdRead_def VhdSeek_def upd_vhd_def Let_def t(1,2) nb ent(1) bat l del: of_nat_mult of_nat_add)
qed

lemma concat_sector:
  assumes "\<forall>bk \<in> set blocks. length bk = 512 * spb" and "k < length blocks * spb"
  shows "take 512 (drop (512 * (k mod spb)) (blocks ! (k div spb))) = take 512 (drop (512 * k) (concat blocks))"
proof -
  have s: "0 < spb" using assms(2) by (cases spb) simp_all
  have i: "k div spb < length blocks" "k mod spb < spb" using assms(2) s by (simp_all add: less_mult_imp_div_less)
  have k: "512 * k = (k div spb) * (512 * spb) + 512 * (k mod spb)"
    by (metis add.commute add_mult_distrib2 mod_mult_div_eq mult.assoc mult.commute)
  have "drop (512 * k) (concat blocks) = drop (512 * (k mod spb)) (drop (k div spb * (512 * spb)) (concat blocks))"
    unfolding k by (simp add: add.commute)
  also have "\<dots> = drop (512 * (k mod spb)) (blocks ! (k div spb) @ drop (Suc (k div spb) * (512 * spb)) (concat blocks))"
    using concat_uniform [OF assms(1) i(1)] by simp
  finally show ?thesis using assms(1) i by simp
qed



text \<open>A block that is not allocated reads as zeros by the format; the code ends the process instead.\<close>

lemma VhdRead_unallocated:
  assumes "vhd_hFile (vhdImage t) = Some f" and "pBlockAllocationTable (vhdImage t) = Some bat"
    and "cSectorsPerDataBlock (vhdImage t) \<noteq> 0"
    and "unat (ucast (off div 512 div ucast (cSectorsPerDataBlock (vhdImage t))) :: DWORD) = i"
    and "i < length bat" and "bat ! i = 0xffffffff"
  shows "VhdRead (VhdSeek off t) n = Inl Exit"
  using assms by (auto simp: VhdRead_def VhdSeek_def upd_vhd_def Let_def)

end
