(* ===== verification/Cdrom.thy ===== *)
theory Cdrom
  imports Vhd
begin

text \<open>
  The CD-ROM image of \<open>cdrom.c\<close>: the image file with its file pointer (\<open>SetFilePointer\<close> moves it, every read
  advances it), the capacity in blocks of 2048 bytes, reading a block in cooked or raw form, and the table of
  contents. A call on a handle that was never opened fails, which leaves the number of bytes read at 0.
\<close>

section \<open>State\<close>

record CDROM =
  cd_hFile :: "host_file option"
  Capacity :: ULONG64
  FilePointer :: ULONG64

record cdrom_state = vhd_state +
  CdRom :: CDROM

definition CDROM_zero :: CDROM where
  "CDROM_zero = \<lparr>cd_hFile = None, Capacity = 0, FilePointer = 0\<rparr>"

definition cdrom_zero :: cdrom_state where
  "cdrom_zero = vhd_state.extend vhd_zero (cdrom_state.fields CDROM_zero)"

definition CDROM_FRAMESIZE :: DWORD where "CDROM_FRAMESIZE = 2048"

section \<open>Operations\<close>

definition CdRomInitialize :: "host_file option \<Rightarrow> 'z cdrom_state_scheme \<Rightarrow> 'z cdrom_state_scheme res" where
  "CdRomInitialize file s =
     (case file of
        None \<Rightarrow> Inl Exit
      | Some f \<Rightarrow> Inr (s\<lparr>CdRom := \<lparr>cd_hFile = Some f, Capacity = fsize f div 2048, FilePointer = 0\<rparr>\<rparr>))"

definition CdRomGetCapacity :: "'z cdrom_state_scheme \<Rightarrow> ULONG64" where
  "CdRomGetCapacity s = Capacity (CdRom s)"

text \<open>
  The distance of \<open>SetFilePointer\<close> is a signed 32-bit number: a negative one from the start of the file is
  refused and leaves the pointer.
\<close>

definition cd_set_pointer :: "DWORD \<Rightarrow> CDROM \<Rightarrow> CDROM" where
  "cd_set_pointer distance c =
     (if cd_hFile c = None \<or> sint distance < 0 then c else c\<lparr>FilePointer := ucast distance\<rparr>)"

definition cd_read :: "nat \<Rightarrow> CDROM \<Rightarrow> BYTE list \<times> CDROM" where
  "cd_read n c =
     (case cd_hFile c of
        None \<Rightarrow> ([], c)
      | Some f \<Rightarrow>
          (case fread f (FilePointer c) n of
             None \<Rightarrow> ([], c)
           | Some bs \<Rightarrow> (take n bs, c\<lparr>FilePointer := FilePointer c + of_nat (length (take n bs))\<rparr>)))"

text \<open>Minutes, seconds and frames of a block, as the bytes they are stored in.\<close>

definition msf :: "DWORD \<Rightarrow> BYTE list" where
  "msf lb = [ucast ((lb + 150) div 75 div 60), ucast ((lb + 150) div 75 mod 60), ucast ((lb + 150) mod 75)]"

text \<open>The start of a raw block: the sync pattern and the header; the rest of the 2352 bytes is cleared.\<close>

definition raw_block :: "DWORD \<Rightarrow> BYTE list" where
  "raw_block lb = [0] @ replicate 10 0xff @ [0] @ msf lb @ [0x01] @ replicate 2336 0"

text \<open>
  The result is \<open>ret\<close> and what is stored at the start of \<open>Buffer\<close> (the raw frame first, then the bytes read,
  16 bytes further on for a raw block).
\<close>

definition CdRomReadBlock ::
  "DWORD \<Rightarrow> DWORD \<Rightarrow> 'z cdrom_state_scheme \<Rightarrow> DWORD \<times> BYTE list \<times> 'z cdrom_state_scheme" where
  "CdRomReadBlock LbAddress BufferSize s =
     (case cd_read 2048 (cd_set_pointer (LbAddress * CDROM_FRAMESIZE) (CdRom s)) of
        (bs, c) \<Rightarrow>
          (of_nat (length bs),
           if BufferSize = 2352 then take 16 (raw_block LbAddress) @ bs @ drop (16 + length bs) (raw_block LbAddress) else bs,
           s\<lparr>CdRom := c\<rparr>))"

definition be32 :: "DWORD \<Rightarrow> BYTE list" where
  "be32 w = [ucast (drop_bit 24 w), ucast (drop_bit 16 w), ucast (drop_bit 8 w), ucast w]"

definition toc_address :: "bool \<Rightarrow> DWORD \<Rightarrow> BYTE list" where
  "toc_address Msf blocks = (if Msf then 0 # msf blocks else be32 blocks)"

definition toc_length :: "BYTE list \<Rightarrow> BYTE list" where
  "toc_length body = (let len = (of_nat (length body + 4) :: DWORD) - 2 in [ucast (drop_bit 8 len), ucast len])"

definition toc_entry :: "DWORD \<Rightarrow> bool \<Rightarrow> nat \<Rightarrow> BYTE list" where
  "toc_entry blocks Msf i =
     [1, 0x14, 0, if i < 3 then 0xa0 + of_nat i else 1, 0, 0, 0] @
     (if i < 2 then [0, 1, 0, 0] else if i = 2 then toc_address Msf blocks else [0, 0, 0, 0])"

text \<open>The returned length (0 is a refusal) and the bytes stored at the start of \<open>Buffer\<close>.\<close>

definition CdRomReadToc :: "DWORD \<Rightarrow> bool \<Rightarrow> BYTE \<Rightarrow> BYTE \<Rightarrow> 'z cdrom_state_scheme \<Rightarrow> DWORD \<times> BYTE list" where
  "CdRomReadToc Length Msf StartTrack Format s =
     (let blocks = ucast (CdRomGetCapacity s)
      in if Format = 0
         then if StartTrack > 1 \<and> StartTrack \<noteq> 0xaa then (0, [])
              else let body = (if StartTrack \<le> 1 then [0, 0x14, 1, 0] @ (if Msf then [0, 0, 2, 0] else [0, 0, 0, 0]) else []) @
                              [0, 0x16, 0xaa, 0] @ toc_address Msf blocks
                   in (Length, toc_length body @ [1, 1] @ body)
         else if Format = 1 then (Length, [0, 0x0a, 1, 1] @ replicate 8 0)
         else if Format = 2
         then let body = concat (map (toc_entry blocks Msf) [0 ..< 4]) in (Length, toc_length body @ [1, 1] @ body)
         else (0, []))"

definition CdRomSeek :: "DWORD \<Rightarrow> 'z cdrom_state_scheme \<Rightarrow> 'z cdrom_state_scheme" where
  "CdRomSeek LbAddress s = s\<lparr>CdRom := cd_set_pointer (LbAddress * CDROM_FRAMESIZE) (CdRom s)\<rparr>"

section \<open>Properties\<close>

lemma length_toc [simp]:
  "length (msf lb) = 3" "length (be32 w) = 4" "length (toc_address m w) = 4" "length (toc_length b) = 2"
  "length (toc_entry w m i) = 11" "length (raw_block lb) = 2352"
  by (simp_all add: msf_def be32_def toc_address_def toc_length_def Let_def toc_entry_def raw_block_def)

lemma CdRomReadToc_length: "length (snd (CdRomReadToc n m t f s)) \<le> 48"
proof -
  have "length (concat (map (toc_entry b m) [0 ..< 4])) = 44" for b
    using length_concat_uniform [of "map (toc_entry b m) [0 ..< 4]" 11] by auto
  then show ?thesis by (simp add: CdRomReadToc_def Let_def)
qed

lemma CdRomReadBlock_length: "length (fst (snd (CdRomReadBlock lb n s))) \<le> (if n = 2352 then 2352 else 2048)"
proof -
  obtain bs c where r: "cd_read 2048 (cd_set_pointer (lb * CDROM_FRAMESIZE) (CdRom s)) = (bs, c)" by fastforce
  then have "length bs \<le> 2048" by (auto simp: cd_read_def split: option.splits)
  then show ?thesis using r by (simp add: CdRomReadBlock_def)
qed

text \<open>A drive without an image reads nothing.\<close>

lemma CdRomReadBlock_closed: "cd_hFile (CdRom s) = None \<Longrightarrow> fst (CdRomReadBlock lb n s) = 0"
  by (simp add: CdRomReadBlock_def cd_set_pointer_def cd_read_def)

text \<open>Reading a block of an image of fewer than \<open>2 ^ 20\<close> blocks returns its 2048 bytes.\<close>

lemma CdRomReadBlock_image:
  assumes "CdRomInitialize (Some (file_of data)) s = Inr t" and "length data < 2 ^ 31" and "2048 * unat lb + 2048 \<le> length data"
    and "n \<noteq> 2352"
  shows "\<exists>u. CdRomReadBlock lb n t = (2048, take 2048 (drop (2048 * unat lb) data), u)"
proof -
  have u: "unat (lb * CDROM_FRAMESIZE) = 2048 * unat lb"
    using assms(2,3) by (simp add: CDROM_FRAMESIZE_def unat_word_ariths)
  then have "\<not> bit (lb * CDROM_FRAMESIZE) 31" using bit_imp_ge [of "lb * CDROM_FRAMESIZE" 31] assms(2,3) by auto
  then have "\<not> sint (lb * CDROM_FRAMESIZE) < 0" by (simp add: sint_uint bit_uint_iff)
  then show ?thesis using assms u by (auto simp: CdRomInitialize_def CdRomReadBlock_def cd_set_pointer_def cd_read_def file_of_def unat_ucast_up)
qed

end
