(* ===== verification/Ide_Regs.thy ===== *)
theory Ide_Regs
  imports Cdrom
begin

text \<open>
  The registers of the bus-master IDE controller (\<open>ide.c\<close>, the first half): the two channels, the ports of
  base address register 4, the PCI configuration handlers, and the three calls the drives make on the
  controller. The transfer engine, which calls the drives, is in \<open>Ide\<close>.
\<close>

section \<open>State\<close>

record BMDMA =
  bm_Command :: DWORD
  bm_Status :: DWORD
  PrdTable :: DWORD
  PrdCurrent :: DWORD
  bm_Buffer :: "BYTE list option"
  DataReady :: BYTE
  BufferOffset :: DWORD

record ide_state = cdrom_state +
  bmdma :: "nat \<Rightarrow> BMDMA"

definition BMDMA_zero :: BMDMA where
  "BMDMA_zero = \<lparr>bm_Command = 0, bm_Status = 0, PrdTable = 0, PrdCurrent = 0, bm_Buffer = None, DataReady = 0, BufferOffset = 0\<rparr>"

definition ide_zero :: ide_state where
  "ide_zero = cdrom_state.extend cdrom_zero (ide_state.fields (\<lambda>_. BMDMA_zero))"

definition IDE_BDMA_COMMAND_START :: DWORD where "IDE_BDMA_COMMAND_START = lsh1 0"
definition IDE_BDMA_COMMAND_WRITE :: DWORD where "IDE_BDMA_COMMAND_WRITE = lsh1 3"
definition IDE_STATUS_ACTIVE :: DWORD where "IDE_STATUS_ACTIVE = lsh1 0"
definition IDE_STATUS_START :: DWORD where "IDE_STATUS_START = lsh1 4"
definition IDE_BUFFER_SIZE :: nat where "IDE_BUFFER_SIZE = 0x20000"
definition IDE_PORT_MASK :: ULONG64 where "IDE_PORT_MASK = 0xeaea"
definition ide_df :: ULONG where "ide_df = BX_PCI_DEVICE 1 1"

definition upd_bm :: "nat \<Rightarrow> (BMDMA \<Rightarrow> BMDMA) \<Rightarrow> 'z ide_state_scheme \<Rightarrow> 'z ide_state_scheme" where
  "upd_bm ch f s = s\<lparr>bmdma := (bmdma s)(ch := f (bmdma s ch))\<rparr>"

section \<open>Calls from the drives\<close>

definition IdeBdmaPresent :: "'z ide_state_scheme \<Rightarrow> DWORD res" where
  "IdeBdmaPresent s = bindE (get_bar s 0 (ucast ide_df) 4) (\<lambda>b. Inr (bar_addr b))"

definition IdeStartTransfer :: "nat \<Rightarrow> 'z ide_state_scheme \<Rightarrow> 'z ide_state_scheme" where
  "IdeStartTransfer ch s = (if ch < 2 then upd_bm ch (\<lambda>b. b\<lparr>DataReady := 1\<rparr>) s else s)"

definition IdeSetIrq :: "nat \<Rightarrow> 'z ide_state_scheme \<Rightarrow> 'z ide_state_scheme" where
  "IdeSetIrq ch s = (if ch < 2 then upd_bm ch (\<lambda>b. b\<lparr>bm_Status := bm_Status b OR 0x4\<rparr>) s else s)"

section \<open>Configuration space\<close>

definition IdePciConfReadHandler :: "ULONG64 \<Rightarrow> ULONG \<Rightarrow> ULONG" where
  "IdePciConfReadHandler address len = 0"

text \<open>
  The handler gets a pointer to the entry of the device it runs for and indexes from there once more: it
  writes to the entry nine places further on in the table of 256 buses of 256 devices.
\<close>

definition ide_conf_target :: "BYTE \<Rightarrow> BYTE \<Rightarrow> (BYTE \<times> BYTE) res" where
  "ide_conf_target bus df =
     (let i = 256 * unat bus + unat df + unat ide_df
      in if i < 65536 then Inr (of_nat (i div 256), of_nat (i mod 256)) else Inl OutOfBounds)"

definition IdePciConfWriteHandler ::
  "BYTE \<Rightarrow> BYTE \<Rightarrow> BYTE \<Rightarrow> ULONG \<Rightarrow> ULONG \<Rightarrow> 'z ide_state_scheme \<Rightarrow> 'z ide_state_scheme res" where
  "IdePciConfWriteHandler bus df address val len s =
     (if 0x10 \<le> address \<and> address < 0x20 \<or> 0x23 < address \<and> address < 0x40 then Inr s
      else foldE (\<lambda>i s.
             if 32 \<le> i * 8 then Inl BadShift
             else let value8 = (ucast (drop_bit (i * 8) val AND 0xff) :: BYTE); n = unat address + i
                  in if n = 0x05 \<or> n = 0x06 then Inr s
                     else bindE (ide_conf_target bus df) (\<lambda>(b, d).
                          set_conf b d n (if n = 0x04 then value8 AND 0x5 else value8) s))
             [0 ..< unat len] s)"

section \<open>Ports\<close>

text \<open>The offset from the base address, cut to a byte: the channel in its upper bits, the register in the lower.\<close>

definition ide_offset :: "ULONG \<Rightarrow> 'z ide_state_scheme \<Rightarrow> BYTE res" where
  "ide_offset address s = bindE (get_bar s 0 (ucast ide_df) 4) (\<lambda>b. Inr (ucast (address - bar_addr b)))"

definition ide_channel :: "BYTE \<Rightarrow> nat res" where
  "ide_channel offset = (let ch = unat (drop_bit 3 offset) in if ch < 2 then Inr ch else Inl OutOfBounds)"

definition IdePortIoWriteHandler ::
  "ULONG \<Rightarrow> ULONG \<Rightarrow> ULONG \<Rightarrow> 'z ide_state_scheme \<Rightarrow> 'z ide_state_scheme res" where
  "IdePortIoWriteHandler address val len s =
     bindE (ide_offset address s) (\<lambda>offset.
     let reg = offset AND 0x07
     in if reg = 0x00
        then bindE (ide_channel offset) (\<lambda>ch.
             let b = bmdma s ch
             in if testw val IDE_BDMA_COMMAND_START \<and> \<not> testw (bm_Command b) IDE_BDMA_COMMAND_START
                then Inr (upd_bm ch (\<lambda>b. b\<lparr>bm_Command := val, bm_Status := bm_Status b OR IDE_STATUS_ACTIVE,
                            PrdCurrent := PrdTable b, BufferOffset := 0\<rparr>) s)
                else if \<not> testw val IDE_BDMA_COMMAND_START \<and> testw (bm_Command b) IDE_BDMA_COMMAND_START
                then Inr (upd_bm ch (\<lambda>b. b\<lparr>bm_Command := val, bm_Status := bm_Status b AND NOT IDE_STATUS_ACTIVE\<rparr>) s)
                else Inr s)
        else if reg = 0x02
        then bindE (ide_channel offset) (\<lambda>ch.
             Inr (upd_bm ch (\<lambda>b. b\<lparr>bm_Status := (val AND 0x60) OR (bm_Status b AND IDE_STATUS_ACTIVE) OR
                    (bm_Status b AND (NOT val AND 0x06))\<rparr>) s))
        else if reg = 0x04
        then bindE (ide_channel offset) (\<lambda>ch. Inr (upd_bm ch (\<lambda>b. b\<lparr>PrdTable := val AND 0xfffffffc\<rparr>) s))
        else Inr s)"

definition IdePortIoReadHandler :: "ULONG \<Rightarrow> ULONG \<Rightarrow> 'z ide_state_scheme \<Rightarrow> ULONG res" where
  "IdePortIoReadHandler address len s =
     bindE (ide_offset address s) (\<lambda>offset.
     let reg = offset AND 0x07
     in if reg = 0x00 then bindE (ide_channel offset) (\<lambda>ch. Inr (bm_Command (bmdma s ch)))
        else if reg = 0x02 then bindE (ide_channel offset) (\<lambda>ch. Inr (bm_Status (bmdma s ch)))
        else if reg = 0x04 then bindE (ide_channel offset) (\<lambda>ch. Inr (PrdTable (bmdma s ch)))
        else Inr 0xffffffff)"

section \<open>Initialisation\<close>

definition ide_calloc :: "env \<Rightarrow> nat \<Rightarrow> 'z ide_state_scheme \<Rightarrow> 'z ide_state_scheme" where
  "ide_calloc env ch s =
     (case ask_env env (Calloc IDE_BUFFER_SIZE) s of
        (ok, s) \<Rightarrow> upd_bm ch (\<lambda>b. b\<lparr>bm_Buffer := if ok then Some (replicate IDE_BUFFER_SIZE 0) else None\<rparr>) s)"

definition IdeInitialize :: "env \<Rightarrow> 'z ide_state_scheme \<Rightarrow> 'z ide_state_scheme res" where
  "IdeInitialize env s =
     (let addr = PCI_DEVFUNC_OFFSET_TO_ADDRESS 0 ide_df 0;
          s = snd (PciRegisterConfigHandler (s\<lparr>bmdma := \<lambda>_. BMDMA_zero\<rparr>) addr IdePci)
      in bindE (PciInitConfig s addr 0x8086 0x7010 0x00 0x0101 0x80 0x00 0) (\<lambda>s.
         bindE (PciSetBarIo s addr 4 0 16 (Some IdePort) (Some IdePort) IDE_PORT_MASK) (\<lambda>s.
         bindE (TimerRegister (ide_calloc env 1 (ide_calloc env 0 s)) TICK_PERIOD IdeTimerFn 0) (\<lambda>(_, s).
         Inr s))))"

end
