(* ===== verification/Ata.thy ===== *)
theory Ata
  imports Ide_Regs
begin

text \<open>
  The drives of \<open>harddisk.c\<close>: the four channels with two drives each, and the functions that the port
  handlers share: interrupts, the outcome of a command, sector addresses, and reading and writing sectors.
  The handlers fix the number of the selected drive when they start; the shared functions ask for it again.
  Consecutive assignments that set and clear different bits of \<open>Status\<close> are one \<open>status\<close> step, and likewise
  the bits \<open>c_d\<close> (0), \<open>i_o\<close> (1) and \<open>rel\<close> (2) of \<open>interrupt_reason\<close>, which overlay \<open>SectorCount\<close>.
\<close>

section \<open>State\<close>

record SENSE_INFO =
  sense_key :: BYTE
  information :: "BYTE list"
  specific_inf :: "BYTE list"
  key_spec :: "BYTE list"
  fruc :: BYTE
  asc :: BYTE
  ascq :: BYTE

record ATAPI =
  AtapiCommand :: BYTE
  DrqBytes :: DWORD
  TotalBytesRemaining :: DWORD

record HOB =
  hob_Feature :: BYTE
  LowCylinder :: BYTE
  HighCylinder :: BYTE
  Sector :: BYTE
  Nsector :: BYTE

record CONTROLLER =
  Buffer :: "BYTE list option"
  BufferTotalSize :: DWORD
  BufferSize :: DWORD
  BufferIndex :: DWORD
  NumberOfSectors :: DWORD
  SectorCount :: BYTE
  SectorNumber :: BYTE
  MultipleSectors :: BYTE
  AddressMode :: BYTE
  LbAddress :: DWORD
  Lba48 :: BYTE
  Hob :: HOB
  HeadNumber :: BYTE
  CylinderNumber :: USHORT
  Status :: BYTE
  ErrorRegister :: BYTE
  IndexPulse :: BYTE
  ResetInProgress :: BYTE
  Reset :: BYTE
  MdmaMode :: BYTE
  UdmaMode :: BYTE
  PacketDma :: BYTE
  CurrentCommand :: BYTE
  DrqIndex :: DWORD
  Features :: BYTE
  DisableIrq :: BYTE
  Atapi :: ATAPI
  Sense :: SENSE_INFO
  RemainingBlocks :: DWORD
  Locked :: BYTE

record DRIVE =
  DriveId :: "USHORT list"
  Model :: "BYTE list"
  DriveType :: BYTE
  Controller :: CONTROLLER
  Cylinders :: ULONG64
  Heads :: ULONG64
  Spt :: ULONG64
  NextLSector :: ULONG64
  CurrentLSector :: ULONG64
  IdentifySet :: BYTE

record ATA_CHANNEL =
  IoAddr1 :: USHORT
  IoAddr2 :: USHORT
  Irq :: BYTE
  Drive :: "nat \<Rightarrow> DRIVE"
  DriveSelect :: BYTE

text \<open>Channels are numbered 0 to 3 and drives 0 and 1.\<close>

record ata_state = ide_state +
  AtaChannel :: "nat \<Rightarrow> ATA_CHANNEL"

definition CONTROLLER_zero :: CONTROLLER where
  "CONTROLLER_zero = \<lparr>Buffer = None, BufferTotalSize = 0, BufferSize = 0, BufferIndex = 0, NumberOfSectors = 0, SectorCount = 0,
     SectorNumber = 0, MultipleSectors = 0, AddressMode = 0, LbAddress = 0, Lba48 = 0,
     Hob = \<lparr>hob_Feature = 0, LowCylinder = 0, HighCylinder = 0, Sector = 0, Nsector = 0\<rparr>, HeadNumber = 0, CylinderNumber = 0,
     Status = 0, ErrorRegister = 0, IndexPulse = 0, ResetInProgress = 0, Reset = 0, MdmaMode = 0, UdmaMode = 0, PacketDma = 0,
     CurrentCommand = 0, DrqIndex = 0, Features = 0, DisableIrq = 0,
     Atapi = \<lparr>AtapiCommand = 0, DrqBytes = 0, TotalBytesRemaining = 0\<rparr>,
     Sense = \<lparr>sense_key = 0, information = replicate 4 0, specific_inf = replicate 4 0, key_spec = replicate 3 0, fruc = 0,
       asc = 0, ascq = 0\<rparr>, RemainingBlocks = 0, Locked = 0\<rparr>"

definition DRIVE_zero :: DRIVE where
  "DRIVE_zero = \<lparr>DriveId = replicate 256 0, Model = replicate 41 0, DriveType = 0, Controller = CONTROLLER_zero, Cylinders = 0,
     Heads = 0, Spt = 0, NextLSector = 0, CurrentLSector = 0, IdentifySet = 0\<rparr>"

definition CHANNEL_zero :: ATA_CHANNEL where
  "CHANNEL_zero = \<lparr>IoAddr1 = 0, IoAddr2 = 0, Irq = 0, Drive = (\<lambda>_. DRIVE_zero), DriveSelect = 0\<rparr>"

definition ata_zero :: ata_state where
  "ata_zero = ide_state.extend ide_zero (ata_state.fields (\<lambda>_. CHANNEL_zero))"

section \<open>Constants\<close>

definition DRIVE_TYPE_CDROM :: BYTE where "DRIVE_TYPE_CDROM = 1"
definition DRIVE_TYPE_DISK :: BYTE where "DRIVE_TYPE_DISK = 2"
definition HARDDISK_HEADS :: ULONG64 where "HARDDISK_HEADS = 16"
definition HARDDISK_SECTORS :: ULONG64 where "HARDDISK_SECTORS = 63"
definition MAX_MULTIPLE_SECTORS :: nat where "MAX_MULTIPLE_SECTORS = 16"
definition PACKET_SIZE :: DWORD where "PACKET_SIZE = 12"

definition IDE_STATUS_ERROR :: BYTE where "IDE_STATUS_ERROR = lsh1 0"
definition IDE_STATUS_INDEX_PULSE :: BYTE where "IDE_STATUS_INDEX_PULSE = lsh1 1"
definition IDE_STATUS_CORRECTED_DATA :: BYTE where "IDE_STATUS_CORRECTED_DATA = lsh1 2"
definition IDE_STATUS_DEV_REQ :: BYTE where "IDE_STATUS_DEV_REQ = lsh1 3"
definition IDE_STATUS_DEV_SEEK_COMP :: BYTE where "IDE_STATUS_DEV_SEEK_COMP = lsh1 4"
definition IDE_STATUS_WRITE_FAULT :: BYTE where "IDE_STATUS_WRITE_FAULT = lsh1 5"
definition IDE_STATUS_DRIVE_RDY :: BYTE where "IDE_STATUS_DRIVE_RDY = lsh1 6"
definition IDE_STATUS_BUSY :: BYTE where "IDE_STATUS_BUSY = lsh1 7"

lemmas ide_status_defs = IDE_STATUS_ERROR_def IDE_STATUS_INDEX_PULSE_def IDE_STATUS_CORRECTED_DATA_def IDE_STATUS_DEV_REQ_def
  IDE_STATUS_DEV_SEEK_COMP_def IDE_STATUS_WRITE_FAULT_def IDE_STATUS_DRIVE_RDY_def IDE_STATUS_BUSY_def

definition IDE_SENSE_ILLEGAL_REQUEST :: BYTE where "IDE_SENSE_ILLEGAL_REQUEST = 5"
definition IDE_SENSE_UNIT_ATTENTION :: BYTE where "IDE_SENSE_UNIT_ATTENTION = 6"
definition IDE_ASC_ILLEGAL_OPCODE :: BYTE where "IDE_ASC_ILLEGAL_OPCODE = 0x20"
definition IDE_ASC_LOGICAL_BLOCK_OOR :: BYTE where "IDE_ASC_LOGICAL_BLOCK_OOR = 0x21"
definition IDE_ASC_INV_FIELD_IN_CMD_PACKET :: BYTE where "IDE_ASC_INV_FIELD_IN_CMD_PACKET = 0x24"
definition IDE_ASC_SAVING_PARAMETERS_NOT_SUPPORTED :: BYTE where "IDE_ASC_SAVING_PARAMETERS_NOT_SUPPORTED = 0x39"

section \<open>Access to the state\<close>

definition dnum :: "nat \<Rightarrow> 'z ata_state_scheme \<Rightarrow> nat" where
  "dnum ch s = (if DriveSelect (AtaChannel s ch) \<noteq> 0 then 1 else 0)"

definition drv :: "nat \<Rightarrow> nat \<Rightarrow> 'z ata_state_scheme \<Rightarrow> DRIVE" where
  "drv ch d s = Drive (AtaChannel s ch) d"

definition ctl :: "nat \<Rightarrow> nat \<Rightarrow> 'z ata_state_scheme \<Rightarrow> CONTROLLER" where
  "ctl ch d s = Controller (Drive (AtaChannel s ch) d)"

definition upd_chan :: "nat \<Rightarrow> (ATA_CHANNEL \<Rightarrow> ATA_CHANNEL) \<Rightarrow> 'z ata_state_scheme \<Rightarrow> 'z ata_state_scheme" where
  "upd_chan ch f s = s\<lparr>AtaChannel := (AtaChannel s)(ch := f (AtaChannel s ch))\<rparr>"

definition upd_drv :: "nat \<Rightarrow> nat \<Rightarrow> (DRIVE \<Rightarrow> DRIVE) \<Rightarrow> 'z ata_state_scheme \<Rightarrow> 'z ata_state_scheme" where
  "upd_drv ch d f s = upd_chan ch (\<lambda>c. c\<lparr>Drive := (Drive c)(d := f (Drive c d))\<rparr>) s"

definition upd_ctl :: "nat \<Rightarrow> nat \<Rightarrow> (CONTROLLER \<Rightarrow> CONTROLLER) \<Rightarrow> 'z ata_state_scheme \<Rightarrow> 'z ata_state_scheme" where
  "upd_ctl ch d f s = upd_drv ch d (\<lambda>x. x\<lparr>Controller := f (Controller x)\<rparr>) s"

text \<open>Both drives of a channel take a register write.\<close>

definition upd_both :: "nat \<Rightarrow> (CONTROLLER \<Rightarrow> CONTROLLER) \<Rightarrow> 'z ata_state_scheme \<Rightarrow> 'z ata_state_scheme" where
  "upd_both ch f s = upd_ctl ch 1 f (upd_ctl ch 0 f s)"

definition status :: "BYTE \<Rightarrow> BYTE \<Rightarrow> CONTROLLER \<Rightarrow> CONTROLLER" where
  "status on off c = c\<lparr>Status := (Status c AND NOT off) OR on\<rparr>"

definition reason :: "BYTE \<Rightarrow> BYTE \<Rightarrow> CONTROLLER \<Rightarrow> CONTROLLER" where
  "reason on off c = c\<lparr>SectorCount := (SectorCount c AND NOT off) OR on\<rparr>"

text \<open>The buffer of a drive: a null pointer for a drive that is not there.\<close>

definition buf_get :: "nat \<Rightarrow> nat \<Rightarrow> CONTROLLER \<Rightarrow> BYTE list res" where
  "buf_get off n c = (case Buffer c of None \<Rightarrow> Inl OutOfBounds | Some b \<Rightarrow> slice b off n)"

definition buf_put :: "nat \<Rightarrow> BYTE list \<Rightarrow> CONTROLLER \<Rightarrow> CONTROLLER res" where
  "buf_put off bs c =
     (case Buffer c of
        None \<Rightarrow> Inl OutOfBounds
      | Some b \<Rightarrow> if off + length bs \<le> length b then Inr (c\<lparr>Buffer := Some (take off b @ bs @ drop (off + length bs) b)\<rparr>)
                 else Inl OutOfBounds)"

definition put_buf :: "nat \<Rightarrow> nat \<Rightarrow> nat \<Rightarrow> BYTE list \<Rightarrow> 'z ata_state_scheme \<Rightarrow> 'z ata_state_scheme res" where
  "put_buf ch d off bs s = bindE (buf_put off bs (ctl ch d s)) (\<lambda>c. Inr (upd_ctl ch d (\<lambda>_. c) s))"

definition get_buf :: "nat \<Rightarrow> nat \<Rightarrow> nat \<Rightarrow> nat \<Rightarrow> 'z ata_state_scheme \<Rightarrow> BYTE list res" where
  "get_buf ch d off n s = buf_get off n (ctl ch d s)"

text \<open>The bytes of a value in memory, least significant first.\<close>

definition le_bytes :: "nat \<Rightarrow> 'a::len word \<Rightarrow> BYTE list" where
  "le_bytes n v = map (\<lambda>i. ucast (drop_bit (8 * i) v)) [0 ..< n]"

section \<open>Interrupts and outcomes\<close>

definition HardDiskRaiseInterrupt :: "env \<Rightarrow> nat \<Rightarrow> 'z ata_state_scheme \<Rightarrow> 'z ata_state_scheme res" where
  "HardDiskRaiseInterrupt env ch s =
     (if DisableIrq (ctl ch (dnum ch s) s) = 0 then PicRaiseIrq env (IdeSetIrq ch s) (Irq (AtaChannel s ch)) else Inr s)"

definition HardDiskLba48Transform :: "nat \<Rightarrow> BYTE \<Rightarrow> 'z ata_state_scheme \<Rightarrow> 'z ata_state_scheme" where
  "HardDiskLba48Transform ch lba48 s =
     upd_ctl ch (dnum ch s) (\<lambda>c.
       let c = c\<lparr>Lba48 := lba48\<rparr>
       in if Lba48 c = 0
          then c\<lparr>NumberOfSectors := if SectorCount c = 0 then 256 else ucast (SectorCount c)\<rparr>
          else c\<lparr>NumberOfSectors := if SectorCount c = 0 \<and> Nsector (Hob c) = 0 then 65536
                   else push_bit 8 (ucast (Nsector (Hob c))) OR ucast (SectorCount c)\<rparr>) s"

definition HardDiskCommandNop :: "nat \<Rightarrow> 'z ata_state_scheme \<Rightarrow> 'z ata_state_scheme" where
  "HardDiskCommandNop ch s =
     upd_ctl ch (dnum ch s) (\<lambda>c. status IDE_STATUS_DRIVE_RDY (IDE_STATUS_BUSY OR IDE_STATUS_DEV_REQ OR IDE_STATUS_ERROR) (reason 3 4 c)) s"

definition HardDiskCommandAborted :: "env \<Rightarrow> nat \<Rightarrow> 'z ata_state_scheme \<Rightarrow> 'z ata_state_scheme res" where
  "HardDiskCommandAborted env ch s =
     HardDiskRaiseInterrupt env ch (upd_ctl ch (dnum ch s) (\<lambda>c.
       (status (IDE_STATUS_ERROR OR IDE_STATUS_DRIVE_RDY) (IDE_STATUS_BUSY OR IDE_STATUS_DEV_REQ OR IDE_STATUS_CORRECTED_DATA) c)
         \<lparr>CurrentCommand := 0, ErrorRegister := 4, BufferIndex := 0\<rparr>) s)"

text \<open>\<open>src\<close> is the null pointer or an offset into the same buffer; the clearing comes before the copy.\<close>

definition HardDiskInitModeSense :: "nat \<Rightarrow> nat option \<Rightarrow> nat \<Rightarrow> 'z ata_state_scheme \<Rightarrow> 'z ata_state_scheme res" where
  "HardDiskInitModeSense ch src sz s =
     (let d = dnum ch s
      in bindE (put_buf ch d 0 (replicate (7 + sz) 0) s) (\<lambda>s.
         bindE (put_buf ch d 0 [ucast (drop_bit 8 (of_nat (sz + 6) :: DWORD)), ucast (of_nat (sz + 6) :: DWORD), 0x12] s) (\<lambda>s.
         case src of
           None \<Rightarrow> put_buf ch d 8 [0x01, 0x06, 0x00, 0x05, 0x00, 0x00, 0x00, 0x00] s
         | Some off \<Rightarrow> bindE (get_buf ch d off sz s) (\<lambda>bs. put_buf ch d 8 bs s))))"

definition HardDiskAtapiError :: "nat \<Rightarrow> BYTE \<Rightarrow> BYTE \<Rightarrow> 'z ata_state_scheme \<Rightarrow> 'z ata_state_scheme" where
  "HardDiskAtapiError ch SenseKey Asc s =
     upd_ctl ch (dnum ch s) (\<lambda>c.
       (status (IDE_STATUS_ERROR OR IDE_STATUS_DRIVE_RDY) (IDE_STATUS_BUSY OR IDE_STATUS_DEV_REQ OR IDE_STATUS_WRITE_FAULT)
         (reason 3 4 c))\<lparr>ErrorRegister := push_bit 4 SenseKey,
           Sense := (Sense c)\<lparr>sense_key := SenseKey, asc := Asc, ascq := 0\<rparr>\<rparr>) s"

definition HardDiskReadySendAtapi :: "env \<Rightarrow> nat \<Rightarrow> 'z ata_state_scheme \<Rightarrow> 'z ata_state_scheme res" where
  "HardDiskReadySendAtapi env ch s =
     (let d = dnum ch s; s = upd_ctl ch d (\<lambda>c. reason 2 1 (status IDE_STATUS_DEV_REQ (IDE_STATUS_BUSY OR IDE_STATUS_ERROR) c)) s
      in if PacketDma (ctl ch d s) \<noteq> 0 then Inr (IdeStartTransfer ch s) else HardDiskRaiseInterrupt env ch s)"

section \<open>Addresses\<close>

text \<open>The task file registers of a sector number, 48 and 28 bits wide.\<close>

definition put_lba48 :: "ULONG64 \<Rightarrow> CONTROLLER \<Rightarrow> CONTROLLER" where
  "put_lba48 lb c = c\<lparr>Hob := (Hob c)\<lparr>HighCylinder := ucast (drop_bit 40 lb), LowCylinder := ucast (drop_bit 32 lb),
       Sector := ucast (drop_bit 24 lb)\<rparr>, CylinderNumber := ucast (drop_bit 8 lb), SectorNumber := ucast lb\<rparr>"

definition put_lba28 :: "ULONG64 \<Rightarrow> CONTROLLER \<Rightarrow> CONTROLLER" where
  "put_lba28 lb c = c\<lparr>HeadNumber := ucast (drop_bit 24 lb), CylinderNumber := ucast (drop_bit 8 lb), SectorNumber := ucast lb\<rparr>"

definition chs_increment :: "DRIVE \<Rightarrow> CONTROLLER \<Rightarrow> CONTROLLER" where
  "chs_increment x c =
     (let c = c\<lparr>SectorNumber := SectorNumber c + 1\<rparr>
      in if ucast (SectorNumber c) > Spt x
         then let c = c\<lparr>SectorNumber := 1, HeadNumber := HeadNumber c + 1\<rparr>
              in if ucast (SectorNumber c) \<ge> Heads x
                 then let c = c\<lparr>SectorNumber := 0, CylinderNumber := CylinderNumber c + 1\<rparr>
                      in if ucast (CylinderNumber c) \<ge> Cylinders x then c\<lparr>CylinderNumber := ucast (Cylinders x - 1)\<rparr> else c
                 else c
         else c)"

definition HardDiskIncrementAddress :: "nat \<Rightarrow> ULONG64 \<Rightarrow> 'z ata_state_scheme \<Rightarrow> ULONG64 \<times> 'z ata_state_scheme" where
  "HardDiskIncrementAddress ch LogicalSector s =
     (let d = dnum ch s; x = drv ch d s;
          s = upd_ctl ch d (\<lambda>c. c\<lparr>SectorCount := SectorCount c - 1, NumberOfSectors := NumberOfSectors c - 1\<rparr>) s
      in if AddressMode (ctl ch d s) \<noteq> 0
         then let lb = LogicalSector + 1
              in (lb, upd_ctl ch d (if Lba48 (ctl ch d s) \<noteq> 0 then put_lba48 lb else put_lba28 lb) s)
         else (LogicalSector, upd_ctl ch d (chs_increment x) s))"

definition ctl_address :: "CONTROLLER \<Rightarrow> ULONG64" where
  "ctl_address c =
     (if AddressMode c \<noteq> 0
      then if Lba48 c \<noteq> 0
           then push_bit 40 (ucast (HighCylinder (Hob c))) OR push_bit 32 (ucast (LowCylinder (Hob c))) OR
                push_bit 24 (ucast (Sector (Hob c))) OR push_bit 8 (ucast (CylinderNumber c)) OR ucast (SectorNumber c)
           else push_bit 24 (ucast (HeadNumber c)) OR push_bit 8 (ucast (CylinderNumber c)) OR ucast (SectorNumber c)
      else ucast (CylinderNumber c) * HARDDISK_HEADS * HARDDISK_SECTORS + ucast (HeadNumber c) * HARDDISK_SECTORS +
           (ucast (SectorNumber c) - 1))"

definition HardDiskCalculateLogicalAddress :: "nat \<Rightarrow> 'z ata_state_scheme \<Rightarrow> ULONG64" where
  "HardDiskCalculateLogicalAddress ch s =
     (let LogicalSector = ctl_address (ctl ch (dnum ch s) s)
      in if VhdGetHardDiskSize s div 512 \<le> LogicalSector then - 1 else LogicalSector)"

definition HardDiskSetSignature :: "nat \<Rightarrow> nat \<Rightarrow> 'z ata_state_scheme \<Rightarrow> 'z ata_state_scheme" where
  "HardDiskSetSignature ch d s =
     (let s = upd_ctl ch d (\<lambda>c. c\<lparr>HeadNumber := 0, SectorCount := 1, SectorNumber := 1\<rparr>) s
      in if DriveType (drv ch d s) = DRIVE_TYPE_DISK
         then upd_chan ch (\<lambda>c. c\<lparr>DriveSelect := 0\<rparr>) (upd_ctl ch d (\<lambda>c. c\<lparr>CylinderNumber := 0\<rparr>) s)
         else if DriveType (drv ch d s) = DRIVE_TYPE_CDROM then upd_ctl ch d (\<lambda>c. c\<lparr>CylinderNumber := 0xeb14\<rparr>) s
         else upd_ctl ch d (\<lambda>c. c\<lparr>CylinderNumber := 0xffff\<rparr>) s)"

text \<open>\<open>CylinderNumber == -1\<close> never holds: the 16-bit register is promoted to a non-negative \<open>int\<close>.\<close>

definition atapi_limit :: "DWORD \<Rightarrow> DWORD \<Rightarrow> CONTROLLER \<Rightarrow> CONTROLLER" where
  "atapi_limit req alloc c =
     (let c = (if ucast (CylinderNumber c) > req then c\<lparr>CylinderNumber := ucast req\<rparr> else c)
      in if ucast (CylinderNumber c) > alloc then c\<lparr>CylinderNumber := ucast alloc\<rparr> else c)"

definition HardDiskInitAtapiCommand :: "nat \<Rightarrow> BYTE \<Rightarrow> DWORD \<Rightarrow> DWORD \<Rightarrow> 'z ata_state_scheme \<Rightarrow> 'z ata_state_scheme" where
  "HardDiskInitAtapiCommand ch cmd ReqLength AllocLength s =
     upd_ctl ch (dnum ch s) (\<lambda>c.
       let c = (if testw (CylinderNumber c) 1 \<and> AllocLength > ucast (CylinderNumber c)
                then c\<lparr>CylinderNumber := CylinderNumber c - 1\<rparr> else c)
       in if PacketDma c = 0 \<and> CylinderNumber c = 0 then c
          else let alloc = (if AllocLength = 0 then ucast (CylinderNumber c) else AllocLength);
                   c = (status (IDE_STATUS_BUSY OR IDE_STATUS_DRIVE_RDY) (IDE_STATUS_DEV_REQ OR IDE_STATUS_ERROR) c)
                         \<lparr>BufferIndex := 0, DrqIndex := 0\<rparr>;
                   c = atapi_limit ReqLength alloc c
               in c\<lparr>Atapi := \<lparr>AtapiCommand = cmd, DrqBytes = ucast (CylinderNumber c),
                      TotalBytesRemaining = if ReqLength < alloc then ReqLength else alloc\<rparr>\<rparr>) s"

section \<open>Sectors\<close>

definition HardDiskBdmaComplete :: "env \<Rightarrow> nat \<Rightarrow> 'z ata_state_scheme \<Rightarrow> 'z ata_state_scheme res" where
  "HardDiskBdmaComplete env ch s =
     (let d = dnum ch s;
          s = upd_ctl ch d (status IDE_STATUS_DRIVE_RDY (IDE_STATUS_BUSY OR IDE_STATUS_DEV_REQ OR IDE_STATUS_ERROR)) s
      in HardDiskRaiseInterrupt env ch
           (if DriveType (drv ch d s) = DRIVE_TYPE_CDROM then upd_ctl ch d (reason 3 4) s
            else upd_drv ch d (\<lambda>x. x\<lparr>CurrentLSector := NextLSector x\<rparr>)
                   (upd_ctl ch d (status IDE_STATUS_DEV_SEEK_COMP (IDE_STATUS_WRITE_FAULT OR IDE_STATUS_CORRECTED_DATA)) s)))"

text \<open>
  The loops over the sectors of the buffer: as many turns as sectors begin in \<open>BufferSize\<close> bytes. The
  \<open>Buffer\<close> argument of both functions is not used. A write that is refused aborts the command and returns 0;
  \<open>VhdWrite\<close> has no \<open>return\<close>, so the environment decides.
\<close>

definition sectors_in :: "DWORD \<Rightarrow> nat" where
  "sectors_in n = (unat n + 511) div 512"

definition next_sector :: "nat \<Rightarrow> nat \<Rightarrow> ULONG64 \<Rightarrow> 'z ata_state_scheme \<Rightarrow> 'z ata_state_scheme" where
  "next_sector ch d lb s =
     (case HardDiskIncrementAddress ch lb s of (lb, s) \<Rightarrow> upd_drv ch d (\<lambda>x. x\<lparr>NextLSector := lb\<rparr>) s)"

fun write_sectors :: "env \<Rightarrow> nat \<Rightarrow> nat \<Rightarrow> nat list \<Rightarrow> 'z ata_state_scheme \<Rightarrow> (bool \<times> 'z ata_state_scheme) res" where
  "write_sectors env ch d [] s = Inr (True, s)"
| "write_sectors env ch d (k # ks) s =
     (let lb = HardDiskCalculateLogicalAddress ch s
      in if lb = - 1 then bindE (HardDiskCommandAborted env ch s) (\<lambda>s. Inr (False, s))
         else case ask_env env MissingReturn (VhdWrite (512 * k) 512 (VhdSeek (lb * 512) s)) of
                (ok, s) \<Rightarrow> if \<not> ok then bindE (HardDiskCommandAborted env ch s) (\<lambda>s. Inr (False, s))
                          else write_sectors env ch d ks (next_sector ch d lb s))"

definition HardDiskWriteSector :: "env \<Rightarrow> nat \<Rightarrow> 'z ata_state_scheme \<Rightarrow> (ULONG64 \<times> 'z ata_state_scheme) res" where
  "HardDiskWriteSector env ch s =
     (let d = dnum ch s; n = sectors_in (BufferSize (ctl ch d s))
      in bindE (write_sectors env ch d [0 ..< n] s) (\<lambda>(ok, s). Inr (if ok then of_nat (512 * n) else 0, s)))"

definition HardDiskBmdmaWriteSector :: "env \<Rightarrow> nat \<Rightarrow> 'z ata_state_scheme \<Rightarrow> (ULONG64 \<times> 'z ata_state_scheme) res" where
  "HardDiskBmdmaWriteSector env ch s =
     (let c = ctl ch (dnum ch s) s
      in if CurrentCommand c = 0xCA \<or> CurrentCommand c = 0x35
         then bindE (HardDiskCommandAborted env ch s) (\<lambda>s. Inr (0, s))
         else if NumberOfSectors c = 0 then Inr (0, s)
         else HardDiskWriteSector env ch s)"

definition read_sector :: "nat \<Rightarrow> nat \<Rightarrow> nat \<Rightarrow> 'z ata_state_scheme \<Rightarrow> 'z ata_state_scheme res" where
  "read_sector ch d k s =
     (let lb = HardDiskCalculateLogicalAddress ch s; s = VhdSeek (lb * 512) s
      in bindE (VhdRead s 512) (\<lambda>bs. bindE (put_buf ch d (512 * k) bs s) (\<lambda>s. Inr (next_sector ch d lb s))))"

definition HardDiskReadSector :: "nat \<Rightarrow> 'z ata_state_scheme \<Rightarrow> (ULONG64 \<times> 'z ata_state_scheme) res" where
  "HardDiskReadSector ch s =
     (let d = dnum ch s; n = sectors_in (BufferSize (ctl ch d s))
      in bindE (foldE (read_sector ch d) [0 ..< n] s) (\<lambda>s. Inr (of_nat (512 * n), s)))"

text \<open>\<open>off\<close> is where the argument \<open>Buffer\<close> points to in the buffer of the bus-master channel.\<close>

definition bm_put :: "nat \<Rightarrow> nat \<Rightarrow> BYTE list \<Rightarrow> 'z ide_state_scheme \<Rightarrow> 'z ide_state_scheme res" where
  "bm_put ch off bs s =
     (case bm_Buffer (bmdma s ch) of
        None \<Rightarrow> Inl OutOfBounds
      | Some b \<Rightarrow> if off + length bs \<le> length b
                 then Inr (upd_bm ch (\<lambda>x. x\<lparr>bm_Buffer := Some (take off b @ bs @ drop (off + length bs) b)\<rparr>) s)
                 else Inl OutOfBounds)"

definition bmdma_read_packet :: "env \<Rightarrow> nat \<Rightarrow> nat \<Rightarrow> nat \<Rightarrow> 'z ata_state_scheme \<Rightarrow> (ULONG64 \<times> 'z ata_state_scheme) res" where
  "bmdma_read_packet env ch d off s =
     (let c = ctl ch d s
      in if PacketDma c \<noteq> 0
         then if AtapiCommand (Atapi c) \<in> {0x28, 0xa8, 0xbe}
              then case CdRomReadBlock (LbAddress c) (BufferSize c) s of
                     (ret, bs, s) \<Rightarrow>
                       bindE (bm_put ch off bs s) (\<lambda>s.
                       if ret = 0 then Inr (0, s)
                       else Inr (1, upd_ctl ch d (\<lambda>c. c\<lparr>LbAddress := LbAddress c + 1, RemainingBlocks := RemainingBlocks c - 1\<rparr>) s))
              else bindE (get_buf ch d 0 (unat (if BufferSize c > RemainingBlocks c then RemainingBlocks c else BufferSize c)) s) (\<lambda>bs.
                   bindE (bm_put ch off bs s) (\<lambda>s. Inr (1, s)))
         else bindE (HardDiskCommandAborted env ch s) (\<lambda>s. Inr (0, s)))"

definition HardDiskBmdmaReadSector :: "env \<Rightarrow> nat \<Rightarrow> nat \<Rightarrow> 'z ata_state_scheme \<Rightarrow> (ULONG64 \<times> 'z ata_state_scheme) res" where
  "HardDiskBmdmaReadSector env ch off s =
     (let d = dnum ch s; c = ctl ch d s
      in if CurrentCommand c = 0xC8 \<or> CurrentCommand c = 0x25
         then if NumberOfSectors c = 0 then Inr (0, s)
              else bindE (HardDiskReadSector ch s) (\<lambda>(ret, s). Inr (if ret = 0 then 0 else 1, s))
         else if CurrentCommand c = 0xA0 then bmdma_read_packet env ch d off s
         else bindE (HardDiskCommandAborted env ch s) (\<lambda>s. Inr (0, s)))"

section \<open>Access and update\<close>

lemma ctl_drv: "ctl ch d s = Controller (drv ch d s)"
  by (simp add: ctl_def drv_def)

lemma drv_upd [simp]:
  "drv ch d (upd_drv ch' d' f s) = (if ch = ch' \<and> d = d' then f (drv ch d s) else drv ch d s)"
  "drv ch d (upd_ctl ch' d' g s) = (if ch = ch' \<and> d = d' then (drv ch d s)\<lparr>Controller := g (ctl ch d s)\<rparr> else drv ch d s)"
  by (simp_all add: drv_def ctl_def upd_ctl_def upd_drv_def upd_chan_def)

lemma ctl_upd [simp]:
  "ctl ch d (upd_drv ch' d' f s) = (if ch = ch' \<and> d = d' then Controller (f (drv ch d s)) else ctl ch d s)"
  "ctl ch d (upd_ctl ch' d' g s) = (if ch = ch' \<and> d = d' then g (ctl ch d s) else ctl ch d s)"
  by (simp_all add: ctl_drv)

lemma dnum_upd [simp]: "dnum ch (upd_drv ch' d f s) = dnum ch s" "dnum ch (upd_ctl ch' d g s) = dnum ch s"
  by (simp_all add: dnum_def upd_ctl_def upd_drv_def upd_chan_def)

lemma chan_upd [simp]:
  "IoAddr1 (AtaChannel (upd_ctl ch' d g s) ch) = IoAddr1 (AtaChannel s ch)" "IoAddr2 (AtaChannel (upd_ctl ch' d g s) ch) = IoAddr2 (AtaChannel s ch)"
  "Irq (AtaChannel (upd_ctl ch' d g s) ch) = Irq (AtaChannel s ch)"
  "DriveSelect (AtaChannel (upd_ctl ch' d g s) ch) = DriveSelect (AtaChannel s ch)"
  "IoAddr1 (AtaChannel (upd_drv ch' d f s) ch) = IoAddr1 (AtaChannel s ch)" "IoAddr2 (AtaChannel (upd_drv ch' d f s) ch) = IoAddr2 (AtaChannel s ch)"
  "Irq (AtaChannel (upd_drv ch' d f s) ch) = Irq (AtaChannel s ch)"
  "DriveSelect (AtaChannel (upd_drv ch' d f s) ch) = DriveSelect (AtaChannel s ch)"
  by (simp_all add: upd_ctl_def upd_drv_def upd_chan_def)

lemma vhdImage_upd [simp]: "vhdImage (upd_chan ch h s) = vhdImage s" "vhdImage (upd_drv ch d f s) = vhdImage s" "vhdImage (upd_ctl ch d g s) = vhdImage s"
  by (simp_all add: upd_ctl_def upd_drv_def upd_chan_def)

lemma AtaChannel_VhdSeek [simp]: "AtaChannel (VhdSeek off s) = AtaChannel s"
  by (simp add: VhdSeek_def upd_vhd_def)

lemma ata_VhdSeek [simp]: "ctl ch d (VhdSeek off s) = ctl ch d s" "drv ch d (VhdSeek off s) = drv ch d s" "dnum ch (VhdSeek off s) = dnum ch s"
  by (simp_all add: ctl_def drv_def dnum_def)

lemma upd_ctl_cong: "g (ctl ch d s) = h (ctl ch d s) \<Longrightarrow> upd_ctl ch d g s = upd_ctl ch d h s"
  by (simp add: upd_ctl_def upd_drv_def upd_chan_def ctl_def)

text \<open>What an operation leaves of the rest of a controller.\<close>

lemma status_simps [simp]:
  "Status (status on off c) = (Status c AND NOT off) OR on" "Buffer (status on off c) = Buffer c" "BufferSize (status on off c) = BufferSize c"
  "BufferIndex (status on off c) = BufferIndex c" "NumberOfSectors (status on off c) = NumberOfSectors c"
  "SectorCount (status on off c) = SectorCount c" "SectorNumber (status on off c) = SectorNumber c"
  "MultipleSectors (status on off c) = MultipleSectors c" "AddressMode (status on off c) = AddressMode c" "Lba48 (status on off c) = Lba48 c"
  "Hob (status on off c) = Hob c" "HeadNumber (status on off c) = HeadNumber c" "CylinderNumber (status on off c) = CylinderNumber c"
  "CurrentCommand (status on off c) = CurrentCommand c" "DisableIrq (status on off c) = DisableIrq c" "ErrorRegister (status on off c) = ErrorRegister c"
  by (simp_all add: status_def)

lemma ctl_address_cong:
  "AddressMode c = AddressMode c' \<Longrightarrow> Lba48 c = Lba48 c' \<Longrightarrow> Hob c = Hob c' \<Longrightarrow> HeadNumber c = HeadNumber c' \<Longrightarrow>
   CylinderNumber c = CylinderNumber c' \<Longrightarrow> SectorNumber c = SectorNumber c' \<Longrightarrow> ctl_address c = ctl_address c'"
  by (simp only: ctl_address_def)

lemma ctl_address_status [simp]: "ctl_address (status on off c) = ctl_address c"
  by (rule ctl_address_cong) simp_all

section \<open>Sector addresses\<close>

text \<open>The number of bits the registers hold: 48, or 32 with the whole byte the code keeps of the head.\<close>

definition lba_bits :: "CONTROLLER \<Rightarrow> nat" where
  "lba_bits c = (if Lba48 c \<noteq> 0 then 48 else 32)"

definition put_lba :: "ULONG64 \<Rightarrow> CONTROLLER \<Rightarrow> CONTROLLER" where
  "put_lba lb c = (if Lba48 c \<noteq> 0 then put_lba48 lb c else put_lba28 lb c)"

lemma put_lba_simps [simp]:
  "Buffer (put_lba lb c) = Buffer c" "BufferSize (put_lba lb c) = BufferSize c" "BufferIndex (put_lba lb c) = BufferIndex c"
  "NumberOfSectors (put_lba lb c) = NumberOfSectors c" "Status (put_lba lb c) = Status c" "AddressMode (put_lba lb c) = AddressMode c"
  "Lba48 (put_lba lb c) = Lba48 c" "CurrentCommand (put_lba lb c) = CurrentCommand c" "DisableIrq (put_lba lb c) = DisableIrq c"
  "MultipleSectors (put_lba lb c) = MultipleSectors c" "lba_bits (put_lba lb c) = lba_bits c"
  by (simp_all add: put_lba_def put_lba48_def put_lba28_def lba_bits_def)

lemma bit_high: "unat (w :: ULONG64) < 2 ^ n \<Longrightarrow> n \<le> k \<Longrightarrow> \<not> bit w k"
  using bit_imp_ge [of w k] power_increasing [of n k "2 :: nat"] by linarith

lemma ctl_address_put_lba:
  assumes "AddressMode c \<noteq> 0" and "unat lb < 2 ^ lba_bits c"
  shows "ctl_address (put_lba lb c) = lb"
proof (rule bit_word_eqI)
  fix k assume "k < LENGTH(64)"
  then have k: "k < 64" by simp
  show "bit (ctl_address (put_lba lb c)) k = bit lb k"
  proof (cases "Lba48 c = 0")
    case True
    then have "\<not> bit lb k \<or> k < 32" using assms(2) bit_high [of lb 32 k] by (cases "k < 32") (simp_all add: lba_bits_def)
    then show ?thesis using assms(1) True k by (cases "24 \<le> k") (auto simp: ctl_address_def put_lba_def put_lba28_def bit_simps)
  next
    case False
    then have "\<not> bit lb k \<or> k < 48" using assms(2) bit_high [of lb 48 k] by (cases "k < 48") (simp_all add: lba_bits_def)
    then show ?thesis using assms(1) False k by (cases "24 \<le> k"; cases "32 \<le> k"; cases "40 \<le> k") (auto simp: ctl_address_def put_lba_def put_lba48_def bit_simps)
  qed
qed

end
