(* ===== verification/Ata_Atapi.thy ===== *)
theory Ata_Atapi
  imports Ata
begin

text \<open>
  The packet commands of the CD-ROM drive: the part of \<open>HardDiskPortIoWriteHandler\<close> that collects the twelve
  bytes of a packet and carries it out. Every command ends in an error, in a completion without data, or with
  data prepared in the buffer. \<open>d\<close> is the drive the handler selected when it started.
\<close>

section \<open>Outcomes of a packet\<close>

definition atapi_fail :: "env \<Rightarrow> nat \<Rightarrow> BYTE \<Rightarrow> 'z ata_state_scheme \<Rightarrow> 'z ata_state_scheme res" where
  "atapi_fail env ch code s = HardDiskRaiseInterrupt env ch (HardDiskAtapiError ch IDE_SENSE_ILLEGAL_REQUEST code s)"

definition atapi_nop :: "env \<Rightarrow> nat \<Rightarrow> 'z ata_state_scheme \<Rightarrow> 'z ata_state_scheme res" where
  "atapi_nop env ch s = HardDiskRaiseInterrupt env ch (HardDiskCommandNop ch s)"

text \<open>Fields of the packet, which \<open>Read16\<close> and \<open>Read32\<close> take in network byte order.\<close>

definition Read8 :: "nat \<Rightarrow> nat \<Rightarrow> nat \<Rightarrow> 'z ata_state_scheme \<Rightarrow> BYTE res" where
  "Read8 ch d off s = bindE (get_buf ch d off 1 s) (\<lambda>bs. Inr (be_word bs))"

definition Read16 :: "nat \<Rightarrow> nat \<Rightarrow> nat \<Rightarrow> 'z ata_state_scheme \<Rightarrow> DWORD res" where
  "Read16 ch d off s = bindE (get_buf ch d off 2 s) (\<lambda>bs. Inr (be_word bs))"

definition Read32 :: "nat \<Rightarrow> nat \<Rightarrow> nat \<Rightarrow> 'z ata_state_scheme \<Rightarrow> DWORD res" where
  "Read32 ch d off s = bindE (get_buf ch d off 4 s) (\<lambda>bs. Inr (be_word bs))"

section \<open>The commands\<close>

definition atapi_mechanism_status :: "env \<Rightarrow> nat \<Rightarrow> nat \<Rightarrow> 'z ata_state_scheme \<Rightarrow> 'z ata_state_scheme res" where
  "atapi_mechanism_status env ch d s =
     bindE (Read16 ch d 8 s) (\<lambda>transferLength.
     if transferLength = 0 then Inr s
     else bindE (put_buf ch d 0 [0, 0, 0, 0, 0, 1, 0, 0] (HardDiskInitAtapiCommand ch 0xBD 8 transferLength s))
            (HardDiskReadySendAtapi env ch))"

definition mode_capabilities :: "BYTE \<Rightarrow> BYTE list" where
  "mode_capabilities locked =
     [0x2a, 0x12, 0x03, 0x00, 0x71, push_bit 5 3, 1 OR (if locked \<noteq> 0 then lsh1 1 else 0) OR lsh1 3 OR lsh1 5, 0x00,
      0x0b, 0x00, 0, 2, 0x02, 0x00, 0x0b, 0x00, 0, 0, 0, 0]"

definition atapi_capabilities :: "env \<Rightarrow> nat \<Rightarrow> nat \<Rightarrow> BYTE \<Rightarrow> DWORD \<Rightarrow> 'z ata_state_scheme \<Rightarrow> 'z ata_state_scheme res" where
  "atapi_capabilities env ch d cmd transferLength s =
     bindE (HardDiskInitModeSense ch (Some 8) 28 (HardDiskInitAtapiCommand ch cmd 28 transferLength s)) (\<lambda>s.
     bindE (put_buf ch d 8 (mode_capabilities (Locked (ctl ch d s))) s) (HardDiskReadySendAtapi env ch))"

definition atapi_mode_sense :: "env \<Rightarrow> nat \<Rightarrow> nat \<Rightarrow> BYTE \<Rightarrow> 'z ata_state_scheme \<Rightarrow> 'z ata_state_scheme res" where
  "atapi_mode_sense env ch d cmd s =
     bindE (if cmd = 0x5a then Read16 ch d 7 s else bindE (Read8 ch d 4 s) (\<lambda>b. Inr (ucast b))) (\<lambda>transferLength.
     bindE (Read8 ch d 2 s) (\<lambda>b.
     let pc = drop_bit 6 b; page = b AND 0x3f
     in if pc = 0 \<and> page = 0x01
        then bindE (HardDiskInitModeSense ch None 8 (HardDiskInitAtapiCommand ch cmd 16 transferLength s))
               (HardDiskReadySendAtapi env ch)
        else if (pc = 0 \<or> pc = 2) \<and> page = 0x2a then atapi_capabilities env ch d cmd transferLength s
        else if pc = 3 then atapi_fail env ch IDE_ASC_SAVING_PARAMETERS_NOT_SUPPORTED s
        else atapi_fail env ch IDE_ASC_INV_FIELD_IN_CMD_PACKET s))"

definition inquiry_data :: "BYTE list" where
  "inquiry_data = [0x05, 0x80, 0x00, 0x21, 31, 0x00, 0x00, 0x00] @ map of_char ''BOCHS   '' @
     map of_char ''Generic CD-ROM  '' @ map of_char ''1.0 ''"

definition atapi_inquiry :: "env \<Rightarrow> nat \<Rightarrow> nat \<Rightarrow> BYTE \<Rightarrow> 'z ata_state_scheme \<Rightarrow> 'z ata_state_scheme res" where
  "atapi_inquiry env ch d cmd s =
     bindE (Read8 ch d 4 s) (\<lambda>n.
     bindE (put_buf ch d 0 inquiry_data (HardDiskInitAtapiCommand ch cmd 36 (ucast n) s)) (HardDiskReadySendAtapi env ch))"

definition sense_data :: "SENSE_INFO \<Rightarrow> BYTE list" where
  "sense_data x = [0xf0, 0, sense_key x] @ information x @ [10] @ specific_inf x @ [asc x, ascq x, fruc x] @ key_spec x"

definition atapi_request_sense :: "env \<Rightarrow> nat \<Rightarrow> nat \<Rightarrow> 'z ata_state_scheme \<Rightarrow> 'z ata_state_scheme res" where
  "atapi_request_sense env ch d s =
     bindE (Read8 ch d 4 s) (\<lambda>n.
     let s = HardDiskInitAtapiCommand ch 0x03 18 (ucast n) s
     in bindE (put_buf ch d 0 (sense_data (Sense (ctl ch d s))) s) (\<lambda>s.
        HardDiskReadySendAtapi env ch
          (if sense_key (Sense (ctl ch d s)) = IDE_SENSE_UNIT_ATTENTION
           then upd_ctl ch d (\<lambda>c. c\<lparr>Sense := (Sense c)\<lparr>sense_key := 0\<rparr>\<rparr>) s else s)))"

definition atapi_read_capacity :: "env \<Rightarrow> nat \<Rightarrow> nat \<Rightarrow> 'z ata_state_scheme \<Rightarrow> 'z ata_state_scheme res" where
  "atapi_read_capacity env ch d s =
     bindE (put_buf ch d 0 (be32 (ucast (CdRomGetCapacity s - 1)) @ be32 2048) (HardDiskInitAtapiCommand ch 0x25 8 8 s))
       (HardDiskReadySendAtapi env ch)"

text \<open>
  Both refusals of a READ only report and go on. The length of READ(12) is taken when the length so far is 0,
  that is for a READ(10) of length 0 too.
\<close>

definition read_refused :: "DWORD \<Rightarrow> ULONG64 \<Rightarrow> ULONG64 \<Rightarrow> bool" where
  "read_refused xlen lb cap \<longleftrightarrow>
     xlen * 2048 < xlen \<or> ucast (xlen * 2048) > cap - 1 \<or> lb > cap - 1 \<or> ucast lb + xlen < (ucast lb :: DWORD) \<or>
     ucast lb + xlen - 1 < (ucast lb :: DWORD) \<or> xlen * 2048 + ucast lb < (ucast lb :: DWORD)"

definition atapi_read :: "env \<Rightarrow> nat \<Rightarrow> nat \<Rightarrow> BYTE \<Rightarrow> 'z ata_state_scheme \<Rightarrow> 'z ata_state_scheme res" where
  "atapi_read env ch d cmd s =
     bindE (if cmd = 0x28 then Read16 ch d 7 s else Inr 0) (\<lambda>xlen.
     bindE (if xlen = 0 then Read32 ch d 6 s else Inr xlen) (\<lambda>xlen.
     bindE (Read32 ch d 2 s) (\<lambda>lb32.
     let lb = (ucast lb32 :: ULONG64); cap = CdRomGetCapacity s
     in bindE (if read_refused xlen lb cap then atapi_fail env ch IDE_ASC_LOGICAL_BLOCK_OOR s else Inr s) (\<lambda>s.
        let xlen = (if lb + ucast xlen - 1 > cap - 1 then ucast (cap - 1 - lb + 1) else xlen)
        in bindE (if xlen = 0 \<or> ucast xlen > cap - 1 then atapi_nop env ch s else Inr s) (\<lambda>s.
           Inr (upd_ctl ch d (\<lambda>c. c\<lparr>BufferIndex := BufferSize c, LbAddress := ucast lb, RemainingBlocks := xlen\<rparr>)
                  (HardDiskInitAtapiCommand ch cmd (xlen * 2048) (xlen * 2048) s)))))))"

definition atapi_read_cd :: "env \<Rightarrow> nat \<Rightarrow> nat \<Rightarrow> BYTE \<Rightarrow> 'z ata_state_scheme \<Rightarrow> 'z ata_state_scheme res" where
  "atapi_read_cd env ch d cmd s =
     bindE (Read32 ch d 2 s) (\<lambda>lb.
     bindE (get_buf ch d 6 3 s) (\<lambda>bs.
     let xlen = (be_word bs :: DWORD)
     in if xlen = 0 then atapi_nop env ch s
        else bindE (Read8 ch d 9 s) (\<lambda>b.
             if b AND 0xf8 = 0x00 then atapi_nop env ch s
             else if b AND 0xf8 = 0xf8 \<or> b AND 0xf8 = 0x10
             then let s = (if b AND 0xf8 = 0xf8 then upd_ctl ch d (\<lambda>c. c\<lparr>BufferSize := 2352\<rparr>) s else s);
                      n = xlen * BufferSize (ctl ch d s)
                  in Inr (upd_ctl ch d (\<lambda>c. c\<lparr>BufferIndex := BufferSize c, RemainingBlocks := xlen, LbAddress := lb\<rparr>)
                            (HardDiskInitAtapiCommand ch cmd n n s))
             else atapi_fail env ch IDE_ASC_INV_FIELD_IN_CMD_PACKET s)))"

definition atapi_read_toc :: "env \<Rightarrow> nat \<Rightarrow> nat \<Rightarrow> BYTE \<Rightarrow> 'z ata_state_scheme \<Rightarrow> 'z ata_state_scheme res" where
  "atapi_read_toc env ch d cmd s =
     bindE (Read16 ch d 7 s) (\<lambda>xlen.
     bindE (Read8 ch d 9 s) (\<lambda>b9.
     bindE (Read8 ch d 1 s) (\<lambda>b1.
     bindE (Read8 ch d 6 s) (\<lambda>b6.
     let fmt = drop_bit 6 b9; msf = drop_bit 1 b1 AND 1 \<noteq> 0
     in if (fmt = 2 \<or> fmt = 3) \<and> \<not> msf then Inl Exit
        else case CdRomReadToc xlen msf b6 fmt s of
               (ret, bs) \<Rightarrow>
                 bindE (put_buf ch d 0 bs s) (\<lambda>s.
                 if ret = 0 then atapi_fail env ch IDE_ASC_INV_FIELD_IN_CMD_PACKET s
                 else HardDiskReadySendAtapi env ch (HardDiskInitAtapiCommand ch cmd ret xlen s))))))"

definition atapi_seek :: "env \<Rightarrow> nat \<Rightarrow> nat \<Rightarrow> 'z ata_state_scheme \<Rightarrow> 'z ata_state_scheme res" where
  "atapi_seek env ch d s =
     bindE (Read32 ch d 2 s) (\<lambda>lb.
     if ucast lb > CdRomGetCapacity s - 1 then atapi_fail env ch IDE_ASC_LOGICAL_BLOCK_OOR s
     else atapi_nop env ch (upd_ctl ch d (\<lambda>c. c\<lparr>LbAddress := lb\<rparr>) (CdRomSeek lb s)))"

definition atapi_prevent_removal :: "env \<Rightarrow> nat \<Rightarrow> nat \<Rightarrow> 'z ata_state_scheme \<Rightarrow> 'z ata_state_scheme res" where
  "atapi_prevent_removal env ch d s =
     bindE (Read8 ch d 4 s) (\<lambda>b. atapi_nop env ch (upd_ctl ch d (\<lambda>c. c\<lparr>Locked := b AND 1\<rparr>) s))"

text \<open>The sub-channel bit is read after the byte that holds it was cleared.\<close>

definition atapi_read_sub_channel :: "env \<Rightarrow> nat \<Rightarrow> nat \<Rightarrow> BYTE \<Rightarrow> 'z ata_state_scheme \<Rightarrow> 'z ata_state_scheme res" where
  "atapi_read_sub_channel env ch d cmd s =
     bindE (Read8 ch d 3 s) (\<lambda>fmt.
     bindE (Read16 ch d 7 s) (\<lambda>xlen.
     bindE (put_buf ch d 0 [0, 0, 0, 0] s) (\<lambda>s.
     bindE (Read8 ch d 2 s) (\<lambda>b2.
     if drop_bit 6 b2 AND 1 \<noteq> 0
     then if fmt = 2 \<or> fmt = 3
          then bindE (put_buf ch d 4 [fmt] s) (\<lambda>s.
               bindE (if fmt = 3 then put_buf ch d 5 [0x14, 1] s else Inr s) (\<lambda>s.
               bindE (put_buf ch d 8 [0] s) (\<lambda>s.
               HardDiskReadySendAtapi env ch (HardDiskInitAtapiCommand ch cmd 24 xlen s))))
          else atapi_fail env ch IDE_ASC_INV_FIELD_IN_CMD_PACKET s
     else HardDiskReadySendAtapi env ch (HardDiskInitAtapiCommand ch cmd 4 xlen s)))))"

definition atapi_event_status :: "env \<Rightarrow> nat \<Rightarrow> nat \<Rightarrow> BYTE \<Rightarrow> 'z ata_state_scheme \<Rightarrow> 'z ata_state_scheme res" where
  "atapi_event_status env ch d cmd s =
     bindE (Read16 ch d 7 s) (\<lambda>xlen.
     bindE (Read8 ch d 1 s) (\<lambda>b1.
     if testw b1 1
     then bindE (Read8 ch d 4 s) (\<lambda>b4.
          bindE (if b4 = lsh1 4 then put_buf ch d 0 [0, 4, 4, lsh1 4, 0, lsh1 1, 0, 0] s
                 else put_buf ch d 0 [0, 0, lsh1 7 OR b4, lsh1 4] s) (\<lambda>s.
          let n = (if b4 = lsh1 4 then if xlen \<le> 4 then 4 else 8 else 4)
          in HardDiskReadySendAtapi env ch (HardDiskInitAtapiCommand ch cmd n n s)))
     else atapi_fail env ch IDE_ASC_INV_FIELD_IN_CMD_PACKET s))"

section \<open>The packet\<close>

definition HardDiskPacketCommand :: "env \<Rightarrow> nat \<Rightarrow> nat \<Rightarrow> BYTE \<Rightarrow> 'z ata_state_scheme \<Rightarrow> 'z ata_state_scheme res" where
  "HardDiskPacketCommand env ch d cmd s =
     (if cmd = 0x00 \<or> cmd = 0x1B then atapi_nop env ch s
      else if cmd = 0xBD then atapi_mechanism_status env ch d s
      else if cmd = 0x1A \<or> cmd = 0x5a then atapi_mode_sense env ch d cmd s
      else if cmd = 0x12 then atapi_inquiry env ch d cmd s
      else if cmd = 0x03 then atapi_request_sense env ch d s
      else if cmd = 0x25 then atapi_read_capacity env ch d s
      else if cmd = 0x28 \<or> cmd = 0xA8 then atapi_read env ch d cmd s
      else if cmd = 0xBE then atapi_read_cd env ch d cmd s
      else if cmd = 0x43 then atapi_read_toc env ch d cmd s
      else if cmd = 0x2B then atapi_seek env ch d s
      else if cmd = 0x1e then atapi_prevent_removal env ch d s
      else if cmd = 0x42 then atapi_read_sub_channel env ch d cmd s
      else if cmd = 0x51 then atapi_fail env ch IDE_ASC_INV_FIELD_IN_CMD_PACKET s
      else if cmd = 0x4A then atapi_event_status env ch d cmd s
      else atapi_fail env ch IDE_ASC_ILLEGAL_OPCODE s)"

text \<open>A store through \<open>*(DWORD*)\<close>, \<open>*(WORD*)\<close> or \<open>*(BYTE*)\<close>; other lengths store nothing.\<close>

definition store_value :: "nat \<Rightarrow> nat \<Rightarrow> ULONG \<Rightarrow> ULONG \<Rightarrow> 'z ata_state_scheme \<Rightarrow> 'z ata_state_scheme res" where
  "store_value ch d val len s =
     bindE (if len \<in> {1, 2, 4} then put_buf ch d (unat (BufferIndex (ctl ch d s))) (le_bytes (unat len) val) s else Inr s) (\<lambda>s.
     Inr (upd_ctl ch d (\<lambda>c. c\<lparr>BufferIndex := BufferIndex c + len\<rparr>) s))"

definition HardDiskWritePacket :: "env \<Rightarrow> nat \<Rightarrow> nat \<Rightarrow> ULONG \<Rightarrow> ULONG \<Rightarrow> 'z ata_state_scheme \<Rightarrow> 'z ata_state_scheme res" where
  "HardDiskWritePacket env ch d val len s =
     (if BufferIndex (ctl ch d s) > PACKET_SIZE then Inr s
      else bindE (store_value ch d val len s) (\<lambda>s.
           if BufferIndex (ctl ch d s) < PACKET_SIZE then Inr s
           else let s = upd_ctl ch d (\<lambda>c. c\<lparr>BufferSize := 2048\<rparr>) s
                in bindE (Read8 ch d 0 s) (\<lambda>cmd. HardDiskPacketCommand env ch d cmd s)))"

end
