(* ===== verification/Ata_Ports.thy ===== *)
theory Ata_Ports
  imports Ata_Atapi
begin

text \<open>
  The ports of the drives (\<open>HardDiskPortIoWriteHandler\<close>, \<open>HardDiskPortIoReadHandler\<close>), the seek timer and the
  initialisation of \<open>harddisk.c\<close>. Every command of the command register has a definition of its own;
  \<open>d\<close> is the drive the handler selected when it started.
\<close>

section \<open>Decoding\<close>

definition ata_match :: "ULONG \<Rightarrow> ATA_CHANNEL \<Rightarrow> DWORD option" where
  "ata_match address c =
     (if address AND 0xfff8 = ucast (IoAddr1 c) then Some (address - ucast (IoAddr1 c))
      else if address AND 0xfff8 = ucast (IoAddr2 c) then Some (address - ucast (IoAddr2 c) + 0x10)
      else None)"

fun ata_decode :: "ULONG \<Rightarrow> nat list \<Rightarrow> 'z ata_state_scheme \<Rightarrow> nat \<times> DWORD" where
  "ata_decode address [] s = (0, address - 0x3e0)"
| "ata_decode address (ch # chs) s =
     (case ata_match address (AtaChannel s ch) of Some port \<Rightarrow> (ch, port) | None \<Rightarrow> ata_decode address chs s)"

section \<open>The data port\<close>

text \<open>The next buffer of a multiple-sector command.\<close>

definition multiple_size :: "CONTROLLER \<Rightarrow> DWORD" where
  "multiple_size c =
     (if NumberOfSectors c > ucast (MultipleSectors c) then ucast (MultipleSectors c) * 512 else NumberOfSectors c * 512)"

definition HardDiskWriteData :: "env \<Rightarrow> nat \<Rightarrow> nat \<Rightarrow> ULONG \<Rightarrow> ULONG \<Rightarrow> 'z ata_state_scheme \<Rightarrow> 'z ata_state_scheme res" where
  "HardDiskWriteData env ch d val len s =
     (if BufferIndex (ctl ch d s) \<ge> BufferSize (ctl ch d s) then Inl Exit
      else bindE (store_value ch d val len s) (\<lambda>s.
           if BufferSize (ctl ch d s) > BufferIndex (ctl ch d s) then Inr s
           else bindE (HardDiskWriteSector env ch s) (\<lambda>(ret, s).
                if ret = 0 then Inr s
                else let s = upd_ctl ch d (\<lambda>c.
                           (if CurrentCommand c = 0xC5 \<or> CurrentCommand c = 0x39 then c\<lparr>BufferSize := multiple_size c\<rparr> else c)
                             \<lparr>BufferIndex := 0\<rparr>) s
                     in HardDiskRaiseInterrupt env ch
                          (if NumberOfSectors (ctl ch d s) \<noteq> 0
                           then upd_ctl ch d (status (IDE_STATUS_DRIVE_RDY OR IDE_STATUS_DEV_REQ)
                                  (IDE_STATUS_BUSY OR IDE_STATUS_CORRECTED_DATA OR IDE_STATUS_ERROR)) s
                           else upd_drv ch d (\<lambda>x. x\<lparr>CurrentLSector := NextLSector x\<rparr>)
                                  (upd_ctl ch d (status IDE_STATUS_DRIVE_RDY
                                    (IDE_STATUS_BUSY OR IDE_STATUS_DEV_REQ OR IDE_STATUS_ERROR OR IDE_STATUS_CORRECTED_DATA)) s)))))"

definition load_value :: "nat \<Rightarrow> nat \<Rightarrow> ULONG \<Rightarrow> 'z ata_state_scheme \<Rightarrow> ULONG res" where
  "load_value ch d len s =
     (if len \<in> {1, 2, 4} then bindE (get_buf ch d (unat (BufferIndex (ctl ch d s))) (unat len) s) (\<lambda>bs. Inr (be_word (rev bs)))
      else Inr 0)"

definition advance :: "nat \<Rightarrow> nat \<Rightarrow> ULONG \<Rightarrow> 'z ata_state_scheme \<Rightarrow> 'z ata_state_scheme" where
  "advance ch d len s = upd_ctl ch d (\<lambda>c. c\<lparr>BufferIndex := BufferIndex c + len\<rparr>) s"

text \<open>The buffer was read to its end: the next sectors, or the end of the command.\<close>

definition next_block :: "env \<Rightarrow> nat \<Rightarrow> nat \<Rightarrow> 'z ata_state_scheme \<Rightarrow> 'z ata_state_scheme res" where
  "next_block env ch d s =
     (let s = upd_ctl ch d (\<lambda>c.
            status (IDE_STATUS_DRIVE_RDY OR IDE_STATUS_DEV_SEEK_COMP)
              (IDE_STATUS_BUSY OR IDE_STATUS_WRITE_FAULT OR IDE_STATUS_ERROR OR IDE_STATUS_CORRECTED_DATA)
              (if CurrentCommand c = 0xC4 \<or> CurrentCommand c = 0x29 then c\<lparr>BufferSize := multiple_size c\<rparr> else c)) s;
          s = upd_drv ch d (\<lambda>x. x\<lparr>CurrentLSector := NextLSector x\<rparr>) s
      in if NumberOfSectors (ctl ch d s) \<noteq> 0
         then bindE (HardDiskReadSector ch (upd_ctl ch d (status (IDE_STATUS_DEV_REQ OR IDE_STATUS_DEV_SEEK_COMP) 0) s)) (\<lambda>(_, s).
              HardDiskRaiseInterrupt env ch (upd_ctl ch d (\<lambda>c. c\<lparr>BufferIndex := 0\<rparr>) s))
         else Inr (upd_drv ch d (\<lambda>x. x\<lparr>CurrentLSector := NextLSector x\<rparr>) (upd_ctl ch d (status 0 IDE_STATUS_DEV_REQ) s)))"

definition HardDiskReadData :: "env \<Rightarrow> nat \<Rightarrow> nat \<Rightarrow> ULONG \<Rightarrow> 'z ata_state_scheme \<Rightarrow> (ULONG \<times> 'z ata_state_scheme) res" where
  "HardDiskReadData env ch d len s =
     (let c = ctl ch d s
      in if BufferIndex c \<ge> BufferSize c then Inl Exit
         else if BufferSize c < BufferIndex c + len then Inr (0, s)
         else bindE (load_value ch d len s) (\<lambda>v.
              let s = advance ch d len s
              in if BufferSize (ctl ch d s) > BufferIndex (ctl ch d s) then Inr (v, s)
                 else bindE (next_block env ch d s) (\<lambda>s. Inr (v, s))))"

definition HardDiskReadIdentify :: "nat \<Rightarrow> nat \<Rightarrow> ULONG \<Rightarrow> 'z ata_state_scheme \<Rightarrow> (ULONG \<times> 'z ata_state_scheme) res" where
  "HardDiskReadIdentify ch d len s =
     (let s = upd_ctl ch d (\<lambda>c.
            status (IDE_STATUS_DRIVE_RDY OR IDE_STATUS_DEV_SEEK_COMP)
              (IDE_STATUS_BUSY OR IDE_STATUS_WRITE_FAULT OR IDE_STATUS_CORRECTED_DATA OR IDE_STATUS_ERROR OR
               (if BufferIndex c + len \<ge> 512 then IDE_STATUS_DEV_REQ else 0)) c) s
      in bindE (load_value ch d len s) (\<lambda>v. Inr (v, advance ch d len s)))"

definition packet_block :: "nat \<Rightarrow> nat \<Rightarrow> 'z ata_state_scheme \<Rightarrow> 'z ata_state_scheme res" where
  "packet_block ch d s =
     (let c = ctl ch d s
      in if BufferIndex c = BufferSize c \<and> AtapiCommand (Atapi c) \<in> {0x28, 0xA8, 0xBE}
         then case CdRomReadBlock (LbAddress c) (BufferSize c) s of
                (ret, bs, s) \<Rightarrow>
                  bindE (put_buf ch d 0 bs s) (\<lambda>s.
                  if ret \<noteq> BufferSize c then Inl Exit
                  else Inr (upd_ctl ch d (\<lambda>c. c\<lparr>LbAddress := LbAddress c + 1, RemainingBlocks := RemainingBlocks c - 1, BufferIndex := 0\<rparr>) s))
         else Inr s)"

definition packet_drq :: "CONTROLLER \<Rightarrow> CONTROLLER" where
  "packet_drq c =
     (let a = Atapi c; left = TotalBytesRemaining a - DrqBytes a;
          c = (status 0 IDE_STATUS_DEV_REQ c)\<lparr>DrqIndex := 0, Atapi := a\<lparr>TotalBytesRemaining := left\<rparr>\<rparr>
      in if left > 0
         then let c = status IDE_STATUS_DEV_REQ IDE_STATUS_BUSY (reason 2 1 c);
                  c = (if left < ucast (CylinderNumber c) then c\<lparr>CylinderNumber := ucast left\<rparr> else c)
              in c\<lparr>Atapi := (Atapi c)\<lparr>DrqBytes := ucast (CylinderNumber c)\<rparr>\<rparr>
         else status IDE_STATUS_DRIVE_RDY (IDE_STATUS_BUSY OR IDE_STATUS_DEV_REQ OR IDE_STATUS_ERROR) (reason 3 4 c))"

definition HardDiskReadPacket :: "env \<Rightarrow> nat \<Rightarrow> nat \<Rightarrow> ULONG \<Rightarrow> 'z ata_state_scheme \<Rightarrow> (ULONG \<times> 'z ata_state_scheme) res" where
  "HardDiskReadPacket env ch d len s =
     bindE (packet_block ch d s) (\<lambda>s.
     if BufferIndex (ctl ch d s) > BufferSize (ctl ch d s) then Inr (0, s)
     else bindE (load_value ch d len s) (\<lambda>v.
          let s = upd_ctl ch d (\<lambda>c. c\<lparr>DrqIndex := DrqIndex c + len\<rparr>) (advance ch d len s)
          in if DrqIndex (ctl ch d s) \<ge> DrqBytes (Atapi (ctl ch d s))
             then bindE (HardDiskRaiseInterrupt env ch (upd_ctl ch d packet_drq s)) (\<lambda>s. Inr (v, s))
             else Inr (v, s)))"

section \<open>The command register\<close>

definition cmd_recalibrate :: "env \<Rightarrow> nat \<Rightarrow> nat \<Rightarrow> 'z ata_state_scheme \<Rightarrow> 'z ata_state_scheme res" where
  "cmd_recalibrate env ch d s =
     (if DriveType (drv ch d s) \<noteq> DRIVE_TYPE_DISK then HardDiskCommandAborted env ch s
      else if DriveType (drv ch d s) = 0
      then HardDiskRaiseInterrupt env ch (upd_ctl ch d (\<lambda>c.
             (status (IDE_STATUS_DRIVE_RDY OR IDE_STATUS_ERROR) (IDE_STATUS_BUSY OR IDE_STATUS_DEV_SEEK_COMP OR IDE_STATUS_DEV_REQ) c)
               \<lparr>ErrorRegister := 0x02\<rparr>) s)
      else HardDiskRaiseInterrupt env ch (upd_ctl ch d (\<lambda>c.
             (status (IDE_STATUS_DRIVE_RDY OR IDE_STATUS_DEV_SEEK_COMP) (IDE_STATUS_BUSY OR IDE_STATUS_DEV_REQ) c)
               \<lparr>ErrorRegister := 0, CylinderNumber := 0\<rparr>) s))"

definition chs_origin :: "CONTROLLER \<Rightarrow> bool" where
  "chs_origin c \<longleftrightarrow> AddressMode c = 0 \<and> HeadNumber c = 0 \<and> CylinderNumber c = 0 \<and> SectorNumber c = 0"

definition set_address :: "nat \<Rightarrow> nat \<Rightarrow> ULONG64 \<Rightarrow> BYTE \<Rightarrow> 'z ata_state_scheme \<Rightarrow> 'z ata_state_scheme" where
  "set_address ch d lb cmd s =
     upd_ctl ch d (\<lambda>c. c\<lparr>CurrentCommand := cmd\<rparr>) (upd_drv ch d (\<lambda>x. x\<lparr>NextLSector := lb\<rparr>) s)"

definition cmd_read :: "env \<Rightarrow> nat \<Rightarrow> nat \<Rightarrow> BYTE \<Rightarrow> BYTE \<Rightarrow> 'z ata_state_scheme \<Rightarrow> 'z ata_state_scheme res" where
  "cmd_read env ch d cmd ext s =
     (if DriveType (drv ch d s) \<noteq> DRIVE_TYPE_DISK then HardDiskCommandAborted env ch s
      else if chs_origin (ctl ch d s) then HardDiskCommandAborted env ch s
      else let s = HardDiskLba48Transform ch ext s; multiple = (cmd = 0xC4 \<or> cmd = 0x29)
           in if multiple \<and> MultipleSectors (ctl ch d s) = 0 then HardDiskCommandAborted env ch s
              else let s = upd_ctl ch d (\<lambda>c. c\<lparr>BufferSize := if multiple then multiple_size c else 512\<rparr>) s;
                       lb = HardDiskCalculateLogicalAddress ch s
                   in if lb = - 1 then HardDiskCommandAborted env ch s
                      else let s = upd_ctl ch d (\<lambda>c.
                                 (status (IDE_STATUS_BUSY OR IDE_STATUS_DRIVE_RDY)
                                   (IDE_STATUS_DEV_SEEK_COMP OR IDE_STATUS_DEV_REQ OR IDE_STATUS_CORRECTED_DATA) c)
                                   \<lparr>ErrorRegister := 0, BufferIndex := 0\<rparr>) (set_address ch d lb cmd s)
                           in bindE (HardDiskReadSector ch s) (\<lambda>(ret, s).
                              if ret = 0 then HardDiskCommandAborted env ch s
                              else Inr (upd_ctl ch d (status IDE_STATUS_DEV_REQ IDE_STATUS_BUSY) s)))"

definition cmd_verify :: "env \<Rightarrow> nat \<Rightarrow> nat \<Rightarrow> BYTE \<Rightarrow> 'z ata_state_scheme \<Rightarrow> 'z ata_state_scheme res" where
  "cmd_verify env ch d ext s =
     (if DriveType (drv ch d s) \<noteq> DRIVE_TYPE_DISK then HardDiskCommandAborted env ch s
      else HardDiskRaiseInterrupt env ch
             (upd_ctl ch d (status IDE_STATUS_DRIVE_RDY (IDE_STATUS_BUSY OR IDE_STATUS_DEV_REQ)) (HardDiskLba48Transform ch ext s)))"

text \<open>The first buffer is written before the guest has sent any data.\<close>

definition cmd_write :: "env \<Rightarrow> nat \<Rightarrow> nat \<Rightarrow> BYTE \<Rightarrow> BYTE \<Rightarrow> 'z ata_state_scheme \<Rightarrow> 'z ata_state_scheme res" where
  "cmd_write env ch d cmd ext s =
     (if DriveType (drv ch d s) \<noteq> DRIVE_TYPE_DISK then HardDiskCommandAborted env ch s
      else let s = HardDiskLba48Transform ch ext s; multiple = (cmd = 0xC5 \<or> cmd = 0x39)
           in if multiple \<and> MultipleSectors (ctl ch d s) = 0 then HardDiskCommandAborted env ch s
              else let s = upd_ctl ch d (\<lambda>c. c\<lparr>BufferSize := if multiple then multiple_size c else 512\<rparr>) s;
                       lb = HardDiskCalculateLogicalAddress ch s
                   in if lb = - 1 then HardDiskCommandAborted env ch s
                      else let s = upd_ctl ch d (\<lambda>c.
                                 (status (IDE_STATUS_DEV_SEEK_COMP OR IDE_STATUS_DEV_REQ) IDE_STATUS_BUSY c)
                                   \<lparr>ErrorRegister := 0, BufferIndex := 0\<rparr>) (set_address ch d lb cmd s)
                           in bindE (HardDiskWriteSector env ch s) (\<lambda>(ret, s).
                              if ret = 0 then HardDiskCommandAborted env ch s else Inr s))"

definition cmd_diagnostic :: "env \<Rightarrow> nat \<Rightarrow> nat \<Rightarrow> 'z ata_state_scheme \<Rightarrow> 'z ata_state_scheme res" where
  "cmd_diagnostic env ch d s =
     HardDiskRaiseInterrupt env ch (upd_ctl ch d (\<lambda>c. (status 0 IDE_STATUS_DEV_REQ c)\<lparr>ErrorRegister := 0x01\<rparr>)
       (HardDiskSetSignature ch d s))"

definition cmd_set_parameters :: "env \<Rightarrow> nat \<Rightarrow> nat \<Rightarrow> 'z ata_state_scheme \<Rightarrow> 'z ata_state_scheme res" where
  "cmd_set_parameters env ch d s =
     (let c = ctl ch d s
      in if DriveType (drv ch d s) \<noteq> DRIVE_TYPE_DISK then HardDiskCommandAborted env ch s
         else if ucast (SectorCount c) \<noteq> HARDDISK_SECTORS then HardDiskCommandAborted env ch s
         else if HeadNumber c = 0 then Inl Exit
         else if ucast (HeadNumber c) \<noteq> HARDDISK_HEADS - 1 then HardDiskCommandAborted env ch s
         else HardDiskRaiseInterrupt env ch
                (upd_ctl ch d (status IDE_STATUS_DRIVE_RDY (IDE_STATUS_BUSY OR IDE_STATUS_DEV_REQ)) s))"

text \<open>A string of ASCII characters as words, the first character of a pair in the high byte.\<close>

definition id_pairs :: "nat \<Rightarrow> BYTE list \<Rightarrow> nat \<Rightarrow> (nat \<times> USHORT) list" where
  "id_pairs off bs n = map (\<lambda>i. (off + i, push_bit 8 (ucast (bs ! (i * 2))) OR ucast (bs ! (i * 2 + 1)))) [0 ..< n]"

definition set_words :: "(nat \<times> USHORT) list \<Rightarrow> USHORT list" where
  "set_words ps = fold (\<lambda>(i, v) ws. ws[i := v]) ps (replicate 256 0)"

definition serial_number :: "BYTE list" where
  "serial_number = map of_char ''BXHD00000           '' @ [0]"

definition identify_geometry :: "nat \<Rightarrow> BYTE \<Rightarrow> DRIVE \<Rightarrow> (nat \<times> USHORT) list" where
  "identify_geometry ch select x =
     (let cyls = (if Cylinders x > 16383 then 16383 else ucast (Cylinders x)); chs = Cylinders x * Heads x * Spt x
      in [(0, 0x0040), (1, cyls), (3, ucast (Heads x)), (4, ucast (512 * Spt x)), (5, 512), (6, ucast (Spt x))] @
         id_pairs 10 (serial_number[7 := of_nat ch + 49, 8 := select + 49]) 10 @
         [(20, 3), (21, 512), (22, 4)] @ map (\<lambda>i. (i, 0)) [23 ..< 27] @ id_pairs 27 (Model x) 20 @
         [(47, of_nat MAX_MULTIPLE_SECTORS), (48, 1), (49, lsh1 9 OR lsh1 8), (51, 0x200), (52, 0x200), (53, 0x07),
          (54, cyls), (55, ucast (Heads x)), (56, ucast (Spt x)), (57, ucast (chs AND 0xffff)), (58, ucast (drop_bit 16 chs))])"

definition identify_features :: "ULONG64 \<Rightarrow> DRIVE \<Rightarrow> (nat \<times> USHORT) list" where
  "identify_features disk x =
     (let c = Controller x; total = (if disk > 0 then disk div 512 else Cylinders x * Heads x * Spt x)
      in [(59, 0x0100 OR of_nat MAX_MULTIPLE_SECTORS), (60, ucast (total AND 0xffff)), (61, ucast (drop_bit 16 total AND 0xffff)),
          (62, 0x0), (63, 0x07 OR push_bit 8 (ucast (MdmaMode c))), (64, 0x00), (65, 120), (66, 120), (67, 120), (68, 120),
          (80, 0x7E), (81, 0x00), (82, lsh1 14), (83, lsh1 14 OR lsh1 13 OR lsh1 12 OR lsh1 10), (84, lsh1 14), (85, lsh1 14),
          (86, lsh1 14 OR lsh1 13 OR lsh1 12 OR lsh1 10), (87, lsh1 14), (88, 0x3f OR push_bit 8 (ucast (UdmaMode c))),
          (93, 1 OR lsh1 14 OR 0x2000), (100, ucast (total AND 0xffff)), (101, ucast (drop_bit 16 total)),
          (102, ucast (drop_bit 32 total)), (103, ucast (drop_bit 48 total)), (106, 0), (117, 0), (118, 0)])"

definition identify_words :: "nat \<Rightarrow> BYTE \<Rightarrow> ULONG64 \<Rightarrow> DRIVE \<Rightarrow> (nat \<times> USHORT) list" where
  "identify_words ch select disk x = identify_geometry ch select x @ identify_features disk x"

definition word_bytes :: "USHORT list \<Rightarrow> BYTE list" where
  "word_bytes ws = concat (map (\<lambda>w. [ucast (w AND 0xff), ucast (drop_bit 8 w)]) ws)"

text \<open>The identification is computed once, until the transfer mode changes, and copied into the buffer.\<close>

definition send_identity :: "env \<Rightarrow> nat \<Rightarrow> nat \<Rightarrow> (nat \<times> USHORT) list \<Rightarrow> 'z ata_state_scheme \<Rightarrow> 'z ata_state_scheme res" where
  "send_identity env ch d words s =
     (let s = (if IdentifySet (drv ch d s) = 0 then upd_drv ch d (\<lambda>x. x\<lparr>DriveId := set_words words, IdentifySet := 1\<rparr>) s else s)
      in bindE (put_buf ch d 0 (word_bytes (DriveId (drv ch d s))) s) (HardDiskRaiseInterrupt env ch))"

definition identify_status :: "BYTE \<Rightarrow> CONTROLLER \<Rightarrow> CONTROLLER" where
  "identify_status cmd c =
     (status (IDE_STATUS_DRIVE_RDY OR IDE_STATUS_DEV_REQ OR IDE_STATUS_DEV_SEEK_COMP)
       (IDE_STATUS_BUSY OR IDE_STATUS_CORRECTED_DATA OR IDE_STATUS_WRITE_FAULT) c)\<lparr>CurrentCommand := cmd, ErrorRegister := 0\<rparr>"

definition cmd_identify :: "env \<Rightarrow> nat \<Rightarrow> nat \<Rightarrow> BYTE \<Rightarrow> 'z ata_state_scheme \<Rightarrow> 'z ata_state_scheme res" where
  "cmd_identify env ch d cmd s =
     (if DriveType (drv ch d s) = 0 then HardDiskCommandAborted env ch s
      else if DriveType (drv ch d s) = DRIVE_TYPE_CDROM
      then bindE (HardDiskCommandAborted env ch s) (\<lambda>s. Inr (HardDiskSetSignature ch d s))
      else let s = upd_ctl ch d (identify_status cmd) s
           in send_identity env ch d (identify_words ch (DriveSelect (AtaChannel s ch)) (VhdGetHardDiskSize s) (drv ch d s)) s)"

definition cmd_set_feature :: "env \<Rightarrow> nat \<Rightarrow> nat \<Rightarrow> 'z ata_state_scheme \<Rightarrow> 'z ata_state_scheme res" where
  "cmd_set_feature env ch d s =
     (let c = ctl ch d s; f = Features c; mode = drop_bit 3 (SectorCount c); n = unat (SectorCount c AND 7);
          ready = status (IDE_STATUS_DRIVE_RDY OR IDE_STATUS_DEV_SEEK_COMP) 0;
          transfer = (\<lambda>m u. HardDiskRaiseInterrupt env ch (upd_ctl ch d (\<lambda>c. ready (c\<lparr>MdmaMode := m, UdmaMode := u\<rparr>)) s))
      in if f = 0x03
         then bindE (if mode = 0x00 \<or> mode = 0x01 then transfer 0 0
                     else if mode = 0x04 then transfer (lsh1 n) 0
                     else if mode = 0x08 then transfer 0 (lsh1 n)
                     else HardDiskCommandAborted env ch s) (\<lambda>s. Inr (upd_drv ch d (\<lambda>x. x\<lparr>IdentifySet := 0\<rparr>) s))
         else if f \<in> {0x02, 0x82, 0xAA, 0x55, 0xCC, 0x66} then HardDiskRaiseInterrupt env ch (upd_ctl ch d ready s)
         else Inr s)"

definition cmd_set_multiple :: "env \<Rightarrow> nat \<Rightarrow> nat \<Rightarrow> 'z ata_state_scheme \<Rightarrow> 'z ata_state_scheme res" where
  "cmd_set_multiple env ch d s =
     (let c = ctl ch d s
      in if DriveType (drv ch d s) \<noteq> DRIVE_TYPE_DISK then HardDiskCommandAborted env ch s
         else if ucast (SectorCount c) > HARDDISK_SECTORS \<or> SectorCount c = 0 then HardDiskCommandAborted env ch s
         else HardDiskRaiseInterrupt env ch (upd_ctl ch d (\<lambda>c.
                (status IDE_STATUS_DRIVE_RDY (IDE_STATUS_BUSY OR IDE_STATUS_WRITE_FAULT OR IDE_STATUS_DEV_REQ) c)
                  \<lparr>MultipleSectors := SectorCount c\<rparr>) s))"

definition cmd_packet :: "env \<Rightarrow> nat \<Rightarrow> nat \<Rightarrow> BYTE \<Rightarrow> 'z ata_state_scheme \<Rightarrow> 'z ata_state_scheme res" where
  "cmd_packet env ch d cmd s =
     (if DriveType (drv ch d s) \<noteq> DRIVE_TYPE_CDROM then HardDiskCommandAborted env ch s
      else let s = upd_ctl ch d (\<lambda>c. c\<lparr>PacketDma := Features c AND 1\<rparr>) s
           in if testw (PacketDma (ctl ch d s)) 2 then HardDiskCommandAborted env ch s
              else Inr (upd_ctl ch d (\<lambda>c.
                     (status IDE_STATUS_DEV_REQ (IDE_STATUS_BUSY OR IDE_STATUS_WRITE_FAULT) c)
                       \<lparr>SectorCount := 1, CurrentCommand := cmd, BufferIndex := 0\<rparr>) s))"

definition atapi_identify_words :: "BYTE \<Rightarrow> DRIVE \<Rightarrow> (nat \<times> USHORT) list" where
  "atapi_identify_words select x =
     [(0, push_bit 14 2 OR push_bit 8 5 OR lsh1 7 OR push_bit 5 2)] @ id_pairs 10 (serial_number[8 := select]) 10 @
     id_pairs 23 (map of_char ''ALPHA1  '') 4 @ id_pairs 27 (Model x) (length (takeWhile (\<lambda>b. b \<noteq> 0) (Model x)) div 2) @
     [(47, 0), (48, 1), (49, lsh1 9 OR lsh1 8), (50, 0), (51, 0), (52, 0), (53, 3)] @ map (\<lambda>i. (i, 0)) [54 ..< 63] @
     [(63, 0x07 OR push_bit 8 (ucast (MdmaMode (Controller x)))), (64, 0x0001), (65, 0x00b4), (66, 0x00b4), (67, 0x012c), (68, 0x00b4),
      (69, 0), (70, 0), (71, 30), (72, 30), (73, 0), (74, 0), (75, 0)] @ map (\<lambda>i. (i, 0)) [76 ..< 80] @
     [(80, 0x1e)] @ map (\<lambda>i. (i, 0)) [81 ..< 89]"

definition cmd_atapi_identify :: "env \<Rightarrow> nat \<Rightarrow> nat \<Rightarrow> BYTE \<Rightarrow> 'z ata_state_scheme \<Rightarrow> 'z ata_state_scheme res" where
  "cmd_atapi_identify env ch d cmd s =
     (if DriveType (drv ch d s) \<noteq> DRIVE_TYPE_CDROM then HardDiskCommandAborted env ch s
      else let s = upd_ctl ch d (\<lambda>c. (identify_status cmd c)\<lparr>BufferIndex := 0\<rparr>) s
           in send_identity env ch d (atapi_identify_words (DriveSelect (AtaChannel s ch)) (drv ch d s)) s)"

definition cmd_atapi_reset :: "env \<Rightarrow> nat \<Rightarrow> nat \<Rightarrow> 'z ata_state_scheme \<Rightarrow> 'z ata_state_scheme res" where
  "cmd_atapi_reset env ch d s =
     (if DriveType (drv ch d s) \<noteq> DRIVE_TYPE_CDROM then HardDiskCommandAborted env ch s
      else Inr (upd_ctl ch d (\<lambda>c.
             (status 0 (IDE_STATUS_BUSY OR IDE_STATUS_WRITE_FAULT OR IDE_STATUS_CORRECTED_DATA OR IDE_STATUS_DEV_REQ) c)
               \<lparr>ErrorRegister := ErrorRegister c AND NOT (lsh1 7)\<rparr>) (HardDiskSetSignature ch d s)))"

definition cmd_power :: "env \<Rightarrow> nat \<Rightarrow> nat \<Rightarrow> BYTE \<Rightarrow> 'z ata_state_scheme \<Rightarrow> 'z ata_state_scheme res" where
  "cmd_power env ch d cmd s =
     HardDiskRaiseInterrupt env ch (upd_ctl ch d (\<lambda>c.
       status IDE_STATUS_DRIVE_RDY (IDE_STATUS_BUSY OR IDE_STATUS_WRITE_FAULT OR IDE_STATUS_DEV_REQ)
         (if cmd = 0xE5 then c\<lparr>SectorCount := 0xff\<rparr> else c)) s)"

definition cmd_seek :: "env \<Rightarrow> nat \<Rightarrow> nat \<Rightarrow> BYTE \<Rightarrow> 'z ata_state_scheme \<Rightarrow> 'z ata_state_scheme res" where
  "cmd_seek env ch d cmd s =
     (if DriveType (drv ch d s) \<noteq> DRIVE_TYPE_DISK then HardDiskCommandAborted env ch s
      else let lb = HardDiskCalculateLogicalAddress ch s
           in if lb = - 1 then HardDiskCommandAborted env ch s
              else Inr (upd_ctl ch d (\<lambda>c.
                     (status (IDE_STATUS_BUSY OR IDE_STATUS_DRIVE_RDY)
                       (IDE_STATUS_CORRECTED_DATA OR IDE_STATUS_DEV_REQ OR IDE_STATUS_DEV_SEEK_COMP) c)\<lparr>ErrorRegister := 0\<rparr>)
                     (set_address ch d lb cmd s)))"

definition cmd_read_dma :: "env \<Rightarrow> nat \<Rightarrow> nat \<Rightarrow> BYTE \<Rightarrow> BYTE \<Rightarrow> 'z ata_state_scheme \<Rightarrow> 'z ata_state_scheme res" where
  "cmd_read_dma env ch d cmd ext s =
     bindE (if DriveType (drv ch d s) \<noteq> DRIVE_TYPE_DISK then Inr 0 else IdeBdmaPresent s) (\<lambda>present.
     if present = 0 then HardDiskCommandAborted env ch s
     else let s = HardDiskLba48Transform ch ext s; lb = HardDiskCalculateLogicalAddress ch s
          in if lb = - 1 then HardDiskCommandAborted env ch s
             else Inr (upd_ctl ch d (\<lambda>c.
                    (status (IDE_STATUS_BUSY OR IDE_STATUS_DRIVE_RDY)
                      (IDE_STATUS_CORRECTED_DATA OR IDE_STATUS_DEV_REQ OR IDE_STATUS_DEV_SEEK_COMP) c)\<lparr>ErrorRegister := 0\<rparr>)
                    (set_address ch d lb cmd s)))"

definition cmd_write_dma :: "env \<Rightarrow> nat \<Rightarrow> nat \<Rightarrow> BYTE \<Rightarrow> BYTE \<Rightarrow> 'z ata_state_scheme \<Rightarrow> 'z ata_state_scheme res" where
  "cmd_write_dma env ch d cmd ext s =
     bindE (if DriveType (drv ch d s) \<noteq> DRIVE_TYPE_DISK then Inr 0 else IdeBdmaPresent s) (\<lambda>present.
     if present = 0 then HardDiskCommandAborted env ch s
     else let s = HardDiskLba48Transform ch ext s; lb = HardDiskCalculateLogicalAddress ch s
          in if lb = - 1 then HardDiskCommandAborted env ch s
             else Inr (upd_ctl ch d (status (IDE_STATUS_DRIVE_RDY OR IDE_STATUS_DEV_SEEK_COMP OR IDE_STATUS_DEV_REQ) 0)
                    (set_address ch d lb cmd s)))"

definition cmd_native_max :: "env \<Rightarrow> nat \<Rightarrow> nat \<Rightarrow> BYTE \<Rightarrow> 'z ata_state_scheme \<Rightarrow> 'z ata_state_scheme res" where
  "cmd_native_max env ch d ext s =
     (if DriveType (drv ch d s) \<noteq> DRIVE_TYPE_DISK \<or> AddressMode (ctl ch d s) = 0 then HardDiskCommandAborted env ch s
      else let s = HardDiskLba48Transform ch ext s; last = VhdGetHardDiskSize s div 512 - 1
           in HardDiskRaiseInterrupt env ch (upd_ctl ch d (\<lambda>c.
                status (IDE_STATUS_DRIVE_RDY OR IDE_STATUS_DEV_SEEK_COMP) 0
                  (if Lba48 c \<noteq> 0 then put_lba48 last c
                   else (put_lba28 last c)\<lparr>HeadNumber := ucast (drop_bit 24 last AND 0xf)\<rparr>)) s))"

definition HardDiskCommand :: "env \<Rightarrow> nat \<Rightarrow> nat \<Rightarrow> ULONG \<Rightarrow> 'z ata_state_scheme \<Rightarrow> 'z ata_state_scheme res" where
  "HardDiskCommand env ch d val s =
     (let cmd = (ucast val :: BYTE)
      in if val = 0x10 then cmd_recalibrate env ch d s
         else if val = 0x24 \<or> val = 0x29 then cmd_read env ch d cmd 1 s
         else if val = 0x20 \<or> val = 0x21 \<or> val = 0xC4 then cmd_read env ch d cmd 0 s
         else if val = 0x42 then cmd_verify env ch d 1 s
         else if val = 0x40 \<or> val = 0x41 then cmd_verify env ch d 0 s
         else if val = 0x34 \<or> val = 0x39 then cmd_write env ch d cmd 1 s
         else if val = 0x30 \<or> val = 0xC5 then cmd_write env ch d cmd 0 s
         else if val = 0x90 then cmd_diagnostic env ch d s
         else if val = 0x91 then cmd_set_parameters env ch d s
         else if val = 0xEC then cmd_identify env ch d cmd s
         else if val = 0xEF then cmd_set_feature env ch d s
         else if val = 0xC6 then cmd_set_multiple env ch d s
         else if val = 0xA0 then cmd_packet env ch d cmd s
         else if val = 0xA1 then cmd_atapi_identify env ch d cmd s
         else if val = 0x08 then cmd_atapi_reset env ch d s
         else if val = 0xE5 \<or> val = 0xE0 \<or> val = 0xE1 \<or> val = 0xE7 \<or> val = 0xEA then cmd_power env ch d cmd s
         else if val = 0x70 then cmd_seek env ch d cmd s
         else if val = 0x25 then cmd_read_dma env ch d cmd 1 s
         else if val = 0xC8 then cmd_read_dma env ch d cmd 0 s
         else if val = 0x35 then cmd_write_dma env ch d cmd 1 s
         else if val = 0xCA then cmd_write_dma env ch d cmd 0 s
         else if val = 0x27 then cmd_native_max env ch d 1 s
         else if val = 0xF8 then cmd_native_max env ch d 0 s
         else HardDiskCommandAborted env ch s)"

section \<open>The control register\<close>

definition reset_drive :: "CONTROLLER \<Rightarrow> CONTROLLER" where
  "reset_drive c =
     (status (IDE_STATUS_BUSY OR IDE_STATUS_DEV_SEEK_COMP)
       (IDE_STATUS_DRIVE_RDY OR IDE_STATUS_WRITE_FAULT OR IDE_STATUS_DEV_REQ OR IDE_STATUS_CORRECTED_DATA OR IDE_STATUS_ERROR) c)
       \<lparr>ResetInProgress := 1, ErrorRegister := 1, CurrentCommand := 0, BufferIndex := 0, MultipleSectors := 0, AddressMode := 0,
        DisableIrq := 0\<rparr>"

definition HardDiskControl :: "nat \<Rightarrow> nat \<Rightarrow> ULONG \<Rightarrow> 'z ata_state_scheme \<Rightarrow> 'z ata_state_scheme" where
  "HardDiskControl ch d val s =
     (let prev = Reset (ctl ch d s);
          s = upd_both ch (\<lambda>c. c\<lparr>Reset := ucast (val AND 0x04), DisableIrq := ucast (val AND 0x02)\<rparr>) s
      in if prev = 0 \<and> Reset (ctl ch d s) \<noteq> 0
         then fold (\<lambda>i s. PicLowerIrq (upd_ctl ch i reset_drive s) (Irq (AtaChannel s ch))) [0, 1] s
         else if ResetInProgress (ctl ch d s) \<noteq> 0 \<and> Reset (ctl ch d s) = 0
         then fold (\<lambda>i s. HardDiskSetSignature ch d
                (upd_ctl ch i (\<lambda>c. (status IDE_STATUS_DRIVE_RDY IDE_STATUS_BUSY c)\<lparr>ResetInProgress := 0\<rparr>) s)) [0, 1] s
         else s)"

section \<open>The handlers\<close>

definition HardDiskPortIoWriteHandler ::
  "env \<Rightarrow> ULONG \<Rightarrow> ULONG \<Rightarrow> ULONG \<Rightarrow> 'z ata_state_scheme \<Rightarrow> 'z ata_state_scheme res" where
  "HardDiskPortIoWriteHandler env address val len s =
     (case ata_decode address [0 ..< 4] s of
        (ch, port) \<Rightarrow>
          let d = dnum ch s
          in if port = 0
             then if CurrentCommand (ctl ch d s) \<in> {0x30, 0xC5, 0x34, 0x39} then HardDiskWriteData env ch d val len s
                  else if CurrentCommand (ctl ch d s) = 0xA0 then HardDiskWritePacket env ch d val len s
                  else Inr s
             else if port = 1 then Inr (upd_both ch (\<lambda>c. c\<lparr>Features := ucast val\<rparr>) s)
             else if port = 2 then Inr (upd_both ch (\<lambda>c. c\<lparr>SectorCount := ucast val\<rparr>) s)
             else if port = 3 then Inr (upd_both ch (\<lambda>c. c\<lparr>SectorNumber := ucast val\<rparr>) s)
             else if port = 4
             then Inr (upd_both ch (\<lambda>c. c\<lparr>CylinderNumber := (CylinderNumber c AND 0xff00) OR ucast (val AND 0xff)\<rparr>) s)
             else if port = 5
             then Inr (upd_both ch (\<lambda>c. c\<lparr>CylinderNumber := push_bit 8 (ucast (val AND 0xff)) OR (CylinderNumber c AND 0xff)\<rparr>) s)
             else if port = 6
             then Inr (upd_both ch (\<lambda>c. c\<lparr>AddressMode := ucast (val AND lsh1 6), HeadNumber := ucast (val AND 0xf)\<rparr>)
                        (upd_chan ch (\<lambda>c. c\<lparr>DriveSelect := ucast (val AND lsh1 4)\<rparr>) s))
             else if port = 7
             then if d \<noteq> 0 then Inr s
                  else let s = PicLowerIrq s (Irq (AtaChannel s ch))
                       in if testw (Status (ctl ch d s)) IDE_STATUS_BUSY then Inr s
                          else HardDiskCommand env ch d (if val AND 0xf0 = 0x10 then 0x10 else val)
                                 (upd_ctl ch d (status 0 IDE_STATUS_ERROR) s)
             else if port = 0x16 then Inr (HardDiskControl ch d val s)
             else Inr s)"

definition HardDiskReadDataPort ::
  "env \<Rightarrow> nat \<Rightarrow> nat \<Rightarrow> ULONG \<Rightarrow> 'z ata_state_scheme \<Rightarrow> (ULONG \<times> 'z ata_state_scheme) res" where
  "HardDiskReadDataPort env ch d len s =
     (let c = ctl ch d s
      in if \<not> testw (Status c) IDE_STATUS_DEV_REQ then Inr (0, s)
         else if CurrentCommand c \<in> {0x20, 0x21, 0xC4, 0x24, 0x29} then HardDiskReadData env ch d len s
         else if CurrentCommand c \<in> {0xEC, 0xA1} then HardDiskReadIdentify ch d len s
         else if CurrentCommand c = 0xA0 then HardDiskReadPacket env ch d len s
         else Inr (0, s))"

text \<open>The alternate status register: the index pulse comes with every eleventh read.\<close>

definition index_pulse :: "CONTROLLER \<Rightarrow> CONTROLLER" where
  "index_pulse c =
     (let c = (status 0 IDE_STATUS_INDEX_PULSE c)\<lparr>IndexPulse := IndexPulse c + 1\<rparr>
      in if IndexPulse c > 10 then (status IDE_STATUS_INDEX_PULSE 0 c)\<lparr>IndexPulse := 0\<rparr> else c)"

definition HardDiskPortIoReadHandler ::
  "env \<Rightarrow> ULONG \<Rightarrow> ULONG \<Rightarrow> 'z ata_state_scheme \<Rightarrow> (ULONG \<times> 'z ata_state_scheme) res" where
  "HardDiskPortIoReadHandler env address len s =
     (case ata_decode address [0 ..< 4] s of
        (ch, port) \<Rightarrow>
          let d = dnum ch s; c = ctl ch d s; present = DriveType (drv ch d s) \<noteq> 0
          in if port = 0 then HardDiskReadDataPort env ch d len s
             else if port = 1 then Inr (if present then ucast (ErrorRegister c) else 0, s)
             else if port = 2 then Inr (if present then ucast (SectorCount c) else 0, s)
             else if port = 3 then Inr (if present then ucast (SectorNumber c) else 0, s)
             else if port = 4 then Inr (if present then ucast (CylinderNumber c AND 0xff) else 0, s)
             else if port = 5 then Inr (if present then ucast (drop_bit 8 (CylinderNumber c) AND 0xff) else 0, s)
             else if port = 6
             then Inr (lsh1 7 OR ucast (AddressMode c) OR lsh1 5 OR ucast (DriveSelect (AtaChannel s ch)) OR ucast (HeadNumber c AND 0xf), s)
             else if port = 7
             then Inr (if present then (ucast (Status c), PicLowerIrq s (Irq (AtaChannel s ch))) else (0, s))
             else if port = 0x16
             then Inr (if present then (ucast (Status (index_pulse c)), upd_ctl ch d index_pulse s) else (0, s))
             else if port = 0x17 then Inr (0xff, s)
             else Inr (0, s))"

section \<open>The seek timer\<close>

definition seek_done :: "CONTROLLER \<Rightarrow> CONTROLLER" where
  "seek_done c =
     (status (IDE_STATUS_DRIVE_RDY OR IDE_STATUS_DEV_SEEK_COMP OR IDE_STATUS_DEV_REQ) (IDE_STATUS_BUSY OR IDE_STATUS_CORRECTED_DATA) c)
       \<lparr>ErrorRegister := 0\<rparr>"

definition HardDiskSeekTimer :: "env \<Rightarrow> 'z ata_state_scheme \<Rightarrow> 'z ata_state_scheme res" where
  "HardDiskSeekTimer env s =
     foldE (\<lambda>i s.
       let d = dnum i s; cmd = CurrentCommand (ctl i d s)
       in if DriveType (drv i d s) = DRIVE_TYPE_DISK
          then if cmd \<in> {0x24, 0x29, 0x20, 0x21, 0xC4, 0x70}
               then HardDiskRaiseInterrupt env i (upd_ctl i d (\<lambda>c. (seek_done c)\<lparr>BufferIndex := 0\<rparr>) s)
               else if cmd \<in> {0x25, 0xC8} then Inr (IdeStartTransfer i (upd_ctl i d seek_done s))
               else Inr s
          else if DriveType (drv i d s) = DRIVE_TYPE_CDROM
          then if AtapiCommand (Atapi (ctl i d s)) \<in> {0x28, 0xA8, 0xBE} then HardDiskReadySendAtapi env i s else Inr s
          else Inr s) [0 ..< 2] s"

section \<open>Initialisation\<close>

definition ata_calloc :: "env \<Rightarrow> nat \<Rightarrow> nat \<Rightarrow> 'z ata_state_scheme \<Rightarrow> 'z ata_state_scheme" where
  "ata_calloc env ch n s =
     (case ask_env env (Calloc n) s of (ok, s) \<Rightarrow> upd_ctl ch 0 (\<lambda>c. c\<lparr>Buffer := if ok then Some (replicate n 0) else None\<rparr>) s)"

definition ata_ports :: "env \<Rightarrow> ULONG \<Rightarrow> nat \<Rightarrow> 'z ata_state_scheme \<Rightarrow> 'z ata_state_scheme res" where
  "ata_ports env address n s =
     foldE (\<lambda>i s. RegisterPortIoHandler env s (address + of_nat i) (Some HardDiskPort) (Some HardDiskPort)) [0 ..< n] s"

definition init_controller :: "CONTROLLER \<Rightarrow> CONTROLLER" where
  "init_controller c = c\<lparr>Status := IDE_STATUS_DRIVE_RDY OR IDE_STATUS_DEV_SEEK_COMP, ErrorRegister := 1, SectorCount := 1, SectorNumber := 1\<rparr>"

definition init_channel :: "nat \<Rightarrow> USHORT \<Rightarrow> USHORT \<Rightarrow> BYTE \<Rightarrow> 'z ata_state_scheme \<Rightarrow> 'z ata_state_scheme" where
  "init_channel ch a1 a2 irq s = upd_chan ch (\<lambda>c. c\<lparr>IoAddr1 := a1, IoAddr2 := a2, Irq := irq\<rparr>) s"

definition ata_cmos :: "'z ata_state_scheme \<Rightarrow> 'z ata_state_scheme" where
  "ata_cmos s =
     (let cyls = Cylinders (drv 0 0 s);
          set = (\<lambda>r v s. CmosSetRegister s r v);
          s = set 0x12 0 s; s = set 0x12 ((CmosGetRegister s 0x12 AND 0x0f) OR 0xf0) s; s = set 0x19 47 s;
          s = set 0x1b (ucast (cyls AND 0x00ff)) s; s = set 0x1c (ucast (drop_bit 8 (cyls AND 0xff00))) s; s = set 0x1d 16 s;
          s = set 0x1e 0xff s; s = set 0x1f 0xff s; s = set 0x20 (0xc0 OR push_bit 3 1) s;
          s = set 0x21 (CmosGetRegister s 0x1b) s; s = set 0x22 (CmosGetRegister s 0x1c) s; s = set 0x23 63 s
      in set 0x39 (CmosGetRegister s 0x39 OR
           (if cyls \<le> 1024 then 0 else if ucast cyls * (16 :: DWORD) \<le> 131072 then 2 else 1)) s)"

definition HardDiskInitialize :: "env \<Rightarrow> host_file option \<Rightarrow> 'z ata_state_scheme \<Rightarrow> 'z ata_state_scheme res" where
  "HardDiskInitialize env file s =
     (let s = init_channel 0 0x1f0 0x3f0 14 (s\<lparr>AtaChannel := \<lambda>_. CHANNEL_zero\<rparr>);
          s = upd_drv 0 0 (\<lambda>x. x\<lparr>DriveType := DRIVE_TYPE_DISK, Controller := (Controller x)\<lparr>BufferTotalSize := 8192\<rparr>\<rparr>) s
      in bindE (ata_ports env 0x1f0 8 (ata_calloc env 0 (MAX_MULTIPLE_SECTORS * 512 + 6) s)) (\<lambda>s.
         bindE (ata_ports env 0x3f0 8 s) (\<lambda>s.
         bindE (VhdInitializeHardDisk env file s) (\<lambda>s.
         let s = upd_drv 0 0 (\<lambda>x. x\<lparr>Cylinders := VhdGetHardDiskSize s div (HARDDISK_HEADS * HARDDISK_SECTORS * 512), Heads := HARDDISK_HEADS,
                    Spt := HARDDISK_SECTORS, CurrentLSector := VhdGetHardDiskSize s div 512\<rparr>) s;
             s = ata_cmos (upd_ctl 0 0 init_controller s);
             s = init_channel 1 0x170 0x370 15 s;
             s = upd_drv 1 0 (\<lambda>x. x\<lparr>DriveType := DRIVE_TYPE_CDROM, Controller := (Controller x)\<lparr>BufferTotalSize := 2352\<rparr>\<rparr>) s
         in bindE (ata_ports env 0x170 8 (ata_calloc env 1 2356 s)) (\<lambda>s.
            bindE (ata_ports env 0x370 8 s) (\<lambda>s.
            let s = init_channel 2 0x1e8 0x3e0 0 (upd_ctl 1 0 init_controller s)
            in bindE (ata_ports env 0x1e8 8 s) (\<lambda>s.
               bindE (ata_ports env 0x3e0 8 s) (\<lambda>s.
               bindE (ata_ports env 0x168 8 (init_channel 3 0x168 0x360 0 s)) (\<lambda>s.
               bindE (ata_ports env 0x360 16 s) (\<lambda>s.
               Inr (CmosSetRegister (CmosSetRegister s 0x3a 0) 0x3b 0)))))))))))"

end
