(* ===== verification/Ata_Read.thy ===== *)
theory Ata_Read
  imports Ata_Ports
begin

text \<open>
  Reading the disk through the ports: what the sector functions do for an address inside the disk, and that a
  READ SECTORS command followed by reads of the data port returns the sectors of the disk image.
\<close>

section \<open>The disk behind the drive\<close>

text \<open>The sector the image holds at an address, and the number of sectors.\<close>

definition disk_sector :: "'z vhd_state_scheme \<Rightarrow> ULONG64 \<Rightarrow> BYTE list res" where
  "disk_sector s lb = VhdRead (VhdSeek (lb * 512) s) 512"

definition disk_sectors :: "'z vhd_state_scheme \<Rightarrow> ULONG64" where
  "disk_sectors s = VhdGetHardDiskSize s div 512"

text \<open>The image up to the position of the last seek; the identity of the drives, the port handlers and all later components.\<close>

definition same_disk :: "'z ata_state_scheme \<Rightarrow> 'z ata_state_scheme \<Rightarrow> bool" where
  "same_disk s t \<longleftrightarrow> vhdImage t = (vhdImage s)\<lparr>u64DataOffset := u64DataOffset (vhdImage t)\<rparr>"

definition ata_kept :: "nat \<Rightarrow> nat \<Rightarrow> 'z ata_state_scheme \<Rightarrow> 'z ata_state_scheme \<Rightarrow> bool" where
  "ata_kept ch d s t \<longleftrightarrow> same_disk s t \<and> DriveType (drv ch d t) = DriveType (drv ch d s) \<and>
     (\<forall>n. IoAddr1 (AtaChannel t n) = IoAddr1 (AtaChannel s n) \<and> IoAddr2 (AtaChannel t n) = IoAddr2 (AtaChannel s n) \<and>
          DriveSelect (AtaChannel t n) = DriveSelect (AtaChannel s n)) \<and>
     PortIoBitmap t = PortIoBitmap s \<and> ReadPortHandlers t = ReadPortHandlers s \<and> WritePortHandlers t = WritePortHandlers s \<and>
     ata_state.more t = ata_state.more s"

lemma same_disk_refl [simp]: "same_disk s s"
  by (simp add: same_disk_def)

lemma same_disk_trans: "same_disk s t \<Longrightarrow> same_disk t u \<Longrightarrow> same_disk s u"
  unfolding same_disk_def by (metis VHDIMAGE.update_convs(13) VHDIMAGE.surjective VHDIMAGE.ext_inject)

lemma disk_sector_same: "same_disk s t \<Longrightarrow> disk_sector t lb = disk_sector s lb"
proof -
  assume "same_disk s t"
  then obtain o' where v: "vhdImage t = (vhdImage s)\<lparr>u64DataOffset := o'\<rparr>" by (auto simp: same_disk_def)
  show ?thesis by (simp add: disk_sector_def VhdRead_def VhdSeek_def upd_vhd_def v Let_def)
qed

lemma disk_sectors_same: "same_disk s t \<Longrightarrow> disk_sectors t = disk_sectors s"
proof -
  assume "same_disk s t"
  then obtain o' where v: "vhdImage t = (vhdImage s)\<lparr>u64DataOffset := o'\<rparr>" by (auto simp: same_disk_def)
  show ?thesis by (simp add: disk_sectors_def VhdGetHardDiskSize_def v)
qed

lemma ata_kept_refl [simp]: "ata_kept ch d s s"
  by (simp add: ata_kept_def)

lemma ata_kept_trans: "ata_kept ch d s t \<Longrightarrow> ata_kept ch d t u \<Longrightarrow> ata_kept ch d s u"
  by (auto simp: ata_kept_def intro: same_disk_trans)

lemma ata_kept_upd [simp]:
  "ata_kept ch d s (upd_ctl ch' d' g s)"
  "(\<And>x. DriveType (f x) = DriveType x) \<Longrightarrow> ata_kept ch d s (upd_drv ch' d' f s)"
  "ata_kept ch d s (VhdSeek off s)"
  by (simp_all add: ata_kept_def same_disk_def VhdSeek_def upd_vhd_def drv_def upd_ctl_def upd_drv_def upd_chan_def)

lemma ata_kept_step [simp]:
  "ata_kept ch d s t \<Longrightarrow> ata_kept ch d s (upd_ctl ch' d' g t)"
  "ata_kept ch d s t \<Longrightarrow> (\<And>x. DriveType (f x) = DriveType x) \<Longrightarrow> ata_kept ch d s (upd_drv ch' d' f t)"
  "ata_kept ch d s t \<Longrightarrow> ata_kept ch d s (VhdSeek off t)"
  by (auto intro: ata_kept_trans)

lemma ata_kept_pic: "pic_only s t \<Longrightarrow> ata_kept ch d s t"
  by (elim pic_onlyE) (simp add: ata_kept_def same_disk_def drv_def)

lemma pic_only_ata: "pic_only s t \<Longrightarrow> AtaChannel t = AtaChannel s"
  by (elim pic_onlyE) simp

lemma ata_kept_dnum: "ata_kept ch d s t \<Longrightarrow> dnum n t = dnum n s"
  by (simp add: ata_kept_def dnum_def)

section \<open>One sector\<close>

lemma calculate_inside:
  assumes "dnum ch s = d" and "ctl_address (ctl ch d s) = lb" and "lb < disk_sectors s"
  shows "HardDiskCalculateLogicalAddress ch s = lb"
  using assms by (auto simp: HardDiskCalculateLogicalAddress_def disk_sectors_def Let_def)

lemma calculate_outside:
  assumes "dnum ch s = d" and "disk_sectors s \<le> ctl_address (ctl ch d s)"
  shows "HardDiskCalculateLogicalAddress ch s = - 1"
  using assms by (simp add: HardDiskCalculateLogicalAddress_def disk_sectors_def Let_def)

definition put_sector :: "nat \<Rightarrow> BYTE list \<Rightarrow> BYTE list \<Rightarrow> BYTE list" where
  "put_sector k bs b = take (512 * k) b @ bs @ drop (512 * k + length bs) b"

text \<open>The controller after a sector of the buffer was read.\<close>

definition sector_read :: "nat \<Rightarrow> ULONG64 \<Rightarrow> BYTE list \<Rightarrow> CONTROLLER \<Rightarrow> CONTROLLER" where
  "sector_read k lb bs c =
     put_lba (lb + 1) (c\<lparr>Buffer := map_option (put_sector k bs) (Buffer c), SectorCount := SectorCount c - 1,
       NumberOfSectors := NumberOfSectors c - 1\<rparr>)"

lemma read_sector_inside:
  assumes "dnum ch s = d" and "AddressMode (ctl ch d s) \<noteq> 0" and "ctl_address (ctl ch d s) = lb" and "lb < disk_sectors s"
    and "disk_sector s lb = Inr bs" and "Buffer (ctl ch d s) = Some b" and "512 * k + length bs \<le> length b"
  obtains t where "read_sector ch d k s = Inr t" and "ctl ch d t = sector_read k lb bs (ctl ch d s)" and "ata_kept ch d s t"
proof -
  note c = calculate_inside [OF assms(1,3,4)]
  let ?t = "upd_ctl ch d (\<lambda>_. (ctl ch d s)\<lparr>Buffer := Some (put_sector k bs b)\<rparr>) (VhdSeek (lb * 512) s)"
  let ?u = "upd_ctl ch d (if Lba48 (ctl ch d s) \<noteq> 0 then put_lba48 (lb + 1) else put_lba28 (lb + 1))
      (upd_ctl ch d (\<lambda>c. c\<lparr>SectorCount := SectorCount c - 1, NumberOfSectors := NumberOfSectors c - 1\<rparr>) ?t)"
  let ?v = "upd_drv ch d (\<lambda>x. x\<lparr>NextLSector := lb + 1\<rparr>) ?u"
  show thesis
  proof (rule that)
    show "read_sector ch d k s = Inr ?v" using assms(1,2,5-7)
      by (simp add: read_sector_def c disk_sector_def put_buf_def buf_put_def put_sector_def next_sector_def
          HardDiskIncrementAddress_def Let_def)
    show "ctl ch d ?v = sector_read k lb bs (ctl ch d s)" using assms(6) by (simp add: sector_read_def put_lba_def ctl_drv)
    show "ata_kept ch d s ?v" by simp
  qed
qed

section \<open>Values of the data port\<close>

lemma bit_be_word: "bit (be_word bs :: 'a::len word) k \<Longrightarrow> k < 8 * length bs"
proof (induction bs)
  case Nil
  then show ?case by (simp add: be_word_def)
next
  case (Cons b bs)
  then show ?case by (fastforce simp: be_word_Cons bit_simps dest: bit_imp_le_length)
qed

lemma be_word_snoc: "be_word (bs @ [b]) = push_bit 8 (be_word bs) OR (ucast b :: 'a::len word)"
  by (simp add: be_word_def)

lemma le_bytes_Suc: "le_bytes (Suc n) v = ucast v # le_bytes n (drop_bit 8 v)"
proof -
  have "[0 ..< Suc n] = 0 # map Suc [0 ..< n]" by (simp add: map_Suc_upt upt_conv_Cons del: upt_Suc)
  then show ?thesis by (simp add: le_bytes_def drop_bit_drop_bit add.commute del: upt_Suc)
qed

lemma le_bytes_be_word: "8 * length bs \<le> LENGTH('a::len) \<Longrightarrow> le_bytes (length bs) (be_word (rev bs) :: 'a word) = bs"
proof (induction bs)
  case Nil
  show ?case by (simp add: le_bytes_def)
next
  case (Cons b bs)
  let ?x = "be_word (rev bs) :: 'a word"
  have hi: "bit ?x k \<Longrightarrow> k < 8 * length bs" for k using bit_be_word [of "rev bs" k] by simp
  have "drop_bit 8 (push_bit 8 ?x OR ucast b) = ?x"
  proof (rule bit_word_eqI)
    fix k assume "k < LENGTH('a)"
    then show "bit (drop_bit 8 (push_bit 8 ?x OR ucast b)) k = bit ?x k"
      using hi [of k] Cons.prems by (auto simp: bit_simps dest: bit_imp_le_length)
  qed
  moreover have "ucast (push_bit 8 ?x OR ucast b :: 'a word) = b"
    using Cons.prems by (intro bit_word_eqI) (auto simp: bit_simps)
  ultimately show ?case using Cons by (simp add: be_word_snoc le_bytes_Suc)
qed

section \<open>Reading the data port\<close>

fun read_port :: "env \<Rightarrow> ULONG \<Rightarrow> ULONG \<Rightarrow> nat \<Rightarrow> 'z ata_state_scheme \<Rightarrow> (ULONG list \<times> 'z ata_state_scheme) res" where
  "read_port env address len 0 s = Inr ([], s)"
| "read_port env address len (Suc n) s =
     bindE (HardDiskPortIoReadHandler env address len s) (\<lambda>(v, s).
     bindE (read_port env address len n s) (\<lambda>(vs, s). Inr (v # vs, s)))"

lemma read_port_append:
  "read_port env a len (m + n) s =
     bindE (read_port env a len m s) (\<lambda>(vs, s). bindE (read_port env a len n s) (\<lambda>(ws, s). Inr (vs @ ws, s)))"
proof (induction m arbitrary: s)
  case 0
  show ?case by (cases "read_port env a len n s") auto
next
  case (Suc m)
  show ?case by (auto simp: Suc bindE_assoc bindE_def split: sum.splits prod.splits)
qed

text \<open>The bytes that a sequence of reads delivered.\<close>

definition port_bytes :: "ULONG \<Rightarrow> ULONG list \<Rightarrow> BYTE list" where
  "port_bytes len vs = concat (map (le_bytes (unat len)) vs)"

text \<open>
  The selected disk drive of channel 0 in a READ SECTORS command with \<open>i\<close> bytes of the sector \<open>sec\<close> delivered
  and \<open>n\<close> sectors to come, the next at \<open>lb\<close>; the drive does not raise interrupts.
\<close>

definition pio :: "nat \<Rightarrow> BYTE list \<Rightarrow> nat \<Rightarrow> ULONG64 \<Rightarrow> CONTROLLER \<Rightarrow> bool" where
  "pio i sec n lb c \<longleftrightarrow> CurrentCommand c \<in> {0x20, 0x21, 0x24} \<and> bit (Status c) 3 \<and> BufferSize c = 512 \<and> BufferIndex c = of_nat i \<and>
     (\<exists>b. Buffer c = Some b \<and> 512 \<le> length b \<and> take 512 b = sec) \<and>
     NumberOfSectors c = of_nat n \<and> n < 2 ^ 32 \<and> AddressMode c \<noteq> 0 \<and> ctl_address c = lb \<and> unat lb + n < 2 ^ lba_bits c \<and>
     DisableIrq c \<noteq> 0"

definition ata0 :: "'z ata_state_scheme \<Rightarrow> bool" where
  "ata0 s \<longleftrightarrow> IoAddr1 (AtaChannel s 0) = 0x1f0 \<and> DriveSelect (AtaChannel s 0) = 0 \<and> DriveType (drv 0 0 s) = DRIVE_TYPE_DISK"

lemma ata0_dnum: "ata0 s \<Longrightarrow> dnum 0 s = 0"
  by (simp add: ata0_def dnum_def)

lemma ata0_kept: "ata_kept 0 0 s t \<Longrightarrow> ata0 s \<Longrightarrow> ata0 t"
  by (simp add: ata_kept_def ata0_def)

lemma decode0:
  assumes "ata0 s"
  shows "ata_decode 0x1f0 [0 ..< 4] s = (0, 0)" "ata_decode 0x1f7 [0 ..< 4] s = (0, 7)"
  using assms by (simp_all add: ata0_def ata_match_def upt_conv_Cons)

lemma data_port:
  "ata0 s \<Longrightarrow> HardDiskPortIoReadHandler env 0x1f0 len s = HardDiskReadDataPort env 0 0 len s"
  by (simp add: HardDiskPortIoReadHandler_def decode0 ata0_dnum)

lemma load_pio:
  assumes "pio i sec n lb (ctl 0 0 s)" and "len \<in> {1, 2, 4}" and "i + unat len \<le> 512"
  shows "\<exists>v. load_value 0 0 len s = Inr v \<and> le_bytes (unat len) v = take (unat len) (drop i sec)"
proof -
  obtain b where b: "Buffer (ctl 0 0 s) = Some b" "512 \<le> length b" "take 512 b = sec" using assms(1) by (auto simp: pio_def)
  have i: "unat (BufferIndex (ctl 0 0 s)) = i" using assms(1,3) by (simp add: pio_def unat_of_nat)
  let ?bs = "take (unat len) (drop i b)"
  have l: "length ?bs = unat len" using b(2) assms(3) by simp
  have "unat len \<le> 4" using assms(2) by auto
  then have "le_bytes (unat len) (be_word (rev ?bs) :: ULONG) = ?bs" using le_bytes_be_word [of ?bs, where 'a = 32] l by simp
  moreover have "?bs = take (unat len) (drop i sec)" using b(3) assms(3) by (auto simp: drop_take)
  ultimately show ?thesis using assms(2,3) b(1,2) i by (auto simp: load_value_def get_buf_def buf_get_def slice_def)
qed

lemma pio_index:
  assumes "pio i sec n lb c" and "i \<le> 512"
  shows "unat (BufferIndex c) = i" "unat (BufferSize c) = 512"
  using assms by (simp_all add: pio_def unat_of_nat)

text \<open>A read of the data port is a load, a step of the index and, at the end of the buffer, the next block.\<close>

lemma pio_read:
  assumes s: "ata0 s" "pio i sec n lb (ctl 0 0 s)" and len: "len \<in> {1, 2, 4}" "i + unat len \<le> 512"
  shows "\<exists>v. le_bytes (unat len) v = take (unat len) (drop i sec) \<and>
    HardDiskPortIoReadHandler env 0x1f0 len s =
      (if i + unat len < 512 then Inr (v, advance 0 0 len s)
       else bindE (next_block env 0 0 (advance 0 0 len s)) (\<lambda>s. Inr (v, s)))"
proof -
  obtain v where v: "load_value 0 0 len s = Inr v" "le_bytes (unat len) v = take (unat len) (drop i sec)"
    using load_pio [OF s(2) len] by blast
  let ?c = "ctl 0 0 s"
  have pos: "0 < unat len" using len(1) by auto
  have i: "unat (BufferIndex ?c) = i" "unat (BufferSize ?c) = 512" using pio_index [OF s(2)] len(2) by auto
  have j: "unat (BufferIndex ?c + len) = i + unat len" using i(1) len(2) by (simp add: unat_word_ariths)
  have "\<not> BufferIndex ?c \<ge> BufferSize ?c" "\<not> BufferSize ?c < BufferIndex ?c + len"
    "(BufferIndex ?c + len < BufferSize ?c) = (i + unat len < 512)"
    using i j pos len(2) by (simp_all add: word_le_nat_alt word_less_nat_alt)
  moreover have "CurrentCommand ?c \<in> {0x20, 0x21, 0xC4, 0x24, 0x29}" "bit (Status ?c) 3" using s(2) by (auto simp: pio_def)
  ultimately show ?thesis using v data_port [OF s(1), of env len]
    by (intro exI [of _ v]) (simp add: HardDiskReadDataPort_def HardDiskReadData_def ide_status_defs Let_def advance_def)
qed

lemma ctl_advance [simp]: "ctl 0 0 (advance 0 0 len s) = (ctl 0 0 s)\<lparr>BufferIndex := BufferIndex (ctl 0 0 s) + len\<rparr>"
  by (simp add: advance_def)

lemma pio_advance:
  "pio i sec n lb c \<Longrightarrow> pio (i + unat len) sec n lb (c\<lparr>BufferIndex := BufferIndex c + len\<rparr>)"
  by (auto simp: pio_def lba_bits_def intro: ctl_address_cong)

text \<open>Reads that stay in the buffer.\<close>

lemma read_port_within:
  assumes "ata0 s" "pio i sec n lb (ctl 0 0 s)" and "len \<in> {1, 2, 4}" "i + m * unat len < 512"
  shows "\<exists>vs t. read_port env 0x1f0 len m s = Inr (vs, t) \<and> port_bytes len vs = take (m * unat len) (drop i sec) \<and>
    pio (i + m * unat len) sec n lb (ctl 0 0 t) \<and> ata_kept 0 0 s t"
  using assms
proof (induction m arbitrary: i s)
  case 0
  then show ?case by (simp add: port_bytes_def)
next
  case (Suc m)
  have le: "i + unat len \<le> 512" "i + unat len < 512" using Suc.prems(4) by simp_all
  obtain v where v: "le_bytes (unat len) v = take (unat len) (drop i sec)"
    "HardDiskPortIoReadHandler env 0x1f0 len s = Inr (v, advance 0 0 len s)"
    using pio_read [OF Suc.prems(1,2,3) le(1), of env] le(2) by auto
  let ?t = "advance 0 0 len s"
  have k: "ata_kept 0 0 s ?t" by (simp add: advance_def)
  have "ata0 ?t" by (rule ata0_kept [OF k Suc.prems(1)])
  moreover have "pio (i + unat len) sec n lb (ctl 0 0 ?t)" using pio_advance [OF Suc.prems(2)] by simp
  ultimately obtain vs t where t: "read_port env 0x1f0 len m ?t = Inr (vs, t)"
    "port_bytes len vs = take (m * unat len) (drop (i + unat len) sec)"
    "pio (i + unat len + m * unat len) sec n lb (ctl 0 0 t)" "ata_kept 0 0 ?t t"
    using Suc.IH [of ?t "i + unat len"] Suc.prems(3,4) by (auto simp: add.assoc)
  have "port_bytes len (v # vs) = take (Suc m * unat len) (drop i sec)"
    using v(1) t(2) by (simp add: port_bytes_def take_add add.commute)
  then show ?case using v(2) t ata_kept_trans [OF k t(4)] by (auto simp: add.assoc)
qed

text \<open>The end of a block: the next sector, or the end of the command.\<close>

definition pio_done :: "CONTROLLER \<Rightarrow> bool" where
  "pio_done c \<longleftrightarrow> \<not> bit (Status c) 3 \<and> \<not> bit (Status c) 7 \<and> \<not> bit (Status c) 0 \<and> bit (Status c) 6 \<and> NumberOfSectors c = 0"

lemma next_block_done:
  assumes "pio i sec 0 lb (ctl 0 0 s)"
  shows "\<exists>t. next_block env 0 0 s = Inr t \<and> pio_done (ctl 0 0 t) \<and> ata_kept 0 0 s t"
proof -
  let ?a = "upd_ctl 0 0 (\<lambda>c. status (IDE_STATUS_DRIVE_RDY OR IDE_STATUS_DEV_SEEK_COMP)
      (IDE_STATUS_BUSY OR IDE_STATUS_WRITE_FAULT OR IDE_STATUS_ERROR OR IDE_STATUS_CORRECTED_DATA) c) s"
  let ?b = "upd_drv 0 0 (\<lambda>x. x\<lparr>CurrentLSector := NextLSector x\<rparr>) ?a"
  let ?t = "upd_drv 0 0 (\<lambda>x. x\<lparr>CurrentLSector := NextLSector x\<rparr>) (upd_ctl 0 0 (status 0 IDE_STATUS_DEV_REQ) ?b)"
  have cmd: "CurrentCommand (ctl 0 0 s) \<noteq> 0xC4" "CurrentCommand (ctl 0 0 s) \<noteq> 0x29" and z: "NumberOfSectors (ctl 0 0 s) = 0"
    using assms by (auto simp: pio_def)
  have a: "upd_ctl 0 0 (\<lambda>c. status (IDE_STATUS_DRIVE_RDY OR IDE_STATUS_DEV_SEEK_COMP)
      (IDE_STATUS_BUSY OR IDE_STATUS_WRITE_FAULT OR IDE_STATUS_ERROR OR IDE_STATUS_CORRECTED_DATA)
      (if CurrentCommand c = 0xC4 \<or> CurrentCommand c = 0x29 then c\<lparr>BufferSize := multiple_size c\<rparr> else c)) s = ?a"
    by (rule upd_ctl_cong) (simp add: cmd)
  have "next_block env 0 0 s = Inr ?t" unfolding next_block_def Let_def a using z by (simp add: ctl_drv)
  moreover have "pio_done (ctl 0 0 ?t)" using z by (auto simp: pio_done_def ctl_drv ide_status_defs bit_simps)
  moreover have "ata_kept 0 0 s ?t" by simp
  ultimately show ?thesis by blast
qed

lemma sector_read_pio:
  assumes "pio i sec (Suc n) lb c" and "length bs = 512"
  shows "pio 0 bs n (lb + 1) ((sector_read 0 lb bs c)\<lparr>BufferIndex := 0\<rparr>)"
proof -
  obtain b where b: "Buffer c = Some b" "512 \<le> length b" using assms(1) by (auto simp: pio_def)
  have "lba_bits c \<le> 48" by (simp add: lba_bits_def)
  then have "(2 :: nat) ^ lba_bits c \<le> 2 ^ 48" by (intro power_increasing) simp_all
  moreover have room: "unat lb + Suc n < 2 ^ lba_bits c" using assms(1) by (simp add: pio_def)
  ultimately have "unat lb + 1 < 2 ^ 64" by simp
  then have lb: "unat (lb + 1) = unat lb + 1" by (simp add: unat_word_ariths)
  let ?c = "c\<lparr>Buffer := Some (put_sector 0 bs b), SectorCount := SectorCount c - 1, NumberOfSectors := NumberOfSectors c - 1\<rparr>"
  have "ctl_address (put_lba (lb + 1) ?c) = lb + 1"
    using assms(1) room lb by (intro ctl_address_put_lba) (simp_all add: pio_def lba_bits_def)
  moreover have "ctl_address ((put_lba (lb + 1) ?c)\<lparr>BufferIndex := 0\<rparr>) = ctl_address (put_lba (lb + 1) ?c)"
    by (rule ctl_address_cong) simp_all
  moreover have "NumberOfSectors c - 1 = of_nat n" using assms(1) by (simp add: pio_def)
  ultimately show ?thesis using assms(1,2) b room lb by (auto simp: pio_def sector_read_def put_sector_def lba_bits_def)
qed

lemma next_block_more:
  assumes s: "ata0 s" "pio i sec (Suc n) lb (ctl 0 0 s)" and lb: "lb < disk_sectors s"
    and sec: "disk_sector s lb = Inr bs" "length bs = 512"
  shows "\<exists>t. next_block env 0 0 s = Inr t \<and> pio 0 bs n (lb + 1) (ctl 0 0 t) \<and> ata_kept 0 0 s t"
proof -
  let ?st = "\<lambda>c. status (IDE_STATUS_DEV_REQ OR IDE_STATUS_DEV_SEEK_COMP) 0 (status (IDE_STATUS_DRIVE_RDY OR IDE_STATUS_DEV_SEEK_COMP)
      (IDE_STATUS_BUSY OR IDE_STATUS_WRITE_FAULT OR IDE_STATUS_ERROR OR IDE_STATUS_CORRECTED_DATA) c)"
  let ?a = "upd_ctl 0 0 (\<lambda>c. status (IDE_STATUS_DRIVE_RDY OR IDE_STATUS_DEV_SEEK_COMP)
      (IDE_STATUS_BUSY OR IDE_STATUS_WRITE_FAULT OR IDE_STATUS_ERROR OR IDE_STATUS_CORRECTED_DATA) c) s"
  let ?b = "upd_ctl 0 0 (status (IDE_STATUS_DEV_REQ OR IDE_STATUS_DEV_SEEK_COMP) 0) (upd_drv 0 0 (\<lambda>x. x\<lparr>CurrentLSector := NextLSector x\<rparr>) ?a)"
  have cmd: "CurrentCommand (ctl 0 0 s) \<noteq> 0xC4" "CurrentCommand (ctl 0 0 s) \<noteq> 0x29" and z: "NumberOfSectors (ctl 0 0 s) \<noteq> 0"
    using s(2) by (auto simp: pio_def unat_of_nat word_unat_eq_iff simp del: of_nat_Suc)
  have a: "upd_ctl 0 0 (\<lambda>c. status (IDE_STATUS_DRIVE_RDY OR IDE_STATUS_DEV_SEEK_COMP)
      (IDE_STATUS_BUSY OR IDE_STATUS_WRITE_FAULT OR IDE_STATUS_ERROR OR IDE_STATUS_CORRECTED_DATA)
      (if CurrentCommand c = 0xC4 \<or> CurrentCommand c = 0x29 then c\<lparr>BufferSize := multiple_size c\<rparr> else c)) s = ?a"
    by (rule upd_ctl_cong) (simp add: cmd)
  have cb: "ctl 0 0 ?b = ?st (ctl 0 0 s)" by (simp add: ctl_drv)
  have kb: "ata_kept 0 0 s ?b" by simp
  then have db: "dnum 0 ?b = 0" using ata0_dnum [OF ata0_kept [OF kb s(1)]] by simp
  have sd: "same_disk s ?b" using kb by (simp add: ata_kept_def)
  obtain b where b: "Buffer (ctl 0 0 s) = Some b" "512 \<le> length b" using s(2) by (auto simp: pio_def)
  have pb: "pio i sec (Suc n) lb (ctl 0 0 ?b)" using s(2) unfolding cb by (auto simp: pio_def bit_simps ide_status_defs lba_bits_def)
  obtain t where t: "read_sector 0 0 0 ?b = Inr t" "ctl 0 0 t = sector_read 0 lb bs (ctl 0 0 ?b)" "ata_kept 0 0 ?b t"
    by (rule read_sector_inside [OF db, of lb bs b 0])
      (use pb b sec lb disk_sectors_same [OF sd] disk_sector_same [OF sd] in \<open>simp_all add: pio_def ctl_drv\<close>)
  have rs: "HardDiskReadSector 0 ?b = Inr (512, t)"
    using t(1) pb db by (simp add: HardDiskReadSector_def sectors_in_def pio_def Let_def)
  let ?t = "upd_ctl 0 0 (\<lambda>c. c\<lparr>BufferIndex := 0\<rparr>) t"
  have kt: "ata_kept 0 0 s ?t" using ata_kept_trans [OF kb t(3)] by simp
  have pt: "pio 0 bs n (lb + 1) (ctl 0 0 ?t)" using sector_read_pio [OF pb sec(2)] t(2) by simp
  have "dnum 0 ?t = 0" using ata0_dnum [OF ata0_kept [OF kt s(1)]] by simp
  then have "HardDiskRaiseInterrupt env 0 ?t = Inr ?t" using pt by (simp add: HardDiskRaiseInterrupt_def pio_def)
  then have "next_block env 0 0 s = Inr ?t" unfolding next_block_def Let_def a using z rs by (simp add: ctl_drv)
  then show ?thesis using pt kt by blast
qed

text \<open>Reading a whole buffer, and with it the step to the next sector.\<close>

lemma read_port_block:
  assumes s: "ata0 s" "pio 0 sec n lb (ctl 0 0 s)" and len: "len \<in> {1, 2, 4}"
    and blk: "\<And>u. ata0 u \<Longrightarrow> ata_kept 0 0 s u \<Longrightarrow> pio 512 sec n lb (ctl 0 0 u) \<Longrightarrow>
      \<exists>t. next_block env 0 0 u = Inr t \<and> Q (ctl 0 0 t) \<and> ata_kept 0 0 u t"
  shows "\<exists>vs t. read_port env 0x1f0 len (512 div unat len) s = Inr (vs, t) \<and> port_bytes len vs = sec \<and> Q (ctl 0 0 t) \<and>
    ata_kept 0 0 s t"
proof -
  have l: "length sec = 512" using s(2) by (auto simp: pio_def)
  define m where "m = 512 div unat len - 1"
  have m: "512 div unat len = m + 1" "m * unat len + unat len = 512" using len by (auto simp: m_def)
  have pos: "0 < unat len" using len by auto
  obtain vs u where u: "read_port env 0x1f0 len m s = Inr (vs, u)" "port_bytes len vs = take (m * unat len) sec"
    "pio (m * unat len) sec n lb (ctl 0 0 u)" "ata_kept 0 0 s u"
    using read_port_within [OF s len, of m env] m(2) pos by auto
  have u0: "ata0 u" by (rule ata0_kept [OF u(4) s(1)])
  obtain v where v: "le_bytes (unat len) v = drop (m * unat len) sec"
    "HardDiskPortIoReadHandler env 0x1f0 len u = bindE (next_block env 0 0 (advance 0 0 len u)) (\<lambda>s. Inr (v, s))"
    using pio_read [OF u0 u(3) len, of env] m(2) l by auto
  let ?w = "advance 0 0 len u"
  have k: "ata_kept 0 0 u ?w" by (simp add: advance_def)
  have sw: "ata_kept 0 0 s ?w" by (rule ata_kept_trans [OF u(4) k])
  have "pio 512 sec n lb (ctl 0 0 ?w)" using pio_advance [OF u(3), of len] m(2) by simp
  then obtain t where t: "next_block env 0 0 ?w = Inr t" "Q (ctl 0 0 t)" "ata_kept 0 0 ?w t"
    using blk [OF ata0_kept [OF k u0] sw] by blast
  have "read_port env 0x1f0 len (512 div unat len) s = Inr (vs @ [v], t)"
    unfolding m(1) read_port_append u(1) using v(2) t(1) by simp
  moreover have "port_bytes len (vs @ [v]) = sec" using u(2) v(1) by (simp add: port_bytes_def)
  ultimately show ?thesis using t(2) ata_kept_trans [OF sw t(3)] by blast
qed

lemma concat_shift: "f 0 @ concat (map (\<lambda>k. f (Suc k)) [0 ..< n]) = concat (map f [0 ..< Suc n])"
  by (simp add: upt_conv_Cons map_Suc_upt [symmetric] comp_def del: upt_Suc)

text \<open>All sectors of a command.\<close>

lemma read_port_sectors:
  assumes "ata0 s" "pio 0 sec n lb (ctl 0 0 s)" and "len \<in> {1, 2, 4}" and "unat lb + n \<le> unat (disk_sectors s)"
    and "\<And>k. k < n \<Longrightarrow> disk_sector s (lb + of_nat k) = Inr (secs k) \<and> length (secs k) = 512"
  shows "\<exists>vs t. read_port env 0x1f0 len (Suc n * (512 div unat len)) s = Inr (vs, t) \<and>
    port_bytes len vs = sec @ concat (map secs [0 ..< n]) \<and> pio_done (ctl 0 0 t) \<and> ata_kept 0 0 s t"
  using assms
proof (induction n arbitrary: s sec lb secs)
  case 0
  have "\<exists>t. next_block env 0 0 u = Inr t \<and> pio_done (ctl 0 0 t) \<and> ata_kept 0 0 u t"
    if "pio 512 sec 0 lb (ctl 0 0 u)" for u :: "'a ata_state_scheme"
    by (rule next_block_done [OF that])
  then show ?case using read_port_block [OF "0.prems"(1-3), of env pio_done] by simp
next
  case (Suc n)
  have sec0: "disk_sector s lb = Inr (secs 0)" "length (secs 0) = 512" using Suc.prems(5) [of 0] by simp_all
  have lt: "lb < disk_sectors s" using Suc.prems(4) by (simp add: word_less_nat_alt)
  have blk: "\<exists>t. next_block env 0 0 u = Inr t \<and> pio 0 (secs 0) n (lb + 1) (ctl 0 0 t) \<and> ata_kept 0 0 u t"
    if "ata0 u" "ata_kept 0 0 s u" "pio 512 sec (Suc n) lb (ctl 0 0 u)" for u
  proof -
    have d: "same_disk s u" using that(2) by (simp add: ata_kept_def)
    show ?thesis
      by (rule next_block_more [OF that(1,3)]) (use lt sec0 disk_sectors_same [OF d] disk_sector_same [OF d] in simp_all)
  qed
  obtain vs t where t: "read_port env 0x1f0 len (512 div unat len) s = Inr (vs, t)" "port_bytes len vs = sec"
    "pio 0 (secs 0) n (lb + 1) (ctl 0 0 t)" "ata_kept 0 0 s t"
    using read_port_block [OF Suc.prems(1-3), of env "pio 0 (secs 0) n (lb + 1)"] blk by blast
  have d: "same_disk s t" using t(4) by (simp add: ata_kept_def)
  have "unat lb + 1 < 2 ^ 64" using Suc.prems(4) unsigned_less [of "disk_sectors s", where 'a = nat] by simp
  then have u: "unat (lb + 1) = unat lb + 1" by (simp add: unat_word_ariths)
  obtain ws v where v: "read_port env 0x1f0 len (Suc n * (512 div unat len)) t = Inr (ws, v)"
    "port_bytes len ws = secs 0 @ concat (map (\<lambda>k. secs (Suc k)) [0 ..< n])" "pio_done (ctl 0 0 v)" "ata_kept 0 0 t v"
    using Suc.IH [OF ata0_kept [OF t(4) Suc.prems(1)] t(3) Suc.prems(3), of "\<lambda>k. secs (Suc k)"] Suc.prems(4,5) u
      disk_sectors_same [OF d] disk_sector_same [OF d] by (force simp: add.assoc)
  have split: "Suc (Suc n) * (512 div unat len) = 512 div unat len + Suc n * (512 div unat len)" by simp
  have "read_port env 0x1f0 len (Suc (Suc n) * (512 div unat len)) s = Inr (vs @ ws, v)"
    unfolding split read_port_append t(1) using v(1) by simp
  moreover have "port_bytes len (vs @ ws) = sec @ concat (map secs [0 ..< Suc n])"
    using t(2) v(2) unfolding concat_shift [symmetric] by (simp add: port_bytes_def)
  ultimately show ?case using v(3) ata_kept_trans [OF t(4) v(4)] by blast
qed

section \<open>The read command\<close>

text \<open>The number of sectors a command asks for, and the first of them.\<close>

definition transfer_count :: "bool \<Rightarrow> CONTROLLER \<Rightarrow> nat" where
  "transfer_count ext c =
     (if \<not> ext then if SectorCount c = 0 then 256 else unat (SectorCount c)
      else if SectorCount c = 0 \<and> Nsector (Hob c) = 0 then 65536 else 256 * unat (Nsector (Hob c)) + unat (SectorCount c))"

definition transfer_start :: "bool \<Rightarrow> CONTROLLER \<Rightarrow> ULONG64" where
  "transfer_start ext c = ctl_address (c\<lparr>Lba48 := b2w ext\<rparr>)"

lemma transfer_count_pos: "0 < transfer_count ext c" "transfer_count ext c \<le> 65536"
  using unat_BYTE_less [of "SectorCount c"] unat_BYTE_less [of "Nsector (Hob c)"]
  by (auto simp: transfer_count_def unat_gt_0 less_imp_le)

lemma hob_count: "push_bit 8 (ucast h) OR ucast l = (of_nat (256 * unat h + unat l) :: DWORD)" for h l :: BYTE
proof -
  have "push_bit 8 (ucast h) OR ucast l = (push_bit 8 (ucast h) + ucast l :: DWORD)"
    by (rule disjunctive_add [symmetric]) (auto simp: bit_simps dest: bit_imp_le_length)
  then show ?thesis by (simp add: push_bit_eq_mult)
qed

text \<open>The controller once the command has taken its parameters.\<close>

lemma Lba48Transform_ctl:
  "dnum ch s = d \<Longrightarrow> ctl ch d (HardDiskLba48Transform ch (b2w ext) s) =
    (ctl ch d s)\<lparr>Lba48 := b2w ext, NumberOfSectors := of_nat (transfer_count ext (ctl ch d s))\<rparr>"
  by (cases ext) (simp_all add: HardDiskLba48Transform_def transfer_count_def Let_def hob_count del: of_nat_add of_nat_mult)

lemma sector_read_start:
  assumes "CurrentCommand c \<in> {0x20, 0x21, 0x24}" "BufferSize c = 512" "BufferIndex c = 0" "Buffer c = Some b" "512 \<le> length b"
    "NumberOfSectors c = of_nat (Suc n)" "Suc n < 2 ^ 32" "AddressMode c \<noteq> 0" "unat lb + Suc n < 2 ^ lba_bits c" "DisableIrq c \<noteq> 0"
    "length bs = 512"
  shows "pio 0 bs n (lb + 1) (status IDE_STATUS_DEV_REQ IDE_STATUS_BUSY (sector_read 0 lb bs c))"
proof -
  let ?c = "status IDE_STATUS_DEV_REQ 0 c"
  have "ctl_address (put_lba lb ?c) = lb" using assms by (intro ctl_address_put_lba) (simp_all add: lba_bits_def)
  then have "pio 0 (take 512 b) (Suc n) lb (put_lba lb ?c)"
    using assms by (auto simp: pio_def bit_simps ide_status_defs lba_bits_def)
  from sector_read_pio [OF this assms(11)] have p: "pio 0 bs n (lb + 1) ((sector_read 0 lb bs (put_lba lb ?c))\<lparr>BufferIndex := 0\<rparr>)" .
  have "ctl_address (sector_read 0 lb bs c) = ctl_address ((sector_read 0 lb bs (put_lba lb ?c))\<lparr>BufferIndex := 0\<rparr>)"
    by (rule ctl_address_cong) (simp_all add: sector_read_def put_lba_def put_lba28_def put_lba48_def)
  then show ?thesis using p assms(3) by (auto simp: pio_def sector_read_def lba_bits_def bit_simps ide_status_defs)
qed

lemma cmd_read_ok:
  assumes s: "ata0 s" "AddressMode (ctl 0 0 s) \<noteq> 0" "DisableIrq (ctl 0 0 s) \<noteq> 0" "Buffer (ctl 0 0 s) = Some b" "512 \<le> length b"
    and cmd: "cmd \<in> {0x20, 0x21, 0x24}"
    and lb: "lb = transfer_start ext (ctl 0 0 s)" "lb < disk_sectors s"
    and n: "transfer_count ext (ctl 0 0 s) = Suc n" "unat lb + Suc n < 2 ^ (if ext then 48 else 32)"
    and sec: "disk_sector s lb = Inr bs" "length bs = 512"
  shows "\<exists>t. cmd_read env 0 0 cmd (b2w ext) s = Inr t \<and> pio 0 bs n (lb + 1) (ctl 0 0 t) \<and> ata_kept 0 0 s t"
proof -
  have nm: "cmd \<noteq> 0xC4" "cmd \<noteq> 0x29" using cmd by auto
  let ?a = "HardDiskLba48Transform 0 (b2w ext) s"
  let ?b = "upd_ctl 0 0 (\<lambda>c. c\<lparr>BufferSize := 512\<rparr>) ?a"
  let ?c = "upd_ctl 0 0 (\<lambda>c. (status (IDE_STATUS_BUSY OR IDE_STATUS_DRIVE_RDY)
      (IDE_STATUS_DEV_SEEK_COMP OR IDE_STATUS_DEV_REQ OR IDE_STATUS_CORRECTED_DATA) c)\<lparr>ErrorRegister := 0, BufferIndex := 0\<rparr>)
      (set_address 0 0 lb cmd ?b)"
  have d: "dnum 0 s = 0" by (rule ata0_dnum [OF s(1)])
  have ka: "ata_kept 0 0 s ?a" by (simp add: HardDiskLba48Transform_def)
  have kb: "ata_kept 0 0 s ?b" using ka by simp
  have kc: "ata_kept 0 0 s ?c" using kb by (simp add: set_address_def)
  have dk: "dnum 0 u = 0" "same_disk s u" if "ata_kept 0 0 s u" for u
    using ata0_dnum [OF ata0_kept [OF that s(1)]] that by (simp_all add: ata_kept_def)
  have ca: "ctl 0 0 ?a = (ctl 0 0 s)\<lparr>Lba48 := b2w ext, NumberOfSectors := of_nat (Suc n)\<rparr>"
    using Lba48Transform_ctl [OF d, of ext] n(1) by simp
  have "ctl_address (ctl 0 0 ?b) = lb" unfolding lb(1) transfer_start_def by (rule ctl_address_cong) (simp_all add: ca)
  then have calc: "HardDiskCalculateLogicalAddress 0 ?b = lb"
    by (rule calculate_inside [OF dk(1) [OF kb]]) (simp add: lb(2) disk_sectors_same [OF dk(2) [OF kb]])
  have cc: "ctl 0 0 ?c = (status (IDE_STATUS_BUSY OR IDE_STATUS_DRIVE_RDY)
      (IDE_STATUS_DEV_SEEK_COMP OR IDE_STATUS_DEV_REQ OR IDE_STATUS_CORRECTED_DATA)
        ((ctl 0 0 s)\<lparr>Lba48 := b2w ext, NumberOfSectors := of_nat (Suc n), BufferSize := 512, CurrentCommand := cmd\<rparr>))
      \<lparr>ErrorRegister := 0, BufferIndex := 0\<rparr>"
    by (simp add: set_address_def ca ctl_drv del: of_nat_Suc) (simp add: ctl_drv [symmetric] ca)
  obtain t where t: "read_sector 0 0 0 ?c = Inr t" "ctl 0 0 t = sector_read 0 lb bs (ctl 0 0 ?c)" "ata_kept 0 0 ?c t"
  proof (rule read_sector_inside [OF dk(1) [OF kc], of lb bs b 0])
    have "ctl_address (ctl 0 0 ?c) = ctl_address ((ctl 0 0 s)\<lparr>Lba48 := b2w ext\<rparr>)" unfolding cc by (rule ctl_address_cong) simp_all
    then show "ctl_address (ctl 0 0 ?c) = lb" unfolding lb(1) transfer_start_def .
    show "AddressMode (ctl 0 0 ?c) \<noteq> 0" "Buffer (ctl 0 0 ?c) = Some b" unfolding cc using s by simp_all
    show "lb < disk_sectors ?c" "disk_sector ?c lb = Inr bs"
      using lb(2) sec(1) disk_sectors_same [OF dk(2) [OF kc]] disk_sector_same [OF dk(2) [OF kc]] by simp_all
  qed (use s(5) sec(2) in simp_all)
  have "HardDiskReadSector 0 ?c = Inr (512, t)"
    using t(1) dk(1) [OF kc] cc by (simp add: HardDiskReadSector_def sectors_in_def Let_def)
  moreover have "lb \<noteq> - 1" using lb(2) word_order.extremum_strict [of "disk_sectors s"] by auto
  moreover have "DriveType (drv 0 0 s) = DRIVE_TYPE_DISK" using s(1) by (simp add: ata0_def)
  moreover have "\<not> chs_origin (ctl 0 0 s)" using s(2) by (simp add: chs_origin_def)
  ultimately have run: "cmd_read env 0 0 cmd (b2w ext) s = Inr (upd_ctl 0 0 (status IDE_STATUS_DEV_REQ IDE_STATUS_BUSY) t)"
    using nm by (simp add: cmd_read_def Let_def calc)
  have "pio 0 bs n (lb + 1) (status IDE_STATUS_DEV_REQ IDE_STATUS_BUSY (ctl 0 0 t))"
    unfolding t(2) cc by (rule sector_read_start [of _ b]) (use s cmd n(2) sec(2) transfer_count_pos(2) [of ext "ctl 0 0 s"] n(1) in
      \<open>simp_all add: lba_bits_def split: if_splits\<close>)
  then show ?thesis using run ata_kept_trans [OF kc t(3)] by auto
qed

text \<open>The command register hands a read command over to \<open>cmd_read\<close>.\<close>

lemma command_read:
  assumes "ata0 s" and "\<not> bit (Status (ctl 0 0 s)) 7" and "(val, ext) \<in> {(0x20, False), (0x21, False), (0x24, True)}"
  shows "\<exists>t. HardDiskPortIoWriteHandler env 0x1f7 val len s = cmd_read env 0 0 (ucast val) (b2w ext) t \<and>
    ata_kept 0 0 s t \<and> ctl 0 0 t = status 0 IDE_STATUS_ERROR (ctl 0 0 s)"
proof -
  let ?p = "PicLowerIrq s (Irq (AtaChannel s 0))"
  have p: "AtaChannel ?p = AtaChannel s" "ata_kept 0 0 s ?p"
    using pic_only_ata [OF PicLowerIrq_frame [of s "Irq (AtaChannel s 0)"]] ata_kept_pic [OF PicLowerIrq_frame] by simp_all
  then have c: "ctl 0 0 ?p = ctl 0 0 s" by (simp add: ctl_def)
  let ?t = "upd_ctl 0 0 (status 0 IDE_STATUS_ERROR) ?p"
  have "HardDiskPortIoWriteHandler env 0x1f7 val len s = cmd_read env 0 0 (ucast val) (b2w ext) ?t"
    using assms c by (auto simp: HardDiskPortIoWriteHandler_def decode0 ata0_dnum HardDiskCommand_def Let_def ide_status_defs)
  then show ?thesis using p(2) c by (intro exI [of _ ?t]) simp
qed

text \<open>The command fills the buffer with the first sector.\<close>

lemma read_command_starts:
  assumes "ata0 s" and "\<not> bit (Status (ctl 0 0 s)) 7" and "AddressMode (ctl 0 0 s) \<noteq> 0" and "DisableIrq (ctl 0 0 s) \<noteq> 0"
    and "Buffer (ctl 0 0 s) = Some b" and "512 \<le> length b" and "(val, ext) \<in> {(0x20, False), (0x21, False), (0x24, True)}"
    and "Suc m = transfer_count ext (ctl 0 0 s)" and "lb = transfer_start ext (ctl 0 0 s)"
    and "unat lb + Suc m \<le> unat (disk_sectors s)" and "unat lb + Suc m < 2 ^ (if ext then 48 else 32)"
    and sec: "disk_sector s lb = Inr sec" "length sec = 512"
  shows "\<exists>t. HardDiskPortIoWriteHandler env 0x1f7 val 1 s = Inr t \<and> pio 0 sec m (lb + 1) (ctl 0 0 t) \<and> ata_kept 0 0 s t \<and>
    unat (lb + 1) = unat lb + 1"
proof -
  obtain a where a: "HardDiskPortIoWriteHandler env 0x1f7 val 1 s = cmd_read env 0 0 (ucast val) (b2w ext) a" "ata_kept 0 0 s a"
    "ctl 0 0 a = status 0 IDE_STATUS_ERROR (ctl 0 0 s)"
    using command_read [OF assms(1,2,7), of env 1] by blast
  have da: "same_disk s a" using a(2) by (simp add: ata_kept_def)
  have n: "transfer_count ext (ctl 0 0 a) = Suc m" using assms(8) a(3) by (simp add: transfer_count_def)
  have lb: "lb = transfer_start ext (ctl 0 0 a)" unfolding assms(9) transfer_start_def a(3) by (rule ctl_address_cong) simp_all
  have lt: "lb < disk_sectors a" using assms(10) disk_sectors_same [OF da] by (simp add: word_less_nat_alt)
  have s0: "disk_sector a lb = Inr sec" using sec(1) disk_sector_same [OF da] by simp
  have cmd: "(ucast val :: BYTE) \<in> {0x20, 0x21, 0x24}" using assms(7) by auto
  obtain t where t: "cmd_read env 0 0 (ucast val) (b2w ext) a = Inr t" "pio 0 sec m (lb + 1) (ctl 0 0 t)" "ata_kept 0 0 a t"
    using cmd_read_ok [OF ata0_kept [OF a(2) assms(1)] _ _ _ assms(6) cmd lb lt n _ s0 sec(2), of env] assms(3,4,5,11) a(3) by auto
  have "unat lb + 1 < 2 ^ 64" using assms(11) by (auto split: if_splits)
  then have "unat (lb + 1) = unat lb + 1" by (simp add: unat_word_ariths)
  then show ?thesis using a(1) t ata_kept_trans [OF a(2) t(3)] by simp
qed

text \<open>The sectors behind the first, in a state that has the same disk.\<close>

lemma sectors_behind:
  assumes "same_disk s t" and "\<And>k. k < Suc m \<Longrightarrow> disk_sector s (lb + of_nat k) = Inr (secs k) \<and> length (secs k) = 512" and "k < m"
  shows "disk_sector t (lb + 1 + of_nat k) = Inr (secs (Suc k)) \<and> length (secs (Suc k)) = 512"
  using assms(2) [of "Suc k"] assms(3) disk_sector_same [OF assms(1)] by (simp add: add.assoc)

text \<open>C2. READ SECTORS delivers the disk: when the guest sends the command with the address of sectors that lie on
  the disk and then reads the data port in units of one, two or four bytes, the values it gets are the bytes of those
  sectors of the image in order, and the drive is ready again without a request or an error. This is for 28-bit and
  48-bit addresses and every sector count (a count of 0 stands for 256 or 65536), with the interrupt of the drive disabled.\<close>

theorem pio_read_delivers:
  assumes "ata0 s" and "\<not> bit (Status (ctl 0 0 s)) 7" and "AddressMode (ctl 0 0 s) \<noteq> 0" and "DisableIrq (ctl 0 0 s) \<noteq> 0"
    and "Buffer (ctl 0 0 s) = Some b" and "512 \<le> length b"
    and "(val, ext) \<in> {(0x20, False), (0x21, False), (0x24, True)}" and "len \<in> {1, 2, 4}"
    and "n = transfer_count ext (ctl 0 0 s)" and "lb = transfer_start ext (ctl 0 0 s)"
    and "unat lb + n \<le> unat (disk_sectors s)" and "unat lb + n < 2 ^ (if ext then 48 else 32)"
    and "\<And>k. k < n \<Longrightarrow> disk_sector s (lb + of_nat k) = Inr (secs k) \<and> length (secs k) = 512"
  shows "\<exists>t u vs. HardDiskPortIoWriteHandler env 0x1f7 val 1 s = Inr t \<and>
    read_port env 0x1f0 len (n * (512 div unat len)) t = Inr (vs, u) \<and>
    port_bytes len vs = concat (map secs [0 ..< n]) \<and> pio_done (ctl 0 0 u)"
proof -
  obtain m where m: "n = Suc m" using transfer_count_pos(1) [of ext "ctl 0 0 s"] assms(9) gr0_implies_Suc by blast
  have s0: "disk_sector s lb = Inr (secs 0)" "length (secs 0) = 512" using assms(13) [of 0] m by simp_all
  obtain t where t: "HardDiskPortIoWriteHandler env 0x1f7 val 1 s = Inr t" "pio 0 (secs 0) m (lb + 1) (ctl 0 0 t)" "ata_kept 0 0 s t"
    "unat (lb + 1) = unat lb + 1"
    using read_command_starts [OF assms(1-7) assms(9) [unfolded m] assms(10) assms(11,12) [unfolded m] s0, of env] by blast
  have dt: "same_disk s t" using t(3) by (simp add: ata_kept_def)
  obtain vs v where v: "read_port env 0x1f0 len (Suc m * (512 div unat len)) t = Inr (vs, v)"
    "port_bytes len vs = secs 0 @ concat (map (\<lambda>k. secs (Suc k)) [0 ..< m])" "pio_done (ctl 0 0 v)"
    using read_port_sectors [OF ata0_kept [OF t(3) assms(1)] t(2) assms(8), of "\<lambda>k. secs (Suc k)" env]
      sectors_behind [OF dt assms(13) [unfolded m]] assms(11) m t(4) disk_sectors_same [OF dt] by auto
  have "secs 0 @ concat (map (\<lambda>k. secs (Suc k)) [0 ..< m]) = concat (map secs [0 ..< Suc m])"
    by (rule concat_shift)
  then show ?thesis using t(1) v m by auto
qed

definition ata_demo :: ata_state where
  "ata_demo = upd_ctl 0 0 (\<lambda>c. c\<lparr>Buffer := Some (replicate 8198 0), AddressMode := 0x40, SectorCount := 1, SectorNumber := 1,
       DisableIrq := 2, Status := 0x50\<rparr>)
     (upd_drv 0 0 (\<lambda>x. x\<lparr>DriveType := DRIVE_TYPE_DISK, Heads := 16, Spt := 63\<rparr>) (init_channel 0 0x1f0 0x3f0 14
       (ata_zero\<lparr>vhdImage := VHDIMAGE_zero\<lparr>vhd_hFile := Some (file_of (replicate 512 1 @ replicate 512 2)), cbSize := 1024\<rparr>\<rparr>)))"

lemma ata_demo_simps:
  "ata0 ata_demo" "dnum 0 ata_demo = 0"
  "ctl 0 0 ata_demo = CONTROLLER_zero\<lparr>Buffer := Some (replicate 8198 0), AddressMode := 0x40, SectorCount := 1, SectorNumber := 1,
     DisableIrq := 2, Status := 0x50\<rparr>"
  "vhdImage ata_demo = VHDIMAGE_zero\<lparr>vhd_hFile := Some (file_of (replicate 512 1 @ replicate 512 2)), cbSize := 1024\<rparr>"
  by (simp_all add: ata_demo_def ata0_def dnum_def drv_def ctl_def upd_ctl_def upd_drv_def upd_chan_def init_channel_def
      ata_zero_def ata_state.defs ide_state.defs CHANNEL_zero_def DRIVE_zero_def)

lemma ata_demo_disk: "disk_sectors ata_demo = 2" "disk_sector ata_demo 1 = Inr (replicate 512 2)"
  by (simp_all add: disk_sectors_def VhdGetHardDiskSize_def disk_sector_def VhdRead_def VhdSeek_def upd_vhd_def ata_demo_simps
      VHDIMAGE_zero_def read_at_file_of)

theorem pio_read_delivers_witness:
  "\<exists>t u vs. HardDiskPortIoWriteHandler (\<lambda>_ _. True) 0x1f7 0x20 1 ata_demo = Inr t \<and>
    read_port (\<lambda>_ _. True) 0x1f0 2 256 t = Inr (vs, u) \<and> port_bytes 2 vs = replicate 512 2"
proof -
  have c: "transfer_count False (ctl 0 0 ata_demo) = 1" "transfer_start False (ctl 0 0 ata_demo) = 1"
    by (simp_all add: transfer_count_def transfer_start_def ctl_address_def ata_demo_simps CONTROLLER_zero_def)
  have st: "\<not> bit (Status (ctl 0 0 ata_demo)) 7" "AddressMode (ctl 0 0 ata_demo) \<noteq> 0" "DisableIrq (ctl 0 0 ata_demo) \<noteq> 0"
    "Buffer (ctl 0 0 ata_demo) = Some (replicate 8198 0)"
    by (simp_all add: ata_demo_simps)
  have v: "((0x20 :: ULONG), False) \<in> {(0x20, False), (0x21, False), (0x24, True)}" "(2 :: ULONG) \<in> {1, 2, 4}" by simp_all
  have r: "unat (1 :: ULONG64) + 1 \<le> unat (disk_sectors ata_demo)" "unat (1 :: ULONG64) + 1 < 2 ^ (if False then 48 else 32)"
    by (simp_all add: ata_demo_disk)
  have d: "disk_sector ata_demo (1 + of_nat k) = Inr (replicate 512 2) \<and> length (replicate 512 (2 :: BYTE)) = 512" if "k < 1" for k
    using that by (simp add: ata_demo_disk)
  have "512 \<le> length (replicate 8198 (0 :: BYTE))" by simp
  from pio_read_delivers [OF ata_demo_simps(1) st this v c(1) [symmetric] c(2) [symmetric] r d, of "\<lambda>_ _. True"]
  show ?thesis by auto
qed

end
