(* ===== verification/Ide.thy ===== *)
theory Ide
  imports Ata_Read
begin

text \<open>
  The transfer engine of the bus-master IDE controller (\<open>IdeTimerHandler\<close> of \<open>ide.c\<close>): one entry of the table
  of physical region descriptors per call, moved between the guest's memory and the buffer of the channel.
\<close>

section \<open>The timer\<close>

definition host_bytes :: "'z cpu_state_scheme \<Rightarrow> ULONG64 \<Rightarrow> nat \<Rightarrow> BYTE list res" where
  "host_bytes s a n = (if host_ok s a n then Inr (map (\<lambda>i. HostMem s (a + of_nat i)) [0 ..< n]) else Inl OutOfBounds)"

definition bm_get :: "nat \<Rightarrow> nat \<Rightarrow> nat \<Rightarrow> 'z ide_state_scheme \<Rightarrow> BYTE list res" where
  "bm_get ch off n s = (case bm_Buffer (bmdma s ch) of None \<Rightarrow> Inl OutOfBounds | Some b \<Rightarrow> slice b off n)"

definition bm_writes :: "nat \<Rightarrow> 'z ide_state_scheme \<Rightarrow> bool" where
  "bm_writes ch s \<longleftrightarrow> testw (bm_Command (bmdma s ch)) IDE_BDMA_COMMAND_WRITE"

text \<open>The loop over the sectors; the result says whether the handler returned from inside it.\<close>

fun bm_sectors :: "env \<Rightarrow> nat \<Rightarrow> nat list \<Rightarrow> 'z ata_state_scheme \<Rightarrow> (bool \<times> 'z ata_state_scheme) res" where
  "bm_sectors env ch [] s = Inr (False, s)"
| "bm_sectors env ch (k # ks) s =
     bindE (if bm_writes ch s then HardDiskBmdmaReadSector env ch (unat (BufferOffset (bmdma s ch)) + 512 * k) s
            else HardDiskBmdmaWriteSector env ch s) (\<lambda>(ret, s).
     if ret \<noteq> 0 then bindE (HardDiskBdmaComplete env ch s) (\<lambda>s. Inr (True, s)) else bm_sectors env ch ks s)"

definition bm_size :: "DWORD \<Rightarrow> DWORD" where
  "bm_size count = (if count AND 0xfffe = 0 then 0x10000 else count AND 0xfffe)"

definition bm_transfer :: "env \<Rightarrow> nat \<Rightarrow> DWORD \<Rightarrow> DWORD \<Rightarrow> 'z ata_state_scheme \<Rightarrow> 'z ata_state_scheme res" where
  "bm_transfer env ch prdAddress prdCount s =
     (let sz = bm_size prdCount; off = BufferOffset (bmdma s ch);
          s = (if off + sz < sz \<or> off + sz > of_nat IDE_BUFFER_SIZE then upd_bm ch (\<lambda>b. b\<lparr>BufferOffset := 0\<rparr>) s else s);
          start = unat (BufferOffset (bmdma s ch))
      in bindE (if bm_writes ch s then Inr s
                else bindE (SvmmGetHostPageFromGPA s (ucast prdAddress)) (\<lambda>a.
                     bindE (host_bytes s a (unat sz)) (\<lambda>bs. bm_put ch start bs s))) (\<lambda>s.
         bindE (bm_sectors env ch [0 ..< (unat sz + 511) div 512] s) (\<lambda>(returned, s).
         if returned then Inr s
         else bindE (if bm_writes ch s
                     then bindE (SvmmGetHostPageFromGPA s (ucast prdAddress)) (\<lambda>a.
                          bindE (bm_get ch (unat (BufferOffset (bmdma s ch))) (unat sz) s) (\<lambda>bs. host_write s a bs))
                     else Inr s) (\<lambda>s.
              if testw prdCount 0x80000000
              then HardDiskBdmaComplete env ch (upd_bm ch (\<lambda>b. b\<lparr>bm_Status := (bm_Status b AND NOT IDE_STATUS_ACTIVE) OR IDE_STATUS_START,
                     PrdCurrent := 0, BufferOffset := 0\<rparr>) s)
              else Inr (upd_bm ch (\<lambda>b. b\<lparr>BufferOffset := BufferOffset b + sz, PrdCurrent := PrdCurrent b + 8\<rparr>) s)))))"

definition bm_active :: "'z ide_state_scheme \<Rightarrow> nat \<Rightarrow> bool" where
  "bm_active s ch \<longleftrightarrow> testw (bm_Status (bmdma s ch)) IDE_STATUS_ACTIVE \<and> PrdCurrent (bmdma s ch) \<noteq> 0"

definition IdeTimerHandler :: "env \<Rightarrow> 'z ata_state_scheme \<Rightarrow> 'z ata_state_scheme res" where
  "IdeTimerHandler env s =
     (case find (bm_active s) [0, 1] of
        None \<Rightarrow> Inr s
      | Some ch \<Rightarrow>
          if DataReady (bmdma s ch) = 0 \<and> bm_writes ch s then Inr s
          else let prd = PrdCurrent (bmdma s ch)
               in bindE (SvmmGetHostPageFromGPA s (ucast prd)) (\<lambda>a.
                  bindE (host_read s a 4) (\<lambda>address.
                  bindE (SvmmGetHostPageFromGPA s (ucast (prd + 4))) (\<lambda>a.
                  bindE (host_read s a 4) (\<lambda>count.
                  bm_transfer env ch (ucast address) (ucast count) s)))))"

end
