(* ===== verification/Gui_Keys.thy ===== *)
theory Gui_Keys
  imports Ide
begin

text \<open>
  The key events of \<open>win32gui.c\<close>: the ring buffer between the window thread and the virtual machine, the
  suppression of repeated modifier keys, the table from the host's scan codes to key numbers, and the loop that hands
  the events to the PS/2 controller; the modifier state of \<open>gui.c\<close>. Both threads access the ring inside the
  critical section \<open>keyCS\<close>, so that an access is one step.
\<close>

section \<open>State\<close>

text \<open>
  \<open>keyevents\<close>, \<open>head\<close> and \<open>tail\<close>, and the static variables of \<open>enq_key_event\<close>. Of an event only \<open>key_event\<close>
  is used: \<open>enq_mouse_event\<close> returns at once.
\<close>

record KEYQ =
  keyevents :: "DWORD list"
  qhead :: DWORD
  qtail :: DWORD
  alt_pressed_l :: bool
  alt_pressed_r :: bool
  ctrl_pressed_l :: bool
  ctrl_pressed_r :: bool
  shift_pressed_l :: bool
  shift_pressed_r :: bool

record key_state = ata_state +
  KeyQ :: KEYQ
  keymodstate :: BYTE
  toggle_method :: BYTE
  toggle_keystate :: DWORD
  win32_toolbar_entries :: DWORD

definition KEYQ_zero :: KEYQ where
  "KEYQ_zero = \<lparr>keyevents = replicate 20 0, qhead = 0, qtail = 0, alt_pressed_l = False, alt_pressed_r = False,
     ctrl_pressed_l = False, ctrl_pressed_r = False, shift_pressed_l = False, shift_pressed_r = False\<rparr>"

definition key_zero :: key_state where
  "key_zero = ata_state.extend ata_zero (key_state.fields KEYQ_zero 0 0 0 0)"

definition SCANCODE_BUFSIZE :: DWORD where "SCANCODE_BUFSIZE = 20"
definition MOUSE_PRESSED :: DWORD where "MOUSE_PRESSED = 0x20000000"
definition TOOLBAR_CLICKED :: DWORD where "TOOLBAR_CLICKED = 0x08000000"
definition MOUSE_MOTION :: DWORD where "MOUSE_MOTION = 0x22000000"
definition FOCUS_CHANGED :: DWORD where "FOCUS_CHANGED = 0x44000000"
definition BX_KEY_PRESSED :: DWORD where "BX_KEY_PRESSED = 0"

section \<open>The ring buffer\<close>

definition put_event :: "DWORD \<Rightarrow> KEYQ \<Rightarrow> KEYQ res" where
  "put_event ev q =
     (if (qtail q + 1) mod SCANCODE_BUFSIZE = qhead q then Inr q
      else bindE (arr_set (keyevents q) (unat (qtail q)) ev) (\<lambda>evs.
           Inr (q\<lparr>keyevents := evs, qtail := (qtail q + 1) mod SCANCODE_BUFSIZE\<rparr>)))"

definition deq_key_event :: "KEYQ \<Rightarrow> (DWORD option \<times> KEYQ) res" where
  "deq_key_event q =
     (if qhead q = qtail q then Inr (None, q)
      else bindE (arr_get (keyevents q) (unat (qhead q))) (\<lambda>key.
           Inr (Some key, q\<lparr>qhead := (qhead q + 1) mod SCANCODE_BUFSIZE\<rparr>)))"

text \<open>\<open>None\<close>: the event is dropped by an early return.\<close>

definition release_key :: "DWORD \<Rightarrow> KEYQ \<Rightarrow> KEYQ option" where
  "release_key key q =
     (if key = 0x1d then if ctrl_pressed_l q then Some (q\<lparr>ctrl_pressed_l := False\<rparr>) else None
      else if key = 0x2a then Some (q\<lparr>shift_pressed_l := False\<rparr>)
      else if key = 0x36 then Some (q\<lparr>shift_pressed_r := False\<rparr>)
      else if key = 0x38 then Some (q\<lparr>alt_pressed_l := False\<rparr>)
      else if key = 0x11d then Some (q\<lparr>ctrl_pressed_r := False\<rparr>)
      else if key = 0x138 then Some (q\<lparr>alt_pressed_r := False\<rparr>)
      else Some q)"

definition enq_release :: "DWORD \<Rightarrow> DWORD \<Rightarrow> KEYQ \<Rightarrow> KEYQ res" where
  "enq_release key press_release q =
     (case release_key key q of None \<Rightarrow> Inr q | Some q \<Rightarrow> put_event (key OR press_release) q)"

text \<open>A held modifier key is repeated by Windows; the right Alt key releases the left Ctrl key first.\<close>

definition press_key :: "DWORD \<Rightarrow> KEYQ \<Rightarrow> KEYQ option res" where
  "press_key key q =
     (if key = 0x1d then Inr (if ctrl_pressed_l q then None else Some (q\<lparr>ctrl_pressed_l := True\<rparr>))
      else if key = 0x2a then Inr (if shift_pressed_l q then None else Some (q\<lparr>shift_pressed_l := True\<rparr>))
      else if key = 0x36 then Inr (if shift_pressed_r q then None else Some (q\<lparr>shift_pressed_r := True\<rparr>))
      else if key = 0x38 then Inr (if alt_pressed_l q then None else Some (q\<lparr>alt_pressed_l := True\<rparr>))
      else if key = 0x11d then Inr (if ctrl_pressed_r q then None else Some (q\<lparr>ctrl_pressed_r := True\<rparr>))
      else if key = 0x138
      then if alt_pressed_r q then Inr None
           else bindE (if ctrl_pressed_l q then enq_release 0x1d BX_KEY_RELEASED q else Inr q) (\<lambda>q.
                Inr (Some (q\<lparr>alt_pressed_r := True\<rparr>)))
      else Inr (Some q))"

definition enq_key_event :: "DWORD \<Rightarrow> DWORD \<Rightarrow> KEYQ \<Rightarrow> KEYQ res" where
  "enq_key_event key press_release q =
     (if press_release = FOCUS_CHANGED
      then put_event (key OR press_release) (q\<lparr>alt_pressed_l := False, alt_pressed_r := False, ctrl_pressed_l := False,
             ctrl_pressed_r := False, shift_pressed_l := False, shift_pressed_r := False\<rparr>)
      else if press_release = BX_KEY_PRESSED
      then bindE (press_key key q) (\<lambda>r. case r of None \<Rightarrow> Inr q | Some q \<Rightarrow> put_event (key OR press_release) q)
      else enq_release key press_release q)"

definition upd_keyq :: "(KEYQ \<Rightarrow> KEYQ) \<Rightarrow> 'z key_state_scheme \<Rightarrow> 'z key_state_scheme" where
  "upd_keyq f s = s\<lparr>KeyQ := f (KeyQ s)\<rparr>"

definition gen_key_event :: "DWORD \<Rightarrow> DWORD \<Rightarrow> 'z key_state_scheme \<Rightarrow> 'z key_state_scheme res" where
  "gen_key_event key press_release s = bindE (enq_key_event key press_release (KeyQ s)) (\<lambda>q. Inr (s\<lparr>KeyQ := q\<rparr>))"

section \<open>Modifier keys\<close>

definition BX_MOD_KEY_SHIFT :: BYTE where "BX_MOD_KEY_SHIFT = 0x01"
definition BX_MOD_KEY_CAPS :: BYTE where "BX_MOD_KEY_CAPS = 0x08"

definition get_modifier_keys :: "'z key_state_scheme \<Rightarrow> BYTE" where
  "get_modifier_keys s =
     (if keymodstate s AND BX_MOD_KEY_CAPS > 0 then (keymodstate s AND NOT BX_MOD_KEY_CAPS) OR BX_MOD_KEY_SHIFT else keymodstate s)"

definition set_modifier_keys :: "BYTE \<Rightarrow> bool \<Rightarrow> 'z key_state_scheme \<Rightarrow> BYTE \<times> 'z key_state_scheme" where
  "set_modifier_keys modifier pressed s =
     (let old = keymodstate s;
          newstate = (if modifier = BX_MOD_KEY_CAPS then if pressed then old XOR modifier else old
                      else if pressed then old OR modifier else old AND NOT modifier)
      in (old XOR newstate, s\<lparr>keymodstate := newstate\<rparr>))"

definition toggle_held :: "BYTE \<Rightarrow> DWORD \<Rightarrow> bool" where
  "toggle_held meth keys =
     (if meth = 0 then keys AND 0x11 = 0x11 \<or> keys AND 0x61 = 0x61
      else if meth = 1 then keys AND 0x05 = 0x05
      else if meth = 2 then keys AND 0x03 = 0x03
      else if meth = 3 then keys = 0x08
      else False)"

definition mouse_toggle_check :: "DWORD \<Rightarrow> bool \<Rightarrow> 'z key_state_scheme \<Rightarrow> bool \<times> 'z key_state_scheme" where
  "mouse_toggle_check key pressed s =
     (if pressed
      then let newstate = toggle_keystate s OR key
           in if newstate = toggle_keystate s then (False, s)
              else (toggle_held (toggle_method s) newstate, s\<lparr>toggle_keystate := newstate\<rparr>)
      else (False, s\<lparr>toggle_keystate := toggle_keystate s AND NOT key\<rparr>))"

section \<open>From the host's keys to the PS/2 controller\<close>

text \<open>
  The two tables of \<open>win32_to_bx_key\<close>; the entries behind the initialisers are 0. Key number 0 is \<open>BX_KEY_CTRL_L\<close>
  and also stands for keys that have no number.
\<close>

definition normal_keys :: "DWORD list" where
  "normal_keys =
    [0, 56, 47, 48, 49, 50, 51, 52, 53, 54, 55, 46, 67, 63, 69, 71,
     36, 42, 24, 37, 39, 44, 40, 28, 34, 35, 64, 66, 70, 0, 20, 38,
     23, 25, 26, 27, 29, 30, 31, 62, 58, 68, 1, 65, 45, 43, 22, 41,
     21, 33, 32, 59, 60, 61, 15, 100, 18, 57, 16, 2, 3, 4, 5, 6,
     7, 8, 9, 10, 11, 75, 74, 89, 90, 91, 83, 87, 94, 88, 82, 84,
     85, 86, 92, 93, 0, 0, 72, 12, 13, 0, 0, 0, 0, 0, 0, 0,
     0, 0, 0, 0, 0, 0, 0, 0, 0, 0, 0, 0, 0, 0, 0, 0,
     0, 0, 0, 0, 0, 0, 0, 0, 0, 0, 0, 0, 0, 0, 0, 0] @ replicate 128 0"

definition extended_keys :: "DWORD list" where
  "extended_keys =
    [0, 0, 0, 0, 0, 0, 0, 0, 0, 0, 0, 0, 0, 0, 0, 0,
     0, 0, 0, 0, 0, 0, 0, 0, 0, 0, 0, 0, 99, 14, 0, 0,
     0, 115, 0, 0, 0, 0, 0, 0, 0, 0, 0, 0, 0, 0, 0, 0,
     0, 0, 113, 0, 0, 101, 0, 73, 19, 0, 0, 0, 0, 0, 0, 0,
     0, 0, 0, 0, 0, 17, 106, 78, 95, 80, 0, 97, 0, 98, 0, 79,
     96, 81, 76, 77, 0, 0, 0, 0, 0, 0, 0, 102, 103, 104, 117, 116,
     0, 0, 0, 118, 0, 111, 112, 0, 109, 108, 107, 114, 110, 0, 0, 0] @ replicate 144 0"

definition win32_to_bx_key :: "DWORD list list" where
  "win32_to_bx_key = [normal_keys, extended_keys]"

text \<open>No entry of the tool bar is ever made, so the function pointers behind \<open>win32_toolbar_entry\<close> are null.\<close>

definition win32_toolbar_click :: "DWORD \<Rightarrow> 'z key_state_scheme \<Rightarrow> 'z key_state_scheme res" where
  "win32_toolbar_click x s = (if x < win32_toolbar_entries s then Inl NullCall else Inr s)"

definition handle_key :: "DWORD \<Rightarrow> 'z key_state_scheme \<Rightarrow> 'z key_state_scheme res" where
  "handle_key key s =
     (if key = MOUSE_MOTION \<or> key = FOCUS_CHANGED \<or> testw key MOUSE_PRESSED then Inr s
      else if testw key TOOLBAR_CLICKED then win32_toolbar_click (key AND 0xffff) s
      else bindE (arr_get (win32_to_bx_key ! (if testw key 0x100 then 1 else 0)) (unat (key AND 0xff))) (\<lambda>key_event.
           Ps2GenerateScancode (if testw key BX_KEY_RELEASED then key_event OR BX_KEY_RELEASED else key_event) s))"

lemma Ps2WriteKeyboardMemory_keyq: "specE UNIV (\<lambda>t. KeyQ t = KeyQ s) (Ps2WriteKeyboardMemory b s)"
  by (auto simp: Ps2WriteKeyboardMemory_def upd_ps2_def Let_def arr_set_def)

lemma Ps2WriteKeyboardMemory_keyq': "KeyQ u = q \<Longrightarrow> specE UNIV (\<lambda>t. KeyQ t = q) (Ps2WriteKeyboardMemory b u)"
  using Ps2WriteKeyboardMemory_keyq [of u b] by simp

lemma ps2_send_translated_keyq: "specE UNIV (\<lambda>t. KeyQ t = KeyQ s) (ps2_send_translated e bs s)"
proof (induction e bs s rule: ps2_send_translated.induct)
  case (2 e b bs s)
  then show ?case
  proof (cases "b = 0xF0")
    case False
    have "specE UNIV (\<lambda>t. KeyQ t = KeyQ s) (ps2_send_translated 0 bs u)" if "KeyQ u = KeyQ s" for u :: "'a key_state_scheme"
      using 2(1) [OF False, of u] that by simp
    then show ?thesis using False by (simp add: specE_bindI [OF Ps2WriteKeyboardMemory_keyq])
  qed simp
qed simp

lemma Ps2GenerateScancode_keyq: "specE UNIV (\<lambda>t. KeyQ t = KeyQ s) (Ps2GenerateScancode k s)"
  unfolding Ps2GenerateScancode_def Let_def
  by (auto intro!: specE_bind_any ps2_send_translated_keyq specE_foldI Ps2WriteKeyboardMemory_keyq')

lemma handle_key_keyq: "specE UNIV (\<lambda>t. KeyQ t = KeyQ s) (handle_key k s)"
  unfolding handle_key_def win32_toolbar_click_def by (auto intro!: specE_bind_any Ps2GenerateScancode_keyq)

text \<open>The loop of \<open>handle_events\<close>; a tail outside the ring would never be reached.\<close>

definition ring_count :: "KEYQ \<Rightarrow> nat" where
  "ring_count q = (let h = unat (qhead q); t = unat (qtail q) in if h \<le> t then t - h else t + 20 - h)"

lemma mod20: "h < 20 \<Longrightarrow> i \<le> 20 \<Longrightarrow> (h + i) mod 20 = (if h + i < 20 then h + i else h + i - 20 :: nat)"
  by (simp add: mod_if)

lemma suc_mod20: "h < 20 \<Longrightarrow> Suc h mod 20 = (if h = 19 then 0 else Suc h)"
  by (simp add: mod_if)

lemma unat_ring_next: "h < SCANCODE_BUFSIZE \<Longrightarrow> unat ((h + 1) mod 20 :: DWORD) = (unat h + 1) mod 20"
proof -
  assume "h < SCANCODE_BUFSIZE"
  then have "unat h < 20" by (simp add: SCANCODE_BUFSIZE_def word_less_nat_alt)
  then have "unat (h + 1) = unat h + 1" by (simp add: unat_word_ariths)
  then show ?thesis by (simp add: unat_mod_distrib)
qed

lemma ring_count_next:
  assumes "qhead q < SCANCODE_BUFSIZE" "qtail q < SCANCODE_BUFSIZE" "qhead q \<noteq> qtail q"
  shows "ring_count q = Suc (ring_count (q\<lparr>qhead := (qhead q + 1) mod 20\<rparr>))"
proof -
  have h: "unat (qhead q) < 20" "unat (qtail q) < 20" "unat (qhead q) \<noteq> unat (qtail q)"
    using assms by (simp_all add: SCANCODE_BUFSIZE_def word_less_nat_alt word_unat_eq_iff)
  then show ?thesis by (auto simp: ring_count_def Let_def unat_ring_next [OF assms(1)] mod20 suc_mod20 split: if_splits)
qed

function key_loop :: "'z key_state_scheme \<Rightarrow> 'z key_state_scheme res" where
  "key_loop s =
     (if qhead (KeyQ s) = qtail (KeyQ s) then Inr s
      else if \<not> (qhead (KeyQ s) < SCANCODE_BUFSIZE \<and> qtail (KeyQ s) < SCANCODE_BUFSIZE) then Inl Hang
      else case deq_key_event (KeyQ s) of
             Inl e \<Rightarrow> Inl e
           | Inr (None, q) \<Rightarrow> Inr s
           | Inr (Some key, q) \<Rightarrow>
               (case handle_key key (s\<lparr>KeyQ := q\<rparr>) of
                  Inl e \<Rightarrow> Inl e
                | Inr t \<Rightarrow> key_loop t))"
  by pat_completeness auto
termination
proof (relation "measure (\<lambda>s. ring_count (KeyQ s))")
  fix s t :: "'z key_state_scheme" and k q x y
  assume h: "qhead (KeyQ s) \<noteq> qtail (KeyQ s)" "\<not> \<not> (qhead (KeyQ s) < SCANCODE_BUFSIZE \<and> qtail (KeyQ s) < SCANCODE_BUFSIZE)"
    "deq_key_event (KeyQ s) = Inr x" "(y, q) = x" "y = Some k" "handle_key k (s\<lparr>KeyQ := q\<rparr>) = Inr t"
  have q: "KeyQ t = q" using specE_InrD [OF handle_key_keyq h(6)] by simp
  have "q = (KeyQ s)\<lparr>qhead := (qhead (KeyQ s) + 1) mod 20\<rparr>"
    using h(3-5) h(1) by (auto simp: deq_key_event_def bindE_eq_Inr_iff SCANCODE_BUFSIZE_def)
  then show "(t, s) \<in> measure (\<lambda>s. ring_count (KeyQ s))" using h(1,2) ring_count_next [of "KeyQ s"] q by simp
qed simp

section \<open>The ring as a queue\<close>

definition ring_contents :: "KEYQ \<Rightarrow> DWORD list" where
  "ring_contents q = map (\<lambda>i. keyevents q ! ((unat (qhead q) + i) mod 20)) [0 ..< ring_count q]"

definition ring_ok :: "KEYQ \<Rightarrow> bool" where
  "ring_ok q \<longleftrightarrow> length (keyevents q) = 20 \<and> unat (qhead q) < 20 \<and> unat (qtail q) < 20"

definition ring_pop :: "KEYQ \<Rightarrow> (DWORD \<times> KEYQ) res" where
  "ring_pop q = bindE (deq_key_event q) (\<lambda>(r, q). case r of None \<Rightarrow> Inl NullCall | Some key \<Rightarrow> Inr (key, q))"

lemma ring_ok_less: "ring_ok q \<Longrightarrow> qhead q < SCANCODE_BUFSIZE" "ring_ok q \<Longrightarrow> qtail q < SCANCODE_BUFSIZE"
  by (simp_all add: ring_ok_def SCANCODE_BUFSIZE_def word_less_nat_alt)

lemma ring_count_0: "ring_count (q\<lparr>qtail := qhead q\<rparr>) = 0"
  by (simp add: ring_count_def)

lemma ring_put:
  assumes ok: "ring_ok q" and room: "ring_count q < 19"
  shows "put_event ev q = Inr (q\<lparr>keyevents := (keyevents q)[unat (qtail q) := ev], qtail := (qtail q + 1) mod 20\<rparr>)"
    and "ring_count (q\<lparr>qtail := (qtail q + 1) mod 20\<rparr>) = Suc (ring_count q)"
proof -
  have b: "unat (qhead q) < 20" "unat (qtail q) < 20" using ok by (simp_all add: ring_ok_def)
  have n: "unat ((qtail q + 1) mod 20) = (unat (qtail q) + 1) mod 20" by (rule unat_ring_next [OF ring_ok_less(2) [OF ok]])
  show c: "ring_count (q\<lparr>qtail := (qtail q + 1) mod 20\<rparr>) = Suc (ring_count q)"
    using b room by (auto simp: ring_count_def Let_def n mod20 suc_mod20 split: if_splits)
  have "(qtail q + 1) mod 20 \<noteq> qhead q"
  proof
    assume "(qtail q + 1) mod 20 = qhead q"
    then have "ring_count (q\<lparr>qtail := (qtail q + 1) mod 20\<rparr>) = 0" by (simp add: ring_count_def)
    then show False using c by simp
  qed
  then show "put_event ev q = Inr (q\<lparr>keyevents := (keyevents q)[unat (qtail q) := ev], qtail := (qtail q + 1) mod 20\<rparr>)"
    using ok b by (simp add: put_event_def SCANCODE_BUFSIZE_def ring_ok_def)
qed

lemma ring_push:
  assumes ok: "ring_ok q" and room: "length (ring_contents q) < 19"
  shows "specE {} (\<lambda>t. ring_ok t \<and> ring_contents t = ring_contents q @ [ev]) (put_event ev q)"
proof -
  have b: "unat (qhead q) < 20" "unat (qtail q) < 20" "length (keyevents q) = 20" using ok by (simp_all add: ring_ok_def)
  have r: "ring_count q < 19" using room by (simp add: ring_contents_def)
  have n: "unat ((qtail q + 1) mod 20) = (unat (qtail q) + 1) mod 20" by (rule unat_ring_next [OF ring_ok_less(2) [OF ok]])
  let ?q = "q\<lparr>keyevents := (keyevents q)[unat (qtail q) := ev], qtail := (qtail q + 1) mod 20\<rparr>"
  have cnt: "ring_count ?q = Suc (ring_count q)" using ring_put(2) [OF ok r] by (simp add: ring_count_def)
  have l: "(unat (qhead q) + ring_count q) mod 20 = unat (qtail q)" using b by (auto simp: ring_count_def Let_def mod20)
  have ne: "unat (qtail q) \<noteq> (unat (qhead q) + i) mod 20" if "i < ring_count q" for i
  proof
    assume e: "unat (qtail q) = (unat (qhead q) + i) mod 20"
    have "i < 20" using that r by simp
    then have "i = ring_count q" using e b by (auto simp: ring_count_def Let_def mod20 suc_mod20 split: if_splits)
    then show False using that by simp
  qed
  have "ring_contents ?q = ring_contents q @ [ev]"
    unfolding ring_contents_def cnt using b l by (simp add: ne)
  then show ?thesis using b n by (simp add: ring_put(1) [OF ok r] ring_ok_def)
qed

lemma ring_pop_first:
  assumes ok: "ring_ok q" and c: "ring_contents q = ev # evs"
  shows "specE {} (\<lambda>(e, t). e = ev \<and> ring_ok t \<and> ring_contents t = evs) (ring_pop q)"
proof -
  have b: "unat (qhead q) < 20" "unat (qtail q) < 20" "length (keyevents q) = 20" using ok by (simp_all add: ring_ok_def)
  have "length (ring_contents q) \<noteq> 0" using c by simp
  then have "ring_count q \<noteq> 0" by (simp add: ring_contents_def)
  then have ne: "qhead q \<noteq> qtail q" by (auto simp: ring_count_def)
  let ?q = "q\<lparr>qhead := (qhead q + 1) mod 20\<rparr>"
  have n: "unat ((qhead q + 1) mod 20) = (unat (qhead q) + 1) mod 20" by (rule unat_ring_next [OF ring_ok_less(1) [OF ok]])
  have "ring_contents q = keyevents q ! unat (qhead q) # ring_contents ?q"
    unfolding ring_contents_def ring_count_next [OF ring_ok_less [OF ok] ne] using b
    by (simp add: n upt_conv_Cons map_Suc_upt [symmetric] comp_def mod_simps del: upt_Suc)
  then show ?thesis using c b n ne by (simp add: ring_pop_def deq_key_event_def SCANCODE_BUFSIZE_def ring_ok_def)
qed

interpretation kev: fifo ring_contents put_event ring_pop 19 ring_ok "{}"
  by unfold_locales (simp_all add: ring_push ring_pop_first)

section \<open>A key press on its way to the guest\<close>

definition key_number :: "DWORD \<Rightarrow> DWORD" where
  "key_number key = win32_to_bx_key ! (if testw key 0x100 then 1 else 0) ! unat (key AND 0xff)"

text \<open>The code that the host's keyboard sends for a scan code of Windows: the extended keys have the prefix 0xe0.\<close>

definition host_code :: "nat \<Rightarrow> BYTE list" where
  "host_code k = (if k < 256 then [of_nat k] else [0xE0, of_nat (k - 256)])"

definition key_supported :: "nat \<Rightarrow> bool" where
  "key_supported k \<longleftrightarrow> k < 512 \<and> (key_number (of_nat k) \<noteq> 0 \<or> k = 0x1d) \<and> k \<notin> {0x45, 0x137, 0x145}"

lemma win32_length: "i < 2 \<Longrightarrow> length (win32_to_bx_key ! i) = 256"
  by (auto simp: win32_to_bx_key_def normal_keys_def extended_keys_def less_2_cases_iff)

lemma unat_and_ff: "unat (w AND 0xff :: DWORD) = unat w mod 256"
proof -
  have "w AND 0xff = take_bit 8 w" by (simp add: take_bit_eq_mask mask_eq_exp_minus_1)
  then show ?thesis by (simp add: unat_take_bit)
qed

definition make1 :: "BYTE list list" where
  "make1 = map (\<lambda>codes. Make (codes ! 0)) scancodes"

definition key_agrees :: "nat \<times> DWORD \<Rightarrow> bool" where
  "key_agrees = (\<lambda>(k, n). n = 0 \<and> k \<noteq> 0x1d \<or> k \<in> {0x45, 0x137, 0x145} \<or> make1 ! unat n = host_code k)"

lemma key_agrees_simp: "key_agrees (k, n) \<longleftrightarrow> n = 0 \<and> k \<noteq> 0x1d \<or> k \<in> {0x45, 0x137, 0x145} \<or> make1 ! unat n = host_code k"
  by (simp add: key_agrees_def)

lemmas make1_simps = make1_def [unfolded scancodes_def scancodes_1_def scancodes_2_def scancodes_3_def
      scancodes_4_def scancodes_5_def sc_def, simplified]

lemma normal_keys_agree: "list_all key_agrees (zip (0 # 1 # [2 ..< 128]) (take 128 normal_keys))"
  by (simp add: normal_keys_def key_agrees_simp host_code_def make1_simps)

lemma extended_keys_agree: "list_all key_agrees (zip [256 ..< 368] (take 112 extended_keys))"
  by (simp add: extended_keys_def key_agrees_simp host_code_def make1_simps)

lemma zip_upt_nth:
  assumes "list_all P (zip [a ..< b] xs)" "i < length xs" "a + i < b"
  shows "P (a + i, xs ! i)"
proof -
  have "i < length (zip [a ..< b] xs)" using assms(2,3) by simp
  then have "P (zip [a ..< b] xs ! i)" using assms(1) by (simp only: list_all_length)
  then show ?thesis using assms(2,3) by simp
qed

lemma key_number_nth:
  assumes "k < 512"
  shows "key_number (of_nat k) = (if k < 256 then normal_keys ! k else extended_keys ! (k - 256))"
proof -
  have u: "unat (of_nat k :: DWORD) = k" using assms by (simp add: unat_of_nat)
  have d: "k div 256 = (if k < 256 then 0 else 1)" using assms by (auto intro: div_nat_eqI)
  have m: "k mod 256 = (if k < 256 then k else k - 256)" using assms by (simp add: mod_if)
  have "(0x100 :: DWORD) = lsh1 8" by (simp add: lsh1_def push_bit_eq_mult)
  then have "testw (of_nat k :: DWORD) 0x100 \<longleftrightarrow> bit (of_nat k :: DWORD) 8" by (simp only: testw_lsh1)
  also have "\<dots> \<longleftrightarrow> \<not> k < 256" using u d by (simp add: bit_iff_odd_drop_bit drop_bit_eq_div word_arith_nat_div)
  finally show ?thesis using u m by (simp add: key_number_def win32_to_bx_key_def unat_and_ff)
qed

lemma key_agrees_zero: "k \<noteq> 0x1d \<Longrightarrow> key_agrees (k, 0)"
  by (simp add: key_agrees_simp)

lemma key_agrees_all: "k < 512 \<Longrightarrow> key_agrees (k, key_number (of_nat k))"
proof (cases "k < 256")
  case True
  then have n: "key_number (of_nat k) = normal_keys ! k" by (simp add: key_number_nth)
  show ?thesis
  proof (cases "k < 128")
    case k: True
    have "[0 ..< 128] = 0 # 1 # [2 ..< 128 :: nat]" by (simp add: upt_conv_Cons)
    then have l: "list_all key_agrees (zip [0 ..< 128] (take 128 normal_keys))" by (simp only: normal_keys_agree)
    have "k < length (take 128 normal_keys)" using k by (simp add: normal_keys_def)
    then have "key_agrees (0 + k, take 128 normal_keys ! k)" by (rule zip_upt_nth [OF l]) (use k in simp)
    then show ?thesis using n k by simp
  next
    case k: False
    then have "normal_keys ! k = 0" using True by (simp add: normal_keys_def nth_append)
    then show ?thesis using n k key_agrees_zero by simp
  qed
next
  case False
  assume k512: "k < 512"
  then have n: "key_number (of_nat k) = extended_keys ! (k - 256)" using False by (simp add: key_number_nth)
  show ?thesis
  proof (cases "k < 368")
    case k: True
    have "k - 256 < length (take 112 extended_keys)" using k False by (simp add: extended_keys_def)
    then have "key_agrees (256 + (k - 256), take 112 extended_keys ! (k - 256))"
      using k False by (intro zip_upt_nth [OF extended_keys_agree]) simp_all
    then show ?thesis using n k False by simp
  next
    case k: False
    then have "extended_keys ! (k - 256) = 0" using k512 by (simp add: extended_keys_def nth_append)
    then show ?thesis using n k key_agrees_zero by simp
  qed
qed

lemma key_numbers_less: "\<forall>n \<in> set normal_keys \<union> set extended_keys. unat n < 119"
  by (auto simp: normal_keys_def extended_keys_def)

lemma key_number_less:
  assumes "k < 512"
  shows "unat (key_number (of_nat k)) < 119"
proof -
  have "length normal_keys = 256" "length extended_keys = 256" by (simp_all add: normal_keys_def extended_keys_def)
  then have "key_number (of_nat k) \<in> set normal_keys \<union> set extended_keys" using assms by (auto simp: key_number_nth)
  then show ?thesis using key_numbers_less by blast
qed

lemma supported_code:
  assumes "key_supported k"
  shows "Make (scancodes ! unat (key_number (of_nat k)) ! 0) = host_code k"
proof -
  have k: "k < 512" using assms by (simp add: key_supported_def)
  then have "key_agrees (k, key_number (of_nat k))" by (rule key_agrees_all)
  then have "make1 ! unat (key_number (of_nat k)) = host_code k" using assms by (auto simp: key_agrees_simp key_supported_def)
  then show ?thesis using key_number_less [OF k] by (simp add: make1_def scancodes_length)
qed

definition no_modifiers :: "KEYQ \<Rightarrow> bool" where
  "no_modifiers q \<longleftrightarrow> \<not> alt_pressed_l q \<and> \<not> alt_pressed_r q \<and> \<not> ctrl_pressed_l q \<and> \<not> ctrl_pressed_r q \<and>
     \<not> shift_pressed_l q \<and> \<not> shift_pressed_r q"

lemma press_key_free:
  "no_modifiers q \<Longrightarrow> ring_ok q \<Longrightarrow> ring_contents q = [] \<Longrightarrow>
   \<exists>r. press_key key q = Inr (Some r) \<and> ring_ok r \<and> ring_contents r = []"
  by (auto simp: press_key_def no_modifiers_def ring_ok_def ring_contents_def ring_count_def)

lemma enq_press:
  assumes "no_modifiers q" "ring_ok q" "ring_contents q = []"
  shows "\<exists>r. enq_key_event key BX_KEY_PRESSED q = Inr r \<and> ring_ok r \<and> ring_contents r = [key]"
proof -
  obtain r where r: "press_key key q = Inr (Some r)" "ring_ok r" "ring_contents r = []" using press_key_free [OF assms] by blast
  have "specE {} (\<lambda>t. ring_ok t \<and> ring_contents t = [] @ [key]) (put_event key r)"
    using ring_push [OF r(2)] r(3) by simp
  then show ?thesis using r(1) by (simp add: enq_key_event_def specE_total BX_KEY_PRESSED_def FOCUS_CHANGED_def)
qed

lemma ring_empty: "ring_ok q \<Longrightarrow> ring_contents q = [] \<Longrightarrow> qhead q = qtail q"
  by (auto simp: ring_contents_def ring_count_def ring_ok_def Let_def word_unat_eq_iff split: if_splits)

text \<open>One event in the ring: the loop handles it and ends.\<close>

lemma key_loop_one:
  assumes ok: "ring_ok (KeyQ s)" and c: "ring_contents (KeyQ s) = [key]"
  shows "\<exists>q. key_loop s = handle_key key (s\<lparr>KeyQ := q\<rparr>)"
proof -
  have "length (ring_contents (KeyQ s)) = 1" using c by simp
  then have n1: "ring_count (KeyQ s) = 1" by (simp add: ring_contents_def)
  then have ne: "qhead (KeyQ s) \<noteq> qtail (KeyQ s)" by (auto simp: ring_count_def)
  obtain q where q: "deq_key_event (KeyQ s) = Inr (Some key, q)" "ring_ok q" "ring_contents q = []"
    using ring_pop_first [OF ok c] by (auto simp: ring_pop_def specE_total bindE_eq_Inr_iff split: option.splits)
  have e: "qhead q = qtail q" by (rule ring_empty [OF q(2,3)])
  have "key_loop s = (case handle_key key (s\<lparr>KeyQ := q\<rparr>) of Inl e \<Rightarrow> Inl e | Inr t \<Rightarrow> key_loop t)"
    using ne q(1) ring_ok_less [OF ok] by (subst key_loop.simps) simp
  also have "\<dots> = handle_key key (s\<lparr>KeyQ := q\<rparr>)"
  proof (cases "handle_key key (s\<lparr>KeyQ := q\<rparr>)")
    case (Inr t)
    then have "KeyQ t = q" using specE_InrD [OF handle_key_keyq] by fastforce
    then show ?thesis using Inr e by (simp add: key_loop.simps [of t])
  qed simp
  finally show ?thesis by blast
qed

lemma handle_plain_key:
  assumes "k < 512"
  shows "handle_key (of_nat k) s = Ps2GenerateScancode (key_number (of_nat k)) s"
proof -
  have u: "unat (of_nat k :: DWORD) = k" using assms by (simp add: unat_of_nat)
  have nb: "\<not> testw (of_nat k :: DWORD) (lsh1 i)" if "9 \<le> i" for i
  proof
    assume "testw (of_nat k :: DWORD) (lsh1 i)"
    then have "2 ^ i \<le> k" using bit_imp_ge [of "of_nat k :: DWORD" i] u by simp
    moreover have "(2 :: nat) ^ 9 \<le> 2 ^ i" using that by (rule power_increasing) simp
    ultimately show False using assms by simp
  qed
  have m: "MOUSE_PRESSED = lsh1 29" "TOOLBAR_CLICKED = lsh1 27" "BX_KEY_RELEASED = lsh1 31"
    by (simp_all add: MOUSE_PRESSED_def TOOLBAR_CLICKED_def BX_KEY_RELEASED_def lsh1_def push_bit_eq_mult)
  have ne: "of_nat k \<noteq> MOUSE_MOTION" "of_nat k \<noteq> FOCUS_CHANGED"
    using u assms by (auto simp: MOUSE_MOTION_def FOCUS_CHANGED_def word_unat_eq_iff)
  have "unat (of_nat k AND 0xff :: DWORD) < 256" by (simp add: unat_and_ff)
  then show ?thesis using ne nb [of 29] nb [of 27] nb [of 31]
    by (simp add: handle_key_def m key_number_def win32_length)
qed

text \<open>C12. A key of the host reaches the guest as the code the host's own keyboard sends. For every supported scan
  code, with empty queues and no modifier held, translation on and the keyboard enabled: the event
  put into the ring is taken out by the event loop, mapped to a key number and sent through the PS/2 controller, and
  the guest reads exactly the bytes of the original key. The keys that have no number, and Pause, Print and Num Lock,
  for which the codes of Windows differ from those of the keyboard, are not supported.\<close>

theorem host_key_reaches_guest:
  assumes "key_idle s" and "keyboard_contents s = []" and "ScanCodeSet (Keyboard (Ps2 s)) = 1"
    and "testw (DataRegister (Ps2 s)) DATA_SCAN_CODE"
    and "ring_ok (KeyQ s)" and "ring_contents (KeyQ s) = []" and "no_modifiers (KeyQ s)" and "key_supported k"
  shows "specE {Exit, BadShift} (\<lambda>(cs, t). cs = host_code k \<and> key_idle t \<and> keyboard_contents t = [])
    (bindE (gen_key_event (of_nat k) BX_KEY_PRESSED s) (\<lambda>s.
     bindE (key_loop s) (drainE (ps2_fetch env) (length (host_code k)))))"
proof -
  have k: "k < 512" using assms(8) by (simp add: key_supported_def)
  obtain r where r: "enq_key_event (of_nat k) BX_KEY_PRESSED (KeyQ s) = Inr r" "ring_ok r" "ring_contents r = [of_nat k]"
    using enq_press [OF assms(7,5,6)] by blast
  obtain q where "key_loop (s\<lparr>KeyQ := r\<rparr>) = handle_key (of_nat k) (s\<lparr>KeyQ := r\<rparr>\<lparr>KeyQ := q\<rparr>)"
    using key_loop_one [of "s\<lparr>KeyQ := r\<rparr>" "of_nat k"] r(2,3) by auto
  then have l: "key_loop (s\<lparr>KeyQ := r\<rparr>) = Ps2GenerateScancode (key_number (of_nat k)) (s\<lparr>KeyQ := q\<rparr>)"
    by (simp add: handle_plain_key [OF k])
  have "key_idle (s\<lparr>KeyQ := q\<rparr>)" "keyboard_contents (s\<lparr>KeyQ := q\<rparr>) = []"
    using assms(1,2) by (simp_all add: key_idle_def ps2_ok_def wf_timers_def keyboard_contents_def)
  from ps2_key_delivered [OF this key_number_less [OF k], of env]
  show ?thesis using r(1) l assms(3,4) supported_code [OF assms(8)] by (simp add: gen_key_event_def)
qed

definition key_demo :: key_state where
  "key_demo = upd_ps2 (\<lambda>p. p\<lparr>DataRegister := 0x40, Keyboard := (Keyboard p)\<lparr>KeyboardClockEnabled := 1, ScanCodeSet := 1\<rparr>\<rparr>) key_zero"

lemmas key_zero_defs = key_zero_def key_state.defs ata_zero_def ata_state.defs ide_zero_def ide_state.defs cdrom_zero_def
  cdrom_state.defs vhd_zero_def vhd_state.defs cpu_zero_defs

lemma key_demo_simps:
  "Timers key_demo = replicate 32 TIMER_zero" "TimersIdx key_demo = 0" "KeyQ key_demo = KEYQ_zero"
  "Ps2 key_demo = PS2_zero\<lparr>DataRegister := 0x40, Keyboard := (Keyboard PS2_zero)\<lparr>KeyboardClockEnabled := 1, ScanCodeSet := 1\<rparr>\<rparr>"
  by (simp_all add: key_demo_def upd_ps2_def key_zero_defs)

lemma key_demo_idle: "key_idle key_demo" "keyboard_contents key_demo = []"
  by (simp_all add: key_idle_def ps2_ok_def PS2_ok_def wf_timers_def kb_full_bit ms_full_bit keyboard_contents_def key_demo_simps
      PS2_zero_def)

theorem host_key_reaches_guest_witness:
  "specE {Exit, BadShift} (\<lambda>(cs, t). cs = [0xE0, 0x1D])
    (bindE (gen_key_event 0x11d BX_KEY_PRESSED key_demo) (\<lambda>s. bindE (key_loop s) (drainE (ps2_fetch (\<lambda>_ _. True)) 2)))"
proof -
  have "key_number (of_nat 0x11d) = 14" by (subst key_number_nth) (simp_all add: extended_keys_def)
  then have k: "key_supported 0x11d" by (simp add: key_supported_def)
  have q: "ring_ok (KeyQ key_demo)" "ring_contents (KeyQ key_demo) = []" "no_modifiers (KeyQ key_demo)"
    by (simp_all add: key_demo_simps KEYQ_zero_def ring_ok_def ring_contents_def ring_count_def no_modifiers_def)
  have p: "ScanCodeSet (Keyboard (Ps2 key_demo)) = 1" "testw (DataRegister (Ps2 key_demo)) DATA_SCAN_CODE"
    by (simp_all add: key_demo_simps ps2_bits testw_def PS2_zero_def)
  have h: "host_code 0x11d = [0xE0, 0x1D]" by (simp add: host_code_def)
  show ?thesis using host_key_reaches_guest [OF key_demo_idle p q k, of "\<lambda>_ _. True"] unfolding h
    by (auto elim!: specE_mono simp: numeral_2_eq_2)
qed

text \<open>A key without a number is taken for the left Ctrl key, whose number is 0.\<close>

lemma unmapped_key_sends_ctrl:
  "handle_key 0x54 s = Ps2GenerateScancode 0 s" "Make (scancodes ! 0 ! 0) = [0x1D]"
proof -
  have "handle_key (of_nat 0x54) s = Ps2GenerateScancode (key_number (of_nat 0x54)) s" by (rule handle_plain_key) simp
  moreover have "key_number (of_nat 0x54) = 0" by (subst key_number_nth) (simp_all add: normal_keys_def)
  ultimately show "handle_key 0x54 s = Ps2GenerateScancode 0 s" by simp
  show "Make (scancodes ! 0 ! 0) = [0x1D]" by (simp add: scancodes_def scancodes_1_def sc_def)
qed

end
