(* ===== verification/Gui_Screen.thy ===== *)
theory Gui_Screen
  imports Gui_Keys
begin

text \<open>
  The screen of \<open>gui.c\<close> and \<open>win32gui.c\<close>: font, palette, dimensions, the text screen and the tiles of the graphics
  modes. What is drawn is the list of the drawing calls of Windows, in the order they are made. The window is never
  made full screen (\<open>Win32GuiInitialize\<close>, which would set the size of the desktop, is not called), the snapshot mode
  is never switched on, and both are left out; the critical section \<open>drawCS\<close> is taken by one thread at a time.
\<close>

section \<open>State\<close>

type_synonym colour = "BYTE \<times> BYTE \<times> BYTE"
type_synonym rect = "DWORD \<times> DWORD \<times> DWORD \<times> DWORD"

text \<open>
  \<open>SetFont\<close> is \<open>SetBitmapBits\<close> on the bitmap of a character, \<open>PutChar\<close> the copy of a part of that bitmap (column,
  row, width, height) to a place of the screen in two colours, \<open>PutTile\<close> the copy of a tile, \<open>Clear\<close> the black
  rectangle and \<open>Invalidate\<close> the request to repaint.
\<close>

datatype gdi =
    Clear DWORD DWORD
  | SetFont nat "BYTE list"
  | PutChar BYTE DWORD DWORD DWORD DWORD DWORD DWORD colour colour
  | PutTile "BYTE list" DWORD DWORD
  | Invalidate rect
  | Resize DWORD DWORD

text \<open>A block of memory that a pointer leads to: its size and its bytes.\<close>

type_synonym mem = "nat \<times> (nat \<Rightarrow> BYTE)"

definition mem_get :: "mem \<Rightarrow> nat \<Rightarrow> BYTE res" where
  "mem_get m i = (if i < fst m then Inr (snd m i) else Inl OutOfBounds)"

definition mem_set :: "mem \<Rightarrow> nat \<Rightarrow> BYTE \<Rightarrow> mem res" where
  "mem_set m i v = (if i < fst m then Inr (fst m, (snd m)(i := v)) else Inl OutOfBounds)"

record GUI =
  vga_charmap :: mem
  charmap_updated :: bool
  char_changed :: "nat \<Rightarrow> bool"
  palette :: "nat \<Rightarrow> colour"
  cmap_index :: "nat \<Rightarrow> colour"
  new_text_api :: bool
  tm_h_panning :: BYTE
  tm_v_panning :: BYTE
  tm_line_compare :: USHORT
  guest_textmode :: bool
  guest_fwidth :: BYTE
  guest_fheight :: BYTE
  guest_xres :: USHORT
  guest_yres :: USHORT
  guest_bpp :: BYTE
  host_xres :: USHORT
  host_yres :: USHORT
  host_bpp :: BYTE
  gui_max_xres :: DWORD
  gui_max_yres :: DWORD
  x_tilesize :: DWORD
  y_tilesize :: DWORD
  dimension_x :: DWORD
  dimension_y :: DWORD
  current_bpp :: DWORD
  stretched_x :: DWORD
  stretched_y :: DWORD
  stretch_factor :: DWORD
  xChar :: DWORD
  yChar :: DWORD
  updated_area :: rect
  updated_area_valid :: bool
  UIinited :: bool
  kill :: DWORD
  fix_size :: bool
  drawn :: "gdi list"

definition GUI_zero :: GUI where
  "GUI_zero = \<lparr>vga_charmap = (0x2000, \<lambda>_. 0), charmap_updated = False, char_changed = (\<lambda>_. False), palette = (\<lambda>_. (0, 0, 0)),
     cmap_index = (\<lambda>_. (0, 0, 0)), new_text_api = False, tm_h_panning = 0, tm_v_panning = 0, tm_line_compare = 0,
     guest_textmode = False, guest_fwidth = 0, guest_fheight = 0, guest_xres = 0, guest_yres = 0, guest_bpp = 0, host_xres = 0,
     host_yres = 0, host_bpp = 0, gui_max_xres = 0, gui_max_yres = 0, x_tilesize = 0, y_tilesize = 0, dimension_x = 0,
     dimension_y = 0, current_bpp = 0, stretched_x = 0, stretched_y = 0, stretch_factor = 0, xChar = 8, yChar = 16,
     updated_area = (0, 0, 0, 0), updated_area_valid = False, UIinited = False, kill = 0, fix_size = False, drawn = []\<rparr>"

record gui_state = key_state +
  Gui :: GUI

definition gui_zero :: gui_state where
  "gui_zero = key_state.extend key_zero (gui_state.fields GUI_zero)"

definition upd_gui :: "(GUI \<Rightarrow> GUI) \<Rightarrow> 'z gui_state_scheme \<Rightarrow> 'z gui_state_scheme" where
  "upd_gui f s = s\<lparr>Gui := f (Gui s)\<rparr>"

definition draw :: "gdi \<Rightarrow> GUI \<Rightarrow> GUI" where
  "draw c g = g\<lparr>drawn := drawn g @ [c]\<rparr>"

section \<open>The updated area\<close>

text \<open>The coordinates are \<open>int\<close>s, the factor is unsigned: the products wrap and the comparisons are signed.\<close>

definition updateUpdated :: "DWORD \<Rightarrow> DWORD \<Rightarrow> DWORD \<Rightarrow> DWORD \<Rightarrow> GUI \<Rightarrow> GUI" where
  "updateUpdated x1 y1 x2 y2 g =
     (let f = stretch_factor g; x1 = x1 * f; y1 = y1 * f; x2 = x2 * f; y2 = y2 * f
      in g\<lparr>updated_area :=
            (if \<not> updated_area_valid g then (x1, y1, x2, y2)
             else case updated_area g of (l, t, r, b) \<Rightarrow>
               (if x1 <s l then x1 else l, if y1 <s t then y1 else t, if r <s x2 then x2 else r, if b <s y2 then y2 else b)),
           updated_area_valid := True\<rparr>)"

definition flush :: "GUI \<Rightarrow> GUI" where
  "flush g =
     (if updated_area_valid g
      then case updated_area g of (l, t, r, b) \<Rightarrow>
             (draw (Invalidate (l, t, r + 1, b + 1)) g)\<lparr>updated_area := (l, t, r + 1, b + 1), updated_area_valid := False\<rparr>
      else g)"

definition clear_screen :: "GUI \<Rightarrow> GUI" where
  "clear_screen g =
     (if \<not> UIinited g then g
      else updateUpdated 0 0 (dimension_x g - 1) (dimension_y g - 1) (draw (Clear (stretched_x g) (stretched_y g)) g))"

section \<open>Font and palette\<close>

definition set_text_charmap :: "mem \<Rightarrow> nat \<Rightarrow> GUI \<Rightarrow> GUI res" where
  "set_text_charmap m off g =
     (if off + 0x2000 \<le> fst m
      then Inr (g\<lparr>vga_charmap := (0x2000, \<lambda>i. if i < 0x2000 then snd m (off + i) else 0), char_changed := (\<lambda>_. True),
                  charmap_updated := True\<rparr>)
      else Inl OutOfBounds)"

definition set_text_charbyte :: "USHORT \<Rightarrow> BYTE \<Rightarrow> GUI \<Rightarrow> GUI res" where
  "set_text_charbyte address data g =
     bindE (mem_set (vga_charmap g) (unat address) data) (\<lambda>m.
     Inr (g\<lparr>vga_charmap := m, char_changed := (char_changed g)(unat (drop_bit 5 address) := True), charmap_updated := True\<rparr>))"

text \<open>The bitmap of a character: two bytes for each of its lines; \<open>data\<close> has room for 32 lines.\<close>

definition font_data :: "bool \<Rightarrow> nat \<Rightarrow> GUI \<Rightarrow> BYTE list res" where
  "font_data lg c g =
     foldE (\<lambda>i data.
       bindE (mem_get (vga_charmap g) (c * 32 + i)) (\<lambda>b.
       bindE (arr_set data (i * 2) b) (\<lambda>data.
       if lg \<and> (of_nat c :: BYTE) AND 0xE0 = 0xC0 then arr_set data (i * 2 + 1) (push_bit 7 b) else Inr data)))
       [0 ..< unat (yChar g)] (replicate 64 0)"

definition set_font :: "bool \<Rightarrow> GUI \<Rightarrow> GUI res" where
  "set_font lg g =
     foldE (\<lambda>c g.
       if char_changed g c
       then bindE (font_data lg c g) (\<lambda>data. Inr ((draw (SetFont c data) g)\<lparr>char_changed := (char_changed g)(c := False)\<rparr>))
       else Inr g) [0 ..< 256] g"

text \<open>\<open>reverse_bitorder\<close> of the font's bytes.\<close>

definition reverse_bitorder :: "BYTE \<Rightarrow> BYTE" where
  "reverse_bitorder b = fst (fold (\<lambda>i (r, b). (r OR push_bit (7 - i) (b AND 1), drop_bit 1 b)) [0 ..< 8] (0, b))"

definition palette_change :: "BYTE \<Rightarrow> BYTE \<Rightarrow> BYTE \<Rightarrow> BYTE \<Rightarrow> GUI \<Rightarrow> bool \<times> GUI" where
  "palette_change index red green blue g =
     (if current_bpp g = 16 \<and> index < 3 then (False, g\<lparr>cmap_index := (cmap_index g)(256 + unat index := (red, green, blue))\<rparr>)
      else (True, g\<lparr>cmap_index := (cmap_index g)(unat index := (red, green, blue))\<rparr>))"

definition palette_change_common :: "BYTE \<Rightarrow> BYTE \<Rightarrow> BYTE \<Rightarrow> BYTE \<Rightarrow> GUI \<Rightarrow> bool \<times> GUI" where
  "palette_change_common index red green blue g =
     palette_change index red green blue (g\<lparr>palette := (palette g)(unat index := (red, green, blue))\<rparr>)"

section \<open>Dimensions and tiles\<close>

definition resize_main_window :: "GUI \<Rightarrow> GUI" where
  "resize_main_window g =
     (let g = (if stretch_factor g > 1
               then g\<lparr>stretched_x := dimension_x g * stretch_factor g, stretched_y := dimension_y g * stretch_factor g\<rparr>
               else g\<lparr>stretched_x := dimension_x g, stretched_y := dimension_y g\<rparr>)
      in draw (Resize (stretched_x g) (stretched_y g)) g)"

text \<open>The colours 0 to 2 are kept in the entries 256 to 258 while the bit masks of a 16-bit mode occupy their place.\<close>

definition swap_masks :: "DWORD \<Rightarrow> GUI \<Rightarrow> GUI" where
  "swap_masks bpp g =
     (let c = cmap_index g
      in if bpp = 16
         then g\<lparr>cmap_index := c(256 := c 0, 257 := c 1, 258 := c 2, 0 := (0x00, 0xF8, 0x00), 1 := (0x00, 0x07, 0xE0), 2 := (0x00, 0x00, 0x1F))\<rparr>
         else if current_bpp g = 16 then g\<lparr>cmap_index := c(0 := c 256, 1 := c 257, 2 := c 258)\<rparr>
         else g)"

definition dimension_update :: "DWORD \<Rightarrow> DWORD \<Rightarrow> DWORD \<Rightarrow> DWORD \<Rightarrow> DWORD \<Rightarrow> GUI \<Rightarrow> GUI" where
  "dimension_update x y fheight fwidth bpp g =
     (let g = g\<lparr>guest_textmode := fheight > 0, guest_fwidth := ucast fwidth, guest_fheight := ucast fheight, guest_xres := ucast x,
                guest_yres := ucast y\<rparr>;
          g = (if guest_textmode g then g\<lparr>yChar := fheight, xChar := fwidth\<rparr> else g)
      in if x = dimension_x g \<and> y = dimension_y g \<and> bpp = current_bpp g then g
         else let g = swap_masks bpp (g\<lparr>dimension_x := x, dimension_y := y, stretch_factor := if x < 400 then 2 else 1\<rparr>);
                  g = resize_main_window (g\<lparr>current_bpp := bpp, guest_bpp := ucast bpp\<rparr>)
              in g\<lparr>host_xres := ucast x, host_yres := ucast y, host_bpp := ucast bpp\<rparr>)"

definition graphics_tile_update :: "BYTE list \<Rightarrow> DWORD \<Rightarrow> DWORD \<Rightarrow> GUI \<Rightarrow> GUI" where
  "graphics_tile_update tile x0 y0 g =
     updateUpdated x0 y0 (x0 + x_tilesize g - 1) (y0 + y_tilesize g - 1) (draw (PutTile tile x0 y0) g)"

definition graphics_tile_update_common :: "BYTE list \<Rightarrow> DWORD \<Rightarrow> DWORD \<Rightarrow> GUI \<Rightarrow> GUI" where
  "graphics_tile_update_common tile x y g = graphics_tile_update tile x y g"

section \<open>The text screen\<close>

record tminfo =
  start_address :: USHORT
  cs_start :: BYTE
  cs_end :: BYTE
  tm_line_offset :: USHORT
  line_compare :: USHORT
  h_panning :: BYTE
  v_panning :: BYTE
  line_graphics :: bool
  split_hpanning :: bool
  blink_flags :: BYTE
  actl_palette :: "BYTE list"

definition BX_TEXT_BLINK_MODE :: BYTE where "BX_TEXT_BLINK_MODE = 0x01"
definition BX_TEXT_BLINK_TOGGLE :: BYTE where "BX_TEXT_BLINK_TOGGLE = 0x02"
definition BX_TEXT_BLINK_STATE :: BYTE where "BX_TEXT_BLINK_STATE = 0x04"

definition DrawBitmap :: "BYTE \<Rightarrow> DWORD \<Rightarrow> DWORD \<Rightarrow> DWORD \<Rightarrow> DWORD \<Rightarrow> DWORD \<Rightarrow> DWORD \<Rightarrow> BYTE \<Rightarrow> BYTE \<Rightarrow> GUI \<Rightarrow> GUI" where
  "DrawBitmap ch x y width height fcol frow fgcolor bgcolor g =
     updateUpdated x y (width + x - 1) (height + y - 1)
       (draw (PutChar ch x y width height fcol frow (cmap_index g (unat fgcolor)) (cmap_index g (unat bgcolor))) g)"

text \<open>The cursor is the lower part of the character, drawn a second time with the colours exchanged.\<close>

definition draw_char ::
  "BYTE \<Rightarrow> BYTE \<Rightarrow> BYTE \<Rightarrow> USHORT \<Rightarrow> USHORT \<Rightarrow> BYTE \<Rightarrow> BYTE \<Rightarrow> BYTE \<Rightarrow> BYTE \<Rightarrow> BYTE \<Rightarrow> BYTE \<Rightarrow> bool \<Rightarrow> GUI \<Rightarrow> GUI" where
  "draw_char ch fc bc xc yc fw fh fx fy cs ce curs g =
     (if \<not> UIinited g then g
      else let g = DrawBitmap ch (ucast xc) (ucast yc) (ucast fw) (ucast fh) (ucast fx) (ucast fy) fc bc g
           in if curs \<and> ce \<ge> fy \<and> unat cs < unat fh + unat fy
              then let (yc, fh) = (if cs > fy then (yc + ucast (cs - fy), fh - (cs - fy)) else (yc, fh));
                       fh = (if int (unat ce) - int (unat cs) + 1 < int (unat fh) then ce - cs + 1 else fh)
                   in DrawBitmap ch (ucast xc) (ucast yc) (ucast fw) (ucast fh) (ucast fx) (ucast fy) bc fc g
              else g)"

text \<open>What stays the same along a line of characters.\<close>

record textline =
  tl_force :: bool
  tl_blink_mode :: bool
  tl_blink_state :: bool
  tl_curs :: USHORT
  tl_height :: BYTE
  tl_row :: BYTE
  tl_yc :: USHORT

text \<open>\<open>||\<close> is evaluated from left to right: a forced update does not look at the old text.\<close>

definition cell_changed :: "bool \<Rightarrow> mem \<Rightarrow> mem \<Rightarrow> nat \<Rightarrow> nat \<Rightarrow> bool res" where
  "cell_changed force new old ni oi =
     (if force then Inr True
      else bindE (mem_get new ni) (\<lambda>c. bindE (mem_get old oi) (\<lambda>c'.
           if c \<noteq> c' then Inr True
           else bindE (mem_get new (ni + 1)) (\<lambda>a. bindE (mem_get old (oi + 1)) (\<lambda>a'. Inr (a \<noteq> a'))))))"

definition cell_colours :: "textline \<Rightarrow> tminfo \<Rightarrow> BYTE \<Rightarrow> (BYTE \<times> BYTE) res" where
  "cell_colours l tm a =
     bindE (arr_get (actl_palette tm) (unat (a AND 0x0f))) (\<lambda>fg.
     if tl_blink_mode l
     then bindE (arr_get (actl_palette tm) (unat (drop_bit 4 a AND 0x07))) (\<lambda>bg.
          Inr (if \<not> tl_blink_state l \<and> testw a 0x80 then bg else fg, bg))
     else bindE (arr_get (actl_palette tm) (unat (drop_bit 4 a AND 0x0F))) (\<lambda>bg. Inr (fg, bg)))"

definition draw_cell ::
  "textline \<Rightarrow> tminfo \<Rightarrow> mem \<Rightarrow> mem \<Rightarrow> nat \<Rightarrow> nat \<Rightarrow> USHORT \<Rightarrow> USHORT \<Rightarrow> BYTE \<Rightarrow> BYTE \<Rightarrow> GUI \<Rightarrow> GUI res" where
  "draw_cell l tm new old ni oi offset xc cfwidth cfcol g =
     bindE (cell_changed (tl_force l) new old ni oi) (\<lambda>changed.
     if changed
     then bindE (mem_get new (ni + 1)) (\<lambda>a. bindE (cell_colours l tm a) (\<lambda>(fg, bg). bindE (mem_get new ni) (\<lambda>ch.
          Inr (draw_char ch fg bg xc (tl_yc l) cfwidth (tl_height l) cfcol (tl_row l) (cs_start tm) (cs_end tm) (offset = tl_curs l) g))))
     else Inr g)"

text \<open>The inner loop with \<open>n\<close> characters to go; \<open>x\<close> is a byte.\<close>

fun text_cells ::
  "nat \<Rightarrow> textline \<Rightarrow> tminfo \<Rightarrow> mem \<Rightarrow> mem \<Rightarrow> nat \<Rightarrow> nat \<Rightarrow> USHORT \<Rightarrow> BYTE \<Rightarrow> USHORT \<Rightarrow> GUI \<Rightarrow> GUI res" where
  "text_cells 0 l tm new old ni oi offset x xc g = Inr g"
| "text_cells (Suc n) l tm new old ni oi offset x xc g =
     (let (cfcol, cfwidth) =
            (if h_panning tm > 0 \<and> x = 0 then (h_panning tm, guest_fwidth g - h_panning tm)
             else if h_panning tm > 0 \<and> n = 0 then (0, h_panning tm)
             else (0, guest_fwidth g))
      in bindE (draw_cell l tm new old ni oi offset xc cfwidth cfcol g)
           (text_cells n l tm new old (ni + 2) (oi + 2) (offset + 2) (x + 1) (xc + ucast cfwidth)))"

text \<open>The state of the outer loop; \<open>--rows\<close> and the other counters wrap.\<close>

record textpos =
  tp_rows :: USHORT
  tp_y :: BYTE
  tp_yc :: USHORT
  tp_split :: bool
  tp_force :: bool
  tp_new :: nat
  tp_old :: nat
  tp_loffset :: USHORT
  tp_panning :: BYTE

text \<open>C's division and remainder round towards zero.\<close>

definition c_div :: "int \<Rightarrow> int \<Rightarrow> int" where
  "c_div a b = sgn a * sgn b * (abs a div abs b)"

definition c_mod :: "int \<Rightarrow> int \<Rightarrow> int" where
  "c_mod a b = a - c_div a b * b"

text \<open>Height and first line of the characters of a row.\<close>

definition row_shape :: "tminfo \<Rightarrow> BYTE \<Rightarrow> BYTE \<Rightarrow> textpos \<Rightarrow> GUI \<Rightarrow> BYTE \<times> BYTE" where
  "row_shape tm split_textrow split_fontrows p g =
     (let fh = guest_fheight g;
          (cfheight, cfrow) =
            (if tp_split p
             then if tp_rows p = 1
                  then let h = (word_of_int (c_mod (uint (guest_yres g) - uint (line_compare tm) - 1) (uint fh)) :: BYTE)
                       in (if h = 0 then fh else h, 0)
                  else (fh, 0)
             else if v_panning tm > 0
             then if tp_y p = 0 then (fh - v_panning tm, v_panning tm)
                  else if tp_rows p = 1 then (v_panning tm, 0) else (fh, 0)
             else (fh, 0))
      in (if tp_y p = split_textrow then split_fontrows - cfrow else cfheight, cfrow))"

text \<open>The position behind a row of \<open>n\<close> characters, before \<open>--rows\<close>.\<close>

definition row_next :: "tminfo \<Rightarrow> BYTE \<Rightarrow> nat \<Rightarrow> textpos \<Rightarrow> GUI \<Rightarrow> textpos" where
  "row_next tm split_textrow n p g =
     (if tp_y p = split_textrow
      then let fh = uint (guest_fheight g)
           in p\<lparr>tp_new := 0, tp_old := tp_old p + 2 * n, tp_force := True, tp_loffset := 0,
                tp_rows := word_of_int (c_div (uint (guest_yres g) - uint (line_compare tm) + fh - 2) fh + 1),
                tp_panning := if split_hpanning tm then 0 else tp_panning p, tp_split := True\<rparr>
      else p\<lparr>tp_new := tp_new p + unat (tm_line_offset tm), tp_old := tp_old p + unat (tm_line_offset tm),
             tp_loffset := tp_loffset p + tm_line_offset tm\<rparr>)"

definition do_count :: "USHORT \<Rightarrow> nat" where
  "do_count w = (if w = 0 then 0x10000 else unat w)"

text \<open>The rows; the loop that a split restarts again and again does not end, which is \<open>None\<close>.\<close>

partial_function (option) text_rows ::
  "(bool \<Rightarrow> BYTE \<Rightarrow> BYTE \<Rightarrow> USHORT \<Rightarrow> textline) \<Rightarrow> tminfo \<Rightarrow> BYTE \<Rightarrow> BYTE \<Rightarrow> USHORT \<Rightarrow> mem \<Rightarrow> mem \<Rightarrow> textpos \<Rightarrow> GUI \<Rightarrow> GUI res option" where
  "text_rows line tm split_textrow split_fontrows cols new old p g =
     (let (cfheight, cfrow) = row_shape tm split_textrow split_fontrows p g;
          n = do_count (if tp_panning p > 0 then cols + 1 else cols)
      in case text_cells n (line (tp_force p) cfheight cfrow (tp_yc p)) (tm\<lparr>h_panning := tp_panning p\<rparr>) new old
                (tp_new p) (tp_old p) (tp_loffset p) 0 0 g of
           Inl e \<Rightarrow> Some (Inl e)
         | Inr g \<Rightarrow>
             (let p = row_next tm split_textrow n p g;
                  p = p\<lparr>tp_y := tp_y p + 1, tp_yc := tp_yc p + ucast cfheight, tp_rows := tp_rows p - 1\<rparr>
              in if tp_rows p = 0 then Some (Inr g) else text_rows line tm split_textrow split_fontrows cols new old p g))"

text \<open>A changed font or a changed panning redraws the whole screen.\<close>

definition text_force :: "tminfo \<Rightarrow> GUI \<Rightarrow> (bool \<times> GUI) res" where
  "text_force tm g =
     (let force = testw (blink_flags tm) BX_TEXT_BLINK_MODE \<and> testw (blink_flags tm) BX_TEXT_BLINK_TOGGLE
      in bindE (if charmap_updated g
                then bindE (set_font (line_graphics tm) g) (\<lambda>g. Inr (True, g\<lparr>charmap_updated := False\<rparr>))
                else Inr (force, g)) (\<lambda>(force, g).
         Inr (if h_panning tm \<noteq> tm_h_panning g \<or> v_panning tm \<noteq> tm_v_panning g \<or> line_compare tm \<noteq> tm_line_compare g
              then (True, g\<lparr>tm_h_panning := h_panning tm, tm_v_panning := v_panning tm, tm_line_compare := line_compare tm\<rparr>)
              else (force, g))))"

text \<open>
  \<open>cursor_address\<close> of the screen is hidden by the argument of the same name, so the old cursor is never erased;
  the character under the cursor is marked as changed in the old text. The result is the old text and the screen.
\<close>

definition text_new_api :: "mem \<Rightarrow> mem \<Rightarrow> USHORT \<Rightarrow> tminfo \<Rightarrow> GUI \<Rightarrow> (mem \<times> GUI) res" where
  "text_new_api old new cursor_address tm g =
     (let mode = testw (blink_flags tm) BX_TEXT_BLINK_MODE; state = testw (blink_flags tm) BX_TEXT_BLINK_STATE;
          visible = (cs_start tm \<le> cs_end tm \<and> cs_start tm < guest_fheight g \<and> (mode \<longrightarrow> state));
          curs = (if visible then cursor_address else 0xffff)
      in bindE (text_force tm g) (\<lambda>(force, g).
         bindE (if cursor_address < 0xffff
                then bindE (mem_get new (unat cursor_address)) (\<lambda>b. mem_set old (unat cursor_address) (NOT b)) else Inr old) (\<lambda>old.
         if guest_fheight g = 0 \<or> guest_fwidth g = 0 then Inl DivByZero
         else let fh = unat (guest_fheight g); lc = unat (line_compare tm) + unat (v_panning tm);
                  rows = guest_yres g div ucast (guest_fheight g);
                  line = (\<lambda>force h r yc. \<lparr>tl_force = force, tl_blink_mode = mode, tl_blink_state = state, tl_curs = curs, tl_height = h,
                            tl_row = r, tl_yc = yc\<rparr>);
                  split_textrow = (if line_compare tm < 0x3ff then of_nat (lc div fh) else 0xff :: BYTE);
                  split_fontrows = (if line_compare tm < 0x3ff then of_nat (lc mod fh + 1) else 0 :: BYTE);
                  start = unat (start_address tm)
              in case text_rows line tm split_textrow split_fontrows (guest_xres g div ucast (guest_fwidth g)) new old
                        \<lparr>tp_rows = if v_panning tm > 0 then rows + 1 else rows, tp_y = 0, tp_yc = 0, tp_split = False, tp_force = force,
                         tp_new = start, tp_old = start, tp_loffset = start_address tm, tp_panning = h_panning tm\<rparr> g of
                   None \<Rightarrow> Inl Hang
                 | Some r \<Rightarrow> bindE r (\<lambda>g. Inr (old, g)))))"

text \<open>The old interface only computes the place of the cursor for \<open>text_update\<close>, which is empty.\<close>

definition text_update_common :: "mem \<Rightarrow> mem \<Rightarrow> USHORT \<Rightarrow> tminfo \<Rightarrow> GUI \<Rightarrow> (mem \<times> GUI) res" where
  "text_update_common old new cursor_address tm g =
     (if new_text_api g then text_new_api old new cursor_address tm g
      else if cursor_address \<ge> start_address tm \<and> tm_line_offset tm = 0 then Inl DivByZero
      else Inr (old, g))"

section \<open>Events and initialisation\<close>

text \<open>
  After the window was closed \<open>terminateEmul\<close> deletes the critical sections and returns; the events are then handled
  inside a critical section that does not exist.
\<close>

definition handle_events :: "'z gui_state_scheme \<Rightarrow> 'z gui_state_scheme res" where
  "handle_events s =
     (if kill (Gui s) \<noteq> 0 then Inl OutOfBounds
      else key_loop (if fix_size (Gui s) then upd_gui (\<lambda>g. (resize_main_window g)\<lparr>fix_size := False\<rparr>) s else s))"

text \<open>
  \<open>GuiInitialize\<close> with \<open>Win32GuiSpecificInit\<close>, apart from the window, its tool bar and the initial font; \<open>ui\<close> says
  whether the window thread has started when the initialisation ends.
\<close>

definition Win32GuiSpecificInit :: "bool \<Rightarrow> 'z gui_state_scheme \<Rightarrow> 'z gui_state_scheme res" where
  "Win32GuiSpecificInit ui s =
     bindE (TimerRegister s (TICK_PERIOD * 10) GuiTimerFn 0) (\<lambda>(_, s).
     Inr (upd_gui (\<lambda>g. g\<lparr>kill := 0, UIinited := ui, dimension_x := 640, dimension_y := 480, current_bpp := 8, stretched_x := 640,
            stretched_y := 480, stretch_factor := 1, cmap_index := (\<lambda>_. (0, 0, 0)), new_text_api := True\<rparr>)
          (s\<lparr>win32_toolbar_entries := 0\<rparr>)))"

definition GuiInitialize :: "bool \<Rightarrow> DWORD \<Rightarrow> DWORD \<Rightarrow> DWORD \<Rightarrow> DWORD \<Rightarrow> 'z gui_state_scheme \<Rightarrow> 'z gui_state_scheme res" where
  "GuiInitialize ui xres yres tilewidth tileheight s =
     bindE (Win32GuiSpecificInit ui (upd_gui (\<lambda>g. g\<lparr>host_xres := 640, host_yres := 480, host_bpp := 8, new_text_api := False,
              tm_h_panning := 0, tm_v_panning := 0, tm_line_compare := 0, gui_max_xres := xres, gui_max_yres := yres,
              x_tilesize := tilewidth, y_tilesize := tileheight\<rparr>) (s\<lparr>toggle_keystate := 0\<rparr>))) (\<lambda>s.
     Inr (upd_gui (\<lambda>g. resize_main_window (g\<lparr>charmap_updated := False\<rparr>)) s))"

end
