(* ===== verification/Vga_Regs.thy ===== *)
theory Vga_Regs
  imports Gui_Screen
begin

text \<open>
  The registers of the VGA (\<open>vgacore.c\<close>, \<open>vga.c\<close>): the state, the port handlers, the retrace timing and the marking of
  the parts of the screen that have to be drawn again. Truth values (\<open>BOOL\<close>, always 0 or 1) are \<open>bool\<close>.
\<close>

section \<open>State\<close>

record MISC_OUTPUT =
  color_emulation :: bool
  enable_ram :: bool
  clock_select :: BYTE
  select_high_bank :: bool
  horiz_sync_pol :: bool
  vert_sync_pol :: bool

record VGA_CRTC =
  crtc_address :: BYTE
  crtc_reg :: "BYTE list"
  write_protect :: bool

record MODE_CTRL =
  mode_graphics_alpha :: bool
  display_type :: bool
  enable_line_graphics :: bool
  blink_intensity :: bool
  pixel_panning_compat :: bool
  pixel_clock_select :: bool
  internal_palette_size :: bool

record ATTRIBUTE_CTRL =
  flip_flop :: bool
  actl_address :: DWORD
  video_enabled :: bool
  palette_reg :: "BYTE list"
  overscan_color :: BYTE
  color_plane_enable :: BYTE
  horiz_pel_panning :: BYTE
  color_select :: BYTE
  mode_ctrl :: MODE_CTRL

record PEL =
  write_data_register :: BYTE
  write_data_cycle :: BYTE
  read_data_register :: BYTE
  read_data_cycle :: BYTE
  dac_state :: BYTE
  pel_data :: "nat \<Rightarrow> colour"
  pel_mask :: BYTE

record GRAPHICS_CTRL =
  gc_index :: BYTE
  set_reset :: BYTE
  enable_set_reset :: BYTE
  color_compare :: BYTE
  data_rotate :: BYTE
  raster_op :: BYTE
  read_map_select :: BYTE
  write_mode :: BYTE
  read_mode :: DWORD
  gc_odd_even :: bool
  chain_odd_even :: bool
  shift_reg :: BYTE
  graphics_alpha :: bool
  memory_mapping :: BYTE
  color_dont_care :: BYTE
  bitmask :: BYTE
  latch :: "BYTE list"

record SEQUENCER =
  seq_index :: BYTE
  map_mask :: BYTE
  reset1 :: bool
  reset2 :: bool
  reg1 :: BYTE
  char_map_select :: BYTE
  extended_mem :: bool
  seq_odd_even :: bool
  chain_four :: bool
  seq_clear_screen :: bool

text \<open>
  \<open>tiles\<close> is the array \<open>vga_tile_updated\<close>. \<open>cs_counter\<close> and \<open>cs_visible\<close> are the static variables of
  \<open>VgaCoreUpdate\<close>. Fields that nothing reads are left out.
\<close>

record VGACORE =
  misc_output :: MISC_OUTPUT
  CRTC :: VGA_CRTC
  attribute_ctrl :: ATTRIBUTE_CTRL
  pel :: PEL
  graphics_ctrl :: GRAPHICS_CTRL
  sequencer :: SEQUENCER
  vga_enabled :: bool
  vga_mem_updated :: bool
  line_offset :: DWORD
  vga_line_compare :: DWORD
  vertical_display_end :: DWORD
  blink_counter :: DWORD
  tiles :: "nat \<Rightarrow> bool"
  vga_memory :: mem
  text_snapshot :: mem
  charmap_address :: USHORT
  x_dotclockdiv2 :: bool
  y_doublescan :: bool
  vclk :: "DWORD list"
  htotal_usec :: DWORD
  hbstart_usec :: DWORD
  hbend_usec :: DWORD
  vtotal_usec :: DWORD
  vblank_usec :: DWORD
  vrstart_usec :: DWORD
  vrend_usec :: DWORD
  plane_shift :: BYTE
  dac_shift :: BYTE
  ext_offset :: DWORD
  ext_y_dblsize :: bool
  last_xres :: USHORT
  last_yres :: USHORT
  last_bpp :: BYTE
  last_fw :: BYTE
  last_fh :: BYTE
  max_xres :: USHORT
  max_yres :: USHORT
  num_x_tiles :: USHORT
  num_y_tiles :: USHORT
  cs_counter :: DWORD
  cs_visible :: bool

text \<open>Of \<open>struct VGA\<close>: whether a VBE mode is on and its depth; the identification data of the monitor.\<close>

record VGA =
  vbe_enabled :: bool
  vbe_bpp :: USHORT
  edid_data :: "BYTE list"

record vga_state = gui_state +
  VgaCore :: VGACORE
  Vga :: VGA

definition VGACORE_zero :: VGACORE where
  "VGACORE_zero = \<lparr>
     misc_output = \<lparr>color_emulation = False, enable_ram = False, clock_select = 0, select_high_bank = False, horiz_sync_pol = False,
       vert_sync_pol = False\<rparr>,
     CRTC = \<lparr>crtc_address = 0, crtc_reg = replicate 0x19 0, write_protect = False\<rparr>,
     attribute_ctrl = \<lparr>flip_flop = False, actl_address = 0, video_enabled = False, palette_reg = replicate 16 0, overscan_color = 0,
       color_plane_enable = 0, horiz_pel_panning = 0, color_select = 0,
       mode_ctrl = \<lparr>mode_graphics_alpha = False, display_type = False, enable_line_graphics = False, blink_intensity = False,
         pixel_panning_compat = False, pixel_clock_select = False, internal_palette_size = False\<rparr>\<rparr>,
     pel = \<lparr>write_data_register = 0, write_data_cycle = 0, read_data_register = 0, read_data_cycle = 0, dac_state = 0,
       pel_data = (\<lambda>_. (0, 0, 0)), pel_mask = 0\<rparr>,
     graphics_ctrl = \<lparr>gc_index = 0, set_reset = 0, enable_set_reset = 0, color_compare = 0, data_rotate = 0, raster_op = 0,
       read_map_select = 0, write_mode = 0, read_mode = 0, gc_odd_even = False, chain_odd_even = False, shift_reg = 0,
       graphics_alpha = False, memory_mapping = 0, color_dont_care = 0, bitmask = 0, latch = replicate 4 0\<rparr>,
     sequencer = \<lparr>seq_index = 0, map_mask = 0, reset1 = False, reset2 = False, reg1 = 0, char_map_select = 0, extended_mem = False,
       seq_odd_even = False, chain_four = False, seq_clear_screen = False\<rparr>,
     vga_enabled = False, vga_mem_updated = False, line_offset = 0, vga_line_compare = 0, vertical_display_end = 0, blink_counter = 0,
     tiles = (\<lambda>_. False), vga_memory = (0, \<lambda>_. 0), text_snapshot = (0x20000, \<lambda>_. 0), charmap_address = 0, x_dotclockdiv2 = False,
     y_doublescan = False, vclk = replicate 4 0, htotal_usec = 0, hbstart_usec = 0, hbend_usec = 0, vtotal_usec = 0, vblank_usec = 0,
     vrstart_usec = 0, vrend_usec = 0, plane_shift = 0, dac_shift = 0, ext_offset = 0, ext_y_dblsize = False, last_xres = 0,
     last_yres = 0, last_bpp = 0, last_fw = 0, last_fh = 0, max_xres = 0, max_yres = 0, num_x_tiles = 0, num_y_tiles = 0,
     cs_counter = 1, cs_visible = False\<rparr>"

definition vga_zero :: vga_state where
  "vga_zero = gui_state.extend gui_zero (vga_state.fields VGACORE_zero \<lparr>vbe_enabled = False, vbe_bpp = 0, edid_data = replicate 256 0\<rparr>)"

definition upd_vga :: "(VGACORE \<Rightarrow> VGACORE) \<Rightarrow> 'z vga_state_scheme \<Rightarrow> 'z vga_state_scheme" where
  "upd_vga f s = s\<lparr>VgaCore := f (VgaCore s)\<rparr>"

text \<open>A byte of the CRTC's register file; the index is a constant below 0x19.\<close>

definition creg :: "nat \<Rightarrow> VGACORE \<Rightarrow> BYTE" where
  "creg i v = crtc_reg (CRTC v) ! i"

definition upd_misc :: "(MISC_OUTPUT \<Rightarrow> MISC_OUTPUT) \<Rightarrow> VGACORE \<Rightarrow> VGACORE" where
  "upd_misc f v = v\<lparr>misc_output := f (misc_output v)\<rparr>"

definition upd_crtc :: "(VGA_CRTC \<Rightarrow> VGA_CRTC) \<Rightarrow> VGACORE \<Rightarrow> VGACORE" where
  "upd_crtc f v = v\<lparr>CRTC := f (CRTC v)\<rparr>"

definition upd_actl :: "(ATTRIBUTE_CTRL \<Rightarrow> ATTRIBUTE_CTRL) \<Rightarrow> VGACORE \<Rightarrow> VGACORE" where
  "upd_actl f v = v\<lparr>attribute_ctrl := f (attribute_ctrl v)\<rparr>"

definition upd_pel :: "(PEL \<Rightarrow> PEL) \<Rightarrow> VGACORE \<Rightarrow> VGACORE" where
  "upd_pel f v = v\<lparr>pel := f (pel v)\<rparr>"

definition upd_gc :: "(GRAPHICS_CTRL \<Rightarrow> GRAPHICS_CTRL) \<Rightarrow> VGACORE \<Rightarrow> VGACORE" where
  "upd_gc f v = v\<lparr>graphics_ctrl := f (graphics_ctrl v)\<rparr>"

definition upd_seq :: "(SEQUENCER \<Rightarrow> SEQUENCER) \<Rightarrow> VGACORE \<Rightarrow> VGACORE" where
  "upd_seq f v = v\<lparr>sequencer := f (sequencer v)\<rparr>"

section \<open>Tiles\<close>

definition X_TILESIZE :: DWORD where "X_TILESIZE = 16"
definition Y_TILESIZE :: DWORD where "Y_TILESIZE = 24"

definition SET_TILE_UPDATED :: "DWORD \<Rightarrow> DWORD \<Rightarrow> bool \<Rightarrow> VGACORE \<Rightarrow> VGACORE" where
  "SET_TILE_UPDATED xtile ytile val v =
     (if xtile < ucast (num_x_tiles v) \<and> ytile < ucast (num_y_tiles v)
      then v\<lparr>tiles := (tiles v)(unat xtile + unat ytile * unat (num_x_tiles v) := val)\<rparr> else v)"

definition GET_TILE_UPDATED :: "DWORD \<Rightarrow> DWORD \<Rightarrow> VGACORE \<Rightarrow> bool" where
  "GET_TILE_UPDATED xtile ytile v \<longleftrightarrow>
     xtile < ucast (num_x_tiles v) \<and> ytile < ucast (num_y_tiles v) \<and> tiles v (unat xtile + unat ytile * unat (num_x_tiles v))"

definition redraw_area :: "DWORD \<Rightarrow> DWORD \<Rightarrow> DWORD \<Rightarrow> DWORD \<Rightarrow> VGACORE \<Rightarrow> VGACORE" where
  "redraw_area x0 y0 width height v =
     (let v = v\<lparr>vga_mem_updated := True\<rparr>
      in if graphics_alpha (graphics_ctrl v)
         then let xmax = ucast (last_xres v); ymax = ucast (last_yres v);
                  xt0 = x0 div X_TILESIZE; yt0 = y0 div Y_TILESIZE;
                  xt1 = (if x0 < xmax then (x0 + width - 1) div X_TILESIZE else (xmax - 1) div X_TILESIZE);
                  yt1 = (if y0 < ymax then (y0 + height - 1) div Y_TILESIZE else (ymax - 1) div Y_TILESIZE)
              in fold (\<lambda>yti v. fold (\<lambda>xti v. SET_TILE_UPDATED (of_nat xti) (of_nat yti) True v) [unat xt0 ..< Suc (unat xt1)] v)
                   [unat yt0 ..< Suc (unat yt1)] v
         else v\<lparr>text_snapshot := (fst (text_snapshot v), \<lambda>_. 0)\<rparr>)"

definition vga_redraw_area :: "DWORD \<Rightarrow> DWORD \<Rightarrow> DWORD \<Rightarrow> DWORD \<Rightarrow> VGACORE \<Rightarrow> VGACORE" where
  "vga_redraw_area x0 y0 width height v = (if width = 0 \<or> height = 0 then v else redraw_area x0 y0 width height v)"

section \<open>Retrace timing\<close>

definition get_crtc_params :: "VGACORE \<Rightarrow> (USHORT \<times> USHORT \<times> USHORT \<times> DWORD) res" where
  "get_crtc_params v =
     bindE (arr_get (vclk v) (unat (clock_select (misc_output v)))) (\<lambda>clk.
     let r = (\<lambda>i. ucast (creg i v) :: USHORT)
     in Inr (r 0 + 5, r 6 + push_bit 8 (r 7 AND 0x01) + push_bit 4 (r 7 AND 0x20) + 2,
             r 16 + push_bit 6 (r 7 AND 0x04) + push_bit 2 (r 7 AND 0x80),
             if x_dotclockdiv2 v then drop_bit 1 clk else clk))"

definition calculate_retrace_timing :: "VGACORE \<Rightarrow> VGACORE res" where
  "calculate_retrace_timing v =
     bindE (get_crtc_params v) (\<lambda>(htotal, vtotal, vrstart, vclock).
     if vclock = 0 then Inr v
     else let cwidth = (if testw (reg1 (sequencer v)) 0x01 then 8 else 9 :: DWORD)
          in if ucast htotal * cwidth = 0 then Inl DivByZero
             else let hfreq = vclock div (ucast htotal * cwidth)
                  in if hfreq = 0 \<or> vtotal = 0 \<or> hfreq div ucast vtotal = 0 then Inl DivByZero
                     else let hbstart = (ucast (creg 2 v) :: DWORD);
                              hb = (ucast (creg 3 v AND 0x1f) + ucast (drop_bit 2 (creg 5 v AND 0x80)) :: DWORD);
                              hbend = hbstart + ((hb - hbstart) AND 0x3f);
                              vrend = ((ucast (creg 17 v) AND 0x0f) - ucast vrstart AND 0x0f) + (ucast vrstart :: DWORD);
                              ht = 1000000 div hfreq
                          in Inr (v\<lparr>htotal_usec := ht, hbstart_usec := 1000000 * hbstart * cwidth div vclock,
                                     hbend_usec := 1000000 * hbend * cwidth div vclock,
                                     vtotal_usec := 1000000 div (hfreq div ucast vtotal), vblank_usec := ht * vertical_display_end v,
                                     vrstart_usec := ht * ucast vrstart, vrend_usec := ht * vrend\<rparr>))"

end
