(* ===== verification/Vga_Ports.thy ===== *)
theory Vga_Ports
  imports Vga_Regs
begin

text \<open>
  The port handlers of the VGA. The effect of a register write is a pair: \<open>None\<close> for an early \<open>return\<close>, otherwise the
  flags \<open>needs_update\<close> and \<open>charmap_update\<close> that the end of the handler acts on, and the new state.
\<close>

section \<open>Register writes\<close>

type_synonym flags = "(bool \<times> bool) option"

definition vga_set :: "bool \<Rightarrow> (VGACORE \<Rightarrow> VGACORE) \<Rightarrow> 'z vga_state_scheme \<Rightarrow> (flags \<times> 'z vga_state_scheme) res" where
  "vga_set needs f s = Inr (Some (needs, False), upd_vga f s)"

definition bitof :: "DWORD \<Rightarrow> nat \<Rightarrow> bool" where
  "bitof val i \<longleftrightarrow> drop_bit i val AND 0x01 = 1"

definition write_actl_address :: "DWORD \<Rightarrow> 'z vga_state_scheme \<Rightarrow> (flags \<times> 'z vga_state_scheme) res" where
  "write_actl_address val s =
     (let prev = video_enabled (attribute_ctrl (VgaCore s));
          s = upd_vga (upd_actl (\<lambda>a. a\<lparr>video_enabled := bitof val 5\<rparr>)) s;
          s = (if \<not> video_enabled (attribute_ctrl (VgaCore s)) then upd_gui clear_screen s else s)
      in vga_set (video_enabled (attribute_ctrl (VgaCore s)) \<and> \<not> prev) (upd_actl (\<lambda>a. a\<lparr>actl_address := val AND 0x1f\<rparr>)) s)"

definition mode_ctrl_of :: "DWORD \<Rightarrow> MODE_CTRL" where
  "mode_ctrl_of val = \<lparr>mode_graphics_alpha = bitof val 0, display_type = bitof val 1, enable_line_graphics = bitof val 2,
     blink_intensity = bitof val 3, pixel_panning_compat = bitof val 5, pixel_clock_select = bitof val 6,
     internal_palette_size = bitof val 7\<rparr>"

definition write_actl_data :: "DWORD \<Rightarrow> 'z vga_state_scheme \<Rightarrow> (flags \<times> 'z vga_state_scheme) res" where
  "write_actl_data val s =
     (let a = attribute_ctrl (VgaCore s); i = unat (actl_address a)
      in if actl_address a \<le> 0x0f
         then if val \<noteq> ucast (palette_reg a ! i)
              then vga_set True (upd_actl (\<lambda>a. a\<lparr>palette_reg := (palette_reg a)[i := ucast val]\<rparr>)) s
              else vga_set False id s
         else if actl_address a = 0x10
         then let m = mode_ctrl_of val
              in Inr (Some (internal_palette_size m \<noteq> internal_palette_size (mode_ctrl a),
                            enable_line_graphics m \<noteq> enable_line_graphics (mode_ctrl a)),
                      upd_vga (upd_actl (\<lambda>a. a\<lparr>mode_ctrl := m\<rparr>)) s)
         else if actl_address a = 0x11 then vga_set False (upd_actl (\<lambda>a. a\<lparr>overscan_color := ucast val AND 0x3f\<rparr>)) s
         else if actl_address a = 0x12 then vga_set True (upd_actl (\<lambda>a. a\<lparr>color_plane_enable := ucast val AND 0x0f\<rparr>)) s
         else if actl_address a = 0x13 then vga_set True (upd_actl (\<lambda>a. a\<lparr>horiz_pel_panning := ucast val AND 0x0f\<rparr>)) s
         else if actl_address a = 0x14 then vga_set True (upd_actl (\<lambda>a. a\<lparr>color_select := ucast val AND 0x0f\<rparr>)) s
         else vga_set False id s)"

definition write_actl :: "DWORD \<Rightarrow> 'z vga_state_scheme \<Rightarrow> (flags \<times> 'z vga_state_scheme) res" where
  "write_actl val s =
     bindE (if \<not> flip_flop (attribute_ctrl (VgaCore s)) then write_actl_address val s else write_actl_data val s) (\<lambda>(fl, s).
     Inr (fl, upd_vga (upd_actl (\<lambda>a. a\<lparr>flip_flop := \<not> flip_flop a\<rparr>)) s))"

text \<open>A register write that may change the timing.\<close>

definition vga_retime :: "bool \<Rightarrow> 'z vga_state_scheme \<Rightarrow> (flags \<times> 'z vga_state_scheme) res" where
  "vga_retime needs s = bindE (calculate_retrace_timing (VgaCore s)) (\<lambda>v. Inr (Some (needs, False), s\<lparr>VgaCore := v\<rparr>))"

definition write_misc_output :: "DWORD \<Rightarrow> 'z vga_state_scheme \<Rightarrow> (flags \<times> 'z vga_state_scheme) res" where
  "write_misc_output val s =
     vga_retime False (upd_vga (\<lambda>v. v\<lparr>misc_output := \<lparr>color_emulation = bitof val 0, enable_ram = bitof val 1,
       clock_select = ucast (drop_bit 2 val) AND 0x03, select_high_bank = bitof val 5, horiz_sync_pol = bitof val 6,
       vert_sync_pol = bitof val 7\<rparr>\<rparr>) s)"

definition charmap_offset :: "USHORT list" where
  "charmap_offset = [0x0000, 0x4000, 0x8000, 0xc000, 0x2000, 0x6000, 0xa000, 0xe000]"

definition write_sequencer :: "DWORD \<Rightarrow> 'z vga_state_scheme \<Rightarrow> (flags \<times> 'z vga_state_scheme) res" where
  "write_sequencer val s =
     (let v = VgaCore s; q = sequencer v
      in if seq_index q = 0
         then let dropped = (reset1 q \<and> \<not> bitof val 0)
              in Inr (Some (False, dropped), upd_vga (\<lambda>v.
                   upd_seq (\<lambda>q. q\<lparr>reset1 := bitof val 0, reset2 := bitof val 1\<rparr>)
                     (if dropped then (upd_seq (\<lambda>q. q\<lparr>char_map_select := 0\<rparr>) v)\<lparr>charmap_address := 0\<rparr> else v)) s)
         else if seq_index q = 1
         then bindE (if testw (val XOR ucast (reg1 q)) 0x29
                     then vga_retime True (upd_vga (\<lambda>v. (upd_seq (\<lambda>q. q\<lparr>seq_clear_screen := testw val 0x20\<rparr>) v)
                            \<lparr>x_dotclockdiv2 := testw val 0x08\<rparr>) s)
                     else vga_set False id s) (\<lambda>(fl, s).
              Inr (fl, upd_vga (upd_seq (\<lambda>q. q\<lparr>reg1 := ucast val AND 0x3d\<rparr>)) s))
         else if seq_index q = 2 then vga_set False (upd_seq (\<lambda>q. q\<lparr>map_mask := ucast val AND 0x0f\<rparr>)) s
         else if seq_index q = 3
         then let s = upd_vga (upd_seq (\<lambda>q. q\<lparr>char_map_select := ucast val AND 0x3f\<rparr>)) s;
                  charmap1 = (ucast val AND 0x13 :: BYTE); charmap1 = (if charmap1 > 3 then (charmap1 AND 3) + 4 else charmap1)
              in if creg 0x09 v > 0
                 then bindE (arr_get charmap_offset (unat charmap1)) (\<lambda>off.
                      Inr (Some (False, True), upd_vga (\<lambda>v. v\<lparr>charmap_address := off\<rparr>) s))
                 else Inr (Some (False, False), s)
         else if seq_index q = 4
         then vga_set False (upd_seq (\<lambda>q. q\<lparr>extended_mem := bitof val 1, seq_odd_even := bitof val 2, chain_four := bitof val 3\<rparr>)) s
         else vga_set False id s)"

text \<open>The three components of a colour are written one after the other; the third makes the colour known.\<close>

definition write_pel_data :: "DWORD \<Rightarrow> 'z vga_state_scheme \<Rightarrow> (flags \<times> 'z vga_state_scheme) res" where
  "write_pel_data val s =
     (let p = pel (VgaCore s); i = unat (write_data_register p); c = write_data_cycle p; (r, g, b) = pel_data p i;
          col = (if c = 0 then (ucast val, g, b) else if c = 1 then (r, ucast val, b) else if c = 2 then (r, g, ucast val) else (r, g, b));
          s = upd_vga (upd_pel (\<lambda>p. p\<lparr>pel_data := (pel_data p)(i := col)\<rparr>)) s;
          sh = unat (dac_shift (VgaCore s));
          (needs, g') = (if c = 2 then case col of (r, g, b) \<Rightarrow>
                           palette_change_common (write_data_register p) (push_bit sh r) (push_bit sh g) (push_bit sh b) (Gui s)
                         else (False, Gui s))
      in vga_set needs (upd_pel (\<lambda>p.
           let p = p\<lparr>write_data_cycle := write_data_cycle p + 1\<rparr>
           in if write_data_cycle p \<ge> 3 then p\<lparr>write_data_cycle := 0, write_data_register := write_data_register p + 1\<rparr> else p))
           (s\<lparr>Gui := g'\<rparr>))"

definition write_graphics :: "DWORD \<Rightarrow> 'z vga_state_scheme \<Rightarrow> (flags \<times> 'z vga_state_scheme) res" where
  "write_graphics val s =
     (let g = graphics_ctrl (VgaCore s); i = gc_index g; val8 = (ucast val :: BYTE)
      in if i = 0 then vga_set False (upd_gc (\<lambda>g. g\<lparr>set_reset := val8 AND 0x0f\<rparr>)) s
         else if i = 1 then vga_set False (upd_gc (\<lambda>g. g\<lparr>enable_set_reset := val8 AND 0x0f\<rparr>)) s
         else if i = 2 then vga_set False (upd_gc (\<lambda>g. g\<lparr>color_compare := val8 AND 0x0f\<rparr>)) s
         else if i = 3 then vga_set False (upd_gc (\<lambda>g. g\<lparr>data_rotate := val8 AND 0x07, raster_op := ucast (drop_bit 3 val) AND 0x03\<rparr>)) s
         else if i = 4 then vga_set False (upd_gc (\<lambda>g. g\<lparr>read_map_select := val8 AND 0x03\<rparr>)) s
         else if i = 5
         then vga_set False (upd_gc (\<lambda>g. g\<lparr>write_mode := val8 AND 0x03, read_mode := drop_bit 3 val AND 0x01, gc_odd_even := bitof val 4,
                shift_reg := ucast (drop_bit 5 val) AND 0x03\<rparr>)) s
         else if i = 6
         then let g' = g\<lparr>graphics_alpha := bitof val 0, chain_odd_even := bitof val 1, memory_mapping := ucast (drop_bit 2 val) AND 0x03\<rparr>;
                  changed = (graphics_alpha g \<noteq> graphics_alpha g')
              in vga_set (memory_mapping g \<noteq> memory_mapping g' \<or> changed) (\<lambda>v.
                   let v = v\<lparr>graphics_ctrl := g'\<rparr> in if changed then v\<lparr>last_yres := 0\<rparr> else v) s
         else if i = 7 then vga_set False (upd_gc (\<lambda>g. g\<lparr>color_dont_care := val8 AND 0x0f\<rparr>)) s
         else if i = 8 then vga_set False (upd_gc (\<lambda>g. g\<lparr>bitmask := val8\<rparr>)) s
         else vga_set False id s)"

section \<open>The CRTC\<close>

definition set_creg :: "nat \<Rightarrow> BYTE \<Rightarrow> VGACORE \<Rightarrow> VGACORE" where
  "set_creg i b = upd_crtc (\<lambda>c. c\<lparr>crtc_reg := (crtc_reg c)[i := b]\<rparr>)"

definition or_if :: "bool \<Rightarrow> DWORD \<Rightarrow> DWORD \<Rightarrow> DWORD" where
  "or_if b m x = (if b then x OR m else x)"

definition compare_bit8 :: "VGACORE \<Rightarrow> VGACORE" where
  "compare_bit8 v = v\<lparr>vga_line_compare := or_if (testw (creg 0x07 v) 0x10) 0x100 (vga_line_compare v AND 0x2ff)\<rparr>"

text \<open>The effect of a changed register.\<close>

definition crtc_effect :: "nat \<Rightarrow> DWORD \<Rightarrow> 'z vga_state_scheme \<Rightarrow> (flags \<times> 'z vga_state_scheme) res" where
  "crtc_effect i val s =
     (if i \<in> {0x00, 0x02, 0x03, 0x05, 0x06, 0x10} then vga_retime False s
      else if i = 0x07
      then vga_retime True (upd_vga (\<lambda>v.
             compare_bit8 (v\<lparr>vertical_display_end := or_if (testw (creg 0x07 v) 0x40) 0x200
               (or_if (testw (creg 0x07 v) 0x02) 0x100 (vertical_display_end v AND 0xff))\<rparr>)) s)
      else if i = 0x08 then vga_set True id s
      else if i = 0x09
      then Inr (Some (True, True), upd_vga (\<lambda>v. v\<lparr>y_doublescan := testw val 0x9f,
             vga_line_compare := or_if (testw (creg 0x09 v) 0x40) 0x200 (vga_line_compare v AND 0x1ff)\<rparr>) s)
      else if i \<in> {0x0A, 0x0B, 0x0E, 0x0F} then vga_set False (\<lambda>v. v\<lparr>vga_mem_updated := True\<rparr>) s
      else if i \<in> {0x0C, 0x0D}
      then if graphics_alpha (graphics_ctrl (VgaCore s)) then vga_set True id s
           else vga_set False (\<lambda>v. v\<lparr>vga_mem_updated := True\<rparr>) s
      else if i = 0x11
      then vga_retime False (upd_vga (\<lambda>v. upd_crtc (\<lambda>c. c\<lparr>write_protect := testw (creg 0x11 v) 0x80\<rparr>) v) s)
      else if i = 0x12
      then vga_retime False (upd_vga (\<lambda>v. v\<lparr>vertical_display_end := (vertical_display_end v AND 0x300) OR ucast (creg 0x12 v)\<rparr>) s)
      else if i \<in> {0x13, 0x14, 0x17}
      then vga_set True (\<lambda>v. let off = push_bit 1 (ucast (creg 0x13 v)) :: DWORD
             in v\<lparr>line_offset := if testw (creg 0x14 v) 0x40 then push_bit 2 off
                                  else if \<not> testw (creg 0x17 v) 0x40 then push_bit 1 off else off\<rparr>) s
      else if i = 0x18
      then vga_set True (\<lambda>v. v\<lparr>vga_line_compare := (vga_line_compare v AND 0x300) OR ucast (creg 0x18 v)\<rparr>) s
      else vga_set False id s)"

definition write_crtc :: "DWORD \<Rightarrow> 'z vga_state_scheme \<Rightarrow> (flags \<times> 'z vga_state_scheme) res" where
  "write_crtc val s =
     (let c = CRTC (VgaCore s); i = unat (crtc_address c)
      in if i > 0x18 then Inr (None, s)
         else if write_protect c \<and> i < 0x08
         then if i = 0x07
              then vga_set True (\<lambda>v. compare_bit8 (set_creg 7 ((creg 7 v AND NOT 0x10) OR (ucast val AND 0x10)) v)) s
              else Inr (None, s)
         else if val \<noteq> ucast (creg i (VgaCore s)) then crtc_effect i val (upd_vga (set_creg i (ucast val)) s)
         else vga_set False id s)"

section \<open>The handlers\<close>

definition vga_hidden :: "DWORD \<Rightarrow> 'z vga_state_scheme \<Rightarrow> bool" where
  "vga_hidden addr s \<longleftrightarrow> 0x03b0 \<le> addr \<and> addr \<le> 0x03bf \<and> color_emulation (misc_output (VgaCore s)) \<or>
     0x03d0 \<le> addr \<and> addr \<le> 0x03df \<and> \<not> color_emulation (misc_output (VgaCore s))"

definition vga_write_reg :: "DWORD \<Rightarrow> DWORD \<Rightarrow> 'z vga_state_scheme \<Rightarrow> (flags \<times> 'z vga_state_scheme) res" where
  "vga_write_reg addr val s =
     (if addr = 0x03c0 then write_actl val s
      else if addr = 0x03c2 then write_misc_output val s
      else if addr = 0x03c3 then vga_set False (\<lambda>v. v\<lparr>vga_enabled := bitof val 0\<rparr>) s
      else if addr = 0x03c4 then vga_set False (upd_seq (\<lambda>q. q\<lparr>seq_index := ucast val\<rparr>)) s
      else if addr = 0x03c5 then write_sequencer val s
      else if addr = 0x03c6
      then if val \<noteq> ucast (pel_mask (pel (VgaCore s))) then vga_set True (upd_pel (\<lambda>p. p\<lparr>pel_mask := ucast val\<rparr>)) s else vga_set False id s
      else if addr = 0x03c7
      then vga_set False (upd_pel (\<lambda>p. p\<lparr>read_data_register := ucast val, read_data_cycle := 0, dac_state := 0x03\<rparr>)) s
      else if addr = 0x03c8
      then vga_set False (upd_pel (\<lambda>p. p\<lparr>write_data_register := ucast val, write_data_cycle := 0, dac_state := 0x00\<rparr>)) s
      else if addr = 0x03c9 then write_pel_data val s
      else if addr = 0x03ce then vga_set False (upd_gc (\<lambda>g. g\<lparr>gc_index := ucast val\<rparr>)) s
      else if addr = 0x03cf then write_graphics val s
      else if addr = 0x03b4 \<or> addr = 0x03d4 then vga_set False (upd_crtc (\<lambda>c. c\<lparr>crtc_address := ucast val AND 0x3f\<rparr>)) s
      else if addr = 0x03b5 \<or> addr = 0x03d5 then write_crtc val s
      else vga_set False id s)"

definition vga_write_end :: "flags \<times> 'z vga_state_scheme \<Rightarrow> 'z vga_state_scheme res" where
  "vga_write_end r =
     (case r of
        (None, s) \<Rightarrow> Inr s
      | (Some (needs, charmap), s) \<Rightarrow>
          bindE (if charmap
                 then bindE (set_text_charmap (vga_memory (VgaCore s)) (0x20000 + unat (charmap_address (VgaCore s))) (Gui s)) (\<lambda>g.
                      Inr (upd_vga (\<lambda>v. v\<lparr>vga_mem_updated := True\<rparr>) (s\<lparr>Gui := g\<rparr>)))
                 else Inr s) (\<lambda>s.
          Inr (if needs then upd_vga (\<lambda>v. vga_redraw_area 0 0 (ucast (last_xres v)) (ucast (last_yres v)) v) s else s)))"

definition vga_write1 :: "DWORD \<Rightarrow> DWORD \<Rightarrow> 'z vga_state_scheme \<Rightarrow> 'z vga_state_scheme res" where
  "vga_write1 addr val s = (if vga_hidden addr s then Inr s else bindE (vga_write_reg addr val s) vga_write_end)"

definition VgaCorePortIoWriteHandler :: "DWORD \<Rightarrow> DWORD \<Rightarrow> DWORD \<Rightarrow> 'z vga_state_scheme \<Rightarrow> 'z vga_state_scheme res" where
  "VgaCorePortIoWriteHandler addr val len s =
     (if len = 2
      then bindE (vga_write1 addr (val AND 0xff) s) (vga_write1 (addr + 1) (drop_bit 8 val AND 0xff))
      else vga_write1 addr val s)"

text \<open>In a VBE mode of more than 4 bits the line offset is not recomputed.\<close>

definition vga_ext_write1 :: "DWORD \<Rightarrow> DWORD \<Rightarrow> DWORD \<Rightarrow> 'z vga_state_scheme \<Rightarrow> 'z vga_state_scheme res" where
  "vga_ext_write1 addr val len s =
     (if vga_hidden addr s then Inr s
      else if addr = 0x03b5 \<or> addr = 0x03d5
      then let i = unat (crtc_address (CRTC (VgaCore s)))
           in if i > 0x18 then Inr s
              else if val = ucast (creg i (VgaCore s)) then Inr s
              else if i \<in> {0x13, 0x14, 0x17} \<and> vbe_enabled (Vga s) \<and> vbe_bpp (Vga s) \<noteq> 0x04
              then Inr (upd_vga (set_creg i (ucast val)) s)
              else VgaCorePortIoWriteHandler addr val len s
      else VgaCorePortIoWriteHandler addr val len s)"

definition VgaPortIoWriteHandler :: "DWORD \<Rightarrow> DWORD \<Rightarrow> DWORD \<Rightarrow> 'z vga_state_scheme \<Rightarrow> 'z vga_state_scheme res" where
  "VgaPortIoWriteHandler addr val len s =
     (if len = 2
      then bindE (vga_ext_write1 addr (val AND 0xff) 1 s) (vga_ext_write1 (addr + 1) (drop_bit 8 val AND 0xff) 1)
      else vga_ext_write1 addr val len s)"

section \<open>Register reads\<close>

definition bits :: "(bool \<times> nat) list \<Rightarrow> BYTE" where
  "bits bs = fold (\<lambda>(b, i) v. v OR push_bit i (b2w b)) bs 0"

definition read_actl_data :: "ATTRIBUTE_CTRL \<Rightarrow> BYTE" where
  "read_actl_data a =
     (let i = actl_address a; m = mode_ctrl a
      in if i \<le> 0x0f then palette_reg a ! unat i
         else if i = 0x10
         then bits [(mode_graphics_alpha m, 0), (display_type m, 1), (enable_line_graphics m, 2), (blink_intensity m, 3),
                    (pixel_panning_compat m, 5), (pixel_clock_select m, 6), (internal_palette_size m, 7)]
         else if i = 0x11 then overscan_color a
         else if i = 0x12 then color_plane_enable a
         else if i = 0x13 then horiz_pel_panning a
         else if i = 0x14 then color_select a
         else 0)"

definition read_sequencer :: "SEQUENCER \<Rightarrow> BYTE" where
  "read_sequencer q =
     (let i = seq_index q
      in if i = 0 then bits [(reset1 q, 0), (reset2 q, 1)]
         else if i = 1 then reg1 q
         else if i = 2 then map_mask q
         else if i = 3 then char_map_select q
         else if i = 4 then bits [(extended_mem q, 1), (seq_odd_even q, 2), (chain_four q, 3)]
         else 0)"

definition read_pel_data :: "'z vga_state_scheme \<Rightarrow> BYTE \<times> 'z vga_state_scheme" where
  "read_pel_data s =
     (let p = pel (VgaCore s)
      in if dac_state p = 0x03
         then let (r, g, b) = pel_data p (unat (read_data_register p)); c = read_data_cycle p
              in (if c = 0 then r else if c = 1 then g else if c = 2 then b else 0,
                  upd_vga (upd_pel (\<lambda>p.
                    let p = p\<lparr>read_data_cycle := read_data_cycle p + 1\<rparr>
                    in if read_data_cycle p \<ge> 3 then p\<lparr>read_data_cycle := 0, read_data_register := read_data_register p + 1\<rparr> else p)) s)
         else (0x3f, s))"

definition read_misc_output :: "MISC_OUTPUT \<Rightarrow> BYTE" where
  "read_misc_output m =
     bits [(color_emulation m, 0), (enable_ram m, 1), (select_high_bank m, 5), (horiz_sync_pol m, 6), (vert_sync_pol m, 7)] OR
     push_bit 2 (clock_select m AND 0x03)"

text \<open>The mode register is returned only when odd/even addressing or the shift register is on, and is 0 otherwise.\<close>

definition read_graphics :: "GRAPHICS_CTRL \<Rightarrow> BYTE" where
  "read_graphics g =
     (let i = gc_index g
      in if i = 0 then set_reset g
         else if i = 1 then enable_set_reset g
         else if i = 2 then color_compare g
         else if i = 3 then push_bit 3 (raster_op g AND 0x03) OR (data_rotate g AND 0x07)
         else if i = 4 then read_map_select g
         else if i = 5
         then if gc_odd_even g \<or> shift_reg g \<noteq> 0
              then push_bit 5 (shift_reg g AND 0x03) OR bits [(gc_odd_even g, 4)] OR push_bit 3 (ucast (read_mode g AND 0x01)) OR
                   (write_mode g AND 0x03)
              else 0
         else if i = 6 then push_bit 2 (memory_mapping g AND 0x03) OR bits [(gc_odd_even g, 1), (graphics_alpha g, 0)]
         else if i = 7 then color_dont_care g
         else if i = 8 then bitmask g
         else 0)"

definition read_crtc :: "VGACORE \<Rightarrow> BYTE res" where
  "read_crtc v =
     (let a = crtc_address (CRTC v)
      in if a = 0x22 then arr_get (latch (graphics_ctrl v)) (unat (read_map_select (graphics_ctrl v)))
         else if a > 0x18 then Inr 0
         else Inr (creg (unat a) v))"

definition vga_read1 :: "DWORD \<Rightarrow> 'z vga_state_scheme \<Rightarrow> (BYTE \<times> 'z vga_state_scheme) res" where
  "vga_read1 addr s =
     (let v = VgaCore s; a = attribute_ctrl v
      in if vga_hidden addr s then Inr (0xff, s)
         else if addr \<in> {0x03ba, 0x03ca, 0x03da} then Inr (0, upd_vga (upd_actl (\<lambda>a. a\<lparr>flip_flop := False\<rparr>)) s)
         else if addr = 0x03c0
         then Inr (if \<not> flip_flop a then push_bit 5 (b2w (video_enabled a)) OR ucast (actl_address a) else 0, s)
         else if addr = 0x03c1 then Inr (read_actl_data a, s)
         else if addr = 0x03c3 then Inr (b2w (vga_enabled v), s)
         else if addr = 0x03c4 then Inr (seq_index (sequencer v), s)
         else if addr = 0x03c5 then Inr (read_sequencer (sequencer v), s)
         else if addr = 0x03c6 then Inr (pel_mask (pel v), s)
         else if addr = 0x03c7 then Inr (dac_state (pel v), s)
         else if addr = 0x03c8 then Inr (write_data_register (pel v), s)
         else if addr = 0x03c9 then Inr (read_pel_data s)
         else if addr = 0x03cc then Inr (read_misc_output (misc_output v), s)
         else if addr = 0x03ce then Inr (gc_index (graphics_ctrl v), s)
         else if addr = 0x03cf then Inr (read_graphics (graphics_ctrl v), s)
         else if addr = 0x03d4 then Inr (crtc_address (CRTC v), s)
         else if addr = 0x03b5 \<or> addr = 0x03d5 then bindE (read_crtc v) (\<lambda>b. Inr (b, s))
         else Inr (0, s))"

definition VgaCorePortIoReadHandler :: "DWORD \<Rightarrow> DWORD \<Rightarrow> 'z vga_state_scheme \<Rightarrow> (DWORD \<times> 'z vga_state_scheme) res" where
  "VgaCorePortIoReadHandler addr len s =
     (if len = 2
      then bindE (vga_read1 addr s) (\<lambda>(lo, s). bindE (vga_read1 (addr + 1) s) (\<lambda>(hi, s).
           Inr (ucast lo OR push_bit 8 (ucast hi), s)))
      else bindE (vga_read1 addr s) (\<lambda>(b, s). Inr (ucast b, s)))"

section \<open>The VBE ports and the configuration space\<close>

text \<open>The ports of the VBE interface do nothing; the value of a read, which has no \<open>return\<close>, is the argument \<open>eax\<close>.\<close>

definition VgaVbePortIoWriteHandler :: "DWORD \<Rightarrow> DWORD \<Rightarrow> DWORD \<Rightarrow> 'z vga_state_scheme \<Rightarrow> 'z vga_state_scheme" where
  "VgaVbePortIoWriteHandler addr val len s = s"

definition VgaVbePortIoReadHandler :: "DWORD \<Rightarrow> DWORD \<Rightarrow> DWORD \<Rightarrow> 'z vga_state_scheme \<Rightarrow> DWORD \<times> 'z vga_state_scheme" where
  "VgaVbePortIoReadHandler eax addr len s = (eax, s)"

definition VgaWritePciConfHandler ::
  "BYTE \<Rightarrow> BYTE \<Rightarrow> BYTE \<Rightarrow> ULONG \<Rightarrow> ULONG \<Rightarrow> 'z vga_state_scheme \<Rightarrow> 'z vga_state_scheme res" where
  "VgaWritePciConfHandler bus df address val len s =
     (if 0x14 \<le> address \<and> address < 0x30 then Inr s
      else foldE (\<lambda>i s.
             let n = unat address + i
             in if n = 0x04 \<or> n = 0x06 then Inr s
                else set_conf bus df n (ucast (drop_bit (8 * i) val)) s) [0 ..< unat len] s)"

section \<open>Initialisation\<close>

definition vesa_EDID :: "BYTE list" where
  "vesa_EDID = [
     0x00, 0xff, 0xff, 0xff, 0xff, 0xff, 0xff, 0x00, 0x04, 0x21, 0xab, 0xcd, 0x00, 0x00, 0x00, 0x00,
     0x0c, 0x0b, 0x01, 0x03, 0x0f, 0x21, 0x19, 0x78, 0x0f, 0x78, 0xf5, 0xa6, 0x55, 0x48, 0x9b, 0x26,
     0x12, 0x50, 0x54, 0xff, 0xef, 0x80, 0x31, 0x59, 0x45, 0x59, 0x61, 0x59, 0x81, 0xca, 0x81, 0x0a,
     0xa9, 0xc0, 0xa9, 0x40, 0xd1, 0x00, 0x3c, 0x28, 0x80, 0xa0, 0x70, 0xb0, 0x23, 0x40, 0x30, 0x20,
     0x36, 0x00, 0x06, 0x44, 0x21, 0x00, 0x00, 0x1e, 0x30, 0x2a, 0x00, 0x98, 0x51, 0x00, 0x2a, 0x40,
     0x30, 0x70, 0x13, 0x00, 0x2c, 0xe1, 0x10, 0x00, 0x00, 0x1e, 0x00, 0x00, 0x00, 0xff, 0x00, 0x30,
     0x31, 0x32, 0x33, 0x34, 0x35, 0x36, 0x37, 0x38, 0x39, 0x0a, 0x20, 0x20, 0x00, 0x00, 0x00, 0xfc,
     0x00, 0x42, 0x6f, 0x63, 0x68, 0x73, 0x20, 0x53, 0x63, 0x72, 0x65, 0x65, 0x6e, 0x0a, 0x00, 0x00]"

text \<open>The last byte makes the sum of the 128 bytes 0.\<close>

definition edid_checksum :: "BYTE list \<Rightarrow> BYTE list" where
  "edid_checksum ds =
     (let ds = ds[127 := 0]; checksum = sum_list (take 128 ds) in if checksum \<noteq> 0 then ds[127 := - checksum] else ds)"

definition vga_ports :: "env \<Rightarrow> port_dev \<Rightarrow> ULONG list \<Rightarrow> 'z vga_state_scheme \<Rightarrow> 'z vga_state_scheme res" where
  "vga_ports env d ports s = foldE (\<lambda>a s. RegisterPortIoHandler env s a (Some d) (Some d)) ports s"

definition VgaInitialize :: "env \<Rightarrow> 'z vga_state_scheme \<Rightarrow> 'z vga_state_scheme res" where
  "VgaInitialize env s =
     (let s = s\<lparr>Vga := \<lparr>vbe_enabled = False, vbe_bpp = 0, edid_data = edid_checksum (vesa_EDID @ replicate 128 0)\<rparr>\<rparr>;
          addr = PCI_DEVFUNC_OFFSET_TO_ADDRESS 0 (BX_PCI_DEVICE 2 0) 0
      in bindE (vga_ports env VgaPort ([0x3b4, 0x3b5, 0x3ba] @ map (\<lambda>i. 0x3c0 + of_nat i) [0 ..< 16] @ [0x3d4, 0x3d5, 0x3da]) s) (\<lambda>s.
         bindE (PciInitConfig (snd (PciRegisterConfigHandler s addr VgaPci)) addr 0x1234 0x1111 0x00 0x0300 0x00 0x00 0) (\<lambda>s.
         bindE (vga_ports env VgaVbePort [0x1ce, 0x1cf] s) (\<lambda>s.
         Inr (CmosSetRegister s REG_EQUIPMENT_BYTE (CmosGetRegister s REG_EQUIPMENT_BYTE AND 0xcf))))))"

definition vga_reset :: "VGACORE \<Rightarrow> VGACORE" where
  "vga_reset v = VGACORE_zero\<lparr>vga_enabled := True,
     misc_output := (misc_output VGACORE_zero)\<lparr>color_emulation := True, enable_ram := True, horiz_sync_pol := True, vert_sync_pol := True\<rparr>,
     attribute_ctrl := (attribute_ctrl VGACORE_zero)\<lparr>mode_ctrl := (mode_ctrl (attribute_ctrl VGACORE_zero))\<lparr>enable_line_graphics := True\<rparr>,
       video_enabled := True, color_plane_enable := 0x0f\<rparr>,
     line_offset := 80, vga_line_compare := 1023, vertical_display_end := 399,
     pel := (pel VGACORE_zero)\<lparr>dac_state := 0x01, pel_mask := 0xff\<rparr>,
     graphics_ctrl := (graphics_ctrl VGACORE_zero)\<lparr>memory_mapping := 2\<rparr>,
     sequencer := (sequencer VGACORE_zero)\<lparr>reset1 := True, reset2 := True, extended_mem := True, seq_odd_even := True\<rparr>,
     plane_shift := 16, dac_shift := 2, last_bpp := 8, vclk := [25175000, 28322000, 0, 0], htotal_usec := 31, vtotal_usec := 14285,
     max_xres := 800, max_yres := 600, blink_counter := 1, cs_counter := cs_counter v, cs_visible := cs_visible v\<rparr>"

definition num_tiles :: "VGACORE \<Rightarrow> VGACORE" where
  "num_tiles v =
     v\<lparr>num_x_tiles := max_xres v div 16 + b2w (max_xres v mod 16 > 0), num_y_tiles := max_yres v div 24 + b2w (max_yres v mod 24 > 0),
       tiles := \<lambda>_. False\<rparr>"

definition VgaCoreInitialize :: "env \<Rightarrow> bool \<Rightarrow> 'z vga_state_scheme \<Rightarrow> 'z vga_state_scheme res" where
  "VgaCoreInitialize env ui s =
     (let s = upd_vga vga_reset s;
          s = (case ask_env env (Calloc 0x40000) s of (ok, s) \<Rightarrow> upd_vga (\<lambda>v. v\<lparr>vga_memory := (if ok then 0x40000 else 0, \<lambda>_. 0)\<rparr>) s)
      in bindE (VgaInitialize env s) (\<lambda>s.
         bindE (GuiInitialize ui (ucast (max_xres (VgaCore s))) (ucast (max_yres (VgaCore s))) 0x10 0x18 s) (\<lambda>s.
         bindE (MmioRegisterHandler env s 0xa0000 0x20000 (Some VgaCoreMmio) (Some VgaCoreMmio)) (\<lambda>s.
         bindE (TimerRegister s TICK_PERIOD VgaCoreTimerFn 0) (\<lambda>(_, s).
         Inr (upd_vga num_tiles s))))))"

end
