(* ===== verification/Vga_Mem.thy ===== *)
theory Vga_Mem
  imports Vga_Ports
begin

text \<open>
  The video memory as the guest sees it from 0xa0000 to 0xbffff: the read and write modes of the graphics controller,
  and the tiles of the screen that a write marks as changed.
\<close>

section \<open>Reading\<close>

definition plane_base :: "nat \<Rightarrow> VGACORE \<Rightarrow> nat" where
  "plane_base i v = i * 2 ^ unat (plane_shift v) + unat (ext_offset v)"

definition read_offset :: "DWORD \<Rightarrow> VGACORE \<Rightarrow> DWORD option" where
  "read_offset addr v =
     (let m = memory_mapping (graphics_ctrl v)
      in if m = 1 then if addr > 0xAFFFF then None else Some (addr AND 0xFFFF)
         else if m = 2 then if addr < 0xB0000 \<or> addr > 0xB7FFF then None else Some (addr AND 0x7FFF)
         else if m = 3 then if addr < 0xB8000 then None else Some (addr AND 0x7FFF)
         else Some (addr AND 0x1FFFF))"

text \<open>The byte a chained address selects.\<close>

definition chained :: "DWORD \<Rightarrow> nat" where
  "chained offset = unat (offset AND NOT 0x03) + unat (offset mod 4) * 65536"

definition load_latch :: "DWORD \<Rightarrow> VGACORE \<Rightarrow> VGACORE res" where
  "load_latch offset v =
     (let at = (\<lambda>i. mem_get (vga_memory v) (plane_base i v + unat offset))
      in bindE (at 0) (\<lambda>a. bindE (at 1) (\<lambda>b. bindE (at 2) (\<lambda>c. bindE (at 3) (\<lambda>d.
         Inr (upd_gc (\<lambda>g. g\<lparr>latch := [a, b, c, d]\<rparr>) v))))))"

text \<open>A row of \<open>ccdat\<close>: all bits set for each bit of the index.\<close>

definition ccdat :: "BYTE \<Rightarrow> nat \<Rightarrow> BYTE" where
  "ccdat n i = (if bit n i then 0xff else 0)"

definition colour_compare :: "GRAPHICS_CTRL \<Rightarrow> BYTE" where
  "colour_compare g =
     (let x = (\<lambda>i. (latch g ! i XOR ccdat (color_compare g AND 0x0f) i) AND ccdat (color_dont_care g AND 0x0f) i)
      in NOT (x 0 OR x 1 OR x 2 OR x 3))"

definition vga_mem_read :: "DWORD \<Rightarrow> VGACORE \<Rightarrow> (BYTE \<times> VGACORE) res" where
  "vga_mem_read addr v =
     (case read_offset addr v of
        None \<Rightarrow> Inr (0xff, v)
      | Some offset \<Rightarrow>
          if chain_four (sequencer v) then bindE (mem_get (vga_memory v) (chained offset)) (\<lambda>b. Inr (b, v))
          else if read_mode (graphics_ctrl v) = 0
          then bindE (load_latch offset v) (\<lambda>v.
               bindE (arr_get (latch (graphics_ctrl v)) (unat (read_map_select (graphics_ctrl v)))) (\<lambda>b. Inr (b, v)))
          else if read_mode (graphics_ctrl v) = 1
          then bindE (load_latch offset v) (\<lambda>v. Inr (colour_compare (graphics_ctrl v), v))
          else Inr (0, v))"

text \<open>\<open>Data\<close> is filled byte by byte.\<close>

fun vga_read_bytes :: "DWORD \<Rightarrow> nat \<Rightarrow> VGACORE \<Rightarrow> (BYTE list \<times> VGACORE) res" where
  "vga_read_bytes addr 0 v = Inr ([], v)"
| "vga_read_bytes addr (Suc n) v =
     bindE (vga_mem_read addr v) (\<lambda>(b, v). bindE (vga_read_bytes (addr + 1) n v) (\<lambda>(bs, v). Inr (b # bs, v)))"

definition VgaCoreMMIOReadHandler :: "DWORD \<Rightarrow> DWORD \<Rightarrow> 'z vga_state_scheme \<Rightarrow> (BYTE list \<times> 'z vga_state_scheme) res" where
  "VgaCoreMMIOReadHandler addr len s = bindE (vga_read_bytes addr (unat len) (VgaCore s)) (\<lambda>(bs, v). Inr (bs, s\<lparr>VgaCore := v\<rparr>))"

section \<open>Writing\<close>

definition write_offset :: "DWORD \<Rightarrow> VGACORE \<Rightarrow> DWORD option" where
  "write_offset addr v =
     (let m = memory_mapping (graphics_ctrl v)
      in if m = 1 then if addr < 0xA0000 \<or> addr > 0xAFFFF then None else Some (addr - 0xA0000)
         else if m = 2 then if addr < 0xB0000 \<or> addr > 0xB7FFF then None else Some (addr - 0xB0000)
         else if m = 3 then if addr < 0xB8000 \<or> addr > 0xBFFFF then None else Some (addr - 0xB8000)
         else if addr < 0xA0000 \<or> addr > 0xBFFFF then None else Some (addr - 0xA0000))"

definition vga_start_addr :: "VGACORE \<Rightarrow> DWORD" where
  "vga_start_addr v = push_bit 8 (ucast (creg 0x0c v)) OR ucast (creg 0x0d v)"

definition set_vmem :: "nat \<Rightarrow> BYTE \<Rightarrow> VGACORE \<Rightarrow> VGACORE res" where
  "set_vmem i b v = bindE (mem_set (vga_memory v) i b) (\<lambda>m. Inr (v\<lparr>vga_memory := m\<rparr>))"

definition y_tile :: "DWORD \<Rightarrow> VGACORE \<Rightarrow> DWORD" where
  "y_tile y v = (if y_doublescan v then y div (Y_TILESIZE div 2) else y div Y_TILESIZE)"

text \<open>The two graphics modes of the CGA: the odd lines follow the even ones at 0x2000.\<close>

definition cga_write :: "DWORD \<Rightarrow> BYTE \<Rightarrow> VGACORE \<Rightarrow> VGACORE res" where
  "cga_write offset val v =
     bindE (set_vmem (unat offset) val v) (\<lambda>v.
     let off = offset - vga_start_addr v;
         (y, x) = (if off \<ge> 0x2000 then (push_bit 1 ((off - 0x2000) div 80) + 1, push_bit 2 ((off - 0x2000) mod 80))
                   else (push_bit 1 (off div 80), push_bit 2 (off mod 80)));
         (x, x2) = (if shift_reg (graphics_ctrl v) = 0 then (x * 2, x + 7) else (x, x + 3));
         w = (if x_dotclockdiv2 v then X_TILESIZE div 2 else X_TILESIZE);
         v = SET_TILE_UPDATED (x div w) (y_tile y v) True (v\<lparr>vga_mem_updated := True\<rparr>)
     in Inr (if x2 div w \<noteq> x div w then SET_TILE_UPDATED (x2 div w) (y_tile y v) True v else v))"

definition chained_write :: "DWORD \<Rightarrow> BYTE \<Rightarrow> VGACORE \<Rightarrow> VGACORE res" where
  "chained_write offset val v =
     bindE (set_vmem (chained offset) val v) (\<lambda>v.
     if line_offset v > 0
     then let off = offset - vga_start_addr v
          in Inr (SET_TILE_UPDATED ((off mod line_offset v) div (X_TILESIZE div 2)) (y_tile (off div line_offset v) v) True
                    (v\<lparr>vga_mem_updated := True\<rparr>))
     else Inr v)"

text \<open>The raster operation on a source and a latched byte; other operations do not occur.\<close>

definition rotate_data :: "BYTE \<Rightarrow> DWORD \<Rightarrow> DWORD" where
  "rotate_data n val = (if n \<noteq> 0 then drop_bit (unat n) val OR push_bit (8 - unat n) val else val)"

definition raster :: "BYTE \<Rightarrow> BYTE \<Rightarrow> BYTE \<Rightarrow> BYTE" where
  "raster op val la = (if op = 0 then val else if op = 1 then val AND la else if op = 2 then val OR la else if op = 3 then val XOR la else 0)"

text \<open>Write mode 0 for plane \<open>i\<close>, with the cases of the source: the set/reset value or the rotated data.\<close>

definition mode0_set :: "BYTE \<Rightarrow> bool \<Rightarrow> BYTE \<Rightarrow> BYTE \<Rightarrow> BYTE" where
  "mode0_set op on la bm =
     (if op = 0 then if on then bm else 0
      else if op = 1 then if on then la AND bm else 0
      else if op = 2 then if on then bm else la AND bm
      else if op = 3 then if on then NOT la AND bm else la AND bm
      else 0)"

definition write_mode0 :: "nat \<Rightarrow> DWORD \<Rightarrow> GRAPHICS_CTRL \<Rightarrow> BYTE" where
  "write_mode0 i val g =
     (let bm = bitmask g; la = latch g ! i; d = (ucast (rotate_data (data_rotate g) val) :: BYTE)
      in (la AND NOT bm) OR
         (if bit (enable_set_reset g) i then mode0_set (raster_op g) (bit (set_reset g) i) la bm
          else raster (raster_op g) d la AND bm))"

definition write_mode2 :: "nat \<Rightarrow> DWORD \<Rightarrow> GRAPHICS_CTRL \<Rightarrow> BYTE" where
  "write_mode2 i val g =
     (let bm = bitmask g; la = latch g ! i in (la AND NOT bm) OR mode0_set (raster_op g) (bit val i) la bm)"

text \<open>The mask is taken from the data before they are rotated.\<close>

definition write_mode3 :: "nat \<Rightarrow> DWORD \<Rightarrow> GRAPHICS_CTRL \<Rightarrow> BYTE" where
  "write_mode3 i val g =
     (let bm = bitmask g AND ucast val; la = latch g ! i; d = ucast (rotate_data (data_rotate g) val) AND bm;
          src = (if bit (set_reset g) i then d else 0)
      in (la AND NOT bm) OR raster (raster_op g) src la)"

definition new_val :: "nat \<Rightarrow> DWORD \<Rightarrow> GRAPHICS_CTRL \<Rightarrow> BYTE" where
  "new_val i val g =
     (if write_mode g = 0 then write_mode0 i val g
      else if write_mode g = 1 then latch g ! i
      else if write_mode g = 2 then write_mode2 i val g
      else if write_mode g = 3 then write_mode3 i val g
      else 0)"

text \<open>The planes that the map mask selects; a write to plane 2 may change the font.\<close>

definition write_plane :: "DWORD \<Rightarrow> DWORD \<Rightarrow> nat \<Rightarrow> 'z vga_state_scheme \<Rightarrow> 'z vga_state_scheme res" where
  "write_plane offset val i s =
     (let v = VgaCore s; b = new_val i val (graphics_ctrl v)
      in if \<not> bit (map_mask (sequencer v)) i then Inr s
         else bindE (if i = 2 \<and> offset AND 0xe000 = ucast (charmap_address v)
                     then bindE (set_text_charbyte (ucast (offset AND 0x1fff)) b (Gui s)) (\<lambda>g. Inr (s\<lparr>Gui := g\<rparr>)) else Inr s) (\<lambda>s.
              bindE (set_vmem (plane_base i v + unat offset) b (VgaCore s)) (\<lambda>v. Inr (s\<lparr>VgaCore := v\<rparr>))))"

definition x_tile_planar :: "DWORD \<Rightarrow> VGACORE \<Rightarrow> DWORD" where
  "x_tile_planar off v = (off mod line_offset v) div (if x_dotclockdiv2 v then X_TILESIZE div 16 else X_TILESIZE div 8)"

definition mark_planar :: "DWORD \<Rightarrow> VGACORE \<Rightarrow> VGACORE res" where
  "mark_planar offset v =
     (let start = vga_start_addr v; lo = line_offset v; lc = vga_line_compare v
      in if shift_reg (graphics_ctrl v) = 2
         then if lo = 0 then Inl DivByZero
              else let off = offset - start
                   in Inr (SET_TILE_UPDATED (((off mod lo) * 4) div (X_TILESIZE div 2)) (y_tile (off div lo) v) True v)
         else let v = (if lc < vertical_display_end v \<and> lo > 0
                       then SET_TILE_UPDATED (x_tile_planar offset v)
                              (((if y_doublescan v then offset div lo * 2 else offset div lo) + lc + 1) div Y_TILESIZE) True v
                       else v);
                  off = offset - start
              in Inr (if offset \<ge> start \<and> lo > 0 then SET_TILE_UPDATED (x_tile_planar off v) (y_tile (off div lo) v) True v else v))"

definition planar_write :: "DWORD \<Rightarrow> DWORD \<Rightarrow> 'z vga_state_scheme \<Rightarrow> 'z vga_state_scheme res" where
  "planar_write offset val s =
     (if testw (map_mask (sequencer (VgaCore s))) 0x0f
      then bindE (foldE (write_plane offset val) [0 ..< 4] (upd_vga (\<lambda>v. v\<lparr>vga_mem_updated := True\<rparr>) s)) (\<lambda>s.
           bindE (mark_planar offset (VgaCore s)) (\<lambda>v. Inr (s\<lparr>VgaCore := v\<rparr>)))
      else Inr s)"

definition vga_mem_write :: "DWORD \<Rightarrow> DWORD \<Rightarrow> 'z vga_state_scheme \<Rightarrow> 'z vga_state_scheme res" where
  "vga_mem_write addr val s =
     (case write_offset addr (VgaCore s) of
        None \<Rightarrow> Inr s
      | Some offset \<Rightarrow>
          let v = VgaCore s
          in if graphics_alpha (graphics_ctrl v) \<and> memory_mapping (graphics_ctrl v) = 3
             then bindE (cga_write offset (ucast val) v) (\<lambda>v. Inr (s\<lparr>VgaCore := v\<rparr>))
             else if graphics_alpha (graphics_ctrl v) \<and> chain_four (sequencer v)
             then bindE (chained_write offset (ucast val) v) (\<lambda>v. Inr (s\<lparr>VgaCore := v\<rparr>))
             else planar_write offset val s)"

definition VgaCoreMMIOWriteHandler :: "DWORD \<Rightarrow> BYTE list \<Rightarrow> DWORD \<Rightarrow> 'z vga_state_scheme \<Rightarrow> 'z vga_state_scheme res" where
  "VgaCoreMMIOWriteHandler addr data len s =
     foldE (\<lambda>i s. bindE (arr_get data i) (\<lambda>b. vga_mem_write (addr + of_nat i) (ucast b) s)) [0 ..< unat len] s"

end
