(* ===== verification/Vga_Update.thy ===== *)
theory Vga_Update
  imports Vga_Mem
begin

text \<open>
  \<open>VgaCoreUpdate\<close>, which the timer calls: the pixels of the changed tiles in each graphics mode, and the text screen.
  The six loops over the tiles differ only in the way a pixel is fetched and in the test whether a tile is drawn.
\<close>

section \<open>Pixels\<close>

fun mapE :: "('a \<Rightarrow> 'b res) \<Rightarrow> 'a list \<Rightarrow> 'b list res" where
  "mapE f [] = Inr []"
| "mapE f (x # xs) = bindE (f x) (\<lambda>y. bindE (mapE f xs) (\<lambda>ys. Inr (y # ys)))"

text \<open>A colour register from a palette entry.\<close>

definition dac_regno :: "ATTRIBUTE_CTRL \<Rightarrow> BYTE \<Rightarrow> BYTE" where
  "dac_regno a pal =
     (if internal_palette_size (mode_ctrl a) then (pal AND 0x0f) OR push_bit 4 (color_select a)
      else (pal AND 0x3f) OR push_bit 4 (color_select a AND 0x0c))"

text \<open>\<open>x\<close>, \<open>y\<close>, \<open>saddr\<close> and \<open>lc\<close> are 16 bits wide, the offset 32.\<close>

definition pixel_offset :: "USHORT \<Rightarrow> USHORT \<Rightarrow> USHORT \<Rightarrow> USHORT \<Rightarrow> VGACORE \<Rightarrow> DWORD" where
  "pixel_offset x y saddr lc v =
     (if y > lc then ucast (x div 8) + (ucast y - ucast lc - 1) * line_offset v
      else ucast saddr + ucast (x div 8) + ucast y * line_offset v)"

definition VgaCoreGetVgaPixel :: "USHORT \<Rightarrow> USHORT \<Rightarrow> USHORT \<Rightarrow> USHORT \<Rightarrow> bool \<Rightarrow> nat \<Rightarrow> VGACORE \<Rightarrow> BYTE res" where
  "VgaCoreGetVgaPixel x y saddr lc bs shift v =
     (let x = (if x_dotclockdiv2 v then drop_bit 1 x else x); bit_no = 7 - unat (x mod 8); off = unat (pixel_offset x y saddr lc v);
          a = attribute_ctrl v
      in bindE (mapE (\<lambda>i. mem_get (vga_memory v) (i * 2 ^ shift + off)) [0 ..< 4]) (\<lambda>ps.
         let attribute = fold (\<lambda>i att. att OR push_bit i (drop_bit bit_no (ps ! i) AND 0x01)) [0 ..< 4] 0 AND color_plane_enable a;
             attribute = (if blink_intensity (mode_ctrl a) then if bs then attribute OR 0x08 else attribute XOR 0x08 else attribute)
         in bindE (arr_get (palette_reg a) (unat attribute)) (\<lambda>pal. Inr (dac_regno a pal AND pel_mask (pel v)))))"

text \<open>\<open>get_vga_pixel\<close> of the VBE update is a copy of the same function.\<close>

definition get_vga_pixel :: "USHORT \<Rightarrow> USHORT \<Rightarrow> USHORT \<Rightarrow> USHORT \<Rightarrow> bool \<Rightarrow> nat \<Rightarrow> VGACORE \<Rightarrow> BYTE res" where
  "get_vga_pixel = VgaCoreGetVgaPixel"

definition cga_offset :: "USHORT \<Rightarrow> USHORT \<Rightarrow> DWORD" where
  "cga_offset saddr y = ucast saddr + push_bit 13 (ucast (y AND 1)) + 80 * ucast (y div 2)"

definition cga2_pixel :: "USHORT \<Rightarrow> VGACORE \<Rightarrow> USHORT \<Rightarrow> USHORT \<Rightarrow> BYTE res" where
  "cga2_pixel saddr v x y =
     bindE (mem_get (vga_memory v) (unat (cga_offset saddr y + ucast (x div 8)))) (\<lambda>b.
     arr_get (palette_reg (attribute_ctrl v)) (unat (drop_bit (7 - unat (x mod 8)) b AND 1)))"

definition cga4_pixel :: "USHORT \<Rightarrow> VGACORE \<Rightarrow> USHORT \<Rightarrow> USHORT \<Rightarrow> BYTE res" where
  "cga4_pixel saddr v x y =
     (let x = (if x_dotclockdiv2 v then drop_bit 1 x else x)
      in bindE (mem_get (vga_memory v) (unat (cga_offset saddr y + ucast (x div 4)))) (\<lambda>b.
         arr_get (palette_reg (attribute_ctrl v)) (unat (drop_bit (6 - 2 * unat (x mod 4)) b AND 3))))"

text \<open>The 256-colour modes: four pixels side by side come from the four planes.\<close>

definition byte_pixel :: "(DWORD \<Rightarrow> DWORD) \<Rightarrow> USHORT \<Rightarrow> VGACORE \<Rightarrow> DWORD \<Rightarrow> DWORD \<Rightarrow> BYTE res" where
  "byte_pixel column saddr v px py =
     (let x = drop_bit 1 px; y = (if y_doublescan v then drop_bit 1 py else py)
      in mem_get (vga_memory v) (unat (ucast saddr + (x mod 4) * 65536 + y * line_offset v + column x)))"

section \<open>Tiles\<close>

text \<open>One tile, line by line, at the pixel \<open>(xc, yc)\<close>.\<close>

definition tile_pixels :: "(DWORD \<Rightarrow> DWORD \<Rightarrow> BYTE res) \<Rightarrow> DWORD \<Rightarrow> DWORD \<Rightarrow> BYTE list res" where
  "tile_pixels pixel xc yc = mapE (\<lambda>k. pixel (xc + of_nat (k mod 16)) (yc + of_nat (k div 16))) [0 ..< 384]"

definition draw_tile ::
  "bool \<Rightarrow> (VGACORE \<Rightarrow> DWORD \<Rightarrow> DWORD \<Rightarrow> BYTE res) \<Rightarrow> DWORD \<Rightarrow> DWORD \<Rightarrow> 'z vga_state_scheme \<Rightarrow> 'z vga_state_scheme res" where
  "draw_tile always pixel xti yti s =
     (let xc = xti * X_TILESIZE; yc = yti * Y_TILESIZE
      in if always \<or> GET_TILE_UPDATED xti yti (VgaCore s)
         then bindE (tile_pixels (pixel (VgaCore s)) xc yc) (\<lambda>tile.
              Inr (upd_gui (graphics_tile_update_common tile xc yc) (upd_vga (SET_TILE_UPDATED xti yti False) s)))
         else Inr s)"

definition tile_count :: "DWORD \<Rightarrow> DWORD \<Rightarrow> nat" where
  "tile_count sz len = (unat len + unat sz - 1) div unat sz"

definition draw_tiles ::
  "bool \<Rightarrow> (VGACORE \<Rightarrow> DWORD \<Rightarrow> DWORD \<Rightarrow> BYTE res) \<Rightarrow> DWORD \<Rightarrow> DWORD \<Rightarrow> 'z vga_state_scheme \<Rightarrow> 'z vga_state_scheme res" where
  "draw_tiles always pixel iWidth iHeight s =
     foldE (\<lambda>yti s. foldE (\<lambda>xti s. draw_tile always pixel (of_nat xti) (of_nat yti) s) [0 ..< tile_count X_TILESIZE iWidth] s)
       [0 ..< tile_count Y_TILESIZE iHeight] s"

text \<open>The coordinates of the CGA and planar modes are cut to 16 bits, the line halved when it is shown twice.\<close>

definition pixel16 :: "(VGACORE \<Rightarrow> USHORT \<Rightarrow> USHORT \<Rightarrow> BYTE res) \<Rightarrow> VGACORE \<Rightarrow> DWORD \<Rightarrow> DWORD \<Rightarrow> BYTE res" where
  "pixel16 f v x y = f v (ucast x) (if y_doublescan v then drop_bit 1 (ucast y) else ucast y)"

section \<open>The update\<close>

definition VgaCoreDetermineScreenDimensions :: "VGACORE \<Rightarrow> DWORD \<times> DWORD" where
  "VgaCoreDetermineScreenDimensions v =
     (let h = (ucast (creg 1 v) + 1) * 8;
          w = (ucast (creg 18 v) OR push_bit 7 (ucast (creg 7 v) AND 0x02) OR push_bit 3 (ucast (creg 7 v) AND 0x40)) + 1
      in (if ext_y_dblsize v then push_bit 1 w else w, if x_dotclockdiv2 v then push_bit 1 h else h))"

definition VgaCoreSkipUpdate :: "'z vga_state_scheme \<Rightarrow> bool \<times> 'z vga_state_scheme" where
  "VgaCoreSkipUpdate s =
     (let s = (if seq_clear_screen (sequencer (VgaCore s))
               then upd_vga (upd_seq (\<lambda>q. q\<lparr>seq_clear_screen := False\<rparr>)) (upd_gui clear_screen s) else s);
          v = VgaCore s
      in (\<not> vga_enabled v \<or> \<not> video_enabled (attribute_ctrl v) \<or>
          mode_graphics_alpha (mode_ctrl (attribute_ctrl v)) \<noteq> graphics_alpha (graphics_ctrl v) \<or>
          \<not> reset2 (sequencer v) \<or> \<not> reset1 (sequencer v) \<or> testw (reg1 (sequencer v)) 0x20, s))"

text \<open>The blinking: whether this call returns at once, and whether the cursor toggles.\<close>

definition blink_step :: "VGACORE \<Rightarrow> bool \<times> bool \<times> VGACORE" where
  "blink_step v =
     (let v = v\<lparr>cs_counter := cs_counter v - 1\<rparr>
      in if \<not> vga_mem_updated v \<and> cs_counter v > 0 then (True, False, v)
         else if cs_counter v = 0
         then let v = v\<lparr>cs_counter := blink_counter v\<rparr>
              in if \<not> graphics_alpha (graphics_ctrl v) \<or> blink_intensity (mode_ctrl (attribute_ctrl v))
                 then (False, True, v\<lparr>cs_visible := \<not> cs_visible v\<rparr>)
                 else if \<not> vga_mem_updated v then (True, False, v)
                 else (False, False, v\<lparr>cs_visible := False\<rparr>)
         else (False, False, v))"

definition draw_graphics :: "bool \<Rightarrow> DWORD \<Rightarrow> DWORD \<Rightarrow> 'z vga_state_scheme \<Rightarrow> 'z vga_state_scheme res" where
  "draw_graphics toggle iWidth iHeight s =
     (let v = VgaCore s; saddr = (ucast (vga_start_addr v) :: USHORT); sh = shift_reg (graphics_ctrl v);
          lc = (ucast (vga_line_compare v) :: USHORT); lc = (if y_doublescan v then drop_bit 1 lc else lc)
      in if sh = 0
         then if \<not> testw (creg 0x17 v) 1 then draw_tiles False (pixel16 (cga2_pixel saddr)) iWidth iHeight s
              else draw_tiles toggle (pixel16 (\<lambda>v x y. VgaCoreGetVgaPixel x y saddr lc (cs_visible v) (unat (plane_shift v)) v)) iWidth iHeight s
         else if sh = 1 then draw_tiles False (pixel16 (cga4_pixel saddr)) iWidth iHeight s
         else if sh = 2 \<or> sh = 3
         then let column = (if testw (creg 0x14 v) 0x40 then (\<lambda>x. x AND NOT 0x03)
                            else if testw (creg 0x17 v) 0x40 then (\<lambda>x. drop_bit 2 x) else (\<lambda>x. drop_bit 1 x AND NOT 0x01))
              in draw_tiles False (byte_pixel column saddr) iWidth iHeight s
         else Inr s)"

definition update_graphics :: "bool \<Rightarrow> 'z vga_state_scheme \<Rightarrow> 'z vga_state_scheme res" where
  "update_graphics toggle s =
     (case VgaCoreDetermineScreenDimensions (VgaCore s) of
        (iHeight, iWidth) \<Rightarrow>
          let s = upd_vga (\<lambda>v.
                if iWidth \<noteq> ucast (last_xres v) \<or> iHeight \<noteq> ucast (last_yres v) \<or> last_bpp v > 8
                then v\<lparr>last_xres := ucast iWidth, last_yres := ucast iHeight, last_bpp := 8\<rparr> else v) s
          in case VgaCoreSkipUpdate s of
               (True, s) \<Rightarrow> Inr s
             | (False, s) \<Rightarrow> bindE (draw_graphics toggle iWidth iHeight s) (\<lambda>s. Inr (upd_vga (\<lambda>v. v\<lparr>vga_mem_updated := False\<rparr>) s)))"

definition tm_info_of :: "bool \<Rightarrow> VGACORE \<Rightarrow> tminfo" where
  "tm_info_of toggle v =
     (let a = attribute_ctrl v; m = mode_ctrl a; hp = horiz_pel_panning a AND 0x0f
      in \<lparr>start_address = 2 * (push_bit 8 (ucast (creg 12 v)) + ucast (creg 13 v)), cs_start = creg 0x0a v AND 0x3f,
          cs_end = creg 0x0b v AND 0x1f, tm_line_offset = ucast (line_offset v), line_compare = ucast (vga_line_compare v),
          h_panning = (if \<not> testw (reg1 (sequencer v)) 0x01 then if hp \<ge> 8 then 0 else hp + 1 else hp AND 0x07),
          v_panning = creg 0x08 v AND 0x1f, line_graphics = enable_line_graphics m, split_hpanning = pixel_panning_compat m,
          blink_flags = (if blink_intensity m
             then BX_TEXT_BLINK_MODE OR (if toggle then BX_TEXT_BLINK_TOGGLE else 0) OR (if cs_visible v then BX_TEXT_BLINK_STATE else 0) else 0),
          actl_palette = map (\<lambda>p. p AND pel_mask (pel v)) (palette_reg a)\<rparr>)"

definition text_size :: "VGACORE \<Rightarrow> BYTE \<times> DWORD" where
  "text_size v =
     (let msl = creg 0x09 v AND 0x1f; cols = ucast (creg 1 v) + 1;
          (msl, cols) = (if cols = 1 \<or> msl = 0 then (15, 80) else (msl, cols))
      in (if msl = 1 \<and> vertical_display_end v = 399 then 3 else msl, cols))"

text \<open>The old text becomes a copy of the part of the memory that was shown.\<close>

definition copy_text :: "nat \<Rightarrow> VGACORE \<Rightarrow> VGACORE res" where
  "copy_text n v =
     (if n \<le> fst (vga_memory v) \<and> n \<le> fst (text_snapshot v)
      then Inr (v\<lparr>text_snapshot := (fst (text_snapshot v), \<lambda>i. if i < n then snd (vga_memory v) i else snd (text_snapshot v) i)\<rparr>)
      else Inl OutOfBounds)"

definition draw_text :: "tminfo \<Rightarrow> DWORD \<Rightarrow> 'z vga_state_scheme \<Rightarrow> 'z vga_state_scheme res" where
  "draw_text tm rows s =
     (let v = VgaCore s; cursor = (2 * (push_bit 8 (ucast (creg 0x0e v)) + ucast (creg 0x0f v)) :: USHORT);
          cursor = (if cursor < start_address tm \<or> ucast cursor > (ucast (start_address tm) + ucast (tm_line_offset tm) * rows) then 0xffff else cursor)
      in bindE (text_update_common (text_snapshot v) (vga_memory v) cursor tm (Gui s)) (\<lambda>(old, g).
         let s = upd_vga (\<lambda>v. v\<lparr>text_snapshot := old\<rparr>) (s\<lparr>Gui := g\<rparr>)
         in if vga_mem_updated (VgaCore s)
            then bindE (copy_text (unat (ucast (tm_line_offset tm) * rows + ucast (start_address tm))) (VgaCore s)) (\<lambda>v.
                 Inr (s\<lparr>VgaCore := v\<lparr>vga_mem_updated := False\<rparr>\<rparr>))
            else Inr s))"

definition update_text :: "bool \<Rightarrow> 'z vga_state_scheme \<Rightarrow> 'z vga_state_scheme res" where
  "update_text toggle s =
     (let v = VgaCore s; tm = tm_info_of toggle v; (msl, cols) = text_size v; rows = (vertical_display_end v + 1) div (ucast msl + 1)
      in if rows * ucast (tm_line_offset tm) > 0x20000 then Inr s
         else let cw = (if testw (reg1 (sequencer v)) 0x01 then 8 else 9 :: DWORD); cWidth = (if x_dotclockdiv2 v then push_bit 1 cw else cw);
                  iWidth = cWidth * cols; iHeight = vertical_display_end v + 1;
                  s = (if iWidth \<noteq> ucast (last_xres v) \<or> iHeight \<noteq> ucast (last_yres v) \<or> cWidth \<noteq> ucast (last_fw v) \<or>
                          ucast msl + 1 \<noteq> (ucast (last_fh v) :: DWORD) \<or> last_bpp v > 8
                       then upd_vga (\<lambda>v. v\<lparr>last_xres := ucast iWidth, last_yres := ucast iHeight, last_fw := ucast cWidth, last_fh := msl + 1,
                              last_bpp := 8\<rparr>) (upd_gui (dimension_update iWidth iHeight (ucast msl + 1) cWidth 0) s)
                       else s)
              in case VgaCoreSkipUpdate s of
                   (True, s) \<Rightarrow> Inr s
                 | (False, s) \<Rightarrow> draw_text tm rows s)"

definition VgaCoreUpdate :: "'z vga_state_scheme \<Rightarrow> 'z vga_state_scheme res" where
  "VgaCoreUpdate s =
     (case blink_step (VgaCore s) of
        (ret, toggle, v) \<Rightarrow>
          let s = s\<lparr>VgaCore := v\<rparr>
          in if ret then Inr s
             else if graphics_alpha (graphics_ctrl v) then update_graphics toggle s
             else update_text toggle s)"

definition VgaCoreTimerHandler :: "'z vga_state_scheme \<Rightarrow> 'z vga_state_scheme res" where
  "VgaCoreTimerHandler s = bindE (VgaCoreUpdate s) (\<lambda>s. Inr (upd_gui flush s))"

end
