(* ===== verification/Vga_Safe.thy ===== *)
theory Vga_Safe
  imports Vga_Update
begin

text \<open>
  Well-formedness of the VGA: the sizes of its arrays and the ranges of the indices the guest can set. Every access to
  a port keeps it, and never divides by zero or leaves an array.
\<close>

section \<open>The invariant\<close>

definition VGACORE_ok :: "VGACORE \<Rightarrow> bool" where
  "VGACORE_ok v \<longleftrightarrow> length (crtc_reg (CRTC v)) = 0x19 \<and> length (palette_reg (attribute_ctrl v)) = 16 \<and>
     length (latch (graphics_ctrl v)) = 4 \<and> unat (read_map_select (graphics_ctrl v)) < 4 \<and> unat (memory_mapping (graphics_ctrl v)) < 4 \<and>
     unat (clock_select (misc_output v)) < 4 \<and> vclk v = [25175000, 28322000, 0, 0] \<and> plane_shift v = 16 \<and> ext_offset v = 0 \<and>
     unat (raster_op (graphics_ctrl v)) < 4 \<and> unat (data_rotate (graphics_ctrl v)) < 8 \<and> unat (write_mode (graphics_ctrl v)) < 4 \<and>
     color_plane_enable (attribute_ctrl v) \<le> 0x0f \<and> fst (vga_memory v) = 0x40000 \<and> fst (text_snapshot v) = 0x20000 \<and>
     charmap_address v \<in> set charmap_offset"

definition vga_ok :: "'z vga_state_scheme \<Rightarrow> bool" where
  "vga_ok s \<longleftrightarrow> VGACORE_ok (VgaCore s) \<and> fst (vga_charmap (Gui s)) = 0x2000"

lemma vga_ok_upd [simp]: "vga_ok (upd_vga f s) \<longleftrightarrow> VGACORE_ok (f (VgaCore s)) \<and> fst (vga_charmap (Gui s)) = 0x2000"
  by (simp add: vga_ok_def upd_vga_def)

lemma vga_ok_fields [simp]:
  "vga_ok (s\<lparr>VgaCore := v\<rparr>) \<longleftrightarrow> VGACORE_ok v \<and> fst (vga_charmap (Gui s)) = 0x2000"
  "vga_ok (s\<lparr>Gui := g\<rparr>) \<longleftrightarrow> VGACORE_ok (VgaCore s) \<and> fst (vga_charmap g) = 0x2000"
  "vga_ok (upd_gui f s) \<longleftrightarrow> VGACORE_ok (VgaCore s) \<and> fst (vga_charmap (f (Gui s))) = 0x2000"
  by (simp_all add: vga_ok_def upd_gui_def)

lemma vga_access [simp]:
  "VgaCore (upd_vga f s) = f (VgaCore s)" "Gui (upd_vga f s) = Gui s" "Gui (upd_gui h s) = h (Gui s)"
  "VgaCore (upd_gui h s) = VgaCore s" "Vga (upd_vga f s) = Vga s" "Vga (upd_gui h s) = Vga s"
  by (simp_all add: upd_vga_def upd_gui_def)

lemma gui_charmap [simp]:
  "vga_charmap (clear_screen g) = vga_charmap g" "vga_charmap (draw c g) = vga_charmap g"
  "vga_charmap (updateUpdated x1 y1 x2 y2 g) = vga_charmap g"
  "vga_charmap (snd (palette_change_common i rd gn bl g)) = vga_charmap g"
  by (simp_all add: clear_screen_def updateUpdated_def draw_def palette_change_common_def palette_change_def Let_def)

text \<open>The fields the invariant does not mention.\<close>

lemma VGACORE_ok_frame [simp]:
  "VGACORE_ok (upd_seq f v) = VGACORE_ok v" "VGACORE_ok (upd_pel f2 v) = VGACORE_ok v"
  "VGACORE_ok (v\<lparr>x_dotclockdiv2 := b\<rparr>) = VGACORE_ok v" "VGACORE_ok (v\<lparr>vga_enabled := b\<rparr>) = VGACORE_ok v"
  "VGACORE_ok (v\<lparr>vga_mem_updated := b\<rparr>) = VGACORE_ok v" "VGACORE_ok (v\<lparr>line_offset := d\<rparr>) = VGACORE_ok v"
  "VGACORE_ok (v\<lparr>vga_line_compare := d\<rparr>) = VGACORE_ok v" "VGACORE_ok (v\<lparr>vertical_display_end := d\<rparr>) = VGACORE_ok v"
  "VGACORE_ok (v\<lparr>y_doublescan := b\<rparr>) = VGACORE_ok v" "VGACORE_ok (v\<lparr>last_yres := w\<rparr>) = VGACORE_ok v"
  "VGACORE_ok (v\<lparr>tiles := t\<rparr>) = VGACORE_ok v" "VGACORE_ok (v\<lparr>last_xres := w\<rparr>) = VGACORE_ok v"
  "VGACORE_ok (v\<lparr>last_bpp := y\<rparr>) = VGACORE_ok v" "VGACORE_ok (v\<lparr>last_fw := y\<rparr>) = VGACORE_ok v"
  "VGACORE_ok (v\<lparr>last_fh := y\<rparr>) = VGACORE_ok v" "VGACORE_ok (v\<lparr>cs_counter := d\<rparr>) = VGACORE_ok v"
  "VGACORE_ok (v\<lparr>cs_visible := b\<rparr>) = VGACORE_ok v" "VGACORE_ok (compare_bit8 v) = VGACORE_ok v"
  by (simp_all add: VGACORE_ok_def upd_seq_def upd_pel_def compare_bit8_def)

lemma upd_crtc_ok [simp]: "(\<And>c. crtc_reg (f c) = crtc_reg c) \<Longrightarrow> VGACORE_ok (upd_crtc f v) = VGACORE_ok v"
  by (simp add: VGACORE_ok_def upd_crtc_def)

lemma set_creg_ok [simp]: "VGACORE_ok (set_creg i b v) = VGACORE_ok v"
  by (simp add: VGACORE_ok_def set_creg_def upd_crtc_def)

lemmas vga_upd_defs = upd_misc_def upd_crtc_def upd_actl_def upd_pel_def upd_gc_def upd_seq_def

section \<open>Tiles\<close>

lemma SET_TILE_ok [simp]: "VGACORE_ok (SET_TILE_UPDATED x y b v) = VGACORE_ok v"
  by (simp add: SET_TILE_UPDATED_def VGACORE_ok_def)

lemma fold_ok: "(\<And>x v. x \<in> set xs \<Longrightarrow> P v \<Longrightarrow> P (f x v)) \<Longrightarrow> P v \<Longrightarrow> P (fold f xs v)"
  by (induction xs arbitrary: v) auto

lemma redraw_ok: "VGACORE_ok v \<Longrightarrow> VGACORE_ok (vga_redraw_area x y w h v)"
  unfolding vga_redraw_area_def redraw_area_def Let_def
  by (auto intro!: fold_ok [of _ VGACORE_ok]) (simp_all add: VGACORE_ok_def)

section \<open>Retrace timing\<close>

lemma timing_freq:
  fixes clk :: DWORD and ht vt :: USHORT
  assumes "unat clk \<in> {25175000, 28322000, 12587500, 14161000}" and "5 \<le> unat ht" "unat ht \<le> 260" and "2 \<le> unat vt" "unat vt \<le> 1025"
    and "cw = 8 \<or> cw = 9"
  shows "ucast ht * cw \<noteq> 0" "clk div (ucast ht * cw) \<noteq> 0" "clk div (ucast ht * cw) div ucast vt \<noteq> 0"
proof -
  have u: "unat (ucast ht :: DWORD) = unat ht" "unat (ucast vt :: DWORD) = unat vt" by (simp_all add: unat_ucast_up)
  have cw: "unat cw \<le> 9" "8 \<le> unat cw" using assms(6) by auto
  have le: "unat ht * unat cw \<le> 2340" using mult_le_mono [OF assms(3) cw(1)] by simp
  have p: "unat (ucast ht * cw :: DWORD) = unat ht * unat cw" using le by (simp add: unat_word_ariths u)
  have ge: "40 \<le> unat ht * unat cw" using mult_le_mono [OF assms(2) cw(2)] by simp
  show "ucast ht * cw \<noteq> 0" using p ge by auto
  have f: "unat (clk div (ucast ht * cw)) = unat clk div (unat ht * unat cw)" by (simp add: unat_div_distrib p)
  have "12587500 \<le> unat clk" using assms(1) by auto
  then have "12587500 div 2340 \<le> unat clk div (unat ht * unat cw)" using div_le_mono2 [of _ 2340] le ge div_le_mono
    by (meson le_trans order_less_le_trans zero_less_numeral)
  then have big: "5379 \<le> unat (clk div (ucast ht * cw))" unfolding f by simp
  then show "clk div (ucast ht * cw) \<noteq> 0" by auto
  have "1 \<le> unat (clk div (ucast ht * cw)) div unat vt"
    using big assms(4,5) by (simp add: Suc_le_eq div_greater_zero_iff)
  then show "clk div (ucast ht * cw) div ucast vt \<noteq> 0" by (metis not_one_le_zero u(2) unat_0 unat_div_distrib)
qed


lemma and_le_mask: "unat (x AND y :: 'a::len word) \<le> unat y"
  by (metis and.commute word_and_le2 word_le_nat_alt)

lemma unat_push_le: "unat (push_bit n x :: 'a::len word) \<le> unat x * 2 ^ n"
  unfolding unsigned_push_bit_eq by (rule order_trans [OF take_bit_nat_less_eq_self]) (simp add: push_bit_nat_eq push_bit_eq_mult)

lemma push_and_le: "unat (push_bit n (x AND y) :: 'a::len word) \<le> unat y * 2 ^ n"
  by (meson and_le_mask le_trans mult_le_mono1 unat_push_le)

lemma unat_add_le: "unat (x + y :: 'a::len word) \<le> unat x + unat y"
  by (simp add: unat_word_ariths)

lemma unat_vtotal:
  fixes a b :: USHORT
  assumes "unat a \<le> 255"
  shows "unat (a + push_bit 8 (b AND 0x01) + push_bit 4 (b AND 0x20) + 2) =
         unat a + unat (push_bit 8 (b AND 0x01)) + unat (push_bit 4 (b AND 0x20)) + 2"
    and "unat (push_bit 8 (b AND 0x01)) \<le> 256" and "unat (push_bit 4 (b AND 0x20)) \<le> 512"
proof -
  show x: "unat (push_bit 8 (b AND 0x01)) \<le> 256" and y: "unat (push_bit 4 (b AND 0x20)) \<le> 512"
    using push_and_le [of 8 b 1] push_and_le [of 4 b "0x20"] by simp_all
  show "unat (a + push_bit 8 (b AND 0x01) + push_bit 4 (b AND 0x20) + 2) =
         unat a + unat (push_bit 8 (b AND 0x01)) + unat (push_bit 4 (b AND 0x20)) + 2"
    using assms x y by (simp add: unat_word_ariths)
qed

lemma vclk_values: "unat c < 4 \<Longrightarrow> [25175000, 28322000, 0, 0 :: DWORD] ! unat c \<in> {25175000, 28322000, 0}"
  by (auto simp: numeral_eq_Suc less_Suc_eq)

lemma get_crtc_params_range:
  assumes "VGACORE_ok v"
  obtains ht vt vr clk where "get_crtc_params v = Inr (ht, vt, vr, clk)" "5 \<le> unat ht" "unat ht \<le> 260" "2 \<le> unat vt" "unat vt \<le> 1025"
    "clk = 0 \<or> unat clk \<in> {25175000, 28322000, 12587500, 14161000}"
proof -
  define r where "r = (\<lambda>i. ucast (creg i v) :: USHORT)"
  have r: "unat (r i) \<le> 255" for i using unat_BYTE_less [of "creg i v"] by (simp add: r_def unat_ucast_up)
  let ?clk = "[25175000, 28322000, 0, 0 :: DWORD] ! unat (clock_select (misc_output v))"
  have c: "unat (clock_select (misc_output v)) < 4" "vclk v = [25175000, 28322000, 0, 0]" using assms by (simp_all add: VGACORE_ok_def)
  have clk: "?clk \<in> {25175000, 28322000, 0}" using c(1) by (rule vclk_values)
  have ht: "unat (r 0 + 5) = unat (r 0) + 5" using r [of 0] by (simp add: unat_word_ariths)
  show ?thesis
  proof (rule that)
    show "get_crtc_params v = Inr (r 0 + 5, r 6 + push_bit 8 (r 7 AND 0x01) + push_bit 4 (r 7 AND 0x20) + 2,
            r 16 + push_bit 6 (r 7 AND 0x04) + push_bit 2 (r 7 AND 0x80), if x_dotclockdiv2 v then drop_bit 1 ?clk else ?clk)"
      using c by (simp add: get_crtc_params_def r_def)
    show "(if x_dotclockdiv2 v then drop_bit 1 ?clk else ?clk) = 0 \<or>
          unat (if x_dotclockdiv2 v then drop_bit 1 ?clk else ?clk) \<in> {25175000, 28322000, 12587500, 14161000}"
      using clk by auto
  qed (use ht r [of 0] r [of 6] unat_vtotal [OF r [of 6], of "r 7"] in linarith)+
qed

lemma calculate_retrace_timing_ok: "VGACORE_ok v \<Longrightarrow> specE {} VGACORE_ok (calculate_retrace_timing v)"
proof -
  assume v: "VGACORE_ok v"
  from get_crtc_params_range [OF v] obtain ht vt vr clk where p: "get_crtc_params v = Inr (ht, vt, vr, clk)"
    and r: "5 \<le> unat ht" "unat ht \<le> 260" "2 \<le> unat vt" "unat vt \<le> 1025"
    and clk: "clk = 0 \<or> unat clk \<in> {25175000, 28322000, 12587500, 14161000}" .
  define cw where "cw = (if testw (reg1 (sequencer v)) 0x01 then 8 else 9 :: DWORD)"
  have cw: "cw = 8 \<or> cw = 9" by (simp add: cw_def)
  show ?thesis
  proof (cases "clk = 0")
    case True
    then show ?thesis using v by (simp add: calculate_retrace_timing_def p)
  next
    case False
    then have "unat clk \<in> {25175000, 28322000, 12587500, 14161000}" using clk by blast
    note f = timing_freq [OF this r cw]
    have "vt \<noteq> 0" using r(3) by auto
    then show ?thesis using v False f by (simp add: calculate_retrace_timing_def p flip: cw_def) (simp add: Let_def VGACORE_ok_def)
  qed
qed

section \<open>Register writes\<close>

abbreviation flags_ok :: "flags \<times> 'z vga_state_scheme \<Rightarrow> bool" where
  "flags_ok r \<equiv> vga_ok (snd r)"

lemma vga_okD: "vga_ok s \<Longrightarrow> VGACORE_ok (VgaCore s)" "vga_ok s \<Longrightarrow> fst (vga_charmap (Gui s)) = 0x2000"
  by (simp_all add: vga_ok_def)

lemma vga_set_ok: "vga_ok s \<Longrightarrow> (VGACORE_ok (VgaCore s) \<Longrightarrow> VGACORE_ok (f (VgaCore s))) \<Longrightarrow> specE {} flags_ok (vga_set n f s)"
  by (simp add: vga_set_def vga_ok_def)

lemma vga_retime_ok: "vga_ok s \<Longrightarrow> specE {} flags_ok (vga_retime n s)"
  unfolding vga_retime_def
  by (rule specE_bindI [OF calculate_retrace_timing_ok [OF vga_okD(1)]]) (simp_all add: vga_okD)

lemma unat_and_less: "unat y < n \<Longrightarrow> unat (x AND y :: 'a::len word) < n"
  using and_le_mask [of x y] by (rule le_less_trans)

lemma write_actl_ok: "vga_ok s \<Longrightarrow> specE {} flags_ok (write_actl val s)"
  unfolding write_actl_def write_actl_address_def write_actl_data_def
  by (rule specE_bindI [where P = flags_ok])
     (auto simp: Let_def vga_set_def vga_ok_def VGACORE_ok_def vga_upd_defs upd_gui_def upd_vga_def word_and_le1 split: prod.splits)

lemma write_misc_output_ok: "vga_ok s \<Longrightarrow> specE {} flags_ok (write_misc_output val s)"
  unfolding write_misc_output_def
  by (rule vga_retime_ok) (simp add: VGACORE_ok_def vga_ok_def unat_and_less)

lemma charmap_index: "unat (if m > 3 then (m AND 3) + 4 else m :: BYTE) < 8"
proof -
  have "unat (m AND 3) \<le> unat (3 :: BYTE)" by (rule and_le_mask)
  then have "unat ((m AND 3) + 4) < 8" using unat_add_le [of "m AND 3" 4] by simp
  then show ?thesis by (auto simp: word_less_nat_alt)
qed

lemma charmap_address_ok: "VGACORE_ok v \<Longrightarrow> a \<in> set charmap_offset \<Longrightarrow> VGACORE_ok (v\<lparr>charmap_address := a\<rparr>)"
  by (simp add: VGACORE_ok_def)

lemma write_sequencer_ok: "vga_ok s \<Longrightarrow> specE {} flags_ok (write_sequencer val s)"
proof -
  assume ok: "vga_ok s"
  have len: "length charmap_offset = 8" and z: "0 \<in> set charmap_offset" by (simp_all add: charmap_offset_def)
  have 1: "specE {} flags_ok (if b then vga_retime True (upd_vga (\<lambda>v. (upd_seq f v)\<lparr>x_dotclockdiv2 := c\<rparr>) s) else vga_set False id s)" for b f c
    using vga_okD [OF ok] by (simp add: vga_retime_ok vga_set_ok ok)
  have 3: "specE {} flags_ok (bindE (arr_get charmap_offset (unat (if m > 3 then (m AND 3) + 4 else m))) (\<lambda>off.
      Inr (Some (False, True), upd_vga (\<lambda>v. v\<lparr>charmap_address := off\<rparr>) (upd_vga (upd_seq f) s))))" for m :: BYTE and f
    using charmap_index [of m] by (simp del: if_split add: len vga_okD [OF ok] charmap_address_ok)
  show ?thesis
    unfolding write_sequencer_def Let_def
    apply (intro specE_if)
         apply (simp add: vga_okD [OF ok] charmap_address_ok z)
        apply (rule specE_bindI [OF 1], clarsimp simp: vga_okD)
       apply (rule vga_set_ok [OF ok], simp)
      apply (rule 3)
     apply (simp_all add: vga_set_ok ok vga_okD [OF ok])
    done
qed

lemma palette_charmap: "palette_change_common i rd gn bl g = (n, g') \<Longrightarrow> vga_charmap g' = vga_charmap g"
  using gui_charmap(4) [of i rd gn bl g] by simp

lemma write_pel_data_ok: "vga_ok s \<Longrightarrow> specE {} flags_ok (write_pel_data val s)"
  unfolding write_pel_data_def Let_def
  by (auto intro!: vga_set_ok simp: vga_okD split: prod.splits dest!: palette_charmap)

lemma write_graphics_ok: "vga_ok s \<Longrightarrow> specE {} flags_ok (write_graphics val s)"
  unfolding write_graphics_def Let_def
  by (intro specE_if; rule vga_set_ok; assumption?; simp add: VGACORE_ok_def upd_gc_def unat_and_less)

lemma crtc_effect_ok: "vga_ok s \<Longrightarrow> specE {} flags_ok (crtc_effect i val s)"
  unfolding crtc_effect_def Let_def
  by (intro specE_if; (rule vga_retime_ok | rule vga_set_ok)?; simp add: vga_okD)

lemma write_crtc_ok: "vga_ok s \<Longrightarrow> specE {} flags_ok (write_crtc val s)"
  unfolding write_crtc_def Let_def
  by (intro specE_if; (rule crtc_effect_ok | rule vga_set_ok)?; simp add: vga_okD)

lemma vga_write_reg_ok: "vga_ok s \<Longrightarrow> specE {} flags_ok (vga_write_reg addr val s)"
  unfolding vga_write_reg_def
  by (intro specE_if write_actl_ok write_misc_output_ok write_sequencer_ok write_pel_data_ok write_graphics_ok write_crtc_ok vga_set_ok;
      assumption?; simp add: VGACORE_ok_def vga_upd_defs)

lemma charmap_top: "VGACORE_ok v \<Longrightarrow> 0x20000 + unat (charmap_address v) + 0x2000 \<le> fst (vga_memory v)"
  by (auto simp: VGACORE_ok_def charmap_offset_def)

lemma vga_write_end_ok: "flags_ok r \<Longrightarrow> specE {} vga_ok (vga_write_end r)"
proof -
  assume ok: "flags_ok r"
  obtain fl s where r: "r = (fl, s)" by (cases r)
  then have s: "vga_ok s" using ok by simp
  have 1: "specE {} vga_ok (if c then bindE (set_text_charmap (vga_memory (VgaCore s)) (0x20000 + unat (charmap_address (VgaCore s))) (Gui s)) (\<lambda>g.
             Inr (upd_vga (\<lambda>v. v\<lparr>vga_mem_updated := True\<rparr>) (s\<lparr>Gui := g\<rparr>))) else Inr s)" for c
    using s charmap_top [OF vga_okD(1) [OF s]] by (auto simp: set_text_charmap_def vga_okD)
  show ?thesis
  proof (cases fl)
    case None
    then show ?thesis by (simp add: vga_write_end_def r s)
  next
    case (Some nc)
    then obtain n c where fl: "fl = Some (n, c)" by (cases nc) simp
    show ?thesis
      unfolding vga_write_end_def r fl prod.case option.case
      by (rule specE_bindI [OF 1]) (simp add: redraw_ok vga_okD)
  qed
qed

lemma vga_write1_ok: "vga_ok s \<Longrightarrow> specE {} vga_ok (vga_write1 addr val s)"
  unfolding vga_write1_def by (simp add: specE_bindI [OF vga_write_reg_ok vga_write_end_ok])

lemma VgaCorePortIoWriteHandler_ok: "vga_ok s \<Longrightarrow> specE {} vga_ok (VgaCorePortIoWriteHandler addr val len s)"
  unfolding VgaCorePortIoWriteHandler_def by (simp add: specE_bindI [OF vga_write1_ok vga_write1_ok] vga_write1_ok)

lemma vga_ext_write1_ok: "vga_ok s \<Longrightarrow> specE {} vga_ok (vga_ext_write1 addr val len s)"
  unfolding vga_ext_write1_def Let_def
  by (intro specE_if; (rule VgaCorePortIoWriteHandler_ok)?; simp add: vga_okD)

section \<open>Register reads\<close>

lemma vga_read1_ok: "vga_ok s \<Longrightarrow> specE {} (\<lambda>r. vga_ok (snd r)) (vga_read1 addr s)"
proof -
  assume ok: "vga_ok s"
  have c: "specE {} (\<lambda>_. True) (read_crtc (VgaCore s))"
    using vga_okD(1) [OF ok] by (auto simp: read_crtc_def VGACORE_ok_def Let_def)
  have p: "vga_ok (snd (read_pel_data s))"
    using vga_okD [OF ok] by (auto simp: read_pel_data_def ok Let_def split: prod.splits)
  have f: "VGACORE_ok (upd_actl (\<lambda>a. a\<lparr>flip_flop := False\<rparr>) (VgaCore s))"
    using vga_okD(1) [OF ok] by (simp add: VGACORE_ok_def upd_actl_def)
  show ?thesis
    unfolding vga_read1_def Let_def
    by (intro specE_if; (rule specE_bindI [OF c])?; simp add: ok p f vga_okD [OF ok])
qed


definition vga_demo :: vga_state where
  "vga_demo = vga_zero\<lparr>VgaCore := (num_tiles (vga_reset VGACORE_zero))\<lparr>vga_memory := (0x40000, \<lambda>_. 0)\<rparr>\<rparr>"

lemma Gui_vga_zero [simp]: "Gui vga_zero = GUI_zero"
  by (simp add: vga_zero_def gui_zero_def key_zero_defs key_state.defs gui_state.defs vga_state.defs)

lemma vga_demo_ok: "vga_ok vga_demo"
  by (simp add: vga_demo_def vga_ok_def VGACORE_ok_def num_tiles_def vga_reset_def VGACORE_zero_def charmap_offset_def GUI_zero_def)


end
