(* ===== verification/Vga_Planes.thy ===== *)
theory Vga_Planes
  imports Vga_Safe
begin

text \<open>
  The video memory: planar accesses stay inside it when the window is not the whole 128 KB, and the write modes agree with a
  bitwise reference of the graphics controller.
\<close>

section \<open>Bounds\<close>

lemma VGACORE_okD:
  assumes "VGACORE_ok v"
  shows "fst (vga_memory v) = 0x40000" and "plane_base i v = i * 65536" and "length (latch (graphics_ctrl v)) = 4"
    and "unat (read_map_select (graphics_ctrl v)) < 4" and "unat (memory_mapping (graphics_ctrl v)) < 4"
  using assms by (simp_all add: VGACORE_ok_def plane_base_def)

lemma mapping_cases:
  assumes "unat (m :: BYTE) < 4" and "m \<noteq> 0"
  shows "m = 1 \<or> m = 2 \<or> m = 3"
proof -
  have "unat m \<noteq> 0" using assms(2) by (simp add: unat_eq_0)
  then have "unat m = 1 \<or> unat m = 2 \<or> unat m = 3" using assms(1) by linarith
  then show ?thesis by (simp add: word_unat_eq_iff)
qed

lemma unat_sub_less: "(a :: DWORD) \<le> x \<Longrightarrow> x \<le> b \<Longrightarrow> unat (x - a) \<le> unat b - unat a"
  by (simp add: unat_sub word_le_nat_alt)

lemma write_offset_less:
  assumes "VGACORE_ok v" and "memory_mapping (graphics_ctrl v) \<noteq> 0" and "write_offset addr v = Some off"
  shows "unat off < 0x10000"
  using mapping_cases [OF VGACORE_okD(5) [OF assms(1)] assms(2)] assms(3)
    unat_sub_less [of "0xA0000" addr "0xAFFFF"] unat_sub_less [of "0xB0000" addr "0xB7FFF"] unat_sub_less [of "0xB8000" addr "0xBFFFF"]
  by (auto simp: write_offset_def Let_def not_less split: if_splits)

lemma read_offset_less:
  assumes "VGACORE_ok v" and "memory_mapping (graphics_ctrl v) \<noteq> 0" and "read_offset addr v = Some off"
  shows "unat off < 0x10000"
  using mapping_cases [OF VGACORE_okD(5) [OF assms(1)] assms(2)] assms(3)
    unat_and_less [of "0xFFFF :: DWORD" "0x10000" addr] unat_and_less [of "0x7FFF :: DWORD" "0x10000" addr]
  by (auto simp: read_offset_def Let_def split: if_splits)

lemma chained_less: "unat off < 0x10000 \<Longrightarrow> chained off < 0x40000"
proof -
  assume "unat off < 0x10000"
  moreover have "unat (off AND NOT 3) \<le> unat off" by (metis word_and_le2 word_le_nat_alt)
  moreover have "unat (off mod 4) < 4" by (simp add: unat_mod_distrib)
  ultimately show ?thesis unfolding chained_def by linarith
qed

lemma mem_get_in: "i < fst m \<Longrightarrow> mem_get m i = Inr (snd m i)"
  by (simp add: mem_get_def)

lemma set_vmem_in: "i < fst (vga_memory v) \<Longrightarrow> set_vmem i b v = Inr (v\<lparr>vga_memory := (fst (vga_memory v), (snd (vga_memory v))(i := b))\<rparr>)"
  by (simp add: set_vmem_def mem_set_def)

section \<open>Reads\<close>

text \<open>The byte of plane \<open>i\<close> at an offset.\<close>

definition plane_byte :: "VGACORE \<Rightarrow> nat \<Rightarrow> nat \<Rightarrow> BYTE" where
  "plane_byte v i off = snd (vga_memory v) (i * 65536 + off)"

lemma upt4: "[0 ..< 4] = [0, 1, 2, 3 :: nat]"
  by (simp add: upt_rec)

lemma load_latch_eq:
  assumes "VGACORE_ok v" and "unat off < 0x10000"
  shows "load_latch off v = Inr (upd_gc (\<lambda>g. g\<lparr>latch := map (\<lambda>i. plane_byte v i (unat off)) [0 ..< 4]\<rparr>) v)"
  using assms(2) VGACORE_okD(1,2) [OF assms(1)]
  by (simp add: load_latch_def mem_get_in plane_byte_def Let_def upt4)

lemma upd_latch_ok: "VGACORE_ok v \<Longrightarrow> length l = 4 \<Longrightarrow> VGACORE_ok (upd_gc (\<lambda>g. g\<lparr>latch := l\<rparr>) v)"
  by (simp add: VGACORE_ok_def upd_gc_def)

abbreviation mapped :: "VGACORE \<Rightarrow> bool" where
  "mapped v \<equiv> VGACORE_ok v \<and> memory_mapping (graphics_ctrl v) \<noteq> 0"

lemma vga_mem_read_ok:
  assumes "mapped v"
  shows "specE {} (\<lambda>r. mapped (snd r)) (vga_mem_read addr v)"
proof (cases "read_offset addr v")
  case None
  then show ?thesis using assms by (simp add: vga_mem_read_def)
next
  case (Some off)
  have less: "unat off < 0x10000" using assms Some by (blast intro: read_offset_less)
  note d = VGACORE_okD [of v] load_latch_eq [of v off] upd_latch_ok [of v]
  have l: "specE {} (\<lambda>v'. mapped v' \<and> unat (read_map_select (graphics_ctrl v')) < 4 \<and> length (latch (graphics_ctrl v')) = 4) (load_latch off v)"
    using assms less d by (simp add: upd_gc_def)
  have 0: "specE {} (\<lambda>r. mapped (snd r)) (bindE (load_latch off v) (\<lambda>v.
      bindE (arr_get (latch (graphics_ctrl v)) (unat (read_map_select (graphics_ctrl v)))) (\<lambda>b. Inr (b, v))))"
    by (rule specE_bindI [OF l]) simp
  have 1: "specE {} (\<lambda>r. mapped (snd r)) (bindE (load_latch off v) (\<lambda>v. Inr (colour_compare (graphics_ctrl v), v)))"
    by (rule specE_bindI [OF l]) simp
  show ?thesis
    using assms less chained_less [OF less] 0 1 by (simp add: vga_mem_read_def Some mem_get_in d)
qed

lemma vga_read_bytes_ok: "mapped v \<Longrightarrow> specE {} (\<lambda>r. mapped (snd r)) (vga_read_bytes addr n v)"
proof (induction n arbitrary: addr v)
  case 0
  then show ?case by simp
next
  case (Suc n)
  have "specE {} (\<lambda>r. mapped (snd r)) (bindE (vga_read_bytes a n v') (\<lambda>(bs, v). Inr (b # bs, v)))" if "mapped v'" for a v' and b :: BYTE
    by (rule specE_bindI [OF Suc.IH [OF that]]) clarsimp
  then show ?case unfolding vga_read_bytes.simps by (intro specE_bindI [OF vga_mem_read_ok [OF Suc.prems]]) (auto split: prod.split)
qed

section \<open>Writes\<close>

lemma vga_memory_ok: "VGACORE_ok v \<Longrightarrow> VGACORE_ok (v\<lparr>vga_memory := (0x40000, f)\<rparr>)"
  by (simp add: VGACORE_ok_def)

lemma charbyte_ok:
  assumes "fst (vga_charmap g) = 0x2000"
  shows "\<exists>g'. set_text_charbyte (ucast (off AND 0x1fff :: DWORD)) b g = Inr g' \<and> fst (vga_charmap g') = 0x2000"
proof -
  have "unat (off AND 0x1fff) < 0x2000" by (rule unat_and_less) simp
  then have "unat (ucast (off AND 0x1fff) :: USHORT) < 0x2000" by (simp add: unat_ucast_mod)
  then show ?thesis using assms by (simp add: set_text_charbyte_def mem_set_def)
qed

lemma write_plane_eq:
  assumes ok: "vga_ok s" and i: "i < 4" and off: "unat off < 0x10000"
  shows "\<exists>g. write_plane off val i s = Inr (s\<lparr>Gui := g, VgaCore := (VgaCore s)\<lparr>vga_memory := (0x40000,
           if bit (map_mask (sequencer (VgaCore s))) i
           then (snd (vga_memory (VgaCore s)))(i * 65536 + unat off := new_val i val (graphics_ctrl (VgaCore s)))
           else snd (vga_memory (VgaCore s)))\<rparr>\<rparr>) \<and> fst (vga_charmap g) = 0x2000"
proof -
  define v where "v = VgaCore s"
  note d = VGACORE_okD [OF vga_okD(1) [OF ok], folded v_def]
  have idx: "i * 65536 + unat off < 0x40000" using i off by linarith
  obtain g where g: "set_text_charbyte (ucast (off AND 0x1fff :: DWORD)) (new_val i val (graphics_ctrl v)) (Gui s) = Inr g"
    "fst (vga_charmap g) = 0x2000" using charbyte_ok [OF vga_okD(2) [OF ok]] by blast
  have mem: "v\<lparr>vga_memory := (0x40000, snd (vga_memory v))\<rparr> = v" using d(1) by (cases v) (simp add: prod_eq_iff)
  have sv: "set_vmem (i * 65536 + unat off) b v = Inr (v\<lparr>vga_memory := (0x40000, (snd (vga_memory v))(i * 65536 + unat off := b))\<rparr>)" for b
    using set_vmem_in [of _ v] idx d(1) by simp
  show ?thesis
  proof (cases "bit (map_mask (sequencer v)) i")
    case False
    then have "write_plane off val i s = Inr s" by (simp add: write_plane_def v_def)
    then show ?thesis using False mem vga_okD(2) [OF ok] by (intro exI [of _ "Gui s"]) (simp add: v_def)
  next
    case True
    define c where "c \<longleftrightarrow> i = 2 \<and> off AND 0xe000 = ucast (charmap_address v)"
    have w: "write_plane off val i s = bindE (if c then Inr (s\<lparr>Gui := g\<rparr>) else Inr s) (\<lambda>s.
        bindE (set_vmem (i * 65536 + unat off) (new_val i val (graphics_ctrl v)) (VgaCore s)) (\<lambda>v. Inr (s\<lparr>VgaCore := v\<rparr>)))"
      using True unfolding write_plane_def Let_def v_def [symmetric] d(2) g(1) c_def [symmetric] by simp
    have fr: "VgaCore (s\<lparr>Gui := g\<rparr>) = VgaCore s" and same: "s\<lparr>Gui := Gui s, VgaCore := v'\<rparr> = s\<lparr>VgaCore := v'\<rparr>" for v' by simp_all
    show ?thesis
    proof (cases c)
      case char: True
      show ?thesis by (rule exI [of _ g]) (simp only: w char True sv g(2) fr if_True bindE_simps simp_thms flip: v_def)
    next
      case char: False
      show ?thesis
        by (rule exI [of _ "Gui s"])
           (simp only: w char True sv vga_okD(2) [OF ok] if_True if_False bindE_simps same simp_thms flip: v_def)
    qed
  qed
qed

text \<open>The memory after a write to the planes that the mask selects, among the planes \<open>is\<close>.\<close>

definition planes_written :: "nat list \<Rightarrow> nat \<Rightarrow> DWORD \<Rightarrow> VGACORE \<Rightarrow> nat \<Rightarrow> BYTE" where
  "planes_written is off val v j =
     (if j div 65536 \<in> set is \<and> j mod 65536 = off \<and> bit (map_mask (sequencer v)) (j div 65536)
      then new_val (j div 65536) val (graphics_ctrl v) else snd (vga_memory v) j)"

lemma write_planes_eq:
  assumes "vga_ok s" and "unat off < 0x10000" and "set is \<subseteq> {..< 4}" and "distinct is"
  shows "\<exists>g. foldE (write_plane off val) is s =
           Inr (s\<lparr>Gui := g, VgaCore := (VgaCore s)\<lparr>vga_memory := (0x40000, planes_written is (unat off) val (VgaCore s))\<rparr>\<rparr>) \<and>
           fst (vga_charmap g) = 0x2000"
  using assms(1,3,4)
proof (induction "is" arbitrary: s)
  case Nil
  have "planes_written [] (unat off) val (VgaCore s) = snd (vga_memory (VgaCore s))" by (rule ext) (simp add: planes_written_def)
  moreover have "(VgaCore s)\<lparr>vga_memory := (0x40000, snd (vga_memory (VgaCore s)))\<rparr> = VgaCore s"
    using VGACORE_okD(1) [OF vga_okD(1) [OF Nil.prems(1)]] by (cases "VgaCore s") (simp add: prod_eq_iff)
  ultimately have "foldE (write_plane off val) [] s =
      Inr (s\<lparr>Gui := Gui s, VgaCore := (VgaCore s)\<lparr>vga_memory := (0x40000, planes_written [] (unat off) val (VgaCore s))\<rparr>\<rparr>)" by simp
  then show ?case using vga_okD(2) [OF Nil.prems(1)] by blast
next
  case (Cons i "is")
  define v where "v = VgaCore s"
  define m where "m = (if bit (map_mask (sequencer v)) i then (snd (vga_memory v))(i * 65536 + unat off := new_val i val (graphics_ctrl v))
                       else snd (vga_memory v))"
  have i: "i < 4" using Cons.prems(2) by simp
  obtain g where w: "write_plane off val i s = Inr (s\<lparr>Gui := g, VgaCore := v\<lparr>vga_memory := (0x40000, m)\<rparr>\<rparr>)"
    and g: "fst (vga_charmap g) = 0x2000"
    using write_plane_eq [OF Cons.prems(1) i assms(2), of val] unfolding v_def m_def by blast
  let ?s = "s\<lparr>Gui := g, VgaCore := v\<lparr>vga_memory := (0x40000, m)\<rparr>\<rparr>"
  have ok: "vga_ok ?s" using vga_memory_ok [OF vga_okD(1) [OF Cons.prems(1)]] g by (simp add: v_def)
  obtain g' where r: "foldE (write_plane off val) is ?s = Inr (?s\<lparr>Gui := g', VgaCore := (VgaCore ?s)\<lparr>vga_memory :=
      (0x40000, planes_written is (unat off) val (VgaCore ?s))\<rparr>\<rparr>)" "fst (vga_charmap g') = 0x2000"
    using Cons.IH [OF ok] Cons.prems(2,3) by auto
  have "planes_written is (unat off) val (VgaCore ?s) = planes_written (i # is) (unat off) val v"
  proof (rule ext)
    fix j
    have "j = i * 65536 + unat off \<longleftrightarrow> j div 65536 = i \<and> j mod 65536 = unat off"
      using assms(2) div_mult_mod_eq [of j 65536] by (metis add.commute add.right_neutral div_less div_mult_self3 mod_less mod_mult_self3 zero_neq_numeral)
    then show "planes_written is (unat off) val (VgaCore ?s) j = planes_written (i # is) (unat off) val v j"
      using Cons.prems(3) by (auto simp: planes_written_def m_def)
  qed
  then have "foldE (write_plane off val) (i # is) s =
      Inr (s\<lparr>Gui := g', VgaCore := v\<lparr>vga_memory := (0x40000, planes_written (i # is) (unat off) val v)\<rparr>\<rparr>)"
    using r(1) by (simp add: w)
  then show ?case using r(2) unfolding v_def by blast
qed

definition tiles_only :: "VGACORE \<Rightarrow> VGACORE \<Rightarrow> bool" where
  "tiles_only v v' \<longleftrightarrow> v'\<lparr>tiles := tiles v\<rparr> = v"

lemma tiles_only_refl: "tiles_only v v"
  by (simp add: tiles_only_def)

lemma tiles_only_set: "tiles_only v v' \<Longrightarrow> tiles_only v (SET_TILE_UPDATED x y b v')"
  by (auto simp: tiles_only_def SET_TILE_UPDATED_def)

lemma tiles_only_if: "tiles_only v v' \<Longrightarrow> tiles_only v v'' \<Longrightarrow> tiles_only v (if b then v' else v'')"
  by simp

lemma mark_planar_tiles:
  assumes "shift_reg (graphics_ctrl v) = 2 \<longrightarrow> line_offset v \<noteq> 0"
  shows "specE {} (tiles_only v) (mark_planar off v)"
  using assms unfolding mark_planar_def Let_def
  by (intro specE_if) (auto intro!: tiles_only_if tiles_only_set tiles_only_refl)

lemma tiles_onlyE:
  assumes "tiles_only v v'" obtains t where "v = v'\<lparr>tiles := t\<rparr>"
  using assms by (metis tiles_only_def)

lemma planar_write_eq:
  assumes ok: "vga_ok s" and off: "unat off < 0x10000" and m: "testw (map_mask (sequencer (VgaCore s))) 0x0f"
    and z: "shift_reg (graphics_ctrl (VgaCore s)) = 2 \<longrightarrow> line_offset (VgaCore s) \<noteq> 0"
  obtains s' t where "planar_write off val s = Inr s'" "vga_ok s'"
    "(VgaCore s')\<lparr>tiles := t\<rparr> =
       (VgaCore s)\<lparr>vga_mem_updated := True, vga_memory := (0x40000, planes_written [0 ..< 4] (unat off) val (VgaCore s))\<rparr>"
proof -
  let ?s = "upd_vga (\<lambda>v. v\<lparr>vga_mem_updated := True\<rparr>) s"
  have ok': "vga_ok ?s" using vga_okD [OF ok] by simp
  have 4: "set [0 ..< 4] \<subseteq> {..< 4 :: nat}" "distinct [0 ..< 4 :: nat]" by auto
  obtain g where w: "foldE (write_plane off val) [0 ..< 4] ?s =
      Inr (?s\<lparr>Gui := g, VgaCore := (VgaCore ?s)\<lparr>vga_memory := (0x40000, planes_written [0 ..< 4] (unat off) val (VgaCore ?s))\<rparr>\<rparr>)"
    and g: "fst (vga_charmap g) = 0x2000"
    using write_planes_eq [OF ok' off 4, of val] by blast
  define v where "v = (VgaCore s)\<lparr>vga_mem_updated := True, vga_memory := (0x40000, planes_written [0 ..< 4] (unat off) val (VgaCore s))\<rparr>"
  have pw: "planes_written [0 ..< 4] (unat off) val (VgaCore ?s) = planes_written [0 ..< 4] (unat off) val (VgaCore s)"
    by (rule ext) (simp add: planes_written_def)
  have "specE {} (tiles_only v) (mark_planar off v)" by (rule mark_planar_tiles) (simp add: v_def z)
  then obtain v' where mp: "mark_planar off v = Inr v'" and t: "tiles_only v v'" by (auto simp: specE_total)
  obtain t where v: "v = v'\<lparr>tiles := t\<rparr>" using t by (rule tiles_onlyE)
  have "VGACORE_ok v" using vga_memory_ok [of "(VgaCore s)\<lparr>vga_mem_updated := True\<rparr>"] vga_okD(1) [OF ok] by (simp add: v_def)
  then have okv: "VGACORE_ok v'" unfolding v by simp
  have "foldE (write_plane off val) [0 ..< 4] ?s = Inr (s\<lparr>Gui := g, VgaCore := v\<rparr>)"
    unfolding w pw v_def by (simp add: upd_vga_def)
  then have "planar_write off val s = Inr (s\<lparr>Gui := g, VgaCore := v'\<rparr>)"
    using m mp unfolding planar_write_def by simp
  moreover have "vga_ok (s\<lparr>Gui := g, VgaCore := v'\<rparr>)" using okv g by simp
  moreover have "(VgaCore (s\<lparr>Gui := g, VgaCore := v'\<rparr>))\<lparr>tiles := t\<rparr> =
      (VgaCore s)\<lparr>vga_mem_updated := True, vga_memory := (0x40000, planes_written [0 ..< 4] (unat off) val (VgaCore s))\<rparr>"
    using v unfolding v_def by simp
  ultimately show ?thesis by (rule that)
qed

section \<open>The graphics controller, bit by bit\<close>

text \<open>
  The function unit works on every bit of every plane alone: the source bit (the data after rotation, the set/reset value
  or the bit of the data that belongs to the plane) is combined with the latched bit where the bit mask is set.
\<close>

definition alu :: "BYTE \<Rightarrow> bool \<Rightarrow> bool \<Rightarrow> bool" where
  "alu op src la = (if op = 0 then src else if op = 1 then src \<and> la else if op = 2 then src \<or> la else src \<noteq> la)"

definition vga_ref_bit :: "GRAPHICS_CTRL \<Rightarrow> BYTE \<Rightarrow> nat \<Rightarrow> nat \<Rightarrow> bool" where
  "vga_ref_bit g b i k =
     (let la = bit (latch g ! i) k; sr = bit (set_reset g) i; rot = bit b ((k + unat (data_rotate g)) mod 8);
          on = bit (bitmask g) k; f = (\<lambda>on src. if on then alu (raster_op g) src la else la)
      in if write_mode g = 0 then f on (if bit (enable_set_reset g) i then sr else rot)
         else if write_mode g = 1 then la
         else if write_mode g = 2 then f on (bit b i)
         else f (on \<and> rot) sr)"

lemma rotate_bit:
  fixes b n :: BYTE
  assumes "k < 8" and "unat n < 8"
  shows "bit (ucast (rotate_data n (ucast b)) :: BYTE) k = bit b ((k + unat n) mod 8)"
proof (cases "n = 0")
  case True
  then show ?thesis using assms(1) by (simp add: rotate_data_def bit_simps)
next
  case False
  define m where "m = unat n"
  have m: "m < 8" "0 < m" using assms(2) False by (simp_all add: m_def unat_gt_0)
  have b: "bit (ucast b :: DWORD) j = bit b j" for j by (auto simp: bit_simps dest: bit_imp_le_length)
  have r: "bit (ucast (rotate_data n (ucast b)) :: BYTE) k \<longleftrightarrow> bit b (m + k) \<or> (8 - m \<le> k \<and> bit b (k - (8 - m)))"
    using assms(1) m False less_imp_diff_less [of "k + m" 32 8] by (simp add: rotate_data_def bit_ucast_iff bit_or_iff bit_drop_bit_eq bit_push_bit_iff b flip: m_def)
  show ?thesis
  proof (cases "k + m < 8")
    case True
    then have "\<not> 8 - m \<le> k" using m by linarith
    then show ?thesis using r True by (simp add: add.commute flip: m_def)
  next
    case c: False
    then have "\<not> bit b (m + k)" and "8 - m \<le> k" using m by (auto dest: bit_imp_le_length)
    moreover have "(k + m) mod 8 = k - (8 - m)" using c assms(1) m by (simp add: mod_if)
    ultimately show ?thesis using r c by (simp flip: m_def)
  qed
qed

lemma raster_bit:
  "k < 8 \<Longrightarrow> unat op < 4 \<Longrightarrow> bit (raster op d la) k = alu op (bit d k) (bit la k)"
proof -
  assume "k < 8" "unat op < 4"
  moreover have "op = 0 \<or> op = 1 \<or> op = 2 \<or> op = 3" using mapping_cases [OF \<open>unat op < 4\<close>] by blast
  ultimately show ?thesis by (auto simp: raster_def alu_def bit_simps)
qed

lemma mode0_set_bit:
  "k < 8 \<Longrightarrow> unat op < 4 \<Longrightarrow> bit (mode0_set op on la bm) k \<longleftrightarrow> bit bm k \<and> alu op on (bit la k)"
proof -
  assume "k < 8" "unat op < 4"
  moreover have "op = 0 \<or> op = 1 \<or> op = 2 \<or> op = 3" using mapping_cases [OF \<open>unat op < 4\<close>] by blast
  ultimately show ?thesis by (auto simp: mode0_set_def alu_def bit_simps)
qed

lemma new_val_bit:
  assumes "k < 8" and "unat (raster_op g) < 4" and "unat (data_rotate g) < 8" and "unat (write_mode g) < 4"
    and "write_mode g = 3 \<longrightarrow> data_rotate g = 0"
  shows "bit (new_val i (ucast b) g) k = vga_ref_bit g b i k"
proof -
  note r = raster_bit [OF assms(1,2)] mode0_set_bit [OF assms(1,2)] rotate_bit [OF assms(1,3)]
  have db: "bit (ucast b :: DWORD) j = bit b j" for j by (auto simp: bit_simps dest: bit_imp_le_length)
  consider "write_mode g = 0" | "write_mode g = 1" | "write_mode g = 2" | "write_mode g = 3"
    using mapping_cases [OF assms(4)] by blast
  then show ?thesis
  proof cases
    case 1
    then show ?thesis using assms(1) by (auto simp: new_val_def write_mode0_def vga_ref_bit_def Let_def bit_or_iff bit_and_iff bit_not_iff r)
  next
    case 2
    then show ?thesis by (simp add: new_val_def vga_ref_bit_def Let_def)
  next
    case 3
    then show ?thesis using assms(1) by (auto simp: new_val_def write_mode2_def vga_ref_bit_def Let_def bit_or_iff bit_and_iff bit_not_iff r db)
  next
    case 4
    have "raster_op g = 0 \<or> raster_op g = 1 \<or> raster_op g = 2 \<or> raster_op g = 3" using mapping_cases [OF assms(2)] by blast
    moreover have "data_rotate g = 0" using 4 assms(5) by simp
    ultimately show ?thesis using 4 assms(1)
      by (auto simp: new_val_def write_mode3_def vga_ref_bit_def Let_def bit_simps raster_def alu_def rotate_data_def)
  qed
qed

lemma low_nibble:
  assumes "\<not> testw (m :: BYTE) 0x0f" and "i < 4"
  shows "\<not> bit m i"
proof -
  have "\<not> bit (m AND 0x0f) i" using assms(1) by (simp add: testw_def)
  moreover have "i = 0 \<or> i = 1 \<or> i = 2 \<or> i = 3" using assms(2) by linarith
  ultimately show ?thesis by (auto simp: bit_and_iff)
qed

lemma mmio_write_byte: "VgaCoreMMIOWriteHandler addr [b] 1 s = vga_mem_write addr (ucast b) s"
  by (cases "vga_mem_write addr (ucast b) s") (simp_all add: VgaCoreMMIOWriteHandler_def)

text \<open>C4. A write of the guest to the planes of the video memory gives every bit of every plane the value of the reference:
  the source bit is combined with the latched bit where the bit mask is set, in the planes of the map mask, at the one
  offset; every other byte of the memory keeps its value. For write mode 3 the rotation has to be 0.\<close>

theorem planar_write_reference:
  assumes "vga_ok s" and "memory_mapping (graphics_ctrl (VgaCore s)) \<noteq> 0" and "write_offset addr (VgaCore s) = Some off"
    and "\<not> graphics_alpha (graphics_ctrl (VgaCore s)) \<or>
         memory_mapping (graphics_ctrl (VgaCore s)) \<noteq> 3 \<and> \<not> chain_four (sequencer (VgaCore s))"
    and "shift_reg (graphics_ctrl (VgaCore s)) = 2 \<longrightarrow> line_offset (VgaCore s) \<noteq> 0"
    and "write_mode (graphics_ctrl (VgaCore s)) = 3 \<longrightarrow> data_rotate (graphics_ctrl (VgaCore s)) = 0"
  shows "\<exists>s'. VgaCoreMMIOWriteHandler addr [b] 1 s = Inr s' \<and> vga_ok s' \<and>
     (\<forall>i < 4. \<forall>k < 8. bit (plane_byte (VgaCore s') i (unat off)) k =
        (if bit (map_mask (sequencer (VgaCore s))) i then vga_ref_bit (graphics_ctrl (VgaCore s)) b i k
         else bit (plane_byte (VgaCore s) i (unat off)) k)) \<and>
     (\<forall>j. j mod 0x10000 \<noteq> unat off \<longrightarrow> snd (vga_memory (VgaCore s')) j = snd (vga_memory (VgaCore s)) j)"
proof -
  define v where "v = VgaCore s"
  have ok: "VGACORE_ok v" using vga_okD(1) [OF assms(1)] by (simp add: v_def)
  have off: "unat off < 0x10000" using ok assms(2,3) by (auto simp: v_def intro: write_offset_less)
  have w: "VgaCoreMMIOWriteHandler addr [b] 1 s = planar_write off (ucast b) s"
    using assms(3,4) unfolding mmio_write_byte by (auto simp: vga_mem_write_def)
  have bits: "bit (new_val i (ucast b) (graphics_ctrl v)) k = vga_ref_bit (graphics_ctrl v) b i k" if "k < 8" for i k
    using ok assms(6) that by (intro new_val_bit) (simp_all add: VGACORE_ok_def v_def)
  show ?thesis
  proof (cases "testw (map_mask (sequencer v)) 0x0f")
    case True
    then obtain s' t where s': "planar_write off (ucast b) s = Inr s'" "vga_ok s'"
      and t: "(VgaCore s')\<lparr>tiles := t\<rparr> = v\<lparr>vga_mem_updated := True, vga_memory := (0x40000, planes_written [0 ..< 4] (unat off) (ucast b) v)\<rparr>"
      using planar_write_eq [OF assms(1) off, of "ucast b"] assms(5) unfolding v_def by blast
    have mem: "snd (vga_memory (VgaCore s')) = planes_written [0 ..< 4] (unat off) (ucast b) v"
      using arg_cong [OF t, of "\<lambda>v. snd (vga_memory v)"] by simp
    show ?thesis using off bits
      by (intro exI [of _ s']) (auto simp: w s' mem plane_byte_def planes_written_def simp flip: v_def)
  next
    case False
    then show ?thesis using low_nibble [OF False] assms(1) by (intro exI [of _ s]) (simp add: w planar_write_def flip: v_def)
  qed
qed

text \<open>The adapter after a reset with two planes enabled, the data rotated by one and four latched bits kept.\<close>

definition planar_demo :: vga_state where
  "planar_demo = upd_vga (\<lambda>v. v\<lparr>sequencer := (sequencer v)\<lparr>map_mask := 5\<rparr>,
     graphics_ctrl := (graphics_ctrl v)\<lparr>bitmask := 0x0f, data_rotate := 1, latch := [0xff, 0, 0x80, 0]\<rparr>\<rparr>) vga_demo"

lemma planar_demo_ok: "vga_ok planar_demo"
  using vga_okD [OF vga_demo_ok] by (simp add: planar_demo_def VGACORE_ok_def)

lemma planar_demo_fields:
  "memory_mapping (graphics_ctrl (VgaCore planar_demo)) = 2" "graphics_alpha (graphics_ctrl (VgaCore planar_demo)) = False"
  "shift_reg (graphics_ctrl (VgaCore planar_demo)) = 0" "write_mode (graphics_ctrl (VgaCore planar_demo)) = 0"
  "map_mask (sequencer (VgaCore planar_demo)) = 5" "plane_byte (VgaCore planar_demo) i n = 0"
  by (simp_all add: planar_demo_def vga_demo_def num_tiles_def vga_reset_def VGACORE_zero_def plane_byte_def)

lemma planar_demo_offset: "write_offset 0xb0010 (VgaCore planar_demo) = Some 0x10"
  using planar_demo_fields by (simp add: write_offset_def)

theorem planar_write_reference_witness:
  "\<exists>s'. VgaCoreMMIOWriteHandler 0xb0010 [0x03] 1 planar_demo = Inr s' \<and>
     bit (plane_byte (VgaCore s') 0 0x10) 0 \<and> bit (plane_byte (VgaCore s') 0 0x10) 7 \<and> \<not> bit (plane_byte (VgaCore s') 0 0x10) 3 \<and>
     \<not> bit (plane_byte (VgaCore s') 1 0x10) 0"
proof -
  let ?g = "graphics_ctrl (VgaCore planar_demo)"
  have r: "vga_ref_bit ?g 0x03 0 0" "vga_ref_bit ?g 0x03 0 7" "\<not> vga_ref_bit ?g 0x03 0 3"
    by (simp_all add: vga_ref_bit_def alu_def planar_demo_def vga_demo_def num_tiles_def vga_reset_def VGACORE_zero_def bit_numeral_rec)
  obtain s' where w: "VgaCoreMMIOWriteHandler 0xb0010 [0x03] 1 planar_demo = Inr s'"
    and b: "\<And>i k. i < 4 \<Longrightarrow> k < 8 \<Longrightarrow> bit (plane_byte (VgaCore s') i (unat (0x10 :: DWORD))) k =
        (if bit (map_mask (sequencer (VgaCore planar_demo))) i then vga_ref_bit ?g 0x03 i k
         else bit (plane_byte (VgaCore planar_demo) i (unat (0x10 :: DWORD))) k)"
    using planar_write_reference [OF planar_demo_ok _ planar_demo_offset, of "0x03"] planar_demo_fields by auto
  then show ?thesis using r b [of 0 0] b [of 0 7] b [of 0 3] b [of 1 0] planar_demo_fields
    by (intro exI [of _ s']) (simp add: bit_numeral_rec)
qed

end
