(* ===== verification/Dbg_Server.thy ===== *)
theory Dbg_Server
  imports Vga_Planes
begin

text \<open>
  The debugger's server of \<open>SvmmDbgServer.c\<close>: packets with a header of 18 bytes over one connection, numbered by a counter that
  both sides advance with every packet, and the loop that serves the requests of the debugger until the guest is to go on.
\<close>

section \<open>The connection\<close>

text \<open>
  \<open>dbg_inbox\<close> is what the calls of \<open>recv\<close> find: errors, and bytes of the stream; an empty answer is the end of the connection.
  \<open>dbg_sent\<close> are the packets handed to \<open>send\<close>.
\<close>

datatype recv_result = RecvError | Recv "BYTE list"

datatype select_result = SelectError | SelectNone | SelectReady

record dbg_state = vga_state +
  SvmmPacketId :: ULONG
  dbg_inbox :: "recv_result list"
  dbg_sent :: "BYTE list list"

text \<open>
  What the server does not compute: whether the sockets can be set up, the answers of \<open>select\<close> and \<open>send\<close>, the layout of
  \<open>struct Registers\<close> in memory, and the model specific registers that the driver reports.
\<close>

record dbg_host =
  dbg_listen :: bool
  dbg_select :: "recv_result list \<Rightarrow> select_result"
  dbg_full :: "BYTE list \<Rightarrow> bool"
  regs_bytes :: "Registers \<Rightarrow> BYTE list"
  regs_load :: "BYTE list \<Rightarrow> Registers"
  msrs_reply :: "env_req list \<Rightarrow> BYTE list \<Rightarrow> BYTE list"

definition dbg_recv :: "nat \<Rightarrow> 'z dbg_state_scheme \<Rightarrow> recv_result \<times> 'z dbg_state_scheme" where
  "dbg_recv n s =
     (case dbg_inbox s of
        [] \<Rightarrow> (Recv [], s)
      | RecvError # rs \<Rightarrow> (RecvError, s\<lparr>dbg_inbox := rs\<rparr>)
      | Recv bs # rs \<Rightarrow> (Recv (take n bs), s\<lparr>dbg_inbox := (if length bs \<le> n then rs else Recv (drop n bs) # rs)\<rparr>))"

section \<open>Packets\<close>

definition DBG_MAGIC :: ULONG where "DBG_MAGIC = 0x11223344"
definition DBG_MAX_PACKET_DATA_SIZE :: nat where "DBG_MAX_PACKET_DATA_SIZE = 2048"

text \<open>The size of the header, and of the server's buffer behind it.\<close>

definition DBG_HEADER_SIZE :: nat where "DBG_HEADER_SIZE = 18"
definition DBG_BUFFER_DATA :: nat where "DBG_BUFFER_DATA = 4096 - 18"

record DBG_PACKET_HEADER =
  Magic :: ULONG
  PktType :: USHORT
  PktId :: ULONG
  Checksum :: ULONG
  PktSize :: ULONG

definition le_word :: "nat \<Rightarrow> nat \<Rightarrow> BYTE list \<Rightarrow> 'a::len word" where
  "le_word off n bs = be_word (rev (take n (drop off bs)))"

definition header_of :: "BYTE list \<Rightarrow> DBG_PACKET_HEADER" where
  "header_of bs = \<lparr>Magic = le_word 0 4 bs, PktType = le_word 4 2 bs, PktId = le_word 6 4 bs, Checksum = le_word 10 4 bs,
     PktSize = le_word 14 4 bs\<rparr>"

definition header_bytes :: "DBG_PACKET_HEADER \<Rightarrow> BYTE list" where
  "header_bytes h = le_bytes 4 (Magic h) @ le_bytes 2 (PktType h) @ le_bytes 4 (PktId h) @ le_bytes 4 (Checksum h) @ le_bytes 4 (PktSize h)"

definition ComputeChecksum :: "BYTE list \<Rightarrow> nat \<Rightarrow> ULONG res" where
  "ComputeChecksum bs n =
     (if n \<le> length bs then Inr (fold (\<lambda>b sum. sum + ucast b) (take n bs) 0) else Inl OutOfBounds)"

text \<open>The header of the next packet, as all three readers take it: any failure ends the process.\<close>

definition recv_header :: "'z dbg_state_scheme \<Rightarrow> (DBG_PACKET_HEADER \<times> 'z dbg_state_scheme) res" where
  "recv_header s =
     (case dbg_recv DBG_HEADER_SIZE s of
        (RecvError, s) \<Rightarrow> Inl Exit
      | (Recv bs, s) \<Rightarrow>
          if bs = [] then Inl Exit
          else if length bs \<noteq> DBG_HEADER_SIZE then Inl Exit
          else let h = header_of bs
               in if Magic h \<noteq> DBG_MAGIC then Inl Exit
                  else let s = s\<lparr>SvmmPacketId := SvmmPacketId s + 1\<rparr>
                       in if SvmmPacketId s \<noteq> PktId h then Inl Exit else Inr (h, s))"

definition SvmmDbgRecvAck :: "'z dbg_state_scheme \<Rightarrow> 'z dbg_state_scheme res" where
  "SvmmDbgRecvAck s = bindE (recv_header s) (\<lambda>(h, s). Inr s)"

text \<open>Bytes received into an array of zeros; an error leaves the array as it is and counts as -1.\<close>

definition recv_into :: "nat \<Rightarrow> nat \<Rightarrow> 'z dbg_state_scheme \<Rightarrow> (int \<times> BYTE list \<times> 'z dbg_state_scheme) res" where
  "recv_into cap n s =
     (case dbg_recv n s of
        (RecvError, s) \<Rightarrow> Inr (- 1, replicate cap 0, s)
      | (Recv bs, s) \<Rightarrow>
          if length bs \<le> cap then Inr (int (length bs), bs @ replicate (cap - length bs) 0, s) else Inl OutOfBounds)"

text \<open>\<open>dest\<close> is the pointer the data go to, or the null pointer. The number of bytes that are copied is that of the packet.\<close>

definition SvmmDbgRecv :: "USHORT \<Rightarrow> ULONG64 option \<Rightarrow> nat \<Rightarrow> 'z dbg_state_scheme \<Rightarrow> (int \<times> 'z dbg_state_scheme) res" where
  "SvmmDbgRecv type dest n s =
     bindE (recv_header s) (\<lambda>(h, s).
     if type \<noteq> PktType h then Inl Exit
     else if n \<noteq> 0 \<and> PktSize h = 0 then Inr (0, s)
     else bindE (if n \<noteq> 0 then recv_into DBG_MAX_PACKET_DATA_SIZE n s else Inr (0, replicate DBG_MAX_PACKET_DATA_SIZE 0, s)) (\<lambda>(k, data, s).
          case dest of
            None \<Rightarrow> Inr (int DBG_HEADER_SIZE + k, s)
          | Some a \<Rightarrow>
              bindE (ComputeChecksum data (unat (PktSize h))) (\<lambda>sum.
              if Checksum h \<noteq> sum then Inl Exit
              else bindE (host_write s a (take (unat (PktSize h)) data)) (\<lambda>s. Inr (int DBG_HEADER_SIZE + k, s)))))"

text \<open>\<open>None\<close> is a null buffer, which the callers combine with the size 0.\<close>

definition SvmmDbgSend :: "dbg_host \<Rightarrow> USHORT \<Rightarrow> BYTE list option \<Rightarrow> 'z dbg_state_scheme \<Rightarrow> (int \<times> 'z dbg_state_scheme) res" where
  "SvmmDbgSend p type buf s =
     (let s = s\<lparr>SvmmPacketId := SvmmPacketId s + 1\<rparr>; bs = (case buf of None \<Rightarrow> [] | Some bs \<Rightarrow> bs)
      in if length bs > DBG_MAX_PACKET_DATA_SIZE then Inl OutOfBounds
         else bindE (if buf = None then Inr 0 else ComputeChecksum bs (length bs)) (\<lambda>sum.
              let pkt = header_bytes \<lparr>Magic = DBG_MAGIC, PktType = type, PktId = SvmmPacketId s, Checksum = sum,
                          PktSize = of_nat (length bs)\<rparr> @ bs;
                  s = s\<lparr>dbg_sent := dbg_sent s @ [pkt]\<rparr>
              in if dbg_full p pkt then Inr (int (length pkt), s) else Inl Exit))"

section \<open>Requests\<close>

definition DBG_TYPE_READ_REGISTERS :: USHORT where "DBG_TYPE_READ_REGISTERS = 0"
definition DBG_TYPE_WRITE_REGISTERS :: USHORT where "DBG_TYPE_WRITE_REGISTERS = 1"
definition DBG_TYPE_READ_MEMORY :: USHORT where "DBG_TYPE_READ_MEMORY = 2"
definition DBG_TYPE_WRITE_MEMORY :: USHORT where "DBG_TYPE_WRITE_MEMORY = 3"
definition DBG_TYPE_INIT_REQ :: USHORT where "DBG_TYPE_INIT_REQ = 6"
definition DBG_TYPE_INIT_REP :: USHORT where "DBG_TYPE_INIT_REP = 7"
definition DBG_TYPE_STEP_INTO :: USHORT where "DBG_TYPE_STEP_INTO = 8"
definition DBG_TYPE_STEP_OVER :: USHORT where "DBG_TYPE_STEP_OVER = 9"
definition DBG_TYPE_RUN :: USHORT where "DBG_TYPE_RUN = 10"
definition DBG_TYPE_PRINT :: USHORT where "DBG_TYPE_PRINT = 12"
definition DBG_TYPE_READ_MSR_REGISTERS :: USHORT where "DBG_TYPE_READ_MSR_REGISTERS = 13"
definition DBG_TYPE_WRITE_MSR_REGISTERS :: USHORT where "DBG_TYPE_WRITE_MSR_REGISTERS = 14"
definition DBG_TYPE_STATE_CHANGE_REQ :: USHORT where "DBG_TYPE_STATE_CHANGE_REQ = 15"
definition DBG_TYPE_STATE_CHANGE_REP :: USHORT where "DBG_TYPE_STATE_CHANGE_REP = 16"

lemmas dbg_types = DBG_TYPE_READ_REGISTERS_def DBG_TYPE_WRITE_REGISTERS_def DBG_TYPE_READ_MEMORY_def DBG_TYPE_WRITE_MEMORY_def
  DBG_TYPE_INIT_REQ_def DBG_TYPE_INIT_REP_def DBG_TYPE_STEP_INTO_def DBG_TYPE_STEP_OVER_def DBG_TYPE_RUN_def DBG_TYPE_PRINT_def
  DBG_TYPE_READ_MSR_REGISTERS_def DBG_TYPE_WRITE_MSR_REGISTERS_def DBG_TYPE_STATE_CHANGE_REQ_def DBG_TYPE_STATE_CHANGE_REP_def

definition GVM_GUESTDBG_ENABLE :: ULONG where "GVM_GUESTDBG_ENABLE = 0x00000001"
definition GVM_GUESTDBG_SINGLESTEP :: ULONG where "GVM_GUESTDBG_SINGLESTEP = 0x00000002"
definition GVM_GUESTDBG_USE_SW_BP :: ULONG where "GVM_GUESTDBG_USE_SW_BP = 0x00010000"
definition GVM_GUESTDBG_USE_HW_BP :: ULONG where "GVM_GUESTDBG_USE_HW_BP = 0x00020000"

definition guest_debug :: "env \<Rightarrow> ULONG \<Rightarrow> ULONG64 list \<Rightarrow> 'z dbg_state_scheme \<Rightarrow> 'z dbg_state_scheme" where
  "guest_debug env step debugreg s =
     snd (DeviceIoControl env (GVM_SET_GUEST_DEBUG (GVM_GUESTDBG_ENABLE OR step OR GVM_GUESTDBG_USE_SW_BP OR GVM_GUESTDBG_USE_HW_BP) debugreg) s)"

definition dbg_registers :: "'z dbg_state_scheme \<Rightarrow> ULONG64 list" where
  "dbg_registers s = (let c = reg_context (Registers s) in [c_dr0 c, c_dr1 c, c_dr2 c, c_dr3 c, 0, 0, 0, c_dr7 c])"

definition dbg_write_registers :: "dbg_host \<Rightarrow> env \<Rightarrow> DBG_PACKET_HEADER \<Rightarrow> BYTE list \<Rightarrow> 'z dbg_state_scheme \<Rightarrow> 'z dbg_state_scheme res" where
  "dbg_write_registers p env h data s =
     (let n = length (regs_bytes p (Registers s))
      in if unat (PktSize h) \<noteq> n then Inl Exit
         else if n > DBG_BUFFER_DATA then Inl OutOfBounds
         else let s = snd (SvmmSetRegisters env (s\<lparr>Registers := regs_load p (take n data)\<rparr>))
              in Inr (if testw (c_dr7 (reg_context (Registers s))) (lsh1 1 OR lsh1 3 OR lsh1 5 OR lsh1 7)
                      then guest_debug env 0 (dbg_registers s) s else s))"

text \<open>The bytes of the host's memory, as \<open>memcpy\<close> reads them.\<close>

definition memory_bytes :: "'z cpu_state_scheme \<Rightarrow> ULONG64 \<Rightarrow> nat \<Rightarrow> BYTE list res" where
  "memory_bytes s a n = (if host_ok s a n then Inr (map (\<lambda>i. HostMem s (a + of_nat i)) [0 ..< n]) else Inl OutOfBounds)"

text \<open>The offsets of the loops over a request: the size is compared as a signed number.\<close>

definition chunk_offsets :: "ULONG64 \<Rightarrow> ULONG64 list" where
  "chunk_offsets len = map (\<lambda>k. of_nat (k * DBG_MAX_PACKET_DATA_SIZE))
     [0 ..< (nat (sint len) + DBG_MAX_PACKET_DATA_SIZE - 1) div DBG_MAX_PACKET_DATA_SIZE]"

definition chunk_size :: "ULONG64 \<Rightarrow> ULONG64 \<Rightarrow> nat" where
  "chunk_size len i = (if len - i > of_nat DBG_MAX_PACKET_DATA_SIZE then DBG_MAX_PACKET_DATA_SIZE else unat (len - i))"

fun send_chunks :: "dbg_host \<Rightarrow> ULONG64 \<Rightarrow> ULONG64 \<Rightarrow> ULONG64 list \<Rightarrow> 'z dbg_state_scheme \<Rightarrow> 'z dbg_state_scheme res" where
  "send_chunks p addr len [] s = Inr s"
| "send_chunks p addr len (i # is) s =
     bindE (SvmmGetHostPageFromGPA s (addr + i)) (\<lambda>hostGpa.
     if hostGpa = 0 then bindE (SvmmDbgSend p DBG_TYPE_READ_MEMORY None s) (\<lambda>(_, s). Inr s)
     else bindE (memory_bytes s hostGpa (chunk_size len i)) (\<lambda>bs.
          bindE (SvmmDbgSend p DBG_TYPE_READ_MEMORY (Some bs) s) (\<lambda>(_, s). send_chunks p addr len is s)))"

fun recv_chunks :: "dbg_host \<Rightarrow> ULONG64 \<Rightarrow> ULONG64 \<Rightarrow> ULONG64 list \<Rightarrow> 'z dbg_state_scheme \<Rightarrow> 'z dbg_state_scheme res" where
  "recv_chunks p addr len [] s = Inr s"
| "recv_chunks p addr len (i # is) s =
     bindE (SvmmGetHostPageFromGPA s (addr + i)) (\<lambda>hostGpa.
     if hostGpa = 0 then bindE (SvmmDbgSend p DBG_TYPE_WRITE_MEMORY None s) (\<lambda>(_, s). Inr s)
     else bindE (SvmmDbgRecv DBG_TYPE_WRITE_MEMORY (Some hostGpa) (chunk_size len i) s) (\<lambda>(_, s). recv_chunks p addr len is s))"

definition dbg_read_memory :: "dbg_host \<Rightarrow> DBG_PACKET_HEADER \<Rightarrow> BYTE list \<Rightarrow> 'z dbg_state_scheme \<Rightarrow> 'z dbg_state_scheme res" where
  "dbg_read_memory p h data s =
     (let addr = le_word 0 8 data; len = le_word 8 8 data
      in if PktSize h \<noteq> 16 then Inl Exit
         else bindE (SvmmGetHostPageFromGPA s addr) (\<lambda>hostGpa.
              if hostGpa + len \<ge> MemoryEnd s then bindE (SvmmDbgSend p DBG_TYPE_READ_MEMORY None s) (\<lambda>(_, s). Inr s)
              else send_chunks p addr len (chunk_offsets len) s))"

definition dbg_write_memory :: "dbg_host \<Rightarrow> env \<Rightarrow> DBG_PACKET_HEADER \<Rightarrow> BYTE list \<Rightarrow> 'z dbg_state_scheme \<Rightarrow> 'z dbg_state_scheme res" where
  "dbg_write_memory p env h data s =
     (let addr = le_word 0 8 data; len = le_word 8 8 data
      in if PktSize h \<noteq> 16 then Inl Exit
         else bindE (SvmmGetHostPageFromGPA s addr) (\<lambda>hostGpa.
              if hostGpa + len \<ge> MemoryEnd s then bindE (SvmmDbgSend p DBG_TYPE_WRITE_MEMORY None s) (\<lambda>(_, s). Inr s)
              else bindE (recv_chunks p addr len (chunk_offsets len) s) (\<lambda>s.
                   if len \<noteq> 1 then Inr s
                   else bindE (SvmmGetHostPageFromGPA s addr) (\<lambda>hostGpa.
                        bindE (host_read s hostGpa 1) (\<lambda>b.
                        Inr (if b = 0xcc then guest_debug env 0 (replicate 8 0) s else s))))))"

definition dbg_init_request :: "dbg_host \<Rightarrow> DBG_PACKET_HEADER \<Rightarrow> BYTE list \<Rightarrow> 'z dbg_state_scheme \<Rightarrow> 'z dbg_state_scheme res" where
  "dbg_init_request p h data s =
     (if PktSize h \<noteq> 4 then Inl Exit
      else if le_word 0 4 data \<noteq> (1 :: ULONG) then Inl Exit
      else bindE (SvmmDbgSend p DBG_TYPE_INIT_REP (Some (le_bytes 4 (SvmmPacketId s) @ le_bytes 8 (RamSize s))) s) (\<lambda>(_, s). Inr s))"

text \<open>
  The requests for model specific registers: the structure in the buffer goes to the driver, which may change it, and back
  to the debugger. Its length comes from the count in its first field.
\<close>

definition msrs_length :: "BYTE list \<Rightarrow> nat" where
  "msrs_length data = 8 + 16 * unat (le_word 0 4 data :: ULONG)"

definition dbg_msrs :: "dbg_host \<Rightarrow> env \<Rightarrow> bool \<Rightarrow> BYTE list \<Rightarrow> 'z dbg_state_scheme \<Rightarrow> 'z dbg_state_scheme res" where
  "dbg_msrs p env wr data s =
     (let n = msrs_length data
      in if n > DBG_BUFFER_DATA then Inl OutOfBounds
         else case DeviceIoControl env (GVM_MSRS wr (take n data)) s of (_, s) \<Rightarrow>
              let reply = msrs_reply p (EnvLog s) (take n data); m = msrs_length reply
              in if m > length reply then Inl OutOfBounds
                 else bindE (SvmmDbgSend p (if wr then DBG_TYPE_READ_REGISTERS else DBG_TYPE_READ_MSR_REGISTERS) (Some (take m reply)) s)
                        (\<lambda>(_, s). Inr s))"

text \<open>One request: \<open>Some t\<close> when the loop returns \<open>t\<close>, \<open>None\<close> when it goes on.\<close>

definition dbg_dispatch ::
  "dbg_host \<Rightarrow> env \<Rightarrow> DBG_PACKET_HEADER \<Rightarrow> BYTE list \<Rightarrow> 'z dbg_state_scheme \<Rightarrow> (BYTE option \<times> 'z dbg_state_scheme) res" where
  "dbg_dispatch p env h data s =
     (let t = PktType h; go = (\<lambda>m. bindE m (\<lambda>s. Inr (None, s)))
      in if t = DBG_TYPE_READ_REGISTERS
         then go (bindE (SvmmDbgSend p DBG_TYPE_READ_REGISTERS (Some (regs_bytes p (Registers s))) s) (\<lambda>(_, s). Inr s))
         else if t = DBG_TYPE_WRITE_REGISTERS then go (dbg_write_registers p env h data s)
         else if t = DBG_TYPE_READ_MEMORY then go (dbg_read_memory p h data s)
         else if t = DBG_TYPE_WRITE_MEMORY then go (dbg_write_memory p env h data s)
         else if t = DBG_TYPE_INIT_REQ then go (dbg_init_request p h data s)
         else if t = DBG_TYPE_STEP_INTO
         then Inr (Some (ucast DBG_TYPE_STEP_INTO), guest_debug env GVM_GUESTDBG_SINGLESTEP (replicate 8 0) s)
         else if t = DBG_TYPE_STEP_OVER \<or> t = DBG_TYPE_RUN then Inr (Some (ucast t), guest_debug env 0 (dbg_registers s) s)
         else if t = DBG_TYPE_READ_MSR_REGISTERS then go (dbg_msrs p env False data s)
         else if t = DBG_TYPE_WRITE_MSR_REGISTERS then go (dbg_msrs p env True data s)
         else if t = DBG_TYPE_STATE_CHANGE_REQ
         then go (bindE (SvmmDbgSend p DBG_TYPE_STATE_CHANGE_REP None s) (\<lambda>(_, s). Inr s))
         else Inr (None, s))"

definition dbg_step :: "dbg_host \<Rightarrow> env \<Rightarrow> 'z dbg_state_scheme \<Rightarrow> (BYTE option \<times> 'z dbg_state_scheme) res" where
  "dbg_step p env s =
     (case dbg_select p (dbg_inbox s) of
        SelectError \<Rightarrow> Inl Exit
      | SelectNone \<Rightarrow> Inr (Some 0, s)
      | SelectReady \<Rightarrow>
          bindE (recv_header s) (\<lambda>(h, s).
          bindE (if PktSize h \<noteq> 0
                 then bindE (recv_into DBG_BUFFER_DATA (min (unat (PktSize h)) DBG_BUFFER_DATA) s) (\<lambda>(k, data, s).
                      bindE (ComputeChecksum data (min (unat (PktSize h)) DBG_BUFFER_DATA)) (\<lambda>sum.
                      if k \<noteq> 0 \<and> Checksum h \<noteq> sum then Inl Exit else Inr (data, s)))
                 else Inr (replicate DBG_BUFFER_DATA 0, s)) (\<lambda>(data, s).
          dbg_dispatch p env h data s)))"

section \<open>The loop ends\<close>

text \<open>Every request takes a whole header out of the stream, and nothing puts bytes back.\<close>

fun recv_length :: "recv_result \<Rightarrow> nat" where
  "recv_length RecvError = 0"
| "recv_length (Recv bs) = length bs"

definition inbox_length :: "'z dbg_state_scheme \<Rightarrow> nat" where
  "inbox_length s = sum_list (map recv_length (dbg_inbox s))"

lemma inbox_recv: "dbg_recv n s = (r, t) \<Longrightarrow> inbox_length t + recv_length r = inbox_length s"
  by (auto simp: dbg_recv_def inbox_length_def split: list.splits recv_result.splits if_splits)

lemma inbox_header: "specE UNIV (\<lambda>(h, t). inbox_length t + DBG_HEADER_SIZE = inbox_length s) (recv_header s)"
proof (cases "dbg_recv DBG_HEADER_SIZE s")
  case (Pair r t)
  then show ?thesis using inbox_recv [OF Pair]
    by (cases r) (auto simp: recv_header_def Let_def inbox_length_def)
qed

lemma inbox_into: "specE UNIV (\<lambda>(k, data, t). inbox_length t \<le> inbox_length s) (recv_into cap n s)"
proof (cases "dbg_recv n s")
  case (Pair r t)
  then show ?thesis using inbox_recv [OF Pair] by (cases r) (auto simp: recv_into_def)
qed

lemma inbox_send: "specE UNIV (\<lambda>(k, t). inbox_length t = inbox_length s) (SvmmDbgSend p ty buf s)"
  by (auto simp: SvmmDbgSend_def Let_def inbox_length_def intro!: specE_bind_any)

lemma inbox_frame [simp]:
  "inbox_length (s\<lparr>HostMem := m\<rparr>) = inbox_length s" "inbox_length (s\<lparr>Registers := r\<rparr>) = inbox_length s"
  "inbox_length (snd (DeviceIoControl env req s)) = inbox_length s" "inbox_length (guest_debug env st d s) = inbox_length s"
  "inbox_length (snd (SvmmSetRegisters env s)) = inbox_length s"
  by (simp_all add: inbox_length_def DeviceIoControl_def ask_env_def guest_debug_def SvmmSetRegisters_def gvm_set_registers_def Let_def
      split: if_splits)

abbreviation drains :: "'z dbg_state_scheme \<Rightarrow> 'z dbg_state_scheme res \<Rightarrow> bool" where
  "drains s m \<equiv> specE UNIV (\<lambda>t. inbox_length t \<le> inbox_length s) m"

lemma drains_le: "drains t m \<Longrightarrow> inbox_length t \<le> inbox_length s \<Longrightarrow> drains s m"
  by (cases m) auto

lemma drains_bind: "drains s m \<Longrightarrow> (\<And>t. drains t (f t)) \<Longrightarrow> drains s (bindE m f)"
  by (cases m) (auto intro: drains_le)

lemma drains_any: "(\<And>x. drains s (f x)) \<Longrightarrow> drains s (bindE m f)"
  by (rule specE_bind_any)

lemma drains_send: "drains s (bindE (SvmmDbgSend p ty buf s) (\<lambda>(_, s). f s))" if "\<And>t. drains t (f t)"
proof (rule specE_bindI [OF inbox_send], clarify)
  fix k and t :: "'a dbg_state_scheme" assume "inbox_length t = inbox_length s"
  then show "drains s (f t)" using that [of t] by (auto intro: drains_le)
qed

lemma inbox_Recv: "specE UNIV (\<lambda>(k, t). inbox_length t \<le> inbox_length s) (SvmmDbgRecv ty dest n s)"
proof -
  have rest: "specE UNIV (\<lambda>(k, t). inbox_length t \<le> inbox_length s)
      (case dest of None \<Rightarrow> Inr (j, u) | Some a \<Rightarrow> bindE (ComputeChecksum data m) (\<lambda>sum.
         if c \<noteq> sum then Inl Exit else bindE (host_write u a (take m data)) (\<lambda>s. Inr (j, s))))"
    if "inbox_length u \<le> inbox_length s" for u :: "'a dbg_state_scheme" and j data m c
    using that by (auto simp: host_write_def split: option.split intro!: specE_bind_any)
  have into: "specE UNIV (\<lambda>(k, data, v). inbox_length v \<le> inbox_length s) (recv_into cap n u)"
    if "inbox_length u + k = inbox_length s" for u :: "'a dbg_state_scheme" and cap k
    by (rule specE_mono [OF inbox_into]) (use that in auto)
  show ?thesis unfolding SvmmDbgRecv_def
    by (rule specE_bindI [OF inbox_header], clarsimp, intro conjI impI)
      (auto intro!: specE_bindI [OF into] rest)
qed

lemma drains_Recv: "drains s (bindE (SvmmDbgRecv ty dest n s) (\<lambda>(_, s). f s))" if "\<And>t. drains t (f t)"
proof (rule specE_bindI [OF inbox_Recv], clarify)
  fix k and t :: "'a dbg_state_scheme" assume "inbox_length t \<le> inbox_length s"
  then show "drains s (f t)" using that [of t] by (auto intro: drains_le)
qed

lemma drains_chunks: "drains s (send_chunks p addr len is s)" "drains s (recv_chunks p addr len is s)"
proof (induction "is" arbitrary: s)
  case (Cons i "is")
  { case 1 show ?case by (auto intro!: drains_any drains_send Cons) }
  { case 2 show ?case by (auto intro!: drains_any drains_send drains_Recv Cons) }
qed simp_all

lemma drains_requests:
  "drains s (dbg_write_registers p env h data s)" "drains s (dbg_read_memory p h data s)" "drains s (dbg_write_memory p env h data s)"
  "drains s (dbg_init_request p h data s)" "drains s (dbg_msrs p env wr data s)"
proof -
  show "drains s (dbg_write_registers p env h data s)" by (simp add: dbg_write_registers_def Let_def)
  show "drains s (dbg_read_memory p h data s)"
    by (auto simp: dbg_read_memory_def Let_def intro!: drains_any drains_send drains_chunks)
  show "drains s (dbg_write_memory p env h data s)"
    by (auto simp: dbg_write_memory_def Let_def intro!: drains_any drains_send drains_bind [OF drains_chunks(2)])
  show "drains s (dbg_init_request p h data s)" by (auto simp: dbg_init_request_def intro!: drains_send)
  show "drains s (dbg_msrs p env wr data s)"
    using drains_send [where s = "snd (DeviceIoControl env (GVM_MSRS wr (take (msrs_length data) data)) s)" and f = Inr]
    by (simp add: dbg_msrs_def Let_def case_prod_beta')
qed

lemma inbox_dispatch: "specE UNIV (\<lambda>(r, t). inbox_length t \<le> inbox_length s) (dbg_dispatch p env h data s)"
proof -
  have go: "specE UNIV (\<lambda>(r, t). inbox_length t \<le> inbox_length s) (bindE m (\<lambda>s. Inr (None, s)))" if "drains s m" for m
    using that by (cases m) simp_all
  have send: "drains s (bindE (SvmmDbgSend p ty buf s) (\<lambda>(_, s). Inr s))" for ty buf by (rule drains_send) simp
  show ?thesis unfolding dbg_dispatch_def Let_def
    by (intro specE_if; (rule go, (rule send | rule drains_requests))?) simp_all
qed

lemma inbox_step: "dbg_step p env s = Inr (None, t) \<Longrightarrow> inbox_length t < inbox_length s"
proof -
  have "specE UNIV (\<lambda>(r, t). r = None \<longrightarrow> inbox_length t < inbox_length s) (dbg_step p env s)"
  proof -
    have disp: "specE UNIV (\<lambda>(r, t). r = None \<longrightarrow> inbox_length t < inbox_length s) (dbg_dispatch p env h data u)"
      if "inbox_length u + DBG_HEADER_SIZE \<le> inbox_length s" for h data and u :: "'a dbg_state_scheme"
      by (rule specE_mono [OF inbox_dispatch [of u]]) (use that in \<open>auto simp: DBG_HEADER_SIZE_def\<close>)
    have body: "specE UNIV (\<lambda>(data, v). inbox_length v + DBG_HEADER_SIZE \<le> inbox_length s)
        (bindE (recv_into cap n u) (\<lambda>(k, data, s). bindE (ComputeChecksum data n) (\<lambda>sum.
           if k \<noteq> 0 \<and> c \<noteq> sum then Inl Exit else Inr (data, s))))"
      if "inbox_length u + DBG_HEADER_SIZE = inbox_length s" for cap n c and u :: "'a dbg_state_scheme"
      by (rule specE_bindI [OF inbox_into]) (use that in \<open>auto intro!: specE_bind_any\<close>)
    show ?thesis unfolding dbg_step_def
      by (auto split: select_result.split intro!: specE_bindI [OF inbox_header] specE_bindI [OF body] disp)
  qed
  then show "dbg_step p env s = Inr (None, t) \<Longrightarrow> inbox_length t < inbox_length s" by (auto dest: specE_InrD)
qed

function SvmmDbgLoop :: "dbg_host \<Rightarrow> env \<Rightarrow> 'z dbg_state_scheme \<Rightarrow> (BYTE \<times> 'z dbg_state_scheme) res" where
  "SvmmDbgLoop p env s =
     (case dbg_step p env s of
        Inl e \<Rightarrow> Inl e
      | Inr (Some t, s) \<Rightarrow> Inr (t, s)
      | Inr (None, s) \<Rightarrow> SvmmDbgLoop p env s)"
  by pat_completeness auto
termination
  by (relation "measure (\<lambda>(p, env, s). inbox_length s)") (auto simp: inbox_step)

declare SvmmDbgLoop.simps [simp del]

text \<open>The set-up: a failure of the sockets ends the process.\<close>

definition SvmmDbgInit :: "dbg_host \<Rightarrow> env \<Rightarrow> 'z dbg_state_scheme \<Rightarrow> 'z dbg_state_scheme res" where
  "SvmmDbgInit p env s =
     (let s = guest_debug env GVM_GUESTDBG_SINGLESTEP (replicate 8 0) s
      in if dbg_listen p then Inr (s\<lparr>SvmmPacketId := 0\<rparr>) else Inl Exit)"

end
