(* ===== verification/Dbg_Protocol.thy ===== *)
theory Dbg_Protocol
  imports Dbg_Server
begin

text \<open>
  The debugger's protocol: what one side sends the other accepts, and a request for memory is answered with the contents of
  the guest's memory.
\<close>

section \<open>The header\<close>

lemma le_bytes_bit: "k < 8 * n \<Longrightarrow> k < LENGTH('a) \<Longrightarrow> bit (le_bytes n (v :: 'a::len word) ! (k div 8)) (k mod 8) = bit v k"
  by (simp add: le_bytes_def bit_simps less_mult_imp_div_less mult.commute [of 8])

lemma le_bytes_inj: "le_bytes n (v :: 'a::len word) = le_bytes n w \<Longrightarrow> LENGTH('a) \<le> 8 * n \<Longrightarrow> v = w"
proof (rule bit_word_eqI)
  fix k assume "le_bytes n v = le_bytes n w" "LENGTH('a) \<le> 8 * n" "k < LENGTH('a)"
  then show "bit v k = bit w k" using le_bytes_bit [of k n v] le_bytes_bit [of k n w] by simp
qed

lemma length_le_bytes [simp]: "length (le_bytes n v) = n"
  by (simp add: le_bytes_def)

lemma be_word_le_bytes: "LENGTH('a::len) = 8 * n \<Longrightarrow> be_word (rev (le_bytes n v)) = (v :: 'a word)"
  using le_bytes_be_word [of "le_bytes n v", where 'a = 'a] by (intro le_bytes_inj [of n]) simp_all

lemma le_word_at: "length xs = off \<Longrightarrow> LENGTH('a::len) = 8 * n \<Longrightarrow> le_word off n (xs @ le_bytes n v @ ys) = (v :: 'a word)"
  by (simp add: le_word_def be_word_le_bytes)

lemma length_header [simp]: "length (header_bytes h) = DBG_HEADER_SIZE"
  by (simp add: header_bytes_def DBG_HEADER_SIZE_def)

lemma header_of_bytes: "header_of (header_bytes h) = h"
proof -
  let ?m = "le_bytes 4 (Magic h)" and ?t = "le_bytes 2 (PktType h)" and ?i = "le_bytes 4 (PktId h)"
    and ?c = "le_bytes 4 (Checksum h)" and ?z = "le_bytes 4 (PktSize h)"
  have b: "header_bytes h = ?m @ ?t @ ?i @ ?c @ ?z" by (simp add: header_bytes_def)
  have "le_word 0 4 (header_bytes h) = Magic h"
    using le_word_at [of "[]" 0 4 "Magic h" "?t @ ?i @ ?c @ ?z"] by (simp add: b)
  moreover have "le_word 4 2 (header_bytes h) = PktType h"
    using le_word_at [of "?m" 4 2 "PktType h" "?i @ ?c @ ?z"] by (simp add: b)
  moreover have "le_word 6 4 (header_bytes h) = PktId h"
    using le_word_at [of "?m @ ?t" 6 4 "PktId h" "?c @ ?z"] by (simp add: b)
  moreover have "le_word 10 4 (header_bytes h) = Checksum h"
    using le_word_at [of "?m @ ?t @ ?i" 10 4 "Checksum h" "?z"] by (simp add: b)
  moreover have "le_word 14 4 (header_bytes h) = PktSize h"
    using le_word_at [of "?m @ ?t @ ?i @ ?c" 14 4 "PktSize h" "[]"] by (simp add: b)
  ultimately show ?thesis by (simp add: header_of_def)
qed

section \<open>What is sent is received\<close>

definition checksum :: "BYTE list \<Rightarrow> ULONG" where
  "checksum bs = fold (\<lambda>b sum. sum + ucast b) bs 0"

definition dbg_header :: "USHORT \<Rightarrow> ULONG \<Rightarrow> BYTE list \<Rightarrow> DBG_PACKET_HEADER" where
  "dbg_header ty i bs = \<lparr>Magic = DBG_MAGIC, PktType = ty, PktId = i, Checksum = checksum bs, PktSize = of_nat (length bs)\<rparr>"

lemma dbg_header_simps [simp]:
  "Magic (dbg_header ty i bs) = DBG_MAGIC" "PktType (dbg_header ty i bs) = ty" "PktId (dbg_header ty i bs) = i"
  "Checksum (dbg_header ty i bs) = checksum bs" "PktSize (dbg_header ty i bs) = of_nat (length bs)"
  by (simp_all add: dbg_header_def)

definition dbg_packet :: "USHORT \<Rightarrow> ULONG \<Rightarrow> BYTE list \<Rightarrow> BYTE list" where
  "dbg_packet ty i bs = header_bytes (dbg_header ty i bs) @ bs"

lemma ComputeChecksum_prefix: "ComputeChecksum (bs @ zs) (length bs) = Inr (checksum bs)"
  by (simp add: ComputeChecksum_def checksum_def)

lemma SvmmDbgSend_packet:
  assumes "length bs \<le> DBG_MAX_PACKET_DATA_SIZE" and "dbg_full p (dbg_packet ty (SvmmPacketId s + 1) bs)"
  shows "SvmmDbgSend p ty (Some bs) s = Inr (int (18 + length bs),
    s\<lparr>SvmmPacketId := SvmmPacketId s + 1, dbg_sent := dbg_sent s @ [dbg_packet ty (SvmmPacketId s + 1) bs]\<rparr>)"
  using assms ComputeChecksum_prefix [of bs "[]"]
  by (simp add: SvmmDbgSend_def dbg_packet_def dbg_header_def DBG_HEADER_SIZE_def)

lemma recv_header_packet:
  assumes "dbg_inbox s = Recv (dbg_packet ty (SvmmPacketId s + 1) bs) # rest"
  shows "recv_header s = Inr (dbg_header ty (SvmmPacketId s + 1) bs,
    s\<lparr>dbg_inbox := (if bs = [] then rest else Recv bs # rest), SvmmPacketId := SvmmPacketId s + 1\<rparr>)"
proof -
  let ?h = "dbg_header ty (SvmmPacketId s + 1) bs"
  have "dbg_recv DBG_HEADER_SIZE s = (Recv (header_bytes ?h), s\<lparr>dbg_inbox := (if bs = [] then rest else Recv bs # rest)\<rparr>)"
    using assms by (simp add: dbg_recv_def dbg_packet_def)
  moreover have "header_bytes ?h \<noteq> []" by (rule notI, drule arg_cong [of _ _ length]) (simp add: DBG_HEADER_SIZE_def)
  ultimately show ?thesis by (simp add: recv_header_def header_of_bytes Let_def)
qed

lemma recv_into_packet:
  assumes "dbg_inbox s = Recv bs # rest" and "length bs \<le> n" and "length bs \<le> cap"
  shows "recv_into cap n s = Inr (int (length bs), bs @ replicate (cap - length bs) 0, s\<lparr>dbg_inbox := rest\<rparr>)"
  using assms by (simp add: recv_into_def dbg_recv_def)

lemma unat_size: "length bs < 2 ^ 32 \<Longrightarrow> unat (of_nat (length bs) :: ULONG) = length bs"
  by (simp add: unat_of_nat)

text \<open>C15. The protocol of the debugger: a packet that \<open>SvmmDbgSend\<close> hands to the connection is accepted by \<open>SvmmDbgRecv\<close> of a peer whose
  packet counter is in step; exactly the bytes that were sent are stored at the given place, the counters are in step again, and
  nothing of the packet is left in the stream.\<close>

theorem dbg_packet_roundtrip:
  assumes "SvmmDbgSend p ty (Some bs) s = Inr (k, t)" and "bs \<noteq> []" and "SvmmPacketId r = SvmmPacketId s"
    and "dbg_inbox r = Recv (last (dbg_sent t)) # rest" and "host_ok r a (length bs)"
  shows "\<exists>u. SvmmDbgRecv ty (Some a) (length bs) r = Inr (k, u) \<and> SvmmPacketId u = SvmmPacketId t \<and> dbg_inbox u = rest \<and>
    HostMem u = put_bytes (HostMem r) a bs"
proof -
  have le: "length bs \<le> DBG_MAX_PACKET_DATA_SIZE" using assms(1) by (auto simp: SvmmDbgSend_def Let_def split: if_splits)
  have full: "dbg_full p (dbg_packet ty (SvmmPacketId s + 1) bs)"
    using assms(1) le ComputeChecksum_prefix [of bs "[]"]
    by (auto simp: SvmmDbgSend_def Let_def dbg_packet_def dbg_header_def split: if_splits)
  have t: "k = int (18 + length bs)" "dbg_sent t = dbg_sent s @ [dbg_packet ty (SvmmPacketId s + 1) bs]" "SvmmPacketId t = SvmmPacketId s + 1"
    using assms(1) unfolding SvmmDbgSend_packet [OF le full] by auto
  have box: "dbg_inbox r = Recv (dbg_packet ty (SvmmPacketId r + 1) bs) # rest" using assms(3,4) t(2) by simp
  let ?u = "r\<lparr>dbg_inbox := Recv bs # rest, SvmmPacketId := SvmmPacketId r + 1\<rparr>"
  have h: "recv_header r = Inr (dbg_header ty (SvmmPacketId r + 1) bs, ?u)" using recv_header_packet [OF box] assms(2) by simp
  have i: "recv_into DBG_MAX_PACKET_DATA_SIZE (length bs) ?u =
      Inr (int (length bs), bs @ replicate (DBG_MAX_PACKET_DATA_SIZE - length bs) 0, ?u\<lparr>dbg_inbox := rest\<rparr>)"
    by (rule recv_into_packet) (use le in simp_all)
  have n: "unat (of_nat (length bs) :: ULONG) = length bs" by (rule unat_size) (use le in \<open>simp add: DBG_MAX_PACKET_DATA_SIZE_def\<close>)
  then have "(of_nat (length bs) :: ULONG) \<noteq> 0" using assms(2) by auto
  then show ?thesis using h i n assms(2,3,5) t
    by (simp add: SvmmDbgRecv_def ComputeChecksum_prefix host_write_def host_ok_def DBG_HEADER_SIZE_def)
qed

section \<open>Reading the memory of the guest\<close>

text \<open>A request in the stream reaches its handler.\<close>

lemma dbg_step_packet:
  assumes "dbg_inbox s = Recv (dbg_packet ty (SvmmPacketId s + 1) bs) # rest" and "bs \<noteq> []" and "length bs \<le> DBG_BUFFER_DATA"
    and "dbg_select p (dbg_inbox s) = SelectReady"
  shows "dbg_step p env s = dbg_dispatch p env (dbg_header ty (SvmmPacketId s + 1) bs) (bs @ replicate (DBG_BUFFER_DATA - length bs) 0)
    (s\<lparr>SvmmPacketId := SvmmPacketId s + 1, dbg_inbox := rest\<rparr>)"
proof -
  let ?u = "s\<lparr>dbg_inbox := Recv bs # rest, SvmmPacketId := SvmmPacketId s + 1\<rparr>"
  have n: "unat (of_nat (length bs) :: ULONG) = length bs" by (rule unat_size) (use assms(3) in \<open>simp add: DBG_BUFFER_DATA_def\<close>)
  then have z: "(of_nat (length bs) :: ULONG) \<noteq> 0" using assms(2) by auto
  have h: "recv_header s = Inr (dbg_header ty (SvmmPacketId s + 1) bs, ?u)" using recv_header_packet [OF assms(1)] assms(2) by simp
  have i: "recv_into DBG_BUFFER_DATA (length bs) ?u = Inr (int (length bs), bs @ replicate (DBG_BUFFER_DATA - length bs) 0, ?u\<lparr>dbg_inbox := rest\<rparr>)"
    by (rule recv_into_packet) (use assms(3) in simp_all)
  show ?thesis unfolding dbg_step_def h using n z i assms(3,4) by (simp add: min_absorb1 ComputeChecksum_prefix)
qed

text \<open>The data of the packets sent from one state to another.\<close>

definition sent_data :: "'z dbg_state_scheme \<Rightarrow> 'z dbg_state_scheme \<Rightarrow> BYTE list" where
  "sent_data s t = concat (map (drop DBG_HEADER_SIZE) (drop (length (dbg_sent s)) (dbg_sent t)))"

definition only_sent :: "'z dbg_state_scheme \<Rightarrow> 'z dbg_state_scheme \<Rightarrow> bool" where
  "only_sent s t \<longleftrightarrow> (\<exists>i ps. t = s\<lparr>SvmmPacketId := i, dbg_sent := dbg_sent s @ ps\<rparr>)"

lemma only_sent_trans: "only_sent s t \<Longrightarrow> only_sent t u \<Longrightarrow> only_sent s u"
proof -
  assume "only_sent s t" "only_sent t u"
  then obtain i ps j qs where t: "t = s\<lparr>SvmmPacketId := i, dbg_sent := dbg_sent s @ ps\<rparr>"
    and u: "u = t\<lparr>SvmmPacketId := j, dbg_sent := dbg_sent t @ qs\<rparr>" unfolding only_sent_def by blast
  show ?thesis unfolding only_sent_def by (rule exI [of _ j], rule exI [of _ "ps @ qs"]) (simp add: t u)
qed

lemma only_sent_refl: "only_sent s s"
  unfolding only_sent_def by (rule exI [of _ "SvmmPacketId s"], rule exI [of _ "[]"]) simp

lemma only_sent_keeps:
  assumes "only_sent s t"
  shows "HostMem t = HostMem s" "host_ok t a n = host_ok s a n" "SvmmGetHostPageFromGPA t g = SvmmGetHostPageFromGPA s g"
proof -
  obtain i ps where t: "t = s\<lparr>SvmmPacketId := i, dbg_sent := dbg_sent s @ ps\<rparr>" using assms unfolding only_sent_def by blast
  show "HostMem t = HostMem s" "host_ok t a n = host_ok s a n" by (simp_all add: t host_ok_def)
  show "SvmmGetHostPageFromGPA t g = SvmmGetHostPageFromGPA s g" by (simp add: t SvmmGetHostPageFromGPA_def get_conf_def cong: if_cong)
qed

lemma sent_data_trans: "only_sent s t \<Longrightarrow> only_sent t u \<Longrightarrow> sent_data s u = sent_data s t @ sent_data t u"
proof -
  assume "only_sent s t" "only_sent t u"
  then obtain i ps j qs where t: "t = s\<lparr>SvmmPacketId := i, dbg_sent := dbg_sent s @ ps\<rparr>"
    and u: "u = t\<lparr>SvmmPacketId := j, dbg_sent := dbg_sent t @ qs\<rparr>" unfolding only_sent_def by blast
  show ?thesis by (simp add: t u sent_data_def)
qed

lemma unat_ULONG64: "n < 2 ^ 64 \<Longrightarrow> unat (of_nat n :: ULONG64) = n"
  by (simp add: unat_of_nat)

lemma chunk_size_eq:
  assumes "k * 2048 \<le> n" and "n < 2 ^ 63"
  shows "chunk_size (of_nat n) (of_nat (k * 2048)) = min 2048 (n - k * 2048)"
proof -
  have "(of_nat n - of_nat (k * 2048) :: ULONG64) = of_nat (n - k * 2048)" using assms(1) by (simp only: of_nat_diff)
  moreover have "unat (of_nat (n - k * 2048) :: ULONG64) = n - k * 2048" by (rule unat_ULONG64) (use assms(2) in simp)
  ultimately show ?thesis by (simp add: chunk_size_def DBG_MAX_PACKET_DATA_SIZE_def word_less_nat_alt min_def)
qed

text \<open>A range of guest memory that lies in one piece in the host's memory.\<close>

definition guest_range :: "'z cpu_state_scheme \<Rightarrow> ULONG64 \<Rightarrow> ULONG64 \<Rightarrow> nat \<Rightarrow> bool" where
  "guest_range s addr h n \<longleftrightarrow> h \<noteq> 0 \<and> unat (HostRam s) \<le> unat h \<and> unat h + n < unat (MemoryEnd s) \<and>
     (\<forall>i < max n 1. SvmmGetHostPageFromGPA s (addr + of_nat i) = Inr (h + of_nat i))"

lemma guest_range_sent: "only_sent s t \<Longrightarrow> guest_range s addr h n \<Longrightarrow> guest_range t addr h n"
proof -
  assume s: "only_sent s t" and g: "guest_range s addr h n"
  have "HostRam t = HostRam s" "MemoryEnd t = MemoryEnd s" using s by (auto simp: only_sent_def)
  then show ?thesis using g only_sent_keeps(3) [OF s] by (simp add: guest_range_def)
qed

lemma send_chunk:
  assumes g: "guest_range s addr h n" and n: "n < 2 ^ 63" and k: "k * 2048 < n" and full: "\<And>pkt. dbg_full p pkt"
  shows "\<exists>t. send_chunks p addr (of_nat n) (of_nat (k * 2048) # is) s = send_chunks p addr (of_nat n) is t \<and> only_sent s t \<and>
    sent_data s t = map (\<lambda>i. HostMem s (h + of_nat i)) [k * 2048 ..< min (Suc k * 2048) n]"
proof -
  let ?o = "k * 2048" and ?a = "h + of_nat (k * 2048)"
  define c where "c = min 2048 (n - ?o)"
  have room: "unat h + n < 2 ^ 64"
    using g unsigned_less [of "MemoryEnd s", where 'a = nat] by (auto simp: guest_range_def)
  have a: "unat ?a = unat h + ?o"
  proof -
    have "unat (of_nat ?o :: ULONG64) = ?o" by (rule unat_ULONG64) (use room k in simp)
    then show ?thesis using room k by (simp add: unat_word_ariths)
  qed
  have nz: "?a \<noteq> 0"
  proof
    assume "?a = 0"
    then have "unat h = 0" using a by simp
    then have "h = 0" by (simp add: word_unat_eq_iff)
    then show False using g by (simp add: guest_range_def)
  qed
  have "SvmmGetHostPageFromGPA s (addr + of_nat i) = Inr (h + of_nat i)" if "i < n" for i
    using g that by (simp add: guest_range_def)
  note page = this [OF k]
  have cs: "chunk_size (of_nat n) (of_nat ?o) = c" unfolding c_def by (rule chunk_size_eq) (use k n in simp_all)
  have ok: "host_ok s ?a c" using g k a by (auto simp: host_ok_def guest_range_def c_def)
  define bs where "bs = map (\<lambda>i. HostMem s (?a + of_nat i)) [0 ..< c]"
  have len: "length bs = c" "length bs \<le> DBG_MAX_PACKET_DATA_SIZE" by (simp_all add: bs_def c_def DBG_MAX_PACKET_DATA_SIZE_def)
  let ?t = "s\<lparr>SvmmPacketId := SvmmPacketId s + 1, dbg_sent := dbg_sent s @ [dbg_packet DBG_TYPE_READ_MEMORY (SvmmPacketId s + 1) bs]\<rparr>"
  have hb: "memory_bytes s ?a c = Inr bs" using ok by (simp add: memory_bytes_def bs_def)
  have "send_chunks p addr (of_nat n) (of_nat ?o # is) s = send_chunks p addr (of_nat n) is ?t"
    using nz hb SvmmDbgSend_packet [OF len(2) full, of DBG_TYPE_READ_MEMORY s] by (simp only: send_chunks.simps page cs bindE_simps if_False) simp
  moreover have "only_sent s ?t" unfolding only_sent_def by blast
  moreover have "sent_data s ?t = bs" by (simp add: sent_data_def dbg_packet_def)
  moreover have m: "min (Suc k * 2048) n = c + ?o" using k unfolding c_def min_def mult_Suc by (auto; linarith)
  have "bs = map (\<lambda>i. HostMem s (h + of_nat i)) [?o ..< min (Suc k * 2048) n]"
    unfolding m map_add_upt [symmetric] bs_def by (simp add: ac_simps)
  ultimately show ?thesis by metis
qed

lemma send_chunks_data:
  assumes "guest_range s addr h n" and "n < 2 ^ 63" and "j + d = (n + 2047) div 2048" and full: "\<And>pkt. dbg_full p pkt"
  shows "\<exists>t. send_chunks p addr (of_nat n) (map (\<lambda>k. of_nat (k * 2048)) [j ..< j + d]) s = Inr t \<and> only_sent s t \<and>
    sent_data s t = map (\<lambda>i. HostMem s (h + of_nat i)) [j * 2048 ..< n]"
  using assms(1,3)
proof (induction d arbitrary: j s)
  case 0
  then have "n \<le> j * 2048" by simp
  then show ?case by (intro exI [of _ s]) (simp add: only_sent_refl sent_data_def)
next
  case (Suc d)
  have j: "j * 2048 < n" using Suc.prems(2) by simp
  have e: "map (\<lambda>k. of_nat (k * 2048)) [j ..< j + Suc d] = (of_nat (j * 2048) :: ULONG64) # map (\<lambda>k. of_nat (k * 2048)) [Suc j ..< Suc j + d]"
    by (simp add: upt_conv_Cons del: upt_Suc)
  obtain t where t: "send_chunks p addr (of_nat n) (map (\<lambda>k. of_nat (k * 2048)) [j ..< j + Suc d]) s =
      send_chunks p addr (of_nat n) (map (\<lambda>k. of_nat (k * 2048)) [Suc j ..< Suc j + d]) t" "only_sent s t"
    "sent_data s t = map (\<lambda>i. HostMem s (h + of_nat i)) [j * 2048 ..< min (Suc j * 2048) n]"
    unfolding e using send_chunk [OF Suc.prems(1) assms(2) j full] by blast
  obtain u where u: "send_chunks p addr (of_nat n) (map (\<lambda>k. of_nat (k * 2048)) [Suc j ..< Suc j + d]) t = Inr u" "only_sent t u"
    "sent_data t u = map (\<lambda>i. HostMem s (h + of_nat i)) [Suc j * 2048 ..< n]"
    using Suc.IH [OF guest_range_sent [OF t(2) Suc.prems(1)], of "Suc j"] Suc.prems(2) only_sent_keeps(1) [OF t(2)] by auto
  have "[j * 2048 ..< min (Suc j * 2048) n] @ [Suc j * 2048 ..< n] = [j * 2048 ..< n]"
  proof (cases "Suc j * 2048 \<le> n")
    case True
    then have "[j * 2048 ..< n] = [j * 2048 ..< Suc j * 2048] @ [Suc j * 2048 ..< n]"
      using upt_add_eq_append [of "j * 2048" "Suc j * 2048" "n - Suc j * 2048"] by simp
    then show ?thesis using True by (simp add: min_def)
  qed (simp add: min_def)
  then have "sent_data s u = map (\<lambda>i. HostMem s (h + of_nat i)) [j * 2048 ..< n]"
    using sent_data_trans [OF t(2) u(2)] t(3) u(3) by (metis map_append)
  then show ?case using t(1) u(1) only_sent_trans [OF t(2) u(2)] by auto
qed

lemma chunk_offsets_eq:
  assumes "n < 2 ^ 63"
  shows "chunk_offsets (of_nat n) = map (\<lambda>k. of_nat (k * 2048)) [0 ..< (n + 2047) div 2048]"
proof -
  have "sint (of_nat n :: ULONG64) = int n" 
    using assms by (simp add: take_bit_nat_eq_self signed_take_bit_int_eq_self sint_uint unsigned_of_nat)
  then show ?thesis by (simp add: chunk_offsets_def DBG_MAX_PACKET_DATA_SIZE_def add.commute)
qed

text \<open>C14. Reading the guest through the debugger: when the stream holds a request for \<open>n\<close> bytes at an address whose range lies in one piece in the
  memory of the virtual machine, the server answers with packets whose data, put together, are exactly those bytes, and goes on
  with the next request. The memory is not changed.\<close>

theorem dbg_reads_memory:
  assumes "dbg_inbox s = Recv (dbg_packet DBG_TYPE_READ_MEMORY (SvmmPacketId s + 1) (le_bytes 8 addr @ le_bytes 8 (of_nat n :: ULONG64))) # rest"
    and "dbg_select p (dbg_inbox s) = SelectReady" and "guest_range s addr h n" and "n < 2 ^ 63" and "\<And>pkt. dbg_full p pkt"
  shows "\<exists>t. dbg_step p env s = Inr (None, t) \<and> sent_data s t = map (\<lambda>i. HostMem s (h + of_nat i)) [0 ..< n] \<and>
    HostMem t = HostMem s \<and> dbg_inbox t = rest"
proof -
  let ?bs = "le_bytes 8 addr @ le_bytes 8 (of_nat n :: ULONG64)" and ?u = "s\<lparr>SvmmPacketId := SvmmPacketId s + 1, dbg_inbox := rest\<rparr>"
  let ?h = "dbg_header DBG_TYPE_READ_MEMORY (SvmmPacketId s + 1) ?bs" and ?d = "?bs @ replicate (DBG_BUFFER_DATA - length ?bs) 0"
  have step: "dbg_step p env s = dbg_dispatch p env ?h ?d ?u"
    by (rule dbg_step_packet [OF assms(1) _ _ assms(2)]) (simp_all add: DBG_BUFFER_DATA_def flip: length_0_conv)
  have w: "le_word 0 8 ?d = addr" "le_word 8 8 ?d = (of_nat n :: ULONG64)"
    using le_word_at [of "[]" 0 8 addr] le_word_at [of "le_bytes 8 addr" 8 8 "of_nat n :: ULONG64"] by simp_all
  have g: "guest_range ?u addr h n"
    using assms(3) by (simp add: guest_range_def SvmmGetHostPageFromGPA_def get_conf_def cong: if_cong)
  have page: "SvmmGetHostPageFromGPA ?u addr = Inr h" using g unfolding guest_range_def by (auto dest: spec [of _ 0])
  have room: "unat h + n < unat (MemoryEnd ?u)" using g by (simp add: guest_range_def)
  have "unat (h + of_nat n) = unat h + n"
    using room unsigned_less [of "MemoryEnd ?u", where 'a = nat] unat_ULONG64 [of n] by (simp add: unat_word_ariths)
  then have end': "\<not> h + of_nat n \<ge> MemoryEnd ?u" using room by (simp add: word_le_nat_alt)
  obtain t where t: "send_chunks p addr (of_nat n) (chunk_offsets (of_nat n)) ?u = Inr t" "only_sent ?u t"
    "sent_data ?u t = map (\<lambda>i. HostMem ?u (h + of_nat i)) [0 ..< n]"
    unfolding chunk_offsets_eq [OF assms(4)] using send_chunks_data [OF g assms(4) _ assms(5), of 0 "(n + 2047) div 2048"] by auto
  have "dbg_read_memory p ?h ?d ?u = Inr t"
    unfolding dbg_read_memory_def Let_def w page using end' t(1) by simp
  then have "dbg_step p env s = Inr (None, t)" unfolding step by (simp add: dbg_dispatch_def dbg_types)
  moreover have "dbg_inbox t = rest" "HostMem t = HostMem s" using t(2) by (auto simp: only_sent_def)
  moreover have "sent_data s t = sent_data ?u t" by (simp add: sent_data_def)
  ultimately show ?thesis using t(3) by simp
qed

section \<open>Examples\<close>

definition dbg_zero :: dbg_state where
  "dbg_zero = vga_state.extend vga_zero (dbg_state.fields 0 [] [])"

definition dbg_peer :: dbg_host where
  "dbg_peer = \<lparr>dbg_listen = True, dbg_select = (\<lambda>_. SelectReady), dbg_full = (\<lambda>_. True), regs_bytes = (\<lambda>_. []),
     regs_load = (\<lambda>_. registers_zero), msrs_reply = (\<lambda>_ bs. bs)\<rparr>"

text \<open>A machine with 64 KB of memory, each byte of which holds the low byte of its address.\<close>

definition dbg_demo :: "recv_result list \<Rightarrow> dbg_state" where
  "dbg_demo box = dbg_zero\<lparr>HostRam := 0x10000, RamSize := 0x8000, MemoryEnd := 0x20000, HostMem := ucast,
     PciDevices := (\<lambda>_ _. (PciDevices dbg_zero 0 0)\<lparr>conf := replicate 256 0\<rparr>), dbg_inbox := box\<rparr>"

lemma dbg_demo_simps [simp]:
  "SvmmPacketId (dbg_demo box) = 0" "dbg_inbox (dbg_demo box) = box" "HostMem (dbg_demo box) = ucast" "HostRam (dbg_demo box) = 0x10000"
  "MemoryEnd (dbg_demo box) = 0x20000" "dbg_sent (dbg_demo box) = []" "RamSize (dbg_demo box) = 0x8000"
  "get_conf (dbg_demo box) bus df 0x5b = Inr 0"
  by (simp_all add: dbg_demo_def dbg_zero_def dbg_state.defs vga_zero_def vga_state.defs gui_zero_def gui_state.defs key_zero_defs
      key_state.defs get_conf_def arr_get_def)

theorem dbg_packet_roundtrip_witness:
  "\<exists>u. SvmmDbgRecv 3 (Some 0x10100) 2 (dbg_demo [Recv (dbg_packet 3 1 [0xab, 0xcd])]) = Inr (20, u) \<and>
    HostMem u 0x10101 = 0xcd"
proof -
  let ?s = "dbg_demo []"
  let ?t = "?s\<lparr>SvmmPacketId := 1, dbg_sent := [dbg_packet 3 1 [0xab, 0xcd]]\<rparr>"
  have "SvmmDbgSend dbg_peer 3 (Some [0xab, 0xcd]) ?s = Inr (20, ?t)"
    using SvmmDbgSend_packet [of "[0xab, 0xcd]" dbg_peer 3 ?s] by (simp add: DBG_MAX_PACKET_DATA_SIZE_def dbg_peer_def)
  moreover have "host_ok (dbg_demo [Recv (dbg_packet 3 1 [0xab, 0xcd])]) 0x10100 (length [0xab, 0xcd :: BYTE])" by (simp add: host_ok_def)
  ultimately show ?thesis
    using dbg_packet_roundtrip [of dbg_peer 3 "[0xab, 0xcd]" ?s 20 ?t "dbg_demo [Recv (dbg_packet 3 1 [0xab, 0xcd])]" "[]" "0x10100"]
    by (auto simp: numeral_2_eq_2)
qed

lemma dbg_demo_range: "guest_range (dbg_demo box) 0x100 0x10100 3"
proof -
  have "SvmmGetHostPageFromGPA (dbg_demo box) (0x100 + of_nat i) = Inr (0x10100 + of_nat i)" if "i < 3" for i
  proof -
    have "i = 0 \<or> i = 1 \<or> i = 2" using that by linarith
    then show ?thesis by (elim disjE) (simp_all add: SvmmGetHostPageFromGPA_def testw_def)
  qed
  then show ?thesis by (simp add: guest_range_def)
qed

theorem dbg_reads_memory_witness:
  "\<exists>s t :: dbg_state. dbg_step dbg_peer (\<lambda>_ _. True) s = Inr (None, t) \<and> sent_data s t = [0x00, 0x01, 0x02]"
proof -
  define s where "s = dbg_demo [Recv (dbg_packet DBG_TYPE_READ_MEMORY 1 (le_bytes 8 (0x100 :: ULONG64) @ le_bytes 8 (of_nat 3 :: ULONG64)))]"
  have "dbg_inbox s = Recv (dbg_packet DBG_TYPE_READ_MEMORY (SvmmPacketId s + 1) (le_bytes 8 (0x100 :: ULONG64) @ le_bytes 8 (of_nat 3 :: ULONG64))) # []"
    by (simp add: s_def)
  moreover have "dbg_select dbg_peer (dbg_inbox s) = SelectReady" by (simp add: dbg_peer_def)
  moreover have "guest_range s 0x100 0x10100 3" unfolding s_def by (rule dbg_demo_range)
  moreover have "\<And>pkt. dbg_full dbg_peer pkt" by (simp add: dbg_peer_def)
  ultimately obtain t where "dbg_step dbg_peer (\<lambda>_ _. True) s = Inr (None, t)"
    "sent_data s t = map (\<lambda>i. HostMem s (0x10100 + of_nat i)) [0 ..< 3]"
    using dbg_reads_memory [of s "0x100" 3 "[]" dbg_peer "0x10100" "\<lambda>_ _. True"] by auto
  then show ?thesis by (intro exI [of _ s] exI [of _ t]) (simp add: s_def upt_conv_Cons)
qed

end
