(* ===== verification/Machine.thy ===== *)
theory Machine
  imports Dbg_Protocol
begin

text \<open>
  The main program of \<open>SVMM.c\<close>: the tables of callbacks that connect the buses, the timers and the configuration space with
  the device handlers, the set-up sequence of \<open>main\<close>, and one iteration of its loop: the virtual processor runs until it
  exits, and the reason of the exit selects what the monitor does.
\<close>

section \<open>The environment\<close>

text \<open>
  What the program does not compute: the answers of the driver (\<open>w_env\<close>, \<open>w_vcpu\<close>, \<open>w_exit\<close>), the C library's calendar
  (\<open>w_clib\<close>), the value left in a register by a handler without \<open>return\<close> (\<open>w_eax\<close>), the files, the address the memory was
  allocated at, an indeterminate value (\<open>w_any\<close>), the speed of the window thread (\<open>w_ui\<close>), whether a debugger's port is given on
  the command line (\<open>w_debug\<close>) and the connection to it (\<open>w_dbg\<close>).
\<close>

datatype io_direction = GVM_EXIT_IO_IN | GVM_EXIT_IO_OUT

text \<open>
  The exits that the loop acts on, with the fields of \<open>kvm_run\<close> they come with; all other reasons are only reported.
\<close>

datatype vm_exit =
    GVM_EXIT_IO io_direction USHORT BYTE DWORD
  | GVM_EXIT_MMIO bool ULONG64 ULONG ULONG64
  | GVM_EXIT_NMI
  | GVM_EXIT_IRQ_WINDOW_OPEN
  | GVM_EXIT_SET_TPR ULONG64
  | GVM_EXIT_VMX_TIMER
  | GVM_EXIT_INTR | GVM_EXIT_UNKNOWN | GVM_EXIT_HLT | GVM_EXIT_INTERNAL_ERROR | GVM_EXIT_SHUTDOWN | GVM_EXIT_WATCHDOG
  | GVM_EXIT_SYSTEM_EVENT | GVM_EXIT_IOAPIC_EOI | GVM_EXIT_EXCEPTION | GVM_EXIT_HYPERCALL | GVM_EXIT_DEBUG
  | GVM_EXIT_FAIL_ENTRY | GVM_EXIT_TPR_ACCESS | GVM_EXIT_OSI | GVM_EXIT_PAPR_HCALL | GVM_EXIT_MTF | GVM_EXIT_MSR
  | GVM_EXIT_OTHER

record world =
  w_env :: env
  w_vcpu :: "env_req list \<Rightarrow> kvm_regs \<times> kvm_sregs"
  w_exit :: "env_req list \<Rightarrow> vm_exit"
  w_pio :: "env_req list \<Rightarrow> nat \<Rightarrow> BYTE"
  w_clib :: clib
  w_eax :: ULONG
  w_any :: ULONG64
  w_ram :: ULONG64
  w_cpuid :: "kvm_cpuid_entry list"
  w_nmsrs :: nat
  w_ui :: bool
  w_disk :: "host_file option"
  w_firmware :: "BYTE list option"
  w_vgabios :: "BYTE list option"
  w_vgabios_ok :: bool
  w_debug :: bool
  w_dbg :: dbg_host

text \<open>\<open>pio_data\<close> is the page behind \<open>kvm_run\<close> through which string I/O passes, \<open>mmio_data\<close> the eight bytes of an MMIO exit, \<open>dbgState\<close> the
  answer of the debugger's last loop.\<close>

record machine = dbg_state +
  pio_data :: mem
  mmio_data :: ULONG64
  dbgState :: BYTE

section \<open>The callbacks\<close>

definition hpet_store :: "ULONG \<Rightarrow> ULONG \<Rightarrow> 'z vga_state_scheme \<Rightarrow> 'z vga_state_scheme res" where
  "hpet_store addr val s =
     bindE (SvmmGetHostAddress s (ucast addr)) (\<lambda>h. host_write s h (map (\<lambda>i. ucast (drop_bit (8 * i) val)) [0 ..< 4]))"

definition pci_conf_write :: "world \<Rightarrow> pci_dev \<Rightarrow> BYTE \<Rightarrow> BYTE \<Rightarrow> BYTE \<Rightarrow> ULONG \<Rightarrow> ULONG \<Rightarrow> 'z vga_state_scheme \<Rightarrow> 'z vga_state_scheme res" where
  "pci_conf_write w d bus df address val len s =
     (case d of
        I440fxPci \<Rightarrow> I440fxPciConfWriteHandler (w_env w) bus df address val len s
      | Piix3Pci \<Rightarrow> Piix3PciConfWriteHandler bus df address val len s
      | AcpiPci \<Rightarrow> AcpiPciConfWriteHandler (w_env w) bus df address val len s
      | IdePci \<Rightarrow> IdePciConfWriteHandler bus df address val len s
      | VgaPci \<Rightarrow> VgaWritePciConfHandler bus df address val len s)"

definition port_read :: "world \<Rightarrow> port_dev \<Rightarrow> ULONG \<Rightarrow> ULONG \<Rightarrow> 'z vga_state_scheme \<Rightarrow> (ULONG \<times> 'z vga_state_scheme) res" where
  "port_read w d addr len s =
     (case d of
        PicPort \<Rightarrow> Inr (PicPortIoReadHandler s addr, s)
      | PitPort \<Rightarrow> PitReadHandler s addr
      | CmosPort \<Rightarrow> Inr (CmosPortIoReadHandler s addr)
      | DmaPort \<Rightarrow> DmaPortIoReadHandler s addr
      | Ps2Port \<Rightarrow> Ps2PortIoReadHandler s addr
      | SerialPort \<Rightarrow> Inr (SerialPortIoReadHandler addr len, s)
      | ParallelPort \<Rightarrow> Inr (ParallelPortIoReadHandler (w_eax w) addr len, s)
      | BiosPort \<Rightarrow> Inr (BiosReadHandler (w_eax w) addr len, s)
      | I440fxPort \<Rightarrow> I440fxPortIoReadHandler addr len s
      | Piix3Port \<Rightarrow> Inr (Piix3PortIoReadHandler addr len s, s)
      | AcpiPort \<Rightarrow> AcpiReadPortIoHandler (w_eax w) addr len s
      | IdePort \<Rightarrow> bindE (IdePortIoReadHandler addr len s) (\<lambda>v. Inr (v, s))
      | HardDiskPort \<Rightarrow> HardDiskPortIoReadHandler (w_env w) addr len s
      | VgaPort \<Rightarrow> VgaCorePortIoReadHandler addr len s
      | VgaVbePort \<Rightarrow> Inr (VgaVbePortIoReadHandler (w_eax w) addr len s))"

definition port_write :: "world \<Rightarrow> port_dev \<Rightarrow> ULONG \<Rightarrow> ULONG \<Rightarrow> ULONG \<Rightarrow> 'z vga_state_scheme \<Rightarrow> 'z vga_state_scheme res" where
  "port_write w d addr val len s =
     (case d of
        PicPort \<Rightarrow> PicPortIoWriteHandler (w_env w) s addr val
      | PitPort \<Rightarrow> PitWriteHandler (w_env w) s addr val
      | CmosPort \<Rightarrow> CmosPortIoWriteHandler (w_clib w) s addr val
      | DmaPort \<Rightarrow> DmaPortIoWriteHandler s addr val
      | Ps2Port \<Rightarrow> Ps2PortIoWriteHandler s addr val
      | SerialPort \<Rightarrow> Inr (SerialPortIoWriteHandler addr val len s)
      | ParallelPort \<Rightarrow> Inr (ParallelPortIoWriteHandler addr val len s)
      | BiosPort \<Rightarrow> BiosWriteHandler addr val len s
      | I440fxPort \<Rightarrow> I440fxPortIoWriteHandler (w_env w) (pci_conf_write w) addr val len s
      | Piix3Port \<Rightarrow> Piix3PortIoWriteHandler (w_env w) addr val len s
      | AcpiPort \<Rightarrow> AcpiWritePortIoHandler (w_env w) addr val len s
      | IdePort \<Rightarrow> IdePortIoWriteHandler addr val len s
      | HardDiskPort \<Rightarrow> HardDiskPortIoWriteHandler (w_env w) addr val len s
      | VgaPort \<Rightarrow> VgaPortIoWriteHandler addr val len s
      | VgaVbePort \<Rightarrow> Inr (VgaVbePortIoWriteHandler addr val len s))"

text \<open>The eight bytes of an MMIO exit as the VGA sees them, one by one.\<close>

definition mmio_bytes :: "ULONG64 \<Rightarrow> BYTE list" where
  "mmio_bytes data = map (\<lambda>i. ucast (drop_bit (8 * i) data)) [0 ..< 8]"

definition mmio_fill_bytes :: "BYTE list \<Rightarrow> ULONG64 \<Rightarrow> ULONG64 res" where
  "mmio_fill_bytes bs data =
     (if length bs \<le> 8
      then Inr (fold (\<lambda>i d. (d AND NOT (push_bit (8 * i) 0xff)) OR push_bit (8 * i) (ucast (bs ! i))) [0 ..< length bs] data)
      else Inl OutOfBounds)"

definition mmio_read :: "world \<Rightarrow> mmio_dev \<Rightarrow> ULONG \<Rightarrow> ULONG64 \<Rightarrow> ULONG \<Rightarrow> 'z vga_state_scheme \<Rightarrow> (ULONG64 \<times> 'z vga_state_scheme) res" where
  "mmio_read w d addr data len s =
     (case d of
        ApicMmio \<Rightarrow> ApicMMIOReadHandler s addr data len
      | IoApicMmio \<Rightarrow> IoApicMMIOReadHandler s addr data len
      | HpetMmio \<Rightarrow> Inr (HpetReadMmioHandler (w_eax w) s addr data len, s)
      | FlashMmio \<Rightarrow> FlashReadMmioHandler s addr data len
      | VgaCoreMmio \<Rightarrow> bindE (VgaCoreMMIOReadHandler addr len s) (\<lambda>(bs, s). bindE (mmio_fill_bytes bs data) (\<lambda>d. Inr (d, s))))"

definition mmio_write :: "world \<Rightarrow> mmio_dev \<Rightarrow> ULONG \<Rightarrow> ULONG64 \<Rightarrow> ULONG \<Rightarrow> 'z vga_state_scheme \<Rightarrow> 'z vga_state_scheme res" where
  "mmio_write w d addr data len s =
     (case d of
        ApicMmio \<Rightarrow> ApicMMIOWriteHandler (w_env w) s addr data len
      | IoApicMmio \<Rightarrow> IoApicMMIOWriteHandler (w_env w) s addr data len
      | HpetMmio \<Rightarrow> HpetWriteMmioHandler (w_env w) hpet_store s addr data len
      | FlashMmio \<Rightarrow> FlashWriteMmioHandler s addr data len
      | VgaCoreMmio \<Rightarrow> VgaCoreMMIOWriteHandler addr (mmio_bytes data) len s)"

definition timer_run :: "world \<Rightarrow> timer_fn \<Rightarrow> nat \<Rightarrow> 'z vga_state_scheme \<Rightarrow> 'z vga_state_scheme res" where
  "timer_run w h param s =
     (case h of
        PitTimerFn \<Rightarrow> PitTimerHandler (w_env w) param s
      | ApicTimerFn \<Rightarrow> ApicTimerHandler (w_env w) param s
      | CmosUipTimerFn \<Rightarrow> CmosUipTimer (w_env w) (w_clib w) s
      | Ps2TimerFn \<Rightarrow> Ps2TimerHandler (w_env w) s
      | HpetTimerFn \<Rightarrow> HpetTimerHandler (w_env w) hpet_store param s
      | AcpiTimerFn \<Rightarrow> AcpiTimerHandler (w_env w) s
      | IdeTimerFn \<Rightarrow> IdeTimerHandler (w_env w) s
      | VgaCoreTimerFn \<Rightarrow> VgaCoreTimerHandler s
      | GuiTimerFn \<Rightarrow> handle_events s)"

section \<open>One exit of the virtual processor\<close>

text \<open>A double word at a place of the page, and a double word stored there.\<close>

definition pio_get :: "mem \<Rightarrow> nat \<Rightarrow> ULONG res" where
  "pio_get m off =
     foldE (\<lambda>k v. bindE (mem_get m (off + k)) (\<lambda>b. Inr (v OR push_bit (8 * k) (ucast b)))) [0 ..< 4] 0"

definition pio_put :: "nat \<Rightarrow> ULONG \<Rightarrow> mem \<Rightarrow> mem res" where
  "pio_put off v m = foldE (\<lambda>k m. mem_set m (off + k) (ucast (drop_bit (8 * k) v))) [0 ..< 4] m"

definition pio_offset :: "nat \<Rightarrow> BYTE \<Rightarrow> nat" where
  "pio_offset i sz = unat (of_nat i * ucast sz :: DWORD)"

definition io_in :: "world \<Rightarrow> USHORT \<Rightarrow> BYTE \<Rightarrow> nat \<Rightarrow> machine \<Rightarrow> machine res" where
  "io_in w port sz i s =
     bindE (ReadPortIoHandler (port_read w) s (ucast port) (ucast sz)) (\<lambda>(v, s).
     bindE (pio_put (pio_offset i sz) v (pio_data s)) (\<lambda>m. Inr (s\<lparr>pio_data := m\<rparr>)))"

definition io_out :: "world \<Rightarrow> USHORT \<Rightarrow> BYTE \<Rightarrow> nat \<Rightarrow> machine \<Rightarrow> machine res" where
  "io_out w port sz i s =
     bindE (pio_get (pio_data s) (pio_offset i sz)) (\<lambda>v. WritePortIoHandler (port_write w) s (ucast port) v (ucast sz))"

definition exit_io :: "world \<Rightarrow> io_direction \<Rightarrow> USHORT \<Rightarrow> BYTE \<Rightarrow> DWORD \<Rightarrow> machine \<Rightarrow> machine res" where
  "exit_io w dir port sz count s =
     foldE (if dir = GVM_EXIT_IO_IN then io_in w port sz else io_out w port sz) [0 ..< unat count] s"

definition exit_mmio :: "world \<Rightarrow> bool \<Rightarrow> ULONG64 \<Rightarrow> ULONG \<Rightarrow> machine \<Rightarrow> machine res" where
  "exit_mmio w is_write phys_addr len s =
     (if \<not> is_write
      then bindE (MmioReadHandler (mmio_read w) s (ucast phys_addr) (mmio_data s) len) (\<lambda>(d, s). Inr (s\<lparr>mmio_data := d\<rparr>))
      else MmioWriteHandler (mmio_write w) s (ucast phys_addr) (mmio_data s) len)"

definition machine_tick :: "world \<Rightarrow> 'z vga_state_scheme \<Rightarrow> 'z vga_state_scheme res" where
  "machine_tick w s = TimerTick (timer_run w) s (ucast TICK_PERIOD)"

definition MSR_CORE_PERF_FIXED_CTR0 :: ULONG where "MSR_CORE_PERF_FIXED_CTR0 = 0x309"

definition exit_nmi :: "world \<Rightarrow> machine \<Rightarrow> machine res" where
  "exit_nmi w s =
     machine_tick w (snd (DeviceIoControl (w_env w) (GVM_SET_MSRS MSR_CORE_PERF_FIXED_CTR0 (lsh1 48 - ucast TICK_PERIOD)) s))"

text \<open>The window is open: the pending interrupt of the controllers or of the local APIC is acknowledged and injected.\<close>

definition exit_irq_window :: "world \<Rightarrow> machine \<Rightarrow> machine res" where
  "exit_irq_window w s =
     (let s = s\<lparr>request_interrupt_window := 0\<rparr>
      in if testw (svmm_events s) EVENT_PENDING_INTR
         then bindE (PicIAC (w_env w) s) (\<lambda>(vector, s). Inr (SvmmInterrupt (w_env w) s (ucast vector)))
         else if testw (svmm_events s) EVENT_PENDING_LAPIC_INTR
         then bindE (ApicAcknowledgeInterrupt s) (\<lambda>(vector, s). Inr (SvmmInterrupt (w_env w) s (ucast vector)))
         else Inr s)"

definition LAPIC_TPR :: ULONG where "LAPIC_TPR = 0x80"

definition exit_set_tpr :: "world \<Rightarrow> ULONG64 \<Rightarrow> machine \<Rightarrow> machine res" where
  "exit_set_tpr w cr8 s = ApicMMIOWriteHandler (w_env w) s (APIC_DEFAULT_MMIO + LAPIC_TPR) cr8 4"

text \<open>A debug exit hands over to the debugger at a breakpoint, at an address in a debug register, and whenever the guest was let go.\<close>

definition debug_loop :: "world \<Rightarrow> machine \<Rightarrow> machine res" where
  "debug_loop w s = bindE (SvmmDbgLoop (w_dbg w) (w_env w) s) (\<lambda>(t, s). Inr (s\<lparr>dbgState := t\<rparr>))"

definition exit_debug :: "world \<Rightarrow> machine \<Rightarrow> machine res" where
  "exit_debug w s =
     (if \<not> w_debug w then Inr s
      else bindE (SvmmGetHostAddress s (SvmmGetRip s)) (\<lambda>host.
           bindE (host_read s host 1) (\<lambda>b.
           let c = reg_context (Registers s)
           in if b = 0xcc \<or> c_rip c \<in> {c_dr0 c, c_dr1 c, c_dr2 c, c_dr3 c} \<or>
                 dbgState s \<in> {ucast DBG_TYPE_RUN, ucast DBG_TYPE_STEP_OVER, ucast DBG_TYPE_STEP_INTO}
              then debug_loop w s else Inr s)))"

definition handle_exit :: "world \<Rightarrow> vm_exit \<Rightarrow> machine \<Rightarrow> machine res" where
  "handle_exit w e s =
     (case e of
        GVM_EXIT_IO dir port sz count \<Rightarrow> exit_io w dir port sz count s
      | GVM_EXIT_MMIO is_write phys_addr len data \<Rightarrow> exit_mmio w is_write phys_addr len (s\<lparr>mmio_data := data\<rparr>)
      | GVM_EXIT_NMI \<Rightarrow> exit_nmi w s
      | GVM_EXIT_IRQ_WINDOW_OPEN \<Rightarrow> exit_irq_window w s
      | GVM_EXIT_SET_TPR cr8 \<Rightarrow> exit_set_tpr w cr8 s
      | GVM_EXIT_VMX_TIMER \<Rightarrow> machine_tick w s
      | GVM_EXIT_DEBUG \<Rightarrow> exit_debug w s
      | _ \<Rightarrow> Inr s)"

section \<open>The main loop\<close>

text \<open>\<open>None\<close> is the end of the program: the driver refused to run the processor.\<close>

definition main_step :: "world \<Rightarrow> machine \<Rightarrow> machine option res" where
  "main_step w s =
     (case DeviceIoControl (w_env w) GVM_RUN s of (ret, s) \<Rightarrow>
        if \<not> ret then Inr None
        else let s = s\<lparr>pio_data := (0x1000, w_pio w (EnvLog s))\<rparr>; e = w_exit w (EnvLog s);
                 s = snd (SvmmGetRegisters (w_env w) (w_vcpu w) s)
             in bindE (handle_exit w e s) (\<lambda>s. Inr (Some s)))"

inductive main_loop :: "world \<Rightarrow> machine \<Rightarrow> machine \<Rightarrow> bool" for w where
  stay: "main_loop w s s"
| turn: "main_step w s = Inr (Some t) \<Longrightarrow> main_loop w t u \<Longrightarrow> main_loop w s u"

inductive_cases main_loopE: "main_loop w s t"

section \<open>Starting up\<close>

definition CMOS_BOOT_REG :: BYTE where "CMOS_BOOT_REG = 0x3d"
definition CMOS_BOOT_HD :: BYTE where "CMOS_BOOT_HD = 2"

definition main_devices :: "world \<Rightarrow> machine \<Rightarrow> machine res" where
  "main_devices w s =
     (let env = w_env w; run = pci_conf_write w
      in bindE (CmosInitialize env (w_clib w) (TimerInitialize s)) (\<lambda>s.
         bindE (ParallelInitialize env (PciInitialize s)) (\<lambda>s.
         bindE (SerialInitialize env s) (\<lambda>s.
         bindE (I440fxInitialize env run (w_any w) s) (\<lambda>s.
         bindE (Piix3Initialize env run s) (\<lambda>s.
         bindE (PicInitialize env s) (\<lambda>s.
         bindE (DmaInitialize env s) (\<lambda>s.
         bindE (Ps2Initialize env s) (\<lambda>s.
         bindE (BiosInitialize env s) (\<lambda>s.
         bindE (PitInitialize env s) (\<lambda>s.
         bindE (VgaCoreInitialize env (w_ui w) s) (\<lambda>s.
         bindE (IdeInitialize env s) (\<lambda>s.
         bindE (HardDiskInitialize env (w_disk w) s) (\<lambda>s.
         bindE (IoApicInitialize env s) (\<lambda>s.
         bindE (ApicInitialize env s) (\<lambda>s.
         bindE (AcpiInitialize env s) (\<lambda>s.
         bindE (HpetInitialize env s) (\<lambda>s.
         bindE (CmosSetupMemory s (RamSize s)) (\<lambda>s.
         Inr (CmosSetRegister s CMOS_BOOT_REG CMOS_BOOT_HD))))))))))))))))))))"

definition main_init :: "world \<Rightarrow> machine \<Rightarrow> machine option res" where
  "main_init w s =
     (let s = s\<lparr>RamSize := 0x40000000\<rparr>; total = RamSize s + ROM_SIZE + PAGE_SIZE + ucast SMM_RAM_SIZE
      in case ask_env (w_env w) (Calloc (unat total)) s of (ok, s) \<Rightarrow>
         if \<not> ok then Inr None
         else let s = s\<lparr>HostRam := w_ram w, MemoryEnd := w_ram w + total\<rparr>
              in bindE (gvm_init (w_env w) (w_cpuid w) (w_nmsrs w) (w_ram w) (RamSize s) s) (\<lambda>(status, s).
                 if status < 0 then Inr None
                 else let s = snd (SvmmSetRegisters (w_env w) (SvmmInitializeRegisterState s))
                      in bindE (main_devices w s) (\<lambda>s.
                         bindE (FlashInitialize (w_env w) (w_firmware w) s) (\<lambda>s.
                         bindE (SvmmLoadRom (w_vgabios_ok w) (w_vgabios w) TYPE_VGA_BIOS s) (\<lambda>(status, s).
                         if status < 0 then Inr None
                         else let s = snd (SvmmSetRegisters (w_env w) s)
                              in if \<not> w_debug w then Inr (Some s)
                                 else bindE (SvmmDbgInit (w_dbg w) (w_env w) s) (\<lambda>s. bindE (debug_loop w s) (\<lambda>s. Inr (Some s))))))))"

end
