(* ===== verification/Machine_Cycle.thy ===== *)
theory Machine_Cycle
  imports Machine
begin

text \<open>
  Properties of one iteration of the main loop: what an exit of the virtual processor makes the device models and the driver do.
\<close>

section \<open>An interrupt from the line of a device to the processor\<close>

lemma gvm_get_registers_intr:
  "Pic (snd (gvm_get_registers env vcpu s)) = Pic s" "svmm_events (snd (gvm_get_registers env vcpu s)) = svmm_events s"
  by (simp_all add: gvm_get_registers_def DeviceIoControl_def ask_env_def Let_def split: if_splits)

text \<open>What the master controller looks like once a line has made an event pending.\<close>

definition master_pending :: "nat \<Rightarrow> BYTE \<Rightarrow> 'z pic_state_scheme \<Rightarrow> bool" where
  "master_pending k offset s \<longleftrightarrow> pic_ready s \<and> testw (svmm_events s) EVENT_PENDING_INTR \<and>
     CurrentOffset (Pic s Master) = offset \<and> InterruptNumber (Pic s Master) = of_nat k + offset \<and>
     InterruptRequest (Pic s Master) = lsh1 k \<and> InterruptInService (Pic s Master) = 0 \<and> \<not> bit (EdgeLevel (Pic s Master)) k"

lemma raise_master_pending:
  assumes s: "pic_ready s" "pic_idle (Pic s Master)" and irq: "unat irq \<le> 7" "irq \<noteq> 2"
    and line: "\<not> bit (InterruptMask (Pic s Master)) (unat irq)" "\<not> bit (InterruptPin (Pic s Master)) (unat irq)"
      "\<not> bit (EdgeLevel (Pic s Master)) (unat irq)"
  shows "specE {Exit} (\<lambda>r. request_interrupt_window r = 1 \<and> master_pending (unat irq) (CurrentOffset (Pic s Master)) r) (PicRaiseIrq env s irq)"
proof -
  let ?k = "unat irq"
  have k: "line_bit irq = ?k" "line_pic irq = Master" "\<not> irq > 15" "unat irq \<noteq> 2"
    using irq by (auto simp: line_bit_mod line_pic_def word_less_nat_alt word_unat_eq_iff)
  have after: "specE {Exit} (\<lambda>r. request_interrupt_window r = 1 \<and> master_pending ?k (CurrentOffset (Pic s Master)) r)
      (PicService env Master (set_line Master ?k r))" if r: "pic_ready r" "Pic r = Pic s" for r
  proof -
    let ?l = "set_line Master ?k r"
    have l: "pic_ready ?l" using pic_ready_set_line [OF r(1)] k(4) by blast
    have pm: "Pic ?l Master = (Pic s Master)\<lparr>InterruptPin := InterruptPin (Pic s Master) OR lsh1 ?k, InterruptRequest := lsh1 ?k\<rparr>"
      using r(2) s(2) by (simp add: set_line_def pic_idle_def)
    have serv: "PicService env Master ?l = Inr ((upd_pic Master (\<lambda>p. p\<lparr>PicRaised := 1, InterruptNumber := of_nat ?k + CurrentOffset p\<rparr>) ?l)
        \<lparr>request_interrupt_window := 1, svmm_events := svmm_events ?l OR EVENT_PENDING_INTR\<rparr>)" (is "_ = Inr ?a")
      by (rule PicService_Master_single [OF l]) (use pm s(2) irq(1) line in \<open>auto simp: pic_idle_def\<close>)
    have "pic_ready ?a" using PicService_Master [OF l, of env] serv by simp
    then show ?thesis unfolding serv using pm s(2) line(3) by (simp add: master_pending_def pic_idle_def EVENT_PENDING_INTR_def bit_or_iff)
  qed
  show ?thesis unfolding PicRaiseIrq_def
    using irq by (simp only: if_True not_False_eq_True)
      (rule specE_bindI [OF IoApicRaiseIrq_pic [OF s(1)]], use k line(2) after in auto)
qed

lemma PicIAC_pending:
  assumes "master_pending k offset s" and "k \<le> 7" and "k \<noteq> 2"
  shows "\<exists>t. PicIAC env s = Inr (offset + of_nat k, t) \<and> InterruptRequest (Pic t Master) = 0 \<and>
    InterruptInService (Pic t Master) = lsh1 k \<and> request_interrupt_window t = request_interrupt_window s"
proof -
  have s: "pic_ready s" using assms(1) by (simp add: master_pending_def)
  let ?b = "upd_pic Master (pic_in_service k) (upd_pic Master (pic_ack k) (s\<lparr>svmm_events := svmm_events s AND NOT EVENT_PENDING_INTR\<rparr>))"
  have b: "pic_ready ?b" using pic_ready_no_event [OF s] assms(2) by (rule pic_ready_ack)
  have kk: "unat (of_nat k :: BYTE) = k" using assms(2) by (simp add: unat_BYTE_of_16)
  have pb: "InterruptRequest (Pic ?b Master) = 0" "InterruptInService (Pic ?b Master) = lsh1 k"
    using assms(1) by (simp_all add: pic_ack_def pic_in_service_def master_pending_def)
  have "PicIAC env s = Inr (offset + of_nat k, ?b)"
    using PicService_none [OF b pb(1), of env] assms kk by (simp add: PicIAC_def Let_def pic_ack_def master_pending_def add.commute)
  then show ?thesis using pb by (intro exI [of _ ?b]) (simp add: upd_pic_def)
qed

lemma exit_irq_window_pending:
  assumes "master_pending k offset s" and "k \<le> 7" and "k \<noteq> 2"
  shows "\<exists>u. exit_irq_window w s = Inr u \<and> last (EnvLog u) = GVM_INTERRUPT (ucast (offset + of_nat k)) \<and>
    InterruptRequest (Pic u Master) = 0 \<and> InterruptInService (Pic u Master) = lsh1 k \<and> request_interrupt_window u = 0"
proof -
  have m: "master_pending k offset (s\<lparr>request_interrupt_window := 0\<rparr>)" using assms(1) by (simp add: master_pending_def pic_ready_def)
  obtain t where "PicIAC (w_env w) (s\<lparr>request_interrupt_window := 0\<rparr>) = Inr (offset + of_nat k, t)"
    "InterruptRequest (Pic t Master) = 0" "InterruptInService (Pic t Master) = lsh1 k" "request_interrupt_window t = 0"
    using PicIAC_pending [OF m assms(2,3), of "w_env w"] by auto
  then show ?thesis using assms(1)
    by (simp add: exit_irq_window_def SvmmInterrupt_def DeviceIoControl_def ask_env_def master_pending_def)
qed

text \<open>C3. A device's line reaches the processor: with the master controller idle, raising an unmasked edge-triggered line
  other than 2 makes the monitor ask for an interrupt window; in the iteration of the main loop in which the driver reports
  that the window is open the monitor injects exactly the vector of that line, which is then in service, and withdraws the
  request for the window.\<close>

theorem raised_line_is_injected:
  assumes "pic_ready s" "pic_idle (Pic s Master)" and "unat irq \<le> 7" "irq \<noteq> 2"
    and "\<not> bit (InterruptMask (Pic s Master)) (unat irq)" "\<not> bit (InterruptPin (Pic s Master)) (unat irq)"
      "\<not> bit (EdgeLevel (Pic s Master)) (unat irq)"
    and "\<And>log. w_env w log GVM_RUN" and "\<And>log. w_exit w log = GVM_EXIT_IRQ_WINDOW_OPEN"
  shows "specE {Exit} (\<lambda>r. request_interrupt_window r = 1 \<and> (\<exists>u. main_step w r = Inr (Some u) \<and>
      last (EnvLog u) = GVM_INTERRUPT (ucast (CurrentOffset (Pic s Master) + irq)) \<and> InterruptRequest (Pic u Master) = 0 \<and>
      InterruptInService (Pic u Master) = lsh1 (unat irq) \<and> request_interrupt_window u = 0))
    (PicRaiseIrq (w_env w) s irq)"
proof (rule specE_mono [OF raise_master_pending [OF assms(1-7)]])
  fix r :: machine
  let ?o = "CurrentOffset (Pic s Master)"
  assume r: "request_interrupt_window r = 1 \<and> master_pending (unat irq) ?o r"
  define a where "a = snd (SvmmGetRegisters (w_env w) (w_vcpu w)
      (r\<lparr>EnvLog := EnvLog r @ [GVM_RUN], pio_data := (0x1000, w_pio w (EnvLog r @ [GVM_RUN]))\<rparr>))"
  have "main_step w r = bindE (exit_irq_window w a) (\<lambda>s. Inr (Some s))"
    using assms(8,9) by (simp add: main_step_def DeviceIoControl_def ask_env_def handle_exit_def a_def)
  moreover have "master_pending (unat irq) ?o a"
    using r by (simp add: a_def SvmmGetRegisters_def master_pending_def pic_ready_def gvm_get_registers_intr)
  ultimately show "request_interrupt_window r = 1 \<and> (\<exists>u. main_step w r = Inr (Some u) \<and>
      last (EnvLog u) = GVM_INTERRUPT (ucast (?o + irq)) \<and> InterruptRequest (Pic u Master) = 0 \<and>
      InterruptInService (Pic u Master) = lsh1 (unat irq) \<and> request_interrupt_window u = 0)"
    using exit_irq_window_pending [of "unat irq" ?o a w] assms(3,4) r by (force simp: word_unat_eq_iff)
qed simp

text \<open>A program in which nothing has run yet, and a driver that accepts every request and reports an open window.\<close>

definition machine_zero :: machine where
  "machine_zero = dbg_state.extend dbg_zero (machine.fields (0x1000, \<lambda>_. 0) 0 0)"

definition window_world :: world where
  "window_world = \<lparr>w_env = (\<lambda>_ _. True),
     w_vcpu = (\<lambda>_. (to_kvm_regs (Registers (cpu_zero)), to_kvm_sregs (Registers cpu_zero))),
     w_exit = (\<lambda>_. GVM_EXIT_IRQ_WINDOW_OPEN), w_pio = (\<lambda>_ _. 0), w_clib = clib_example, w_eax = 0, w_any = 0, w_ram = 0x10000,
     w_cpuid = [], w_nmsrs = 0, w_ui = True, w_disk = None, w_firmware = None, w_vgabios = None, w_vgabios_ok = True,
     w_debug = False, w_dbg = dbg_peer\<rparr>"

definition pic_machine :: machine where
  "pic_machine = machine_zero\<lparr>IoApic := IoApic pic_example, Pic := Pic pic_example\<rparr>"

lemma pic_machine_ready: "pic_ready pic_machine"
  using pic_example_ready
  by (simp add: pic_machine_def pic_ready_def machine_zero_def machine.defs dbg_zero_def dbg_state.defs vga_zero_def gui_zero_def key_zero_defs key_state.defs gui_state.defs
      vga_state.defs EVENT_PENDING_INTR_def)

lemma pic_machine_lines:
  "pic_idle (Pic pic_machine Master)" "InterruptMask (Pic pic_machine Master) = 0" "InterruptPin (Pic pic_machine Master) = 0"
  "EdgeLevel (Pic pic_machine Master) = 0" "CurrentOffset (Pic pic_machine Master) = 0x08"
  by (simp_all add: pic_machine_def pic_example_idle)

lemma window_world_simps: "w_env window_world = (\<lambda>_ _. True)" "w_exit window_world = (\<lambda>_. GVM_EXIT_IRQ_WINDOW_OPEN)"
  by (simp_all add: window_world_def)

theorem raised_line_is_injected_witness:
  "specE {Exit} (\<lambda>r. \<exists>u. main_step window_world r = Inr (Some u) \<and> last (EnvLog u) = GVM_INTERRUPT 0x0d) (PicRaiseIrq (\<lambda>_ _. True) pic_machine 5)"
proof -
  have "specE {Exit} (\<lambda>r. request_interrupt_window r = 1 \<and> (\<exists>u. main_step window_world r = Inr (Some u) \<and>
      last (EnvLog u) = GVM_INTERRUPT (ucast (CurrentOffset (Pic pic_machine Master) + 5)) \<and> InterruptRequest (Pic u Master) = 0 \<and>
      InterruptInService (Pic u Master) = lsh1 (unat (5 :: BYTE)) \<and> request_interrupt_window u = 0))
    (PicRaiseIrq (w_env window_world) pic_machine 5)"
    by (rule raised_line_is_injected [OF pic_machine_ready]) (simp_all add: pic_machine_lines window_world_simps)
  then have "specE {Exit} (\<lambda>r. \<exists>u. main_step window_world r = Inr (Some u) \<and> last (EnvLog u) = GVM_INTERRUPT 0x0d)
      (PicRaiseIrq (w_env window_world) pic_machine 5)"
    by (rule specE_mono) (auto simp: pic_machine_lines)
  then show ?thesis by (simp only: window_world_simps)
qed

end
