(* ===== verification/Machine_Disk.thy ===== *)
theory Machine_Disk
  imports Machine_Cycle
begin

text \<open>
  String input from the disk: the guest's OUT and REP INS instructions come as I/O exits of the virtual processor, pass
  through the port bus to the drive and back into the page that the driver copies to the guest.
\<close>

section \<open>The I/O page\<close>

lemma pio_put_in:
  assumes "off + 4 \<le> fst m"
  shows "pio_put off v m = Inr (fst m, \<lambda>i. if off \<le> i \<and> i < off + 4 then ucast (drop_bit (8 * (i - off)) v) else snd m i)"
proof -
  have "(\<lambda>i. if off \<le> i \<and> i < off + 4 then ucast (drop_bit (8 * (i - off)) v) else snd m i) =
      (snd m)(off := ucast v, off + 1 := ucast (drop_bit 8 v), off + 2 := ucast (drop_bit 16 v), off + 3 := ucast (drop_bit 24 v))"
  proof
    fix i
    consider "i < off" | "i = off" | "i = off + 1" | "i = off + 2" | "i = off + 3" | "off + 4 \<le> i" by linarith
    then show "(if off \<le> i \<and> i < off + 4 then ucast (drop_bit (8 * (i - off)) v) else snd m i) =
      ((snd m)(off := ucast v, off + 1 := ucast (drop_bit 8 v), off + 2 := ucast (drop_bit 16 v), off + 3 := ucast (drop_bit 24 v))) i"
      by cases simp_all
  qed
  then show ?thesis using assms by (simp add: pio_put_def upt4 mem_set_def)
qed

definition page_bytes :: "nat \<Rightarrow> machine \<Rightarrow> BYTE list" where
  "page_bytes n s = map (snd (pio_data s)) [0 ..< n]"

lemma le_bytes_nth: "le_bytes n (v :: ULONG) = map (\<lambda>k. ucast (drop_bit (8 * k) v)) [0 ..< n]"
  by (simp add: le_bytes_def)

lemma page_bytes_put:
  assumes "n \<le> 4"
  shows "map (\<lambda>i. if off \<le> i \<and> i < off + 4 then ucast (drop_bit (8 * (i - off)) v) else f i) [0 ..< off + n] =
    map f [0 ..< off] @ le_bytes n (v :: ULONG)"
proof -
  have "map (\<lambda>i. if off \<le> i \<and> i < off + 4 then ucast (drop_bit (8 * (i - off)) v) else f i) [off ..< off + n] = le_bytes n v"
    using assms by (intro nth_equalityI) (simp_all add: le_bytes_nth)
  then show ?thesis by (simp add: upt_add_eq_append [of 0 off n])
qed

lemma pio_offset_eq: "i * unat sz < 0x1000 \<Longrightarrow> pio_offset i sz = i * unat (sz :: BYTE)"
proof -
  assume i: "i * unat sz < 0x1000"
  have "(ucast sz :: DWORD) = of_nat (unat sz)" by simp
  then have "of_nat i * ucast sz = (of_nat (i * unat sz) :: DWORD)" by (simp only: of_nat_mult)
  then have "pio_offset i sz = unat (of_nat (i * unat sz) :: DWORD)" unfolding pio_offset_def by (simp only:)
  then show ?thesis using i by (simp only: unat_of_nat) simp
qed

lemma io_in_step:
  assumes "ReadPortIoHandler (port_read w) s (ucast port) (ucast sz) = Inr (v, t)" and "pio_data t = pio_data s"
    and "fst (pio_data s) = 0x1000" and "i * unat sz + 4 \<le> 0x1000" and "unat sz \<le> 4"
  shows "\<exists>m. io_in w port sz i s = Inr (t\<lparr>pio_data := m\<rparr>) \<and> fst m = 0x1000 \<and>
    page_bytes (Suc i * unat sz) (t\<lparr>pio_data := m\<rparr>) = page_bytes (i * unat sz) s @ le_bytes (unat sz) v"
proof -
  let ?off = "i * unat sz"
  have o: "pio_offset i sz = ?off" by (rule pio_offset_eq) (use assms(4) in simp)
  have "\<exists>m. pio_put ?off v (pio_data s) = Inr m \<and> fst m = 0x1000 \<and>
    map (snd m) [0 ..< ?off + unat sz] = map (snd (pio_data s)) [0 ..< ?off] @ le_bytes (unat sz) v"
    using pio_put_in [of ?off "pio_data s" v] page_bytes_put [OF assms(5), of ?off v "snd (pio_data s)"] assms(3,4) by simp
  then show ?thesis using assms(1,2) by (auto simp: io_in_def o page_bytes_def add.commute)
qed

section \<open>A block of the disk through string input\<close>

definition disk_ports :: "'z io_state_scheme \<Rightarrow> bool" where
  "disk_ports s \<longleftrightarrow> RtlTestBit (PortIoBitmap s) 0x1f0 = Inr True \<and> ReadPortHandlers s 0x1f0 = Some HardDiskPort \<and>
     RtlTestBit (PortIoBitmap s) 0x1f7 = Inr True \<and> WritePortHandlers s 0x1f7 = Some HardDiskPort"

definition disk_machine :: "'z ata_state_scheme \<Rightarrow> 'z ata_state_scheme \<Rightarrow> bool" where
  "disk_machine s t \<longleftrightarrow> same_disk s t \<and> PortIoBitmap t = PortIoBitmap s \<and> ReadPortHandlers t = ReadPortHandlers s \<and>
     WritePortHandlers t = WritePortHandlers s"

lemma disk_machine_trans: "disk_machine s t \<Longrightarrow> disk_machine t u \<Longrightarrow> disk_machine s u"
  by (auto simp: disk_machine_def intro: same_disk_trans)

lemma disk_machine_ports: "disk_machine s t \<Longrightarrow> disk_ports t = disk_ports s"
  by (simp add: disk_machine_def disk_ports_def)

lemma kept_machine: "ata_kept 0 0 s t \<Longrightarrow> disk_machine s t"
  by (simp add: ata_kept_def disk_machine_def)

lemma kept_page:
  fixes s t :: machine
  assumes "ata_kept 0 0 s t"
  shows "pio_data t = pio_data s"
proof -
  have "ata_state.more t = ata_state.more s" using assms by (simp add: ata_kept_def)
  moreover have "pio_data (u :: machine) = pio_data (ata_state.extend ata_zero (ata_state.more u))" for u
    by (cases u) (simp add: ata_state.defs key_zero_defs)
  ultimately show ?thesis by metis
qed

lemma page_update_disk [simp]:
  fixes s :: machine
  shows "ata0 (s\<lparr>pio_data := m\<rparr>) = ata0 s" "ctl 0 0 (s\<lparr>pio_data := m\<rparr>) = ctl 0 0 s"
    "disk_machine s0 (s\<lparr>pio_data := m\<rparr>) = disk_machine s0 s"
  by (simp_all add: ata0_def drv_def ctl_def disk_machine_def same_disk_def)

lemma read_data_port:
  "disk_ports s \<Longrightarrow> ReadPortIoHandler (port_read w) s 0x1f0 len = HardDiskPortIoReadHandler (w_env w) 0x1f0 len s"
  by (simp add: disk_ports_def ReadPortIoHandler_def port_read_def)

lemma size_cases:
  assumes "sz \<in> {1, 2, 4 :: BYTE}"
  shows "(ucast sz :: ULONG) \<in> {1, 2, 4}" "unat (ucast sz :: ULONG) = unat sz" "0 < unat sz" "unat sz \<le> 4"
    "512 div unat sz * unat sz = 512"
  using assms by auto

text \<open>The state between two reads of a block: \<open>i\<close> bytes of the sector have arrived in the page.\<close>

definition ins_state :: "nat \<Rightarrow> BYTE list \<Rightarrow> nat \<Rightarrow> ULONG64 \<Rightarrow> machine \<Rightarrow> bool" where
  "ins_state i sec n lb s \<longleftrightarrow> ata0 s \<and> disk_ports s \<and> fst (pio_data s) = 0x1000 \<and> pio i sec n lb (ctl 0 0 s) \<and>
     page_bytes i s = take i sec"

lemma ins_read:
  assumes s: "ins_state (i * unat sz) sec n lb s" and sz: "sz \<in> {1, 2, 4}" and i: "Suc i * unat sz < 512"
  shows "\<exists>t. io_in w 0x1f0 sz i s = Inr t \<and> ins_state (Suc i * unat sz) sec n lb t \<and> disk_machine s t"
proof -
  note z = size_cases [OF sz]
  have f: "ata0 s" "disk_ports s" "fst (pio_data s) = 0x1000" "pio (i * unat sz) sec n lb (ctl 0 0 s)" "page_bytes (i * unat sz) s = take (i * unat sz) sec"
    using s by (simp_all add: ins_state_def)
  let ?t = "advance 0 0 (ucast sz) s"
  obtain v where v: "le_bytes (unat sz) v = take (unat sz) (drop (i * unat sz) sec)"
    "HardDiskPortIoReadHandler (w_env w) 0x1f0 (ucast sz) s = Inr (v, ?t)"
    using pio_read [OF f(1,4) z(1), of "w_env w"] i z(2) by auto
  have k: "ata_kept 0 0 s ?t" by (simp add: advance_def)
  have r: "ReadPortIoHandler (port_read w) s (ucast (0x1f0 :: USHORT)) (ucast sz) = Inr (v, ?t)"
    using v(2) read_data_port [OF f(2)] by simp
  obtain m where m: "io_in w 0x1f0 sz i s = Inr (?t\<lparr>pio_data := m\<rparr>)" "fst m = 0x1000"
    "page_bytes (Suc i * unat sz) (?t\<lparr>pio_data := m\<rparr>) = page_bytes (i * unat sz) s @ le_bytes (unat sz) v"
    using io_in_step [OF r kept_page [OF k] f(3) _ z(4), of i] i by auto
  have "pio (Suc i * unat sz) sec n lb (ctl 0 0 ?t)" using pio_advance [OF f(4), of "ucast sz"] z(2) by (simp add: add.commute)
  moreover have "page_bytes (Suc i * unat sz) (?t\<lparr>pio_data := m\<rparr>) = take (Suc i * unat sz) sec"
    unfolding m(3) f(5) v(1) using take_add [of "i * unat sz" "unat sz" sec] by (simp add: add.commute)
  moreover have "disk_ports (?t\<lparr>pio_data := m\<rparr>)" using f(2) disk_machine_ports [OF kept_machine [OF k]] by (simp add: disk_ports_def)
  ultimately show ?thesis using m(1,2) ata0_kept [OF k f(1)] kept_machine [OF k] by (simp add: ins_state_def)
qed

lemma ins_within:
  assumes "ins_state 0 sec n lb s" and "sz \<in> {1, 2, 4}" and "m * unat sz < 512"
  shows "\<exists>t. foldE (io_in w 0x1f0 sz) [0 ..< m] s = Inr t \<and> ins_state (m * unat sz) sec n lb t \<and> disk_machine s t"
  using assms(3)
proof (induction m)
  case 0
  then show ?case using assms(1) by (simp add: disk_machine_def)
next
  case (Suc m)
  obtain t where t: "foldE (io_in w 0x1f0 sz) [0 ..< m] s = Inr t" "ins_state (m * unat sz) sec n lb t" "disk_machine s t"
    using Suc by auto
  obtain u where "io_in w 0x1f0 sz m t = Inr u" "ins_state (Suc m * unat sz) sec n lb u" "disk_machine t u"
    using ins_read [OF t(2) assms(2) Suc.prems, of w] by blast
  then show ?case using t(1) disk_machine_trans [OF t(3)] by (simp add: foldE_append)
qed

text \<open>One REP INS of a whole sector, with the step to the next one.\<close>

lemma ins_block:
  assumes s: "ins_state 0 sec n lb s" and sz: "sz \<in> {1, 2, 4}"
    and blk: "\<And>u. ata0 u \<Longrightarrow> disk_machine s u \<Longrightarrow> pio 512 sec n lb (ctl 0 0 u) \<Longrightarrow>
      \<exists>t. next_block (w_env w) 0 0 u = Inr t \<and> Q (ctl 0 0 t) \<and> ata_kept 0 0 u t"
  shows "\<exists>t. handle_exit w (GVM_EXIT_IO GVM_EXIT_IO_IN 0x1f0 sz (of_nat (512 div unat sz))) s = Inr t \<and> page_bytes 512 t = sec \<and>
    Q (ctl 0 0 t) \<and> ata0 t \<and> disk_machine s t \<and> fst (pio_data t) = 0x1000"
proof -
  note z = size_cases [OF sz]
  define m where "m = 512 div unat sz - 1"
  have m: "512 div unat sz = Suc m" "m * unat sz + unat sz = 512" using sz by (auto simp: m_def)
  obtain u where u: "foldE (io_in w 0x1f0 sz) [0 ..< m] s = Inr u" "ins_state (m * unat sz) sec n lb u" "disk_machine s u"
    using ins_within [OF s sz, of m w] m(2) z(3) by auto
  have f: "ata0 u" "disk_ports u" "fst (pio_data u) = 0x1000" "pio (m * unat sz) sec n lb (ctl 0 0 u)" "page_bytes (m * unat sz) u = take (m * unat sz) sec"
    using u(2) by (simp_all add: ins_state_def)
  have l: "length sec = 512" using s by (auto simp: ins_state_def pio_def)
  let ?w = "advance 0 0 (ucast sz) u"
  obtain v where v: "le_bytes (unat sz) v = drop (m * unat sz) sec"
    "HardDiskPortIoReadHandler (w_env w) 0x1f0 (ucast sz) u = bindE (next_block (w_env w) 0 0 ?w) (\<lambda>s. Inr (v, s))"
    using pio_read [OF f(1,4) z(1), of "w_env w"] m(2) z(2) l by auto
  have k: "ata_kept 0 0 u ?w" by (simp add: advance_def)
  have "pio 512 sec n lb (ctl 0 0 ?w)" using pio_advance [OF f(4), of "ucast sz"] m(2) z(2) by simp
  then obtain t where t: "next_block (w_env w) 0 0 ?w = Inr t" "Q (ctl 0 0 t)" "ata_kept 0 0 ?w t"
    using blk [OF ata0_kept [OF k f(1)] disk_machine_trans [OF u(3) kept_machine [OF k]]] by blast
  have kt: "ata_kept 0 0 u t" by (rule ata_kept_trans [OF k t(3)])
  have r: "ReadPortIoHandler (port_read w) u (ucast (0x1f0 :: USHORT)) (ucast sz) = Inr (v, t)"
    using v(2) t(1) read_data_port [OF f(2)] by simp
  obtain p where p: "io_in w 0x1f0 sz m u = Inr (t\<lparr>pio_data := p\<rparr>)" "fst p = 0x1000"
    "page_bytes (Suc m * unat sz) (t\<lparr>pio_data := p\<rparr>) = page_bytes (m * unat sz) u @ le_bytes (unat sz) v"
    using io_in_step [OF r kept_page [OF kt] f(3) _ z(4), of m] m(2) by auto
  have "page_bytes 512 (t\<lparr>pio_data := p\<rparr>) = sec" using p(3) m(2) f(5) v(1) by (simp add: add.commute)
  moreover have "unat (of_nat (512 div unat sz) :: DWORD) = Suc m" using sz m(1) by auto
  ultimately show ?thesis using u(1) p(1,2) t(2) ata0_kept [OF kt f(1)] disk_machine_trans [OF u(3) kept_machine [OF kt]]
    by (simp add: handle_exit_def exit_io_def foldE_append)
qed

section \<open>A read command of the guest\<close>

text \<open>The pages that \<open>n\<close> string inputs of one sector each hand to the guest.\<close>

fun read_pages :: "world \<Rightarrow> BYTE \<Rightarrow> nat \<Rightarrow> machine \<Rightarrow> (BYTE list \<times> machine) res" where
  "read_pages w sz 0 s = Inr ([], s)"
| "read_pages w sz (Suc n) s =
     bindE (handle_exit w (GVM_EXIT_IO GVM_EXIT_IO_IN 0x1f0 sz (of_nat (512 div unat sz))) s) (\<lambda>s.
     bindE (read_pages w sz n s) (\<lambda>(bs, t). Inr (page_bytes 512 s @ bs, t)))"

lemma read_pages_sectors:
  assumes "ins_state 0 sec n lb s" and "sz \<in> {1, 2, 4}" and "unat lb + n \<le> unat (disk_sectors s)"
    and "\<And>k. k < n \<Longrightarrow> disk_sector s (lb + of_nat k) = Inr (secs k) \<and> length (secs k) = 512"
  shows "\<exists>t. read_pages w sz (Suc n) s = Inr (sec @ concat (map secs [0 ..< n]), t) \<and> pio_done (ctl 0 0 t)"
  using assms
proof (induction n arbitrary: s sec lb secs)
  case 0
  have "\<exists>t. next_block (w_env w) 0 0 u = Inr t \<and> pio_done (ctl 0 0 t) \<and> ata_kept 0 0 u t"
    if "pio 512 sec 0 lb (ctl 0 0 u)" for u :: machine
    by (rule next_block_done [OF that])
  then show ?case using ins_block [OF "0.prems"(1,2), of w pio_done] by auto
next
  case (Suc n)
  have sec0: "disk_sector s lb = Inr (secs 0)" "length (secs 0) = 512" using Suc.prems(4) [of 0] by simp_all
  have lt: "lb < disk_sectors s" using Suc.prems(3) by (simp add: word_less_nat_alt)
  have blk: "\<exists>t. next_block (w_env w) 0 0 u = Inr t \<and> pio 0 (secs 0) n (lb + 1) (ctl 0 0 t) \<and> ata_kept 0 0 u t"
    if "ata0 u" "disk_machine s u" "pio 512 sec (Suc n) lb (ctl 0 0 u)" for u
  proof -
    have d: "same_disk s u" using that(2) by (simp add: disk_machine_def)
    show ?thesis
      by (rule next_block_more [OF that(1,3)]) (use lt sec0 disk_sectors_same [OF d] disk_sector_same [OF d] in simp_all)
  qed
  obtain t where t: "handle_exit w (GVM_EXIT_IO GVM_EXIT_IO_IN 0x1f0 sz (of_nat (512 div unat sz))) s = Inr t" "page_bytes 512 t = sec"
    "pio 0 (secs 0) n (lb + 1) (ctl 0 0 t)" "ata0 t" "disk_machine s t" "fst (pio_data t) = 0x1000"
    using ins_block [OF Suc.prems(1,2), of w "pio 0 (secs 0) n (lb + 1)"] blk by blast
  have d: "same_disk s t" using t(5) by (simp add: disk_machine_def)
  have "ins_state 0 (secs 0) n (lb + 1) t"
    using t(3-6) Suc.prems(1) disk_machine_ports [OF t(5)] by (simp add: ins_state_def page_bytes_def)
  moreover have "unat lb + 1 < 2 ^ 64" using Suc.prems(3) unsigned_less [of "disk_sectors s", where 'a = nat] by simp
  then have "unat (lb + 1) = unat lb + 1" by (simp add: unat_word_ariths)
  ultimately obtain u where "read_pages w sz (Suc n) t = Inr (secs 0 @ concat (map (\<lambda>k. secs (Suc k)) [0 ..< n]), u)" "pio_done (ctl 0 0 u)"
    using Suc.IH [of "secs 0" "lb + 1" t "\<lambda>k. secs (Suc k)"] Suc.prems(2,3,4) disk_sectors_same [OF d] sectors_behind [OF d Suc.prems(4)]
    by auto
  then show ?case unfolding concat_shift using t(1,2) by simp
qed

text \<open>A one-byte OUT passes on the double word at the start of the page.\<close>

lemma io_out_byte:
  "pio_get (pio_data s) 0 = Inr v \<Longrightarrow>
    handle_exit w (GVM_EXIT_IO GVM_EXIT_IO_OUT port 1 1) s = WritePortIoHandler (port_write w) s (ucast port) v 1"
proof -
  assume v: "pio_get (pio_data s) 0 = Inr v"
  have "foldE f [] = Inr" for f :: "nat \<Rightarrow> machine \<Rightarrow> machine res" by (rule ext) simp
  then show ?thesis using v by (simp add: handle_exit_def exit_io_def io_out_def pio_offset_def)
qed

lemma write_command_port:
  "disk_ports s \<Longrightarrow> WritePortIoHandler (port_write w) s 0x1f7 v len = HardDiskPortIoWriteHandler (w_env w) 0x1f7 v len s"
  by (simp add: disk_ports_def WritePortIoHandler_def port_write_def)

text \<open>C1. The disk, seen by the guest: the OUT instruction with READ SECTORS, as the double word the driver left in the I/O page,
  followed by one REP INS per sector, with any access width, puts exactly the bytes of the addressed sectors of the disk image,
  in order, into the pages that the driver copies to the guest, and leaves the drive ready. This covers the exits of the
  virtual processor, the port bus, the drive and the image, for 28-bit and 48-bit addresses and every sector count.\<close>

theorem guest_reads_sectors:
  assumes "ata0 s" and "disk_ports s" and "fst (pio_data s) = 0x1000" and "pio_get (pio_data s) 0 = Inr val"
    and "\<not> bit (Status (ctl 0 0 s)) 7" and "AddressMode (ctl 0 0 s) \<noteq> 0" and "DisableIrq (ctl 0 0 s) \<noteq> 0"
    and "Buffer (ctl 0 0 s) = Some b" and "512 \<le> length b"
    and "(val, ext) \<in> {(0x20, False), (0x21, False), (0x24, True)}" and "sz \<in> {1, 2, 4}"
    and "n = transfer_count ext (ctl 0 0 s)" and "lb = transfer_start ext (ctl 0 0 s)"
    and "unat lb + n \<le> unat (disk_sectors s)" and "unat lb + n < 2 ^ (if ext then 48 else 32)"
    and "\<And>k. k < n \<Longrightarrow> disk_sector s (lb + of_nat k) = Inr (secs k) \<and> length (secs k) = 512"
  shows "\<exists>t u. handle_exit w (GVM_EXIT_IO GVM_EXIT_IO_OUT 0x1f7 1 1) s = Inr t \<and>
    read_pages w sz n t = Inr (concat (map secs [0 ..< n]), u) \<and> pio_done (ctl 0 0 u)"
proof -
  obtain m where m: "n = Suc m" using transfer_count_pos(1) [of ext "ctl 0 0 s"] assms(12) gr0_implies_Suc by blast
  have s0: "disk_sector s lb = Inr (secs 0)" "length (secs 0) = 512" using assms(16) [of 0] m by simp_all
  obtain t where t: "HardDiskPortIoWriteHandler (w_env w) 0x1f7 val 1 s = Inr t" "pio 0 (secs 0) m (lb + 1) (ctl 0 0 t)" "ata_kept 0 0 s t"
    "unat (lb + 1) = unat lb + 1"
    using read_command_starts [OF assms(1,5-10) assms(12) [unfolded m] assms(13) assms(14,15) [unfolded m] s0, of "w_env w"] by blast
  have d: "same_disk s t" using t(3) by (simp add: ata_kept_def)
  have i: "ins_state 0 (secs 0) m (lb + 1) t"
    using assms(2,3) t(2) ata0_kept [OF t(3) assms(1)] disk_machine_ports [OF kept_machine [OF t(3)]] kept_page [OF t(3)]
    by (simp add: ins_state_def page_bytes_def)
  obtain u where "read_pages w sz (Suc m) t = Inr (secs 0 @ concat (map (\<lambda>k. secs (Suc k)) [0 ..< m]), u)" "pio_done (ctl 0 0 u)"
    using read_pages_sectors [OF i assms(11), of "\<lambda>k. secs (Suc k)" w] sectors_behind [OF d assms(16) [unfolded m]]
      assms(14) m t(4) disk_sectors_same [OF d] by auto
  then show ?thesis unfolding concat_shift m using io_out_byte [OF assms(4), of w "0x1f7"] write_command_port [OF assms(2), of w val 1] t(1)
    by auto
qed

text \<open>C40. The bytes behind the one the guest wrote count: whatever is left in the I/O page from an earlier access becomes part of the
  value of a one-byte OUT, and the drive, which compares the whole value with its command codes, aborts the command.\<close>

theorem stale_bytes_abort_command:
  assumes "ata0 s" and "disk_ports s" and "pio_get (pio_data s) 0 = Inr val" and "drop_bit 8 val \<noteq> 0" and "val AND 0xf0 \<noteq> 0x10"
    and "\<not> bit (Status (ctl 0 0 s)) 7" and "DisableIrq (ctl 0 0 s) \<noteq> 0"
  shows "\<exists>t. handle_exit w (GVM_EXIT_IO GVM_EXIT_IO_OUT 0x1f7 1 1) s = Inr t \<and> bit (Status (ctl 0 0 t)) 0 \<and>
    \<not> bit (Status (ctl 0 0 t)) 3 \<and> ErrorRegister (ctl 0 0 t) = 4 \<and> CurrentCommand (ctl 0 0 t) = 0"
proof -
  let ?p = "PicLowerIrq s (Irq (AtaChannel s 0))"
  have p: "AtaChannel ?p = AtaChannel s" "ata_kept 0 0 s ?p"
    using pic_only_ata [OF PicLowerIrq_frame [of s "Irq (AtaChannel s 0)"]] ata_kept_pic [OF PicLowerIrq_frame] by simp_all
  then have c: "ctl 0 0 ?p = ctl 0 0 s" by (simp add: ctl_def)
  let ?a = "upd_ctl 0 0 (status 0 IDE_STATUS_ERROR) ?p"
  have d: "dnum 0 ?a = 0" "dnum 0 s = 0" using ata0_dnum [OF ata0_kept [OF p(2) assms(1)]] ata0_dnum [OF assms(1)] by simp_all
  have "val \<noteq> k" if "drop_bit 8 k = 0" for k using assms(4) that by blast
  then have other: "val \<notin> {0x24, 0x29, 0x20, 0x21, 0xC4, 0x42, 0x40, 0x41, 0x34, 0x39, 0x30, 0xC5, 0x90, 0x91, 0xEC, 0xEF, 0xC6, 0xA0, 0xA1,
      0x08, 0xE5, 0xE0, 0xE1, 0xE7, 0xEA, 0x70, 0x25, 0xC8, 0x35, 0xCA, 0x27, 0xF8, 0x10}"
    by (auto simp: drop_bit_eq_div)
  have "HardDiskPortIoWriteHandler (w_env w) 0x1f7 val 1 s = HardDiskCommand (w_env w) 0 0 val ?a"
    using assms(1,5,6) c d by (simp add: HardDiskPortIoWriteHandler_def decode0 Let_def ide_status_defs)
  also have "\<dots> = HardDiskCommandAborted (w_env w) 0 ?a" using other by (simp add: HardDiskCommand_def Let_def)
  finally have "handle_exit w (GVM_EXIT_IO GVM_EXIT_IO_OUT 0x1f7 1 1) s = HardDiskCommandAborted (w_env w) 0 ?a"
    using io_out_byte [OF assms(3), of w "0x1f7"] write_command_port [OF assms(2), of w val 1] by simp
  then show ?thesis using d c assms(7) by (simp add: HardDiskCommandAborted_def HardDiskRaiseInterrupt_def ide_status_defs bit_simps)
qed

text \<open>A machine with a disk image of two sectors and the drive's ports installed; the page holds the command, or a stale byte too.\<close>

definition disk_demo :: "BYTE \<Rightarrow> machine" where
  "disk_demo stale = machine_zero\<lparr>AtaChannel := AtaChannel ata_demo, vhdImage := vhdImage ata_demo,
     PortIoBitmap := RtlInitializeBitMap (replicate 2047 (- 1)) 2047, ReadPortHandlers := (\<lambda>_. Some HardDiskPort),
     WritePortHandlers := (\<lambda>_. Some HardDiskPort), pio_data := (0x1000, (\<lambda>_. 0)(0 := 0x20, 1 := stale))\<rparr>"

lemma disk_demo_simps:
  "ata0 (disk_demo x)" "ctl 0 0 (disk_demo x) = ctl 0 0 ata_demo" "fst (pio_data (disk_demo x)) = 0x1000"
  "pio_get (pio_data (disk_demo x)) 0 = Inr (0x20 OR push_bit 8 (ucast x))"
  "disk_sectors (disk_demo x) = disk_sectors ata_demo" "disk_sector (disk_demo x) = disk_sector ata_demo"
  using ata_demo_simps(1)
  by (simp_all add: disk_demo_def ata0_def drv_def ctl_def pio_get_def upt4 mem_get_def disk_sectors_def VhdGetHardDiskSize_def fun_eq_iff
      disk_sector_def VhdRead_def VhdSeek_def upd_vhd_def Let_def)

lemma disk_demo_ports: "disk_ports (disk_demo x)"
  by (simp add: disk_demo_def disk_ports_def RtlTestBit_eq RtlInitializeBitMap_def bm_valid_def)

theorem guest_reads_sectors_witness:
  "\<exists>t u. handle_exit window_world (GVM_EXIT_IO GVM_EXIT_IO_OUT 0x1f7 1 1) (disk_demo 0) = Inr t \<and>
    read_pages window_world 2 1 t = Inr (replicate 512 2, u)"
proof -
  let ?s = "disk_demo 0"
  have c: "1 = transfer_count False (ctl 0 0 ?s)" "1 = transfer_start False (ctl 0 0 ?s)"
    by (simp_all add: transfer_count_def transfer_start_def ctl_address_def disk_demo_simps ata_demo_simps CONTROLLER_zero_def)
  have p: "pio_get (pio_data ?s) 0 = Inr 0x20" by (simp add: disk_demo_simps)
  have st: "\<not> bit (Status (ctl 0 0 ?s)) 7" "AddressMode (ctl 0 0 ?s) \<noteq> 0" "DisableIrq (ctl 0 0 ?s) \<noteq> 0"
    "Buffer (ctl 0 0 ?s) = Some (replicate 8198 0)" "512 \<le> length (replicate 8198 (0 :: BYTE))"
    by (simp_all add: disk_demo_simps ata_demo_simps)
  have v: "((0x20 :: ULONG), False) \<in> {(0x20, False), (0x21, False), (0x24, True)}" "(2 :: BYTE) \<in> {1, 2, 4}" by simp_all
  have r: "unat (1 :: ULONG64) + 1 \<le> unat (disk_sectors ?s)" "unat (1 :: ULONG64) + 1 < 2 ^ (if False then 48 else 32)"
    by (simp_all add: disk_demo_simps ata_demo_disk)
  have d: "disk_sector ?s (1 + of_nat k) = Inr (replicate 512 2) \<and> length (replicate 512 (2 :: BYTE)) = 512" if "k < 1" for k
    using that by (simp add: disk_demo_simps ata_demo_disk)
  from guest_reads_sectors [OF disk_demo_simps(1) disk_demo_ports disk_demo_simps(3) p st v c r d, of window_world]
  show ?thesis by auto
qed

theorem stale_bytes_abort_command_witness:
  "\<exists>t. handle_exit window_world (GVM_EXIT_IO GVM_EXIT_IO_OUT 0x1f7 1 1) (disk_demo 1) = Inr t \<and> ErrorRegister (ctl 0 0 t) = 4"
proof -
  have p: "pio_get (pio_data (disk_demo 1)) 0 = Inr 0x120" by (simp add: disk_demo_simps)
  have "drop_bit 8 (0x120 :: ULONG) \<noteq> 0" "(0x120 :: ULONG) AND 0xf0 \<noteq> 0x10" by (simp_all add: drop_bit_eq_div)
  moreover have "\<not> bit (Status (ctl 0 0 (disk_demo 1))) 7" "DisableIrq (ctl 0 0 (disk_demo 1)) \<noteq> 0"
    by (simp_all add: disk_demo_simps ata_demo_simps)
  ultimately show ?thesis using stale_bytes_abort_command [OF disk_demo_simps(1) disk_demo_ports p, of window_world] by blast
qed

end
