(* ===== verification/Vga_Mode13.thy ===== *)
theory Vga_Mode13
  imports Vga_Planes
begin

text \<open>
  The 256-colour mode of 320 by 200 pixels (mode 13h): a byte written to the window at 0xA0000 is the pixel that the update of
  the screen fetches, doubled in both directions, and the tile it lies in is redrawn.
\<close>

section \<open>Addresses\<close>

definition mode13_address :: "nat \<Rightarrow> nat \<Rightarrow> nat" where
  "mode13_address x y = (x mod 4) * 65536 + (320 * y + 4 * (x div 4))"

lemma mode13_address_inj:
  assumes "x < 320" "y < 204" "x' < 320" "y' < 204"
  shows "mode13_address x y = mode13_address x' y' \<longleftrightarrow> x = x' \<and> y = y'"
proof
  let ?a = "320 * y + 4 * (x div 4)" and ?b = "320 * y' + 4 * (x' div 4)"
  have le: "4 * (x div 4) \<le> 319" "4 * (x' div 4) \<le> 319" using assms(1,3) by auto
  then have lt: "?a < 65536" "?b < 65536" using assms(2,4) by linarith+
  assume "mode13_address x y = mode13_address x' y'"
  then have eq: "(x mod 4) * 65536 + ?a = (x' mod 4) * 65536 + ?b" by (simp add: mode13_address_def)
  have "x mod 4 = x' mod 4" using arg_cong [OF eq, of "\<lambda>n. n div 65536"] lt by simp
  moreover from this have ab: "?a = ?b" using eq by linarith
  have "y = ?a div 320" "y' = ?b div 320" using le by simp_all
  then have "y = y'" using ab by metis
  moreover have "x div 4 = x' div 4" using ab \<open>y = y'\<close> by linarith
  ultimately show "x = x' \<and> y = y'" by (metis div_mult_mod_eq)
qed simp

lemma mode13_address_less: "x < 320 \<Longrightarrow> y < 204 \<Longrightarrow> mode13_address x y < 0x40000"
proof -
  assume "x < 320" "y < 204"
  then have "(x mod 4) * 65536 \<le> 3 * 65536" "4 * (x div 4) \<le> 319" "320 * y \<le> 320 * 203" by auto
  then show ?thesis unfolding mode13_address_def by linarith
qed

lemma and_not_3: "w AND NOT 0x03 = 4 * (w div 4)" for w :: DWORD
proof -
  have back2: "2 \<le> n \<Longrightarrow> Suc (Suc (n - 2)) = n" for n :: nat by simp
  have 3: "(3 :: DWORD) = mask 2" by (simp add: mask_eq_exp_minus_1)
  have "w AND NOT 0x03 = push_bit 2 (drop_bit 2 w)"
    unfolding 3 by (rule bit_word_eqI) (auto simp: bit_simps not_less back2)
  then show ?thesis by (simp add: push_bit_eq_mult drop_bit_eq_div mult.commute)
qed

lemma unat_DWORD_of: "n < 2 ^ 32 \<Longrightarrow> unat (of_nat n :: DWORD) = n"
  by (simp add: unat_of_nat)

lemma DWORD_div: "n < 2 ^ 32 \<Longrightarrow> of_nat n div of_nat m = (of_nat (n div m) :: DWORD)" if "m < 2 ^ 32"
  using that by (simp add: word_unat_eq_iff unat_div unat_of_nat less_imp_diff_less div_less_dividend le_less_trans [OF div_le_dividend])

lemma DWORD_mod: "n < 2 ^ 32 \<Longrightarrow> of_nat n mod of_nat m = (of_nat (n mod m) :: DWORD)" if "m < 2 ^ 32"
  using that by (simp add: word_unat_eq_iff unat_mod unat_of_nat le_less_trans [OF mod_less_eq_dividend])

lemma chained_mode13:
  assumes "x < 320" "y < 204"
  shows "chained (of_nat (320 * y + x)) = mode13_address x y"
proof -
  let ?o = "320 * y + x"
  have o: "?o < 65536" using assms by linarith
  have "4 * (of_nat ?o div 4) = (of_nat (4 * (?o div 4)) :: DWORD)" using DWORD_div [of 4 ?o] o by simp
  then have "unat (of_nat ?o AND NOT 0x03 :: DWORD) = 4 * (?o div 4)"
    unfolding and_not_3 using o by (simp only: unat_of_nat) simp
  moreover have "unat (of_nat ?o mod 4 :: DWORD) = ?o mod 4" using DWORD_mod [of 4 ?o] o by (simp add: unat_of_nat)
  moreover have "?o = x + 4 * (80 * y)" by simp
  then have "?o mod 4 = x mod 4" "?o div 4 = 80 * y + x div 4" by (simp_all only: mod_mult_self2 div_mult_self2)
  then have "?o mod 4 = x mod 4" "4 * (?o div 4) = 320 * y + 4 * (x div 4)" by simp_all
  ultimately show ?thesis by (simp add: chained_def mode13_address_def)
qed

section \<open>The mode\<close>

definition mode13 :: "VGACORE \<Rightarrow> bool" where
  "mode13 v \<longleftrightarrow> graphics_alpha (graphics_ctrl v) \<and> memory_mapping (graphics_ctrl v) = 1 \<and> chain_four (sequencer v) \<and>
     shift_reg (graphics_ctrl v) = 2 \<and> testw (creg 0x14 v) 0x40 \<and> line_offset v = 320 \<and> y_doublescan v \<and> vga_start_addr v = 0 \<and> 40 \<le> num_x_tiles v \<and> 17 \<le> num_y_tiles v"

text \<open>The pixel at a place of the 640 by 400 screen, as the double-word case of the update fetches it.\<close>

definition mode13_pixel :: "VGACORE \<Rightarrow> nat \<Rightarrow> nat \<Rightarrow> BYTE res" where
  "mode13_pixel v px py = byte_pixel (\<lambda>x. x AND NOT 0x03) 0 v (of_nat px) (of_nat py)"

lemma mode13_pixel_eq:
  assumes "VGACORE_ok v" "mode13 v" "px < 640" "py < 408"
  shows "mode13_pixel v px py = Inr (snd (vga_memory v) (mode13_address (px div 2) (py div 2)))"
proof -
  let ?x = "px div 2" and ?y = "py div 2"
  have xy: "?x < 320" "?y < 204" using assms(3,4) by auto
  have d: "drop_bit 1 (of_nat px) = (of_nat ?x :: DWORD)" "drop_bit 1 (of_nat py) = (of_nat ?y :: DWORD)"
    using DWORD_div [of 2 px] DWORD_div [of 2 py] assms(3,4) by (simp_all add: drop_bit_eq_div)
  have m: "(of_nat ?x mod 4 :: DWORD) = of_nat (?x mod 4)" "(of_nat ?x div 4 :: DWORD) = of_nat (?x div 4)"
    using DWORD_mod [of 4 ?x] DWORD_div [of 4 ?x] xy by simp_all
  have "(of_nat ?x mod 4) * 65536 + of_nat ?y * 320 + (of_nat ?x AND NOT 0x03) = (of_nat (mode13_address ?x ?y) :: DWORD)"
    unfolding and_not_3 m mode13_address_def by (simp add: mult.commute)
  moreover have lt: "mode13_address ?x ?y < 0x40000" by (rule mode13_address_less [OF xy])
  ultimately have "unat ((of_nat ?x mod 4) * 65536 + of_nat ?y * 320 + (of_nat ?x AND NOT 0x03) :: DWORD) = mode13_address ?x ?y"
    by (simp only: unat_DWORD_of) (simp add: unat_of_nat)
  then show ?thesis using assms(1,2) lt
    by (simp add: mode13_pixel_def byte_pixel_def d [simplified] Let_def mode13_def mem_get_in VGACORE_ok_def)
qed

lemma mode13_draws:
  "mode13 (VgaCore s) \<Longrightarrow> draw_graphics toggle w h s = draw_tiles False (byte_pixel (\<lambda>x. x AND NOT 0x03) 0) w h s"
  by (simp add: mode13_def draw_graphics_def Let_def)

text \<open>The tile of a written pixel, in the arithmetic of the write and in that of the update.\<close>

lemma mode13_tile:
  assumes "x < 320" "y < 200"
  shows "(of_nat (320 * y + x) mod 320) div (X_TILESIZE div 2) = (of_nat (2 * x div 16) :: DWORD)"
    "of_nat (320 * y + x) div 320 div (Y_TILESIZE div 2) = (of_nat (2 * y div 24) :: DWORD)"
proof -
  let ?o = "320 * y + x"
  have o: "?o < 2 ^ 32" using assms by simp
  have "?o mod 320 = x" "?o div 320 = y" using assms(1) by simp_all
  then have w: "of_nat ?o mod 320 = (of_nat x :: DWORD)" "of_nat ?o div 320 = (of_nat y :: DWORD)"
    using DWORD_mod [of 320 ?o] DWORD_div [of 320 ?o] o by (simp_all only: of_nat_numeral) simp_all
  show "(of_nat ?o mod 320) div (X_TILESIZE div 2) = (of_nat (2 * x div 16) :: DWORD)"
    unfolding w X_TILESIZE_def using DWORD_div [of 8 x] assms(1) by simp
  show "of_nat ?o div 320 div (Y_TILESIZE div 2) = (of_nat (2 * y div 24) :: DWORD)"
    unfolding w Y_TILESIZE_def using DWORD_div [of 12 y] assms(2) by simp
qed

lemma get_set_tile:
  "xt < ucast (num_x_tiles v) \<Longrightarrow> yt < ucast (num_y_tiles v) \<Longrightarrow> GET_TILE_UPDATED xt yt (SET_TILE_UPDATED xt yt True v)"
  by (simp add: GET_TILE_UPDATED_def SET_TILE_UPDATED_def)

lemma mode13_frame [simp]:
  "mode13 (SET_TILE_UPDATED xt yt b v) = mode13 v" "mode13 (v\<lparr>vga_memory := m, vga_mem_updated := u\<rparr>) = mode13 v"
  "vga_memory (SET_TILE_UPDATED xt yt b v) = vga_memory v"
  by (simp_all add: mode13_def SET_TILE_UPDATED_def vga_start_addr_def creg_def)

lemma mode13_in_tiles:
  assumes "mode13 v" "x < 320" "y < 200"
  shows "(of_nat (2 * x div 16) :: DWORD) < ucast (num_x_tiles v)" "(of_nat (2 * y div 24) :: DWORD) < ucast (num_y_tiles v)"
proof -
  have b: "2 * x div 16 < 40" "2 * y div 24 < 17" using assms(2,3) by auto
  have uc: "unat (ucast c :: DWORD) = unat c" for c :: USHORT
    using unsigned_less [of c, where 'a = nat] by (simp add: unat_ucast_mod)
  have n: "40 \<le> unat (num_x_tiles v)" "17 \<le> unat (num_y_tiles v)" using assms(1) by (simp_all add: mode13_def word_le_nat_alt)
  have "unat (of_nat (2 * x div 16) :: DWORD) = 2 * x div 16" by (rule unat_DWORD_of) (use b in simp)
  moreover have "unat (of_nat (2 * y div 24) :: DWORD) = 2 * y div 24" by (rule unat_DWORD_of) (use b in simp)
  ultimately show "(of_nat (2 * x div 16) :: DWORD) < ucast (num_x_tiles v)" "(of_nat (2 * y div 24) :: DWORD) < ucast (num_y_tiles v)"
    using b n by (simp_all add: word_less_nat_alt uc)
qed

lemma mode13_write:
  assumes ok: "vga_ok s" and m: "mode13 (VgaCore s)" and xy: "x < 320" "y < 200"
  shows "VgaCoreMMIOWriteHandler (0xA0000 + of_nat (320 * y + x)) [b] 1 s =
    Inr (s\<lparr>VgaCore := SET_TILE_UPDATED (of_nat (2 * x div 16)) (of_nat (2 * y div 24)) True ((VgaCore s)\<lparr>
      vga_memory := (0x40000, (snd (vga_memory (VgaCore s)))(mode13_address x y := b)), vga_mem_updated := True\<rparr>)\<rparr>)"
proof -
  let ?v = "VgaCore s" and ?o = "of_nat (320 * y + x) :: DWORD"
  have o: "unat ?o = 320 * y + x" by (rule unat_DWORD_of) (use xy in simp)
  have u: "unat (0xA0000 + ?o) = 0xA0000 + (320 * y + x)" using o xy by (simp add: unat_word_ariths)
  then have "write_offset (0xA0000 + ?o) ?v = Some ?o" using m xy by (simp add: write_offset_def mode13_def word_less_nat_alt)
  moreover have "chained ?o = mode13_address x y" by (rule chained_mode13) (use xy in simp_all)
  moreover have "mode13_address x y < 0x40000" by (rule mode13_address_less) (use xy in simp_all)
  moreover have "(?o mod 320) div (X_TILESIZE div 2) = of_nat (2 * x div 16)" "?o div 320 div (Y_TILESIZE div 2) = of_nat (2 * y div 24)"
    by (rule mode13_tile [OF xy])+
  moreover have "fst (vga_memory ?v) = 0x40000" using vga_okD(1) [OF ok] by (simp add: VGACORE_ok_def)
  moreover have "vga_start_addr (v\<lparr>vga_memory := k\<rparr>) = vga_start_addr v" for v k by (simp add: vga_start_addr_def creg_def)
  ultimately show ?thesis unfolding mmio_write_byte using m
    by (simp add: vga_mem_write_def mode13_def chained_write_def set_vmem_in y_tile_def Let_def)
qed

text \<open>C6. A pixel written is the pixel shown: in mode 13h a byte that the guest writes to the video memory at 0xA0000 + 320 y + x is the
  colour that the screen update, which draws with this pixel function, fetches for the four places (2x, 2y) to (2x + 1, 2y + 1) of the
  640 by 400 screen; all other places keep their colours, the tile that holds the four places is marked for drawing, and the adapter stays well-formed.\<close>

theorem mode13_write_shown:
  assumes "vga_ok s" and "mode13 (VgaCore s)" and "x < 320" and "y < 200"
  shows "\<exists>s'. VgaCoreMMIOWriteHandler (0xA0000 + of_nat (320 * y + x)) [b] 1 s = Inr s' \<and> vga_ok s' \<and> mode13 (VgaCore s') \<and>
    (\<forall>px < 640. \<forall>py < 400. mode13_pixel (VgaCore s') px py =
       (if px div 2 = x \<and> py div 2 = y then Inr b else mode13_pixel (VgaCore s) px py)) \<and>
    (\<forall>toggle w h. draw_graphics toggle w h s' = draw_tiles False (\<lambda>v px py. byte_pixel (\<lambda>x. x AND NOT 0x03) 0 v px py) w h s') \<and>
    vga_mem_updated (VgaCore s') \<and> GET_TILE_UPDATED (of_nat (2 * x div 16)) (of_nat (2 * y div 24)) (VgaCore s')"
proof -
  let ?m = "(VgaCore s)\<lparr>vga_memory := (0x40000, (snd (vga_memory (VgaCore s)))(mode13_address x y := b)), vga_mem_updated := True\<rparr>"
  let ?v = "SET_TILE_UPDATED (of_nat (2 * x div 16)) (of_nat (2 * y div 24)) True ?m"
  have ok: "VGACORE_ok (VgaCore s)" by (rule vga_okD [OF assms(1)])
  have okm: "VGACORE_ok ?m" using vga_memory_ok [OF ok] by simp
  have m: "mode13 ?m" using assms(2) by simp
  have "mode13_pixel ?v px py = (if px div 2 = x \<and> py div 2 = y then Inr b else mode13_pixel (VgaCore s) px py)"
    if "px < 640" "py < 400" for px py
  proof -
    have "mode13_address (px div 2) (py div 2) = mode13_address x y \<longleftrightarrow> px div 2 = x \<and> py div 2 = y"
      by (rule mode13_address_inj) (use that assms(3,4) in auto)
    then show ?thesis using mode13_pixel_eq [of ?v px py] mode13_pixel_eq [of "VgaCore s" px py] ok okm m assms(2) that by simp
  qed
  moreover have "GET_TILE_UPDATED (of_nat (2 * x div 16)) (of_nat (2 * y div 24)) ?v"
    by (rule get_set_tile) (use mode13_in_tiles [OF m assms(3,4)] in simp_all)
  moreover have "vga_mem_updated ?v" by (simp add: SET_TILE_UPDATED_def)
  moreover have "vga_ok (s\<lparr>VgaCore := ?v\<rparr>)" using okm vga_okD(2) [OF assms(1)] by simp
  ultimately show ?thesis using mode13_write [OF assms, of b] m mode13_draws [of "s\<lparr>VgaCore := ?v\<rparr>"] by (intro exI [of _ "s\<lparr>VgaCore := ?v\<rparr>"]) simp
qed

text \<open>The adapter in mode 13h.\<close>

definition mode13_demo :: vga_state where
  "mode13_demo = upd_vga (\<lambda>v. v\<lparr>graphics_ctrl := (graphics_ctrl v)\<lparr>graphics_alpha := True, memory_mapping := 1, shift_reg := 2\<rparr>,
     sequencer := (sequencer v)\<lparr>chain_four := True\<rparr>, line_offset := 320, y_doublescan := True,
     CRTC := (CRTC v)\<lparr>crtc_reg := (replicate 0x19 0)[0x14 := 0x40]\<rparr>\<rparr>) vga_demo"

lemma mode13_demo_ok: "vga_ok mode13_demo"
  using vga_okD [OF vga_demo_ok] by (simp add: mode13_demo_def VGACORE_ok_def)

lemma mode13_demo_mode: "mode13 (VgaCore mode13_demo)"
  by (simp add: mode13_def mode13_demo_def vga_demo_def num_tiles_def vga_reset_def VGACORE_zero_def vga_start_addr_def creg_def b2w_def testw_def)

theorem mode13_write_shown_witness:
  "\<exists>s'. VgaCoreMMIOWriteHandler 0xA0C8A [7] 1 mode13_demo = Inr s' \<and> mode13_pixel (VgaCore s') 21 20 = Inr 7"
  using mode13_write_shown [OF mode13_demo_ok mode13_demo_mode, of 10 10 7] by fastforce

end
