(* ===== verification/Spec2Isabelle.thy ===== *)
theory Spec2Isabelle
  imports Machine_Disk Vga_Mode13
begin

text \<open>
  A verification development for SVMM, a user-space virtual machine monitor for Windows (\<open>src/SVMM\<close>).

  \<^bold>\<open>The program.\<close> \<open>main\<close> of \<open>SVMM.c\<close> allocates the memory of the guest, creates the virtual machine through the GVM driver
  (\<open>gvm.c\<close>), initialises the devices and then loops: it lets the driver run the virtual processor until it exits, and acts on the
  reason of the exit. Port and memory-mapped accesses go through two tables of handlers (\<open>pci.c\<close>) to the devices; a timer exit
  advances the software timers (\<open>timer.c\<close>), whose handlers are again device functions; devices raise interrupt lines
  (\<open>pic.c\<close>, \<open>ioapic.c\<close>, \<open>apic.c\<close>), and when the driver reports an open interrupt window the pending vector is
  injected. Keys come from the window thread (\<open>win32gui.c\<close>), pixels go to it (\<open>gui.c\<close>).

  \<^bold>\<open>The model.\<close> The integers of C are machine words of their widths, so additions, shifts and casts wrap as in the source. The
  global variables are the fields of one state record, which every theory extends by the variables of its file; an operation
  maps a state to an outcome: a new state (with a value) or an error. \<open>Exit\<close> is a call of \<open>exit(-1)\<close>, the other errors
  are undefined behaviours: an access outside an array, a null call, a division by zero, an oversized shift, a loop without end.
  Function pointers are names (\<open>port_dev\<close>, \<open>mmio_dev\<close>, \<open>pci_dev\<close>, \<open>timer_fn\<close>) that \<open>Machine\<close> runs. What is not
  computed by the program is an argument: \<open>env\<close> (the answers of the driver and the operating system to the logged
  requests), the registers and exits the driver reports, the calendar of the C library (\<open>clib\<close>), host files, the value a
  function without \<open>return\<close> leaves in a register, the speed of the window thread, the connection to the debugger; \<open>world\<close> collects them.

  \<^bold>\<open>The theories.\<close>
  \<^item> \<open>Svmm_Prelude\<close>: integer types, outcomes, the specification \<open>specE E P m\<close> (the outcome is an error of \<open>E\<close> or a result
    with \<open>P\<close>; with no errors it says that the code returns), shared facts on words, lists and loops.
  \<^item> \<open>Bitmap\<close> (\<open>bitmap.c\<close>), \<open>Timer\<close> (\<open>timer.c\<close>), \<open>Gvm\<close> (\<open>gvm.c\<close>: memory slots, creation), \<open>Io_Bus\<close> and \<open>Pci\<close>
    (\<open>pci.c\<close>: handler tables, configuration space). Locales state what the users of these tables rely on
    (\<open>bit_registry\<close>, \<open>timer_service\<close>, \<open>handler_table\<close>); they are interpreted on the code's operations.
  \<^item> \<open>Intr_State\<close>, \<open>Apic\<close> (\<open>apic.c\<close>), \<open>IoApic\<close> (\<open>ioapic.c\<close>), \<open>Pic\<close> (\<open>pic.c\<close>): acknowledge and end-of-interrupt cycles,
    invariants of the reachable states, delivery of a raised line; the locale \<open>irq_line\<close> is what the devices use of it.
  \<^item> \<open>Pit\<close> (\<open>pit.c\<close>), \<open>Cmos\<close> (\<open>cmos.c\<close>), \<open>Hpet\<close> (\<open>hpet.c\<close>), \<open>Dma\<close> (\<open>dma.c\<close>), \<open>Scancodes\<close> and \<open>Ps2\<close> (\<open>scancodes.c\<close>,
    \<open>ps2.c\<close>), \<open>Legacy_Ports\<close> (\<open>bios.c\<close>, \<open>serial.c\<close>, \<open>parallel.c\<close>), \<open>Flash\<close> (\<open>flash.c\<close>), \<open>I440fx\<close>, \<open>Piix3\<close>, \<open>Acpi\<close>: the
    devices. Each has a well-formedness invariant that every access keeps, and the main function of the device: the calendar
    round trip of the clock, queues of the keyboard as instances of the locale \<open>fifo\<close>, the scancode translation, the
    movement of ports by a base address register, the termination of the catch-up loop of the event timer.
  \<^item> \<open>Kvm_Types\<close>, \<open>Cpu\<close>, \<open>Cpu_Regs\<close> (\<open>SVMM.c\<close>, \<open>gvm.c\<close>): address translation against the architecture's page walk and the
    memory map of the driver, register transfer, reset state, ROM files.
  \<^item> \<open>Vhd\<close> (\<open>vhd.c\<close>; the UUIDs, the copy of the footer and the region list, which nothing reads, are omitted), \<open>Cdrom\<close> (\<open>cdrom.c\<close>),
    \<open>Ata\<close>, \<open>Ata_Atapi\<close>, \<open>Ata_Ports\<close> (\<open>harddisk.c\<close>), \<open>Ide_Regs\<close>, \<open>Ide\<close> (\<open>ide.c\<close>), \<open>Ata_Read\<close>: the disk image round trip and
    that READ SECTORS delivers the sectors of the image.
  \<^item> \<open>Gui_Keys\<close>, \<open>Gui_Screen\<close> (\<open>win32gui.c\<close>, \<open>gui.c\<close>): the path of a key to the guest, the text screen and the tiles as a list of
    drawing operations.
  \<^item> \<open>Vga_Regs\<close>, \<open>Vga_Ports\<close>, \<open>Vga_Mem\<close>, \<open>Vga_Update\<close> (\<open>vgacore.c\<close>, \<open>vga.c\<close>); \<open>Vga_Safe\<close>: the invariant of the adapter under all port
    accesses; \<open>Vga_Planes\<close>: planar writes against a bitwise reference; \<open>Vga_Mode13\<close>: the pixel written is the pixel shown.
  \<^item> \<open>Dbg_Server\<close> (\<open>SvmmDbgServer.c\<close>): packets, requests and the loop of the debugger's server, which ends because every request
    takes a header from the stream; \<open>Dbg_Protocol\<close>: what is sent is received, and a read request returns the memory.
  \<^item> \<open>Machine\<close> (\<open>SVMM.c\<close>): the callbacks, the exits, the main loop and the start; \<open>Machine_Cycle\<close>: from a raised line to the
    injected vector; \<open>Machine_Disk\<close>: from a REP INS of the guest to the bytes of the disk image.

  \<^bold>\<open>Loops.\<close> Loops over arrays are folds over index lists. \<open>slot_search\<close>, \<open>mmio_fill\<close>, \<open>PicService\<close>, \<open>key_loop\<close> and
  \<open>SvmmDbgLoop\<close> are recursive functions with a measure (the size of the interval, the rest of the range, the state of line 2, the
  number of queued events, the bytes in the stream).
  The catch-up loop of the event timer and the rows of a text screen may run for ever in C: they are partial functions with
  the outcome \<open>Hang\<close>, and the theorems that they end have the conditions under which they do. No fuel is used.

  \<^bold>\<open>Not modelled.\<close> The window procedures, the tool and status bars, the fonts of the window and the Windows GDI (input and output of
  the host); the mouse beyond its queue, since \<open>enq_mouse_event\<close> returns at once; \<open>windbg.c\<close>, the stub of the Windows
  kernel debugger, which is called only in the branch for HAXM; \<open>haxm.c\<close>, the back end that the build does not select; \<open>sparse.c\<close>, whose calls are commented out; \<open>gvm_types.h\<close> beyond the structures that are used; the
  printing of registers and messages; \<open>VgaUpdate\<close>, which nothing calls.

  \<^bold>\<open>Limits.\<close> \<open>main_init\<close> follows the source into \<open>FlashInitialize\<close>, whose registration of the flash window writes behind the bitmap of
  the memory-mapped pages, so in this model, where that is an error, the start does not reach the loop; the
  properties of the loop are stated for every state with the stated invariants instead. The interleaving of the window thread
  with the main loop is not modelled: a key event is put into the ring between two steps of the loop.
\<close>

end
